(* ===== verification/Gateway_Prelude.thy ===== *)
theory Gateway_Prelude
  imports Main "HOL-Library.Word" "HOL-Library.AList" "HOL-Library.Multiset"
begin

text \<open>
  Prelude of the gateway library: the machine integers of the Rust code (\<open>u32\<close>, \<open>i64\<close>,
  \<open>u64\<close> with their saturating and wrapping operations), the two renderings of
  \<^verbatim>\<open>HashMap\<close> the components use (a partial function, and an association list where
  the size or an iteration matters), list rotation, and the theorem collections the component
  proofs are driven by.
\<close>

named_theorems gw_defs \<open>definitions of guards and small helpers that proofs unfold\<close>
named_theorems frame_simps \<open>fields that an operation leaves unchanged\<close>

section \<open>Machine integers\<close>

type_synonym i64 = int
type_synonym u64 = "64 word"

abbreviation i64_max :: int where "i64_max \<equiv> 2 ^ 63 - 1"
abbreviation i64_min :: int where "i64_min \<equiv> - (2 ^ 63)"
abbreviation u32_max :: nat where "u32_max \<equiv> 4294967295"

text \<open>
  An \<open>i64\<close> is an \<^typ>\<open>int\<close>; the release build wraps on \<^verbatim>\<open>+\<close> and clips on
  \<^verbatim>\<open>saturating_sub\<close>. \<open>in_i64\<close> is the range in which neither happens.
\<close>

definition in_i64 :: "int \<Rightarrow> bool" where
  "in_i64 x \<longleftrightarrow> i64_min \<le> x \<and> x \<le> i64_max"

definition i64_wrap :: "int \<Rightarrow> int" where
  "i64_wrap x = (x + 2 ^ 63) mod 2 ^ 64 - 2 ^ 63"

definition i64_sat :: "int \<Rightarrow> int" where
  "i64_sat x = max i64_min (min i64_max x)"

definition i64_add :: "int \<Rightarrow> int \<Rightarrow> int" where
  "i64_add a b = i64_wrap (a + b)"

definition i64_sub :: "int \<Rightarrow> int \<Rightarrow> int" where
  "i64_sub a b = i64_wrap (a - b)"

definition i64_sat_sub :: "int \<Rightarrow> int \<Rightarrow> int" where
  "i64_sat_sub a b = i64_sat (a - b)"

definition i64_sat_mul :: "int \<Rightarrow> int \<Rightarrow> int" where
  "i64_sat_mul a b = i64_sat (a * b)"

lemma i64_wrap_id: "in_i64 x \<Longrightarrow> i64_wrap x = x"
  by (simp add: i64_wrap_def in_i64_def)

lemma i64_sat_id: "in_i64 x \<Longrightarrow> i64_sat x = x"
  by (simp add: i64_sat_def in_i64_def)

lemma i64_add_exact: "in_i64 (a + b) \<Longrightarrow> i64_add a b = a + b"
  by (simp add: i64_add_def i64_wrap_id)

lemma i64_sat_sub_exact: "in_i64 (a - b) \<Longrightarrow> i64_sat_sub a b = a - b"
  by (simp add: i64_sat_sub_def i64_sat_id)

lemma i64_sat_sub_less_iff:
  "i64_min < c \<Longrightarrow> c \<le> i64_max \<Longrightarrow> i64_sat_sub a b < c \<longleftrightarrow> a - b < c"
  by (auto simp: i64_sat_sub_def i64_sat_def)

lemma i64_sat_sub_greater_iff:
  "i64_min \<le> c \<Longrightarrow> c < i64_max \<Longrightarrow> c < i64_sat_sub a b \<longleftrightarrow> c < a - b"
  by (auto simp: i64_sat_sub_def i64_sat_def)

text \<open>\<open>u32\<close> counters are naturals with the saturation of \<^verbatim>\<open>saturating_add\<close> written out.\<close>

definition u32_sat_add :: "nat \<Rightarrow> nat \<Rightarrow> nat" where
  "u32_sat_add a b = min u32_max (a + b)"

lemma u32_sat_add_le [simp]: "u32_sat_add a b \<le> u32_max"
  by (simp add: u32_sat_add_def)

lemma u32_sat_add_pos: "0 < b \<Longrightarrow> 0 < u32_sat_add a b"
  by (simp add: u32_sat_add_def)

lemma u32_sat_add_mono: "a \<le> u32_max \<Longrightarrow> a \<le> u32_sat_add a b"
  by (simp add: u32_sat_add_def)

section \<open>Hash maps as partial functions\<close>

definition retain :: "('k \<Rightarrow> 'v \<Rightarrow> bool) \<Rightarrow> ('k \<rightharpoonup> 'v) \<Rightarrow> ('k \<rightharpoonup> 'v)" where
  "retain P m = (\<lambda>k. case m k of None \<Rightarrow> None | Some v \<Rightarrow> if P k v then Some v else None)"

definition hm_remove :: "'k \<Rightarrow> ('k \<rightharpoonup> 'v) \<Rightarrow> ('k \<rightharpoonup> 'v)" where
  "hm_remove k m = m(k := None)"

lemma retain_Some_iff [simp]: "retain P m k = Some v \<longleftrightarrow> m k = Some v \<and> P k v"
  by (auto simp: retain_def split: option.splits)

lemma retain_None_iff: "retain P m k = None \<longleftrightarrow> m k = None \<or> (\<exists>v. m k = Some v \<and> \<not> P k v)"
  by (auto simp: retain_def split: option.splits)

lemma retain_empty [simp]: "retain P (\<lambda>_. None) = (\<lambda>_. None)"
  by (simp add: retain_def)

lemma retain_dom: "dom (retain P m) \<subseteq> dom m"
  by (auto simp: dom_def)

lemma retain_submap: "retain P m \<subseteq>\<^sub>m m"
  by (auto simp: map_le_def dom_def)

lemma hm_remove_simps [simp]:
  "hm_remove k m k = None" "k' \<noteq> k \<Longrightarrow> hm_remove k m k' = m k'"
  by (simp_all add: hm_remove_def)

lemma hm_remove_apply: "hm_remove k m k' = (if k' = k then None else m k')"
  by (simp add: hm_remove_def)

lemma dom_hm_remove: "dom (hm_remove k m) = dom m - {k}"
  by (auto simp: hm_remove_def)

section \<open>Hash maps as association lists\<close>

text \<open>
  Where the code asks for \<^verbatim>\<open>len()\<close> or iterates, the map is a list of pairs with
  distinct keys; \<^verbatim>\<open>insert\<close> and \<^verbatim>\<open>remove\<close> are \<open>AList.update\<close> and
  \<open>AList.delete\<close>, and \<^verbatim>\<open>retain\<close> is \<open>filter\<close>.
\<close>

definition hm_wf :: "('k \<times> 'v) list \<Rightarrow> bool" where
  "hm_wf m \<longleftrightarrow> distinct (map fst m)"

definition hm_retain :: "('k \<Rightarrow> 'v \<Rightarrow> bool) \<Rightarrow> ('k \<times> 'v) list \<Rightarrow> ('k \<times> 'v) list" where
  "hm_retain P m = filter (\<lambda>(k, v). P k v) m"

lemma hm_wf_Nil [simp]: "hm_wf []"
  by (simp add: hm_wf_def)

lemma hm_wf_update [simp]: "hm_wf m \<Longrightarrow> hm_wf (AList.update k v m)"
  by (simp add: hm_wf_def distinct_update)

lemma hm_wf_delete [simp]: "hm_wf m \<Longrightarrow> hm_wf (AList.delete k m)"
  by (simp add: hm_wf_def distinct_delete)

lemma hm_wf_retain [simp]: "hm_wf m \<Longrightarrow> hm_wf (hm_retain P m)"
  by (induction m) (auto simp: hm_wf_def hm_retain_def)

lemma map_of_hm_retain:
  "hm_wf m \<Longrightarrow> map_of (hm_retain P m) k
     = (case map_of m k of None \<Rightarrow> None | Some v \<Rightarrow> if P k v then Some v else None)"
  by (induction m)
    (auto simp: hm_wf_def hm_retain_def dom_map_of_conv_image_fst rev_image_eqI
      split: option.splits dest: map_of_SomeD)

lemma length_hm_retain_le: "length (hm_retain P m) \<le> length m"
  by (simp add: hm_retain_def)

lemma length_delete_less:
  "map_of m k \<noteq> None \<Longrightarrow> length (AList.delete k m) < length m"
proof -
  assume "map_of m k \<noteq> None"
  then obtain v where "(k, v) \<in> set m" by (auto dest: map_of_SomeD)
  then show ?thesis
    unfolding AList.delete_eq by (intro length_filter_less [where x = "(k, v)"]) auto
qed

lemma length_delete_wf:
  "hm_wf m \<Longrightarrow> map_of m k \<noteq> None \<Longrightarrow> length (AList.delete k m) = length m - 1"
proof (induction m)
  case (Cons p m)
  show ?case
  proof (cases "fst p = k")
    case True
    with Cons.prems have "k \<notin> fst ` set m" by (auto simp: hm_wf_def)
    then have "AList.delete k m = m" by (force simp: AList.delete_eq filter_id_conv)
    with True show ?thesis by (cases p) simp
  next
    case False
    with Cons have "length (AList.delete k m) = length m - 1" and "m \<noteq> []"
      by (cases p; auto simp: hm_wf_def)+
    with False show ?thesis by (cases p; cases m) auto
  qed
qed simp

section \<open>Lists\<close>

definition rotate_left :: "nat \<Rightarrow> 'a list \<Rightarrow> 'a list" where
  "rotate_left n xs = drop n xs @ take n xs"

lemma rotate_left_0 [simp]: "rotate_left 0 xs = xs"
  by (simp add: rotate_left_def)

lemma length_rotate_left [simp]: "length (rotate_left n xs) = length xs"
  by (simp add: rotate_left_def)

lemma set_rotate_left [simp]: "set (rotate_left n xs) = set xs"
  by (metis rotate_left_def append_take_drop_id set_append sup_commute)

lemma rotate_left_nth_0: "n < length xs \<Longrightarrow> rotate_left n xs ! 0 = xs ! n"
  by (simp add: rotate_left_def nth_append)

lemma rotate_left_hd: "n < length xs \<Longrightarrow> hd (rotate_left n xs) = xs ! n"
  by (simp add: rotate_left_def hd_append hd_drop_conv_nth)

lemma mset_rotate [simp]: "mset (rotate n xs) = mset xs"
proof (induction n)
  case (Suc n)
  then show ?case by (cases "rotate n xs") (simp_all add: rotate_def)
qed simp

lemma mset_rotate_left [simp]: "mset (rotate_left n xs) = mset xs"
  by (metis rotate_left_def append_take_drop_id mset_append add.commute)

lemma rotate_left_rotate: "n < length xs \<Longrightarrow> rotate_left n xs = rotate n xs"
  by (simp add: rotate_left_def rotate_drop_take)

text \<open>\<^verbatim>\<open>slice.swap(i, j)\<close>.\<close>

definition swap_list :: "nat \<Rightarrow> nat \<Rightarrow> 'a list \<Rightarrow> 'a list" where
  "swap_list i j xs = xs[i := xs ! j, j := xs ! i]"

lemma length_swap_list [simp]: "length (swap_list i j xs) = length xs"
  by (simp add: swap_list_def)

lemma mset_swap_list [simp]: "i < length xs \<Longrightarrow> j < length xs \<Longrightarrow> mset (swap_list i j xs) = mset xs"
  by (simp add: swap_list_def mset_swap)

text \<open>\<^verbatim>\<open>iter().position(p)\<close>.\<close>

fun position :: "('a \<Rightarrow> bool) \<Rightarrow> 'a list \<Rightarrow> nat option" where
  "position P [] = None"
| "position P (x # xs) = (if P x then Some 0 else map_option Suc (position P xs))"

lemma position_None_iff: "position P xs = None \<longleftrightarrow> (\<forall>x \<in> set xs. \<not> P x)"
  by (induction xs) auto

lemma position_SomeD:
  "position P xs = Some i \<Longrightarrow> i < length xs \<and> P (xs ! i) \<and> (\<forall>j < i. \<not> P (xs ! j))"
proof (induction xs arbitrary: i)
  case (Cons x xs)
  show ?case
  proof (cases "P x")
    case False
    with Cons.prems obtain k where k: "position P xs = Some k" "i = Suc k" by auto
    have "\<not> P ((x # xs) ! j)" if "j < i" for j
      using that k(2) Cons.IH [OF k(1)] False by (cases j) auto
    with k Cons.IH [OF k(1)] show ?thesis by auto
  qed (use Cons.prems in auto)
qed simp

end
