(* ===== verification/Rust_Text.thy ===== *)
theory Rust_Text
  imports Gateway_Prelude "HOL-Library.Char_ord" "HOL-Library.List_Lexorder"
begin

text \<open>
  The \<^verbatim>\<open>str\<close> operations of the Rust standard library that the gateway uses. A Rust
  string is its UTF-8 bytes, one \<^typ>\<open>char\<close> per byte; \<open>trim\<close> removes the white space of
  the Unicode property \<^verbatim>\<open>White_Space\<close>, whose code points have one, two or three
  bytes. The order of strings is the byte order.
\<close>

type_synonym str = string

section \<open>White space\<close>

definition ws1 :: "char \<Rightarrow> bool" where
  "ws1 c \<longleftrightarrow> (of_char c :: nat) \<in> set [9, 10, 11, 12, 13, 32]"

definition ws2 :: "char \<Rightarrow> char \<Rightarrow> bool" where
  "ws2 c d \<longleftrightarrow> (of_char c :: nat) = 0xC2 \<and> (of_char d :: nat) \<in> set [0x85, 0xA0]"

definition ws3 :: "char \<Rightarrow> char \<Rightarrow> char \<Rightarrow> bool" where
  "ws3 c d e \<longleftrightarrow>
     (let c = of_char c; d = of_char d; e = (of_char e :: nat) in
      (c = 0xE1 \<and> d = 0x9A \<and> e = 0x80)
      \<or> (c = 0xE2 \<and> d = 0x80 \<and> (0x80 \<le> e \<and> e \<le> 0x8A \<or> e = 0xA8 \<or> e = 0xA9 \<or> e = 0xAF))
      \<or> (c = (0xE2 :: nat) \<and> d = (0x81 :: nat) \<and> e = 0x9F)
      \<or> (c = 0xE3 \<and> d = 0x80 \<and> e = 0x80))"

fun trim_start :: "str \<Rightarrow> str" where
  "trim_start (c # d # e # s) =
     (if ws1 c then trim_start (d # e # s)
      else if ws2 c d then trim_start (e # s)
      else if ws3 c d e then trim_start s
      else c # d # e # s)"
| "trim_start [c, d] = (if ws1 c then trim_start [d] else if ws2 c d then [] else [c, d])"
| "trim_start [c] = (if ws1 c then [] else [c])"
| "trim_start [] = []"

text \<open>The same from the end, on the reversed bytes.\<close>

fun trim_rev :: "str \<Rightarrow> str" where
  "trim_rev (c # d # e # s) =
     (if ws1 c then trim_rev (d # e # s)
      else if ws2 d c then trim_rev (e # s)
      else if ws3 e d c then trim_rev s
      else c # d # e # s)"
| "trim_rev [c, d] = (if ws1 c then trim_rev [d] else if ws2 d c then [] else [c, d])"
| "trim_rev [c] = (if ws1 c then [] else [c])"
| "trim_rev [] = []"

definition trim :: "str \<Rightarrow> str" where
  "trim s = rev (trim_rev (rev (trim_start s)))"

fun leads_ws :: "str \<Rightarrow> bool" where
  "leads_ws (c # d # e # s) \<longleftrightarrow> ws1 c \<or> ws2 c d \<or> ws3 c d e"
| "leads_ws (c # d # s) \<longleftrightarrow> ws1 c \<or> ws2 c d"
| "leads_ws (c # s) \<longleftrightarrow> ws1 c"
| "leads_ws [] \<longleftrightarrow> False"

lemma trim_start_no_ws: "\<not> leads_ws s \<Longrightarrow> trim_start s = s"
  by (cases s rule: leads_ws.cases) simp_all

lemma not_leads_ws_trim_start: "\<not> leads_ws (trim_start s)"
  by (induction s rule: trim_start.induct) simp_all

lemma leads_ws_prefix: "leads_ws p \<Longrightarrow> leads_ws (p @ s)"
proof (cases p rule: leads_ws.cases)
  case (2 c d)
  then show "leads_ws p \<Longrightarrow> ?thesis" by (cases s) auto
next
  case (3 c)
  then show "leads_ws p \<Longrightarrow> ?thesis" by (cases s rule: leads_ws.cases) auto
qed auto

lemma trim_rev_suffix: "\<exists>p. p @ trim_rev s = s"
proof (induction s rule: trim_rev.induct)
  case (1 c d e s)
  consider "ws1 c" | "\<not> ws1 c" "ws2 d c" | "\<not> ws1 c" "\<not> ws2 d c" "ws3 e d c"
    | "\<not> ws1 c" "\<not> ws2 d c" "\<not> ws3 e d c" by blast
  then show ?case
  proof cases
    case 1
    with "1.IH" (1) obtain p where "p @ trim_rev (d # e # s) = d # e # s" by blast
    with 1 have "(c # p) @ trim_rev (c # d # e # s) = c # d # e # s" by simp
    then show ?thesis by blast
  next
    case 2
    with "1.IH" (2) obtain p where "p @ trim_rev (e # s) = e # s" by blast
    with 2 have "(c # d # p) @ trim_rev (c # d # e # s) = c # d # e # s" by simp
    then show ?thesis by blast
  next
    case 3
    with "1.IH" (3) obtain p where "p @ trim_rev s = s" by blast
    with 3 have "(c # d # e # p) @ trim_rev (c # d # e # s) = c # d # e # s" by simp
    then show ?thesis by blast
  next
    case 4
    then have "[] @ trim_rev (c # d # e # s) = c # d # e # s" by simp
    then show ?thesis by blast
  qed
qed (auto intro: exI [of _ "[_]"] exI [of _ "[_, _]"])

lemma trim_rev_idem [simp]: "trim_rev (trim_rev s) = trim_rev s"
  by (induction s rule: trim_rev.induct) simp_all

lemma trim_idem [simp]: "trim (trim s) = trim s"
proof -
  obtain p where "p @ trim_rev (rev (trim_start s)) = rev (trim_start s)"
    using trim_rev_suffix by blast
  then have "trim s @ rev p = trim_start s"
    unfolding trim_def by (metis rev_append rev_rev_ident)
  then have "\<not> leads_ws (trim s)"
    using leads_ws_prefix not_leads_ws_trim_start by metis
  then have "trim_start (trim s) = trim s" by (rule trim_start_no_ws)
  then show ?thesis unfolding trim_def by simp
qed

lemma trim_Nil [simp]: "trim [] = []"
  by (simp add: trim_def)

section \<open>Case, search, prefixes\<close>

definition ascii_lower :: "char \<Rightarrow> char" where
  "ascii_lower c =
     (if 65 \<le> (of_char c :: nat) \<and> (of_char c :: nat) \<le> 90
      then char_of ((of_char c :: nat) + 32) else c)"

definition to_ascii_lowercase :: "str \<Rightarrow> str" where
  "to_ascii_lowercase s = map ascii_lower s"

definition eq_ignore_ascii_case :: "str \<Rightarrow> str \<Rightarrow> bool" where
  "eq_ignore_ascii_case a b \<longleftrightarrow> to_ascii_lowercase a = to_ascii_lowercase b"

lemma ascii_lower_idem [simp]: "ascii_lower (ascii_lower c) = ascii_lower c"
  by (simp add: ascii_lower_def)

lemma to_ascii_lowercase_idem [simp]:
  "to_ascii_lowercase (to_ascii_lowercase s) = to_ascii_lowercase s"
  by (simp add: to_ascii_lowercase_def)

fun str_starts_with :: "str \<Rightarrow> str \<Rightarrow> bool" where
  "str_starts_with s [] = True"
| "str_starts_with [] (p # ps) = False"
| "str_starts_with (c # s) (p # ps) = (c = p \<and> str_starts_with s ps)"

definition str_ends_with :: "str \<Rightarrow> str \<Rightarrow> bool" where
  "str_ends_with s p = str_starts_with (rev s) (rev p)"

fun str_contains :: "str \<Rightarrow> str \<Rightarrow> bool" where
  "str_contains [] p = (p = [])"
| "str_contains (c # s) p = (str_starts_with (c # s) p \<or> str_contains s p)"

definition strip_prefix :: "str \<Rightarrow> str \<Rightarrow> str option" where
  "strip_prefix s p = (if str_starts_with s p then Some (drop (length p) s) else None)"

definition strip_suffix :: "str \<Rightarrow> str \<Rightarrow> str option" where
  "strip_suffix s p = (if str_ends_with s p then Some (take (length s - length p) s) else None)"

lemma str_starts_with_iff: "str_starts_with s p \<longleftrightarrow> (\<exists>t. s = p @ t)"
  by (induction s p rule: str_starts_with.induct) auto

lemma str_contains_iff: "str_contains s p \<longleftrightarrow> (\<exists>u v. s = u @ p @ v)"
proof (induction s)
  case (Cons c s)
  have "(\<exists>u v. c # s = u @ p @ v) \<longleftrightarrow> (\<exists>v. c # s = p @ v) \<or> (\<exists>u v. s = u @ p @ v)"
    by (metis (no_types, opaque_lifting) append.left_neutral append_Cons append_eq_Cons_conv)
  with Cons show ?case by (simp add: str_starts_with_iff)
qed simp

lemma str_contains_infix [simp]: "str_contains (u @ p @ v) p"
  by (auto simp: str_contains_iff)

lemma str_contains_append1: "str_contains s p \<Longrightarrow> str_contains (s @ t) p"
  by (auto simp: str_contains_iff) (metis append.assoc)

lemma str_ends_with_iff: "str_ends_with s p \<longleftrightarrow> (\<exists>t. s = t @ p)"
  by (auto simp: str_ends_with_def str_starts_with_iff)
    (metis rev_append rev_rev_ident)

text \<open>\<^verbatim>\<open>str::trim_end_matches(c)\<close> for a character.\<close>

definition trim_end_matches :: "char \<Rightarrow> str \<Rightarrow> str" where
  "trim_end_matches c s = rev (dropWhile (\<lambda>x. x = c) (rev s))"

text \<open>\<^verbatim>\<open>opt.map(str::trim).filter(|v| !v.is_empty())\<close>, the idiom of the whole code base.\<close>

definition trimmed_nonempty :: "str option \<Rightarrow> str option" where
  "trimmed_nonempty v =
     (case v of None \<Rightarrow> None | Some s \<Rightarrow> if trim s = [] then None else Some (trim s))"

lemma trimmed_nonempty_None [simp]: "trimmed_nonempty None = None"
  by (simp add: trimmed_nonempty_def)

lemma trimmed_nonempty_SomeD:
  "trimmed_nonempty v = Some t \<Longrightarrow> t \<noteq> [] \<and> trim t = t"
  by (auto simp: trimmed_nonempty_def split: option.splits if_splits)

lemma trimmed_nonempty_idem [simp]:
  "trimmed_nonempty (trimmed_nonempty v) = trimmed_nonempty v"
  by (auto simp: trimmed_nonempty_def split: option.splits)

definition is_some :: "'a option \<Rightarrow> bool" where
  "is_some v \<longleftrightarrow> v \<noteq> None"

lemma is_some_simps [simp]: "is_some (Some x)" "\<not> is_some None"
  by (simp_all add: is_some_def)

definition or_else :: "'a option \<Rightarrow> 'a option \<Rightarrow> 'a option" where
  "or_else a b = (case a of None \<Rightarrow> b | Some x \<Rightarrow> Some x)"

lemma or_else_simps [simp]: "or_else (Some x) b = Some x" "or_else None b = b"
  by (simp_all add: or_else_def)

definition unwrap_or :: "'a option \<Rightarrow> 'a \<Rightarrow> 'a" where
  "unwrap_or a d = (case a of None \<Rightarrow> d | Some x \<Rightarrow> x)"

lemma unwrap_or_simps [simp]: "unwrap_or (Some x) d = x" "unwrap_or None d = d"
  by (simp_all add: unwrap_or_def)

section \<open>Decimal numbers\<close>

definition digit_char :: "nat \<Rightarrow> char" where
  "digit_char d = char_of (48 + d)"

definition is_ascii_digit :: "char \<Rightarrow> bool" where
  "is_ascii_digit c \<longleftrightarrow> 48 \<le> (of_char c :: nat) \<and> (of_char c :: nat) \<le> 57"

definition digit_val :: "char \<Rightarrow> nat" where
  "digit_val c = of_char c - 48"

fun dec :: "nat \<Rightarrow> str" where
  "dec n = (if n < 10 then [digit_char n] else dec (n div 10) @ [digit_char (n mod 10)])"

declare dec.simps [simp del]

definition dec_int :: "int \<Rightarrow> str" where
  "dec_int i = (if i < 0 then CHR ''-'' # dec (nat (- i)) else dec (nat i))"

definition digits_value :: "str \<Rightarrow> nat" where
  "digits_value ds = foldl (\<lambda>n c. 10 * n + digit_val c) 0 ds"

text \<open>
  \<^verbatim>\<open>str::parse\<close> at an unsigned type with the given maximum: an optional plus sign, one
  or more digits, and no overflow.
\<close>

definition parse_digits :: "nat \<Rightarrow> str \<Rightarrow> nat option" where
  "parse_digits m ds =
     (if ds \<noteq> [] \<and> list_all is_ascii_digit ds \<and> digits_value ds \<le> m
      then Some (digits_value ds) else None)"

definition parse_unsigned :: "nat \<Rightarrow> str \<Rightarrow> nat option" where
  "parse_unsigned m s =
     (case s of [] \<Rightarrow> None
      | c # t \<Rightarrow> if c = CHR ''+'' then parse_digits m t else parse_digits m s)"

abbreviation u16_max :: nat where "u16_max \<equiv> 65535"
abbreviation usize_max :: nat where "usize_max \<equiv> 2 ^ 64 - 1"

lemma digit_char_props:
  assumes "d < 10"
  shows "is_ascii_digit (digit_char d)" "digit_val (digit_char d) = d"
  using assms by (simp_all add: is_ascii_digit_def digit_val_def digit_char_def)

lemma dec_digits: "list_all is_ascii_digit (dec n) \<and> dec n \<noteq> []"
proof (induction n rule: dec.induct)
  case (1 n)
  then show ?case by (subst (1 2) dec.simps) (auto simp: digit_char_props)
qed

lemma digits_value_dec: "digits_value (dec n) = n"
proof (induction n rule: dec.induct)
  case (1 n)
  show ?case
  proof (cases "n < 10")
    case True
    then show ?thesis by (subst dec.simps) (simp add: digits_value_def digit_char_props)
  next
    case False
    then have "digits_value (dec n) = 10 * digits_value (dec (n div 10)) + n mod 10"
      by (subst dec.simps) (simp add: digits_value_def digit_char_props)
    with 1 False show ?thesis by simp
  qed
qed

lemma parse_unsigned_dec:
  assumes "n \<le> m"
  shows "parse_unsigned m (dec n) = Some n"
proof -
  obtain c t where ct: "dec n = c # t" using dec_digits [of n] by (cases "dec n") auto
  then have "is_ascii_digit c" using dec_digits [of n] by simp
  then have "c \<noteq> CHR ''+''" by (auto simp: is_ascii_digit_def)
  then have "parse_unsigned m (dec n) = parse_digits m (dec n)"
    by (simp add: parse_unsigned_def ct)
  then show ?thesis using dec_digits [of n] digits_value_dec [of n] assms
    by (simp add: parse_digits_def)
qed

section \<open>Lists of texts\<close>

fun join :: "str \<Rightarrow> str list \<Rightarrow> str" where
  "join sep [] = []"
| "join sep [s] = s"
| "join sep (s # t # ss) = s @ sep @ join sep (t # ss)"

definition any_contains :: "str \<Rightarrow> str list \<Rightarrow> bool" where
  "any_contains s ps \<longleftrightarrow> list_ex (str_contains s) ps"

lemma any_contains_iff: "any_contains s ps \<longleftrightarrow> (\<exists>p \<in> set ps. str_contains s p)"
  by (simp add: any_contains_def list_ex_iff)

section \<open>Splitting\<close>

text \<open>\<^verbatim>\<open>str::split(c)\<close>: one piece more than there are separators.\<close>

fun split_on :: "char \<Rightarrow> str \<Rightarrow> str list" where
  "split_on sep [] = [[]]"
| "split_on sep (c # s) =
     (if c = sep then [] # split_on sep s
      else (case split_on sep s of [] \<Rightarrow> [[c]] | p # ps \<Rightarrow> (c # p) # ps))"

text \<open>\<^verbatim>\<open>str::split_once(p)\<close> at the first occurrence, \<^verbatim>\<open>rsplit_once\<close> at the last.\<close>

fun split_once :: "str \<Rightarrow> str \<Rightarrow> (str \<times> str) option" where
  "split_once p [] = (if p = [] then Some ([], []) else None)"
| "split_once p (c # s) =
     (if str_starts_with (c # s) p then Some ([], drop (length p) (c # s))
      else map_option (\<lambda>(a, b). (c # a, b)) (split_once p s))"

definition rsplit_once :: "str \<Rightarrow> str \<Rightarrow> (str \<times> str) option" where
  "rsplit_once p s = map_option (\<lambda>(a, b). (rev b, rev a)) (split_once (rev p) (rev s))"

lemma split_on_no_sep: "x \<in> set (split_on sep s) \<Longrightarrow> sep \<notin> set x"
  by (induction s arbitrary: x) (auto split: if_splits list.splits)

lemma split_on_nonempty [simp]: "split_on sep s \<noteq> []"
  by (cases s) (auto split: list.splits)

lemma split_once_SomeD: "split_once p s = Some (a, b) \<Longrightarrow> s = a @ p @ b"
proof (induction s arbitrary: a b)
  case (Cons c s)
  then show ?case by (auto simp: str_starts_with_iff split: if_splits)
qed (auto split: if_splits)

lemma rsplit_once_SomeD: "rsplit_once p s = Some (a, b) \<Longrightarrow> s = a @ p @ b"
  by (auto simp: rsplit_once_def dest!: split_once_SomeD)
    (metis append.assoc rev_append rev_rev_ident)

lemma split_once_single_None: "split_once [c] s = None \<longleftrightarrow> c \<notin> set s"
  by (induction s) auto

lemma split_once_single: "c \<notin> set a \<Longrightarrow> split_once [c] (a @ c # b) = Some (a, b)"
  by (induction a) auto

lemma rsplit_once_single: "c \<notin> set b \<Longrightarrow> rsplit_once [c] (a @ c # b) = Some (a, b)"
  by (simp add: rsplit_once_def split_once_single)

section \<open>UTF-8\<close>

definition cont_byte :: "char \<Rightarrow> bool" where
  "cont_byte c \<longleftrightarrow> 0x80 \<le> (of_char c :: nat) \<and> (of_char c :: nat) \<le> 0xBF"

definition byte_in :: "nat \<Rightarrow> nat \<Rightarrow> char \<Rightarrow> bool" where
  "byte_in lo hi c \<longleftrightarrow> lo \<le> of_char c \<and> of_char c \<le> hi"

text \<open>The number of bytes of the scalar value a string starts with, 0 for malformed input.\<close>

definition utf8_step :: "str \<Rightarrow> nat" where
  "utf8_step s =
     (case s of [] \<Rightarrow> 0 | a # r \<Rightarrow>
       if byte_in 0 0x7F a then 1 else
       (case r of [] \<Rightarrow> 0 | b # r2 \<Rightarrow>
         if byte_in 0xC2 0xDF a then (if cont_byte b then 2 else 0) else
         (case r2 of [] \<Rightarrow> 0 | c # r3 \<Rightarrow>
           if byte_in 0xE0 0xEF a then
             (if cont_byte c \<and>
                 (if byte_in 0xE0 0xE0 a then byte_in 0xA0 0xBF b
                  else if byte_in 0xED 0xED a then byte_in 0x80 0x9F b
                  else cont_byte b) then 3 else 0)
           else
           (case r3 of [] \<Rightarrow> 0 | d # _ \<Rightarrow>
             if byte_in 0xF0 0xF4 a \<and> cont_byte c \<and> cont_byte d \<and>
                (if byte_in 0xF0 0xF0 a then byte_in 0x90 0xBF b
                 else if byte_in 0xF4 0xF4 a then byte_in 0x80 0x8F b
                 else cont_byte b) then 4 else 0))))"

function utf8_valid :: "str \<Rightarrow> bool" where
  "utf8_valid s =
     (if s = [] then True else if utf8_step s = 0 then False
      else utf8_valid (drop (utf8_step s) s))"
  by pat_completeness auto
termination
  by (relation "measure length") auto

declare utf8_valid.simps [simp del]

text \<open>\<^verbatim>\<open>str::from_utf8(bytes).ok()\<close>.\<close>

definition from_utf8 :: "str \<Rightarrow> str option" where
  "from_utf8 s = (if utf8_valid s then Some s else None)"

definition is_ascii :: "str \<Rightarrow> bool" where
  "is_ascii s \<longleftrightarrow> list_all (\<lambda>c. (of_char c :: nat) < 128) s"

definition is_ascii_alphabetic :: "char \<Rightarrow> bool" where
  "is_ascii_alphabetic c \<longleftrightarrow> byte_in 65 90 c \<or> byte_in 97 122 c"

end
