(* ===== verification/Expiring_Table.thy ===== *)
theory Expiring_Table
  imports Gateway_Prelude
begin

text \<open>
  The interface the gateway's in-memory tables share: a keyed table whose entries stop counting
  at some time, and a lazy cleanup that an operation runs before it uses the table. The laws
  say that a cleanup drops only entries that no longer count and adds none; the facts proved
  here are what a reader of the table may rely on. The cooldown table, the route quality table
  and the request gate table are instances.
\<close>

locale expiring_table =
  fixes look :: "'s \<Rightarrow> 'k \<Rightarrow> 'v option"
    and live :: "'s \<Rightarrow> int \<Rightarrow> 'k \<Rightarrow> 'v \<Rightarrow> bool"
    and cleanup :: "'s \<Rightarrow> int \<Rightarrow> 's"
  assumes cleanup_keeps: "look s k = Some v \<Longrightarrow> live s now k v \<Longrightarrow> look (cleanup s now) k = Some v"
    and cleanup_subset: "look (cleanup s now) k = Some v \<Longrightarrow> look s k = Some v"
    and live_cleanup: "live (cleanup s t) now k v = live s now k v"
begin

definition observe :: "'s \<Rightarrow> int \<Rightarrow> 'k \<Rightarrow> 'v option" where
  "observe s now k = (case look s k of None \<Rightarrow> None | Some v \<Rightarrow> if live s now k v then Some v else None)"

lemma observe_cleanup: "observe (cleanup s now) now k = observe s now k"
proof (cases "look (cleanup s now) k")
  case None
  then have "\<not> live s now k v" if "look s k = Some v" for v
    using that cleanup_keeps [of s k v now] by auto
  with None show ?thesis by (auto simp: observe_def split: option.splits)
next
  case (Some v)
  with cleanup_subset have "look s k = Some v" by blast
  with Some show ?thesis by (simp add: observe_def live_cleanup)
qed

lemma cleanup_dom: "{k. look (cleanup s now) k \<noteq> None} \<subseteq> {k. look s k \<noteq> None}"
proof
  fix k assume "k \<in> {k. look (cleanup s now) k \<noteq> None}"
  then obtain v where "look (cleanup s now) k = Some v" by blast
  then have "look s k = Some v" by (rule cleanup_subset)
  then show "k \<in> {k. look s k \<noteq> None}" by simp
qed

end

text \<open>
  Where an entry that has expired stays expired, a cleanup may also run at any earlier time
  without a reader noticing.
\<close>

locale monotone_expiry = expiring_table +
  assumes live_antimono: "live s later k v \<Longrightarrow> now \<le> later \<Longrightarrow> live s now k v"
begin

lemma observe_cleanup_earlier:
  assumes "now \<le> later"
  shows "observe (cleanup s now) later k = observe s later k"
proof (cases "look (cleanup s now) k")
  case None
  then have "\<not> live s now k v" if "look s k = Some v" for v
    using that cleanup_keeps [of s k v now] by auto
  then have "\<not> live s later k v" if "look s k = Some v" for v
    using that live_antimono [of s later k v now] assms by blast
  with None show ?thesis by (auto simp: observe_def split: option.splits)
next
  case (Some v)
  with cleanup_subset have "look s k = Some v" by blast
  with Some show ?thesis by (simp add: observe_def live_cleanup)
qed

text \<open>Any number of cleanups at times up to the read.\<close>

lemma observe_cleanups:
  "\<forall>t \<in> set ts. t \<le> later \<Longrightarrow> observe (foldl cleanup s ts) later k = observe s later k"
  by (induction ts arbitrary: s) (auto simp: observe_cleanup_earlier)

end

end
