(* ===== verification/Cooldown.thy ===== *)
theory Cooldown
  imports Rust_Text Expiring_Table
begin

text \<open>
  \<^verbatim>\<open>gateway/routing/cooldown.rs\<close>: the table of accounts that are not to be tried until a
  time, with the rate limit offenses that lengthen it. The state is the code's
  \<^verbatim>\<open>AccountCooldownState\<close> and the counter \<^verbatim>\<open>record_gateway_cooldown_mark\<close>
  adds to; every operation takes the time \<^verbatim>\<open>now_ts()\<close> it reads.
\<close>

datatype cooldown_reason =
    CdDefault | CdNetwork | CdRateLimited | CdUpstream5xx | CdUpstream4xx | CdChallenge
  | CdAnthropicChallenge

record cooldown_state =
  cd_entries :: "str \<rightharpoonup> i64"
  cd_counts :: "str \<rightharpoonup> nat"
  cd_last_at :: "str \<rightharpoonup> i64"
  cd_last_cleanup :: i64
  cd_mark_total :: u64

definition empty_cooldown :: cooldown_state where
  "empty_cooldown = \<lparr>cd_entries = Map.empty, cd_counts = Map.empty, cd_last_at = Map.empty,
     cd_last_cleanup = 0, cd_mark_total = 0\<rparr>"

abbreviation rate_limit_ladder :: "int list" where
  "rate_limit_ladder \<equiv> [45, 300, 1800, 7200]"

abbreviation offense_forget_after :: int where "offense_forget_after \<equiv> 1800"
abbreviation cooldown_cleanup_interval :: int where "cooldown_cleanup_interval \<equiv> 30"

section \<open>Operations\<close>

fun cooldown_secs_for_reason :: "cooldown_reason \<Rightarrow> int" where
  "cooldown_secs_for_reason CdDefault = 20"
| "cooldown_secs_for_reason CdNetwork = 20"
| "cooldown_secs_for_reason CdRateLimited = 45"
| "cooldown_secs_for_reason CdUpstream5xx = 30"
| "cooldown_secs_for_reason CdUpstream4xx = 20"
| "cooldown_secs_for_reason CdChallenge = 6"
| "cooldown_secs_for_reason CdAnthropicChallenge = 60"

definition rate_limit_cooldown_secs_for_offense :: "nat \<Rightarrow> int" where
  "rate_limit_cooldown_secs_for_offense n =
     rate_limit_ladder ! min (n - 1) (length rate_limit_ladder - 1)"

text \<open>
  The code hands the two maps over mutably; here they come back with the seconds. The count is
  read before it is increased, so a forgotten count starts again at 1.
\<close>

definition cooldown_secs_for_mark ::
    "(str \<rightharpoonup> nat) \<Rightarrow> (str \<rightharpoonup> i64) \<Rightarrow> str \<Rightarrow> cooldown_reason \<Rightarrow> i64
      \<Rightarrow> i64 \<times> (str \<rightharpoonup> nat) \<times> (str \<rightharpoonup> i64)" where
  "cooldown_secs_for_mark counts last_at a reason now =
     (case reason of
        CdRateLimited \<Rightarrow>
          (let counts1 = (case last_at a of
                            Some t \<Rightarrow> if offense_forget_after < i64_sat_sub now t
                                      then hm_remove a counts else counts
                          | None \<Rightarrow> counts);
               n = (case counts1 a of Some c \<Rightarrow> u32_sat_add c 1 | None \<Rightarrow> 1)
           in (rate_limit_cooldown_secs_for_offense n, counts1(a \<mapsto> n), last_at(a \<mapsto> now)))
      | _ \<Rightarrow> (cooldown_secs_for_reason reason, counts, last_at))"

definition decay_offense_count_for_success ::
    "(str \<rightharpoonup> nat) \<Rightarrow> (str \<rightharpoonup> i64) \<Rightarrow> str \<Rightarrow> (str \<rightharpoonup> nat) \<times> (str \<rightharpoonup> i64)" where
  "decay_offense_count_for_success counts last_at a =
     (case counts a of
        None \<Rightarrow> (counts, last_at)
      | Some c \<Rightarrow> if c \<le> 1 then (hm_remove a counts, hm_remove a last_at)
                  else (counts(a \<mapsto> c - 1), last_at))"

definition cooldown_reason_for_status :: "nat \<Rightarrow> cooldown_reason" where
  "cooldown_reason_for_status status =
     (if status = 429 then CdRateLimited
      else if 500 \<le> status \<and> status \<le> 599 then CdUpstream5xx
      else if status = 401 \<or> status = 403 then CdChallenge
      else if 400 \<le> status \<and> status \<le> 499 then CdUpstream4xx
      else CdDefault)"

definition is_account_in_cooldown :: "str \<Rightarrow> i64 \<Rightarrow> cooldown_state \<Rightarrow> bool \<times> cooldown_state" where
  "is_account_in_cooldown a now s =
     (case cd_entries s a of
        Some until \<Rightarrow> if now < until then (True, s)
                      else (False, s\<lparr>cd_entries := hm_remove a (cd_entries s)\<rparr>)
      | None \<Rightarrow> (False, s))"

definition stale_offense :: "i64 \<Rightarrow> cooldown_state \<Rightarrow> str \<Rightarrow> bool" where
  "stale_offense now s a =
     (case cd_last_at s a of None \<Rightarrow> False | Some t \<Rightarrow> offense_forget_after < i64_sat_sub now t)"

definition maybe_cleanup_expired_cooldowns :: "cooldown_state \<Rightarrow> i64 \<Rightarrow> cooldown_state" where
  "maybe_cleanup_expired_cooldowns s now =
     (if cd_last_cleanup s \<noteq> 0 \<and> i64_sat_sub now (cd_last_cleanup s) < cooldown_cleanup_interval
      then s
      else s\<lparr>cd_last_cleanup := now,
             cd_entries := retain (\<lambda>_ until. now < until) (cd_entries s),
             cd_last_at := retain (\<lambda>a _. \<not> stale_offense now s a) (cd_last_at s),
             cd_counts := retain (\<lambda>a _. \<not> stale_offense now s a) (cd_counts s)\<rparr>)"

definition mark_account_cooldown :: "str \<Rightarrow> cooldown_reason \<Rightarrow> i64 \<Rightarrow> cooldown_state \<Rightarrow> cooldown_state" where
  "mark_account_cooldown a reason now s0 =
     (let s = maybe_cleanup_expired_cooldowns (s0\<lparr>cd_mark_total := cd_mark_total s0 + 1\<rparr>) now;
          (secs, counts, last_at) = cooldown_secs_for_mark (cd_counts s) (cd_last_at s) a reason now;
          cooldown_until = i64_add now secs;
          entries = (case cd_entries s a of
                       Some until \<Rightarrow> if until < cooldown_until
                                     then (cd_entries s)(a \<mapsto> cooldown_until) else cd_entries s
                     | None \<Rightarrow> (cd_entries s)(a \<mapsto> cooldown_until))
      in s\<lparr>cd_entries := entries, cd_counts := counts, cd_last_at := last_at\<rparr>)"

definition mark_account_cooldown_for_status :: "str \<Rightarrow> nat \<Rightarrow> i64 \<Rightarrow> cooldown_state \<Rightarrow> cooldown_state" where
  "mark_account_cooldown_for_status a status now s =
     mark_account_cooldown a (cooldown_reason_for_status status) now s"

definition clear_account_cooldown :: "str \<Rightarrow> cooldown_state \<Rightarrow> cooldown_state" where
  "clear_account_cooldown a s =
     (let (counts, last_at) = decay_offense_count_for_success (cd_counts s) (cd_last_at s) a
      in s\<lparr>cd_entries := hm_remove a (cd_entries s), cd_counts := counts, cd_last_at := last_at\<rparr>)"

definition clear_cooldown_runtime_state :: "cooldown_state \<Rightarrow> cooldown_state" where
  "clear_cooldown_runtime_state s =
     s\<lparr>cd_entries := Map.empty, cd_counts := Map.empty, cd_last_at := Map.empty,
        cd_last_cleanup := 0\<rparr>"

section \<open>The table as an expiring table\<close>

lemma cleanup_entries:
  "cd_entries (maybe_cleanup_expired_cooldowns s now) a = Some u \<Longrightarrow> cd_entries s a = Some u"
  "cd_entries s a = Some u \<Longrightarrow> now < u
     \<Longrightarrow> cd_entries (maybe_cleanup_expired_cooldowns s now) a = Some u"
  by (auto simp: maybe_cleanup_expired_cooldowns_def split: if_splits)

interpretation cd: monotone_expiry cd_entries "\<lambda>_ now _ until. now < until"
    maybe_cleanup_expired_cooldowns
  by unfold_locales (auto dest: cleanup_entries)

lemma in_cooldown_iff: "fst (is_account_in_cooldown a now s) \<longleftrightarrow> cd.observe s now a \<noteq> None"
  by (auto simp: is_account_in_cooldown_def cd.observe_def split: option.splits)

text \<open>A read at or after the time of a cleanup does not see it.\<close>

lemma in_cooldown_cleanup:
  "now \<le> t \<Longrightarrow> fst (is_account_in_cooldown a t (maybe_cleanup_expired_cooldowns s now))
     = fst (is_account_in_cooldown a t s)"
  by (simp add: in_cooldown_iff cd.observe_cleanup_earlier)

lemma in_cooldown_read:
  "fst (is_account_in_cooldown a t (snd (is_account_in_cooldown b now s)))
     = fst (is_account_in_cooldown a t s)" if "now \<le> t"
  using that
  by (auto simp: is_account_in_cooldown_def hm_remove_apply split: option.splits)

section \<open>Seconds and offenses\<close>

lemma reason_secs_bounds: "6 \<le> cooldown_secs_for_reason r \<and> cooldown_secs_for_reason r \<le> 60"
  by (cases r) simp_all

lemma offense_secs_cases:
  "rate_limit_cooldown_secs_for_offense n =
     (if n \<le> 1 then 45 else if n = 2 then 300 else if n = 3 then 1800 else 7200)"
proof -
  have "min (n - 1) 3 = 3" if "\<not> n \<le> 1" "n \<noteq> 2" "n \<noteq> 3" using that by simp
  then show ?thesis by (auto simp: rate_limit_cooldown_secs_for_offense_def numeral_eq_Suc)
qed

lemma offense_secs_bounds:
  "45 \<le> rate_limit_cooldown_secs_for_offense n \<and> rate_limit_cooldown_secs_for_offense n \<le> 7200"
  by (simp add: offense_secs_cases)

text \<open>The seconds of a mark do not depend on a cleanup before it.\<close>

definition mark_secs :: "str \<Rightarrow> cooldown_reason \<Rightarrow> i64 \<Rightarrow> cooldown_state \<Rightarrow> int" where
  "mark_secs a r now s = fst (cooldown_secs_for_mark (cd_counts s) (cd_last_at s) a r now)"

lemma mark_secs_bounds: "6 \<le> mark_secs a r now s \<and> mark_secs a r now s \<le> 7200"
proof (cases "r = CdRateLimited")
  case True
  then show ?thesis
    by (simp add: mark_secs_def cooldown_secs_for_mark_def Let_def offense_secs_bounds
        order_trans [OF _ conjunct1 [OF offense_secs_bounds]])
next
  case False
  then have "mark_secs a r now s = cooldown_secs_for_reason r"
    by (cases r) (auto simp: mark_secs_def cooldown_secs_for_mark_def)
  then show ?thesis using reason_secs_bounds [of r] by simp
qed

lemma mark_secs_cleanup: "mark_secs a r now (maybe_cleanup_expired_cooldowns s now) = mark_secs a r now s"
  by (cases r) (auto simp: mark_secs_def cooldown_secs_for_mark_def maybe_cleanup_expired_cooldowns_def
      stale_offense_def retain_def Let_def hm_remove_apply split: option.splits)

section \<open>Marks\<close>

lemma cleanup_mark_total:
  "cd_entries (maybe_cleanup_expired_cooldowns (s\<lparr>cd_mark_total := n\<rparr>) now)
     = cd_entries (maybe_cleanup_expired_cooldowns s now)"
  "mark_secs a r now (maybe_cleanup_expired_cooldowns (s\<lparr>cd_mark_total := n\<rparr>) now)
     = mark_secs a r now s"
proof -
  show "cd_entries (maybe_cleanup_expired_cooldowns (s\<lparr>cd_mark_total := n\<rparr>) now)
     = cd_entries (maybe_cleanup_expired_cooldowns s now)"
    by (simp add: maybe_cleanup_expired_cooldowns_def)
  show "mark_secs a r now (maybe_cleanup_expired_cooldowns (s\<lparr>cd_mark_total := n\<rparr>) now)
     = mark_secs a r now s"
    unfolding mark_secs_cleanup by (simp add: mark_secs_def)
qed

lemma mark_entries:
  "cd_entries (mark_account_cooldown a r now s) =
     (let e = cd_entries (maybe_cleanup_expired_cooldowns s now);
          u = i64_add now (mark_secs a r now s)
      in e(a \<mapsto> (case e a of Some v \<Rightarrow> max v u | None \<Rightarrow> u)))"
proof -
  define c where "c = maybe_cleanup_expired_cooldowns (s\<lparr>cd_mark_total := cd_mark_total s + 1\<rparr>) now"
  have secs: "fst (cooldown_secs_for_mark (cd_counts c) (cd_last_at c) a r now) = mark_secs a r now s"
    unfolding c_def mark_secs_def [symmetric] by (rule cleanup_mark_total)
  have e: "cd_entries c = cd_entries (maybe_cleanup_expired_cooldowns s now)"
    unfolding c_def by (rule cleanup_mark_total)
  show ?thesis
    unfolding mark_account_cooldown_def c_def [symmetric] Let_def e [symmetric] secs [symmetric]
    by (auto simp: max_def fun_upd_idem split: prod.splits option.splits)
qed

lemma mark_exact:
  assumes "in_i64 (now + 7200)" "in_i64 now" "now \<le> t"
  shows "fst (is_account_in_cooldown b t (mark_account_cooldown a r now s)) =
     (if b = a then t < now + mark_secs a r now s \<or> fst (is_account_in_cooldown a t s)
      else fst (is_account_in_cooldown b t s))"
proof -
  let ?c = "maybe_cleanup_expired_cooldowns s now"
  have "in_i64 (now + mark_secs a r now s)"
    using assms (1,2) mark_secs_bounds [of a r now s] by (simp add: in_i64_def)
  then have u: "i64_add now (mark_secs a r now s) = now + mark_secs a r now s"
    by (rule i64_add_exact)
  have "fst (is_account_in_cooldown b t (mark_account_cooldown a r now s)) =
     (if b = a then t < now + mark_secs a r now s \<or> fst (is_account_in_cooldown a t ?c)
      else fst (is_account_in_cooldown b t ?c))"
    by (auto simp: is_account_in_cooldown_def mark_entries u Let_def split: option.splits)
  then show ?thesis using in_cooldown_cleanup [OF assms (3)] by simp
qed

lemma mark_account_cooldown_free:
  "in_i64 (now + 7200) \<Longrightarrow> in_i64 now \<Longrightarrow> now \<le> t
     \<Longrightarrow> \<not> fst (is_account_in_cooldown a t (mark_account_cooldown a r now s))
     \<Longrightarrow> \<not> t < now + mark_secs a r now s"
  by (simp add: mark_exact)

text \<open>
  Marking an account cooled down is exact. At every later time the account is in cooldown
  until the end of the new period or of the one it was in already, whichever is later, so a
  mark with a shorter reason never cuts a running cooldown; every other account answers as it
  did before, although the mark may have cleaned the table up.
\<close>

theorem mark_account_cooldown_exact:
  assumes "in_i64 (now + 7200)" "in_i64 now" "now \<le> t"
  shows "fst (is_account_in_cooldown b t (mark_account_cooldown a r now s)) =
     (if b = a then t < now + mark_secs a r now s \<or> fst (is_account_in_cooldown a t s)
      else fst (is_account_in_cooldown b t s))"
  using assms by (rule mark_exact)

theorem mark_account_cooldown_exact_witness:
  "fst (is_account_in_cooldown ''a'' 1040
     (mark_account_cooldown ''a'' CdRateLimited 1000 empty_cooldown)) =
   (if ''a'' = ''a'' then 1040 < 1000 + mark_secs ''a'' CdRateLimited 1000 empty_cooldown
      \<or> fst (is_account_in_cooldown ''a'' 1040 empty_cooldown)
    else fst (is_account_in_cooldown ''a'' 1040 empty_cooldown))
   \<and> mark_secs ''a'' CdRateLimited 1000 empty_cooldown = 45"
  using mark_account_cooldown_exact [of 1000 1040 "''a''" "''a''" CdRateLimited empty_cooldown]
  by (simp add: in_i64_def mark_secs_def cooldown_secs_for_mark_def empty_cooldown_def offense_secs_cases)

section \<open>Invariant\<close>

text \<open>
  The two offense maps have the same accounts, a recorded count is a positive \<open>u32\<close>, and
  no cooldown ends more than the longest ladder step after \<open>T\<close>, a bound on the times of the
  marks so far.
\<close>

definition count_ok :: "nat option \<Rightarrow> i64 option \<Rightarrow> bool" where
  "count_ok c t \<longleftrightarrow> (case c of None \<Rightarrow> t = None | Some n \<Rightarrow> t \<noteq> None \<and> 1 \<le> n \<and> n \<le> u32_max)"

definition offenses_wf :: "(str \<rightharpoonup> nat) \<Rightarrow> (str \<rightharpoonup> i64) \<Rightarrow> bool" where
  "offenses_wf counts last_at \<longleftrightarrow> (\<forall>a. count_ok (counts a) (last_at a))"

lemma count_ok_simps [simp]:
  "count_ok None t \<longleftrightarrow> t = None" "count_ok (Some n) t \<longleftrightarrow> t \<noteq> None \<and> 1 \<le> n \<and> n \<le> u32_max"
  by (simp_all add: count_ok_def)

lemma offenses_wfD: "offenses_wf counts last_at \<Longrightarrow> count_ok (counts a) (last_at a)"
  by (simp add: offenses_wf_def)

definition cooldown_wf :: "i64 \<Rightarrow> cooldown_state \<Rightarrow> bool" where
  "cooldown_wf T s \<longleftrightarrow> offenses_wf (cd_counts s) (cd_last_at s)
     \<and> (\<forall>a u. cd_entries s a = Some u \<longrightarrow> u \<le> T + 7200)"

lemma offenses_wf_upd:
  "offenses_wf counts last_at \<Longrightarrow> count_ok c u
    \<Longrightarrow> (\<forall>b. b \<noteq> a \<longrightarrow> counts' b = counts b \<and> last_at' b = last_at b)
    \<Longrightarrow> counts' a = c \<Longrightarrow> last_at' a = u \<Longrightarrow> offenses_wf counts' last_at'"
  unfolding offenses_wf_def by metis

lemma offenses_wf_mark:
  assumes "offenses_wf counts last_at" "cooldown_secs_for_mark counts last_at a r now = (n, counts', last_at')"
  shows "offenses_wf counts' last_at'"
proof (cases "r = CdRateLimited")
  case True
  with assms (2) have "count_ok (counts' a) (last_at' a)"
      "\<forall>b. b \<noteq> a \<longrightarrow> counts' b = counts b \<and> last_at' b = last_at b"
    by (auto simp: cooldown_secs_for_mark_def Let_def u32_sat_add_def hm_remove_apply
        split: option.splits if_splits)
  then show ?thesis using offenses_wf_upd [OF assms (1)] by blast
next
  case False
  with assms show ?thesis by (cases r) (auto simp: cooldown_secs_for_mark_def)
qed

lemma offenses_wf_decay:
  assumes "offenses_wf counts last_at"
    "decay_offense_count_for_success counts last_at a = (counts', last_at')"
  shows "offenses_wf counts' last_at'"
proof -
  have "count_ok (counts' a) (last_at' a)"
      "\<forall>b. b \<noteq> a \<longrightarrow> counts' b = counts b \<and> last_at' b = last_at b"
    using assms (2) offenses_wfD [OF assms (1), of a]
    by (auto simp: decay_offense_count_for_success_def hm_remove_apply split: option.splits if_splits)
  then show ?thesis using offenses_wf_upd [OF assms (1)] by blast
qed

lemma offenses_wf_retain:
  "offenses_wf counts last_at
    \<Longrightarrow> offenses_wf (retain (\<lambda>a _. P a) counts) (retain (\<lambda>a _. P a) last_at)"
  unfolding offenses_wf_def
proof
  fix a assume "\<forall>a. count_ok (counts a) (last_at a)"
  then have "count_ok (counts a) (last_at a)" by blast
  then show "count_ok (retain (\<lambda>a _. P a) counts a) (retain (\<lambda>a _. P a) last_at a)"
    by (cases "counts a"; cases "last_at a") (auto simp: retain_def)
qed

lemma cleanup_wf: "cooldown_wf T s \<Longrightarrow> cooldown_wf T (maybe_cleanup_expired_cooldowns s now)"
  by (auto simp: cooldown_wf_def maybe_cleanup_expired_cooldowns_def offenses_wf_retain)

datatype cooldown_op =
    CdAsk str i64
  | CdMark str cooldown_reason i64
  | CdMarkStatus str nat i64
  | CdClear str
  | CdReset

fun cooldown_step :: "cooldown_state \<Rightarrow> cooldown_op \<Rightarrow> cooldown_state" where
  "cooldown_step s (CdAsk a now) = snd (is_account_in_cooldown a now s)"
| "cooldown_step s (CdMark a r now) = mark_account_cooldown a r now s"
| "cooldown_step s (CdMarkStatus a st now) = mark_account_cooldown_for_status a st now s"
| "cooldown_step s (CdClear a) = clear_account_cooldown a s"
| "cooldown_step s CdReset = clear_cooldown_runtime_state s"

fun cooldown_op_by :: "i64 \<Rightarrow> cooldown_op \<Rightarrow> bool" where
  "cooldown_op_by T (CdMark a r now) = (0 \<le> now \<and> now \<le> T)"
| "cooldown_op_by T (CdMarkStatus a st now) = (0 \<le> now \<and> now \<le> T)"
| "cooldown_op_by T _ = True"

lemma mark_wf:
  assumes "cooldown_wf T s" "0 \<le> now" "now \<le> T" "in_i64 (T + 7200)"
  shows "cooldown_wf T (mark_account_cooldown a r now s)"
proof -
  have c: "cooldown_wf T (maybe_cleanup_expired_cooldowns s now)"
    using assms (1) by (rule cleanup_wf)
  have "in_i64 (now + mark_secs a r now s)"
    using assms mark_secs_bounds [of a r now s] by (simp add: in_i64_def)
  then have u: "i64_add now (mark_secs a r now s) \<le> T + 7200"
    using assms (3) mark_secs_bounds [of a r now s] by (simp add: i64_add_exact)
  have 1: "v \<le> T + 7200" if "cd_entries (mark_account_cooldown a r now s) b = Some v" for b v
    using that c u by (auto simp: mark_entries cooldown_wf_def Let_def split: if_splits option.splits)
  let ?c = "maybe_cleanup_expired_cooldowns (s\<lparr>cd_mark_total := cd_mark_total s + 1\<rparr>) now"
  have "cooldown_wf T (s\<lparr>cd_mark_total := cd_mark_total s + 1\<rparr>)"
    using assms (1) by (simp add: cooldown_wf_def)
  then have "cooldown_wf T ?c" by (rule cleanup_wf)
  then have 2: "offenses_wf (cd_counts ?c) (cd_last_at ?c)" by (simp add: cooldown_wf_def)
  have "offenses_wf (cd_counts (mark_account_cooldown a r now s)) (cd_last_at (mark_account_cooldown a r now s))"
    using offenses_wf_mark [OF 2] unfolding mark_account_cooldown_def Let_def
    by (auto split: prod.splits)
  with 1 show ?thesis by (simp add: cooldown_wf_def)
qed

lemma cooldown_step_wf:
  assumes "cooldown_wf T s" "cooldown_op_by T op" "in_i64 (T + 7200)"
  shows "cooldown_wf T (cooldown_step s op)"
proof (cases op)
  case (CdAsk a now)
  then show ?thesis using assms (1)
    by (auto simp: is_account_in_cooldown_def cooldown_wf_def hm_remove_apply split: option.splits)
next
  case (CdMark a r now)
  then show ?thesis using assms mark_wf by simp
next
  case (CdMarkStatus a st now)
  then show ?thesis using assms mark_wf by (simp add: mark_account_cooldown_for_status_def)
next
  case (CdClear a)
  obtain c l where d: "decay_offense_count_for_success (cd_counts s) (cd_last_at s) a = (c, l)"
    by fastforce
  with assms (1) have "offenses_wf c l" by (auto simp: cooldown_wf_def intro: offenses_wf_decay)
  with CdClear d assms (1) show ?thesis
    by (auto simp: clear_account_cooldown_def cooldown_wf_def hm_remove_apply)
next
  case CdReset
  then show ?thesis by (simp add: clear_cooldown_runtime_state_def cooldown_wf_def offenses_wf_def)
qed

lemma cooldown_steps_wf:
  "cooldown_wf T s \<Longrightarrow> list_all (cooldown_op_by T) ops \<Longrightarrow> in_i64 (T + 7200)
     \<Longrightarrow> cooldown_wf T (foldl cooldown_step s ops)"
  by (induction ops arbitrary: s) (auto simp: cooldown_step_wf)

text \<open>
  However the table's operations are interleaved, the offense counts and the times of the
  last offense are kept for the same accounts, a count is between 1 and the largest \<open>u32\<close>, and
  no account is blocked for more than two hours after the last mark: from then on the
  question is answered no.
\<close>

theorem cooldown_reachable_invariant:
  assumes "list_all (cooldown_op_by T) ops" "in_i64 (T + 7200)" "T + 7200 \<le> t"
  shows "dom (cd_counts (foldl cooldown_step empty_cooldown ops))
           = dom (cd_last_at (foldl cooldown_step empty_cooldown ops))
     \<and> (\<forall>c \<in> ran (cd_counts (foldl cooldown_step empty_cooldown ops)). 1 \<le> c \<and> c \<le> u32_max)
     \<and> \<not> fst (is_account_in_cooldown a t (foldl cooldown_step empty_cooldown ops))"
proof -
  let ?s = "foldl cooldown_step empty_cooldown ops"
  have "cooldown_wf T empty_cooldown"
    by (simp add: cooldown_wf_def empty_cooldown_def offenses_wf_def)
  then have "cooldown_wf T ?s"
    using assms (1,2) by (rule cooldown_steps_wf)
  then have wf: "offenses_wf (cd_counts ?s) (cd_last_at ?s)"
      and until: "\<And>b u. cd_entries ?s b = Some u \<Longrightarrow> u \<le> T + 7200"
    by (auto simp: cooldown_wf_def)
  have "cd_counts ?s b = None \<longleftrightarrow> cd_last_at ?s b = None" for b
    using offenses_wfD [OF wf, of b] by (cases "cd_counts ?s b") auto
  moreover have "1 \<le> c \<and> c \<le> u32_max" if "cd_counts ?s b = Some c" for b c
    using offenses_wfD [OF wf, of b] that by simp
  moreover have "\<not> fst (is_account_in_cooldown a t ?s)"
    using until [of a] assms (3) by (fastforce simp: is_account_in_cooldown_def split: option.splits)
  ultimately show ?thesis by (auto simp: dom_def ran_def)
qed

theorem cooldown_reachable_invariant_witness:
  "\<not> fst (is_account_in_cooldown ''a'' 8500
       (foldl cooldown_step empty_cooldown
         [CdMark ''a'' CdRateLimited 1000, CdMarkStatus ''a'' 429 1200, CdAsk ''b'' 1201, CdClear ''b'']))"
  using cooldown_reachable_invariant
    [of 1200 "[CdMark ''a'' CdRateLimited 1000, CdMarkStatus ''a'' 429 1200, CdAsk ''b'' 1201, CdClear ''b'']"
        8500 "''a''"]
  by (simp add: in_i64_def)

section \<open>The ladder\<close>

lemma mark_offense:
  assumes "cd_counts s a = c" "cd_last_at s a = l"
  shows "cd_counts (mark_account_cooldown a CdRateLimited now s) a =
      Some (case l of
          Some t \<Rightarrow> if offense_forget_after < i64_sat_sub now t then 1
                    else (case c of Some n \<Rightarrow> u32_sat_add n 1 | None \<Rightarrow> 1)
        | None \<Rightarrow> (case c of Some n \<Rightarrow> u32_sat_add n 1 | None \<Rightarrow> 1))
    \<and> cd_last_at (mark_account_cooldown a CdRateLimited now s) a = Some now"
  using assms
  by (auto simp: mark_account_cooldown_def cooldown_secs_for_mark_def Let_def
      maybe_cleanup_expired_cooldowns_def stale_offense_def retain_def split: option.splits)

lemma mark_secs_offense:
  "mark_secs a CdRateLimited now s = rate_limit_cooldown_secs_for_offense
     (the (cd_counts (mark_account_cooldown a CdRateLimited now s) a))"
  by (subst mark_offense [OF refl refl])
    (auto simp: mark_secs_def cooldown_secs_for_mark_def Let_def split: option.splits)

text \<open>
  The two-hour step of the ladder is out of reach of an account that is only tried outside
  its cooldown. A third offense within the half hour blocks the account for 1800 seconds, the
  same half hour after which an offense is forgotten; so when the account is next tried, at any
  second but the very first, the fourth rate limit counts as a first one and blocks for 45
  seconds.
\<close>

theorem fourth_offense_is_forgotten:
  assumes "cd_counts s a = Some 2" "cd_last_at s a = Some t0" "t - t0 \<le> 1800" "t0 \<le> t"
    and "0 \<le> t" "t \<le> now" "now \<noteq> t + 1800" "in_i64 (now + 7200)"
    and s1: "s1 = mark_account_cooldown a CdRateLimited t s"
    and free: "\<not> fst (is_account_in_cooldown a now s1)"
  shows "cd_counts s1 a = Some 3
    \<and> cd_counts (mark_account_cooldown a CdRateLimited now s1) a = Some 1
    \<and> mark_secs a CdRateLimited now s1 = 45"
proof -
  have "in_i64 (t - t0)" "in_i64 t" using assms (3-6,8) by (auto simp: in_i64_def)
  then have c: "cd_counts s1 a = Some 3 \<and> cd_last_at s1 a = Some t"
    using mark_offense [OF assms (1,2), of t] assms (3)
    by (simp add: s1 i64_sat_sub_exact u32_sat_add_def)
  then have secs: "mark_secs a CdRateLimited t s = 1800"
    unfolding mark_secs_offense s1 [symmetric] by (simp add: offense_secs_cases)
  have "in_i64 (t + 7200)" using assms (5,6,8) by (simp add: in_i64_def)
  then have "\<not> now < t + 1800"
    using mark_account_cooldown_free free \<open>in_i64 t\<close> secs assms (6) unfolding s1 by metis
  then have "1800 < now - t" using assms (7) by simp
  moreover have "in_i64 (now - t)" using assms (5,6,8) by (simp add: in_i64_def)
  ultimately have "cd_counts (mark_account_cooldown a CdRateLimited now s1) a = Some 1"
    using c mark_offense [of s1 a "Some 3" "Some t" now] by (simp add: i64_sat_sub_exact)
  then show ?thesis using c by (simp add: mark_secs_offense offense_secs_cases)
qed

definition two_offenses :: cooldown_state where
  "two_offenses = empty_cooldown\<lparr>cd_counts := [''a'' \<mapsto> 2], cd_last_at := [''a'' \<mapsto> 1050],
     cd_entries := [''a'' \<mapsto> 1350]\<rparr>"

theorem fourth_offense_is_forgotten_witness:
  "cd_counts (mark_account_cooldown ''a'' CdRateLimited 3201
      (mark_account_cooldown ''a'' CdRateLimited 1400 two_offenses)) ''a'' = Some 1
    \<and> mark_secs ''a'' CdRateLimited 3201 (mark_account_cooldown ''a'' CdRateLimited 1400 two_offenses) = 45"
proof -
  let ?s1 = "mark_account_cooldown ''a'' CdRateLimited 1400 two_offenses"
  have "mark_secs ''a'' CdRateLimited 1400 two_offenses = 1800"
    by (simp add: mark_secs_def cooldown_secs_for_mark_def two_offenses_def i64_sat_sub_exact
        in_i64_def u32_sat_add_def offense_secs_cases)
  then have "\<not> fst (is_account_in_cooldown ''a'' 3201 ?s1)"
    by (simp add: mark_exact in_i64_def) (simp add: is_account_in_cooldown_def two_offenses_def)
  then show ?thesis
    using fourth_offense_is_forgotten [of two_offenses "''a''" 1050 1400 3201 ?s1]
    by (simp add: two_offenses_def in_i64_def)
qed

section \<open>Clears\<close>

text \<open>
  Clearing an account after a success frees it at once, forgives one of its rate limit
  offenses (the last one together with its time), and leaves every other account's cooldown and
  offenses alone.
\<close>

theorem clear_account_cooldown_effect:
  "\<not> fst (is_account_in_cooldown a now (clear_account_cooldown a s))
   \<and> cd_counts (clear_account_cooldown a s) a =
       (case cd_counts s a of Some c \<Rightarrow> if c \<le> 1 then None else Some (c - 1) | None \<Rightarrow> None)
   \<and> (\<forall>b t. b \<noteq> a \<longrightarrow>
        fst (is_account_in_cooldown b t (clear_account_cooldown a s)) = fst (is_account_in_cooldown b t s)
        \<and> cd_counts (clear_account_cooldown a s) b = cd_counts s b
        \<and> cd_last_at (clear_account_cooldown a s) b = cd_last_at s b)"
  by (auto simp: clear_account_cooldown_def is_account_in_cooldown_def hm_remove_apply
      decay_offense_count_for_success_def split: option.splits)

theorem clear_account_cooldown_effect_witness:
  "fst (is_account_in_cooldown ''b'' 10 (clear_account_cooldown ''a'' two_offenses))
     = fst (is_account_in_cooldown ''b'' 10 two_offenses)
   \<and> cd_counts (clear_account_cooldown ''a'' two_offenses) ''a'' = Some 1"
  using clear_account_cooldown_effect [of "''a''" 10 two_offenses]
  by (simp add: two_offenses_def)

end
