(* ===== verification/Route_Quality.thy ===== *)
theory Route_Quality
  imports Rust_Text Expiring_Table
begin

text \<open>
  \<^verbatim>\<open>gateway/routing/route_quality.rs\<close>: the health score the gateway keeps per account
  from the statuses its requests end with. A record that has not been written for a day counts
  as absent. The score is an \<open>i32\<close> whose sums stay far inside the type, so it is an
  \<^typ>\<open>int\<close>; the counters are \<open>u32\<close> with saturation.
\<close>

record quality_record =
  qr_success_2xx :: nat
  qr_challenge_403 :: nat
  qr_throttle_429 :: nat
  qr_upstream_5xx :: nat
  qr_upstream_4xx :: nat
  qr_score :: int
  qr_updated_at :: i64

record quality_state =
  rq_entries :: "str \<rightharpoonup> quality_record"
  rq_last_cleanup :: i64

definition default_quality_record :: quality_record where
  "default_quality_record = \<lparr>qr_success_2xx = 0, qr_challenge_403 = 0, qr_throttle_429 = 0,
     qr_upstream_5xx = 0, qr_upstream_4xx = 0, qr_score = 0, qr_updated_at = 0\<rparr>"

definition empty_quality :: quality_state where
  "empty_quality = \<lparr>rq_entries = Map.empty, rq_last_cleanup = 0\<rparr>"

abbreviation route_quality_ttl :: int where "route_quality_ttl \<equiv> 24 * 60 * 60"
abbreviation default_score :: int where "default_score \<equiv> 100"

section \<open>Operations\<close>

definition i32_clamp :: "int \<Rightarrow> int \<Rightarrow> int \<Rightarrow> int" where
  "i32_clamp lo hi x = (if x < lo then lo else if hi < x then hi else x)"

definition route_quality_record_expired :: "quality_record \<Rightarrow> i64 \<Rightarrow> bool" where
  "route_quality_record_expired r now \<longleftrightarrow> i64_add (qr_updated_at r) route_quality_ttl \<le> now"

definition route_health_delta :: "nat \<Rightarrow> int" where
  "route_health_delta status =
     (if 200 \<le> status \<and> status \<le> 299 then 4
      else if status = 429 then - 15
      else if 500 \<le> status \<and> status \<le> 599 then - 10
      else if status = 401 \<or> status = 403 then - 18
      else if 400 \<le> status \<and> status \<le> 499 then - 8
      else - 2)"

definition maybe_cleanup_route_quality :: "quality_state \<Rightarrow> i64 \<Rightarrow> quality_state" where
  "maybe_cleanup_route_quality s now =
     (if rq_last_cleanup s \<noteq> 0 \<and> i64_sat_sub now (rq_last_cleanup s) < 60 then s
      else s\<lparr>rq_last_cleanup := now,
             rq_entries := retain (\<lambda>_ r. \<not> route_quality_record_expired r now) (rq_entries s)\<rparr>)"

definition with_map_mut ::
    "((str \<rightharpoonup> quality_record) \<Rightarrow> i64 \<Rightarrow> (str \<rightharpoonup> quality_record)) \<Rightarrow> i64
       \<Rightarrow> quality_state \<Rightarrow> quality_state" where
  "with_map_mut mutator now s =
     (let s1 = maybe_cleanup_route_quality s now
      in s1\<lparr>rq_entries := mutator (rq_entries s1) now\<rparr>)"

definition count_status :: "nat \<Rightarrow> quality_record \<Rightarrow> quality_record" where
  "count_status status r =
     (if 200 \<le> status \<and> status \<le> 299 then r\<lparr>qr_success_2xx := u32_sat_add (qr_success_2xx r) 1\<rparr>
      else if status = 403 then r\<lparr>qr_challenge_403 := u32_sat_add (qr_challenge_403 r) 1\<rparr>
      else if status = 429 then r\<lparr>qr_throttle_429 := u32_sat_add (qr_throttle_429 r) 1\<rparr>
      else if 500 \<le> status \<and> status \<le> 599 then r\<lparr>qr_upstream_5xx := u32_sat_add (qr_upstream_5xx r) 1\<rparr>
      else if 400 \<le> status \<and> status \<le> 499 then r\<lparr>qr_upstream_4xx := u32_sat_add (qr_upstream_4xx r) 1\<rparr>
      else r)"

definition update_quality_record :: "nat \<Rightarrow> i64 \<Rightarrow> quality_record \<Rightarrow> quality_record" where
  "update_quality_record status now r0 =
     (let r1 = (if qr_updated_at r0 = 0 then r0\<lparr>qr_score := default_score\<rparr> else r0);
          r2 = r1\<lparr>qr_updated_at := now\<rparr>
      in count_status status
           (r2\<lparr>qr_score := i32_clamp 0 200 (qr_score r2 + route_health_delta status)\<rparr>))"

definition record_route_quality :: "str \<Rightarrow> nat \<Rightarrow> i64 \<Rightarrow> quality_state \<Rightarrow> quality_state" where
  "record_route_quality a status now s =
     with_map_mut
       (\<lambda>m now. m(a \<mapsto> update_quality_record status now
          (case m a of Some r \<Rightarrow> r | None \<Rightarrow> default_quality_record))) now s"

definition route_health_score :: "str \<Rightarrow> i64 \<Rightarrow> quality_state \<Rightarrow> int \<times> quality_state" where
  "route_health_score a now s =
     (case rq_entries s a of
        None \<Rightarrow> (default_score, s)
      | Some r \<Rightarrow>
          if route_quality_record_expired r now
          then (default_score, s\<lparr>rq_entries := hm_remove a (rq_entries s)\<rparr>)
          else (i32_clamp 0 200 (qr_score r), s))"

definition route_quality_penalty :: "str \<Rightarrow> i64 \<Rightarrow> quality_state \<Rightarrow> int \<times> quality_state" where
  "route_quality_penalty a now s =
     (case rq_entries s a of
        None \<Rightarrow> (0, s)
      | Some r \<Rightarrow>
          if route_quality_record_expired r now
          then (0, s\<lparr>rq_entries := hm_remove a (rq_entries s)\<rparr>)
          else (int (qr_challenge_403 r) * 6 + int (qr_throttle_429 r) * 3
                  - int (qr_success_2xx r) * 2, s))"

definition clear_quality_runtime_state :: "quality_state \<Rightarrow> quality_state" where
  "clear_quality_runtime_state s = s\<lparr>rq_entries := Map.empty, rq_last_cleanup := 0\<rparr>"

section \<open>The table as an expiring table\<close>

lemma quality_cleanup_entries:
  "rq_entries (maybe_cleanup_route_quality s now) a = Some r \<Longrightarrow> rq_entries s a = Some r"
  "rq_entries s a = Some r \<Longrightarrow> \<not> route_quality_record_expired r now
     \<Longrightarrow> rq_entries (maybe_cleanup_route_quality s now) a = Some r"
  by (auto simp: maybe_cleanup_route_quality_def split: if_splits)

interpretation rq: monotone_expiry rq_entries
    "\<lambda>_ now _ r. \<not> route_quality_record_expired r now" maybe_cleanup_route_quality
  by unfold_locales
    (auto dest: quality_cleanup_entries simp: route_quality_record_expired_def)

lemma i32_clamp_bounds [simp]: "0 \<le> i32_clamp 0 200 x" "i32_clamp 0 200 x \<le> 200"
  by (simp_all add: i32_clamp_def)

lemma i32_clamp_id: "0 \<le> x \<Longrightarrow> x \<le> 200 \<Longrightarrow> i32_clamp 0 200 x = x"
  by (simp add: i32_clamp_def)

lemma health_score_observe:
  "fst (route_health_score a now s) =
     (case rq.observe s now a of None \<Rightarrow> default_score | Some r \<Rightarrow> i32_clamp 0 200 (qr_score r))"
  by (simp add: route_health_score_def rq.observe_def split: option.splits)

lemma count_status_score [simp]:
  "qr_score (count_status status r) = qr_score r"
  "qr_updated_at (count_status status r) = qr_updated_at r"
  by (simp_all add: count_status_def)

lemma update_quality_record_fields:
  "qr_updated_at (update_quality_record status now r) = now"
  "qr_score (update_quality_record status now r) =
     i32_clamp 0 200 ((if qr_updated_at r = 0 then default_score else qr_score r) + route_health_delta status)"
  by (simp_all add: update_quality_record_def Let_def)

lemma record_entries:
  "rq_entries (record_route_quality a status now s) =
     (let m = rq_entries (maybe_cleanup_route_quality s now)
      in m(a \<mapsto> update_quality_record status now
           (case m a of Some r \<Rightarrow> r | None \<Rightarrow> default_quality_record)))"
  by (simp add: record_route_quality_def with_map_mut_def Let_def)

section \<open>Invariant\<close>

text \<open>
  Every record has a score the clamp does not change and counters inside \<open>u32\<close>, and was
  written at a time between 1 and \<open>T\<close>.
\<close>

definition quality_record_wf :: "i64 \<Rightarrow> quality_record \<Rightarrow> bool" where
  "quality_record_wf T r \<longleftrightarrow> 0 \<le> qr_score r \<and> qr_score r \<le> 200 \<and> 0 < qr_updated_at r \<and> qr_updated_at r \<le> T
     \<and> qr_success_2xx r \<le> u32_max \<and> qr_challenge_403 r \<le> u32_max \<and> qr_throttle_429 r \<le> u32_max
     \<and> qr_upstream_5xx r \<le> u32_max \<and> qr_upstream_4xx r \<le> u32_max"

definition quality_wf :: "i64 \<Rightarrow> quality_state \<Rightarrow> bool" where
  "quality_wf T s \<longleftrightarrow> (\<forall>a r. rq_entries s a = Some r \<longrightarrow> quality_record_wf T r)"

lemma count_status_wf: "quality_record_wf T r \<Longrightarrow> quality_record_wf T (count_status status r)"
  by (simp add: count_status_def quality_record_wf_def)

lemma update_quality_record_wf:
  assumes "r = default_quality_record \<or> quality_record_wf T r" "0 < now" "now \<le> T"
  shows "quality_record_wf T (update_quality_record status now r)"
  unfolding update_quality_record_def Let_def
  by (rule count_status_wf)
    (use assms in \<open>auto simp: quality_record_wf_def default_quality_record_def\<close>)

lemma quality_cleanup_wf: "quality_wf T s \<Longrightarrow> quality_wf T (maybe_cleanup_route_quality s now)"
  unfolding quality_wf_def using quality_cleanup_entries (1) by blast

lemma record_route_quality_wf:
  assumes "quality_wf T s" "0 < now" "now \<le> T"
  shows "quality_wf T (record_route_quality a status now s)"
proof -
  have "quality_wf T (maybe_cleanup_route_quality s now)"
    using assms (1) by (rule quality_cleanup_wf)
  then show ?thesis
    using update_quality_record_wf [OF _ assms (2,3)]
    by (auto simp: quality_wf_def record_entries Let_def split: option.splits)
qed

datatype quality_op = QRecord str nat i64 | QScore str i64 | QPenalty str i64 | QReset

fun quality_step :: "quality_state \<Rightarrow> quality_op \<Rightarrow> quality_state" where
  "quality_step s (QRecord a status now) = record_route_quality a status now s"
| "quality_step s (QScore a now) = snd (route_health_score a now s)"
| "quality_step s (QPenalty a now) = snd (route_quality_penalty a now s)"
| "quality_step s QReset = clear_quality_runtime_state s"

fun quality_op_by :: "i64 \<Rightarrow> quality_op \<Rightarrow> bool" where
  "quality_op_by T (QRecord a status now) = (0 < now \<and> now \<le> T)"
| "quality_op_by T _ = True"

lemma quality_wf_remove: "quality_wf T s \<Longrightarrow> quality_wf T (s\<lparr>rq_entries := hm_remove a (rq_entries s)\<rparr>)"
  by (simp add: quality_wf_def hm_remove_apply)

lemma quality_wf_reset: "quality_wf T (clear_quality_runtime_state s)"
  by (simp add: clear_quality_runtime_state_def quality_wf_def)

lemma quality_step_wf:
  "quality_wf T s \<Longrightarrow> quality_op_by T op \<Longrightarrow> quality_wf T (quality_step s op)"
  by (cases op)
    (auto simp: record_route_quality_wf quality_wf_remove route_health_score_def
      route_quality_penalty_def quality_wf_reset split: option.split)

lemma quality_steps_wf:
  "quality_wf T s \<Longrightarrow> list_all (quality_op_by T) ops \<Longrightarrow> quality_wf T (foldl quality_step s ops)"
  by (induction ops arbitrary: s) (auto simp: quality_step_wf)

text \<open>
  Whatever requests ended in and whoever asked, the score of every account is between 0 and
  200, and a day after the last request nothing is remembered: the score is 100 again and
  the penalty is 0.
\<close>

theorem route_health_score_reachable:
  assumes "list_all (quality_op_by T) ops" "in_i64 (T + route_quality_ttl)"
  shows "0 \<le> fst (route_health_score a now (foldl quality_step empty_quality ops))
    \<and> fst (route_health_score a now (foldl quality_step empty_quality ops)) \<le> 200
    \<and> (T + route_quality_ttl \<le> now \<longrightarrow>
         fst (route_health_score a now (foldl quality_step empty_quality ops)) = 100
         \<and> fst (route_quality_penalty a now (foldl quality_step empty_quality ops)) = 0)"
proof -
  let ?s = "foldl quality_step empty_quality ops"
  have "quality_wf T empty_quality" by (simp add: quality_wf_def empty_quality_def)
  then have wf: "quality_wf T ?s" using assms (1) by (rule quality_steps_wf)
  have bounds: "0 \<le> fst (route_health_score a now ?s) \<and> fst (route_health_score a now ?s) \<le> 200"
    by (simp add: route_health_score_def split: option.split)
  have "route_quality_record_expired r now"
    if "rq_entries ?s a = Some r" "T + route_quality_ttl \<le> now" for r
  proof -
    have u: "0 < qr_updated_at r" "qr_updated_at r \<le> T"
      using wf that (1) by (auto simp: quality_wf_def quality_record_wf_def)
    then have "in_i64 (qr_updated_at r + route_quality_ttl)" using assms (2) by (simp add: in_i64_def)
    with u that (2) show ?thesis by (simp add: route_quality_record_expired_def i64_add_exact)
  qed
  then have "fst (route_health_score a now ?s) = 100 \<and> fst (route_quality_penalty a now ?s) = 0"
    if "T + route_quality_ttl \<le> now"
    using that by (auto simp: route_health_score_def route_quality_penalty_def split: option.split)
  with bounds show ?thesis by blast
qed

theorem route_health_score_reachable_witness:
  "fst (route_health_score ''a'' 90000
     (foldl quality_step empty_quality [QRecord ''a'' 200 1000, QRecord ''a'' 403 1001, QScore ''a'' 1002])) = 100"
  using route_health_score_reachable
    [of 1001 "[QRecord ''a'' 200 1000, QRecord ''a'' 403 1001, QScore ''a'' 1002]" "''a''" 90000]
  by (simp add: in_i64_def)

lemma record_exact:
  assumes "0 < now" "in_i64 (now + route_quality_ttl)" "now \<le> t" "t < now + route_quality_ttl"
    and base: "base = (case rq_entries (maybe_cleanup_route_quality s now) a of
                         Some r \<Rightarrow> if qr_updated_at r = 0 then 100 else qr_score r | None \<Rightarrow> 100)"
  shows "fst (route_health_score b t (record_route_quality a status now s)) =
     (if b = a then i32_clamp 0 200 (base + route_health_delta status)
      else fst (route_health_score b t s))"
proof (cases "b = a")
  case True
  have clamp2: "i32_clamp 0 200 (i32_clamp 0 200 x) = i32_clamp 0 200 x" for x
    by (simp add: i32_clamp_id)
  have "\<not> route_quality_record_expired (update_quality_record status now r) t" for r
    using assms (2,4) by (simp add: route_quality_record_expired_def update_quality_record_fields i64_add_exact)
  with True show ?thesis
    by (simp add: route_health_score_def record_entries Let_def base update_quality_record_fields clamp2
        default_quality_record_def split: option.split)
next
  case False
  have "fst (route_health_score b t (record_route_quality a status now s))
      = fst (route_health_score b t (maybe_cleanup_route_quality s now))"
    using False by (simp add: route_health_score_def record_entries Let_def split: option.split)
  then show ?thesis
    using False rq.observe_cleanup_earlier [OF assms (3)] by (simp add: health_score_observe)
qed

text \<open>
  Recording a request moves the account's score by the status's delta from the score that
  is in the table (100 for an account without a record), clamped to 0..200, which every reader
  of the next day sees; the scores of the other accounts do not move.
\<close>

theorem record_route_quality_exact:
  assumes "0 < now" "in_i64 (now + route_quality_ttl)" "now \<le> t" "t < now + route_quality_ttl"
    and base: "base = (case rq_entries (maybe_cleanup_route_quality s now) a of
                         Some r \<Rightarrow> if qr_updated_at r = 0 then 100 else qr_score r | None \<Rightarrow> 100)"
  shows "fst (route_health_score b t (record_route_quality a status now s)) =
     (if b = a then i32_clamp 0 200 (base + route_health_delta status)
      else fst (route_health_score b t s))"
  using assms by (rule record_exact)

theorem record_route_quality_exact_witness:
  "fst (route_health_score ''a'' 2000 (record_route_quality ''a'' 403 1000 empty_quality)) = 82"
  using record_route_quality_exact [of 1000 2000 100 empty_quality "''a''" "''a''" 403]
  by (simp add: in_i64_def empty_quality_def maybe_cleanup_route_quality_def route_health_delta_def
      i32_clamp_def)

section \<open>A stale score can come back\<close>

text \<open>
  The cleanup runs at most once a minute, and \<open>record_route_quality\<close> does not ask whether the
  record it extends has expired: a record that expired since the last cleanup lends its old
  score to the new one, although a reader in between was told the default.
\<close>

lemma stale_score_resumed:
  assumes "rq_entries s a = Some r" "qr_updated_at r \<noteq> 0" "route_quality_record_expired r now"
    "rq_last_cleanup s \<noteq> 0" "i64_sat_sub now (rq_last_cleanup s) < 60"
    "0 < now" "in_i64 (now + route_quality_ttl)"
  shows "fst (route_health_score a now s) = 100
    \<and> fst (route_health_score a now (record_route_quality a status now s))
        = i32_clamp 0 200 (qr_score r + route_health_delta status)"
proof -
  have "maybe_cleanup_route_quality s now = s"
    using assms (4,5) by (simp add: maybe_cleanup_route_quality_def)
  then show ?thesis
    using record_exact [OF assms (6,7), of now "qr_score r" s a a status] assms (1,2,3)
    by (simp add: route_health_score_def)
qed

end
