(* ===== verification/Request_Gate.thy ===== *)
theory Request_Gate
  imports Rust_Text Expiring_Table
begin

text \<open>
  \<^verbatim>\<open>gateway/routing/request_gate.rs\<close>: one lock per API key, path and model, handed out
  from a table that is cleaned up lazily. A lock is an \<^verbatim>\<open>Arc\<close> object; here it is a
  number, and the system's state has the locks' states, the table, and the two kinds of owner
  outside it: the handles callers got from \<open>request_gate_lock\<close> and the guards of those who
  hold a lock. A step of the system is one of the code's critical sections.
\<close>

datatype gate_error = Poisoned

record gate_lock =
  gl_held :: bool
  gl_poisoned :: bool

record gate_entry =
  ge_lock :: nat
  ge_last_seen :: i64

record gate_system =
  gt_entries :: "str \<rightharpoonup> gate_entry"
  gt_last_cleanup :: i64
  gs_locks :: "nat \<Rightarrow> gate_lock"
  gs_next :: nat
  gs_handles :: "(str \<times> nat) list"
  gs_guards :: "(str \<times> nat) list"

definition new_gate_lock :: gate_lock where
  "new_gate_lock = \<lparr>gl_held = False, gl_poisoned = False\<rparr>"

definition empty_gate :: gate_system where
  "empty_gate = \<lparr>gt_entries = Map.empty, gt_last_cleanup = 0, gs_locks = \<lambda>_. new_gate_lock,
     gs_next = 0, gs_handles = [], gs_guards = []\<rparr>"

section \<open>One lock\<close>

definition gate_try_acquire :: "gate_lock \<Rightarrow> (gate_error + bool) \<times> gate_lock" where
  "gate_try_acquire l =
     (if gl_poisoned l then (Inl Poisoned, l)
      else if gl_held l then (Inr False, l)
      else (Inr True, l\<lparr>gl_held := True\<rparr>))"

text \<open>
  \<^verbatim>\<open>wait_while\<close> returns when the lock is free or poisoned, and not before: while it is
  held and healthy the call is \<open>None\<close>, it still waits.
\<close>

definition gate_acquire :: "gate_lock \<Rightarrow> ((gate_error + bool) \<times> gate_lock) option" where
  "gate_acquire l =
     (if gl_poisoned l then Some (Inl Poisoned, l)
      else if gl_held l then None
      else Some (Inr True, l\<lparr>gl_held := True\<rparr>))"

text \<open>
  \<^verbatim>\<open>wait_timeout_while\<close> also returns when the time is up, then with the lock as it is.
\<close>

definition gate_acquire_with_timeout ::
    "bool \<Rightarrow> gate_lock \<Rightarrow> ((gate_error + bool) \<times> gate_lock) option" where
  "gate_acquire_with_timeout time_up l =
     (if gl_poisoned l then Some (Inl Poisoned, l)
      else if gl_held l then (if time_up then Some (Inr False, l) else None)
      else Some (Inr True, l\<lparr>gl_held := True\<rparr>))"

text \<open>\<^verbatim>\<open>Drop for RequestGateGuard\<close>: a poisoned mutex is recovered, the lock is freed.\<close>

definition gate_guard_drop :: "gate_lock \<Rightarrow> gate_lock" where
  "gate_guard_drop l = l\<lparr>gl_held := False\<rparr>"

section \<open>The table\<close>

definition gate_key :: "str \<Rightarrow> str \<Rightarrow> str option \<Rightarrow> str" where
  "gate_key key_id path model =
     trim key_id @ ''|'' @ trim path @ ''|'' @ unwrap_or (trimmed_nonempty model) ''-''"

text \<open>
  \<^verbatim>\<open>Arc::strong_count\<close> of an entry's lock: the entry itself and the owners outside.
\<close>

definition outside_owners :: "gate_system \<Rightarrow> nat \<Rightarrow> nat" where
  "outside_owners s l =
     length (filter (\<lambda>(_, x). x = l) (gs_handles s)) + length (filter (\<lambda>(_, x). x = l) (gs_guards s))"

definition strong_count :: "gate_system \<Rightarrow> nat \<Rightarrow> nat" where
  "strong_count s l = 1 + outside_owners s l"

definition gate_entry_kept :: "gate_system \<Rightarrow> i64 \<Rightarrow> gate_entry \<Rightarrow> bool" where
  "gate_entry_kept s now e \<longleftrightarrow>
     (let stale = 30 * 60 < i64_sat_sub now (ge_last_seen e)
      in \<not> stale \<or> 1 < strong_count s (ge_lock e))"

definition maybe_cleanup_request_gate_locks :: "gate_system \<Rightarrow> i64 \<Rightarrow> gate_system" where
  "maybe_cleanup_request_gate_locks s now =
     (if gt_last_cleanup s \<noteq> 0 \<and> i64_sat_sub now (gt_last_cleanup s) < 60 then s
      else s\<lparr>gt_last_cleanup := now,
             gt_entries := retain (\<lambda>_ e. gate_entry_kept s now e) (gt_entries s)\<rparr>)"

text \<open>The lock of a key, created when the table has none, and a handle on it.\<close>

definition request_gate_lock :: "str \<Rightarrow> str \<Rightarrow> str option \<Rightarrow> i64 \<Rightarrow> gate_system \<Rightarrow> nat \<times> gate_system" where
  "request_gate_lock key_id path model now s0 =
     (let s = maybe_cleanup_request_gate_locks s0 now;
          k = gate_key key_id path model
      in case gt_entries s k of
           Some e \<Rightarrow>
             (ge_lock e,
              s\<lparr>gt_entries := (gt_entries s)(k \<mapsto> e\<lparr>ge_last_seen := now\<rparr>),
                 gs_handles := (k, ge_lock e) # gs_handles s\<rparr>)
         | None \<Rightarrow>
             (gs_next s,
              s\<lparr>gt_entries := (gt_entries s)(k \<mapsto> \<lparr>ge_lock = gs_next s, ge_last_seen = now\<rparr>),
                 gs_locks := (gs_locks s)(gs_next s := new_gate_lock),
                 gs_next := Suc (gs_next s),
                 gs_handles := (k, gs_next s) # gs_handles s\<rparr>))"

definition clear_gate_runtime_state :: "gate_system \<Rightarrow> gate_system" where
  "clear_gate_runtime_state s = s\<lparr>gt_entries := Map.empty, gt_last_cleanup := 0\<rparr>"

lemma gate_cleanup_entries:
  "gt_entries (maybe_cleanup_request_gate_locks s now) k = Some e \<Longrightarrow> gt_entries s k = Some e"
  "gt_entries s k = Some e \<Longrightarrow> gate_entry_kept s now e
     \<Longrightarrow> gt_entries (maybe_cleanup_request_gate_locks s now) k = Some e"
  by (auto simp: maybe_cleanup_request_gate_locks_def split: if_splits)

lemma gate_cleanup_frame [simp, frame_simps]:
  "gs_locks (maybe_cleanup_request_gate_locks s now) = gs_locks s"
  "gs_next (maybe_cleanup_request_gate_locks s now) = gs_next s"
  "gs_handles (maybe_cleanup_request_gate_locks s now) = gs_handles s"
  "gs_guards (maybe_cleanup_request_gate_locks s now) = gs_guards s"
  by (simp_all add: maybe_cleanup_request_gate_locks_def)

lemma gate_cleanup_kept [simp]:
  "gate_entry_kept (maybe_cleanup_request_gate_locks s t) now e = gate_entry_kept s now e"
  by (simp add: gate_entry_kept_def strong_count_def outside_owners_def)

lemma gate_kept_antimono:
  "gate_entry_kept s later e \<Longrightarrow> now \<le> later \<Longrightarrow> gate_entry_kept s now e"
  by (auto simp: gate_entry_kept_def Let_def i64_sat_sub_def i64_sat_def)

interpretation gate: monotone_expiry gt_entries "\<lambda>s now _ e. gate_entry_kept s now e"
    maybe_cleanup_request_gate_locks
  by unfold_locales (auto dest: gate_cleanup_entries intro: gate_kept_antimono)

section \<open>The system\<close>

text \<open>
  A caller looks a lock up, tries or waits for it with a handle it has, drops a handle, or
  drops a guard. A mutex may be poisoned at any time. \<open>clear_gate_runtime_state\<close> is not a step
  of the normal operation: the gateway only calls it to reset the whole runtime.
\<close>

definition with_lock_result ::
    "str \<Rightarrow> nat \<Rightarrow> (gate_error + bool) \<times> gate_lock \<Rightarrow> gate_system \<Rightarrow> gate_system" where
  "with_lock_result k l r s =
     (case r of (res, lk) \<Rightarrow>
        s\<lparr>gs_locks := (gs_locks s)(l := lk),
          gs_guards := (if res = Inr True then (k, l) # gs_guards s else gs_guards s)\<rparr>)"

inductive gate_step :: "gate_system \<Rightarrow> gate_system \<Rightarrow> bool" where
  Lookup: "gate_step s (snd (request_gate_lock key_id path model now s))"
| TryAcquire: "(k, l) \<in> set (gs_handles s)
    \<Longrightarrow> gate_step s (with_lock_result k l (gate_try_acquire (gs_locks s l)) s)"
| Acquire: "(k, l) \<in> set (gs_handles s) \<Longrightarrow> gate_acquire (gs_locks s l) = Some r
    \<Longrightarrow> gate_step s (with_lock_result k l r s)"
| AcquireTimeout: "(k, l) \<in> set (gs_handles s)
    \<Longrightarrow> gate_acquire_with_timeout time_up (gs_locks s l) = Some r
    \<Longrightarrow> gate_step s (with_lock_result k l r s)"
| DropHandle: "(k, l) \<in> set (gs_handles s)
    \<Longrightarrow> gate_step s (s\<lparr>gs_handles := remove1 (k, l) (gs_handles s)\<rparr>)"
| DropGuard: "(k, l) \<in> set (gs_guards s)
    \<Longrightarrow> gate_step s (s\<lparr>gs_locks := (gs_locks s)(l := gate_guard_drop (gs_locks s l)),
                      gs_guards := remove1 (k, l) (gs_guards s)\<rparr>)"
| Poison: "gate_step s (s\<lparr>gs_locks := (gs_locks s)(l := (gs_locks s l)\<lparr>gl_poisoned := True\<rparr>)\<rparr>)"

inductive gate_reachable :: "gate_system \<Rightarrow> bool" where
  Start: "gate_reachable empty_gate"
| Step: "gate_reachable s \<Longrightarrow> gate_step s s' \<Longrightarrow> gate_reachable s'"

text \<open>
  The invariant: every owner outside the table owns the lock the table has for its key, a lock
  belongs to one key, a lock that is handed out was created, and a lock is held exactly when
  one guard exists for it.
\<close>

definition owners_known :: "(str \<rightharpoonup> gate_entry) \<Rightarrow> (str \<times> nat) set \<Rightarrow> bool" where
  "owners_known E A \<longleftrightarrow> (\<forall>k l. (k, l) \<in> A \<longrightarrow> map_option ge_lock (E k) = Some l)"

definition one_key :: "(str \<rightharpoonup> gate_entry) \<Rightarrow> bool" where
  "one_key E \<longleftrightarrow> (\<forall>k k' e e'. E k = Some e \<longrightarrow> E k' = Some e' \<longrightarrow> ge_lock e = ge_lock e' \<longrightarrow> k = k')"

definition locks_created :: "(str \<rightharpoonup> gate_entry) \<Rightarrow> nat \<Rightarrow> bool" where
  "locks_created E n \<longleftrightarrow> (\<forall>k e. E k = Some e \<longrightarrow> ge_lock e < n)"

definition held_exact :: "(nat \<Rightarrow> gate_lock) \<Rightarrow> (str \<times> nat) list \<Rightarrow> bool" where
  "held_exact L G \<longleftrightarrow> distinct (map snd G) \<and> (\<forall>l. gl_held (L l) \<longleftrightarrow> l \<in> snd ` set G)"

definition gate_inv :: "gate_system \<Rightarrow> bool" where
  "gate_inv s \<longleftrightarrow> owners_known (gt_entries s) (set (gs_handles s) \<union> set (gs_guards s))
     \<and> one_key (gt_entries s) \<and> locks_created (gt_entries s) (gs_next s)
     \<and> held_exact (gs_locks s) (gs_guards s)"

lemmas gate_inv_parts = owners_known_def one_key_def locks_created_def

lemma gate_inv_empty: "gate_inv empty_gate"
  by (simp add: gate_inv_def gate_inv_parts held_exact_def empty_gate_def new_gate_lock_def)

lemma outside_owners_pos:
  "(k, l) \<in> set (gs_handles s) \<union> set (gs_guards s) \<Longrightarrow> 0 < outside_owners s l"
  by (auto simp: outside_owners_def filter_empty_conv length_greater_0_conv)

text \<open>A cleanup keeps the entry of every lock that has an owner outside the table.\<close>

lemma owners_known_cleanup:
  assumes "owners_known (gt_entries s) (set (gs_handles s) \<union> set (gs_guards s))"
  shows "owners_known (gt_entries (maybe_cleanup_request_gate_locks s now))
    (set (gs_handles s) \<union> set (gs_guards s))"
  unfolding owners_known_def
proof (intro allI impI)
  fix k l assume o: "(k, l) \<in> set (gs_handles s) \<union> set (gs_guards s)"
  with assms obtain e where e: "gt_entries s k = Some e" "ge_lock e = l"
    unfolding owners_known_def by fastforce
  have "gate_entry_kept s now e"
    using outside_owners_pos [OF o] e (2) by (simp add: gate_entry_kept_def strong_count_def Let_def)
  with e show "map_option ge_lock (gt_entries (maybe_cleanup_request_gate_locks s now) k) = Some l"
    using gate_cleanup_entries (2) [of s k e now] by simp
qed

lemma one_key_cleanup:
  "one_key (gt_entries s) \<Longrightarrow> one_key (gt_entries (maybe_cleanup_request_gate_locks s now))"
  unfolding one_key_def using gate_cleanup_entries (1) by blast

lemma locks_created_cleanup:
  "locks_created (gt_entries s) n
    \<Longrightarrow> locks_created (gt_entries (maybe_cleanup_request_gate_locks s now)) n"
  unfolding locks_created_def using gate_cleanup_entries (1) by blast

lemma gate_inv_cleanup: "gate_inv s \<Longrightarrow> gate_inv (maybe_cleanup_request_gate_locks s now)"
  by (simp add: gate_inv_def owners_known_cleanup one_key_cleanup locks_created_cleanup)

lemma gate_inv_seen:
  assumes "gate_inv s" "gt_entries s k = Some e"
  shows "gate_inv (s\<lparr>gt_entries := (gt_entries s)(k \<mapsto> e\<lparr>ge_last_seen := now\<rparr>),
     gs_handles := (k, ge_lock e) # gs_handles s\<rparr>)"
proof -
  let ?E = "(gt_entries s)(k \<mapsto> e\<lparr>ge_last_seen := now\<rparr>)"
  have same: "map_option ge_lock (?E x) = map_option ge_lock (gt_entries s x)" for x
    using assms (2) by simp
  have "one_key ?E"
    using assms unfolding gate_inv_def one_key_def
    by (metis fun_upd_apply option.inject gate_entry.select_convs(1) gate_entry.surjective
        gate_entry.update_convs(2))
  moreover have "locks_created ?E (gs_next s)"
    using assms by (auto simp: gate_inv_def locks_created_def)
  moreover have "owners_known ?E (set ((k, ge_lock e) # gs_handles s) \<union> set (gs_guards s))"
    using assms unfolding gate_inv_def owners_known_def same by auto
  ultimately show ?thesis using assms (1) by (simp add: gate_inv_def)
qed

lemma gate_inv_create:
  assumes "gate_inv s" "gt_entries s k = None"
  shows "gate_inv (s\<lparr>gt_entries := (gt_entries s)(k \<mapsto> \<lparr>ge_lock = gs_next s, ge_last_seen = now\<rparr>),
     gs_locks := (gs_locks s)(gs_next s := new_gate_lock), gs_next := Suc (gs_next s),
     gs_handles := (k, gs_next s) # gs_handles s\<rparr>)"
proof -
  have c: "locks_created (gt_entries s) (gs_next s)"
    and o: "owners_known (gt_entries s) (set (gs_handles s) \<union> set (gs_guards s))"
    and k: "one_key (gt_entries s)" and h: "held_exact (gs_locks s) (gs_guards s)"
    using assms (1) by (simp_all add: gate_inv_def)
  have new: "gs_next s \<notin> snd ` set (gs_guards s)"
    using c o by (fastforce simp: gate_inv_parts)
  have "held_exact ((gs_locks s)(gs_next s := new_gate_lock)) (gs_guards s)"
    using h new by (auto simp: held_exact_def new_gate_lock_def)
  moreover have "one_key ((gt_entries s)(k \<mapsto> \<lparr>ge_lock = gs_next s, ge_last_seen = now\<rparr>))"
    using k c by (fastforce simp: gate_inv_parts)
  moreover have "locks_created ((gt_entries s)(k \<mapsto> \<lparr>ge_lock = gs_next s, ge_last_seen = now\<rparr>)) (Suc (gs_next s))"
    using c by (fastforce simp: gate_inv_parts)
  moreover have "owners_known ((gt_entries s)(k \<mapsto> \<lparr>ge_lock = gs_next s, ge_last_seen = now\<rparr>))
      (set ((k, gs_next s) # gs_handles s) \<union> set (gs_guards s))"
    using o assms (2) by (fastforce simp: owners_known_def)
  ultimately show ?thesis by (simp add: gate_inv_def)
qed

lemma gate_inv_lookup:
  assumes "gate_inv s"
  shows "gate_inv (snd (request_gate_lock key_id path model now s))"
proof -
  let ?s = "maybe_cleanup_request_gate_locks s now"
  have inv: "gate_inv ?s" using assms by (rule gate_inv_cleanup)
  show ?thesis
  proof (cases "gt_entries ?s (gate_key key_id path model)")
    case None
    with gate_inv_create [OF inv None] show ?thesis
      by (simp add: request_gate_lock_def Let_def)
  next
    case (Some e)
    with gate_inv_seen [OF inv Some] show ?thesis
      by (simp add: request_gate_lock_def Let_def)
  qed
qed

text \<open>The three ways to acquire agree on what they leave behind.\<close>

lemma acquire_cases:
  assumes "r = gate_try_acquire l \<or> gate_acquire l = Some r \<or> gate_acquire_with_timeout b l = Some r"
  shows "(r = (Inr True, l\<lparr>gl_held := True\<rparr>) \<and> \<not> gl_held l) \<or> (fst r \<noteq> Inr True \<and> snd r = l)"
  using assms
  by (auto simp: gate_try_acquire_def gate_acquire_def gate_acquire_with_timeout_def split: if_splits)

lemma gate_inv_acquire:
  assumes "gate_inv s" "(k, l) \<in> set (gs_handles s)"
    "(r = (Inr True, (gs_locks s l)\<lparr>gl_held := True\<rparr>) \<and> \<not> gl_held (gs_locks s l))
      \<or> (fst r \<noteq> Inr True \<and> snd r = gs_locks s l)"
  shows "gate_inv (with_lock_result k l r s)"
  using assms (3)
proof (elim disjE conjE)
  assume r: "r = (Inr True, (gs_locks s l)\<lparr>gl_held := True\<rparr>)" and free: "\<not> gl_held (gs_locks s l)"
  then have "held_exact ((gs_locks s)(l := (gs_locks s l)\<lparr>gl_held := True\<rparr>)) ((k, l) # gs_guards s)"
    using assms (1) by (auto simp: gate_inv_def held_exact_def)
  then show ?thesis using assms (1,2) r
    by (auto simp: gate_inv_def with_lock_result_def owners_known_def)
next
  assume "fst r \<noteq> Inr True" "snd r = gs_locks s l"
  then show ?thesis using assms (1)
    by (cases r) (simp add: with_lock_result_def gate_inv_def)
qed

lemma remove1_guard:
  "distinct (map snd G) \<Longrightarrow> (k, l) \<in> set G
    \<Longrightarrow> distinct (map snd (remove1 (k, l) G)) \<and> snd ` set (remove1 (k, l) G) = snd ` set G - {l}"
proof (induction G)
  case (Cons g G)
  show ?case
  proof (cases "g = (k, l)")
    case True
    with Cons.prems show ?thesis by auto
  next
    case False
    with Cons have "distinct (map snd (remove1 (k, l) G))"
        "snd ` set (remove1 (k, l) G) = snd ` set G - {l}" by auto
    moreover have "snd g \<noteq> l" using False Cons.prems by (cases g) force
    ultimately show ?thesis using False Cons.prems by auto
  qed
qed simp

lemma gate_inv_drop_guard:
  assumes "gate_inv s" "(k, l) \<in> set (gs_guards s)"
  shows "gate_inv (s\<lparr>gs_locks := (gs_locks s)(l := gate_guard_drop (gs_locks s l)),
     gs_guards := remove1 (k, l) (gs_guards s)\<rparr>)"
proof -
  have h: "held_exact (gs_locks s) (gs_guards s)" using assms (1) by (simp add: gate_inv_def)
  then have "held_exact ((gs_locks s)(l := gate_guard_drop (gs_locks s l))) (remove1 (k, l) (gs_guards s))"
    using remove1_guard [OF _ assms (2)] by (simp add: held_exact_def gate_guard_drop_def)
  moreover have "owners_known (gt_entries s) (set (gs_handles s) \<union> set (remove1 (k, l) (gs_guards s)))"
    using assms (1) set_remove1_subset [of "(k, l)" "gs_guards s"]
    unfolding gate_inv_def owners_known_def by blast
  ultimately show ?thesis using assms (1) by (simp add: gate_inv_def)
qed

lemma gate_inv_drop_handle:
  assumes "gate_inv s"
  shows "gate_inv (s\<lparr>gs_handles := remove1 h (gs_handles s)\<rparr>)"
proof -
  have "owners_known (gt_entries s) (set (remove1 h (gs_handles s)) \<union> set (gs_guards s))"
    using assms set_remove1_subset [of h "gs_handles s"]
    unfolding gate_inv_def owners_known_def by blast
  then show ?thesis using assms by (simp add: gate_inv_def)
qed

lemma gate_inv_step: "gate_step s s' \<Longrightarrow> gate_inv s \<Longrightarrow> gate_inv s'"
proof (induction rule: gate_step.induct)
  case (Lookup s key_id path model now)
  then show ?case by (rule gate_inv_lookup)
next
  case (TryAcquire k l s)
  then show ?case using acquire_cases [OF disjI1, OF refl] by (intro gate_inv_acquire)
next
  case (Acquire k l s r)
  then show ?case using acquire_cases [OF disjI2, OF disjI1] by (intro gate_inv_acquire) blast+
next
  case (AcquireTimeout k l s b r)
  then show ?case using acquire_cases [OF disjI2, OF disjI2] by (intro gate_inv_acquire) blast+
next
  case (DropHandle k l s)
  then show ?case by (intro gate_inv_drop_handle)
next
  case (DropGuard k l s)
  then show ?case by (intro gate_inv_drop_guard)
next
  case (Poison s l)
  then show ?case by (simp add: gate_inv_def held_exact_def)
qed

lemma gate_inv_reachable: "gate_reachable s \<Longrightarrow> gate_inv s"
  by (induction rule: gate_reachable.induct) (auto intro: gate_inv_empty gate_inv_step)

section \<open>Mutual exclusion\<close>

lemma one_lock_per_key:
  assumes "gate_inv s" "(k, l) \<in> set (gs_handles s) \<union> set (gs_guards s)"
    "(k, l') \<in> set (gs_handles s) \<union> set (gs_guards s)"
  shows "l = l'"
proof -
  have "map_option ge_lock (gt_entries s k) = Some l" "map_option ge_lock (gt_entries s k) = Some l'"
    using assms unfolding gate_inv_def owners_known_def by blast+
  then show ?thesis by simp
qed

lemma guards_one_per_key:
  assumes "gate_inv s"
  shows "distinct (map fst (gs_guards s))"
proof -
  have d: "distinct (map snd (gs_guards s))" using assms by (simp add: gate_inv_def held_exact_def)
  have "fst g = fst g' \<Longrightarrow> g = g'" if "g \<in> set (gs_guards s)" "g' \<in> set (gs_guards s)" for g g'
    using one_lock_per_key [OF assms, of "fst g" "snd g" "snd g'"] that
    by (cases g; cases g') auto
  then have "inj_on fst (set (gs_guards s))" by (auto intro: inj_onI)
  then show ?thesis using d by (simp add: distinct_map)
qed


definition gate_one_holder :: gate_system where
  "gate_one_holder =
     (let s1 = snd (request_gate_lock ''gk'' ''/v1/responses'' None 1000 empty_gate)
      in with_lock_result ''gk|/v1/responses|-'' 0 (gate_try_acquire (gs_locks s1 0)) s1)"

lemma gate_lookup_first:
  "snd (request_gate_lock ''gk'' ''/v1/responses'' None 1000 empty_gate) =
    \<lparr>gt_entries = [''gk|/v1/responses|-'' \<mapsto> \<lparr>ge_lock = 0, ge_last_seen = 1000\<rparr>], gt_last_cleanup = 1000,
     gs_locks = \<lambda>_. new_gate_lock, gs_next = 1, gs_handles = [(''gk|/v1/responses|-'', 0)], gs_guards = []\<rparr>"
proof -
  have "gate_key ''gk'' ''/v1/responses'' None = ''gk|/v1/responses|-''" by code_simp
  then show ?thesis
    by (simp add: request_gate_lock_def Let_def maybe_cleanup_request_gate_locks_def empty_gate_def fun_upd_idem)
qed

lemma gate_one_holder_reachable:
  "gate_reachable gate_one_holder"
  "gs_guards gate_one_holder = [(''gk|/v1/responses|-'', 0)]"
proof -
  let ?s1 = "snd (request_gate_lock ''gk'' ''/v1/responses'' None 1000 empty_gate)"
  have "gate_reachable ?s1" by (rule gate_reachable.Step [OF gate_reachable.Start gate_step.Lookup])
  moreover have "gate_step ?s1 gate_one_holder"
    unfolding gate_one_holder_def Let_def
    by (rule gate_step.TryAcquire) (simp add: gate_lookup_first)
  ultimately show "gate_reachable gate_one_holder" by (rule gate_reachable.Step)
  show "gs_guards gate_one_holder = [(''gk|/v1/responses|-'', 0)]"
    by (simp add: gate_one_holder_def Let_def gate_lookup_first with_lock_result_def gate_try_acquire_def
        new_gate_lock_def)
qed


text \<open>
  Resetting the table while a request holds a gate is different: the next request gets a new
  lock for the same key and does not wait. (\<open>clear_gate_runtime_state\<close> therefore is no step.)
\<close>

lemma clear_breaks_exclusion:
  "let s2 = snd (request_gate_lock ''gk'' ''/v1/responses'' None 1000 (clear_gate_runtime_state gate_one_holder));
       s3 = with_lock_result ''gk|/v1/responses|-'' 1 (gate_try_acquire (gs_locks s2 1)) s2
   in gs_guards s3 = [(''gk|/v1/responses|-'', 1), (''gk|/v1/responses|-'', 0)]"
proof -
  have k: "gate_key ''gk'' ''/v1/responses'' None = ''gk|/v1/responses|-''" by code_simp
  let ?c = "clear_gate_runtime_state gate_one_holder"
  have c: "gs_next ?c = 1" "gt_entries ?c = Map.empty" "gt_last_cleanup ?c = 0"
      "gs_guards ?c = [(''gk|/v1/responses|-'', 0)]"
    using gate_one_holder_reachable (2)
    by (simp_all add: clear_gate_runtime_state_def gate_one_holder_def Let_def gate_lookup_first
        with_lock_result_def split: prod.split)
  define s2 where "s2 = snd (request_gate_lock ''gk'' ''/v1/responses'' None 1000 ?c)"
  have "gs_locks s2 1 = new_gate_lock" "gs_guards s2 = [(''gk|/v1/responses|-'', 0)]"
    by (simp_all add: s2_def request_gate_lock_def k Let_def maybe_cleanup_request_gate_locks_def c)
  then show ?thesis
    unfolding Let_def s2_def [symmetric]
    by (simp add: with_lock_result_def gate_try_acquire_def new_gate_lock_def)
qed

end
