(* ===== verification/Json_Value.thy ===== *)
theory Json_Value
  imports Rust_Text
begin

text \<open>
  The \<^verbatim>\<open>serde_json::Value\<close> tree the gateway reads and rewrites, and the rewrite of a
  failed request's body (\<^verbatim>\<open>support/payload_rewrite.rs\<close>), which removes every
  \<^verbatim>\<open>encrypted_content\<close> field before the request goes to another account. An object is
  the list of its entries in the order of the map (serde_json's default map is sorted by key).
  Parsing and printing are serde_json's and enter as parameters.
\<close>

datatype json =
    JNull
  | JBool bool
  | JNum str
  | JStr str
  | JArr "json list"
  | JObj "(str \<times> json) list"

definition json_as_str :: "json \<Rightarrow> str option" where
  "json_as_str v = (case v of JStr s \<Rightarrow> Some s | _ \<Rightarrow> None)"

definition json_as_bool :: "json \<Rightarrow> bool option" where
  "json_as_bool v = (case v of JBool b \<Rightarrow> Some b | _ \<Rightarrow> None)"

definition json_as_object :: "json \<Rightarrow> (str \<times> json) list option" where
  "json_as_object v = (case v of JObj m \<Rightarrow> Some m | _ \<Rightarrow> None)"

definition json_as_array :: "json \<Rightarrow> json list option" where
  "json_as_array v = (case v of JArr xs \<Rightarrow> Some xs | _ \<Rightarrow> None)"

text \<open>\<^verbatim>\<open>Value::get(key)\<close>: \<open>None\<close> on anything but an object.\<close>

definition json_get :: "json \<Rightarrow> str \<Rightarrow> json option" where
  "json_get v k = (case v of JObj m \<Rightarrow> map_of m k | _ \<Rightarrow> None)"

definition json_get_str :: "json \<Rightarrow> str \<Rightarrow> str option" where
  "json_get_str v k = Option.bind (json_get v k) json_as_str"

definition bind_opt :: "'a option \<Rightarrow> ('a \<Rightarrow> 'b option) \<Rightarrow> 'b option" where
  "bind_opt a f = (case a of None \<Rightarrow> None | Some x \<Rightarrow> f x)"

lemma bind_opt_simps [simp]: "bind_opt None f = None" "bind_opt (Some x) f = f x"
  by (simp_all add: bind_opt_def)

section \<open>Removing encrypted content\<close>

abbreviation enc_key :: str where "enc_key \<equiv> ''encrypted_content''"

text \<open>
  \<open>strip_encrypted_content_value\<close> returns the rewritten value and the code's
  \<^verbatim>\<open>changed\<close> flag. The object's case removes the entry and then visits the remaining
  values; the visit of the entries skips the removed one.
\<close>

fun strip_encrypted_content_value :: "json \<Rightarrow> json \<times> bool"
  and strip_entries :: "(str \<times> json) list \<Rightarrow> (str \<times> json) list \<times> bool"
  and strip_items :: "json list \<Rightarrow> json list \<times> bool" where
  "strip_encrypted_content_value (JObj m) =
     (let removed = (map_of m enc_key \<noteq> None); r = strip_entries m
      in (JObj (fst r), removed \<or> snd r))"
| "strip_encrypted_content_value (JArr xs) =
     (let r = strip_items xs in (JArr (fst r), snd r))"
| "strip_encrypted_content_value JNull = (JNull, False)"
| "strip_encrypted_content_value (JBool b) = (JBool b, False)"
| "strip_encrypted_content_value (JNum n) = (JNum n, False)"
| "strip_encrypted_content_value (JStr s) = (JStr s, False)"
| "strip_entries [] = ([], False)"
| "strip_entries ((k, v) # m) =
     (let r = strip_entries m in
      if k = enc_key then r
      else (let w = strip_encrypted_content_value v in ((k, fst w) # fst r, snd w \<or> snd r)))"
| "strip_items [] = ([], False)"
| "strip_items (x # xs) =
     (let w = strip_encrypted_content_value x; r = strip_items xs
      in (fst w # fst r, snd w \<or> snd r))"

text \<open>The specification: some object of the tree has the key.\<close>

fun has_encrypted :: "json \<Rightarrow> bool"
  and entries_encrypted :: "(str \<times> json) list \<Rightarrow> bool"
  and items_encrypted :: "json list \<Rightarrow> bool" where
  "has_encrypted (JObj m) = entries_encrypted m"
| "has_encrypted (JArr xs) = items_encrypted xs"
| "has_encrypted JNull = False"
| "has_encrypted (JBool b) = False"
| "has_encrypted (JNum n) = False"
| "has_encrypted (JStr s) = False"
| "entries_encrypted [] = False"
| "entries_encrypted ((k, v) # m) = (k = enc_key \<or> has_encrypted v \<or> entries_encrypted m)"
| "items_encrypted [] = False"
| "items_encrypted (x # xs) = (has_encrypted x \<or> items_encrypted xs)"

lemma strip_removes:
  "\<not> has_encrypted (fst (strip_encrypted_content_value v))"
  "\<not> entries_encrypted (fst (strip_entries m))"
  "\<not> items_encrypted (fst (strip_items xs))"
  by (induction v and m and xs
      rule: strip_encrypted_content_value_strip_entries_strip_items.induct)
    (simp_all add: Let_def)

lemma map_of_enc_key: "\<not> entries_encrypted m \<Longrightarrow> map_of m enc_key = None"
  by (induction m) auto

lemma strip_clean:
  "\<not> has_encrypted v \<Longrightarrow> strip_encrypted_content_value v = (v, False)"
  "\<not> entries_encrypted m \<Longrightarrow> strip_entries m = (m, False)"
  "\<not> items_encrypted xs \<Longrightarrow> strip_items xs = (xs, False)"
  by (induction v and m and xs
      rule: strip_encrypted_content_value_strip_entries_strip_items.induct)
    (simp_all add: Let_def map_of_enc_key)

text \<open>
  The flag of the entries' visit does not count the removed entry itself; the object's case
  adds it, so at the level of values the flag says exactly whether anything was removed
  (for a removed value's own nested fields the entry's removal already sets it).
\<close>

lemma strip_changed_iff:
  "snd (strip_encrypted_content_value v) \<longleftrightarrow> has_encrypted v"
  "map_of m enc_key \<noteq> None \<or> snd (strip_entries m) \<longleftrightarrow> entries_encrypted m"
  "snd (strip_items xs) \<longleftrightarrow> items_encrypted xs"
proof (induction v and m and xs
      rule: strip_encrypted_content_value_strip_entries_strip_items.induct)
  case (8 k v m)
  then show ?case by (cases "k = enc_key") (simp_all add: Let_def, blast?)
qed (simp_all add: Let_def)

section \<open>Bodies\<close>

definition body_has_encrypted_content_hint :: "str \<Rightarrow> bool" where
  "body_has_encrypted_content_hint body =
     (case from_utf8 body of None \<Rightarrow> False
      | Some t \<Rightarrow> str_contains t (''\"'' @ enc_key @ ''\"''))"

definition strip_encrypted_content_from_body ::
    "(str \<Rightarrow> json option) \<Rightarrow> (json \<Rightarrow> str option) \<Rightarrow> str \<Rightarrow> str option" where
  "strip_encrypted_content_from_body parse to_vec body =
     (case parse body of None \<Rightarrow> None
      | Some v \<Rightarrow>
          (let r = strip_encrypted_content_value v
           in if \<not> snd r then None else to_vec (fst r)))"

text \<open>
  A body rewritten by \<open>strip_encrypted_content_from_body\<close> is the print of a value with no
  \<open>encrypted_content\<close> key at any depth, the rewrite is refused exactly when the body does not
  parse, has no such key, or the result cannot be printed, and rewriting a value twice changes
  nothing more.
\<close>

theorem strip_body_removes_encrypted_content:
  "strip_encrypted_content_from_body parse to_vec body =
     (case parse body of None \<Rightarrow> None
      | Some v \<Rightarrow> if has_encrypted v then to_vec (fst (strip_encrypted_content_value v)) else None)
   \<and> (\<forall>v. \<not> has_encrypted (fst (strip_encrypted_content_value v))
        \<and> strip_encrypted_content_value (fst (strip_encrypted_content_value v))
            = (fst (strip_encrypted_content_value v), False))"
  by (simp add: strip_encrypted_content_from_body_def Let_def strip_changed_iff (1)
      strip_removes (1) strip_clean (1) split: option.split)

end
