(* ===== verification/Rust_F64.thy ===== *)
theory Rust_F64
  imports Complex_Main "HOL-Library.Log_Nat"
begin

text \<open>
  The \<^verbatim>\<open>f64\<close> values of the quota code. A finite double is the rational it denotes
  (the two zeros are one value, which no comparison distinguishes), and subtraction rounds the
  exact difference to the nearest double, ties to even, as IEEE 754 and both Rust and SQLite do.
  Comparisons with NaN are false.
\<close>

datatype f64 = NaN | PInf | NInf | Fin rat

section \<open>Rounding\<close>

definition pow2 :: "int \<Rightarrow> rat" where
  "pow2 e = (if 0 \<le> e then 2 ^ nat e else 1 / 2 ^ nat (- e))"

definition ilog2_rat :: "rat \<Rightarrow> int" where
  "ilog2_rat x =
     (let (n, d) = quotient_of x; k = bitlen n - bitlen d in if pow2 k \<le> x then k else k - 1)"

definition round_half_even :: "rat \<Rightarrow> int" where
  "round_half_even x =
     (let f = \<lfloor>x\<rfloor>; r = x - of_int f in
      if r < 1 / 2 then f else if 1 / 2 < r then f + 1 else if even f then f else f + 1)"

definition round_f64 :: "rat \<Rightarrow> f64" where
  "round_f64 x =
     (if x = 0 then Fin 0 else
      let e = max (ilog2_rat \<bar>x\<bar> - 52) (- 1074);
          y = of_int (round_half_even (x / pow2 e)) * pow2 e in
      if 1024 \<le> ilog2_rat \<bar>y\<bar> then (if 0 < y then PInf else NInf) else Fin y)"

section \<open>Operations\<close>

fun f64_le :: "f64 \<Rightarrow> f64 \<Rightarrow> bool" where
  "f64_le NaN _ = False"
| "f64_le _ NaN = False"
| "f64_le NInf _ = True"
| "f64_le _ PInf = True"
| "f64_le PInf _ = False"
| "f64_le _ NInf = False"
| "f64_le (Fin a) (Fin b) = (a \<le> b)"

fun f64_lt :: "f64 \<Rightarrow> f64 \<Rightarrow> bool" where
  "f64_lt NaN _ = False"
| "f64_lt _ NaN = False"
| "f64_lt PInf _ = False"
| "f64_lt _ NInf = False"
| "f64_lt NInf _ = True"
| "f64_lt _ PInf = True"
| "f64_lt (Fin a) (Fin b) = (a < b)"

fun f64_sub :: "f64 \<Rightarrow> f64 \<Rightarrow> f64" where
  "f64_sub NaN _ = NaN"
| "f64_sub _ NaN = NaN"
| "f64_sub PInf PInf = NaN"
| "f64_sub NInf NInf = NaN"
| "f64_sub PInf _ = PInf"
| "f64_sub NInf _ = NInf"
| "f64_sub (Fin _) PInf = NInf"
| "f64_sub (Fin _) NInf = PInf"
| "f64_sub (Fin a) (Fin b) = round_f64 (a - b)"

definition f64_is_finite :: "f64 \<Rightarrow> bool" where
  "f64_is_finite x = (case x of Fin _ \<Rightarrow> True | _ \<Rightarrow> False)"

text \<open>\<^verbatim>\<open>f64::clamp\<close>: NaN stays NaN.\<close>

definition f64_clamp :: "f64 \<Rightarrow> f64 \<Rightarrow> f64 \<Rightarrow> f64" where
  "f64_clamp x lo hi = (if f64_lt x lo then lo else if f64_lt hi x then hi else x)"

lemma f64_is_finite_iff: "f64_is_finite x \<longleftrightarrow> (\<exists>r. x = Fin r)"
  by (cases x) (auto simp: f64_is_finite_def)

lemma f64_clamp_bounds:
  assumes "a \<le> b" "x \<noteq> NaN"
  shows "\<exists>r. f64_clamp x (Fin a) (Fin b) = Fin r \<and> a \<le> r \<and> r \<le> b"
  using assms by (cases x) (auto simp: f64_clamp_def not_less)

lemma pow2_pos: "0 < pow2 e"
  by (simp add: pow2_def)

lemma round_half_even_nonpos:
  assumes "x \<le> 0"
  shows "round_half_even x \<le> 0"
proof -
  have f: "\<lfloor>x\<rfloor> \<le> 0" using assms by linarith
  show ?thesis
  proof (cases "\<lfloor>x\<rfloor> = 0")
    case True
    then have "x = 0" using assms by linarith
    then show ?thesis by (simp add: round_half_even_def)
  next
    case False
    with f show ?thesis by (simp add: round_half_even_def Let_def)
  qed
qed

lemma round_f64_not_NaN [simp]: "round_f64 x \<noteq> NaN"
  by (simp add: round_f64_def Let_def)

lemma round_f64_nonpos: "x \<le> 0 \<Longrightarrow> f64_le (round_f64 x) (Fin 0)"
proof -
  assume x: "x \<le> 0"
  have le: "of_int (round_half_even (x / p)) * p \<le> (0 :: rat)" if "0 < p" for p
  proof -
    have "x / p \<le> 0" using x that by (simp add: divide_nonpos_pos)
    then have "round_half_even (x / p) \<le> 0" by (rule round_half_even_nonpos)
    then show ?thesis using that by (simp add: mult_nonpos_nonneg)
  qed
  define e where "e = max (ilog2_rat \<bar>x\<bar> - 52) (- 1074)"
  define y where "y = of_int (round_half_even (x / pow2 e)) * pow2 e"
  have "y \<le> 0" unfolding y_def by (rule le [OF pow2_pos])
  then show ?thesis
    unfolding round_f64_def Let_def e_def [symmetric] y_def [symmetric] by (simp add: not_less)
qed

lemma round_f64_100: "round_f64 95 = Fin 95" "round_f64 (1 / 2) = Fin (1 / 2)"
  by code_simp+

end
