(* ===== verification/Account_Store.thy ===== *)
theory Account_Store
  imports Rust_Text Rust_F64 "HOL-Library.Product_Lexorder"
begin

text \<open>
  The SQLite tables of \<^verbatim>\<open>crates/core/src/storage\<close> the gateway routes with: accounts,
  tokens, usage snapshots and account events. A table is the list of its rows
  in scan order, so an \<^verbatim>\<open>ORDER BY\<close> that leaves ties is a stable sort, and the clauses
  of a query are functions on rows. A statement may fail: \<open>st_fault\<close> is the message every
  statement then fails with. SQLite stores a NaN as NULL.
\<close>

record account =
  acc_id :: str
  acc_label :: str
  acc_issuer :: str
  acc_chatgpt_account_id :: "str option"
  acc_workspace_id :: "str option"
  acc_group_name :: "str option"
  acc_sort :: i64
  acc_status :: str
  acc_created_at :: i64
  acc_updated_at :: i64

record token =
  tok_account_id :: str
  tok_id_token :: str
  tok_access_token :: str
  tok_refresh_token :: str
  tok_api_key_access_token :: "str option"
  tok_last_refresh :: i64

record usage_snapshot =
  us_account_id :: str
  us_used_percent :: "f64 option"
  us_window_minutes :: "i64 option"
  us_resets_at :: "i64 option"
  us_secondary_used_percent :: "f64 option"
  us_secondary_window_minutes :: "i64 option"
  us_secondary_resets_at :: "i64 option"
  us_credits_json :: "str option"
  us_captured_at :: i64

record account_event =
  ev_account_id :: "str option"
  ev_type :: str
  ev_message :: str
  ev_created_at :: i64

text \<open>An account row has the \<open>preferred\<close> column beside the fields of \<^verbatim>\<open>Account\<close>.\<close>

record store =
  st_accounts :: "(account \<times> bool) list"
  st_tokens :: "token list"
  st_snapshots :: "(nat \<times> usage_snapshot) list"
  st_events :: "(nat \<times> account_event) list"
  st_next_id :: nat
  st_fault :: "str option"

type_synonym 'a sql = "str + 'a"

definition run_sql :: "store \<Rightarrow> 'a \<Rightarrow> 'a sql" where
  "run_sql s v = (case st_fault s of Some e \<Rightarrow> Inl e | None \<Rightarrow> Inr v)"

definition sql_ok :: "'a sql \<Rightarrow> 'a option" where
  "sql_ok r = (case r of Inl e \<Rightarrow> None | Inr v \<Rightarrow> Some v)"

lemma sql_ok_simps [simp]: "sql_ok (Inl e) = None" "sql_ok (Inr v) = Some v"
  by (simp_all add: sql_ok_def)

lemma run_sql_ok [simp]: "st_fault s = None \<Longrightarrow> run_sql s v = Inr v"
  by (simp add: run_sql_def)

section \<open>Ids and chunks\<close>

definition normalize_text_ids :: "str list \<Rightarrow> str list" where
  "normalize_text_ids ids = remdups_adj (sort (filter (\<lambda>i. i \<noteq> []) (map trim ids)))"

text \<open>\<^verbatim>\<open>slice::chunks(n)\<close>.\<close>

function chunks :: "nat \<Rightarrow> 'a list \<Rightarrow> 'a list list" where
  "chunks n xs = (if xs = [] \<or> n = 0 then [] else take n xs # chunks n (drop n xs))"
  by pat_completeness auto
termination by (relation "measure (\<lambda>(n, xs). length xs)") auto

declare chunks.simps [simp del]

definition in_clause_batch_size :: nat where "in_clause_batch_size = 900"

text \<open>\<^verbatim>\<open>text_id_in_clause\<close>: no condition for no ids, otherwise membership.\<close>

definition text_id_in_clause :: "str list \<Rightarrow> (str \<Rightarrow> bool) option" where
  "text_id_in_clause ids =
     (let ids = normalize_text_ids ids
      in if ids = [] then None else Some (\<lambda>i. i \<in> set ids))"

lemma set_normalize_text_ids: "set (normalize_text_ids ids) = {i \<in> trim ` set ids. i \<noteq> []}"
  by (auto simp: normalize_text_ids_def)

lemma concat_chunks: "0 < n \<Longrightarrow> concat (chunks n xs) = xs"
proof (induction n xs rule: chunks.induct)
  case (1 n xs)
  then show ?case by (subst chunks.simps) (cases "xs = []"; simp)
qed

lemma chunks_nonempty: "c \<in> set (chunks n xs) \<Longrightarrow> c \<noteq> []"
proof (induction n xs rule: chunks.induct)
  case (1 n xs)
  show ?case
  proof (cases "xs = [] \<or> n = 0")
    case True
    with 1 (2) show ?thesis by (subst (asm) chunks.simps) simp
  next
    case False
    with 1 (2) have "c = take n xs \<or> c \<in> set (chunks n (drop n xs))"
      by (subst (asm) chunks.simps) simp
    with 1 (1) False show ?thesis by auto
  qed
qed

text \<open>The ids of a chunk are normalized already: normalizing again keeps them as a set.\<close>

lemma set_renormalize:
  "set c \<subseteq> set (normalize_text_ids ids) \<Longrightarrow> set (normalize_text_ids c) = set c"
  by (force simp: set_normalize_text_ids)

section \<open>Usage snapshots\<close>

definition sql_real :: "f64 option \<Rightarrow> f64 option" where
  "sql_real v = (case v of Some NaN \<Rightarrow> None | _ \<Rightarrow> v)"

definition insert_usage_snapshot :: "usage_snapshot \<Rightarrow> store \<Rightarrow> unit sql \<times> store" where
  "insert_usage_snapshot snap s =
     (case st_fault s of Some e \<Rightarrow> (Inl e, s)
      | None \<Rightarrow>
        (Inr (),
         s\<lparr>st_snapshots := st_snapshots s @
             [(st_next_id s,
               snap\<lparr>us_used_percent := sql_real (us_used_percent snap),
                    us_secondary_used_percent := sql_real (us_secondary_used_percent snap)\<rparr>)],
           st_next_id := Suc (st_next_id s)\<rparr>))"

text \<open>The row with \<^verbatim>\<open>rn = 1\<close> of an account: by \<open>captured_at\<close>, then by id, descending.\<close>

fun latest_row :: "('a \<Rightarrow> i64) \<Rightarrow> (nat \<times> 'a) list \<Rightarrow> (nat \<times> 'a) option" where
  "latest_row ts [] = None"
| "latest_row ts (r # rs) =
     (case latest_row ts rs of
        None \<Rightarrow> Some r
      | Some q \<Rightarrow> if (ts (snd r), fst r) < (ts (snd q), fst q) then Some q else Some r)"

definition latest_usage :: "store \<Rightarrow> str \<Rightarrow> usage_snapshot option" where
  "latest_usage s a =
     map_option snd (latest_row us_captured_at (filter (\<lambda>(_, u). us_account_id u = a) (st_snapshots s)))"

definition latest_usage_snapshot_for_account :: "store \<Rightarrow> str \<Rightarrow> usage_snapshot option sql" where
  "latest_usage_snapshot_for_account s a = run_sql s (latest_usage s a)"

text \<open>
  \<open>ranked_accounts\<close> are the accounts a \<^verbatim>\<open>PARTITION BY account_id\<close> finds among the rows
  of a condition, each once, with its latest row.
\<close>

definition ranked_usage :: "store \<Rightarrow> (str \<Rightarrow> bool) \<Rightarrow> usage_snapshot list" where
  "ranked_usage s cond =
     List.map_filter (latest_usage s)
       (remdups (filter cond (map (\<lambda>(_, u). us_account_id u) (st_snapshots s))))"

definition latest_usage_snapshots_for_accounts_chunk :: "store \<Rightarrow> str list \<Rightarrow> usage_snapshot list" where
  "latest_usage_snapshots_for_accounts_chunk s ids =
     (case text_id_in_clause ids of None \<Rightarrow> [] | Some cond \<Rightarrow> ranked_usage s cond)"

definition latest_usage_snapshots_for_accounts :: "store \<Rightarrow> str list \<Rightarrow> usage_snapshot list sql" where
  "latest_usage_snapshots_for_accounts s ids =
     (let ids = normalize_text_ids ids
      in if ids = [] then Inr []
         else run_sql s
           (sort_key (\<lambda>u. (- us_captured_at u, us_account_id u))
             (concat (map (latest_usage_snapshots_for_accounts_chunk s) (chunks in_clause_batch_size ids)))))"

text \<open>
  Pruning keeps the newest \<open>n\<close> rows of an account. \<open>newer\<close> counts the rows before it.
\<close>

definition newer_rows :: "(nat \<times> usage_snapshot) list \<Rightarrow> nat \<times> usage_snapshot \<Rightarrow> nat" where
  "newer_rows rows r =
     length (filter (\<lambda>q. us_account_id (snd q) = us_account_id (snd r)
       \<and> (us_captured_at (snd r), fst r) < (us_captured_at (snd q), fst q)) rows)"

definition prune_usage_snapshots_for_account :: "str \<Rightarrow> nat \<Rightarrow> store \<Rightarrow> nat sql \<times> store" where
  "prune_usage_snapshots_for_account a n s =
     (if n = 0 then (Inr 0, s)
      else case st_fault s of Some e \<Rightarrow> (Inl e, s)
      | None \<Rightarrow>
        (let rows = st_snapshots s;
             kept = filter (\<lambda>r. us_account_id (snd r) \<noteq> a \<or> newer_rows rows r < n) rows
         in (Inr (length rows - length kept), s\<lparr>st_snapshots := kept\<rparr>)))"

definition prune_usage_snapshots_all_accounts :: "nat \<Rightarrow> store \<Rightarrow> nat sql \<times> store" where
  "prune_usage_snapshots_all_accounts n s =
     (if n = 0 then (Inr 0, s)
      else case st_fault s of Some e \<Rightarrow> (Inl e, s)
      | None \<Rightarrow>
        (let rows = st_snapshots s; kept = filter (\<lambda>r. newer_rows rows r < n) rows
         in (Inr (length rows - length kept), s\<lparr>st_snapshots := kept\<rparr>)))"

section \<open>Low quota\<close>

definition normalize_remaining_threshold :: "f64 \<Rightarrow> f64" where
  "normalize_remaining_threshold v = (if f64_is_finite v then f64_clamp v (Fin 0) (Fin 100) else Fin 0)"

text \<open>The condition of \<^verbatim>\<open>low_quota_account_ids_for_accounts_chunk_sql\<close>.\<close>

definition low_quota_row :: "f64 \<Rightarrow> f64 \<Rightarrow> usage_snapshot \<Rightarrow> bool" where
  "low_quota_row primary secondary u \<longleftrightarrow>
     (f64_lt (Fin 0) primary \<and>
        (case us_used_percent u of None \<Rightarrow> False | Some p \<Rightarrow> f64_le (f64_sub (Fin 100) p) primary))
   \<or> (f64_lt (Fin 0) secondary \<and>
        (case us_secondary_used_percent u of None \<Rightarrow> False
         | Some p \<Rightarrow> f64_le (f64_sub (Fin 100) p) secondary))"

definition low_quota_account_ids_for_accounts_chunk ::
    "store \<Rightarrow> str list \<Rightarrow> f64 \<Rightarrow> f64 \<Rightarrow> str list" where
  "low_quota_account_ids_for_accounts_chunk s ids primary secondary =
     (case text_id_in_clause ids of None \<Rightarrow> []
      | Some cond \<Rightarrow> map us_account_id (filter (low_quota_row primary secondary) (ranked_usage s cond)))"

definition low_quota_account_ids_for_accounts :: "store \<Rightarrow> str list \<Rightarrow> f64 \<Rightarrow> f64 \<Rightarrow> str list sql" where
  "low_quota_account_ids_for_accounts s ids0 primary0 secondary0 =
     (let ids = normalize_text_ids ids0;
          primary = normalize_remaining_threshold primary0;
          secondary = normalize_remaining_threshold secondary0
      in if ids = [] then Inr []
         else if f64_le primary (Fin 0) \<and> f64_le secondary (Fin 0) then Inr []
         else run_sql s (remdups_adj (sort (concat
            (map (\<lambda>c. low_quota_account_ids_for_accounts_chunk s c primary secondary)
              (chunks in_clause_batch_size ids))))))"

end
