(* ===== verification/Account_Queries.thy ===== *)
theory Account_Queries
  imports Account_Store
begin

text \<open>
  The statements on accounts and account events: the candidate query of the gateway, the status
  and workspace updates, the preferred account, and the reason of the last status change
  (\<^verbatim>\<open>storage/accounts.rs\<close>, \<^verbatim>\<open>accounts_sql.rs\<close>, \<^verbatim>\<open>events.rs\<close>).
\<close>

section \<open>Gateway candidates\<close>

text \<open>SQLite's \<open>TRIM\<close> removes spaces only, \<open>LOWER\<close> folds ASCII.\<close>

definition sql_trim :: "str \<Rightarrow> str" where
  "sql_trim s = rev (dropWhile (\<lambda>c. c = CHR '' '') (rev (dropWhile (\<lambda>c. c = CHR '' '') s)))"

definition sql_status :: "account \<Rightarrow> str" where
  "sql_status a = to_ascii_lowercase (sql_trim (acc_status a))"

abbreviation blocked_statuses :: "str list" where
  "blocked_statuses \<equiv> [''inactive'', ''disabled'', ''unavailable'', ''limited'', ''banned'']"

definition available_usage_clause :: "usage_snapshot \<Rightarrow> bool" where
  "available_usage_clause u \<longleftrightarrow>
     us_used_percent u \<noteq> None \<and> us_window_minutes u \<noteq> None
   \<and> ((us_secondary_used_percent u = None \<and> us_secondary_window_minutes u = None)
      \<or> (us_secondary_used_percent u \<noteq> None \<and> us_secondary_window_minutes u \<noteq> None))
   \<and> (case us_used_percent u of None \<Rightarrow> False | Some p \<Rightarrow> f64_lt p (Fin 100))
   \<and> (case us_secondary_used_percent u of None \<Rightarrow> True | Some p \<Rightarrow> f64_lt p (Fin 100))"

definition gateway_account_usage_filter_clause :: "account \<Rightarrow> usage_snapshot option \<Rightarrow> bool" where
  "gateway_account_usage_filter_clause a lu \<longleftrightarrow>
     sql_status a \<notin> set blocked_statuses
   \<and> (case lu of None \<Rightarrow> True | Some u \<Rightarrow> available_usage_clause u)"

definition join_tokens :: "store \<Rightarrow> (account \<times> token) list" where
  "join_tokens s =
     concat (map (\<lambda>(a, _). map (\<lambda>t. (a, t)) (filter (\<lambda>t. tok_account_id t = acc_id a) (st_tokens s)))
       (st_accounts s))"

text \<open>
  With a condition on the ids, the latest usage is taken among the rows of the condition too;
  an account the condition selects has all its rows there.
\<close>

definition list_gateway_candidates_filtered ::
    "store \<Rightarrow> str list option \<Rightarrow> (account \<times> token) list" where
  "list_gateway_candidates_filtered s ids =
     (let clause = (case ids of None \<Rightarrow> Some (\<lambda>_. True) | Some l \<Rightarrow> text_id_in_clause l)
      in case clause of None \<Rightarrow> []
         | Some cond \<Rightarrow>
             sort_key (\<lambda>(a, t). (acc_sort a, - acc_updated_at a))
               (filter (\<lambda>(a, t). gateway_account_usage_filter_clause a
                    (if cond (acc_id a) then latest_usage s (acc_id a) else None) \<and> cond (acc_id a))
                 (join_tokens s)))"

definition list_gateway_candidates :: "store \<Rightarrow> (account \<times> token) list sql" where
  "list_gateway_candidates s = run_sql s (list_gateway_candidates_filtered s None)"

definition list_gateway_candidates_for_accounts ::
    "store \<Rightarrow> str list \<Rightarrow> (account \<times> token) list sql" where
  "list_gateway_candidates_for_accounts s ids0 =
     (let ids = normalize_text_ids ids0
      in if ids = [] then Inr []
         else run_sql s
           (sort_key (\<lambda>(a, t). (acc_sort a, - acc_updated_at a, acc_id a))
             (concat (map (\<lambda>c. list_gateway_candidates_filtered s (Some c))
               (chunks in_clause_batch_size ids)))))"

text \<open>The specification of a candidate.\<close>

definition gateway_candidate :: "store \<Rightarrow> account \<times> token \<Rightarrow> bool" where
  "gateway_candidate s c \<longleftrightarrow>
     fst c \<in> fst ` set (st_accounts s) \<and> snd c \<in> set (st_tokens s)
   \<and> tok_account_id (snd c) = acc_id (fst c)
   \<and> gateway_account_usage_filter_clause (fst c) (latest_usage s (acc_id (fst c)))"

lemma set_join_tokens:
  "set (join_tokens s) = {(a, t). a \<in> fst ` set (st_accounts s) \<and> t \<in> set (st_tokens s)
     \<and> tok_account_id t = acc_id a}"
  by (force simp: join_tokens_def)

lemma set_list_filtered_None:
  "set (list_gateway_candidates_filtered s None) = {c. gateway_candidate s c}"
  by (auto simp: list_gateway_candidates_filtered_def gateway_candidate_def set_join_tokens
      intro: rev_image_eqI)

lemma set_list_filtered_Some:
  "set (list_gateway_candidates_filtered s (Some ids))
     = {c. gateway_candidate s c \<and> acc_id (fst c) \<in> set (normalize_text_ids ids)}"
  by (auto simp: list_gateway_candidates_filtered_def gateway_candidate_def set_join_tokens
      text_id_in_clause_def Let_def intro: rev_image_eqI)

lemma set_list_chunks:
  "set (concat (map (\<lambda>c. list_gateway_candidates_filtered s (Some c))
      (chunks in_clause_batch_size (normalize_text_ids ids))))
    = {c. gateway_candidate s c \<and> acc_id (fst c) \<in> set (normalize_text_ids ids)}"
proof -
  let ?n = "normalize_text_ids ids"
  have cc: "concat (chunks in_clause_batch_size ?n) = ?n"
    by (rule concat_chunks) (simp add: in_clause_batch_size_def)
  then have sub: "set c \<subseteq> set ?n" if "c \<in> set (chunks in_clause_batch_size ?n)" for c
    using that by (metis UN_upper set_concat)
  have "set (concat (map (\<lambda>c. list_gateway_candidates_filtered s (Some c)) (chunks in_clause_batch_size ?n)))
      = (\<Union>c \<in> set (chunks in_clause_batch_size ?n).
           {x. gateway_candidate s x \<and> acc_id (fst x) \<in> set c})"
    using set_renormalize [OF sub] by (auto simp: set_list_filtered_Some)
  also have "\<dots> = {x. gateway_candidate s x \<and> acc_id (fst x) \<in> set (concat (chunks in_clause_batch_size ?n))}"
    by auto
  finally show ?thesis by (simp add: cc)
qed


definition demo_account :: "str \<Rightarrow> str \<Rightarrow> account" where
  "demo_account i status = \<lparr>acc_id = i, acc_label = ''l'', acc_issuer = ''iss'',
     acc_chatgpt_account_id = None, acc_workspace_id = None, acc_group_name = None, acc_sort = 0,
     acc_status = status, acc_created_at = 1, acc_updated_at = 1\<rparr>"

definition demo_token :: "str \<Rightarrow> token" where
  "demo_token i = \<lparr>tok_account_id = i, tok_id_token = [], tok_access_token = ''at'',
     tok_refresh_token = ''rt'', tok_api_key_access_token = None, tok_last_refresh = 1\<rparr>"

definition demo_store :: store where
  "demo_store = \<lparr>st_accounts = [(demo_account ''a'' ''active'', False), (demo_account ''b'' ''disabled'', True)],
     st_tokens = [demo_token ''a'', demo_token ''b''], st_snapshots = [], st_events = [],
     st_next_id = 0, st_fault = None\<rparr>"

lemma demo_store_fault: "st_fault demo_store = None"
  by (simp add: demo_store_def)


section \<open>Updates\<close>

definition update_accounts :: "(account \<times> bool \<Rightarrow> bool) \<Rightarrow> (account \<times> bool \<Rightarrow> account \<times> bool) \<Rightarrow> store \<Rightarrow> store" where
  "update_accounts P f s = s\<lparr>st_accounts := map (\<lambda>r. if P r then f r else r) (st_accounts s)\<rparr>"

definition exec_sql :: "store \<Rightarrow> 'a \<Rightarrow> store \<Rightarrow> 'a sql \<times> store" where
  "exec_sql s v s' = (case st_fault s of Some e \<Rightarrow> (Inl e, s) | None \<Rightarrow> (Inr v, s'))"

definition account_rows :: "store \<Rightarrow> str \<Rightarrow> (account \<times> bool) list" where
  "account_rows s i = filter (\<lambda>r. acc_id (fst r) = i) (st_accounts s)"

definition find_account_status_by_id :: "store \<Rightarrow> str \<Rightarrow> str option sql" where
  "find_account_status_by_id s i =
     run_sql s (case account_rows s i of [] \<Rightarrow> None | (a, _) # _ \<Rightarrow> Some (acc_status a))"

definition account_exists :: "store \<Rightarrow> str \<Rightarrow> bool sql" where
  "account_exists s i = run_sql s (account_rows s i \<noteq> [])"

definition update_account_status_if_changed :: "str \<Rightarrow> str \<Rightarrow> i64 \<Rightarrow> store \<Rightarrow> bool sql \<times> store" where
  "update_account_status_if_changed i status now s =
     (let P = (\<lambda>(a, _). acc_id a = i \<and> acc_status a \<noteq> status)
      in exec_sql s (list_ex P (st_accounts s))
           (update_accounts P (\<lambda>(a, p). (a\<lparr>acc_status := status, acc_updated_at := now\<rparr>, p)) s))"

definition update_account_status_if_changed_with_existence ::
    "str \<Rightarrow> str \<Rightarrow> i64 \<Rightarrow> store \<Rightarrow> (bool \<times> bool) sql \<times> store" where
  "update_account_status_if_changed_with_existence i status now s =
     (case update_account_status_if_changed i status now s of
        (Inl e, s1) \<Rightarrow> (Inl e, s1)
      | (Inr changed, s1) \<Rightarrow>
          if changed then (Inr (True, True), s1)
          else (case account_exists s1 i of Inl e \<Rightarrow> (Inl e, s1) | Inr ex \<Rightarrow> (Inr (ex, False), s1)))"

definition update_account_workspace_identity ::
    "str \<Rightarrow> str option \<Rightarrow> str option \<Rightarrow> i64 \<Rightarrow> store \<Rightarrow> bool sql \<times> store" where
  "update_account_workspace_identity i chatgpt workspace now s =
     (let P = (\<lambda>(a, _). acc_id a = i)
      in exec_sql s (list_ex P (st_accounts s))
           (update_accounts P (\<lambda>(a, p). (a\<lparr>acc_chatgpt_account_id := chatgpt,
              acc_workspace_id := workspace, acc_updated_at := now\<rparr>, p)) s))"

definition preferred_account_id :: "store \<Rightarrow> str option sql" where
  "preferred_account_id s =
     run_sql s
       (case sort_key (\<lambda>(a, _). (- acc_updated_at a, acc_id a)) (filter snd (st_accounts s)) of
          [] \<Rightarrow> None | (a, _) # _ \<Rightarrow> Some (acc_id a))"

definition set_preferred_account :: "str option \<Rightarrow> i64 \<Rightarrow> store \<Rightarrow> unit sql \<times> store" where
  "set_preferred_account target now s =
     exec_sql s ()
       (let s1 = update_accounts snd (\<lambda>(a, _). (a, False)) s
        in case target of None \<Rightarrow> s1
           | Some t \<Rightarrow>
               if trim t = [] then s1
               else update_accounts (\<lambda>(a, _). acc_id a = trim t)
                      (\<lambda>(a, _). (a\<lparr>acc_updated_at := now\<rparr>, True)) s1)"

definition clear_preferred_account_if :: "str \<Rightarrow> i64 \<Rightarrow> store \<Rightarrow> bool sql \<times> store" where
  "clear_preferred_account_if i now s =
     (if trim i = [] then (Inr False, s)
      else (let P = (\<lambda>(a, p). acc_id a = trim i \<and> p)
            in exec_sql s (list_ex P (st_accounts s))
                 (update_accounts P (\<lambda>(a, _). (a\<lparr>acc_updated_at := now\<rparr>, False)) s)))"

text \<open>\<^verbatim>\<open>insert_account\<close> with its conflict clause: \<open>created_at\<close> and \<open>preferred\<close> stay.\<close>

definition insert_account :: "account \<Rightarrow> store \<Rightarrow> unit sql \<times> store" where
  "insert_account n s =
     exec_sql s ()
       (if account_rows s (acc_id n) = []
        then s\<lparr>st_accounts := st_accounts s @ [(n, False)]\<rparr>
        else update_accounts (\<lambda>(a, _). acc_id a = acc_id n)
               (\<lambda>(a, p). (n\<lparr>acc_created_at := acc_created_at a\<rparr>, p)) s)"

section \<open>Events\<close>

definition insert_event :: "account_event \<Rightarrow> store \<Rightarrow> unit sql \<times> store" where
  "insert_event e s =
     exec_sql s ()
       (s\<lparr>st_events := st_events s @ [(st_next_id s, e)], st_next_id := Suc (st_next_id s)\<rparr>)"

abbreviation reason_marker :: str where "reason_marker \<equiv> '' reason=''"

definition extract_status_reason_from_event_message :: "str \<Rightarrow> str option" where
  "extract_status_reason_from_event_message message =
     (case split_once reason_marker message of
        None \<Rightarrow> None
      | Some (_, r) \<Rightarrow> if trim r = [] then None else Some (trim r))"

definition latest_status_event :: "store \<Rightarrow> str \<Rightarrow> account_event option" where
  "latest_status_event s i =
     map_option snd (latest_row ev_created_at
       (filter (\<lambda>(_, e). ev_type e = ''account_status_update'' \<and> ev_account_id e = Some i) (st_events s)))"

text \<open>
  \<^verbatim>\<open>latest_account_status_reasons\<close> as the map it returns: for the ids after trimming, the
  reason in the latest status event of the account, when it has one.
\<close>

definition latest_account_status_reasons :: "store \<Rightarrow> str list \<Rightarrow> (str \<rightharpoonup> str) sql" where
  "latest_account_status_reasons s ids =
     (let ids = normalize_text_ids ids
      in if ids = [] then Inr Map.empty
         else run_sql s (\<lambda>i. if i \<in> set ids
                then Option.bind (latest_status_event s i)
                       (\<lambda>e. extract_status_reason_from_event_message (ev_message e))
                else None))"

section \<open>Facts on the updates\<close>

lemma account_rows_Nil_iff: "account_rows s i = [] \<longleftrightarrow> (\<forall>r \<in> set (st_accounts s). acc_id (fst r) \<noteq> i)"
  by (auto simp: account_rows_def filter_empty_conv split: prod.splits)

lemma exec_sql_ok [simp]: "st_fault s = None \<Longrightarrow> exec_sql s v s' = (Inr v, s')"
  by (simp add: exec_sql_def)

lemma update_accounts_frame [simp, frame_simps]:
  "st_tokens (update_accounts P f s) = st_tokens s"
  "st_snapshots (update_accounts P f s) = st_snapshots s"
  "st_events (update_accounts P f s) = st_events s"
  "st_next_id (update_accounts P f s) = st_next_id s"
  "st_fault (update_accounts P f s) = st_fault s"
  by (simp_all add: update_accounts_def)

lemma account_rows_update_other:
  assumes "\<And>r. P r \<Longrightarrow> acc_id (fst r) = i" "\<And>r. acc_id (fst (f r)) = acc_id (fst r)" "j \<noteq> i"
  shows "account_rows (update_accounts P f s) j = account_rows s j"
proof -
  have "filter (\<lambda>r. acc_id (fst r) = j) (map (\<lambda>r. if P r then f r else r) rs)
      = filter (\<lambda>r. acc_id (fst r) = j) rs" for rs
    by (induction rs) (use assms in auto)
  then show ?thesis by (simp add: account_rows_def update_accounts_def)
qed

text \<open>The ids of the table: \<open>PRIMARY KEY\<close>.\<close>

definition account_ids :: "store \<Rightarrow> str list" where
  "account_ids s = map (\<lambda>r. acc_id (fst r)) (st_accounts s)"

definition accounts_wf :: "store \<Rightarrow> bool" where
  "accounts_wf s \<longleftrightarrow> distinct (account_ids s)"

lemma set_update_accounts:
  "set (st_accounts (update_accounts P f s)) = (\<lambda>r. if P r then f r else r) ` set (st_accounts s)"
  by (simp add: update_accounts_def)

lemma account_ids_update:
  "(\<And>r. acc_id (fst (f r)) = acc_id (fst r)) \<Longrightarrow> account_ids (update_accounts P f s) = account_ids s"
  by (auto simp: account_ids_def update_accounts_def case_prod_beta)

lemma find_status_wf:
  assumes "accounts_wf s" "(a, p) \<in> set (st_accounts s)"
  shows "account_rows s (acc_id a) = [(a, p)]"
proof -
  have "filter (\<lambda>r. acc_id (fst r) = acc_id a) xs = [(a, p)]"
    if "distinct (map (\<lambda>r. acc_id (fst r)) xs)" "(a, p) \<in> set xs" for xs
    using that
  proof (induction xs)
    case (Cons x xs)
    show ?case
    proof (cases "x = (a, p)")
      case True
      then have "filter (\<lambda>r. acc_id (fst r) = acc_id a) xs = []"
        using Cons.prems (1) by (force simp: filter_empty_conv)
      with True show ?thesis by simp
    next
      case False
      then have m: "(a, p) \<in> set xs" using Cons.prems (2) by simp
      then have "acc_id (fst x) \<noteq> acc_id a" using Cons.prems (1) by force
      with m Cons show ?thesis by (cases x) auto
    qed
  qed simp
  then show ?thesis using assms by (simp add: accounts_wf_def account_ids_def account_rows_def)
qed

text \<open>
  Setting a preferred account leaves exactly the rows of that account preferred, whatever was
  preferred before, and the store then answers with it when it exists; setting none, a blank
  id or an unknown one leaves nobody preferred. The ids stay what they were.
\<close>

theorem set_preferred_account_exact:
  assumes "st_fault s = None"
  shows "\<exists>s'. set_preferred_account target now s = (Inr (), s')
    \<and> (\<forall>r \<in> set (st_accounts s'). snd r \<longleftrightarrow>
         (case target of None \<Rightarrow> False | Some t \<Rightarrow> trim t \<noteq> [] \<and> acc_id (fst r) = trim t))
    \<and> preferred_account_id s' =
        Inr (case target of None \<Rightarrow> None
             | Some t \<Rightarrow> if trim t \<noteq> [] \<and> trim t \<in> set (account_ids s) then Some (trim t) else None)
    \<and> account_ids s' = account_ids s"
proof -
  let ?s' = "snd (set_preferred_account target now s)"
  let ?is = "\<lambda>i. case target of None \<Rightarrow> False | Some t \<Rightarrow> trim t \<noteq> [] \<and> i = trim t"
  have ids: "account_ids ?s' = account_ids s"
    using assms
    by (simp add: set_preferred_account_def Let_def account_ids_update case_prod_beta split: option.split)
  have pref: "snd r \<longleftrightarrow> ?is (acc_id (fst r))" if "r \<in> set (st_accounts ?s')" for r
  proof -
    have clear: "\<not> snd q" if "q \<in> set (st_accounts (update_accounts snd (\<lambda>(a, _). (a, False)) s))" for q
      using that by (auto simp: set_update_accounts)
    show ?thesis
    proof (cases "target = None \<or> trim (the target) = []")
      case True
      then have "?s' = update_accounts snd (\<lambda>(a, _). (a, False)) s"
        using assms by (auto simp: set_preferred_account_def Let_def split: option.split)
      with True clear [of r] that show ?thesis by (auto split: option.split)
    next
      case False
      then obtain u where u: "target = Some u" "trim u \<noteq> []" by auto
      then have "r \<in> set (st_accounts (update_accounts (\<lambda>(a, _). acc_id a = trim u)
          (\<lambda>(a, _). (a\<lparr>acc_updated_at := now\<rparr>, True)) (update_accounts snd (\<lambda>(a, _). (a, False)) s)))"
        using that assms by (simp add: set_preferred_account_def Let_def)
      then show ?thesis using u clear by (subst (asm) set_update_accounts) (auto split: if_splits)
    qed
  qed
  have rows: "filter snd (st_accounts ?s') = filter (\<lambda>r. ?is (acc_id (fst r))) (st_accounts ?s')"
    using pref by (intro filter_cong) auto
  have fault: "st_fault ?s' = None"
    using assms by (simp add: set_preferred_account_def Let_def split: option.split)
  have "preferred_account_id ?s' =
      Inr (case target of None \<Rightarrow> None
             | Some t \<Rightarrow> if trim t \<noteq> [] \<and> trim t \<in> set (account_ids s) then Some (trim t) else None)"
  proof (cases "sort_key (\<lambda>(a, _). (- acc_updated_at a, acc_id a)) (filter snd (st_accounts ?s'))")
    case Nil
    then have "filter snd (st_accounts ?s') = []"
      using arg_cong [OF Nil, of length] unfolding length_sort by simp
    then have "\<not> (\<exists>i \<in> set (account_ids ?s'). ?is i)"
      unfolding rows by (auto simp: account_ids_def filter_empty_conv)
    then show ?thesis using Nil assms unfolding ids
      using fault by (cases target) (auto simp: preferred_account_id_def)
  next
    case (Cons r rs)
    have "set (filter snd (st_accounts ?s')) = insert r (set rs)"
      using arg_cong [OF Cons, of set] by simp
    then have "r \<in> set (filter snd (st_accounts ?s'))" by blast
    then have r: "?is (acc_id (fst r))" "acc_id (fst r) \<in> set (account_ids ?s')"
      unfolding rows by (auto simp: account_ids_def rev_image_eqI)
    then show ?thesis using Cons fault unfolding ids
      by (cases target) (auto simp: preferred_account_id_def case_prod_beta)
  qed
  moreover have "set_preferred_account target now s = (Inr (), ?s')"
    using assms by (simp add: set_preferred_account_def)
  ultimately show ?thesis using pref ids by (intro exI [of _ ?s'] conjI ballI)
qed

theorem set_preferred_account_exact_witness:
  "\<exists>s'. set_preferred_account (Some '' a '') 5 demo_store = (Inr (), s')
     \<and> preferred_account_id s' = Inr (Some ''a'')"
proof -
  have "trim '' a '' = ''a''" by code_simp
  then show ?thesis
    using set_preferred_account_exact [OF demo_store_fault, of "Some '' a ''" 5]
    by (auto simp: account_ids_def demo_store_def demo_account_def)
qed

lemma update_status_state:
  assumes "st_fault s = None"
  shows "\<exists>s'. update_account_status_if_changed_with_existence i status now s =
        (Inr (i \<in> set (account_ids s), \<exists>r \<in> set (st_accounts s). acc_id (fst r) = i \<and> acc_status (fst r) \<noteq> status), s')
    \<and> find_account_status_by_id s' i = Inr (if i \<in> set (account_ids s) then Some status else None)
    \<and> (\<forall>j. j \<noteq> i \<longrightarrow> account_rows s' j = account_rows s j)
    \<and> account_ids s' = account_ids s
    \<and> st_fault s' = None \<and> st_events s' = st_events s \<and> st_next_id s' = st_next_id s"
proof -
  let ?P = "\<lambda>(a, _ :: bool). acc_id a = i \<and> acc_status a \<noteq> status"
  let ?f = "\<lambda>(a, p :: bool). (a\<lparr>acc_status := status, acc_updated_at := now\<rparr>, p)"
  let ?s' = "update_accounts ?P ?f s"
  have ids: "account_ids ?s' = account_ids s"
    by (rule account_ids_update) (simp add: case_prod_beta)
  have ex: "(\<exists>r \<in> set (st_accounts s). acc_id (fst r) = i \<and> acc_status (fst r) \<noteq> status) = list_ex ?P (st_accounts s)"
    by (simp add: list_ex_iff case_prod_beta)
  have mem: "i \<in> set (account_ids s') \<longleftrightarrow> account_rows s' i \<noteq> []" for s'
    by (auto simp: account_ids_def account_rows_Nil_iff)
  have mem': "i \<in> set (account_ids s) \<longleftrightarrow> account_rows ?s' i \<noteq> []"
    using mem [of ?s'] ids by simp
  have hit: "acc_status (fst r) = status" if "r \<in> set (account_rows ?s' i)" for r
  proof -
    have i: "acc_id (fst r) = i" using that by (simp add: account_rows_def)
    have "r \<in> set (st_accounts ?s')" using that by (simp add: account_rows_def)
    then obtain q where "r = (if ?P q then ?f q else q)" unfolding set_update_accounts by (rule imageE)
    with i show ?thesis by (cases q) (simp split: if_splits)
  qed
  have status: "find_account_status_by_id ?s' i = Inr (if i \<in> set (account_ids s) then Some status else None)"
  proof (cases "account_rows ?s' i")
    case Nil
    then show ?thesis unfolding mem' find_account_status_by_id_def by (simp add: assms)
  next
    case (Cons r rs)
    then have "acc_status (fst r) = status" using hit [of r] by (metis list.set_intros(1))
    then show ?thesis unfolding mem' find_account_status_by_id_def Cons
      by (cases r) (simp add: assms)
  qed
  have other: "account_rows ?s' j = account_rows s j" if "j \<noteq> i" for j
    by (rule account_rows_update_other [OF _ _ that]) (auto simp: case_prod_beta)
  have "list_ex ?P (st_accounts s) \<Longrightarrow> i \<in> set (account_ids s)"
    by (force simp: list_ex_iff account_ids_def)
  then have "update_account_status_if_changed_with_existence i status now s =
        (Inr (i \<in> set (account_ids s), list_ex ?P (st_accounts s)), ?s')"
    using assms mem' unfolding update_account_status_if_changed_with_existence_def
    by (simp add: update_account_status_if_changed_def account_exists_def Let_def)
  with status other ids ex assms show ?thesis by auto
qed



lemma update_status_facts:
  assumes "st_fault s = None"
  shows "fst (update_account_status_if_changed_with_existence i status now s) =
        Inr (i \<in> set (account_ids s), \<exists>r \<in> set (st_accounts s). acc_id (fst r) = i \<and> acc_status (fst r) \<noteq> status)"
    and "find_account_status_by_id (snd (update_account_status_if_changed_with_existence i status now s)) i
        = Inr (if i \<in> set (account_ids s) then Some status else None)"
    and "j \<noteq> i \<Longrightarrow> account_rows (snd (update_account_status_if_changed_with_existence i status now s)) j = account_rows s j"
    and "st_fault (snd (update_account_status_if_changed_with_existence i status now s)) = None"
    and "st_events (snd (update_account_status_if_changed_with_existence i status now s)) = st_events s"
    and "st_next_id (snd (update_account_status_if_changed_with_existence i status now s)) = st_next_id s"
  using update_status_state [OF assms, of i status now] by auto

lemma status_row_differs:
  assumes "Option.bind (case find_account_status_by_id s i of Inr v \<Rightarrow> Some v | Inl _ \<Rightarrow> None) (\<lambda>x. x) \<noteq> Some status"
    "st_fault s = None" "i \<in> set (account_ids s)"
  shows "\<exists>r \<in> set (st_accounts s). acc_id (fst r) = i \<and> acc_status (fst r) \<noteq> status"
proof -
  have ne: "account_rows s i \<noteq> []"
    using assms (3) by (auto simp: account_ids_def account_rows_Nil_iff)
  then obtain r rs where r: "account_rows s i = r # rs" by (cases "account_rows s i") auto
  then have "r \<in> set (account_rows s i)" by simp
  then have "r \<in> set (st_accounts s)" "acc_id (fst r) = i" by (simp_all add: account_rows_def)
  moreover have "acc_status (fst r) \<noteq> status"
    using assms (1,2) r by (cases r) (simp add: find_account_status_by_id_def)
  ultimately show ?thesis by blast
qed

text \<open>
  The status update touches only the rows of the account whose status differs, reports whether
  it changed one and whether the account exists, and the account then has the status, with
  the update time moved exactly when it changed.
\<close>

theorem update_account_status_exact:
  assumes "st_fault s = None"
  shows "\<exists>s'. update_account_status_if_changed_with_existence i status now s =
        (Inr (i \<in> set (account_ids s), \<exists>r \<in> set (st_accounts s). acc_id (fst r) = i \<and> acc_status (fst r) \<noteq> status), s')
    \<and> find_account_status_by_id s' i = Inr (if i \<in> set (account_ids s) then Some status else None)
    \<and> (\<forall>j. j \<noteq> i \<longrightarrow> account_rows s' j = account_rows s j)
    \<and> account_ids s' = account_ids s"
  using update_status_state [OF assms, of i status now] by blast

theorem update_account_status_exact_witness:
  "\<exists>s'. update_account_status_if_changed_with_existence ''a'' ''limited'' 9 demo_store = (Inr (True, True), s')
     \<and> find_account_status_by_id s' ''a'' = Inr (Some ''limited'')"
  using update_account_status_exact [OF demo_store_fault, of "''a''" "''limited''" 9]
  by (auto simp: account_ids_def demo_store_def demo_account_def)

end
