(* ===== verification/Token_Claims.thy ===== *)
theory Token_Claims
  imports Json_Value Account_Queries
begin

text \<open>
  What the gateway reads from tokens: the claims of \<^verbatim>\<open>core/src/auth/mod.rs\<close>, the account
  identity patch of \<^verbatim>\<open>usage/usage_account_meta.rs\<close> and the account plan of
  \<^verbatim>\<open>account/account_plan.rs\<close>. Base64 and JSON decoding belong to libraries and enter
  as \<open>b64\<close> and \<open>parse\<close>, both in the record \<open>decoders\<close>; a JSON object is a finite list of
  entries without duplicate keys.
\<close>

record decoders =
  dc_b64 :: "str \<Rightarrow> str option"
  dc_parse :: "str \<Rightarrow> json option"

section \<open>Claims\<close>

record auth_claims =
  au_chatgpt_account_id :: "str option"
  au_chatgpt_plan_type :: "str option"
  au_chatgpt_user_id :: "str option"
  au_user_id :: "str option"

record id_token_claims =
  ic_sub :: str
  ic_client_id :: "str option"
  ic_email :: "str option"
  ic_workspace_id :: "str option"
  ic_auth :: "auth_claims option"

text \<open>
  A derived \<^verbatim>\<open>Deserialize\<close> takes the fields from an object by name or from an array by
  position; a missing field of an option with a default is \<^verbatim>\<open>None\<close>, a value of another
  type is an error (here the outer \<open>None\<close>).
\<close>

definition struct_fields :: "str list \<Rightarrow> json \<Rightarrow> json option list option" where
  "struct_fields names v =
     (case v of
        JObj m \<Rightarrow> Some (map (map_of m) names)
      | JArr xs \<Rightarrow> if length xs \<le> length names
          then Some (map Some xs @ replicate (length names - length xs) None) else None
      | _ \<Rightarrow> None)"

definition opt_string_field :: "json option \<Rightarrow> str option option" where
  "opt_string_field f =
     (case f of None \<Rightarrow> Some None | Some JNull \<Rightarrow> Some None | Some (JStr s) \<Rightarrow> Some (Some s) | _ \<Rightarrow> None)"

definition auth_claims_of :: "json \<Rightarrow> auth_claims option" where
  "auth_claims_of v =
     (case struct_fields [''chatgpt_account_id'', ''chatgpt_plan_type'', ''chatgpt_user_id'', ''user_id''] v of
        Some [a, b, c, d] \<Rightarrow>
          bind_opt (opt_string_field a) (\<lambda>a. bind_opt (opt_string_field b) (\<lambda>b.
          bind_opt (opt_string_field c) (\<lambda>c. bind_opt (opt_string_field d) (\<lambda>d.
            Some \<lparr>au_chatgpt_account_id = a, au_chatgpt_plan_type = b, au_chatgpt_user_id = c,
                  au_user_id = d\<rparr>))))
      | _ \<Rightarrow> None)"

abbreviation auth_key :: str where "auth_key \<equiv> ''https://api.openai.com/auth''"

definition id_token_claims_of :: "json \<Rightarrow> id_token_claims option" where
  "id_token_claims_of v =
     (case struct_fields [''sub'', ''client_id'', ''email'', ''workspace_id'', auth_key] v of
        Some [Some (JStr sub), b, c, d, e] \<Rightarrow>
          bind_opt (opt_string_field b) (\<lambda>b. bind_opt (opt_string_field c) (\<lambda>c.
          bind_opt (opt_string_field d) (\<lambda>d.
          bind_opt (case e of None \<Rightarrow> Some None | Some JNull \<Rightarrow> Some None
                    | Some a \<Rightarrow> map_option Some (auth_claims_of a)) (\<lambda>e.
            Some \<lparr>ic_sub = sub, ic_client_id = b, ic_email = c, ic_workspace_id = d, ic_auth = e\<rparr>))))
      | _ \<Rightarrow> None)"

text \<open>The second part of the token, decoded and parsed: the common beginning of the readers.\<close>

definition token_payload :: "decoders \<Rightarrow> str \<Rightarrow> json option" where
  "token_payload dc token =
     (case split_on (CHR ''.'') token of
        _ # payload # _ \<Rightarrow>
          bind_opt (dc_b64 dc payload) (\<lambda>decoded. bind_opt (from_utf8 decoded) (dc_parse dc))
      | _ \<Rightarrow> None)"

definition parse_id_token_claims :: "decoders \<Rightarrow> str \<Rightarrow> id_token_claims option" where
  "parse_id_token_claims dc token = bind_opt (token_payload dc token) id_token_claims_of"

definition extract_client_id_claim :: "decoders \<Rightarrow> str \<Rightarrow> str option" where
  "extract_client_id_claim dc token =
     trimmed_nonempty (Option.bind (parse_id_token_claims dc token) ic_client_id)"

section \<open>Scoped identities\<close>

fun find_map :: "('a \<Rightarrow> 'b option) \<Rightarrow> 'a list \<Rightarrow> 'b option" where
  "find_map f [] = None"
| "find_map f (x # xs) = (case f x of Some y \<Rightarrow> Some y | None \<Rightarrow> find_map f xs)"

definition normalize_scoped_identity_value :: "str option \<Rightarrow> str \<Rightarrow> str option" where
  "normalize_scoped_identity_value value marker =
     (case trimmed_nonempty value of None \<Rightarrow> None
      | Some raw \<Rightarrow>
          (let scoped = (case rsplit_once ''::'' raw of Some (_, suffix) \<Rightarrow> suffix | None \<Rightarrow> raw)
           in case find_map (\<lambda>segment. trimmed_nonempty (strip_prefix (trim segment) marker))
                     (split_on (CHR ''|'') scoped) of
                Some found \<Rightarrow> Some found
              | None \<Rightarrow>
                  if str_contains raw ''::'' \<or> str_contains raw ''|'' \<or> str_contains raw ''=''
                     \<or> str_starts_with raw ''import-sub-''
                  then None else Some raw))"

definition normalize_chatgpt_account_id :: "str option \<Rightarrow> str option" where
  "normalize_chatgpt_account_id v = normalize_scoped_identity_value v ''cgpt=''"

definition normalize_workspace_id :: "str option \<Rightarrow> str option" where
  "normalize_workspace_id v = normalize_scoped_identity_value v ''ws=''"

definition extract_chatgpt_account_id :: "decoders \<Rightarrow> str \<Rightarrow> str option" where
  "extract_chatgpt_account_id dc token =
     bind_opt (token_payload dc token) (\<lambda>v.
       or_else (bind_opt (json_get_str v ''chatgpt_account_id'') (\<lambda>s. normalize_chatgpt_account_id (Some s)))
         (bind_opt (json_get v auth_key) (\<lambda>a.
            bind_opt (json_get_str a ''chatgpt_account_id'') (\<lambda>s. normalize_chatgpt_account_id (Some s)))))"

abbreviation workspace_keys :: "str list" where
  "workspace_keys \<equiv> [''workspace_id'', ''chatgpt_account_id'', ''organization_id'', ''org_id'']"

definition workspace_by_keys :: "json \<Rightarrow> str option" where
  "workspace_by_keys v =
     find_map (\<lambda>k. bind_opt (json_get_str v k) (\<lambda>s. normalize_workspace_id (Some s))) workspace_keys"

definition org_workspace :: "json \<Rightarrow> str option" where
  "org_workspace org = bind_opt (json_get_str org ''id'') (\<lambda>s. normalize_workspace_id (Some s))"

definition extract_workspace_id :: "decoders \<Rightarrow> str \<Rightarrow> str option" where
  "extract_workspace_id dc token =
     bind_opt (token_payload dc token) (\<lambda>v.
       or_else (workspace_by_keys v)
         (bind_opt (json_get v auth_key) (\<lambda>a.
            case a of
              JObj _ \<Rightarrow>
                or_else
                  (bind_opt (bind_opt (json_get a ''organizations'') json_as_array) (\<lambda>orgs.
                     or_else
                       (bind_opt (List.find (\<lambda>org. unwrap_or (bind_opt (json_get org ''is_default'') json_as_bool) False) orgs)
                          org_workspace)
                       (case orgs of [] \<Rightarrow> None | org # _ \<Rightarrow> org_workspace org)))
                  (workspace_by_keys a)
            | _ \<Rightarrow> None)))"

section \<open>Account identity\<close>

definition clean_header_value :: "str option \<Rightarrow> str option" where
  "clean_header_value v = trimmed_nonempty v"

definition resolve_workspace_header :: "str option \<Rightarrow> str option \<Rightarrow> str option" where
  "resolve_workspace_header workspace chatgpt =
     or_else (normalize_workspace_id workspace) (normalize_chatgpt_account_id chatgpt)"

definition workspace_header_for_account :: "account \<Rightarrow> str option" where
  "workspace_header_for_account a = resolve_workspace_header (acc_workspace_id a) (acc_chatgpt_account_id a)"

definition derive_account_meta :: "decoders \<Rightarrow> token \<Rightarrow> str option \<times> str option" where
  "derive_account_meta dc t =
     (let claims = parse_id_token_claims dc (tok_id_token t);
          chatgpt0 = bind_opt claims (\<lambda>c. bind_opt (ic_auth c)
                       (\<lambda>a. normalize_chatgpt_account_id (au_chatgpt_account_id a)));
          workspace0 = bind_opt claims (\<lambda>c. normalize_workspace_id (ic_workspace_id c));
          workspace1 = (if workspace0 = None
             then clean_header_value (or_else (extract_workspace_id dc (tok_id_token t))
                                       (extract_workspace_id dc (tok_access_token t)))
             else workspace0);
          chatgpt1 = (if chatgpt0 = None
             then clean_header_value (or_else (extract_chatgpt_account_id dc (tok_id_token t))
                                       (extract_chatgpt_account_id dc (tok_access_token t)))
             else chatgpt0);
          workspace2 = (if workspace1 = None then chatgpt1 else workspace1)
      in (chatgpt1, workspace2))"

definition is_invalid_upstream_scope_value :: "str \<Rightarrow> bool" where
  "is_invalid_upstream_scope_value v \<longleftrightarrow>
     (let t = trim v in t = [] \<or> str_contains t ''|'' \<or> str_starts_with t ''import-sub-'')"

text \<open>One field of the patch: the new value and whether it changed.\<close>

definition patch_field :: "str option \<Rightarrow> str option \<Rightarrow> str option \<times> bool" where
  "patch_field current next =
     (case next of None \<Rightarrow> (current, False)
      | Some n \<Rightarrow>
          if is_invalid_upstream_scope_value n then (current, False)
          else if trim (unwrap_or current []) \<noteq> n then (Some n, True) else (current, False))"

definition apply_account_identity_patch ::
    "str option \<times> str option \<Rightarrow> str option \<Rightarrow> str option \<Rightarrow> (str option \<times> str option) \<times> bool" where
  "apply_account_identity_patch ident chatgpt workspace =
     (let next_chatgpt = normalize_chatgpt_account_id chatgpt;
          next_workspace = normalize_workspace_id workspace;
          (c, ch1) = patch_field (fst ident) next_chatgpt;
          (w, ch2) = patch_field (snd ident) (or_else next_workspace next_chatgpt)
      in ((c, w), ch1 \<or> ch2))"

definition patch_account_meta_in_place :: "account \<Rightarrow> str option \<Rightarrow> str option \<Rightarrow> account \<times> bool" where
  "patch_account_meta_in_place a chatgpt workspace =
     (let ((c, w), changed) = apply_account_identity_patch
            (acc_chatgpt_account_id a, acc_workspace_id a) chatgpt workspace
      in (if changed then a\<lparr>acc_chatgpt_account_id := c, acc_workspace_id := w\<rparr> else a, changed))"

lemma find_map_Some: "find_map f xs = Some y \<Longrightarrow> \<exists>x \<in> set xs. f x = Some y"
  by (induction xs) (auto split: option.splits)

lemma normalize_scoped_trimmed:
  "normalize_scoped_identity_value v m = Some r \<Longrightarrow> r \<noteq> [] \<and> trim r = r"
  by (auto simp: normalize_scoped_identity_value_def Let_def
      dest!: find_map_Some trimmed_nonempty_SomeD split: option.splits if_splits)

text \<open>A value without a marker is taken as it is only when it is a plain identifier.\<close>

lemma normalize_scoped_plain:
  assumes "trimmed_nonempty v = Some raw" "\<not> str_contains raw ''::''" "\<not> str_contains raw ''|''"
    "\<not> str_contains raw ''=''" "\<not> str_starts_with raw ''import-sub-''" "str_contains m ''=''"
  shows "normalize_scoped_identity_value v m = Some raw"
proof -
  have "rsplit_once ''::'' raw = None"
  proof (cases "rsplit_once ''::'' raw")
    case (Some p)
    then have "raw = fst p @ ''::'' @ snd p" by (intro rsplit_once_SomeD) simp
    then have "str_contains raw ''::''" by (metis str_contains_infix)
    with assms (2) show ?thesis by simp
  qed simp
  moreover have "CHR ''|'' \<notin> set raw"
    using assms (3) by (metis str_contains_iff split_list append_Cons append_Nil)
  then have "split_on (CHR ''|'') raw = [raw]"
    by (induction raw) (auto split: list.splits)
  moreover have "strip_prefix raw m = None"
  proof -
    have "\<not> str_starts_with raw m"
    proof
      assume "str_starts_with raw m"
      then obtain t u w where "raw = m @ t" "m = u @ ''='' @ w"
        using assms (6) by (auto simp: str_starts_with_iff str_contains_iff)
      then have "raw = u @ ''='' @ (w @ t)" by simp
      then have "str_contains raw ''=''" by (metis str_contains_infix)
      with assms (4) show False ..
    qed
    then show ?thesis by (simp add: strip_prefix_def)
  qed
  moreover have "trim raw = raw" using assms (1) trimmed_nonempty_SomeD by blast
  ultimately show ?thesis using assms (1-5)
    by (simp add: normalize_scoped_identity_value_def trimmed_nonempty_def)
qed

lemma patch_field_again:
  "(\<forall>n. next = Some n \<longrightarrow> trim n = n)
    \<Longrightarrow> patch_field (fst (patch_field current next)) next = (fst (patch_field current next), False)"
  by (auto simp: patch_field_def split: option.splits if_splits)

lemma patch_field_valid:
  "patch_field current next = (f, True)
    \<Longrightarrow> \<exists>n. f = Some n \<and> next = Some n \<and> \<not> is_invalid_upstream_scope_value n"
  by (auto simp: patch_field_def split: option.splits if_splits)

lemma patch_field_unchanged: "patch_field current next = (f, False) \<Longrightarrow> f = current"
  by (auto simp: patch_field_def split: option.splits if_splits)

text \<open>
  Patching an account's ChatGPT and workspace ids settles in one step: the same patch again
  changes nothing and says so, so a refresh does not rewrite the account's row each time.
  An id it stored is trimmed, has no bar and is not an import placeholder.
\<close>

theorem account_identity_patch_settles:
  assumes "apply_account_identity_patch ident chatgpt workspace = (new, changed)"
  shows "apply_account_identity_patch new chatgpt workspace = (new, False)
    \<and> (\<not> changed \<longrightarrow> new = ident)
    \<and> (fst new \<noteq> fst ident \<longrightarrow> (\<exists>n. fst new = Some n \<and> \<not> is_invalid_upstream_scope_value n))
    \<and> (snd new \<noteq> snd ident \<longrightarrow> (\<exists>n. snd new = Some n \<and> \<not> is_invalid_upstream_scope_value n))"
proof -
  let ?c = "normalize_chatgpt_account_id chatgpt"
  let ?w = "or_else (normalize_workspace_id workspace) ?c"
  have tc: "\<forall>n. ?c = Some n \<longrightarrow> trim n = n"
    using normalize_scoped_trimmed by (auto simp: normalize_chatgpt_account_id_def)
  have tw: "\<forall>n. ?w = Some n \<longrightarrow> trim n = n"
    using normalize_scoped_trimmed tc
    by (auto simp: normalize_workspace_id_def or_else_def split: option.splits)
  have n: "new = (fst (patch_field (fst ident) ?c), fst (patch_field (snd ident) ?w))"
    "changed = (snd (patch_field (fst ident) ?c) \<or> snd (patch_field (snd ident) ?w))"
    using assms by (auto simp: apply_account_identity_patch_def Let_def split: prod.splits)
  have "apply_account_identity_patch new chatgpt workspace = (new, False)"
    using patch_field_again [OF tc] patch_field_again [OF tw]
    by (simp add: apply_account_identity_patch_def Let_def n (1) case_prod_beta)
  moreover have "fst (patch_field cur next) = cur \<or> (\<exists>n. fst (patch_field cur next) = Some n \<and> \<not> is_invalid_upstream_scope_value n)"
    for cur "next" by (auto simp: patch_field_def split: option.split)
  moreover have "\<not> changed \<longrightarrow> new = ident"
    using n patch_field_unchanged by (metis prod.collapse)
  ultimately show ?thesis using n (1) by (metis fst_conv snd_conv)
qed

theorem account_identity_patch_settles_witness:
  "apply_account_identity_patch (Some ''acc_1'', Some ''acc_1'') (Some '' acc_1 '') None
     = ((Some ''acc_1'', Some ''acc_1''), False)"
proof -
  have "apply_account_identity_patch (None, None) (Some '' acc_1 '') None
     = ((Some ''acc_1'', Some ''acc_1''), True)" by code_simp
  from account_identity_patch_settles [OF this] show ?thesis by simp
qed

end
