(* ===== verification/Account_Plan.thy ===== *)
theory Account_Plan
  imports Token_Claims
begin

text \<open>
  \<^verbatim>\<open>account/account_plan.rs\<close>: the plan of an account, from its tokens, else from the
  credits of its usage snapshot, else from the shape of the snapshot, and the plan filter of an
  API key.
\<close>

record account_plan =
  pl_normalized :: str
  pl_raw :: "str option"

definition normalize_plan_type :: "str \<Rightarrow> account_plan option" where
  "normalize_plan_type value =
     (let t = trim value in
      if t = [] then None else
      (let n = to_ascii_lowercase t;
           known =
             (if str_contains n ''free'' then Some ''free''
              else if n = ''go'' \<or> str_ends_with n ''_go'' \<or> str_contains n ''chatgpt_go'' then Some ''go''
              else if str_contains n ''plus'' then Some ''plus''
              else if str_contains n ''business'' then Some ''business''
              else if str_contains n ''team'' then Some ''team''
              else if str_contains n ''enterprise'' then Some ''enterprise''
              else if n = ''edu'' \<or> str_contains n ''education'' then Some ''edu''
              else if str_contains n ''pro'' then Some ''pro''
              else None)
       in Some (case known of
            Some plan \<Rightarrow> \<lparr>pl_normalized = plan, pl_raw = (if plan = n then None else Some t)\<rparr>
          | None \<Rightarrow> \<lparr>pl_normalized = ''unknown'', pl_raw = Some t\<rparr>)))"

definition normalize_account_plan_value :: "str \<Rightarrow> str option" where
  "normalize_account_plan_value v = map_option pl_normalized (normalize_plan_type v)"

definition lower_nonempty :: "str option \<Rightarrow> str option" where
  "lower_nonempty v = map_option to_ascii_lowercase (trimmed_nonempty v)"

definition extract_plan_type_from_id_token :: "decoders \<Rightarrow> str \<Rightarrow> str option" where
  "extract_plan_type_from_id_token dc t =
     lower_nonempty (bind_opt (bind_opt (parse_id_token_claims dc t) ic_auth) au_chatgpt_plan_type)"

definition is_free_plan_type :: "str option \<Rightarrow> bool" where
  "is_free_plan_type v =
     (case v of None \<Rightarrow> False
      | Some p \<Rightarrow> (let n = to_ascii_lowercase (trim p) in if n = [] then False else str_contains n ''free''))"

abbreviation plan_keys :: "str list" where
  "plan_keys \<equiv> [''plan_type'', ''planType'', ''subscription_tier'', ''subscriptionTier'', ''tier'',
     ''account_type'', ''accountType'', ''type'']"

text \<open>The keys of an object first, then its values in order; the first hit wins.\<close>

fun extract_string_by_keys_recursive :: "json \<Rightarrow> str list \<Rightarrow> str option"
  and keys_in_values :: "(str \<times> json) list \<Rightarrow> str list \<Rightarrow> str option"
  and keys_in_items :: "json list \<Rightarrow> str list \<Rightarrow> str option" where
  "extract_string_by_keys_recursive (JObj m) keys =
     (case find_map (\<lambda>k. lower_nonempty (bind_opt (map_of m k) json_as_str)) keys of
        Some s \<Rightarrow> Some s
      | None \<Rightarrow> keys_in_values m keys)"
| "extract_string_by_keys_recursive (JArr xs) keys = keys_in_items xs keys"
| "extract_string_by_keys_recursive JNull keys = None"
| "extract_string_by_keys_recursive (JBool b) keys = None"
| "extract_string_by_keys_recursive (JNum n) keys = None"
| "extract_string_by_keys_recursive (JStr s) keys = None"
| "keys_in_values [] keys = None"
| "keys_in_values ((k, v) # m) keys =
     (case extract_string_by_keys_recursive v keys of Some s \<Rightarrow> Some s | None \<Rightarrow> keys_in_values m keys)"
| "keys_in_items [] keys = None"
| "keys_in_items (x # xs) keys =
     (case extract_string_by_keys_recursive x keys of Some s \<Rightarrow> Some s | None \<Rightarrow> keys_in_items xs keys)"

definition extract_plan_type_from_credits_json :: "decoders \<Rightarrow> str option \<Rightarrow> str option" where
  "extract_plan_type_from_credits_json dc raw =
     bind_opt raw (\<lambda>r. bind_opt (dc_parse dc r) (\<lambda>v. extract_string_by_keys_recursive v plan_keys))"

definition is_free_plan_from_credits_json :: "decoders \<Rightarrow> str option \<Rightarrow> bool" where
  "is_free_plan_from_credits_json dc raw = is_free_plan_type (extract_plan_type_from_credits_json dc raw)"

definition is_long_window :: "i64 option \<Rightarrow> bool" where
  "is_long_window w = (case w of None \<Rightarrow> False | Some v \<Rightarrow> 24 * 60 + 3 < v)"

definition is_single_window_long_usage_snapshot :: "usage_snapshot \<Rightarrow> bool" where
  "is_single_window_long_usage_snapshot u =
     (let primary = us_used_percent u \<noteq> None \<or> us_window_minutes u \<noteq> None;
          secondary = us_secondary_used_percent u \<noteq> None \<or> us_secondary_window_minutes u \<noteq> None
      in primary \<and> \<not> secondary \<and> is_long_window (us_window_minutes u))"

text \<open>The token's part of the argument is its access and id token.\<close>

definition resolve_account_plan ::
    "decoders \<Rightarrow> (str \<times> str) option \<Rightarrow> usage_snapshot option \<Rightarrow> account_plan option" where
  "resolve_account_plan dc token snapshot =
     (let token_plan = or_else (bind_opt token (\<lambda>(access, idt). extract_plan_type_from_id_token dc access))
                         (bind_opt token (\<lambda>(access, idt). extract_plan_type_from_id_token dc idt))
      in case bind_opt token_plan normalize_plan_type of
           Some plan \<Rightarrow> Some plan
         | None \<Rightarrow>
             (let usage_plan = bind_opt snapshot (\<lambda>u. extract_plan_type_from_credits_json dc (us_credits_json u))
              in case bind_opt usage_plan normalize_plan_type of
                   Some plan \<Rightarrow> Some plan
                 | None \<Rightarrow>
                     if (case snapshot of None \<Rightarrow> False | Some u \<Rightarrow> is_single_window_long_usage_snapshot u)
                     then Some \<lparr>pl_normalized = ''free'', pl_raw = None\<rparr> else None))"

definition resolve_effective_account_plan ::
    "decoders \<Rightarrow> (str \<times> str) option \<Rightarrow> usage_snapshot option \<Rightarrow> str option option \<Rightarrow> account_plan option" where
  "resolve_effective_account_plan dc token snapshot subscription_plan =
     (case bind_opt (bind_opt subscription_plan (\<lambda>p. p)) normalize_plan_type of
        Some plan \<Rightarrow> Some plan
      | None \<Rightarrow> resolve_account_plan dc token snapshot)"

definition token_plan_from_token :: "token \<Rightarrow> str \<times> str" where
  "token_plan_from_token t = (tok_access_token t, tok_id_token t)"

definition resolve_token_account_plan :: "decoders \<Rightarrow> token \<Rightarrow> account_plan option" where
  "resolve_token_account_plan dc t = resolve_account_plan dc (Some (token_plan_from_token t)) None"

definition account_matches_plan_filter_with_snapshot ::
    "decoders \<Rightarrow> token \<Rightarrow> usage_snapshot option \<Rightarrow> str option \<Rightarrow> bool" where
  "account_matches_plan_filter_with_snapshot dc t snapshot plan_filter =
     (case trimmed_nonempty plan_filter of
        None \<Rightarrow> True
      | Some f \<Rightarrow>
          if eq_ignore_ascii_case f ''all'' then True
          else (case resolve_account_plan dc (Some (token_plan_from_token t)) snapshot of
                  Some plan \<Rightarrow> pl_normalized plan = to_ascii_lowercase f
                | None \<Rightarrow> to_ascii_lowercase f = ''unknown''))"

text \<open>The Chinese word for all in \<^verbatim>\<open>normalize_account_plan_filter\<close>, in UTF-8.\<close>

definition all_zh :: str where
  "all_zh = map char_of [0xE5, 0x85, 0xA8, 0xE9, 0x83, 0xA8 :: nat]"

definition normalize_account_plan_filter :: "str option \<Rightarrow> str + str option" where
  "normalize_account_plan_filter value =
     (let t = trim (unwrap_or value []) in
      if t = [] \<or> eq_ignore_ascii_case t ''all'' \<or> t = all_zh then Inr None
      else (let n = to_ascii_lowercase t in
        if n \<in> set [''free'', ''go'', ''plus'', ''pro'', ''team'', ''business'', ''enterprise'', ''edu'', ''unknown'']
        then Inr (Some n)
        else if n = ''education'' then Inr (Some ''edu'')
        else Inl (''unsupported account plan filter: '' @ t)))"

section \<open>Facts\<close>

abbreviation plan_names :: "str list" where
  "plan_names \<equiv> [''free'', ''go'', ''plus'', ''business'', ''team'', ''enterprise'', ''edu'', ''pro'', ''unknown'']"

lemma normalize_plan_type_known:
  "normalize_plan_type v = Some p \<Longrightarrow> pl_normalized p \<in> set plan_names"
  by (auto simp: normalize_plan_type_def Let_def split: if_splits)

lemma resolve_account_plan_known:
  "resolve_account_plan dc t u = Some p \<Longrightarrow> pl_normalized p \<in> set plan_names"
  by (auto simp: resolve_account_plan_def Let_def bind_opt_def dest: normalize_plan_type_known
      split: option.splits if_splits)

text \<open>The name of the plan a filter is compared with.\<close>

definition plan_name :: "decoders \<Rightarrow> token \<Rightarrow> usage_snapshot option \<Rightarrow> str" where
  "plan_name dc t u =
     (case resolve_account_plan dc (Some (token_plan_from_token t)) u of
        Some p \<Rightarrow> pl_normalized p | None \<Rightarrow> ''unknown'')"

lemma plan_name_known: "plan_name dc t u \<in> set plan_names"
  using resolve_account_plan_known [of dc "Some (token_plan_from_token t)" u]
  by (cases "resolve_account_plan dc (Some (token_plan_from_token t)) u") (simp_all add: plan_name_def)

lemma filter_name_facts:
  "f \<in> set plan_names \<Longrightarrow>
     trimmed_nonempty (Some f) = Some f \<and> to_ascii_lowercase f = f \<and> \<not> eq_ignore_ascii_case f ''all''"
proof -
  have "list_all (\<lambda>f. trimmed_nonempty (Some f) = Some f \<and> to_ascii_lowercase f = f
      \<and> \<not> eq_ignore_ascii_case f ''all'') plan_names"
    by code_simp
  then show "f \<in> set plan_names \<Longrightarrow> ?thesis" unfolding list_all_iff by blast
qed

lemma matches_plan_name:
  assumes "f \<in> set plan_names"
  shows "account_matches_plan_filter_with_snapshot dc t u (Some f) \<longleftrightarrow> plan_name dc t u = f"
  using filter_name_facts [OF assms]
  by (auto simp: account_matches_plan_filter_with_snapshot_def plan_name_def split: option.split)

text \<open>
  The plan filters of the API keys divide the accounts: whatever its tokens and its usage
  snapshot say, an account matches exactly one of the nine plan names, and a filter the
  configuration accepts is one of them or none, which every account matches.
\<close>

theorem plan_filter_partitions_accounts:
  "(\<exists>!f. f \<in> set plan_names \<and> account_matches_plan_filter_with_snapshot dc t u (Some f))
   \<and> (case normalize_account_plan_filter v of
        Inl e \<Rightarrow> True
      | Inr None \<Rightarrow> account_matches_plan_filter_with_snapshot dc t u None
      | Inr (Some f) \<Rightarrow> f \<in> set plan_names
          \<and> (account_matches_plan_filter_with_snapshot dc t u (Some f) = (plan_name dc t u = f)))"
proof -
  have "\<exists>!f. f \<in> set plan_names \<and> account_matches_plan_filter_with_snapshot dc t u (Some f)"
  proof (rule ex1I [of _ "plan_name dc t u"])
    show "plan_name dc t u \<in> set plan_names
        \<and> account_matches_plan_filter_with_snapshot dc t u (Some (plan_name dc t u))"
      using plan_name_known matches_plan_name [OF plan_name_known] by blast
  next
    fix f assume f: "f \<in> set plan_names \<and> account_matches_plan_filter_with_snapshot dc t u (Some f)"
    then have "f \<in> set plan_names" by blast
    from matches_plan_name [OF this] f show "f = plan_name dc t u" by simp
  qed
  moreover have "f \<in> set plan_names" if "normalize_account_plan_filter v = Inr (Some f)" for f
    using that by (auto simp: normalize_account_plan_filter_def Let_def split: if_splits)
  ultimately show ?thesis
    using matches_plan_name
    by (auto simp: account_matches_plan_filter_with_snapshot_def trimmed_nonempty_def
        split: sum.split option.split)
qed

end
