(* ===== verification/Error_Text.thy ===== *)
theory Error_Text
  imports Rust_Text Json_Value
begin

text \<open>
  The texts errors travel in: the bilingual messages of \<^verbatim>\<open>gateway/mod.rs\<close> and what a
  client gets of them, the identity error header, and the refresh token errors of
  \<^verbatim>\<open>usage/usage_http.rs\<close>, which are printed in one place and classified from their
  text in another. The text of a status code beside its number is the HTTP crate's and enters
  as \<open>phrase\<close>; JSON parsing enters as \<open>parse\<close>.
\<close>

section \<open>Bilingual messages\<close>

definition bilingual_error :: "str \<Rightarrow> str \<Rightarrow> str" where
  "bilingual_error zh en = zh @ ''('' @ en @ '')''"

definition extract_raw_error_message :: "str \<Rightarrow> str option" where
  "extract_raw_error_message message =
     (case rsplit_once ''('' message of None \<Rightarrow> None
      | Some (_, tail) \<Rightarrow>
          (case strip_suffix tail '')'' of None \<Rightarrow> None
           | Some t \<Rightarrow>
               (let t = trim t in
                if t = [] \<or> \<not> is_ascii t \<or> \<not> list_ex is_ascii_alphabetic t then None else Some t)))"

definition is_codex_user_agent :: "str \<Rightarrow> bool" where
  "is_codex_user_agent v \<longleftrightarrow> str_contains (to_ascii_lowercase v) ''codex_cli_rs''"

definition is_codex_header_name :: "str \<Rightarrow> bool" where
  "is_codex_header_name n \<longleftrightarrow>
     eq_ignore_ascii_case n ''x-openai-subagent''
   \<or> eq_ignore_ascii_case n ''x-client-request-id''
   \<or> eq_ignore_ascii_case n ''session_id''
   \<or> eq_ignore_ascii_case n ''conversation_id''
   \<or> str_starts_with (to_ascii_lowercase n) ''x-codex-''"

text \<open>Headers are name and value pairs; a value that is no text is \<open>None\<close>.\<close>

definition prefers_raw_errors_for_http_headers :: "(str \<times> str option) list \<Rightarrow> bool" where
  "prefers_raw_errors_for_http_headers hs \<longleftrightarrow>
     list_ex (\<lambda>(n, v). is_codex_header_name n
        \<or> (eq_ignore_ascii_case n ''User-Agent''
            \<and> (case v of None \<Rightarrow> False | Some t \<Rightarrow> is_codex_user_agent t))) hs"

definition prefers_raw_errors_for_tiny_http_request :: "(str \<times> str) list \<Rightarrow> bool" where
  "prefers_raw_errors_for_tiny_http_request hs \<longleftrightarrow>
     list_ex (\<lambda>(n, v). is_codex_header_name n
        \<or> (eq_ignore_ascii_case n ''User-Agent'' \<and> is_codex_user_agent v)) hs"

definition error_message_for_client :: "bool \<Rightarrow> str \<Rightarrow> str" where
  "error_message_for_client prefers_raw message =
     (case extract_raw_error_message message of Some raw \<Rightarrow> raw | None \<Rightarrow> message)"

text \<open>
  The client gets exactly the English half of a bilingual error when that half is trimmed
  ASCII text with a letter and without a parenthesis, whatever the Chinese half is and
  whatever the client prefers; a message that is not of this shape reaches it unchanged.
\<close>

theorem bilingual_error_client_roundtrip:
  assumes "CHR ''('' \<notin> set en" "trim en = en" "is_ascii en" "list_ex is_ascii_alphabetic en"
  shows "error_message_for_client b (bilingual_error zh en) = en
    \<and> extract_raw_error_message (bilingual_error zh en) = Some en
    \<and> (CHR ''('' \<notin> set m \<longrightarrow> error_message_for_client b m = m)"
proof -
  have ne: "en \<noteq> []" using assms (4) by auto
  have "rsplit_once ''('' (zh @ CHR ''('' # (en @ '')'')) = Some (zh, en @ '')'')"
    by (rule rsplit_once_single) (use assms (1) in simp)
  moreover have "strip_suffix (en @ '')'') '')'' = Some en"
    by (simp add: strip_suffix_def str_ends_with_iff)
  ultimately have e: "extract_raw_error_message (bilingual_error zh en) = Some en"
    using assms (2-4) ne by (simp add: extract_raw_error_message_def bilingual_error_def)
  have "error_message_for_client b m = m" if "CHR ''('' \<notin> set m"
    using that split_once_single_None [of "CHR ''(''" "rev m"]
    by (simp add: error_message_for_client_def extract_raw_error_message_def rsplit_once_def)
  with e show ?thesis by (simp add: error_message_for_client_def)
qed

theorem bilingual_error_client_roundtrip_witness:
  "error_message_for_client True (bilingual_error ''zh'' ''no available account'') = ''no available account''"
proof -
  have "trim ''no available account'' = ''no available account''" by code_simp
  moreover have "is_ascii ''no available account''" by code_simp
  moreover have "list_ex is_ascii_alphabetic ''no available account''" by code_simp
  ultimately show ?thesis
    using bilingual_error_client_roundtrip [of "''no available account''" True "''zh''" "[]"] by simp
qed

text \<open>
  The split is at the last parenthesis, so an English half that itself ends in a parenthesis
  reaches the client cut: the text after its own last parenthesis, with the closing one.
\<close>

lemma nested_parenthesis_is_cut:
  "error_message_for_client False (bilingual_error ''zh'' ''candidate resolve failed: no such table (accounts)'')
     = ''accounts)''"
  by code_simp

section \<open>Refresh token errors\<close>

datatype refresh_reason =
    Expired | Reused | Invalidated | InvalidGrant | AppSessionTerminated | Unknown401

fun as_code :: "refresh_reason \<Rightarrow> str" where
  "as_code Expired = ''refresh_token_expired''"
| "as_code Reused = ''refresh_token_reused''"
| "as_code Invalidated = ''refresh_token_invalidated''"
| "as_code InvalidGrant = ''invalid_grant''"
| "as_code AppSessionTerminated = ''app_session_terminated''"
| "as_code Unknown401 = ''refresh_token_unknown_401''"

fun user_message :: "refresh_reason \<Rightarrow> str" where
  "user_message Expired = ''Your access token could not be refreshed because your refresh token has expired. Please log out and sign in again.''"
| "user_message Reused = ''Your access token could not be refreshed because your refresh token was already used. Please log out and sign in again.''"
| "user_message Invalidated = ''Your access token could not be refreshed because your refresh token was revoked. Please log out and sign in again.''"
| "user_message InvalidGrant = ''Your access token could not be refreshed because your refresh token is no longer valid. Please log out and sign in again.''"
| "user_message AppSessionTerminated = ''Your session has ended. Please log in again.''"
| "user_message Unknown401 = ''Your access token could not be refreshed. Please log out and sign in again.''"

definition nonblank_lower :: "str option \<Rightarrow> str option" where
  "nonblank_lower v =
     (case v of None \<Rightarrow> None | Some s \<Rightarrow> if trim s = [] then None else Some (to_ascii_lowercase s))"

definition extract_refresh_token_error_code :: "(str \<Rightarrow> json option) \<Rightarrow> str \<Rightarrow> str option" where
  "extract_refresh_token_error_code parse body =
     (case parse body of None \<Rightarrow> None
      | Some v \<Rightarrow>
          or_else (nonblank_lower (json_get_str v ''error''))
         (or_else (nonblank_lower (json_get_str v ''code''))
           (nonblank_lower (Option.bind (json_get v ''error'') (\<lambda>e. json_get_str e ''code'')))))"

definition classify_refresh_token_auth_error_reason_from_code :: "str option \<Rightarrow> refresh_reason" where
  "classify_refresh_token_auth_error_reason_from_code code =
     (if code = Some ''refresh_token_expired'' then Expired
      else if code = Some ''refresh_token_reused'' then Reused
      else if code = Some ''refresh_token_invalidated'' then Invalidated
      else if code = Some ''invalid_grant'' then InvalidGrant
      else if code = Some ''app_session_terminated'' then AppSessionTerminated
      else Unknown401)"

definition classify_refresh_token_auth_error_reason_with_headers ::
    "(str \<Rightarrow> json option) \<Rightarrow> nat \<Rightarrow> str \<Rightarrow> refresh_reason option" where
  "classify_refresh_token_auth_error_reason_with_headers parse status body =
     (let code = extract_refresh_token_error_code parse body in
      if status = 400 \<and> code = Some ''app_session_terminated'' then Some AppSessionTerminated
      else if status = 401 then Some (classify_refresh_token_auth_error_reason_from_code code)
      else None)"

definition looks_like_refresh_token_blocked_marker :: "str \<Rightarrow> bool" where
  "looks_like_refresh_token_blocked_marker v \<longleftrightarrow>
     any_contains (to_ascii_lowercase (trim v))
       [''blocked'', ''unsupported_country_region_territory'', ''unsupported_country'', ''region_restricted'']"

definition is_region_blocked_error_message :: "str \<Rightarrow> bool" where
  "is_region_blocked_error_message m \<longleftrightarrow>
     any_contains (to_ascii_lowercase (trim m))
       [''unsupported_country_region_territory'', ''unsupported_country'', ''region_restricted'',
        ''kind=cloudflare_blocked'', ''access blocked by cloudflare'',
        ''country, region, or territory not supported'']"

definition is_refresh_token_region_blocked_error_message :: "str \<Rightarrow> bool" where
  "is_refresh_token_region_blocked_error_message m \<longleftrightarrow>
     str_contains (to_ascii_lowercase (trim m)) ''refresh token failed'' \<and> is_region_blocked_error_message m"

definition refresh_token_auth_error_reason_from_message :: "str \<Rightarrow> refresh_reason option" where
  "refresh_token_auth_error_reason_from_message message =
     (let n = trim message;
          is_401 = str_contains n ''refresh token failed with status 401'';
          is_400 = str_contains n ''refresh token failed with status 400'';
          grant = is_400 \<and> str_contains n ''invalid_grant'';
          session = is_400 \<and> (str_contains n ''app_session_terminated''
                      \<or> str_contains n (user_message AppSessionTerminated))
      in if \<not> is_401 \<and> \<not> grant \<and> \<not> session then None
         else if grant then Some InvalidGrant
         else if session then Some AppSessionTerminated
         else if str_contains n (user_message Expired) then Some Expired
         else if str_contains n (user_message Reused) then Some Reused
         else if str_contains n (user_message Invalidated) then Some Invalidated
         else if str_contains n (user_message InvalidGrant) then Some InvalidGrant
         else if str_contains n (user_message AppSessionTerminated) then Some AppSessionTerminated
         else Some Unknown401)"

text \<open>
  The first branch of \<open>format_refresh_token_status_error_with_headers\<close>: an error the
  classification recognises is printed with the reason's message.
\<close>

definition status_display :: "(nat \<Rightarrow> str) \<Rightarrow> nat \<Rightarrow> str" where
  "status_display phrase status = dec status @ '' '' @ phrase status"

definition format_refresh_token_reason_error :: "(nat \<Rightarrow> str) \<Rightarrow> nat \<Rightarrow> refresh_reason \<Rightarrow> str" where
  "format_refresh_token_reason_error phrase status reason =
     ''refresh token failed with status '' @ status_display phrase status @ '': '' @ user_message reason"

lemma dec_401: "dec 401 = ''401''" "dec 400 = ''400''"
  by code_simp+

lemma format_401: "phrase 401 = ''Unauthorized'' \<Longrightarrow> format_refresh_token_reason_error phrase 401 r
    = ''refresh token failed with status 401 Unauthorized: '' @ user_message r"
  by (simp add: format_refresh_token_reason_error_def status_display_def dec_401)

lemma format_400: "phrase 400 = ''Bad Request'' \<Longrightarrow> format_refresh_token_reason_error phrase 400 r
    = ''refresh token failed with status 400 Bad Request: '' @ user_message r"
  by (simp add: format_refresh_token_reason_error_def status_display_def dec_401)

lemma reason_of_401:
  "refresh_token_auth_error_reason_from_message
     (''refresh token failed with status 401 Unauthorized: '' @ user_message r) = Some r"
  by (cases r; hypsubst; code_simp)

lemma reason_of_400_session:
  "refresh_token_auth_error_reason_from_message
     (''refresh token failed with status 400 Bad Request: '' @ user_message AppSessionTerminated)
       = Some AppSessionTerminated"
  by code_simp

lemma region_blocked_needs:
  "\<not> is_region_blocked_error_message m \<Longrightarrow> \<not> is_refresh_token_region_blocked_error_message m"
  by (simp add: is_refresh_token_region_blocked_error_message_def)

lemma reason_message_not_blocked:
  "\<not> is_refresh_token_region_blocked_error_message
     (''refresh token failed with status 401 Unauthorized: '' @ user_message r)"
  by (rule region_blocked_needs) (cases r; hypsubst; code_simp)

lemma session_message_not_blocked:
  "\<not> is_refresh_token_region_blocked_error_message
     (''refresh token failed with status 400 Bad Request: '' @ user_message AppSessionTerminated)"
  by (rule region_blocked_needs) code_simp

lemma refresh_reason_printed:
  assumes "phrase 401 = ''Unauthorized''" "phrase 400 = ''Bad Request''"
    "classify_refresh_token_auth_error_reason_with_headers parse status body = Some r"
  shows "refresh_token_auth_error_reason_from_message (format_refresh_token_reason_error phrase status r) = Some r
    \<and> \<not> is_refresh_token_region_blocked_error_message (format_refresh_token_reason_error phrase status r)"
proof (cases "status = 401")
  case True
  then show ?thesis
    by (simp only: format_401 [of phrase, OF assms (1)] reason_of_401 reason_message_not_blocked) simp
next
  case False
  then have "status = 400" "r = AppSessionTerminated"
    using assms (3)
    by (auto simp: classify_refresh_token_auth_error_reason_with_headers_def Let_def split: if_splits)
  then show ?thesis
    by (simp only: format_400 [of phrase, OF assms (2)] reason_of_400_session session_message_not_blocked) simp
qed

text \<open>
  The reason a refresh failure was classified with survives the trip through the error text:
  for every answer of the token endpoint with status 401, and for a 400 that says the session
  ended, the printed message is classified back to the same reason, and never taken for a
  blocked region.
\<close>

theorem refresh_reason_roundtrip:
  assumes "phrase 401 = ''Unauthorized''" "phrase 400 = ''Bad Request''"
    "classify_refresh_token_auth_error_reason_with_headers parse status body = Some r"
  shows "refresh_token_auth_error_reason_from_message (format_refresh_token_reason_error phrase status r) = Some r
    \<and> \<not> is_refresh_token_region_blocked_error_message (format_refresh_token_reason_error phrase status r)"
  using assms by (rule refresh_reason_printed)

theorem refresh_reason_roundtrip_witness:
  "refresh_token_auth_error_reason_from_message
     (format_refresh_token_reason_error (\<lambda>n. if n = 401 then ''Unauthorized'' else ''Bad Request'') 401 Reused)
       = Some Reused"
  using refresh_reason_roundtrip
    [of "\<lambda>n. if n = 401 then ''Unauthorized'' else ''Bad Request''"
        "\<lambda>_. Some (JObj [(''error'', JStr ''refresh_token_reused'')])" 401 "[]" Reused]
  by (simp add: classify_refresh_token_auth_error_reason_with_headers_def extract_refresh_token_error_code_def
      json_get_str_def json_get_def json_as_str_def nonblank_lower_def
      classify_refresh_token_auth_error_reason_from_code_def) code_simp

end
