(* ===== verification/Quota_Guard.thy ===== *)
theory Quota_Guard
  imports Token_Claims
begin

text \<open>
  \<^verbatim>\<open>gateway/routing/selection.rs\<close>: the configuration of the quota guard, the candidate
  list with the accounts that are low on quota moved back or left out, and its short-lived
  cache. The process environment is a function from names to values, floating point parsing is
  a parameter, and an \<^verbatim>\<open>Instant\<close> is a number of nanoseconds.
\<close>

record quota_config =
  qc_enabled :: bool
  qc_primary :: f64
  qc_secondary :: f64
  qc_allow_fallback :: bool

datatype low_quota_mode = NormalOnly | AppendFallback

record candidate_cache =
  cc_db_path :: str
  cc_mode :: low_quota_mode
  cc_expires_at :: nat
  cc_candidates :: "(account \<times> token) list"

text \<open>\<open>sl_loaded\<close> is the once-cell behind \<^verbatim>\<open>ensure_selection_config_loaded\<close>.\<close>

record selection_state =
  sl_loaded :: bool
  sl_ttl_ms :: nat
  sl_config :: quota_config
  sl_db_path :: str
  sl_cache :: "candidate_cache option"

record process_env =
  pe_var :: "str \<Rightarrow> str option"
  pe_parse_f64 :: "str \<Rightarrow> f64 option"

definition default_quota_config :: quota_config where
  "default_quota_config = \<lparr>qc_enabled = True, qc_primary = Fin 5, qc_secondary = Fin 10,
     qc_allow_fallback = True\<rparr>"

definition initial_selection :: selection_state where
  "initial_selection = \<lparr>sl_loaded = False, sl_ttl_ms = 500, sl_config = default_quota_config,
     sl_db_path = ''<unset>'', sl_cache = None\<rparr>"

section \<open>Configuration\<close>

definition normalize_percent :: "f64 \<Rightarrow> f64" where
  "normalize_percent v = (if f64_is_finite v then f64_clamp v (Fin 0) (Fin 100) else Fin 0)"

definition quota_normalized :: "quota_config \<Rightarrow> quota_config" where
  "quota_normalized c = c\<lparr>qc_primary := normalize_percent (qc_primary c),
     qc_secondary := normalize_percent (qc_secondary c)\<rparr>"

definition has_threshold :: "quota_config \<Rightarrow> bool" where
  "has_threshold c \<longleftrightarrow> f64_lt (Fin 0) (qc_primary c) \<or> f64_lt (Fin 0) (qc_secondary c)"

definition parse_bool_env :: "str \<Rightarrow> bool \<Rightarrow> bool" where
  "parse_bool_env raw fallback =
     (let v = to_ascii_lowercase (trim raw) in
      if v \<in> set [''1'', ''true'', ''yes'', ''on''] then True
      else if v \<in> set [''0'', ''false'', ''no'', ''off''] then False
      else fallback)"

abbreviation low_quota_threshold_env :: str where
  "low_quota_threshold_env \<equiv> ''CODEXMANAGER_LOW_QUOTA_THRESHOLD_PERCENT''"

definition env_f64 :: "process_env \<Rightarrow> str \<Rightarrow> f64 option" where
  "env_f64 env n = bind_opt (pe_var env n) (\<lambda>raw. pe_parse_f64 env (trim raw))"

definition low_quota_threshold_percent :: "process_env \<Rightarrow> f64" where
  "low_quota_threshold_percent env =
     (case env_f64 env low_quota_threshold_env of
        Some p \<Rightarrow> if f64_is_finite p \<and> f64_lt (Fin 0) p \<and> f64_le p (Fin 100) then p else Fin 95
      | None \<Rightarrow> Fin 95)"

definition clear_candidate_cache :: "selection_state \<Rightarrow> selection_state" where
  "clear_candidate_cache s = s\<lparr>sl_cache := None\<rparr>"

definition invalidate_candidate_cache :: "selection_state \<Rightarrow> selection_state" where
  "invalidate_candidate_cache s = clear_candidate_cache s"

definition set_quota_guard_config :: "quota_config \<Rightarrow> selection_state \<Rightarrow> quota_config \<times> selection_state" where
  "set_quota_guard_config c s =
     (let n = quota_normalized c in (n, clear_candidate_cache (s\<lparr>sl_config := n\<rparr>)))"

text \<open>The minimum remaining percent of one window: its own variable, the legacy one, the default.\<close>

definition env_min_remaining :: "process_env \<Rightarrow> str \<Rightarrow> f64 \<Rightarrow> f64" where
  "env_min_remaining env name dflt =
     unwrap_or
       (or_else (map_option normalize_percent (env_f64 env name))
         (if pe_var env low_quota_threshold_env \<noteq> None
          then Some (f64_clamp (f64_sub (Fin 100) (low_quota_threshold_percent env)) (Fin 0) (Fin 100))
          else None))
       dflt"

definition env_bool :: "process_env \<Rightarrow> str \<Rightarrow> bool \<Rightarrow> bool" where
  "env_bool env name dflt =
     (case pe_var env name of Some raw \<Rightarrow> parse_bool_env raw dflt | None \<Rightarrow> dflt)"

definition reload_selection_from_env :: "process_env \<Rightarrow> selection_state \<Rightarrow> selection_state" where
  "reload_selection_from_env env s0 =
     (let ttl = unwrap_or (bind_opt (pe_var env ''CODEXMANAGER_CANDIDATE_CACHE_TTL_MS'')
                  (\<lambda>raw. parse_unsigned (2 ^ 64 - 1) (trim raw))) 500;
          s1 = s0\<lparr>sl_ttl_ms := ttl\<rparr>;
          (_, s2) = set_quota_guard_config
            \<lparr>qc_enabled = env_bool env ''CODEXMANAGER_QUOTA_GUARD_ENABLED'' True,
             qc_primary = env_min_remaining env ''CODEXMANAGER_QUOTA_GUARD_5H_MIN_REMAINING_PERCENT'' (Fin 5),
             qc_secondary = env_min_remaining env ''CODEXMANAGER_QUOTA_GUARD_WEEKLY_MIN_REMAINING_PERCENT'' (Fin 10),
             qc_allow_fallback = env_bool env ''CODEXMANAGER_QUOTA_GUARD_ALLOW_ALL_LOW_FALLBACK'' True\<rparr> s1
      in clear_candidate_cache
           (s2\<lparr>sl_db_path := unwrap_or (pe_var env ''CODEXMANAGER_DB_PATH'') ''<unset>''\<rparr>))"

definition ensure_selection_config_loaded :: "process_env \<Rightarrow> selection_state \<Rightarrow> selection_state" where
  "ensure_selection_config_loaded env s =
     (if sl_loaded s then s else (reload_selection_from_env env s)\<lparr>sl_loaded := True\<rparr>)"

definition current_quota_guard_config :: "process_env \<Rightarrow> selection_state \<Rightarrow> quota_config \<times> selection_state" where
  "current_quota_guard_config env s0 =
     (let s = ensure_selection_config_loaded env s0 in (quota_normalized (sl_config s), s))"

text \<open>
  \<^verbatim>\<open>QuotaGuardInput::into_config\<close> of \<^verbatim>\<open>app_settings/gateway.rs\<close>: fields left out keep
  their current value.
\<close>

record quota_input =
  qi_enabled :: "bool option"
  qi_primary :: "f64 option"
  qi_secondary :: "f64 option"
  qi_allow_fallback :: "bool option"

definition into_config :: "process_env \<Rightarrow> quota_input \<Rightarrow> selection_state \<Rightarrow> quota_config \<times> selection_state" where
  "into_config env i s0 =
     (let (c, s) = current_quota_guard_config env s0
      in (\<lparr>qc_enabled = unwrap_or (qi_enabled i) (qc_enabled c),
           qc_primary = unwrap_or (qi_primary i) (qc_primary c),
           qc_secondary = unwrap_or (qi_secondary i) (qc_secondary c),
           qc_allow_fallback = unwrap_or (qi_allow_fallback i) (qc_allow_fallback c)\<rparr>, s))"

section \<open>Low quota\<close>

definition remaining_percent :: "f64 \<Rightarrow> f64" where
  "remaining_percent used = f64_clamp (f64_sub (Fin 100) used) (Fin 0) (Fin 100)"

definition is_low_quota_snapshot_at :: "usage_snapshot \<Rightarrow> quota_config \<Rightarrow> bool" where
  "is_low_quota_snapshot_at u c \<longleftrightarrow>
     (f64_lt (Fin 0) (qc_primary c) \<and>
        (case us_used_percent u of None \<Rightarrow> False | Some p \<Rightarrow> f64_le (remaining_percent p) (qc_primary c)))
   \<or> (f64_lt (Fin 0) (qc_secondary c) \<and>
        (case us_secondary_used_percent u of None \<Rightarrow> False
         | Some p \<Rightarrow> f64_le (remaining_percent p) (qc_secondary c)))"

definition is_low_quota_snapshot :: "process_env \<Rightarrow> usage_snapshot \<Rightarrow> selection_state \<Rightarrow> bool \<times> selection_state" where
  "is_low_quota_snapshot env u s0 =
     (let (c, s) = current_quota_guard_config env s0
      in (qc_enabled c \<and> has_threshold c \<and> is_low_quota_snapshot_at u c, s))"

definition load_low_quota_account_ids :: "store \<Rightarrow> str list \<Rightarrow> quota_config \<Rightarrow> str list" where
  "load_low_quota_account_ids st ids c =
     (case low_quota_account_ids_for_accounts st ids (qc_primary c) (qc_secondary c) of
        Inl _ \<Rightarrow> [] | Inr l \<Rightarrow> l)"

text \<open>The decision of the guard once the low accounts are known.\<close>

definition guard_candidates ::
    "quota_config \<Rightarrow> str list \<Rightarrow> low_quota_mode \<Rightarrow> (account \<times> token) list \<Rightarrow> (account \<times> token) list" where
  "guard_candidates c low_ids mode cs =
     (if low_ids = [] then cs
      else (let normal = filter (\<lambda>x. acc_id (fst x) \<notin> set low_ids) cs;
                low = filter (\<lambda>x. acc_id (fst x) \<in> set low_ids) cs
            in if normal = [] \<and> qc_allow_fallback c then low
               else if mode = AppendFallback then normal @ low
               else normal))"

definition apply_quota_guard ::
    "process_env \<Rightarrow> store \<Rightarrow> low_quota_mode \<Rightarrow> (account \<times> token) list \<Rightarrow> selection_state
       \<Rightarrow> (account \<times> token) list \<times> selection_state" where
  "apply_quota_guard env st mode cs s0 =
     (if cs = [] then (cs, s0)
      else (let (c, s) = current_quota_guard_config env s0
            in if \<not> qc_enabled c \<or> \<not> has_threshold c then (cs, s)
               else (guard_candidates c
                      (load_low_quota_account_ids st (map (\<lambda>x. acc_id (fst x)) cs) c) mode cs, s)))"

section \<open>Cache\<close>

definition candidate_cache_ttl :: "process_env \<Rightarrow> selection_state \<Rightarrow> nat \<times> selection_state" where
  "candidate_cache_ttl env s0 =
     (let s = ensure_selection_config_loaded env s0 in (sl_ttl_ms s * 1000000, s))"

definition cache_identity :: "process_env \<Rightarrow> selection_state \<Rightarrow> str option \<times> selection_state" where
  "cache_identity env s0 =
     (let s = ensure_selection_config_loaded env s0; p = sl_db_path s
      in (if trim p = [] \<or> p = ''<unset>'' then None else Some p, s))"

definition read_candidate_cache ::
    "process_env \<Rightarrow> low_quota_mode \<Rightarrow> nat \<Rightarrow> selection_state \<Rightarrow> (account \<times> token) list option \<times> selection_state" where
  "read_candidate_cache env mode now s0 =
     (let (ttl, s1) = candidate_cache_ttl env s0 in
      if ttl = 0 then (None, s1)
      else (case cache_identity env s1 of
              (None, s2) \<Rightarrow> (None, s2)
            | (Some p, s2) \<Rightarrow>
                (case sl_cache s2 of
                   None \<Rightarrow> (None, s2)
                 | Some c \<Rightarrow>
                     if cc_db_path c \<noteq> p \<or> cc_mode c \<noteq> mode \<or> cc_expires_at c \<le> now
                     then (None, s2\<lparr>sl_cache := None\<rparr>)
                     else (Some (cc_candidates c), s2))))"

definition write_candidate_cache ::
    "process_env \<Rightarrow> low_quota_mode \<Rightarrow> (account \<times> token) list \<Rightarrow> nat \<Rightarrow> selection_state \<Rightarrow> selection_state" where
  "write_candidate_cache env mode cs now s0 =
     (let (ttl, s1) = candidate_cache_ttl env s0 in
      if ttl = 0 then s1
      else (case cache_identity env s1 of
              (None, s2) \<Rightarrow> s2
            | (Some p, s2) \<Rightarrow>
                s2\<lparr>sl_cache := Some \<lparr>cc_db_path = p, cc_mode = mode, cc_expires_at = now + ttl,
                     cc_candidates = cs\<rparr>\<rparr>))"

section \<open>Candidates\<close>

text \<open>One candidate's identity patched from its token, in the list and in the store.\<close>

definition patch_candidate ::
    "decoders \<Rightarrow> i64 \<Rightarrow> (account \<times> token) \<Rightarrow> store \<Rightarrow> (account \<times> token) \<times> store" where
  "patch_candidate dc now x st =
     (let (chatgpt, workspace) = derive_account_meta dc (snd x);
          (a, changed) = patch_account_meta_in_place (fst x) chatgpt workspace
      in if changed
         then (let a = a\<lparr>acc_updated_at := now\<rparr>
               in ((a, snd x), snd (update_account_workspace_identity (acc_id a)
                     (acc_chatgpt_account_id a) (acc_workspace_id a) now st)))
         else ((a, snd x), st))"

fun patch_candidates ::
    "decoders \<Rightarrow> i64 \<Rightarrow> (account \<times> token) list \<Rightarrow> store \<Rightarrow> (account \<times> token) list \<times> store" where
  "patch_candidates dc now [] st = ([], st)"
| "patch_candidates dc now (x # xs) st =
     (let (y, st1) = patch_candidate dc now x st; (ys, st2) = patch_candidates dc now xs st1
      in (y # ys, st2))"

definition collect_gateway_candidates_uncached ::
    "process_env \<Rightarrow> decoders \<Rightarrow> low_quota_mode \<Rightarrow> str list option \<Rightarrow> i64 \<Rightarrow> store \<times> selection_state
       \<Rightarrow> (account \<times> token) list sql \<times> store \<times> selection_state" where
  "collect_gateway_candidates_uncached env dc mode ids now w =
     (let (st, s) = w in
      case (case ids of Some l \<Rightarrow> list_gateway_candidates_for_accounts st l
                      | None \<Rightarrow> list_gateway_candidates st) of
        Inl e \<Rightarrow> (Inl e, st, s)
      | Inr cs \<Rightarrow>
          (let (out, st1) = patch_candidates dc now cs st;
               (guarded, s1) = apply_quota_guard env st1 mode out s
           in (Inr guarded, st1, s1)))"

definition collect_gateway_candidates_with_low_quota_mode ::
    "process_env \<Rightarrow> decoders \<Rightarrow> low_quota_mode \<Rightarrow> i64 \<Rightarrow> nat \<times> nat \<Rightarrow> store \<times> selection_state
       \<Rightarrow> (account \<times> token) list sql \<times> store \<times> selection_state" where
  "collect_gateway_candidates_with_low_quota_mode env dc mode now instants w =
     (let (st, s) = w in
      case read_candidate_cache env mode (fst instants) s of
        (Some cached, s1) \<Rightarrow> (Inr cached, st, s1)
      | (None, s1) \<Rightarrow>
          (case collect_gateway_candidates_uncached env dc mode None now (st, s1) of
             (Inl e, w2) \<Rightarrow> (Inl e, w2)
           | (Inr cs, st2, s2) \<Rightarrow> (Inr cs, st2, write_candidate_cache env mode cs (snd instants) s2)))"

definition collect_gateway_candidates ::
    "process_env \<Rightarrow> decoders \<Rightarrow> i64 \<Rightarrow> nat \<times> nat \<Rightarrow> store \<times> selection_state
       \<Rightarrow> (account \<times> token) list sql \<times> store \<times> selection_state" where
  "collect_gateway_candidates env dc now instants w =
     collect_gateway_candidates_with_low_quota_mode env dc NormalOnly now instants w"

definition collect_gateway_candidates_for_accounts_with_low_quota_mode ::
    "process_env \<Rightarrow> decoders \<Rightarrow> str list \<Rightarrow> low_quota_mode \<Rightarrow> i64 \<Rightarrow> store \<times> selection_state
       \<Rightarrow> (account \<times> token) list sql \<times> store \<times> selection_state" where
  "collect_gateway_candidates_for_accounts_with_low_quota_mode env dc ids mode now w =
     (if ids = [] then (Inr [], w)
      else collect_gateway_candidates_uncached env dc mode (Some ids) now w)"

section \<open>The two low quota tests agree\<close>

lemma remaining_le_iff:
  assumes "p \<noteq> NaN" "0 \<le> thr" "thr < 100"
  shows "f64_le (remaining_percent p) (Fin thr) \<longleftrightarrow> f64_le (f64_sub (Fin 100) p) (Fin thr)"
proof -
  obtain d where d: "f64_sub (Fin 100) p = d" by blast
  then have "d \<noteq> NaN" using assms (1) by (cases p) auto
  then show ?thesis using assms (2,3)
    by (cases d) (auto simp: remaining_percent_def d f64_clamp_def)
qed

definition percents_ok :: "usage_snapshot \<Rightarrow> bool" where
  "percents_ok u \<longleftrightarrow> us_used_percent u \<noteq> Some NaN \<and> us_secondary_used_percent u \<noteq> Some NaN"

lemma low_quota_row_iff:
  assumes "percents_ok u" "qc_primary c = Fin a" "qc_secondary c = Fin b"
    "0 \<le> a" "a < 100" "0 \<le> b" "b < 100"
  shows "low_quota_row (qc_primary c) (qc_secondary c) u \<longleftrightarrow> is_low_quota_snapshot_at u c"
  using assms remaining_le_iff
  by (auto simp: low_quota_row_def is_low_quota_snapshot_at_def percents_ok_def split: option.split)

lemma latest_row_in: "latest_row ts rs = Some r \<Longrightarrow> r \<in> set rs"
  by (induction rs arbitrary: r) (auto split: option.splits if_splits)

lemma latest_usage_id: "latest_usage st i = Some u \<Longrightarrow> us_account_id u = i"
  by (auto simp: latest_usage_def dest!: latest_row_in)

lemma latest_usage_None: "latest_usage st i = None \<longleftrightarrow> (\<forall>r \<in> set (st_snapshots st). us_account_id (snd r) \<noteq> i)"
proof -
  have "latest_row ts rs = None \<longleftrightarrow> rs = []" for ts :: "usage_snapshot \<Rightarrow> i64" and rs
    by (cases rs) (auto split: option.splits)
  then show ?thesis by (auto simp: latest_usage_def filter_empty_conv)
qed

lemma set_map_filter_Some: "set (List.map_filter f xs) = {y. \<exists>x \<in> set xs. f x = Some y}"
  by (induction xs) (auto simp: List.map_filter_simps split: option.splits)

lemma latest_usage_has_row: "latest_usage st i = Some u \<Longrightarrow> i \<in> (\<lambda>r. us_account_id (snd r)) ` set (st_snapshots st)"
  using latest_usage_None [of st i] by auto

lemma set_ranked_usage:
  "set (ranked_usage st cond) = {u. \<exists>i. cond i \<and> latest_usage st i = Some u}"
proof -
  have "set (map (\<lambda>(_, u). us_account_id u) (st_snapshots st)) = (\<lambda>r. us_account_id (snd r)) ` set (st_snapshots st)"
    by (simp add: case_prod_beta)
  then show ?thesis
    unfolding ranked_usage_def set_map_filter_Some set_remdups set_filter
    using latest_usage_has_row [of st] by blast
qed

lemma set_low_chunk:
  "set (low_quota_account_ids_for_accounts_chunk st ids a b)
     = {i \<in> set (normalize_text_ids ids). \<exists>u. latest_usage st i = Some u \<and> low_quota_row a b u}"
proof (cases "normalize_text_ids ids = []")
  case True
  then show ?thesis by (simp add: low_quota_account_ids_for_accounts_chunk_def text_id_in_clause_def)
next
  case False
  have "us_account_id ` {u. (\<exists>i. i \<in> A \<and> latest_usage st i = Some u) \<and> low_quota_row a b u}
      = {i \<in> A. \<exists>u. latest_usage st i = Some u \<and> low_quota_row a b u}" for A
    using latest_usage_id [of st] by (auto simp: image_iff) 
  with False show ?thesis
    by (simp add: low_quota_account_ids_for_accounts_chunk_def text_id_in_clause_def set_ranked_usage)
qed

lemma low_row_nonpos: "f64_le a (Fin 0) \<Longrightarrow> f64_le b (Fin 0) \<Longrightarrow> \<not> low_quota_row a b u"
  by (cases a; cases b) (auto simp: low_quota_row_def)

lemma normalize_threshold_id:
  "0 \<le> a \<Longrightarrow> a \<le> 100 \<Longrightarrow> normalize_remaining_threshold (Fin a) = Fin a"
  by (auto simp: normalize_remaining_threshold_def f64_is_finite_def f64_clamp_def)

lemma set_low_ids:
  assumes "st_fault st = None" "0 \<le> a" "a \<le> 100" "0 \<le> b" "b \<le> 100"
  shows "\<exists>l. low_quota_account_ids_for_accounts st ids (Fin a) (Fin b) = Inr l
    \<and> set l = {i \<in> set (normalize_text_ids ids). \<exists>u. latest_usage st i = Some u \<and> low_quota_row (Fin a) (Fin b) u}"
proof -
  let ?n = "normalize_text_ids ids"
  let ?c = "concat (map (\<lambda>c. low_quota_account_ids_for_accounts_chunk st c (Fin a) (Fin b))
              (chunks in_clause_batch_size ?n))"
  have cc: "concat (chunks in_clause_batch_size ?n) = ?n"
    by (rule concat_chunks) (simp add: in_clause_batch_size_def)
  then have sub: "set c \<subseteq> set ?n" if "c \<in> set (chunks in_clause_batch_size ?n)" for c
    using that by (metis UN_upper set_concat)
  have "set ?c = {i \<in> set (concat (chunks in_clause_batch_size ?n)).
      \<exists>u. latest_usage st i = Some u \<and> low_quota_row (Fin a) (Fin b) u}"
    using set_renormalize [OF sub] by (auto simp: set_low_chunk)
  then have s: "set ?c = {i \<in> set ?n. \<exists>u. latest_usage st i = Some u \<and> low_quota_row (Fin a) (Fin b) u}"
    by (simp add: cc)
  have n: "normalize_remaining_threshold (Fin a) = Fin a" "normalize_remaining_threshold (Fin b) = Fin b"
    using assms by (simp_all add: normalize_threshold_id)
  show ?thesis
  proof (cases "?n = [] \<or> (a \<le> 0 \<and> b \<le> 0)")
    case True
    then have "low_quota_account_ids_for_accounts st ids (Fin a) (Fin b) = Inr []"
      by (auto simp: low_quota_account_ids_for_accounts_def Let_def n)
    moreover have "{i \<in> set ?n. \<exists>u. latest_usage st i = Some u \<and> low_quota_row (Fin a) (Fin b) u} = {}"
      using True low_row_nonpos [of "Fin a" "Fin b"] by auto
    ultimately show ?thesis by simp
  next
    case False
    then have "low_quota_account_ids_for_accounts st ids (Fin a) (Fin b) = Inr (remdups_adj (sort ?c))"
      using assms (1) by (auto simp: low_quota_account_ids_for_accounts_def Let_def n)
    then show ?thesis using s by simp
  qed
qed

lemma quota_config_bounds:
  "\<exists>r. normalize_percent v = Fin r \<and> 0 \<le> r \<and> r \<le> 100"
proof (cases "f64_is_finite v")
  case True
  then have "v \<noteq> NaN" by (auto simp: f64_is_finite_def)
  from f64_clamp_bounds [OF _ this, of 0 100] True show ?thesis by (simp add: normalize_percent_def)
qed (simp add: normalize_percent_def)

text \<open>
  The accounts the candidate filter sets aside through SQL are exactly those whose latest
  snapshot the Rust test calls low, for all thresholds below 100 percent, so the guard at
  selection time and the failover test on a compact server error never disagree; and an account
  that has used up a guarded window is always low.
\<close>

theorem low_quota_tests_agree:
  assumes "st_fault st = None" "i \<in> trim ` set ids" "i \<noteq> []"
    "\<forall>r \<in> set (st_snapshots st). percents_ok (snd r)"
    "qc_primary c = Fin a" "qc_secondary c = Fin b" "0 \<le> a" "a < 100" "0 \<le> b" "b < 100"
  shows "(i \<in> set (load_low_quota_account_ids st ids c) \<longleftrightarrow>
      (case latest_usage st i of None \<Rightarrow> False | Some u \<Rightarrow> is_low_quota_snapshot_at u c))
    \<and> (\<forall>u p. us_used_percent u = Some (Fin p) \<longrightarrow> 100 \<le> p \<longrightarrow> 0 < a \<longrightarrow> is_low_quota_snapshot_at u c)"
proof -
  have ok: "percents_ok u" if "latest_usage st i = Some u" for u
  proof -
    from that obtain r where "r \<in> set (st_snapshots st)" "u = snd r"
      by (auto simp: latest_usage_def dest!: latest_row_in)
    then show ?thesis using assms (4) by blast
  qed
  obtain l where l: "low_quota_account_ids_for_accounts st ids (Fin a) (Fin b) = Inr l"
      "set l = {i \<in> set (normalize_text_ids ids). \<exists>u. latest_usage st i = Some u \<and> low_quota_row (Fin a) (Fin b) u}"
    using set_low_ids [OF assms (1), of a b ids] assms (7-10) by auto
  have "i \<in> set (normalize_text_ids ids)" using assms (2,3) by (simp add: set_normalize_text_ids)
  then have 1: "i \<in> set (load_low_quota_account_ids st ids c) \<longleftrightarrow>
      (case latest_usage st i of None \<Rightarrow> False | Some u \<Rightarrow> is_low_quota_snapshot_at u c)"
    using l low_quota_row_iff [OF ok assms (5-10)] assms (5,6)
    by (auto simp: load_low_quota_account_ids_def split: option.split)
  have 2: "is_low_quota_snapshot_at u c" if u: "us_used_percent u = Some (Fin p)" "100 \<le> p" "0 < a" for u p
  proof -
    have "f64_le (round_f64 (100 - p)) (Fin 0)" using u (2) by (intro round_f64_nonpos) simp
    then have "f64_le (remaining_percent (Fin p)) (Fin a)"
      using u (3) remaining_le_iff [of "Fin p" a] assms (8) by (cases "round_f64 (100 - p)") auto
    then show ?thesis using u assms (5) by (simp add: is_low_quota_snapshot_at_def)
  qed
  from 1 2 show ?thesis by blast
qed

definition demo_snapshot :: "str \<Rightarrow> f64 \<Rightarrow> usage_snapshot" where
  "demo_snapshot i p = \<lparr>us_account_id = i, us_used_percent = Some p, us_window_minutes = Some 300,
     us_resets_at = None, us_secondary_used_percent = None, us_secondary_window_minutes = None,
     us_secondary_resets_at = None, us_credits_json = None, us_captured_at = 1\<rparr>"

theorem low_quota_tests_agree_witness:
  "''a'' \<in> set (load_low_quota_account_ids
      (demo_store\<lparr>st_snapshots := [(0, demo_snapshot ''a'' (Fin 100))]\<rparr>) [''a'', ''b''] default_quota_config)"
proof -
  let ?st = "demo_store\<lparr>st_snapshots := [(0, demo_snapshot ''a'' (Fin 100))]\<rparr>"
  have t: "trim ''a'' = ''a''" by code_simp
  have "is_low_quota_snapshot_at (demo_snapshot ''a'' (Fin 100)) default_quota_config"
    by (simp add: is_low_quota_snapshot_at_def demo_snapshot_def default_quota_config_def
        remaining_percent_def round_f64_def f64_clamp_def)
  then show ?thesis
    using low_quota_tests_agree [of ?st "''a''" "[''a'', ''b'']" default_quota_config 5 10] t
    by (simp add: demo_store_def demo_snapshot_def percents_ok_def default_quota_config_def latest_usage_def)
qed

section \<open>The guard\<close>

text \<open>
  The guard never invents or duplicates a candidate and keeps the order within the normal and
  the low accounts. With the fallback mode nobody is lost and the low accounts come last; in
  the normal mode the low accounts are left out, except that with the fallback switch on they
  are all kept when there is no other account, so the guard alone never empties the list.
\<close>

theorem guard_candidates_partition:
  "(let low = (\<lambda>x. acc_id (fst x) \<in> set low_ids); out = guard_candidates c low_ids mode cs
    in filter (\<lambda>x. \<not> low x) out = filter (\<lambda>x. \<not> low x) cs
     \<and> (mode = AppendFallback \<longrightarrow> mset out = mset cs \<and> filter low out = filter low cs
          \<and> sorted (map (\<lambda>x. if low x then 1 else (0 :: nat)) out))
     \<and> (mode = NormalOnly \<longrightarrow>
          out = (if list_all low cs \<and> qc_allow_fallback c then cs else filter (\<lambda>x. \<not> low x) cs))
     \<and> (qc_allow_fallback c \<longrightarrow> cs \<noteq> [] \<longrightarrow> out \<noteq> []))"
proof -
  let ?low = "\<lambda>x. acc_id (fst x) \<in> set low_ids"
  let ?n = "filter (\<lambda>x. \<not> ?low x) cs" and ?l = "filter ?low cs"
  have all: "?n = [] \<longleftrightarrow> list_all ?low cs" by (auto simp: list_all_iff filter_empty_conv)
  have l: "?n = [] \<Longrightarrow> ?l = cs" by (auto simp: filter_empty_conv filter_id_conv)
  have idem: "filter ?low ?n = []" "filter (\<lambda>x. \<not> ?low x) ?l = []"
    by (auto simp: filter_empty_conv)
  have zeros: "map (\<lambda>x. if ?low x then 1 else 0 :: nat) ?n = replicate (length ?n) 0"
    "map (\<lambda>x. if ?low x then 1 else 0 :: nat) ?l = replicate (length ?l) 1"
  proof -
    have "map (\<lambda>x. if ?low x then 1 else 0 :: nat) ?n = map (\<lambda>_. 0) ?n" by (rule map_cong) auto
    then show "map (\<lambda>x. if ?low x then 1 else 0 :: nat) ?n = replicate (length ?n) 0"
      by (simp add: map_replicate_const)
    have "map (\<lambda>x. if ?low x then 1 else 0 :: nat) ?l = map (\<lambda>_. 1) ?l" by (rule map_cong) auto
    then show "map (\<lambda>x. if ?low x then 1 else 0 :: nat) ?l = replicate (length ?l) 1"
      by (simp add: map_replicate_const)
  qed
  have m: "mset (?n @ ?l) = mset cs"
    by (induction cs) auto
  have sorted: "sorted (map (\<lambda>x. if ?low x then 1 else 0 :: nat) (?n @ ?l))"
    unfolding map_append zeros by (auto simp: sorted_append)
  show ?thesis
  proof (cases "low_ids = []")
    case True
    then show ?thesis by (simp add: guard_candidates_def Let_def map_replicate_const)
  next
    case False
    then have g: "guard_candidates c low_ids mode cs =
        (if ?n = [] \<and> qc_allow_fallback c then ?l else if mode = AppendFallback then ?n @ ?l else ?n)"
      by (simp add: guard_candidates_def Let_def)
    show ?thesis
    proof (cases "?n = []")
      case True
      then have low: "list_all ?low cs" and cs: "?l = cs" using all l by blast+
      from True have "guard_candidates c low_ids mode cs = (if qc_allow_fallback c \<or> mode = AppendFallback then cs else [])"
        unfolding g cs by simp
      then show ?thesis using True low sorted cs unfolding Let_def
        by (cases mode) (simp_all add: True)
    next
      case ne: False
      then have "\<not> list_all ?low cs" using all by blast
      moreover have "guard_candidates c low_ids mode cs = (if mode = AppendFallback then ?n @ ?l else ?n)"
        unfolding g using ne by simp
      ultimately show ?thesis using ne m sorted idem unfolding Let_def
        by (cases mode) simp_all
    qed
  qed
qed

theorem guard_candidates_partition_witness:
  "guard_candidates default_quota_config [''a''] AppendFallback
      [(demo_account ''a'' ''active'', demo_token ''a''), (demo_account ''b'' ''active'', demo_token ''b'')] \<noteq> []
   \<and> guard_candidates default_quota_config [''a''] NormalOnly
      [(demo_account ''a'' ''active'', demo_token ''a''), (demo_account ''b'' ''active'', demo_token ''b'')]
        = [(demo_account ''b'' ''active'', demo_token ''b'')]"
  using guard_candidates_partition [of "[''a'']" default_quota_config AppendFallback
      "[(demo_account ''a'' ''active'', demo_token ''a''), (demo_account ''b'' ''active'', demo_token ''b'')]"]
    guard_candidates_partition [of "[''a'']" default_quota_config NormalOnly
      "[(demo_account ''a'' ''active'', demo_token ''a''), (demo_account ''b'' ''active'', demo_token ''b'')]"]
  by (simp add: Let_def default_quota_config_def demo_account_def)

section \<open>The cache\<close>

lemma ensure_loaded [simp]: "sl_loaded s \<Longrightarrow> ensure_selection_config_loaded env s = s"
  by (simp add: ensure_selection_config_loaded_def)

text \<open>
  A candidate list that was written is what a read with the same mode returns until it
  expires, and never after; a read with the other mode, after an account status change, or
  after a change of the quota guard returns nothing, so no list outlives the data it was
  computed from by more than its lifetime.
\<close>

theorem candidate_cache_coherent:
  assumes "sl_loaded s" "sl_ttl_ms s \<noteq> 0" "trim (sl_db_path s) \<noteq> []" "sl_db_path s \<noteq> ''<unset>''"
    and s1: "s1 = write_candidate_cache env mode cs now s"
  shows "fst (read_candidate_cache env m later s1) =
      (if m = mode \<and> later < now + sl_ttl_ms s * 1000000 then Some cs else None)
    \<and> fst (read_candidate_cache env m later (invalidate_candidate_cache s1)) = None
    \<and> fst (read_candidate_cache env m later (snd (set_quota_guard_config c s1))) = None
    \<and> fst (read_candidate_cache env m2 later2 (snd (read_candidate_cache env m later s1))) =
      (if m = mode \<and> m2 = mode \<and> later < now + sl_ttl_ms s * 1000000 \<and> later2 < now + sl_ttl_ms s * 1000000
       then Some cs else None)"
proof -
  have w: "s1 = s\<lparr>sl_cache := Some \<lparr>cc_db_path = sl_db_path s, cc_mode = mode,
      cc_expires_at = now + sl_ttl_ms s * 1000000, cc_candidates = cs\<rparr>\<rparr>"
    using assms (1-4) by (simp add: s1 write_candidate_cache_def candidate_cache_ttl_def cache_identity_def Let_def)
  show ?thesis using assms (1-4)
    by (auto simp: w read_candidate_cache_def candidate_cache_ttl_def cache_identity_def Let_def
        invalidate_candidate_cache_def clear_candidate_cache_def set_quota_guard_config_def)
qed

theorem candidate_cache_coherent_witness:
  "fst (read_candidate_cache \<lparr>pe_var = \<lambda>_. None, pe_parse_f64 = \<lambda>_. None\<rparr> NormalOnly 100
     (write_candidate_cache \<lparr>pe_var = \<lambda>_. None, pe_parse_f64 = \<lambda>_. None\<rparr> NormalOnly
        [(demo_account ''a'' ''active'', demo_token ''a'')] 50
        (initial_selection\<lparr>sl_loaded := True, sl_db_path := ''/d.db''\<rparr>)))
    = Some [(demo_account ''a'' ''active'', demo_token ''a'')]"
proof -
  have "trim ''/d.db'' \<noteq> []" by code_simp
  then show ?thesis
    using candidate_cache_coherent
      [of "initial_selection\<lparr>sl_loaded := True, sl_db_path := ''/d.db''\<rparr>" _
        "\<lparr>pe_var = \<lambda>_. None, pe_parse_f64 = \<lambda>_. None\<rparr>" NormalOnly
        "[(demo_account ''a'' ''active'', demo_token ''a'')]" 50 NormalOnly 100]
    by (simp add: initial_selection_def)
qed

lemma normalize_percent_Fin: "0 \<le> a \<Longrightarrow> a \<le> 100 \<Longrightarrow> normalize_percent (Fin a) = Fin a"
  by (auto simp: normalize_percent_def f64_is_finite_def f64_clamp_def)

lemma normalize_percent_idem: "normalize_percent (normalize_percent v) = normalize_percent v"
proof -
  obtain r where "normalize_percent v = Fin r" "0 \<le> r" "r \<le> 100" using quota_config_bounds by blast
  then show ?thesis by (auto simp: normalize_percent_def f64_is_finite_def f64_clamp_def)
qed

text \<open>
  Applying a quota guard setting from the interface takes effect: fields that were left out
  keep the value they had, the percentages are brought into 0 to 100 (anything that is not a
  number becomes 0, which switches that window off), the configuration that was returned is
  the one read afterwards, and the candidate cache is empty. Because the current
  configuration is read first, the environment cannot overwrite the setting later.
\<close>

theorem quota_guard_setting_applies:
  "let cur = fst (current_quota_guard_config env s);
       (c, s1) = into_config env i s;
       (n, s2) = set_quota_guard_config c s1
   in fst (current_quota_guard_config env s2) = n
    \<and> qc_enabled n = unwrap_or (qi_enabled i) (qc_enabled cur)
    \<and> qc_allow_fallback n = unwrap_or (qi_allow_fallback i) (qc_allow_fallback cur)
    \<and> qc_primary n = (case qi_primary i of Some v \<Rightarrow> normalize_percent v | None \<Rightarrow> qc_primary cur)
    \<and> qc_secondary n = (case qi_secondary i of Some v \<Rightarrow> normalize_percent v | None \<Rightarrow> qc_secondary cur)
    \<and> (\<exists>a b. qc_primary n = Fin a \<and> qc_secondary n = Fin b \<and> 0 \<le> a \<and> a \<le> 100 \<and> 0 \<le> b \<and> b \<le> 100)
    \<and> sl_cache s2 = None"
proof -
  have "sl_loaded (ensure_selection_config_loaded env s)"
    by (simp add: ensure_selection_config_loaded_def)
  moreover obtain a b where
      "normalize_percent (unwrap_or (qi_primary i) (normalize_percent (qc_primary (sl_config (ensure_selection_config_loaded env s))))) = Fin a"
      "normalize_percent (unwrap_or (qi_secondary i) (normalize_percent (qc_secondary (sl_config (ensure_selection_config_loaded env s))))) = Fin b"
      "0 \<le> a" "a \<le> 100" "0 \<le> b" "b \<le> 100"
    using quota_config_bounds by metis
  ultimately show ?thesis
    by (cases "qi_primary i"; cases "qi_secondary i")
      (auto simp: into_config_def current_quota_guard_config_def Let_def
        set_quota_guard_config_def quota_normalized_def clear_candidate_cache_def normalize_percent_idem
        normalize_percent_Fin)
qed

end
