(* ===== verification/Account_Status.thy ===== *)
theory Account_Status
  imports Error_Text Quota_Guard
begin

text \<open>
  When the gateway takes an account out of rotation: the availability of a usage snapshot
  (\<^verbatim>\<open>account/account_availability.rs\<close>, \<^verbatim>\<open>routing/failover.rs\<close>), the
  classification of error texts and the status changes that follow from them
  (\<^verbatim>\<open>account/account_status.rs\<close>). The world is the store and the selection state, whose
  candidate cache a status change empties.
\<close>

type_synonym acct_world = "store \<times> selection_state"

section \<open>Availability\<close>

datatype availability = Available | Unavailable str

definition evaluate_snapshot :: "usage_snapshot \<Rightarrow> availability" where
  "evaluate_snapshot u =
     (if us_used_percent u = None \<or> us_window_minutes u = None then Unavailable ''usage_missing_primary''
      else if (case us_used_percent u of Some p \<Rightarrow> f64_le (Fin 100) p | None \<Rightarrow> False)
        then Unavailable ''usage_exhausted_primary''
      else if (case us_secondary_used_percent u of Some p \<Rightarrow> f64_le (Fin 100) p | None \<Rightarrow> False)
        then Unavailable ''usage_exhausted_secondary''
      else Available)"

definition should_failover_from_cached_snapshot_value :: "usage_snapshot option \<Rightarrow> bool \<Rightarrow> bool" where
  "should_failover_from_cached_snapshot_value snap fail_on_missing =
     (case map_option evaluate_snapshot snap of
        Some (Unavailable _) \<Rightarrow> True | Some Available \<Rightarrow> False | None \<Rightarrow> fail_on_missing)"

definition should_failover_from_low_quota_snapshot_value ::
    "process_env \<Rightarrow> usage_snapshot \<Rightarrow> selection_state \<Rightarrow> bool \<times> selection_state" where
  "should_failover_from_low_quota_snapshot_value env u s = is_low_quota_snapshot env u s"

definition should_failover_by_snapshot :: "store \<Rightarrow> str \<Rightarrow> bool \<Rightarrow> bool" where
  "should_failover_by_snapshot st i fail_on_missing =
     should_failover_from_cached_snapshot_value
       (Option.bind (sql_ok (latest_usage_snapshot_for_account st i)) (\<lambda>x. x)) fail_on_missing"

definition should_failover_after_refresh :: "store \<Rightarrow> str \<Rightarrow> str + unit \<Rightarrow> bool" where
  "should_failover_after_refresh st i r =
     (case r of Inr _ \<Rightarrow> should_failover_by_snapshot st i True
      | Inl e \<Rightarrow> str_starts_with e ''usage endpoint status'')"

text \<open>
  The availability test in Rust and the usage condition of the candidate query agree on every
  snapshot whose secondary window is complete or absent. They differ on a half missing
  secondary window only, which the test accepts and the query refuses.
\<close>

theorem availability_matches_query:
  assumes "percents_ok u"
  shows "available_usage_clause u \<longleftrightarrow> evaluate_snapshot u = Available
    \<and> (us_secondary_used_percent u = None \<longleftrightarrow> us_secondary_window_minutes u = None)"
proof -
  have lt: "f64_lt p (Fin 100) \<longleftrightarrow> \<not> f64_le (Fin 100) p" if "p \<noteq> NaN" for p
    using that by (cases p) auto
  show ?thesis
    using assms lt
    by (cases "us_used_percent u"; cases "us_secondary_used_percent u")
      (auto simp: available_usage_clause_def evaluate_snapshot_def percents_ok_def)
qed

lemma half_missing_secondary_differs:
  "let u = (demo_snapshot ''a'' (Fin 40))\<lparr>us_secondary_window_minutes := Some 10080\<rparr>
   in evaluate_snapshot u = Available \<and> \<not> available_usage_clause u"
  by (simp add: Let_def demo_snapshot_def evaluate_snapshot_def available_usage_clause_def)

section \<open>Classification\<close>

datatype signal =
    RefreshTokenSignal refresh_reason | RefreshTokenRegionBlocked | Deactivation str | UsageHttp nat

datatype gateway_error_kind = KDeactivation | KUsageLimit | KOther

record error_follow_up =
  ef_kind :: gateway_error_kind
  ef_failover :: bool
  ef_mark_unavailable :: bool
  ef_default_cooldown :: bool

abbreviation usage_prefixes :: "str list" where
  "usage_prefixes \<equiv> [''usage endpoint status '', ''usage endpoint failed: status='',
     ''subscription endpoint status '', ''subscription endpoint failed: status='']"

definition extract_usage_http_status_code :: "str \<Rightarrow> nat option" where
  "extract_usage_http_status_code message =
     bind_opt (find_map (strip_prefix (trim message)) usage_prefixes) (\<lambda>rest.
       let digits = takeWhile is_ascii_digit rest
       in if digits = [] then None else parse_digits u16_max digits)"

definition deactivation_reason_from_message :: "str \<Rightarrow> str option" where
  "deactivation_reason_from_message message =
     (let n = to_ascii_lowercase (trim message) in
      if any_contains n [''workspace_deactivated'', ''deactivated_workspace'', ''workspace deactivated'',
           ''workspace-deactivated'', ''deactivated workspace''] then Some ''workspace_deactivated''
      else if any_contains n [''account_deactivated'', ''account deactivated'', ''deactivated'']
        then Some ''account_deactivated''
      else None)"

definition usage_limit_reason_from_message :: "str \<Rightarrow> str option" where
  "usage_limit_reason_from_message message =
     (let n = to_ascii_lowercase (trim message) in
      if any_contains n [''you'' @ [char_of (39 :: nat)] @ ''ve hit your usage limit'',
           ''you have hit your usage limit'', ''usage limit has been reached'', ''insufficient_quota'',
           ''quota exceeded'', ''usage exhausted'']
         \<or> (str_contains n ''usage limit'' \<and> str_contains n ''try again'')
      then Some ''usage_limit_exhausted'' else None)"

definition classify_account_availability_signal :: "str \<Rightarrow> signal option" where
  "classify_account_availability_signal err =
     (if is_refresh_token_region_blocked_error_message err then Some RefreshTokenRegionBlocked
      else case refresh_token_auth_error_reason_from_message err of
        Some r \<Rightarrow> Some (RefreshTokenSignal r)
      | None \<Rightarrow> (case deactivation_reason_from_message err of
          Some r \<Rightarrow> Some (Deactivation r)
        | None \<Rightarrow> map_option UsageHttp (extract_usage_http_status_code err)))"

definition analyze_gateway_error :: "str \<Rightarrow> bool \<Rightarrow> error_follow_up" where
  "analyze_gateway_error err has_more =
     (let kind = (if deactivation_reason_from_message err \<noteq> None then KDeactivation
                  else if usage_limit_reason_from_message err \<noteq> None then KUsageLimit else KOther);
          actionable = (kind \<noteq> KOther);
          failover = (has_more \<and> actionable)
      in \<lparr>ef_kind = kind, ef_failover = failover, ef_mark_unavailable = actionable,
          ef_default_cooldown = (kind = KUsageLimit \<and> failover)\<rparr>)"

section \<open>Status changes\<close>

definition latest_status_reason :: "store \<Rightarrow> str \<Rightarrow> str option" where
  "latest_status_reason st i =
     Option.bind (sql_ok (latest_account_status_reasons st [i])) (\<lambda>m. m i)"

record status_context =
  sc_status :: str
  sc_reason :: "str option"

definition account_status :: "store \<Rightarrow> str \<Rightarrow> str option" where
  "account_status st i = Option.bind (sql_ok (find_account_status_by_id st i)) (\<lambda>x. x)"

definition load_account_status_context :: "store \<Rightarrow> str \<Rightarrow> status_context" where
  "load_account_status_context st i =
     \<lparr>sc_status = unwrap_or (account_status st i) [], sc_reason = latest_status_reason st i\<rparr>"

definition status_event :: "str \<Rightarrow> str \<Rightarrow> str \<Rightarrow> i64 \<Rightarrow> account_event" where
  "status_event i status reason now =
     \<lparr>ev_account_id = Some i, ev_type = ''account_status_update'',
      ev_message = ''status='' @ status @ '' reason='' @ reason, ev_created_at = now\<rparr>"

definition set_account_status_with_context ::
    "str \<Rightarrow> str \<Rightarrow> str \<Rightarrow> status_context option \<Rightarrow> i64 \<Rightarrow> acct_world \<Rightarrow> acct_world" where
  "set_account_status_with_context i status reason ctx now w =
     (let (r, st1) = update_account_status_if_changed_with_existence i status now (fst w);
          (exists, changed) = unwrap_or (sql_ok r) (False, False);
          sel1 = (if changed then invalidate_candidate_cache (snd w) else snd w);
          insert_it =
            (if \<not> exists \<or> changed then exists
             else (let from_ctx = bind_opt ctx (\<lambda>c. if eq_ignore_ascii_case (trim (sc_status c)) status
                                                   then sc_reason c else None)
                   in or_else from_ctx (latest_status_reason st1 i) \<noteq> Some reason))
      in (if insert_it then snd (insert_event (status_event i status reason now) st1) else st1, sel1))"

definition set_account_status :: "str \<Rightarrow> str \<Rightarrow> str \<Rightarrow> i64 \<Rightarrow> acct_world \<Rightarrow> acct_world" where
  "set_account_status i status reason now w = set_account_status_with_context i status reason None now w"

definition should_preserve_manual_account_status :: "store \<Rightarrow> str \<Rightarrow> bool" where
  "should_preserve_manual_account_status st i =
     (case account_status st i of None \<Rightarrow> False
      | Some s \<Rightarrow> eq_ignore_ascii_case (trim s) ''disabled'' \<or> eq_ignore_ascii_case (trim s) ''inactive'')"

text \<open>The three setters share their body: refuse for a manual status, else set.\<close>

definition set_account_blocked :: "str \<Rightarrow> str \<Rightarrow> str \<Rightarrow> i64 \<Rightarrow> acct_world \<Rightarrow> bool \<times> acct_world" where
  "set_account_blocked status i reason now w =
     (if should_preserve_manual_account_status (fst w) i then (False, w)
      else (True, set_account_status i status reason now w))"

definition set_account_unavailable_with_reason where
  "set_account_unavailable_with_reason = set_account_blocked ''unavailable''"

definition set_account_limited_with_reason where
  "set_account_limited_with_reason = set_account_blocked ''limited''"

definition set_account_banned_with_reason where
  "set_account_banned_with_reason = set_account_blocked ''banned''"

definition mark_account_unavailable_for_gateway_error :: "str \<Rightarrow> str \<Rightarrow> i64 \<Rightarrow> acct_world \<Rightarrow> bool \<times> acct_world" where
  "mark_account_unavailable_for_gateway_error i err now w =
     (case deactivation_reason_from_message err of
        Some reason \<Rightarrow> set_account_banned_with_reason i reason now w
      | None \<Rightarrow>
          if usage_limit_reason_from_message err \<noteq> None
          then set_account_limited_with_reason i ''usage_limit_exhausted'' now w
          else (False, w))"

definition mark_account_unavailable_for_usage_http_error :: "str \<Rightarrow> str \<Rightarrow> i64 \<Rightarrow> acct_world \<Rightarrow> bool \<times> acct_world" where
  "mark_account_unavailable_for_usage_http_error i err now w =
     (case classify_account_availability_signal err of
        Some (UsageHttp code) \<Rightarrow>
          if code = 401 \<or> code = 403
          then set_account_unavailable_with_reason i (''usage_http_'' @ dec code) now w
          else (False, w)
      | _ \<Rightarrow> (False, w))"

definition mark_account_unavailable_for_deactivation_error :: "str \<Rightarrow> str \<Rightarrow> i64 \<Rightarrow> acct_world \<Rightarrow> bool \<times> acct_world" where
  "mark_account_unavailable_for_deactivation_error i err now w =
     (case classify_account_availability_signal err of
        Some (Deactivation reason) \<Rightarrow> set_account_banned_with_reason i reason now w
      | _ \<Rightarrow> (False, w))"

definition mark_account_unavailable_for_auth_error :: "str \<Rightarrow> str \<Rightarrow> i64 \<Rightarrow> acct_world \<Rightarrow> bool \<times> acct_world" where
  "mark_account_unavailable_for_auth_error i err now w =
     (case classify_account_availability_signal err of
        None \<Rightarrow> (False, w)
      | Some RefreshTokenRegionBlocked \<Rightarrow>
          set_account_unavailable_with_reason i ''refresh_token_region_blocked'' now w
      | Some (RefreshTokenSignal r) \<Rightarrow>
          set_account_unavailable_with_reason i (''refresh_token_invalid:'' @ as_code r) now w
      | Some (Deactivation reason) \<Rightarrow> set_account_banned_with_reason i reason now w
      | Some (UsageHttp _) \<Rightarrow> (False, w))"

definition mark_account_unavailable_for_refresh_token_error :: "str \<Rightarrow> str \<Rightarrow> i64 \<Rightarrow> acct_world \<Rightarrow> bool \<times> acct_world" where
  "mark_account_unavailable_for_refresh_token_error i err now w =
     (case classify_account_availability_signal err of
        Some RefreshTokenRegionBlocked \<Rightarrow>
          set_account_unavailable_with_reason i ''refresh_token_region_blocked'' now w
      | Some (RefreshTokenSignal r) \<Rightarrow>
          set_account_unavailable_with_reason i (''refresh_token_invalid:'' @ as_code r) now w
      | _ \<Rightarrow> (False, w))"

lemmas setter_defs = set_account_unavailable_with_reason_def set_account_limited_with_reason_def
  set_account_banned_with_reason_def

lemmas mark_defs = mark_account_unavailable_for_gateway_error_def
  mark_account_unavailable_for_usage_http_error_def mark_account_unavailable_for_deactivation_error_def
  mark_account_unavailable_for_auth_error_def mark_account_unavailable_for_refresh_token_error_def

text \<open>
  An account an operator disabled or set inactive stays as it is: no error, whatever its text,
  makes any of the automatic marks change its status, write an event or empty the cache, and
  every mark reports that it did nothing.
\<close>

theorem manual_status_preserved:
  assumes "account_status (fst w) i = Some s"
    "to_ascii_lowercase (trim s) = ''disabled'' \<or> to_ascii_lowercase (trim s) = ''inactive''"
  shows "mark_account_unavailable_for_gateway_error i err now w = (False, w)
    \<and> mark_account_unavailable_for_usage_http_error i err now w = (False, w)
    \<and> mark_account_unavailable_for_deactivation_error i err now w = (False, w)
    \<and> mark_account_unavailable_for_auth_error i err now w = (False, w)
    \<and> mark_account_unavailable_for_refresh_token_error i err now w = (False, w)"
proof -
  have "to_ascii_lowercase ''disabled'' = ''disabled''" "to_ascii_lowercase ''inactive'' = ''inactive''"
    by code_simp+
  then have "should_preserve_manual_account_status (fst w) i"
    using assms by (auto simp: should_preserve_manual_account_status_def eq_ignore_ascii_case_def)
  then have b: "set_account_blocked status i reason now w = (False, w)" for status reason
    by (simp add: set_account_blocked_def)
  show ?thesis
    by (simp add: mark_defs setter_defs b split: option.split signal.split)
qed

theorem manual_status_preserved_witness:
  "mark_account_unavailable_for_gateway_error ''b'' ''account deactivated'' 9 (demo_store, initial_selection)
     = (False, (demo_store, initial_selection))"
proof -
  have "account_status demo_store ''b'' = Some ''disabled''"
    by (simp add: account_status_def find_account_status_by_id_def account_rows_def demo_store_def demo_account_def)
  moreover have "to_ascii_lowercase (trim ''disabled'') = ''disabled''" by code_simp
  ultimately show ?thesis
    using manual_status_preserved [of "(demo_store, initial_selection)" "''b''" "''disabled''" "''account deactivated''" 9]
    by simp
qed

section \<open>A status change is remembered with its reason\<close>

lemma split_marker:
  "CHR '' '' \<notin> set a \<Longrightarrow> split_once reason_marker (a @ reason_marker @ b) = Some (a, b)"
  by (induction a) auto

lemma extract_reason_status_event:
  assumes "CHR '' '' \<notin> set status" "trim reason = reason" "reason \<noteq> []"
  shows "extract_status_reason_from_event_message (ev_message (status_event i status reason now)) = Some reason"
proof -
  have "split_once reason_marker ((''status='' @ status) @ reason_marker @ reason) = Some (''status='' @ status, reason)"
    by (rule split_marker) (use assms (1) in simp)
  then show ?thesis using assms (2,3)
    by (simp add: extract_status_reason_from_event_message_def status_event_def)
qed

text \<open>Events have ids below the next one and none is newer than \<open>now\<close>.\<close>

definition events_before :: "store \<Rightarrow> i64 \<Rightarrow> bool" where
  "events_before st now \<longleftrightarrow> (\<forall>(n, e) \<in> set (st_events st). n < st_next_id st \<and> ev_created_at e \<le> now)"

lemma latest_row_append_newest:
  assumes "\<forall>r \<in> set rs. (ts (snd r), fst r) < (ts (snd q), fst q)"
  shows "latest_row ts (rs @ [q]) = Some q"
  using assms by (induction rs) auto

lemma latest_status_event_insert:
  assumes "st_fault st = None" "events_before st (ev_created_at e)"
    "ev_type e = ''account_status_update''" "ev_account_id e = Some i"
  shows "latest_status_event (snd (insert_event e st)) i = Some e"
proof -
  let ?rs = "filter (\<lambda>(_, e). ev_type e = ''account_status_update'' \<and> ev_account_id e = Some i) (st_events st)"
  have "\<forall>r \<in> set ?rs. (ev_created_at (snd r), fst r) < (ev_created_at (snd (st_next_id st, e)), fst (st_next_id st, e))"
    using assms (2) by (auto simp: events_before_def less_prod_simp)
  from latest_row_append_newest [OF this] show ?thesis
    using assms (1,3,4) by (simp add: latest_status_event_def insert_event_def)
qed

lemma latest_status_reason_event:
  assumes "st_fault st = None" "trim i = i" "i \<noteq> []"
  shows "latest_status_reason st i = Option.bind (latest_status_event st i)
      (\<lambda>e. extract_status_reason_from_event_message (ev_message e))"
proof -
  have "normalize_text_ids [i] = [i]" using assms (2,3) by (simp add: normalize_text_ids_def)
  then show ?thesis using assms (1)
    by (simp add: latest_status_reason_def latest_account_status_reasons_def)
qed

lemma account_status_exact:
  assumes "st_fault st = None"
  shows "account_status (snd (update_account_status_if_changed_with_existence i status now st)) i
      = (if i \<in> set (account_ids st) then Some status else None)"
    and "fst (update_account_status_if_changed_with_existence i status now st)
      = Inr (i \<in> set (account_ids st), \<exists>r \<in> set (st_accounts st). acc_id (fst r) = i \<and> acc_status (fst r) \<noteq> status)"
    and "st_fault (snd (update_account_status_if_changed_with_existence i status now st)) = None"
    and "st_events (snd (update_account_status_if_changed_with_existence i status now st)) = st_events st"
    and "st_next_id (snd (update_account_status_if_changed_with_existence i status now st)) = st_next_id st"
    and "j \<noteq> i \<Longrightarrow> account_status (snd (update_account_status_if_changed_with_existence i status now st)) j
      = account_status st j"
  using update_status_facts [OF assms, where i = i and status = status and now = now]
  by (auto simp: account_status_def find_account_status_by_id_def assms)

text \<open>
  After a status change the account has the status and the store remembers the reason: reading
  the reason of the latest event back gives exactly the reason that was passed, whether the
  change wrote a new event or found the same status and reason already there. Changing the
  status empties the candidate cache, and no other account's status moves.
\<close>

theorem set_account_status_remembered:
  assumes "st_fault st = None" "i \<in> set (account_ids st)" "trim i = i" "i \<noteq> []"
    "CHR '' '' \<notin> set status" "trim reason = reason" "reason \<noteq> []" "events_before st now"
    and w: "w = set_account_status i status reason now (st, sel)"
  shows "account_status (fst w) i = Some status
    \<and> latest_status_reason (fst w) i = Some reason
    \<and> (\<forall>j. j \<noteq> i \<longrightarrow> account_status (fst w) j = account_status st j)
    \<and> (account_status st i \<noteq> Some status \<longrightarrow> sl_cache (snd w) = None)"
proof -
  define st1 where "st1 = snd (update_account_status_if_changed_with_existence i status now st)"
  note u = account_status_exact [OF assms (1), where i = i and status = status and now = now, folded st1_def]
  define changed where "changed \<longleftrightarrow> (\<exists>r \<in> set (st_accounts st). acc_id (fst r) = i \<and> acc_status (fst r) \<noteq> status)"
  let ?e = "status_event i status reason now"
  define ins where "ins \<longleftrightarrow> changed \<or> latest_status_reason st1 i \<noteq> Some reason"
  have ev: "insert_event ?e st1 = (Inr (), snd (insert_event ?e st1))"
    using u (3) by (simp add: insert_event_def)
  have weq: "w = (if ins then snd (insert_event ?e st1) else st1,
      if changed then invalidate_candidate_cache sel else sel)"
    using u (2) assms (2)
    by (auto simp: w set_account_status_def set_account_status_with_context_def Let_def case_prod_beta
        st1_def [symmetric] changed_def [symmetric] ins_def)
  have same: "account_status (snd (insert_event ?e st1)) j = account_status st1 j" for j
    using u (3) by (simp add: account_status_def find_account_status_by_id_def insert_event_def account_rows_def)
  have status: "account_status (fst w) i = Some status"
      "\<And>j. j \<noteq> i \<Longrightarrow> account_status (fst w) j = account_status st j"
    using u (1,6) assms (2) same by (simp_all add: weq)
  have "latest_status_reason (fst w) i = Some reason"
  proof (cases ins)
    case True
    have "events_before st1 (ev_created_at ?e)"
      using assms (8) u (4,5) by (simp add: events_before_def status_event_def)
    then have "latest_status_event (fst w) i = Some ?e"
      using True u (3) by (simp add: weq latest_status_event_insert status_event_def)
    moreover have "st_fault (fst w) = None" using True u (3) by (simp add: weq insert_event_def)
    ultimately show ?thesis
      using extract_reason_status_event [OF assms (5-7)] assms (3,4)
      by (simp add: latest_status_reason_event)
  next
    case False
    then show ?thesis by (simp add: weq ins_def)
  qed
  moreover have "sl_cache (snd w) = None" if "account_status st i \<noteq> Some status"
  proof -
    have changed unfolding changed_def
      using that assms (1,2) by (intro status_row_differs) (auto simp: account_status_def sql_ok_def)
    then show ?thesis by (simp add: weq invalidate_candidate_cache_def clear_candidate_cache_def)
  qed
  ultimately show ?thesis using status by blast
qed

theorem set_account_status_remembered_witness:
  "latest_status_reason (fst (set_account_status ''a'' ''limited'' ''usage_limit_exhausted'' 9
      (demo_store, initial_selection))) ''a'' = Some ''usage_limit_exhausted''"
proof -
  have "trim ''a'' = ''a''" "trim ''usage_limit_exhausted'' = ''usage_limit_exhausted''" by code_simp+
  then show ?thesis
    using set_account_status_remembered [of demo_store "''a''" "''limited''" "''usage_limit_exhausted''" 9
        "set_account_status ''a'' ''limited'' ''usage_limit_exhausted'' 9 (demo_store, initial_selection)"
        initial_selection]
    by (simp add: demo_store_def demo_account_def account_ids_def events_before_def)
qed

section \<open>The follow-up and the mark agree\<close>

lemma set_account_blocked_status:
  assumes "st_fault (fst w) = None" "i \<in> set (account_ids (fst w))"
    "\<not> should_preserve_manual_account_status (fst w) i"
  shows "fst (set_account_blocked status i reason now w)
    \<and> account_status (fst (snd (set_account_blocked status i reason now w))) i = Some status"
proof -
  obtain st sel where w: "w = (st, sel)" by (cases w)
  have f: "st_fault st = None" and m: "i \<in> set (account_ids st)" using assms (1,2) by (simp_all add: w)
  define st1 where "st1 = snd (update_account_status_if_changed_with_existence i status now st)"
  note u = account_status_exact [OF f, where i = i and status = status and now = now, folded st1_def]
  have same: "account_status (snd (insert_event e st1)) i = account_status st1 i" for e
    using u (3) by (simp add: account_status_def find_account_status_by_id_def insert_event_def account_rows_def)
  have "account_status (fst (set_account_status i status reason now w)) i = account_status st1 i"
    by (simp add: w set_account_status_def set_account_status_with_context_def Let_def case_prod_beta
        st1_def [symmetric] same)
  then show ?thesis using assms (3) u (1) m by (simp add: set_account_blocked_def)
qed

text \<open>
  What \<open>analyze_gateway_error\<close> announces is what the mark then does: the mark takes the account
  out exactly when the analysis says so (a manual status apart), a deactivation bans the
  account and a usage limit makes it limited; failover is announced only with another candidate
  left, and the default cooldown only for a usage limit that fails over.
\<close>

theorem gateway_error_mark_agrees:
  assumes "st_fault (fst w) = None" "i \<in> set (account_ids (fst w))"
    "\<not> should_preserve_manual_account_status (fst w) i"
    and f: "f = analyze_gateway_error err has_more"
    and r: "r = mark_account_unavailable_for_gateway_error i err now w"
  shows "fst r = ef_mark_unavailable f
    \<and> (ef_kind f = KDeactivation \<longrightarrow> account_status (fst (snd r)) i = Some ''banned'')
    \<and> (ef_kind f = KUsageLimit \<longrightarrow> account_status (fst (snd r)) i = Some ''limited'')
    \<and> (ef_kind f = KOther \<longrightarrow> snd r = w)
    \<and> (ef_failover f \<longleftrightarrow> has_more \<and> ef_kind f \<noteq> KOther)
    \<and> (ef_default_cooldown f \<longrightarrow> ef_kind f = KUsageLimit \<and> has_more)"
  using set_account_blocked_status [OF assms (1-3)]
  by (auto simp: f r analyze_gateway_error_def Let_def mark_account_unavailable_for_gateway_error_def
      setter_defs split: option.split)

theorem gateway_error_mark_agrees_witness:
  "fst (mark_account_unavailable_for_gateway_error ''a'' ''Account deactivated'' 9 (demo_store, initial_selection))
    = ef_mark_unavailable (analyze_gateway_error ''Account deactivated'' True)"
proof -
  have "\<not> should_preserve_manual_account_status demo_store ''a''"
    by (simp add: should_preserve_manual_account_status_def account_status_def find_account_status_by_id_def
        account_rows_def demo_store_def demo_account_def) code_simp
  moreover have "''a'' \<in> set (account_ids demo_store)"
    by (simp add: demo_store_def account_ids_def demo_account_def)
  ultimately show ?thesis
    using gateway_error_mark_agrees [of "(demo_store, initial_selection)" "''a''", OF _ _ _ refl refl]
      demo_store_fault by simp
qed

text \<open>
  For a refresh failure the texts the service prints itself lead to the right block: an
  answer with status 401 or an ended session makes the account unavailable with the reason's
  code in the stored reason.
\<close>

theorem refresh_failure_blocks_account:
  assumes "phrase 401 = ''Unauthorized''" "phrase 400 = ''Bad Request''"
    "classify_refresh_token_auth_error_reason_with_headers parse status body = Some reason"
    and e: "err = format_refresh_token_reason_error phrase status reason"
  shows "mark_account_unavailable_for_auth_error i err now w
      = set_account_unavailable_with_reason i (''refresh_token_invalid:'' @ as_code reason) now w
    \<and> mark_account_unavailable_for_refresh_token_error i err now w
      = mark_account_unavailable_for_auth_error i err now w"
proof -
  have "classify_account_availability_signal err = Some (RefreshTokenSignal reason)"
    using refresh_reason_printed [OF assms (1-3)]
    by (simp add: classify_account_availability_signal_def e)
  then show ?thesis
    by (simp add: mark_account_unavailable_for_auth_error_def
        mark_account_unavailable_for_refresh_token_error_def)
qed

theorem refresh_failure_blocks_account_witness:
  "mark_account_unavailable_for_auth_error ''a''
      (format_refresh_token_reason_error (\<lambda>n. if n = 401 then ''Unauthorized'' else ''Bad Request'') 401 Unknown401)
      9 (demo_store, initial_selection)
    = set_account_unavailable_with_reason ''a'' ''refresh_token_invalid:refresh_token_unknown_401'' 9
        (demo_store, initial_selection)"
  using refresh_failure_blocks_account
    [of "\<lambda>n. if n = 401 then ''Unauthorized'' else ''Bad Request''" "\<lambda>_. None" 401 "[]" Unknown401 _ "''a''" 9
      "(demo_store, initial_selection)"]
  by (simp add: classify_refresh_token_auth_error_reason_with_headers_def extract_refresh_token_error_code_def
      classify_refresh_token_auth_error_reason_from_code_def)

end
