(* ===== verification/Keyed_Store.thy ===== *)
theory Keyed_Store
  imports Gateway_Prelude
begin

text \<open>
  The interface a component relies on when it keeps one row per key in a table: a lookup, a
  write that may merge with the row that is there, and a removal. The laws are those of a table
  with a primary key; the lemmas are what a client needs of a whole history of writes.
\<close>

locale keyed_store =
  fixes look :: "'s \<Rightarrow> 'k \<Rightarrow> 'v option"
    and put :: "'v \<Rightarrow> 's \<Rightarrow> 's"
    and del :: "'k \<Rightarrow> 's \<Rightarrow> 's"
    and key :: "'v \<Rightarrow> 'k"
    and merge :: "'v option \<Rightarrow> 'v \<Rightarrow> 'v"
  assumes look_put_same: "look (put v s) (key v) = Some (merge (look s (key v)) v)"
    and look_put_other: "k \<noteq> key v \<Longrightarrow> look (put v s) k = look s k"
    and look_del_same: "look (del k s) k = None"
    and look_del_other: "k' \<noteq> k \<Longrightarrow> look (del k s) k' = look s k'"
begin

definition put_all :: "'v list \<Rightarrow> 's \<Rightarrow> 's" where
  "put_all vs s = fold put vs s"

lemma look_put: "look (put v s) k = (if k = key v then Some (merge (look s k) v) else look s k)"
  by (simp add: look_put_same look_put_other)

lemma put_all_other: "k \<notin> key ` set vs \<Longrightarrow> look (put_all vs s) k = look s k"
  by (induction vs arbitrary: s) (auto simp: put_all_def look_put_other)

lemma put_all_last:
  "key v = k \<Longrightarrow> k \<notin> key ` set ws \<Longrightarrow>
   look (put_all (vs @ v # ws) s) k = Some (merge (look (put_all vs s) k) v)"
  using put_all_other [of k ws] look_put_same [of v] by (auto simp: put_all_def)

lemma put_keeps_present: "look s k \<noteq> None \<Longrightarrow> look (put v s) k \<noteq> None"
  by (simp add: look_put)

lemma put_all_present: "look s k \<noteq> None \<Longrightarrow> look (put_all vs s) k \<noteq> None"
  by (induction vs arbitrary: s) (simp_all add: put_all_def del: not_None_eq, metis put_keeps_present)

lemma del_put: "look (del (key v) (put v s)) k = look (del (key v) s) k"
  by (cases "k = key v") (simp_all add: look_del_same look_del_other look_put_other)

end

end
