(* ===== verification/Route_Hint.thy ===== *)
theory Route_Hint
  imports Route_Quality Quota_Guard
begin

text \<open>
  \<^verbatim>\<open>gateway/routing/route_hint.rs\<close>: the order in which the candidates are tried. The manual
  preference comes first, else the list is rotated round-robin (balanced mode) and its head may
  be swapped with a healthier challenger from the first few candidates. The state per API key
  and model is two hash maps with a lifetime and a capacity, kept here as association lists; an
  \<^verbatim>\<open>Instant\<close> is a number of nanoseconds.
\<close>

unbundle bit_operations_syntax

record 'a route_entry =
  re_value :: 'a
  re_last_seen :: nat

record route_state =
  rh_loaded :: bool
  rh_mode :: nat
  rh_p2c_enabled :: bool
  rh_ordered_window :: nat
  rh_balanced_window :: nat
  rh_ttl_secs :: nat
  rh_capacity :: nat
  rh_next :: "(str \<times> nat route_entry) list"
  rh_nonce :: "(str \<times> u64 route_entry) list"
  rh_manual :: "str option"
  rh_tick :: u64

abbreviation mode_ordered :: nat where "mode_ordered \<equiv> 0"
abbreviation mode_balanced :: nat where "mode_balanced \<equiv> 1"

definition initial_route_state :: route_state where
  "initial_route_state = \<lparr>rh_loaded = False, rh_mode = mode_ordered, rh_p2c_enabled = True,
     rh_ordered_window = 1, rh_balanced_window = 1, rh_ttl_secs = 0, rh_capacity = 0,
     rh_next = [], rh_nonce = [], rh_manual = None, rh_tick = 0\<rparr>"

section \<open>Configuration\<close>

definition parse_route_mode :: "str \<Rightarrow> nat option" where
  "parse_route_mode raw =
     (let v = to_ascii_lowercase (trim raw) in
      if v \<in> set [''ordered'', ''order'', ''priority'', ''sequential''] then Some mode_ordered
      else if v \<in> set [''balanced'', ''round_robin'', ''round-robin'', ''rr''] then Some mode_balanced
      else None)"

definition route_mode_label :: "nat \<Rightarrow> str" where
  "route_mode_label mode = (if mode = mode_balanced then ''balanced'' else ''ordered'')"

definition env_bool_or :: "process_env \<Rightarrow> str \<Rightarrow> bool \<Rightarrow> bool" where
  "env_bool_or env name dflt =
     (case pe_var env name of None \<Rightarrow> dflt | Some raw \<Rightarrow> parse_bool_env raw dflt)"

definition env_usize_or :: "process_env \<Rightarrow> str \<Rightarrow> nat \<Rightarrow> nat" where
  "env_usize_or env name dflt =
     unwrap_or (bind_opt (pe_var env name) (\<lambda>raw. parse_unsigned usize_max (trim raw))) dflt"

definition env_u64_or :: "process_env \<Rightarrow> str \<Rightarrow> nat \<Rightarrow> nat" where
  "env_u64_or env name dflt =
     unwrap_or (bind_opt (pe_var env name) (\<lambda>raw. parse_unsigned (2 ^ 64 - 1) (trim raw))) dflt"

definition reload_route_from_env :: "process_env \<Rightarrow> route_state \<Rightarrow> route_state" where
  "reload_route_from_env env s =
     s\<lparr>rh_mode := unwrap_or (parse_route_mode (unwrap_or (pe_var env ''CODEXMANAGER_ROUTE_STRATEGY'') [])) mode_ordered,
       rh_p2c_enabled := env_bool_or env ''CODEXMANAGER_ROUTE_HEALTH_P2C_ENABLED'' True,
       rh_ordered_window := env_usize_or env ''CODEXMANAGER_ROUTE_HEALTH_P2C_ORDERED_WINDOW'' 1,
       rh_balanced_window := env_usize_or env ''CODEXMANAGER_ROUTE_HEALTH_P2C_BALANCED_WINDOW'' 1,
       rh_ttl_secs := env_u64_or env ''CODEXMANAGER_ROUTE_STATE_TTL_SECS'' 0,
       rh_capacity := env_usize_or env ''CODEXMANAGER_ROUTE_STATE_CAPACITY'' 0,
       rh_next := [], rh_nonce := [], rh_manual := None, rh_tick := 0\<rparr>"

definition ensure_route_config_loaded :: "process_env \<Rightarrow> route_state \<Rightarrow> route_state" where
  "ensure_route_config_loaded env s =
     (if rh_loaded s then s else (reload_route_from_env env s)\<lparr>rh_loaded := True\<rparr>)"

definition set_route_strategy :: "process_env \<Rightarrow> str \<Rightarrow> route_state \<Rightarrow> (str + str) \<times> route_state" where
  "set_route_strategy env strategy s0 =
     (let s = ensure_route_config_loaded env s0 in
      case parse_route_mode strategy of
        None \<Rightarrow> (Inl ''invalid strategy; use ordered or balanced (aliases: round_robin/round-robin/rr)'', s)
      | Some mode \<Rightarrow> (Inr (route_mode_label mode),
          s\<lparr>rh_mode := mode, rh_next := [], rh_nonce := [], rh_tick := 0\<rparr>))"

definition current_route_strategy :: "process_env \<Rightarrow> route_state \<Rightarrow> str \<times> route_state" where
  "current_route_strategy env s0 =
     (let s = ensure_route_config_loaded env s0 in (route_mode_label (rh_mode s), s))"

definition get_manual_preferred_account :: "store option \<Rightarrow> str option" where
  "get_manual_preferred_account storage =
     bind_opt storage (\<lambda>st. bind_opt (sql_ok (preferred_account_id st)) (\<lambda>x. x))"

definition set_manual_preferred_account :: "str \<Rightarrow> i64 \<Rightarrow> store option \<Rightarrow> (str + unit) \<times> store option" where
  "set_manual_preferred_account i now storage =
     (if trim i = [] then (Inl ''accountId is required'', storage)
      else (case storage of
              None \<Rightarrow> (Inl ''storage not initialized'', None)
            | Some st \<Rightarrow> (let (r, st') = set_preferred_account (Some (trim i)) now st in (r, Some st'))))"

definition clear_manual_preferred_account :: "i64 \<Rightarrow> store option \<Rightarrow> store option" where
  "clear_manual_preferred_account now storage =
     map_option (\<lambda>st. snd (set_preferred_account None now st)) storage"

section \<open>The maps\<close>

definition key_model_key :: "str \<Rightarrow> str option \<Rightarrow> str" where
  "key_model_key key_id model = trim key_id @ ''|'' @ unwrap_or (trimmed_nonempty model) ''-''"

definition is_entry_expired :: "nat \<Rightarrow> nat \<Rightarrow> nat \<Rightarrow> bool" where
  "is_entry_expired last_seen now ttl \<longleftrightarrow> ttl \<noteq> 0 \<and> last_seen \<le> now \<and> ttl < now - last_seen"

definition remove_entry_if_expired ::
    "str \<Rightarrow> nat \<Rightarrow> nat \<Rightarrow> (str \<times> 'a route_entry) list \<Rightarrow> (str \<times> 'a route_entry) list" where
  "remove_entry_if_expired k now ttl m =
     (if ttl = 0 then m
      else if (case map_of m k of None \<Rightarrow> False | Some e \<Rightarrow> is_entry_expired (re_last_seen e) now ttl)
      then AList.delete k m else m)"

definition prune_expired_entries :: "nat \<Rightarrow> nat \<Rightarrow> (str \<times> 'a route_entry) list \<Rightarrow> (str \<times> 'a route_entry) list" where
  "prune_expired_entries now ttl m =
     (if ttl = 0 then m else hm_retain (\<lambda>_ e. \<not> is_entry_expired (re_last_seen e) now ttl) m)"

text \<open>The least entry by \<open>last_seen\<close>, then by key; keys are distinct, so there is one.\<close>

fun find_oldest_key :: "(str \<times> 'a route_entry) list \<Rightarrow> str option" where
  "find_oldest_key [] = None"
| "find_oldest_key ((k, e) # m) =
     (case find_oldest_key m of
        None \<Rightarrow> Some k
      | Some k' \<Rightarrow>
          (case map_of m k' of
             None \<Rightarrow> Some k
           | Some e' \<Rightarrow> if (re_last_seen e', k') < (re_last_seen e, k) then Some k' else Some k))"

lemma find_oldest_key_in: "find_oldest_key m = Some k \<Longrightarrow> map_of m k \<noteq> None"
  by (induction m rule: find_oldest_key.induct) (auto split: option.splits if_splits)

lemma find_oldest_key_None: "find_oldest_key m = None \<longleftrightarrow> m = []"
  by (cases m rule: find_oldest_key.cases) (auto split: option.splits if_splits)

function enforce_loop ::
    "nat \<Rightarrow> (str \<times> 'a route_entry) list \<Rightarrow> (str \<times> 'b route_entry) list
       \<Rightarrow> (str \<times> 'a route_entry) list \<times> (str \<times> 'b route_entry) list" where
  "enforce_loop capacity m other =
     (if length m \<le> capacity then (m, other)
      else (case find_oldest_key m of
              None \<Rightarrow> (m, other)
            | Some k \<Rightarrow> enforce_loop capacity (AList.delete k m) (AList.delete k other)))"
  by pat_completeness auto
termination
  by (relation "measure (\<lambda>(c, m, other). length m)") (auto dest!: find_oldest_key_in length_delete_less)

declare enforce_loop.simps [simp del]

definition enforce_capacity_pair ::
    "nat \<Rightarrow> (str \<times> 'a route_entry) list \<Rightarrow> (str \<times> 'b route_entry) list
       \<Rightarrow> (str \<times> 'a route_entry) list \<times> (str \<times> 'b route_entry) list" where
  "enforce_capacity_pair capacity m other =
     (if capacity = 0 then (m, other) else enforce_loop capacity m other)"

lemma length_delete_le: "length (AList.delete k m) \<le> length m"
  by (simp add: AList.delete_eq)

lemma enforce_loop_length:
  "length (fst (enforce_loop c m other)) \<le> c
   \<and> length (snd (enforce_loop c m other)) \<le> length other"
proof (induction c m other rule: enforce_loop.induct)
  case (1 c m other)
  show ?case
  proof (cases "length m \<le> c")
    case True
    then show ?thesis by (subst (1 2) enforce_loop.simps) simp
  next
    case False
    then obtain k where k: "find_oldest_key m = Some k"
      using find_oldest_key_None [of m] by (cases "find_oldest_key m") auto
    then have "enforce_loop c m other = enforce_loop c (AList.delete k m) (AList.delete k other)"
      using False by (subst enforce_loop.simps) simp
    then show ?thesis using 1 [OF False k] length_delete_le [of k other] by simp
  qed
qed

section \<open>Round robin\<close>

definition route_state_ttl :: "route_state \<Rightarrow> nat" where
  "route_state_ttl s = rh_ttl_secs s * 10 ^ 9"

definition maybe_maintain :: "nat \<Rightarrow> route_state \<Rightarrow> route_state" where
  "maybe_maintain now s0 =
     (let s = s0\<lparr>rh_tick := rh_tick s0 + 1\<rparr> in
      if unat (rh_tick s) mod 64 \<noteq> 0 then s
      else (let ttl = route_state_ttl s;
                n1 = prune_expired_entries now ttl (rh_next s);
                p1 = prune_expired_entries now ttl (rh_nonce s);
                (n2, p2) = enforce_capacity_pair (rh_capacity s) n1 p1;
                (p3, n3) = enforce_capacity_pair (rh_capacity s) p2 n2
            in s\<lparr>rh_next := n3, rh_nonce := p3\<rparr>))"

definition entry_value_or :: "'a \<Rightarrow> (str \<times> 'a route_entry) list \<Rightarrow> str \<Rightarrow> 'a" where
  "entry_value_or d m k = (case map_of m k of None \<Rightarrow> d | Some e \<Rightarrow> re_value e)"

definition next_start_index :: "str \<Rightarrow> str option \<Rightarrow> nat \<Rightarrow> nat \<Rightarrow> route_state \<Rightarrow> nat \<times> route_state" where
  "next_start_index key_id model n now s0 =
     (let s = maybe_maintain now s0;
          k = key_model_key key_id model;
          m = remove_entry_if_expired k now (route_state_ttl s) (rh_next s);
          start = entry_value_or 0 m k mod n;
          m1 = AList.update k \<lparr>re_value = (start + 1) mod n, re_last_seen = now\<rparr> m;
          (m2, p) = enforce_capacity_pair (rh_capacity s) m1 (rh_nonce s)
      in (start, s\<lparr>rh_next := m2, rh_nonce := p\<rparr>))"

definition apply_balanced_round_robin ::
    "process_env \<Rightarrow> 'a list \<Rightarrow> str \<Rightarrow> str option \<Rightarrow> nat \<Rightarrow> route_state \<Rightarrow> 'a list \<times> route_state" where
  "apply_balanced_round_robin env cs key_id model now s0 =
     (let s = ensure_route_config_loaded env s0 in
      if length cs \<le> 1 then (cs, s)
      else (let (start, s1) = next_start_index key_id model (length cs) now s
            in (if 0 < start then rotate_left start cs else cs, s1)))"

section \<open>Challenger\<close>

text \<open>FNV-1a on 64 bits.\<close>

definition stable_hash_u64 :: "str \<Rightarrow> u64" where
  "stable_hash_u64 input =
     foldl (\<lambda>h b. (h XOR word_of_nat (of_char b)) * 1099511628211) 14695981039346656037 input"

definition p2c_challenger_index ::
    "str \<Rightarrow> str option \<Rightarrow> nat \<Rightarrow> nat \<Rightarrow> route_state \<Rightarrow> nat option \<times> route_state" where
  "p2c_challenger_index key_id model n now s0 =
     (if n < 2 then (None, s0)
      else (let s = maybe_maintain now s0;
                k = key_model_key key_id model;
                m = remove_entry_if_expired k now (route_state_ttl s) (rh_nonce s);
                nonce = entry_value_or 0 m k;
                m1 = AList.update k \<lparr>re_value = nonce + 1, re_last_seen = now\<rparr> m;
                (m2, p) = enforce_capacity_pair (rh_capacity s) m1 (rh_next s);
                seed = stable_hash_u64 (k @ ''|'' @ dec (unat nonce))
            in (Some (unat seed mod (n - 1) + 1), s\<lparr>rh_nonce := m2, rh_next := p\<rparr>)))"

definition route_health_window :: "nat \<Rightarrow> route_state \<Rightarrow> nat" where
  "route_health_window mode s = (if mode = mode_balanced then rh_balanced_window s else rh_ordered_window s)"

text \<open>The times the operation reads: two instants and the two clock reads of the scores.\<close>

record route_times =
  rt_start :: nat
  rt_p2c :: nat
  rt_score0 :: i64
  rt_score1 :: i64

definition apply_health_p2c ::
    "(account \<times> token) list \<Rightarrow> str \<Rightarrow> str option \<Rightarrow> nat \<Rightarrow> route_times \<Rightarrow> route_state \<times> quality_state
       \<Rightarrow> (account \<times> token) list \<times> route_state \<times> quality_state" where
  "apply_health_p2c cs key_id model mode ts w =
     (let (s, q) = w in
      if \<not> rh_p2c_enabled s then (cs, s, q)
      else (let window = min (route_health_window mode s) (length cs) in
            if window \<le> 1 then (cs, s, q)
            else (case p2c_challenger_index key_id model window (rt_p2c ts) s of
                    (None, s1) \<Rightarrow> (cs, s1, q)
                  | (Some c, s1) \<Rightarrow>
                      (let (current, q1) = route_health_score (acc_id (fst (cs ! 0))) (rt_score0 ts) q;
                           (challenger, q2) = route_health_score (acc_id (fst (cs ! c))) (rt_score1 ts) q1
                       in (if current < challenger then swap_list 0 c cs else cs, s1, q2)))))"

section \<open>The strategy\<close>

definition rotate_to_manual_preferred_account ::
    "store option \<Rightarrow> (account \<times> token) list \<Rightarrow> (account \<times> token) list \<times> bool" where
  "rotate_to_manual_preferred_account storage cs =
     (case get_manual_preferred_account storage of
        None \<Rightarrow> (cs, False)
      | Some i \<Rightarrow>
          (case position (\<lambda>c. acc_id (fst c) = i) cs of
             None \<Rightarrow> (cs, False)
           | Some n \<Rightarrow> (if 0 < n then rotate_left n cs else cs, True)))"

record route_application =
  ra_strategy_label :: str
  ra_source :: str

definition apply_route_strategy_with_source ::
    "process_env \<Rightarrow> store option \<Rightarrow> (account \<times> token) list \<Rightarrow> str \<Rightarrow> str option \<Rightarrow> route_times
       \<Rightarrow> route_state \<times> quality_state
       \<Rightarrow> (route_application \<times> (account \<times> token) list) \<times> route_state \<times> quality_state" where
  "apply_route_strategy_with_source env storage cs key_id model ts w0 =
     (let s = ensure_route_config_loaded env (fst w0); q = snd w0;
          default_app = \<lparr>ra_strategy_label = route_mode_label (rh_mode s), ra_source = ''route_strategy''\<rparr>
      in if length cs \<le> 1 then ((default_app, cs), s, q)
         else (let (cs1, rotated) = rotate_to_manual_preferred_account storage cs in
               if rotated
               then ((\<lparr>ra_strategy_label = ''manual_preferred_account'',
                      ra_source = ''manual_preferred_account''\<rparr>, cs1), s, q)
               else (let mode = rh_mode s;
                         (cs2, s2) = (if mode = mode_balanced
                            then apply_balanced_round_robin env cs1 key_id model (rt_start ts) s
                            else (cs1, s));
                         (cs3, s3, q3) = apply_health_p2c cs2 key_id model mode ts (s2, q)
                     in ((default_app, cs3), s3, q3))))"

definition apply_route_strategy ::
    "process_env \<Rightarrow> store option \<Rightarrow> (account \<times> token) list \<Rightarrow> str \<Rightarrow> str option \<Rightarrow> route_times
       \<Rightarrow> route_state \<times> quality_state \<Rightarrow> (account \<times> token) list \<times> route_state \<times> quality_state" where
  "apply_route_strategy env storage cs key_id model ts w =
     (let ((_, cs'), w') = apply_route_strategy_with_source env storage cs key_id model ts w in (cs', w'))"

section \<open>Reordering as an interface\<close>

text \<open>
  What the failover loop needs of whatever orders its candidates: no candidate is lost, none is
  duplicated. Every stage of the strategy is an instance, and so is the strategy itself.
\<close>

locale candidate_reorder =
  fixes reorder :: "'s \<Rightarrow> 'c list \<Rightarrow> 'c list"
  assumes reorder_mset: "mset (reorder s cs) = mset cs"
begin

lemma reorder_set: "set (reorder s cs) = set cs"
  by (rule mset_eq_setD [OF reorder_mset])

lemma reorder_length: "length (reorder s cs) = length cs"
  by (rule mset_eq_length [OF reorder_mset])

lemma reorder_distinct:
  "distinct (map f (reorder s cs)) \<longleftrightarrow> distinct (map f cs)"
  by (metis mset_eq_imp_distinct_iff mset_map reorder_mset)

lemma reorder_short: "length cs \<le> 1 \<Longrightarrow> reorder s cs = cs"
  using reorder_mset [of s cs] by (cases cs) auto

lemma reorder_head: "cs \<noteq> [] \<Longrightarrow> hd (reorder s cs) \<in> set cs"
  using reorder_set [of s cs] reorder_length [of s cs] hd_in_set [of "reorder s cs"] by force

end

lemma round_robin_mset: "mset (fst (apply_balanced_round_robin env cs key_id model now s)) = mset cs"
  by (simp add: apply_balanced_round_robin_def Let_def split: prod.split)

lemma apply_health_p2c_cases:
  assumes "apply_health_p2c cs key_id model mode ts (s, q) = (cs', s', q')"
  shows "cs' = cs \<or>
    (\<exists>c. 0 < c \<and> c < min (route_health_window mode s) (length cs) \<and> cs' = swap_list 0 c cs
       \<and> fst (route_health_score (acc_id (fst (cs ! 0))) (rt_score0 ts) q)
          < fst (route_health_score (acc_id (fst (cs ! c))) (rt_score1 ts)
                 (snd (route_health_score (acc_id (fst (cs ! 0))) (rt_score0 ts) q))))"
proof -
  define w where "w = min (route_health_window mode s) (length cs)"
  show ?thesis
  proof (cases "rh_p2c_enabled s \<and> 1 < w")
    case False
    then have "\<not> rh_p2c_enabled s \<or> w \<le> 1" by linarith
    then have "apply_health_p2c cs key_id model mode ts (s, q) = (cs, s, q)"
      unfolding apply_health_p2c_def w_def [symmetric] prod.case Let_def by (simp only: if_True split: if_split) blast
    then show ?thesis using assms by simp
  next
    case True
    obtain c s1 where c: "p2c_challenger_index key_id model w (rt_p2c ts) s = (Some c, s1)"
        "0 < c" "c < w"
    proof -
      have "\<exists>seed s1. p2c_challenger_index key_id model w (rt_p2c ts) s
              = (Some (unat (seed :: u64) mod (w - 1) + 1), s1)"
        using True by (simp add: p2c_challenger_index_def Let_def split: prod.split) blast
      then obtain seed :: u64 and s1
        where i: "p2c_challenger_index key_id model w (rt_p2c ts) s
              = (Some (unat seed mod (w - 1) + 1), s1)" by blast
      have "unat seed mod (w - 1) < w - 1" using True by simp
      then have "unat seed mod (w - 1) + 1 < w" by simp
      then show ?thesis by (intro that [OF i]) simp_all
    qed
    obtain a q1 where a: "route_health_score (acc_id (fst (cs ! 0))) (rt_score0 ts) q = (a, q1)"
      by fastforce
    obtain b q2 where b: "route_health_score (acc_id (fst (cs ! c))) (rt_score1 ts) q1 = (b, q2)"
      by fastforce
    have "rh_p2c_enabled s" "\<not> w \<le> 1" using True by simp_all
    then have "apply_health_p2c cs key_id model mode ts (s, q)
          = (if a < b then swap_list 0 c cs else cs, s1, q2)"
      unfolding apply_health_p2c_def w_def [symmetric] prod.case Let_def
      by (simp only: c(1) a b prod.case option.case not_True_eq_False if_False)
    then have "cs' = (if a < b then swap_list 0 c cs else cs)" using assms by simp
    then show ?thesis using c a b by (auto simp: w_def)
  qed
qed

lemma health_p2c_mset: "mset (fst (apply_health_p2c cs key_id model mode ts w)) = mset cs"
proof -
  obtain s q where w: "w = (s, q)" by fastforce
  obtain cs' s' q' where r: "apply_health_p2c cs key_id model mode ts (s, q) = (cs', s', q')"
    by (metis surj_pair)
  have "0 < length cs" if "0 < c" "c < min (route_health_window mode s) (length cs)" for c
    using that by linarith
  then have "mset cs' = mset cs" using apply_health_p2c_cases [OF r] by (metis min_less_iff_conj mset_swap_list)
  then show ?thesis by (simp add: w r)
qed

lemma rotate_to_manual_mset: "mset (fst (rotate_to_manual_preferred_account storage cs)) = mset cs"
  by (simp add: rotate_to_manual_preferred_account_def split: option.split)

lemma strategy_mset: "mset (fst (apply_route_strategy env storage cs key_id model ts w)) = mset cs"
proof -
  obtain cs1 r where m: "rotate_to_manual_preferred_account storage cs = (cs1, r)" by fastforce
  obtain cs2 s2 where b: "apply_balanced_round_robin env cs1 key_id model (rt_start ts)
      (ensure_route_config_loaded env (fst w)) = (cs2, s2)" by fastforce
  have "mset cs1 = mset cs" using rotate_to_manual_mset [of storage cs] m by simp
  moreover have "mset cs2 = mset cs1"
    using round_robin_mset [of env cs1 key_id model "rt_start ts" "ensure_route_config_loaded env (fst w)"] b
    by simp
  ultimately show ?thesis
    using health_p2c_mset [where cs = cs1] health_p2c_mset [where cs = cs2]
    by (auto simp: apply_route_strategy_def apply_route_strategy_with_source_def Let_def m b
        split: prod.splits) (metis fst_conv)+
qed

interpretation round_robin: candidate_reorder
    "\<lambda>(env, key_id, model, now, s) cs. fst (apply_balanced_round_robin env cs key_id model now s)"
  by unfold_locales (auto simp: round_robin_mset)

interpretation route_strategy: candidate_reorder
    "\<lambda>(env, storage, key_id, model, ts, w) cs. fst (apply_route_strategy env storage cs key_id model ts w)"
  by unfold_locales (auto simp: strategy_mset)

section \<open>Round robin is fair\<close>

lemma maybe_maintain_frame [frame_simps]:
  "rh_loaded (maybe_maintain now s) = rh_loaded s"
  "rh_ttl_secs (maybe_maintain now s) = rh_ttl_secs s"
  "rh_capacity (maybe_maintain now s) = rh_capacity s"
  "rh_mode (maybe_maintain now s) = rh_mode s"
  by (simp_all add: maybe_maintain_def Let_def split: prod.split)

lemma maybe_maintain_unbounded:
  "rh_ttl_secs s = 0 \<Longrightarrow> rh_capacity s = 0 \<Longrightarrow> rh_next (maybe_maintain now s) = rh_next s"
  by (simp add: maybe_maintain_def Let_def route_state_ttl_def prune_expired_entries_def
      enforce_capacity_pair_def)

lemma next_start_index_unbounded:
  assumes "rh_ttl_secs s = 0" "rh_capacity s = 0"
  shows "fst (next_start_index key_id model n now s) = entry_value_or 0 (rh_next s) (key_model_key key_id model) mod n"
    and "entry_value_or 0 (rh_next (snd (next_start_index key_id model n now s))) k
       = (if k = key_model_key key_id model
          then (entry_value_or 0 (rh_next s) k mod n + 1) mod n else entry_value_or 0 (rh_next s) k)"
    and "rh_ttl_secs (snd (next_start_index key_id model n now s)) = 0"
    and "rh_capacity (snd (next_start_index key_id model n now s)) = 0"
    and "rh_loaded (snd (next_start_index key_id model n now s)) = rh_loaded s"
  using assms
  by (simp_all add: next_start_index_def Let_def maybe_maintain_unbounded route_state_ttl_def frame_simps
      remove_entry_if_expired_def enforce_capacity_pair_def entry_value_or_def update_conv')

text \<open>
  A sequence of requests: each has the key, the model, its time and the candidates it found. The
  run returns, with the key of each request, the order it was given.
\<close>

fun balanced_run ::
    "process_env \<Rightarrow> (str \<times> str option \<times> nat \<times> 'a list) list \<Rightarrow> route_state \<Rightarrow> (str \<times> 'a list) list" where
  "balanced_run env [] s = []"
| "balanced_run env ((key_id, model, now, cs) # calls) s =
     (let (cs', s') = apply_balanced_round_robin env cs key_id model now s
      in (key_model_key key_id model, cs') # balanced_run env calls s')"

definition call_key :: "str \<times> str option \<times> nat \<times> 'a list \<Rightarrow> str" where
  "call_key c = (case c of (key_id, model, _, _) \<Rightarrow> key_model_key key_id model)"

definition call_candidates :: "str \<times> str option \<times> nat \<times> 'a list \<Rightarrow> 'a list" where
  "call_candidates c = (case c of (_, _, _, cs) \<Rightarrow> cs)"

definition heads_for :: "str \<Rightarrow> (str \<times> 'a list) list \<Rightarrow> 'a list" where
  "heads_for k outs = map (\<lambda>p. hd (snd p)) (filter (\<lambda>p. fst p = k) outs)"

lemma balanced_heads:
  assumes "rh_loaded s" "rh_ttl_secs s = 0" "rh_capacity s = 0" "1 < length cs"
    and "\<And>c. c \<in> set calls \<Longrightarrow> call_key c = k \<Longrightarrow> call_candidates c = cs"
  shows "heads_for k (balanced_run env calls s)
    = map (\<lambda>i. cs ! ((entry_value_or 0 (rh_next s) k + i) mod length cs))
        [0..<length (filter (\<lambda>c. call_key c = k) calls)]"
  using assms
proof (induction calls arbitrary: s)
  case Nil
  then show ?case by (simp add: heads_for_def)
next
  case (Cons c calls)
  obtain key_id model now ds where c: "c = (key_id, model, now, ds)" by (metis surj_pair)
  let ?k = "key_model_key key_id model" and ?v = "entry_value_or 0 (rh_next s) k"
  obtain st s1 where n: "next_start_index key_id model (length ds) now s = (st, s1)" by fastforce
  note nsi = next_start_index_unbounded [OF Cons.prems(2,3), of key_id model "length ds" now]
  define s' where "s' = (if length ds \<le> 1 then s else s1)"
  have run: "apply_balanced_round_robin env ds key_id model now s
      = (if length ds \<le> 1 then ds else rotate_left st ds, s')"
    using Cons.prems(1) n
    by (simp add: apply_balanced_round_robin_def ensure_route_config_loaded_def s'_def)
  have s': "rh_loaded s'" "rh_ttl_secs s' = 0" "rh_capacity s' = 0"
    using Cons.prems(1-3) nsi(3-5) n by (simp_all add: s'_def)
  note IH = Cons.IH [OF s' Cons.prems(4)]
  have rest: "heads_for k (balanced_run env calls s')
      = map (\<lambda>i. cs ! ((entry_value_or 0 (rh_next s') k + i) mod length cs))
        [0..<length (filter (\<lambda>c. call_key c = k) calls)]"
    by (rule IH) (use Cons.prems(5) in auto)
  show ?case
  proof (cases "?k = k")
    case False
    then have "entry_value_or 0 (rh_next s') k = ?v"
      using nsi(2) [of k] n by (auto simp: s'_def)
    then show ?thesis using False rest run by (simp add: c heads_for_def call_key_def)
  next
    case True
    then have ds: "ds = cs" using Cons.prems(5) [of c] by (simp add: c call_key_def call_candidates_def)
    have st: "st = ?v mod length cs" using nsi(1) n True ds by simp
    have v': "entry_value_or 0 (rh_next s') k = (?v + 1) mod length cs"
      using nsi(2) [of k] n True ds Cons.prems(4) by (simp add: s'_def mod_Suc_eq)
    have out: "balanced_run env (c # calls) s = (k, rotate_left st cs) # balanced_run env calls s'"
      using run True ds Cons.prems(4) by (simp add: c)
    have head: "hd (rotate_left st cs) = cs ! (?v mod length cs)"
      unfolding st by (rule rotate_left_hd, rule mod_less_divisor) (use Cons.prems(4) in linarith)
    have len: "length (filter (\<lambda>c. call_key c = k) (c # calls))
        = Suc (length (filter (\<lambda>c. call_key c = k) calls))"
      using True by (simp add: c call_key_def)
    have "heads_for k (balanced_run env (c # calls) s)
        = cs ! (?v mod length cs) # heads_for k (balanced_run env calls s')"
      unfolding out using head by (simp add: heads_for_def)
    also have "\<dots> = map (\<lambda>i. cs ! ((?v + i) mod length cs))
        [0..<Suc (length (filter (\<lambda>c. call_key c = k) calls))]"
      unfolding rest v' map_upt_Suc by (simp add: mod_simps)
    finally show ?thesis by (simp only: len)
  qed
qed

text \<open>
  With the default limits (no lifetime, no capacity), balanced mode is fair per API key and
  model whatever other keys do in between: over as many requests of a key as it has candidates,
  every candidate is tried first exactly once.
\<close>

theorem balanced_round_robin_fair:
  assumes "rh_loaded s" "rh_ttl_secs s = 0" "rh_capacity s = 0" "1 < length cs"
    and "\<forall>c \<in> set calls. call_key c = k \<longrightarrow> call_candidates c = cs"
    and "length (filter (\<lambda>c. call_key c = k) calls) = length cs"
  shows "mset (heads_for k (balanced_run env calls s)) = mset cs"
proof -
  let ?v = "entry_value_or 0 (rh_next s) k"
  have "heads_for k (balanced_run env calls s)
      = map (\<lambda>i. cs ! ((?v + i) mod length cs)) [0..<length cs]"
    using balanced_heads [OF assms(1-4), of calls k env] assms(5,6) by metis
  also have "\<dots> = rotate ?v cs"
    by (rule nth_equalityI) (simp_all add: nth_rotate add.commute)
  finally show ?thesis by simp
qed

definition demo_env :: process_env where
  "demo_env = \<lparr>pe_var = (\<lambda>_. None), pe_parse_f64 = (\<lambda>_. None)\<rparr>"

definition demo_calls :: "(str \<times> str option \<times> nat \<times> nat list) list" where
  "demo_calls = [(''k'', None, 1, [10, 20, 30]), (''other'', None, 2, [1, 2]), (''k'', None, 3, [10, 20, 30]),
     (''k'', Some '' '', 4, [10, 20, 30])]"

theorem balanced_round_robin_fair_witness:
  "mset (heads_for ''k|-'' (balanced_run demo_env demo_calls (initial_route_state\<lparr>rh_loaded := True\<rparr>)))
     = mset [10, 20, 30]"
proof (rule balanced_round_robin_fair)
  have keys: "map call_key demo_calls = [''k|-'', ''other|-'', ''k|-'', ''k|-'']" by code_simp
  then show "\<forall>c \<in> set demo_calls. call_key c = ''k|-'' \<longrightarrow> call_candidates c = [10, 20, 30]"
    by (simp add: demo_calls_def call_candidates_def)
  show "length (filter (\<lambda>c. call_key c = ''k|-'') demo_calls) = length [10, 20, 30 :: nat]"
    by code_simp
qed (simp_all add: initial_route_state_def)

section \<open>The strategy on every request\<close>

text \<open>
  Whatever the mode, the state and the clock, the strategy only reorders: every candidate is
  tried once. An account the user prefers, when it is among at least two candidates, comes first,
  the others follow in cyclic order, and neither the round-robin position nor a score is touched.
\<close>

theorem route_strategy_order:
  assumes "position (\<lambda>c. acc_id (fst c) = i) cs = Some n" "1 < length cs"
    and "get_manual_preferred_account storage = Some i"
  shows "apply_route_strategy_with_source env storage cs key_id model ts w
      = ((\<lparr>ra_strategy_label = ''manual_preferred_account'', ra_source = ''manual_preferred_account''\<rparr>,
          drop n cs @ take n cs), ensure_route_config_loaded env (fst w), snd w)
    \<and> acc_id (fst (hd (drop n cs @ take n cs))) = i
    \<and> (\<forall>env storage cs key_id model ts w.
         mset (fst (apply_route_strategy env storage cs key_id model ts w)) = mset cs)"
proof -
  note pos = position_SomeD [OF assms(1)]
  have "rotate_to_manual_preferred_account storage cs = (rotate_left n cs, True)"
    using assms by (simp add: rotate_to_manual_preferred_account_def)
  moreover have "acc_id (fst (hd (rotate_left n cs))) = i"
    using pos by (simp add: rotate_left_hd)
  ultimately show ?thesis using assms(2) pos
    by (simp add: apply_route_strategy_with_source_def Let_def rotate_left_def strategy_mset)
qed

definition demo_pool :: "(account \<times> token) list" where
  "demo_pool = [(demo_account ''a'' ''active'', demo_token ''a''), (demo_account ''b'' ''active'', demo_token ''b'')]"

definition demo_times :: route_times where
  "demo_times = \<lparr>rt_start = 1, rt_p2c = 1, rt_score0 = 1, rt_score1 = 1\<rparr>"

theorem route_strategy_order_witness:
  "\<exists>r. fst (apply_route_strategy_with_source demo_env (Some demo_store) demo_pool ''k'' None demo_times
            (initial_route_state, empty_quality)) = r
     \<and> map (\<lambda>c. acc_id (fst c)) (snd r) = [''b'', ''a'']"
proof -
  have p: "position (\<lambda>c. acc_id (fst c) = ''b'') demo_pool = Some 1"
    by (simp add: demo_pool_def demo_account_def)
  have l: "1 < length demo_pool" by (simp add: demo_pool_def)
  have m: "get_manual_preferred_account (Some demo_store) = Some ''b''" by code_simp
  show ?thesis
    using conjunct1 [OF route_strategy_order [OF p l m, of demo_env "''k''" None demo_times
            "(initial_route_state, empty_quality)"]]
    by (simp add: demo_pool_def demo_account_def)
qed

text \<open>
  An installation that sets none of the environment variables and no preferred account keeps
  the order of the candidate pool and reports the ordered strategy, as the comment on the default
  window asks.
\<close>

theorem default_route_keeps_order:
  assumes "\<forall>name. pe_var env name = None" "\<not> rh_loaded s"
    and "get_manual_preferred_account storage = None"
  shows "apply_route_strategy_with_source env storage cs key_id model ts (s, q)
     = ((\<lparr>ra_strategy_label = ''ordered'', ra_source = ''route_strategy''\<rparr>, cs),
        (reload_route_from_env env s)\<lparr>rh_loaded := True\<rparr>, q)"
proof -
  have "parse_route_mode [] = None" by code_simp
  then have "rh_mode (ensure_route_config_loaded env s) = mode_ordered"
    "rh_ordered_window (ensure_route_config_loaded env s) = 1"
    using assms by (simp_all add: ensure_route_config_loaded_def reload_route_from_env_def
        unwrap_or_def env_usize_or_def bind_opt_def)
  then show ?thesis using assms
    by (simp add: apply_route_strategy_with_source_def Let_def rotate_to_manual_preferred_account_def
        apply_health_p2c_def route_health_window_def route_mode_label_def)
       (simp add: ensure_route_config_loaded_def)
qed

text \<open>
  The health comparison never does more than exchange the head with one candidate of the
  window, and only for a strictly better score at the times it reads the two.
\<close>

theorem health_swap_only_for_better_score:
  assumes "apply_health_p2c cs key_id model mode ts (s, q) = (cs', s', q')" "cs' \<noteq> cs"
  shows "\<exists>c. 0 < c \<and> c < length cs \<and> c < route_health_window mode s
     \<and> cs' = cs[0 := cs ! c, c := cs ! 0]
     \<and> fst (route_health_score (acc_id (fst (cs ! 0))) (rt_score0 ts) q)
        < fst (route_health_score (acc_id (fst (cs ! c))) (rt_score1 ts)
               (snd (route_health_score (acc_id (fst (cs ! 0))) (rt_score0 ts) q)))"
  using apply_health_p2c_cases [OF assms(1)] assms(2) by (auto simp: swap_list_def)

definition demo_route :: route_state where
  "demo_route = initial_route_state\<lparr>rh_loaded := True, rh_ordered_window := 2\<rparr>"

lemma demo_scores:
  "route_health_score ''a'' 1 (record_route_quality ''a'' 429 1 empty_quality)
     = (85, record_route_quality ''a'' 429 1 empty_quality)"
  "route_health_score ''b'' 1 (record_route_quality ''a'' 429 1 empty_quality)
     = (100, record_route_quality ''a'' 429 1 empty_quality)"
  by (simp_all add: route_health_score_def record_route_quality_def with_map_mut_def i32_clamp_def
      maybe_cleanup_route_quality_def empty_quality_def update_quality_record_def
      route_quality_record_expired_def default_quality_record_def count_status_def i64_add_def
      i64_wrap_def route_health_delta_def)

lemma demo_swap:
  "fst (apply_health_p2c demo_pool ''k'' None mode_ordered demo_times
     (demo_route, record_route_quality ''a'' 429 1 empty_quality)) = rev demo_pool"
  by (simp add: apply_health_p2c_def demo_route_def initial_route_state_def demo_pool_def
      route_health_window_def p2c_challenger_index_def Let_def demo_times_def demo_account_def
      demo_scores swap_list_def split: prod.split)

theorem health_swap_only_for_better_score_witness:
  "\<exists>c. 0 < c \<and> c < 2 \<and> rev demo_pool = demo_pool[0 := demo_pool ! c, c := demo_pool ! 0]"
proof -
  let ?q = "record_route_quality ''a'' 429 1 empty_quality"
  obtain s' q' where a: "apply_health_p2c demo_pool ''k'' None mode_ordered demo_times (demo_route, ?q)
      = (rev demo_pool, s', q')" by (metis demo_swap prod.collapse)
  have "rev demo_pool \<noteq> demo_pool" by (simp add: demo_pool_def demo_account_def)
  from health_swap_only_for_better_score [OF a this] show ?thesis by (auto simp: demo_pool_def)
qed

section \<open>Capacity\<close>

definition route_maps_ok :: "route_state \<Rightarrow> bool" where
  "route_maps_ok s \<longleftrightarrow> hm_wf (rh_next s) \<and> hm_wf (rh_nonce s)
     \<and> (rh_capacity s \<noteq> 0 \<longrightarrow> length (rh_next s) \<le> rh_capacity s \<and> length (rh_nonce s) \<le> rh_capacity s)"

lemma enforce_loop_wf:
  "hm_wf m \<Longrightarrow> hm_wf other \<Longrightarrow> hm_wf (fst (enforce_loop c m other)) \<and> hm_wf (snd (enforce_loop c m other))"
proof (induction c m other rule: enforce_loop.induct)
  case (1 c m other)
  show ?case
  proof (cases "length m \<le> c \<or> find_oldest_key m = None")
    case True
    then show ?thesis using 1(2,3) by (subst (1 2) enforce_loop.simps) auto
  next
    case False
    then obtain k where k: "find_oldest_key m = Some k" "\<not> length m \<le> c" by auto
    then show ?thesis using 1(1) [OF k(2,1)] 1(2,3) by (subst (1 2) enforce_loop.simps) simp
  qed
qed

lemma enforce_capacity_pair_ok:
  assumes "enforce_capacity_pair c m other = (m', other')"
  shows "hm_wf m \<Longrightarrow> hm_wf other \<Longrightarrow> hm_wf m' \<and> hm_wf other'"
    and "c \<noteq> 0 \<Longrightarrow> length m' \<le> c \<and> length other' \<le> length other"
  using assms enforce_loop_wf [of m other c] enforce_loop_length [of c m other]
  by (auto simp: enforce_capacity_pair_def split: if_splits)

lemma prune_ok:
  "hm_wf m \<Longrightarrow> hm_wf (prune_expired_entries now ttl m)"
  "length (prune_expired_entries now ttl m) \<le> length m"
  by (simp_all add: prune_expired_entries_def length_hm_retain_le)

lemma remove_expired_ok:
  "hm_wf m \<Longrightarrow> hm_wf (remove_entry_if_expired k now ttl m)"
  by (simp add: remove_entry_if_expired_def)

lemma maybe_maintain_ok: "route_maps_ok s \<Longrightarrow> route_maps_ok (maybe_maintain now s)"
proof -
  assume ok: "route_maps_ok s"
  let ?s = "s\<lparr>rh_tick := rh_tick s + 1\<rparr>" and ?c = "rh_capacity s"
  let ?n = "prune_expired_entries now (route_state_ttl ?s) (rh_next s)"
  let ?p = "prune_expired_entries now (route_state_ttl ?s) (rh_nonce s)"
  obtain n2 p2 where e1: "enforce_capacity_pair ?c ?n ?p = (n2, p2)" by fastforce
  obtain p3 n3 where e2: "enforce_capacity_pair ?c p2 n2 = (p3, n3)" by fastforce
  have wf: "hm_wf ?n" "hm_wf ?p" using ok by (simp_all add: route_maps_ok_def prune_ok)
  note w1 = enforce_capacity_pair_ok(1) [OF e1 wf]
  note w2 = enforce_capacity_pair_ok(1) [OF e2 w1 [THEN conjunct2] w1 [THEN conjunct1]]
  have len: "length n3 \<le> ?c \<and> length p3 \<le> ?c" if "?c \<noteq> 0"
    using enforce_capacity_pair_ok(2) [OF e1 that] enforce_capacity_pair_ok(2) [OF e2 that]
    by linarith
  show ?thesis using ok w2 len by (simp add: maybe_maintain_def Let_def e1 e2 route_maps_ok_def)
qed

lemma next_start_index_ok:
  assumes "route_maps_ok s" shows "route_maps_ok (snd (next_start_index key_id model n now s))"
proof -
  define s1 where "s1 = maybe_maintain now s"
  have ok: "route_maps_ok s1" using maybe_maintain_ok [OF assms] by (simp add: s1_def)
  let ?k = "key_model_key key_id model"
  let ?m = "remove_entry_if_expired ?k now (route_state_ttl s1) (rh_next s1)"
  let ?e = "\<lparr>re_value = (entry_value_or 0 ?m ?k mod n + 1) mod n, re_last_seen = now\<rparr>"
  obtain m2 p where e: "enforce_capacity_pair (rh_capacity s1) (AList.update ?k ?e ?m) (rh_nonce s1) = (m2, p)"
    by fastforce
  have "hm_wf (AList.update ?k ?e ?m)" "hm_wf (rh_nonce s1)"
    using ok by (simp_all add: route_maps_ok_def remove_expired_ok)
  with enforce_capacity_pair_ok [OF e] ok
  have "route_maps_ok (s1\<lparr>rh_next := m2, rh_nonce := p\<rparr>)"
    by (auto simp: route_maps_ok_def intro: order_trans)
  then show ?thesis by (simp add: next_start_index_def Let_def s1_def [symmetric] e [simplified])
qed

lemma p2c_challenger_index_ok:
  assumes "route_maps_ok s" shows "route_maps_ok (snd (p2c_challenger_index key_id model n now s))"
proof (cases "n < 2")
  case False
  define s1 where "s1 = maybe_maintain now s"
  have ok: "route_maps_ok s1" using maybe_maintain_ok [OF assms] by (simp add: s1_def)
  let ?k = "key_model_key key_id model"
  let ?m = "remove_entry_if_expired ?k now (route_state_ttl s1) (rh_nonce s1)"
  let ?e = "\<lparr>re_value = entry_value_or 0 ?m ?k + 1, re_last_seen = now\<rparr>"
  obtain m2 p where e: "enforce_capacity_pair (rh_capacity s1) (AList.update ?k ?e ?m) (rh_next s1) = (m2, p)"
    by fastforce
  have "hm_wf (AList.update ?k ?e ?m)" "hm_wf (rh_next s1)"
    using ok by (simp_all add: route_maps_ok_def remove_expired_ok)
  with enforce_capacity_pair_ok [OF e] ok
  have "route_maps_ok (s1\<lparr>rh_nonce := m2, rh_next := p\<rparr>)"
    by (auto simp: route_maps_ok_def intro: order_trans)
  then show ?thesis using False by (simp add: p2c_challenger_index_def Let_def s1_def [symmetric] e)
qed (use assms in \<open>simp add: p2c_challenger_index_def\<close>)

lemma ensure_loaded_ok: "route_maps_ok s \<Longrightarrow> route_maps_ok (ensure_route_config_loaded env s)"
  by (simp add: ensure_route_config_loaded_def reload_route_from_env_def route_maps_ok_def)

lemma round_robin_ok:
  "route_maps_ok s \<Longrightarrow> route_maps_ok (snd (apply_balanced_round_robin env cs key_id model now s))"
  using next_start_index_ok [OF ensure_loaded_ok, of s key_id model "length cs" now env]
  by (auto simp: apply_balanced_round_robin_def Let_def ensure_loaded_ok split: prod.split)

lemma health_p2c_ok:
  "route_maps_ok s \<Longrightarrow> route_maps_ok (fst (snd (apply_health_p2c cs key_id model mode ts (s, q))))"
  using p2c_challenger_index_ok [of s key_id model "min (route_health_window mode s) (length cs)" "rt_p2c ts"]
  by (auto simp: apply_health_p2c_def Let_def split: prod.split option.split)

inductive route_reachable :: "process_env \<Rightarrow> route_state \<Rightarrow> bool" for env where
  start: "route_reachable env initial_route_state"
| strategy: "route_reachable env s \<Longrightarrow>
    route_reachable env (fst (snd (apply_route_strategy_with_source env storage cs key_id model ts (s, q))))"
| round_robin: "route_reachable env s \<Longrightarrow>
    route_reachable env (snd (apply_balanced_round_robin env (cs :: nat list) key_id model now s))"
| set_strategy: "route_reachable env s \<Longrightarrow> route_reachable env (snd (set_route_strategy env strategy s))"
| reload: "route_reachable env s \<Longrightarrow> route_reachable env (reload_route_from_env env' s)"

text \<open>
  In every state the strategy can reach, whatever the requests, settings and reloads, each of
  the two tables has one entry per key, and a configured capacity bounds both.
\<close>

theorem route_capacity_respected:
  assumes "route_reachable env s"
  shows "distinct (map fst (rh_next s)) \<and> distinct (map fst (rh_nonce s))
    \<and> (0 < rh_capacity s \<longrightarrow> length (rh_next s) \<le> rh_capacity s \<and> length (rh_nonce s) \<le> rh_capacity s)"
proof -
  have "route_maps_ok s" using assms
  proof induction
    case (strategy s storage cs key_id model ts q)
    let ?s = "ensure_route_config_loaded env s"
    obtain cs1 r where m: "rotate_to_manual_preferred_account storage cs = (cs1, r)" by fastforce
    obtain cs2 s2 where b: "apply_balanced_round_robin env cs1 key_id model (rt_start ts) ?s = (cs2, s2)"
      by fastforce
    have "route_maps_ok ?s" using strategy.IH by (rule ensure_loaded_ok)
    moreover have "route_maps_ok s2"
      using round_robin_ok [OF \<open>route_maps_ok ?s\<close>, of env cs1 key_id model "rt_start ts"] b by simp
    ultimately show ?case
      using health_p2c_ok [of ?s cs1 key_id model "rh_mode ?s" ts q]
        health_p2c_ok [of s2 cs2 key_id model "rh_mode ?s" ts q]
      by (auto simp: apply_route_strategy_with_source_def Let_def m b split: prod.splits)
  next
    case start
    then show ?case by (simp add: initial_route_state_def route_maps_ok_def)
  next
    case (round_robin s cs key_id model now)
    then show ?case by (simp add: round_robin_ok)
  next
    case (set_strategy s strategy)
    then show ?case using ensure_loaded_ok [of s env]
      by (auto simp: set_route_strategy_def Let_def route_maps_ok_def split: option.split)
  next
    case (reload s env')
    then show ?case by (simp add: route_maps_ok_def reload_route_from_env_def)
  qed
  then show ?thesis by (simp add: route_maps_ok_def hm_wf_def)
qed

theorem route_capacity_respected_witness:
  "distinct (map fst (rh_next (snd (apply_balanced_round_robin demo_env [0, 1 :: nat] ''k'' None 5 initial_route_state))))"
  using route_capacity_respected [OF route_reachable.round_robin [OF route_reachable.start]] by blast

end
