(* ===== verification/Conversation_Binding.thy ===== *)
theory Conversation_Binding
  imports Keyed_Store Route_Hint
begin

text \<open>
  \<^verbatim>\<open>gateway/routing/conversation_binding.rs\<close> and the table behind it
  (\<^verbatim>\<open>core/storage/conversation_bindings.rs\<close>): a conversation of a platform key stays on
  the account that answered it first. The table is the list of its rows, whose primary key is the
  pair of platform key and conversation; a fault makes every statement fail.
\<close>

record conversation_binding =
  cb_platform_key_hash :: str
  cb_conversation_id :: str
  cb_account_id :: str
  cb_thread_epoch :: i64
  cb_thread_anchor :: str
  cb_status :: str
  cb_last_model :: "str option"
  cb_last_switch_reason :: "str option"
  cb_created_at :: i64
  cb_updated_at :: i64
  cb_last_used_at :: i64

record binding_table =
  bt_rows :: "conversation_binding list"
  bt_fault :: "str option"

definition cb_key :: "conversation_binding \<Rightarrow> str \<times> str" where
  "cb_key b = (cb_platform_key_hash b, cb_conversation_id b)"

section \<open>Statements\<close>

definition bt_exec :: "binding_table \<Rightarrow> 'a \<Rightarrow> binding_table \<Rightarrow> 'a sql \<times> binding_table" where
  "bt_exec t v t' = (case bt_fault t of Some e \<Rightarrow> (Inl e, t) | None \<Rightarrow> (Inr v, t'))"

definition find_binding :: "binding_table \<Rightarrow> str \<times> str \<Rightarrow> conversation_binding option" where
  "find_binding t k = List.find (\<lambda>b. cb_key b = k) (bt_rows t)"

definition get_conversation_binding :: "binding_table \<Rightarrow> str \<Rightarrow> str \<Rightarrow> conversation_binding option sql" where
  "get_conversation_binding t p c =
     (case bt_fault t of Some e \<Rightarrow> Inl e | None \<Rightarrow> Inr (find_binding t (p, c)))"

text \<open>\<^verbatim>\<open>ON CONFLICT DO UPDATE\<close>: every column but the key and \<open>created_at\<close>.\<close>

definition merge_binding :: "conversation_binding option \<Rightarrow> conversation_binding \<Rightarrow> conversation_binding" where
  "merge_binding old b = (case old of None \<Rightarrow> b | Some r \<Rightarrow> b\<lparr>cb_created_at := cb_created_at r\<rparr>)"

definition upsert_rows :: "conversation_binding \<Rightarrow> conversation_binding list \<Rightarrow> conversation_binding list" where
  "upsert_rows b rows =
     (if list_ex (\<lambda>r. cb_key r = cb_key b) rows
      then map (\<lambda>r. if cb_key r = cb_key b then merge_binding (Some r) b else r) rows
      else rows @ [b])"

definition write_binding :: "conversation_binding \<Rightarrow> binding_table \<Rightarrow> binding_table" where
  "write_binding b t = t\<lparr>bt_rows := upsert_rows b (bt_rows t)\<rparr>"

definition remove_binding :: "str \<times> str \<Rightarrow> binding_table \<Rightarrow> binding_table" where
  "remove_binding k t = t\<lparr>bt_rows := filter (\<lambda>r. cb_key r \<noteq> k) (bt_rows t)\<rparr>"

definition upsert_conversation_binding :: "conversation_binding \<Rightarrow> binding_table \<Rightarrow> unit sql \<times> binding_table" where
  "upsert_conversation_binding b t = bt_exec t () (write_binding b t)"

definition touch_conversation_binding ::
    "str \<Rightarrow> str \<Rightarrow> str \<Rightarrow> str option \<Rightarrow> i64 \<Rightarrow> binding_table \<Rightarrow> bool sql \<times> binding_table" where
  "touch_conversation_binding p c a model touched_at t =
     (let hit = (\<lambda>r. cb_key r = (p, c) \<and> cb_account_id r = a)
      in bt_exec t (list_ex hit (bt_rows t))
           (t\<lparr>bt_rows := map (\<lambda>r. if hit r then r\<lparr>cb_last_model := model, cb_last_used_at := touched_at,
                                               cb_updated_at := touched_at\<rparr> else r) (bt_rows t)\<rparr>))"

definition delete_conversation_binding :: "str \<Rightarrow> str \<Rightarrow> binding_table \<Rightarrow> unit sql \<times> binding_table" where
  "delete_conversation_binding p c t =
     bt_exec t () (remove_binding (p, c) t)"

definition delete_conversation_bindings_for_account :: "str \<Rightarrow> binding_table \<Rightarrow> unit sql \<times> binding_table" where
  "delete_conversation_bindings_for_account a t =
     bt_exec t () (t\<lparr>bt_rows := filter (\<lambda>r. cb_account_id r \<noteq> a) (bt_rows t)\<rparr>)"

definition delete_stale_conversation_bindings :: "i64 \<Rightarrow> binding_table \<Rightarrow> nat sql \<times> binding_table" where
  "delete_stale_conversation_bindings older_than t =
     bt_exec t (length (filter (\<lambda>r. cb_last_used_at r < older_than) (bt_rows t)))
       (t\<lparr>bt_rows := filter (\<lambda>r. \<not> cb_last_used_at r < older_than) (bt_rows t)\<rparr>)"

section \<open>Routing context\<close>

datatype conversation_source =
    NativeConversation | StickyFallback | PromptCacheKey | PromptCacheKeyExistingOnly

record routing_context =
  rc_platform_key_hash :: str
  rc_conversation_id :: str
  rc_source :: conversation_source
  rc_existing_binding :: "conversation_binding option"
  rc_binding_selected :: bool
  rc_bound_account_selectable :: bool
  rc_manual_preferred :: "str option"
  rc_next_thread_epoch :: "i64 option"

datatype rotation_source = ByConversationBinding | ByManualPreferred | ByRouteStrategy

record rotation_plan =
  rp_source :: rotation_source
  rp_strategy_label :: str
  rp_strategy_applied :: bool

record thread_attempt =
  ta_thread_anchor :: str
  ta_thread_epoch :: i64
  ta_reset_session_affinity :: bool

definition is_prompt_cache_key :: "conversation_source \<Rightarrow> bool" where
  "is_prompt_cache_key src \<longleftrightarrow> src \<in> {PromptCacheKey, PromptCacheKeyExistingOnly}"

definition allows_initial_binding_create :: "conversation_source \<Rightarrow> bool" where
  "allows_initial_binding_create src \<longleftrightarrow> src \<noteq> PromptCacheKeyExistingOnly"

definition rotation_source_str :: "rotation_source \<Rightarrow> str" where
  "rotation_source_str r = (case r of ByConversationBinding \<Rightarrow> ''conversation_bound''
     | ByManualPreferred \<Rightarrow> ''manual_preferred_account'' | ByRouteStrategy \<Rightarrow> ''route_strategy'')"

definition normalize_conversation_id :: "str option \<Rightarrow> str option" where
  "normalize_conversation_id c = trimmed_nonempty c"

definition load_conversation_binding ::
    "binding_table \<Rightarrow> str \<Rightarrow> str option \<Rightarrow> str + conversation_binding option" where
  "load_conversation_binding t p conv =
     (case normalize_conversation_id conv of
        None \<Rightarrow> Inr None
      | Some c \<Rightarrow> (case get_conversation_binding t p c of
                    Inl e \<Rightarrow> Inl (''load conversation binding failed: '' @ e) | Inr r \<Rightarrow> Inr r))"

definition effective_thread_anchor :: "str option \<Rightarrow> conversation_binding option \<Rightarrow> str option" where
  "effective_thread_anchor conv binding =
     or_else (map_option cb_thread_anchor binding) (normalize_conversation_id conv)"

definition rotate_to_account_id :: "str \<Rightarrow> (account \<times> token) list \<Rightarrow> (account \<times> token) list \<times> bool" where
  "rotate_to_account_id i cs =
     (case position (\<lambda>c. acc_id (fst c) = i) cs of
        None \<Rightarrow> (cs, False)
      | Some n \<Rightarrow> (if 0 < n then rotate_left n cs else cs, True))"

definition rotate_to_bound_account ::
    "conversation_binding \<Rightarrow> (account \<times> token) list \<Rightarrow> (account \<times> token) list \<times> bool" where
  "rotate_to_bound_account b cs = rotate_to_account_id (cb_account_id b) cs"

definition derive_next_thread_epoch :: "conversation_binding option \<Rightarrow> i64 option" where
  "derive_next_thread_epoch b = map_option (\<lambda>b. i64_add (cb_thread_epoch b) 1) b"

definition switch_reason_for_account :: "routing_context \<Rightarrow> str \<Rightarrow> str" where
  "switch_reason_for_account r i =
     (if rc_manual_preferred r = Some i then ''manual_account_switch'' else ''automatic_account_switch'')"

definition prepare_conversation_routing_with_source ::
    "store option \<Rightarrow> str \<Rightarrow> str option \<Rightarrow> conversation_binding option \<Rightarrow> (account \<times> token) list
       \<Rightarrow> conversation_source \<Rightarrow> routing_context option \<times> (account \<times> token) list" where
  "prepare_conversation_routing_with_source storage p conv existing cs source =
     (case normalize_conversation_id conv of
        None \<Rightarrow> (None, cs)
      | Some c \<Rightarrow>
          (let selectable = (case existing of None \<Rightarrow> False
                 | Some b \<Rightarrow> list_ex (\<lambda>x. acc_id (fst x) = cb_account_id b) cs);
               (cs1, manual) = (case get_manual_preferred_account storage of
                   None \<Rightarrow> (cs, None)
                 | Some i \<Rightarrow> (let (cs', found) = rotate_to_account_id i cs
                             in (cs', if found then Some i else None)));
               (cs2, selected) = (case manual of
                   Some i \<Rightarrow> (cs1, (case existing of None \<Rightarrow> False | Some b \<Rightarrow> cb_account_id b = i))
                 | None \<Rightarrow> (case existing of None \<Rightarrow> (cs1, False)
                             | Some b \<Rightarrow> rotate_to_bound_account b cs1))
           in (Some \<lparr>rc_platform_key_hash = p, rc_conversation_id = c, rc_source = source,
                 rc_existing_binding = existing, rc_binding_selected = selected,
                 rc_bound_account_selectable = selectable, rc_manual_preferred = manual,
                 rc_next_thread_epoch = derive_next_thread_epoch existing\<rparr>, cs2)))"

definition apply_candidate_rotation ::
    "process_env \<Rightarrow> store option \<Rightarrow> (account \<times> token) list \<Rightarrow> routing_context option \<Rightarrow> str
       \<Rightarrow> str option \<Rightarrow> route_times \<Rightarrow> route_state \<times> quality_state
       \<Rightarrow> (rotation_plan \<times> (account \<times> token) list) \<times> route_state \<times> quality_state" where
  "apply_candidate_rotation env storage cs routing key_id model ts w =
     (if (case routing of None \<Rightarrow> False | Some r \<Rightarrow> rc_binding_selected r)
      then ((\<lparr>rp_source = ByConversationBinding, rp_strategy_label = ''conversation_bound'',
             rp_strategy_applied = False\<rparr>, cs), w)
      else if (case routing of None \<Rightarrow> False | Some r \<Rightarrow> rc_manual_preferred r \<noteq> None)
      then ((\<lparr>rp_source = ByManualPreferred, rp_strategy_label = ''manual_preferred_account'',
             rp_strategy_applied = False\<rparr>, cs), w)
      else
        (let manual = get_manual_preferred_account storage;
             (cs', w') = apply_route_strategy env storage cs key_id model ts w
         in if (case manual of None \<Rightarrow> False | Some i \<Rightarrow> list_ex (\<lambda>x. acc_id (fst x) = i) cs')
            then ((\<lparr>rp_source = ByManualPreferred, rp_strategy_label = ''manual_preferred_account'',
                   rp_strategy_applied = False\<rparr>, cs'), w')
            else (let (label, s') = current_route_strategy env (fst w')
                  in ((\<lparr>rp_source = ByRouteStrategy, rp_strategy_label = label,
                       rp_strategy_applied = True\<rparr>, cs'), s', snd w'))))"

section \<open>Threads and the outcome\<close>

definition resolve_attempt_thread :: "routing_context option \<Rightarrow> account \<Rightarrow> thread_attempt option" where
  "resolve_attempt_thread routing a =
     (case routing of
        None \<Rightarrow> None
      | Some r \<Rightarrow>
          if is_prompt_cache_key (rc_source r) then None
          else (case rc_existing_binding r of
              Some b \<Rightarrow>
                if cb_account_id b = acc_id a
                then Some \<lparr>ta_thread_anchor = cb_thread_anchor b, ta_thread_epoch = cb_thread_epoch b,
                           ta_reset_session_affinity = False\<rparr>
                else Some \<lparr>ta_thread_anchor = cb_thread_anchor b,
                           ta_thread_epoch = unwrap_or (rc_next_thread_epoch r) (i64_add (cb_thread_epoch b) 1),
                           ta_reset_session_affinity = True\<rparr>
            | None \<Rightarrow> Some \<lparr>ta_thread_anchor = rc_conversation_id r, ta_thread_epoch = 1,
                           ta_reset_session_affinity = False\<rparr>))"

definition map_sql_err :: "str \<Rightarrow> 'a sql \<times> 't \<Rightarrow> (str + unit) \<times> 't" where
  "map_sql_err what r = (case r of (Inl e, t) \<Rightarrow> (Inl (what @ e), t) | (Inr _, t) \<Rightarrow> (Inr (), t))"

text \<open>Epoch and anchor of a new row; the attempt thread is missing for prompt cache keys only.\<close>

definition binding_thread ::
    "routing_context \<Rightarrow> account \<Rightarrow> str \<Rightarrow> i64 \<times> str \<Rightarrow> str + i64 \<times> str" where
  "binding_thread r a missing cached =
     (if is_prompt_cache_key (rc_source r) then Inr cached
      else (case resolve_attempt_thread (Some r) a of
              None \<Rightarrow> Inl missing
            | Some t \<Rightarrow> Inr (ta_thread_epoch t, ta_thread_anchor t)))"

definition record_conversation_binding_terminal_response ::
    "routing_context option \<Rightarrow> account \<Rightarrow> str option \<Rightarrow> nat \<Rightarrow> i64 \<Rightarrow> binding_table
       \<Rightarrow> (str + unit) \<times> binding_table" where
  "record_conversation_binding_terminal_response routing a model status now t =
     (case routing of
        None \<Rightarrow> (Inr (), t)
      | Some r \<Rightarrow>
         (case rc_existing_binding r of
            Some b \<Rightarrow>
              if cb_account_id b = acc_id a
              then map_sql_err ''touch conversation binding failed: ''
                     (touch_conversation_binding (rc_platform_key_hash r) (rc_conversation_id r) (acc_id a) model now t)
              else if is_prompt_cache_key (rc_source r) \<and> rc_bound_account_selectable r then (Inr (), t)
              else if status < 400
              then (case binding_thread r a ''missing conversation thread for rebound account''
                           (i64_add (cb_thread_epoch b) 1, cb_thread_anchor b) of
                      Inl e \<Rightarrow> (Inl e, t)
                    | Inr (epoch, anchor) \<Rightarrow>
                        map_sql_err ''rebind conversation binding failed: ''
                          (upsert_conversation_binding
                             (b\<lparr>cb_account_id := acc_id a, cb_thread_epoch := epoch, cb_thread_anchor := anchor,
                                cb_last_model := model,
                                cb_last_switch_reason := Some (switch_reason_for_account r (acc_id a)),
                                cb_updated_at := now, cb_last_used_at := now\<rparr>) t))
              else (Inr (), t)
          | None \<Rightarrow>
              if status < 400 \<and> allows_initial_binding_create (rc_source r)
              then (case binding_thread r a ''missing conversation thread for initial binding''
                           (1, rc_conversation_id r) of
                      Inl e \<Rightarrow> (Inl e, t)
                    | Inr (epoch, anchor) \<Rightarrow>
                        map_sql_err ''create conversation binding failed: ''
                          (upsert_conversation_binding
                             \<lparr>cb_platform_key_hash = rc_platform_key_hash r,
                              cb_conversation_id = rc_conversation_id r, cb_account_id = acc_id a,
                              cb_thread_epoch = epoch, cb_thread_anchor = anchor, cb_status = ''active'',
                              cb_last_model = model, cb_last_switch_reason = None, cb_created_at = now,
                              cb_updated_at = now, cb_last_used_at = now\<rparr> t))
              else (Inr (), t)))"

section \<open>The table as a keyed store\<close>

lemma find_map_key:
  "(\<And>r. cb_key (f r) = cb_key r) \<Longrightarrow>
   List.find (\<lambda>b. cb_key b = k) (map f rows) = map_option f (List.find (\<lambda>b. cb_key b = k) rows)"
  by (induction rows) simp_all

lemma find_filter_key:
  "List.find (\<lambda>b. cb_key b = k') (filter (\<lambda>r. cb_key r \<noteq> k) rows)
     = (if k' = k then None else List.find (\<lambda>b. cb_key b = k') rows)"
  by (induction rows) auto

lemma merge_binding_key [simp]: "cb_key (merge_binding old b) = cb_key b"
  by (simp add: merge_binding_def cb_key_def split: option.split)

lemma find_None_list_ex: "List.find P rows = None \<longleftrightarrow> \<not> list_ex P rows"
  by (auto simp: find_None_iff list_ex_iff)

lemma find_upsert_rows:
  "List.find (\<lambda>r. cb_key r = k) (upsert_rows b rows)
     = (if k = cb_key b then Some (merge_binding (List.find (\<lambda>r. cb_key r = k) rows) b)
        else List.find (\<lambda>r. cb_key r = k) rows)"
proof (cases "list_ex (\<lambda>r. cb_key r = cb_key b) rows")
  case True
  then obtain r where r: "List.find (\<lambda>r. cb_key r = cb_key b) rows = Some r"
    using find_None_list_ex [of "\<lambda>r. cb_key r = cb_key b" rows] by auto
  have f: "\<And>r. cb_key (if cb_key r = cb_key b then merge_binding (Some r) b else r) = cb_key r" by simp
  show ?thesis
  proof (cases "k = cb_key b")
    case True
    have "cb_key r = cb_key b" using r by (auto simp: find_Some_iff)
    then show ?thesis using True r \<open>list_ex _ rows\<close>
      by (simp add: upsert_rows_def find_map_key [OF f])
  next
    case False
    have "cb_key x \<noteq> cb_key b" if "List.find (\<lambda>r. cb_key r = k) rows = Some x" for x
      using that False by (auto simp: find_Some_iff)
    then show ?thesis using False True
      by (cases "List.find (\<lambda>r. cb_key r = k) rows") (simp_all add: upsert_rows_def find_map_key [OF f])
  qed
next
  case False
  then have none: "List.find (\<lambda>r. cb_key r = cb_key b) rows = None" by (simp add: find_None_list_ex)
  have app: "List.find P (rows @ [b]) = (case List.find P rows of None \<Rightarrow> if P b then Some b else None | Some x \<Rightarrow> Some x)" for P
    by (induction rows) simp_all
  show ?thesis using False none
    by (auto simp: upsert_rows_def app merge_binding_def split: option.split)
qed

interpretation binding_store: keyed_store find_binding write_binding remove_binding cb_key merge_binding
  by unfold_locales
    (simp_all add: find_binding_def write_binding_def remove_binding_def find_upsert_rows find_filter_key)

lemma find_binding_key: "find_binding t k = Some b \<Longrightarrow> cb_key b = k"
  by (auto simp: find_binding_def find_Some_iff)

lemma find_binding_touch:
  "find_binding (t\<lparr>bt_rows := map (\<lambda>r. if cb_key r = k \<and> cb_account_id r = a
       then r\<lparr>cb_last_model := m, cb_last_used_at := u, cb_updated_at := u\<rparr> else r) (bt_rows t)\<rparr>) k'
   = map_option (\<lambda>r. if cb_key r = k \<and> cb_account_id r = a
       then r\<lparr>cb_last_model := m, cb_last_used_at := u, cb_updated_at := u\<rparr> else r) (find_binding t k')"
  by (simp add: find_binding_def) (subst find_map_key; simp add: cb_key_def)

section \<open>Rotation\<close>

lemma rotate_to_account_id_mset: "mset (fst (rotate_to_account_id i cs)) = mset cs"
  by (simp add: rotate_to_account_id_def split: option.split)

lemma rotate_to_account_id_found:
  "snd (rotate_to_account_id i cs) \<longleftrightarrow> i \<in> (\<lambda>c. acc_id (fst c)) ` set cs"
proof (cases "position (\<lambda>c. acc_id (fst c) = i) cs")
  case None
  moreover have "i \<notin> (\<lambda>c. acc_id (fst c)) ` set cs" using None by (auto simp: position_None_iff)
  ultimately show ?thesis by (simp add: rotate_to_account_id_def)
next
  case (Some n)
  have "n < length cs \<and> acc_id (fst (cs ! n)) = i" using position_SomeD [OF Some] by blast
  then have "i \<in> (\<lambda>c. acc_id (fst c)) ` set cs" by (metis image_eqI nth_mem)
  with Some show ?thesis by (simp add: rotate_to_account_id_def)
qed

lemma rotate_to_account_id_head:
  "i \<in> (\<lambda>c. acc_id (fst c)) ` set cs \<Longrightarrow> acc_id (fst (hd (fst (rotate_to_account_id i cs)))) = i"
proof -
  assume i: "i \<in> (\<lambda>c. acc_id (fst c)) ` set cs"
  then obtain n where n: "position (\<lambda>c. acc_id (fst c) = i) cs = Some n"
    using position_None_iff [of "\<lambda>c. acc_id (fst c) = i" cs] by fastforce
  have "n < length cs" "acc_id (fst (cs ! n)) = i" using position_SomeD [OF n] by blast+
  moreover have "hd cs = cs ! 0" using \<open>n < length cs\<close> by (intro hd_conv_nth) auto
  ultimately show ?thesis using n
    by (cases "n = 0") (simp_all add: rotate_to_account_id_def rotate_left_hd)
qed

interpretation account_rotation: candidate_reorder "\<lambda>i cs. fst (rotate_to_account_id i cs)"
  by unfold_locales (rule rotate_to_account_id_mset)

lemma prepare_cases:
  assumes "normalize_conversation_id conv = Some c"
  obtains (manual) i where "get_manual_preferred_account storage = Some i"
      "i \<in> (\<lambda>x. acc_id (fst x)) ` set cs"
      "prepare_conversation_routing_with_source storage p conv existing cs source
       = (Some \<lparr>rc_platform_key_hash = p, rc_conversation_id = c, rc_source = source,
            rc_existing_binding = existing,
            rc_binding_selected = (case existing of None \<Rightarrow> False | Some b \<Rightarrow> cb_account_id b = i),
            rc_bound_account_selectable = (case existing of None \<Rightarrow> False
              | Some b \<Rightarrow> list_ex (\<lambda>x. acc_id (fst x) = cb_account_id b) cs),
            rc_manual_preferred = Some i, rc_next_thread_epoch = derive_next_thread_epoch existing\<rparr>,
          fst (rotate_to_account_id i cs))"
    | (bound) b where "existing = Some b"
      "\<And>i. get_manual_preferred_account storage = Some i \<Longrightarrow> i \<notin> (\<lambda>x. acc_id (fst x)) ` set cs"
      "cb_account_id b \<in> (\<lambda>x. acc_id (fst x)) ` set cs"
      "prepare_conversation_routing_with_source storage p conv existing cs source
       = (Some \<lparr>rc_platform_key_hash = p, rc_conversation_id = c, rc_source = source,
            rc_existing_binding = existing, rc_binding_selected = True,
            rc_bound_account_selectable = True, rc_manual_preferred = None,
            rc_next_thread_epoch = derive_next_thread_epoch existing\<rparr>,
          fst (rotate_to_account_id (cb_account_id b) cs))"
    | (free) "\<And>i. get_manual_preferred_account storage = Some i \<Longrightarrow> i \<notin> (\<lambda>x. acc_id (fst x)) ` set cs"
      "\<And>b. existing = Some b \<Longrightarrow> cb_account_id b \<notin> (\<lambda>x. acc_id (fst x)) ` set cs"
      "prepare_conversation_routing_with_source storage p conv existing cs source
       = (Some \<lparr>rc_platform_key_hash = p, rc_conversation_id = c, rc_source = source,
            rc_existing_binding = existing, rc_binding_selected = False,
            rc_bound_account_selectable = False, rc_manual_preferred = None,
            rc_next_thread_epoch = derive_next_thread_epoch existing\<rparr>, cs)"
proof -
  let ?ids = "(\<lambda>x. acc_id (fst x)) ` set cs"
  have ex: "list_ex (\<lambda>x. acc_id (fst x) = i) cs \<longleftrightarrow> i \<in> ?ids" for i
    by (auto simp: list_ex_iff)
  have absent: "rotate_to_account_id i cs = (cs, False)" if "i \<notin> ?ids" for i
  proof -
    have "position (\<lambda>c. acc_id (fst c) = i) cs = None" using that by (auto simp: position_None_iff)
    then show ?thesis by (simp add: rotate_to_account_id_def)
  qed
  have present: "rotate_to_account_id i cs = (fst (rotate_to_account_id i cs), True)" if "i \<in> ?ids" for i
    using rotate_to_account_id_found [of i cs] that by (metis prod.collapse)
  note defs = prepare_conversation_routing_with_source_def assms rotate_to_bound_account_def ex
  show thesis
  proof (cases "\<exists>i. get_manual_preferred_account storage = Some i \<and> i \<in> ?ids")
    case True
    then obtain i where i: "get_manual_preferred_account storage = Some i" "i \<in> ?ids" by blast
    obtain cs' where r: "rotate_to_account_id i cs = (cs', True)" using present [OF i(2)] by metis
    show thesis by (rule manual [OF i]) (simp add: defs i(1) r)
  next
    case False
    then have m: "(case get_manual_preferred_account storage of None \<Rightarrow> (cs, None)
        | Some i \<Rightarrow> let (cs', found) = rotate_to_account_id i cs in (cs', if found then Some i else None))
        = (cs, None)"
      by (auto simp: absent split: option.split)
    show thesis
    proof (cases "\<exists>b. existing = Some b \<and> cb_account_id b \<in> ?ids")
      case True
      then obtain b where b: "existing = Some b" "cb_account_id b \<in> ?ids" by blast
      obtain cs' where r: "rotate_to_account_id (cb_account_id b) cs = (cs', True)"
        using present [OF b(2)] by metis
      have e: "prepare_conversation_routing_with_source storage p conv existing cs source
         = (Some \<lparr>rc_platform_key_hash = p, rc_conversation_id = c, rc_source = source,
              rc_existing_binding = existing, rc_binding_selected = True,
              rc_bound_account_selectable = True, rc_manual_preferred = None,
              rc_next_thread_epoch = derive_next_thread_epoch existing\<rparr>, cs')"
        using b by (simp add: defs m r)
      show thesis by (rule bound [OF b(1) _ b(2)]) (use False e r in simp_all)
    next
      case none: False
      show thesis
      proof (rule free)
        show "prepare_conversation_routing_with_source storage p conv existing cs source
         = (Some \<lparr>rc_platform_key_hash = p, rc_conversation_id = c, rc_source = source,
              rc_existing_binding = existing, rc_binding_selected = False,
              rc_bound_account_selectable = False, rc_manual_preferred = None,
              rc_next_thread_epoch = derive_next_thread_epoch existing\<rparr>, cs)"
          using none by (cases existing) (simp_all add: defs m absent)
      qed (use False none in auto)
    qed
  qed
qed

definition pool_ids :: "(account \<times> token) list \<Rightarrow> str set" where
  "pool_ids cs = (\<lambda>c. acc_id (fst c)) ` set cs"

definition preferred_in_pool :: "store option \<Rightarrow> (account \<times> token) list \<Rightarrow> str option" where
  "preferred_in_pool storage cs =
     (case get_manual_preferred_account storage of None \<Rightarrow> None
      | Some i \<Rightarrow> if i \<in> pool_ids cs then Some i else None)"

text \<open>
  The candidates a request tries are those of its pool, each once, and the head is decided in
  this order: the user's preferred account, the account the conversation is bound to, and only
  when neither is in the pool the route strategy, whose state is untouched otherwise.
\<close>

theorem rotation_precedence:
  assumes "normalize_conversation_id conv = Some c"
    and "prepare_conversation_routing_with_source storage p conv existing cs source = (r, cs1)"
    and "apply_candidate_rotation env storage cs1 r key_id model ts w = ((plan, cs2), w')"
  shows "mset cs2 = mset cs
    \<and> (case preferred_in_pool storage cs of
         Some i \<Rightarrow> acc_id (fst (hd cs2)) = i \<and> w' = w \<and> \<not> rp_strategy_applied plan
       | None \<Rightarrow>
          (case existing of
             Some b \<Rightarrow> if cb_account_id b \<in> pool_ids cs
               then acc_id (fst (hd cs2)) = cb_account_id b \<and> w' = w \<and> rp_source plan = ByConversationBinding
               else cs2 = fst (apply_route_strategy env storage cs key_id model ts w) \<and> rp_strategy_applied plan
           | None \<Rightarrow> cs2 = fst (apply_route_strategy env storage cs key_id model ts w) \<and> rp_strategy_applied plan))"
  using assms(1)
proof (cases rule: prepare_cases [where storage = storage and p = p and existing = existing and cs = cs and source = source])
  case (manual i)
  have "cs2 = fst (rotate_to_account_id i cs) \<and> w' = w \<and> \<not> rp_strategy_applied plan"
    using assms(2,3) manual(3) by (auto simp: apply_candidate_rotation_def split: option.splits if_splits)
  moreover have "preferred_in_pool storage cs = Some i"
    using manual by (simp add: preferred_in_pool_def pool_ids_def)
  ultimately show ?thesis
    using rotate_to_account_id_head [OF manual(2)] by (simp add: rotate_to_account_id_mset)
next
  case (bound b)
  have "cs2 = fst (rotate_to_account_id (cb_account_id b) cs) \<and> w' = w \<and> rp_source plan = ByConversationBinding"
    using assms(2,3) bound(1,4) by (auto simp: apply_candidate_rotation_def)
  moreover have "preferred_in_pool storage cs = None"
    using bound(2) by (auto simp: preferred_in_pool_def pool_ids_def split: option.split)
  ultimately show ?thesis
    using rotate_to_account_id_head [OF bound(3)] bound(1,3)
    by (simp add: rotate_to_account_id_mset pool_ids_def)
next
  case free
  have r: "cs1 = cs" "r \<noteq> None" "\<not> rc_binding_selected (the r)" "rc_manual_preferred (the r) = None"
    using assms(2) free(3) by auto
  obtain ds v where a: "apply_route_strategy env storage cs key_id model ts w = (ds, v)"
    by (metis surj_pair)
  obtain label s' where l: "current_route_strategy env (fst v) = (label, s')" by fastforce
  have m: "mset ds = mset cs" using strategy_mset [of env storage cs key_id model ts w] a by simp
  then have "set ds = set cs" by (rule mset_eq_setD)
  then have "\<not> list_ex (\<lambda>x. acc_id (fst x) = i) ds" if "get_manual_preferred_account storage = Some i" for i
    using free(1) [OF that] by (auto simp: list_ex_iff)
  then have "cs2 = ds \<and> rp_strategy_applied plan"
    using assms(3) r a l by (auto simp: apply_candidate_rotation_def split: option.splits)
  moreover have "preferred_in_pool storage cs = None"
    using free(1) by (auto simp: preferred_in_pool_def pool_ids_def split: option.split)
  ultimately show ?thesis using free(2) m a by (auto simp: pool_ids_def split: option.split)
qed

definition demo_binding :: conversation_binding where
  "demo_binding = \<lparr>cb_platform_key_hash = ''p'', cb_conversation_id = ''c'', cb_account_id = ''b'',
     cb_thread_epoch = 3, cb_thread_anchor = ''c'', cb_status = ''active'', cb_last_model = None,
     cb_last_switch_reason = None, cb_created_at = 1, cb_updated_at = 1, cb_last_used_at = 1\<rparr>"

theorem rotation_precedence_witness:
  "\<exists>r cs1 plan cs2 w'.
     prepare_conversation_routing_with_source None ''p'' (Some ''c'') (Some demo_binding) demo_pool StickyFallback
       = (r, cs1)
     \<and> apply_candidate_rotation demo_env None cs1 r ''k'' None demo_times (initial_route_state, empty_quality)
       = ((plan, cs2), w')
     \<and> mset cs2 = mset demo_pool \<and> acc_id (fst (hd cs2)) = ''b'' \<and> rp_source plan = ByConversationBinding"
proof -
  obtain r cs1 where p: "prepare_conversation_routing_with_source None ''p'' (Some ''c'') (Some demo_binding)
      demo_pool StickyFallback = (r, cs1)" by fastforce
  obtain plan cs2 w' where a: "apply_candidate_rotation demo_env None cs1 r ''k'' None demo_times
      (initial_route_state, empty_quality) = ((plan, cs2), w')" by (metis surj_pair)
  have n: "normalize_conversation_id (Some ''c'') = Some ''c''" by code_simp
  have "preferred_in_pool None demo_pool = None" "cb_account_id demo_binding \<in> pool_ids demo_pool"
      "cb_account_id demo_binding = ''b''"
    by (simp_all add: preferred_in_pool_def get_manual_preferred_account_def demo_binding_def pool_ids_def
        demo_pool_def demo_account_def)
  with rotation_precedence [OF n p a] p a show ?thesis by auto
qed

section \<open>What a terminal response leaves behind\<close>

text \<open>The row of a conversation after a response, as a function of the row before it.\<close>

definition rebound ::
    "routing_context \<Rightarrow> account \<Rightarrow> str option \<Rightarrow> i64 \<Rightarrow> i64 \<Rightarrow> conversation_binding \<Rightarrow> conversation_binding" where
  "rebound r a model now epoch b =
     b\<lparr>cb_account_id := acc_id a, cb_thread_epoch := epoch, cb_last_model := model,
       cb_last_switch_reason := Some (switch_reason_for_account r (acc_id a)),
       cb_updated_at := now, cb_last_used_at := now\<rparr>"

definition first_binding :: "routing_context \<Rightarrow> account \<Rightarrow> str option \<Rightarrow> i64 \<Rightarrow> conversation_binding" where
  "first_binding r a model now =
     \<lparr>cb_platform_key_hash = rc_platform_key_hash r, cb_conversation_id = rc_conversation_id r,
      cb_account_id = acc_id a, cb_thread_epoch = 1, cb_thread_anchor = rc_conversation_id r,
      cb_status = ''active'', cb_last_model = model, cb_last_switch_reason = None, cb_created_at = now,
      cb_updated_at = now, cb_last_used_at = now\<rparr>"

definition binding_after ::
    "routing_context \<Rightarrow> account \<Rightarrow> str option \<Rightarrow> nat \<Rightarrow> i64 \<Rightarrow> conversation_binding option
       \<Rightarrow> conversation_binding option" where
  "binding_after r a model status now old =
     (case old of
        Some b \<Rightarrow>
          if cb_account_id b = acc_id a
          then Some (b\<lparr>cb_last_model := model, cb_last_used_at := now, cb_updated_at := now\<rparr>)
          else if is_prompt_cache_key (rc_source r) \<and> rc_bound_account_selectable r \<or> 400 \<le> status then Some b
          else Some (rebound r a model now (i64_add (cb_thread_epoch b) 1) b)
      | None \<Rightarrow>
          if status < 400 \<and> rc_source r \<noteq> PromptCacheKeyExistingOnly
          then Some (first_binding r a model now) else None)"

text \<open>A context that was prepared from what the table holds.\<close>

definition fresh_context :: "binding_table \<Rightarrow> routing_context \<Rightarrow> bool" where
  "fresh_context t r \<longleftrightarrow>
     bt_fault t = None
     \<and> rc_existing_binding r = find_binding t (rc_platform_key_hash r, rc_conversation_id r)
     \<and> rc_next_thread_epoch r = derive_next_thread_epoch (rc_existing_binding r)"

lemma prepare_some:
  assumes "normalize_conversation_id conv \<noteq> None"
  shows "\<exists>r cs1. prepare_conversation_routing_with_source storage p conv existing cs source = (Some r, cs1)"
proof -
  obtain c where "normalize_conversation_id conv = Some c" using assms by blast
  then show ?thesis
    by (cases rule: prepare_cases [where storage = storage and p = p and existing = existing and cs = cs and source = source])
      blast+
qed

lemma binding_matches_attempt:
  assumes "rc_next_thread_epoch r = derive_next_thread_epoch (rc_existing_binding r)"
    and "\<not> is_prompt_cache_key (rc_source r)" "status < 400"
  shows "\<exists>b th. binding_after r a model status now (rc_existing_binding r) = Some b
    \<and> cb_account_id b = acc_id a \<and> resolve_attempt_thread (Some r) a = Some th
    \<and> ta_thread_anchor th = cb_thread_anchor b \<and> ta_thread_epoch th = cb_thread_epoch b"
proof (cases "rc_existing_binding r")
  case None
  moreover have "rc_source r \<noteq> PromptCacheKeyExistingOnly"
    using assms(2) by (auto simp: is_prompt_cache_key_def)
  ultimately show ?thesis using assms(2,3)
    by (simp add: binding_after_def first_binding_def resolve_attempt_thread_def)
next
  case (Some b)
  then show ?thesis using assms
    by (cases "cb_account_id b = acc_id a")
      (simp_all add: binding_after_def rebound_def resolve_attempt_thread_def derive_next_thread_epoch_def)
qed

lemma prepared_is_fresh:
  assumes "bt_fault t = None" "load_conversation_binding t p conv = Inr existing"
    and "prepare_conversation_routing_with_source storage p conv existing cs source = (Some r, cs1)"
  shows "fresh_context t r \<and> rc_platform_key_hash r = p \<and> rc_source r = source
    \<and> normalize_conversation_id conv = Some (rc_conversation_id r)"
proof -
  obtain c where c: "normalize_conversation_id conv = Some c"
    using assms(3) by (cases "normalize_conversation_id conv")
      (simp_all add: prepare_conversation_routing_with_source_def)
  have e: "existing = find_binding t (p, c)"
    using assms(1,2) c by (simp add: load_conversation_binding_def get_conversation_binding_def)
  from c show ?thesis
    by (cases rule: prepare_cases [where storage = storage and p = p and existing = existing and cs = cs and source = source])
      (use assms(1,3) e c in \<open>auto simp: fresh_context_def\<close>)
qed

lemma prepared_selectable:
  assumes "prepare_conversation_routing_with_source storage p conv existing cs source = (Some r, cs1)"
  shows "rc_bound_account_selectable r \<longleftrightarrow>
    (case existing of None \<Rightarrow> False | Some b \<Rightarrow> cb_account_id b \<in> pool_ids cs)"
proof -
  obtain c where c: "normalize_conversation_id conv = Some c"
    using assms by (cases "normalize_conversation_id conv")
      (simp_all add: prepare_conversation_routing_with_source_def)
  have ex: "list_ex (\<lambda>x. acc_id (fst x) = i) cs \<longleftrightarrow> i \<in> pool_ids cs" for i
    by (auto simp: list_ex_iff pool_ids_def)
  from c show ?thesis
  proof (cases rule: prepare_cases [where storage = storage and p = p and existing = existing and cs = cs and source = source])
    case (manual i)
    from manual(3) assms have "rc_bound_account_selectable r
        = (case existing of None \<Rightarrow> False | Some b \<Rightarrow> list_ex (\<lambda>x. acc_id (fst x) = cb_account_id b) cs)" by force
    then show ?thesis by (simp add: ex split: option.split)
  next
    case (bound b)
    from bound(4) assms have "rc_bound_account_selectable r" by force
    then show ?thesis using bound by (simp add: pool_ids_def)
  next
    case free
    from free(3) assms have "\<not> rc_bound_account_selectable r" by force
    then show ?thesis using free(2) by (simp add: pool_ids_def split: option.split)
  qed
qed

lemma terminal_response_cases:
  assumes "bt_fault t = None"
  shows "record_conversation_binding_terminal_response (Some r) a model status now t =
    (Inr (),
     case rc_existing_binding r of
       Some b \<Rightarrow>
         if cb_account_id b = acc_id a
         then snd (touch_conversation_binding (rc_platform_key_hash r) (rc_conversation_id r) (acc_id a) model now t)
         else if is_prompt_cache_key (rc_source r) \<and> rc_bound_account_selectable r \<or> 400 \<le> status then t
         else write_binding
           (rebound r a model now
              (if is_prompt_cache_key (rc_source r) then i64_add (cb_thread_epoch b) 1
               else unwrap_or (rc_next_thread_epoch r) (i64_add (cb_thread_epoch b) 1)) b) t
     | None \<Rightarrow>
         if status < 400 \<and> rc_source r \<noteq> PromptCacheKeyExistingOnly
         then write_binding (first_binding r a model now) t else t)"
proof -
  note defs = record_conversation_binding_terminal_response_def map_sql_err_def bt_exec_def assms
    upsert_conversation_binding_def binding_thread_def resolve_attempt_thread_def
    allows_initial_binding_create_def
  show ?thesis
  proof (cases "rc_existing_binding r")
    case None
    then show ?thesis
      by (cases "status < 400 \<and> rc_source r \<noteq> PromptCacheKeyExistingOnly")
        (simp_all add: defs first_binding_def, auto)
  next
    case (Some b)
    show ?thesis
    proof (cases "cb_account_id b = acc_id a")
      case True
      with Some show ?thesis by (simp add: defs touch_conversation_binding_def Let_def)
    next
      case False
      with Some show ?thesis
        by (cases "is_prompt_cache_key (rc_source r)") (simp_all add: defs rebound_def linorder_not_less)
    qed
  qed
qed

lemma terminal_response_fresh:
  assumes "fresh_context t r"
  shows "fst (record_conversation_binding_terminal_response (Some r) a model status now t) = Inr ()"
    and "find_binding (snd (record_conversation_binding_terminal_response (Some r) a model status now t)) k
      = (if k = (rc_platform_key_hash r, rc_conversation_id r)
         then binding_after r a model status now (find_binding t k) else find_binding t k)"
    and "bt_fault (snd (record_conversation_binding_terminal_response (Some r) a model status now t)) = None"
proof -
  let ?k = "(rc_platform_key_hash r, rc_conversation_id r)"
  have f: "bt_fault t = None" and e: "rc_existing_binding r = find_binding t ?k"
    and n: "rc_next_thread_epoch r = derive_next_thread_epoch (rc_existing_binding r)"
    using assms by (simp_all add: fresh_context_def)
  note cases = terminal_response_cases [OF f, of r a model status now]
  show "fst (record_conversation_binding_terminal_response (Some r) a model status now t) = Inr ()"
    by (simp add: cases)
  show "bt_fault (snd (record_conversation_binding_terminal_response (Some r) a model status now t)) = None"
    using f by (simp add: cases write_binding_def touch_conversation_binding_def bt_exec_def Let_def split: option.split)
  show "find_binding (snd (record_conversation_binding_terminal_response (Some r) a model status now t)) k
      = (if k = ?k then binding_after r a model status now (find_binding t k) else find_binding t k)"
  proof (cases "find_binding t ?k")
    case None
    have "cb_key (first_binding r a model now) = ?k" by (simp add: cb_key_def first_binding_def)
    then show ?thesis using None e
      by (simp add: cases binding_store.look_put binding_after_def merge_binding_def)
  next
    case (Some b)
    have key: "cb_key b = ?k" by (rule find_binding_key [OF Some])
    show ?thesis
    proof (cases "cb_account_id b = acc_id a")
      case True
      have "find_binding (snd (touch_conversation_binding (rc_platform_key_hash r) (rc_conversation_id r) (acc_id a) model now t)) k
          = map_option (\<lambda>r'. if cb_key r' = ?k \<and> cb_account_id r' = acc_id a
              then r'\<lparr>cb_last_model := model, cb_last_used_at := now, cb_updated_at := now\<rparr> else r') (find_binding t k)"
        using f by (simp add: touch_conversation_binding_def bt_exec_def Let_def find_binding_touch)
      moreover have "cb_key x \<noteq> ?k" if "find_binding t k = Some x" "k \<noteq> ?k" for x
        using find_binding_key [OF that(1)] that(2) by simp
      ultimately show ?thesis using True Some e key
        by (cases "k = ?k"; cases "find_binding t k") (simp_all add: cases binding_after_def)
    next
      case False
      define b' where "b' = rebound r a model now (i64_add (cb_thread_epoch b) 1) b"
      have epoch: "(if is_prompt_cache_key (rc_source r) then i64_add (cb_thread_epoch b) 1
              else unwrap_or (rc_next_thread_epoch r) (i64_add (cb_thread_epoch b) 1)) = i64_add (cb_thread_epoch b) 1"
        using n e Some by (simp add: derive_next_thread_epoch_def)
      have k': "cb_key b' = ?k" "merge_binding (Some b) b' = b'"
        using key by (simp_all add: b'_def rebound_def cb_key_def merge_binding_def)
      have look: "find_binding (write_binding b' t) k = (if k = ?k then Some b' else find_binding t k)"
        using k' Some by (simp add: binding_store.look_put)
      have rb: "rc_existing_binding r = Some b" using e Some by simp
      show ?thesis
        using False Some look unfolding cases rb option.case epoch b'_def [symmetric]
        by (cases "k = ?k") (simp_all add: binding_after_def b'_def [symmetric])
    qed
  qed
qed

text \<open>
  With a working database and a context prepared from the current table, a terminal response
  never fails to be recorded, changes the row of its own conversation only, and moves the
  conversation to another account exactly when that account answered below 400 and either the
  conversation is not a prompt cache key or its account has left the pool; the epoch then grows
  by one and the thread anchor stays.
\<close>

theorem terminal_response_exact:
  assumes "bt_fault t = None" "load_conversation_binding t p conv = Inr existing"
    and "prepare_conversation_routing_with_source storage p conv existing cs source = (Some r, cs1)"
    and "record_conversation_binding_terminal_response (Some r) a model status now t = (res, t')"
  shows "res = Inr ()
    \<and> (\<forall>k. k \<noteq> (p, rc_conversation_id r) \<longrightarrow> find_binding t' k = find_binding t k)
    \<and> find_binding t' (p, rc_conversation_id r) = binding_after r a model status now existing
    \<and> (\<forall>b b'. existing = Some b \<longrightarrow> find_binding t' (p, rc_conversation_id r) = Some b' \<longrightarrow>
         cb_thread_anchor b' = cb_thread_anchor b
         \<and> (cb_account_id b' \<noteq> cb_account_id b \<longleftrightarrow>
              acc_id a \<noteq> cb_account_id b \<and> status < 400
              \<and> \<not> (is_prompt_cache_key source \<and> cb_account_id b \<in> pool_ids cs))
         \<and> cb_thread_epoch b' = (if cb_account_id b' = cb_account_id b then cb_thread_epoch b
                                 else i64_add (cb_thread_epoch b) 1))"
proof -
  note pf = prepared_is_fresh [OF assms(1-3)]
  note tr = terminal_response_fresh [OF conjunct1 [OF pf], where a = a and model = model and status = status and now = now]
  have existing: "existing = find_binding t (p, rc_conversation_id r)"
    using assms(1,2) pf by (simp add: load_conversation_binding_def get_conversation_binding_def)
  have sel: "rc_bound_account_selectable r \<longleftrightarrow> cb_account_id b \<in> pool_ids cs" if "existing = Some b" for b
    using prepared_selectable [OF assms(3)] that by simp
  have t': "res = Inr ()" "find_binding t' k = (if k = (p, rc_conversation_id r)
         then binding_after r a model status now existing else find_binding t k)" for k
    using tr(1) tr(2) [of k] pf assms(4) existing by auto
  have row: "cb_thread_anchor b' = cb_thread_anchor b
         \<and> (cb_account_id b' \<noteq> cb_account_id b \<longleftrightarrow>
              acc_id a \<noteq> cb_account_id b \<and> status < 400
              \<and> \<not> (is_prompt_cache_key source \<and> cb_account_id b \<in> pool_ids cs))
         \<and> cb_thread_epoch b' = (if cb_account_id b' = cb_account_id b then cb_thread_epoch b
                                 else i64_add (cb_thread_epoch b) 1)"
    if b: "existing = Some b" "binding_after r a model status now existing = Some b'" for b b'
  proof (cases "cb_account_id b = acc_id a")
    case True
    then have "b' = b\<lparr>cb_last_model := model, cb_last_used_at := now, cb_updated_at := now\<rparr>"
      using b by (simp add: binding_after_def)
    then show ?thesis using True by simp
  next
    case False
    note s = sel [OF b(1)] conjunct1 [OF conjunct2 [OF conjunct2 [OF pf]]]
    show ?thesis
    proof (cases "is_prompt_cache_key source \<and> cb_account_id b \<in> pool_ids cs \<or> 400 \<le> status")
      case True
      then have "b' = b" using b s False by (auto simp: binding_after_def)
      then show ?thesis using True by auto
    next
      case moved: False
      then have "b' = rebound r a model now (i64_add (cb_thread_epoch b) 1) b"
        using b s False by (auto simp: binding_after_def)
      then show ?thesis using False moved by (auto simp: rebound_def)
    qed
  qed
  have k: "find_binding t' (p, rc_conversation_id r) = binding_after r a model status now existing"
    by (simp add: t'(2))
  have other: "\<forall>k. k \<noteq> (p, rc_conversation_id r) \<longrightarrow> find_binding t' k = find_binding t k"
    by (simp add: t'(2))
  show ?thesis
  proof (intro conjI [OF t'(1)] conjI [OF other] conjI [OF k] allI impI)
    fix b b'
    assume e: "existing = Some b" and f: "find_binding t' (p, rc_conversation_id r) = Some b'"
    from f have "binding_after r a model status now existing = Some b'" unfolding k .
    from row [OF e this] show "cb_thread_anchor b' = cb_thread_anchor b
         \<and> (cb_account_id b' \<noteq> cb_account_id b \<longleftrightarrow>
              acc_id a \<noteq> cb_account_id b \<and> status < 400
              \<and> \<not> (is_prompt_cache_key source \<and> cb_account_id b \<in> pool_ids cs))
         \<and> cb_thread_epoch b' = (if cb_account_id b' = cb_account_id b then cb_thread_epoch b
                                 else i64_add (cb_thread_epoch b) 1)" .
  qed
qed

definition demo_table :: binding_table where
  "demo_table = \<lparr>bt_rows = [demo_binding], bt_fault = None\<rparr>"

lemma demo_load: "load_conversation_binding demo_table ''p'' (Some ''c'') = Inr (Some demo_binding)"
  by code_simp

theorem terminal_response_exact_witness:
  "\<exists>r cs1 t'. prepare_conversation_routing_with_source None ''p'' (Some ''c'') (Some demo_binding) demo_pool StickyFallback
       = (Some r, cs1)
     \<and> t' = snd (record_conversation_binding_terminal_response (Some r) (demo_account ''a'' ''active'') None 200 9 demo_table)
     \<and> find_binding t' (''p'', rc_conversation_id r)
         = binding_after r (demo_account ''a'' ''active'') None 200 9 (Some demo_binding)"
proof -
  have f: "bt_fault demo_table = None" by (simp add: demo_table_def)
  have n: "normalize_conversation_id (Some ''c'') \<noteq> None" by code_simp
  obtain r cs1 where p: "prepare_conversation_routing_with_source None ''p'' (Some ''c'') (Some demo_binding)
      demo_pool StickyFallback = (Some r, cs1)"
    using n prepare_some by blast
  obtain res t' where e: "record_conversation_binding_terminal_response (Some r) (demo_account ''a'' ''active'')
      None 200 9 demo_table = (res, t')" by fastforce
  from terminal_response_exact [OF f demo_load p e] p e show ?thesis by force
qed

section \<open>A conversation stays where it is\<close>

lemma load_finds:
  "bt_fault t = None \<Longrightarrow> normalize_conversation_id conv = Some c \<Longrightarrow>
   load_conversation_binding t p conv = Inr (find_binding t (p, c))"
  by (simp add: load_conversation_binding_def get_conversation_binding_def)

text \<open>
  C38: Once an account has answered a conversation with a success on some thread, the next request
  of that conversation finds the binding: the same account resumes the very thread (epoch and
  anchor) without a session reset, any other account gets the same anchor, the following epoch
  and a reset, and, unless the user prefers another account of the pool, the bound account is
  moved to the head of any pool it is in.
\<close>

theorem conversation_sticks:
  assumes "bt_fault t = None" "load_conversation_binding t p conv = Inr existing"
    and "prepare_conversation_routing_with_source storage p conv existing cs source = (Some r, cs1)"
    and "\<not> is_prompt_cache_key source" "status < 400"
    and "record_conversation_binding_terminal_response (Some r) a model status now t = (res, t')"
    and "normalize_conversation_id conv2 = normalize_conversation_id conv" "\<not> is_prompt_cache_key source2"
    and "load_conversation_binding t' p conv2 = Inr existing2"
    and "prepare_conversation_routing_with_source storage2 p conv2 existing2 pool source2 = (Some r2, pool2)"
  shows "\<exists>th. resolve_attempt_thread (Some r) a = Some th
    \<and> resolve_attempt_thread (Some r2) a = Some (th\<lparr>ta_reset_session_affinity := False\<rparr>)
    \<and> (\<forall>a2. acc_id a2 \<noteq> acc_id a \<longrightarrow> resolve_attempt_thread (Some r2) a2
         = Some \<lparr>ta_thread_anchor = ta_thread_anchor th, ta_thread_epoch = i64_add (ta_thread_epoch th) 1,
                 ta_reset_session_affinity = True\<rparr>)
    \<and> (preferred_in_pool storage2 pool = None \<and> acc_id a \<in> pool_ids pool \<longrightarrow> acc_id (fst (hd pool2)) = acc_id a)"
proof -
  note pf = prepared_is_fresh [OF assms(1-3)]
  then have fresh: "fresh_context t r" and src: "rc_source r = source" and pk: "rc_platform_key_hash r = p"
    and conv: "normalize_conversation_id conv = Some (rc_conversation_id r)" by blast+
  note tr = terminal_response_fresh [OF fresh, where a = a and model = model and status = status and now = now]
  have t'0: "bt_fault t' = None" using tr(3) assms(6) by simp
  have b2: "existing2 = binding_after r a model status now (find_binding t (p, rc_conversation_id r))"
    using assms(9) load_finds [OF t'0, of conv2] assms(6,7) conv tr(2) [of "(p, rc_conversation_id r)"] pk by simp
  have ex: "rc_existing_binding r = find_binding t (p, rc_conversation_id r)"
      "rc_next_thread_epoch r = derive_next_thread_epoch (rc_existing_binding r)"
    using fresh pk by (simp_all add: fresh_context_def)
  obtain b th where b: "existing2 = Some b" "cb_account_id b = acc_id a"
      "resolve_attempt_thread (Some r) a = Some th"
      "ta_thread_anchor th = cb_thread_anchor b" "ta_thread_epoch th = cb_thread_epoch b"
    using binding_matches_attempt [OF ex(2) _ assms(5), of a model now] assms(4) src b2 ex(1) by metis
  have f2: "rc_existing_binding r2 = Some b" "rc_next_thread_epoch r2 = derive_next_thread_epoch (Some b)"
      "rc_source r2 = source2" and c2: "normalize_conversation_id conv2 \<noteq> None"
  proof -
    have pf2: "fresh_context t' r2 \<and> rc_platform_key_hash r2 = p \<and> rc_source r2 = source2
        \<and> normalize_conversation_id conv2 = Some (rc_conversation_id r2)"
      by (rule prepared_is_fresh [OF t'0 assms(9,10)])
    have "existing2 = find_binding t' (p, rc_conversation_id r2)"
      using load_finds [OF t'0] pf2 assms(9) by (metis sum.inject(2))
    then show "rc_existing_binding r2 = Some b" "rc_next_thread_epoch r2 = derive_next_thread_epoch (Some b)"
      "rc_source r2 = source2" "normalize_conversation_id conv2 \<noteq> None"
      using pf2 b(1) by (simp_all add: fresh_context_def)
  qed
  have threads: "resolve_attempt_thread (Some r2) a = Some (th\<lparr>ta_reset_session_affinity := False\<rparr>)"
    "acc_id a2 \<noteq> acc_id a \<Longrightarrow> resolve_attempt_thread (Some r2) a2
         = Some \<lparr>ta_thread_anchor = ta_thread_anchor th, ta_thread_epoch = i64_add (ta_thread_epoch th) 1,
                 ta_reset_session_affinity = True\<rparr>" for a2
    using f2 b assms(8) by (simp_all add: resolve_attempt_thread_def derive_next_thread_epoch_def)
  have head: "acc_id (fst (hd pool2)) = acc_id a"
    if "preferred_in_pool storage2 pool = None" "acc_id a \<in> pool_ids pool"
  proof -
    obtain c where "normalize_conversation_id conv2 = Some c" using c2 by blast
    then show ?thesis
    proof (cases rule: prepare_cases [where storage = storage2 and p = p and existing = existing2 and cs = pool and source = source2])
      case (manual i)
      then show ?thesis using that by (simp add: preferred_in_pool_def pool_ids_def)
    next
      case (bound b')
      then have "pool2 = fst (rotate_to_account_id (acc_id a) pool)" using assms(10) b(1,2) by simp
      then show ?thesis using rotate_to_account_id_head that(2) by (simp add: pool_ids_def)
    next
      case free
      then show ?thesis using that(2) b(1,2) by (simp add: pool_ids_def)
    qed
  qed
  show ?thesis
  proof (intro exI [of _ th] conjI allI impI)
    show "acc_id (fst (hd pool2)) = acc_id a"
      if "preferred_in_pool storage2 pool = None \<and> acc_id a \<in> pool_ids pool"
      by (rule head) (use that in simp_all)
  qed (fact b(3) threads)+
qed

theorem conversation_sticks_witness:
  "\<exists>r r2 (pool2 :: (account \<times> token) list) th. resolve_attempt_thread (Some r) (demo_account ''a'' ''active'') = Some th
     \<and> resolve_attempt_thread (Some r2) (demo_account ''a'' ''active'') = Some (th\<lparr>ta_reset_session_affinity := False\<rparr>)
     \<and> acc_id (fst (hd pool2)) = acc_id (demo_account ''a'' ''active'')"
proof -
  let ?a = "demo_account ''a'' ''active''" and ?n = "Some ''c''"
  have f: "bt_fault demo_table = None" by (simp add: demo_table_def)
  have n: "normalize_conversation_id ?n \<noteq> None" by code_simp
  obtain r cs1 where p: "prepare_conversation_routing_with_source None ''p'' ?n (Some demo_binding)
      demo_pool StickyFallback = (Some r, cs1)" using prepare_some [OF n] by blast
  obtain res t' where e: "record_conversation_binding_terminal_response (Some r) ?a None 200 9 demo_table = (res, t')"
    by fastforce
  have f': "bt_fault t' = None"
    using terminal_response_fresh(3) [OF conjunct1 [OF prepared_is_fresh [OF f demo_load p]], of ?a None 200 9] e by simp
  obtain c where c: "normalize_conversation_id ?n = Some c" using n by blast
  obtain r2 pool2 where p2: "prepare_conversation_routing_with_source None ''p'' ?n (find_binding t' (''p'', c))
      demo_pool NativeConversation = (Some r2, pool2)" using prepare_some [OF n] by blast
  have s: "\<not> is_prompt_cache_key StickyFallback" "\<not> is_prompt_cache_key NativeConversation"
    by (simp_all add: is_prompt_cache_key_def)
  have "preferred_in_pool None demo_pool = None" "acc_id ?a \<in> pool_ids demo_pool"
    by (simp_all add: preferred_in_pool_def get_manual_preferred_account_def pool_ids_def demo_pool_def
        demo_account_def)
  with conversation_sticks [OF f demo_load p s(1) _ e refl s(2) load_finds [OF f' c] p2]
  obtain th where "resolve_attempt_thread (Some r) ?a = Some th"
      "resolve_attempt_thread (Some r2) ?a = Some (th\<lparr>ta_reset_session_affinity := False\<rparr>)"
      "acc_id (fst (hd pool2)) = acc_id ?a" by auto
  then show ?thesis
    by - (rule exI [of _ r], rule exI [of _ r2], rule exI [of _ pool2], rule exI [of _ th], simp)
qed

section \<open>Concurrent requests\<close>

text \<open>
  Requests overlap: each loads its binding at some time, and records its outcome at a later one,
  when the row it saw may have been moved or deleted. A state is the table with the contexts of
  the requests under way.
\<close>

inductive conversation_step ::
    "binding_table \<times> routing_context list \<Rightarrow> binding_table \<times> routing_context list \<Rightarrow> bool" where
  loads: "load_conversation_binding t p conv = Inr existing \<Longrightarrow>
    prepare_conversation_routing_with_source storage p conv existing cs source = (Some r, cs1) \<Longrightarrow>
    conversation_step (t, rs) (t, r # rs)"
| records: "r \<in> set rs \<Longrightarrow>
    conversation_step (t, rs) (snd (record_conversation_binding_terminal_response (Some r) a model status now t), rs)"
| finish: "conversation_step (t, r # rs) (t, rs)"
| delete: "conversation_step (t, rs) (snd (delete_conversation_binding p c t), rs)"
| delete_account: "conversation_step (t, rs) (snd (delete_conversation_bindings_for_account i t), rs)"
| delete_stale: "conversation_step (t, rs) (snd (delete_stale_conversation_bindings ts t), rs)"
| fault: "conversation_step (t, rs) (t\<lparr>bt_fault := f\<rparr>, rs)"

inductive conversation_reachable :: "binding_table \<times> routing_context list \<Rightarrow> bool" where
  start: "conversation_reachable (\<lparr>bt_rows = [], bt_fault = None\<rparr>, [])"
| step: "conversation_reachable x \<Longrightarrow> conversation_step x y \<Longrightarrow> conversation_reachable y"

definition anchored :: "conversation_binding \<Rightarrow> bool" where
  "anchored b \<longleftrightarrow> cb_thread_anchor b = cb_conversation_id b"

definition context_ok :: "routing_context \<Rightarrow> bool" where
  "context_ok r \<longleftrightarrow>
     (case rc_existing_binding r of None \<Rightarrow> True
      | Some b \<Rightarrow> anchored b \<and> cb_key b = (rc_platform_key_hash r, rc_conversation_id r))"

definition table_ok :: "binding_table \<Rightarrow> bool" where
  "table_ok t \<longleftrightarrow> distinct (map cb_key (bt_rows t)) \<and> (\<forall>b \<in> set (bt_rows t). anchored b)"

lemma table_ok_filter: "table_ok t \<Longrightarrow> table_ok (t\<lparr>bt_rows := filter P (bt_rows t)\<rparr>)"
  by (auto simp: table_ok_def distinct_map_filter)

lemma table_ok_map:
  assumes "table_ok t" "\<And>r. cb_key (f r) = cb_key r" "\<And>r. anchored r \<Longrightarrow> anchored (f r)"
  shows "table_ok (t\<lparr>bt_rows := map f (bt_rows t)\<rparr>)"
proof -
  have "cb_key \<circ> f = cb_key" using assms(2) by (simp add: fun_eq_iff)
  then show ?thesis using assms(1,3) by (auto simp: table_ok_def)
qed

lemma table_ok_write:
  assumes "table_ok t" "anchored b" shows "table_ok (write_binding b t)"
proof (cases "list_ex (\<lambda>r. cb_key r = cb_key b) (bt_rows t)")
  case True
  have "table_ok (t\<lparr>bt_rows := map (\<lambda>r. if cb_key r = cb_key b then merge_binding (Some r) b else r) (bt_rows t)\<rparr>)"
    by (rule table_ok_map [OF assms(1)]) (use assms(2) in \<open>auto simp: anchored_def merge_binding_def cb_key_def\<close>)
  then show ?thesis using True by (simp add: write_binding_def upsert_rows_def)
next
  case False
  with assms show ?thesis by (auto simp: write_binding_def upsert_rows_def table_ok_def list_ex_iff)
qed

lemma table_ok_terminal:
  assumes "table_ok t" "context_ok r"
  shows "table_ok (snd (record_conversation_binding_terminal_response (Some r) a model status now t))"
proof (cases "bt_fault t")
  case None
  have touch: "table_ok (snd (touch_conversation_binding p c i model now t))" for p c i
    unfolding touch_conversation_binding_def bt_exec_def None
    by (simp add: Let_def) (rule table_ok_map [OF assms(1)]; auto simp: anchored_def cb_key_def)
  have "anchored (rebound r a model now e b)" if "rc_existing_binding r = Some b" for b e
    using that assms(2) by (simp add: context_ok_def anchored_def rebound_def)
  moreover have "anchored (first_binding r a model now)" by (simp add: anchored_def first_binding_def)
  ultimately show ?thesis
    using touch assms(1) by (simp add: terminal_response_cases [OF None] table_ok_write split: option.split)
next
  case (Some e)
  then have "snd (record_conversation_binding_terminal_response (Some r) a model status now t) = t"
    by (auto simp: record_conversation_binding_terminal_response_def map_sql_err_def bt_exec_def Let_def
        touch_conversation_binding_def upsert_conversation_binding_def split: option.split sum.split)
  then show ?thesis using assms(1) by simp
qed

lemma context_ok_loaded:
  assumes "table_ok t" "load_conversation_binding t p conv = Inr existing"
    and "prepare_conversation_routing_with_source storage p conv existing cs source = (Some r, cs1)"
  shows "context_ok r"
proof -
  obtain c where c: "normalize_conversation_id conv = Some c"
    using assms(3) by (cases "normalize_conversation_id conv")
      (simp_all add: prepare_conversation_routing_with_source_def)
  have e: "existing = find_binding t (p, c)"
    using assms(2) c by (simp add: load_conversation_binding_def get_conversation_binding_def split: option.splits)
  have "rc_platform_key_hash r = p \<and> rc_conversation_id r = c \<and> rc_existing_binding r = existing"
    using c by (cases rule: prepare_cases [where storage = storage and p = p and existing = existing and cs = cs and source = source])
      (use assms(3) in auto)
  moreover have "anchored b" if "find_binding t (p, c) = Some b" for b
    using that assms(1) by (auto simp: find_binding_def find_Some_iff table_ok_def)
  ultimately show ?thesis using e find_binding_key [of t "(p, c)"]
    by (auto simp: context_ok_def split: option.split)
qed

lemma conversation_invariant:
  "conversation_reachable x \<Longrightarrow> table_ok (fst x) \<and> list_all context_ok (snd x)"
proof (induction rule: conversation_reachable.induct)
  case start
  then show ?case by (simp add: table_ok_def)
next
  case (step x y)
  from step(2,3) show ?case
    by (cases rule: conversation_step.cases)
      (auto simp: list_all_iff delete_conversation_binding_def delete_conversation_bindings_for_account_def
        delete_stale_conversation_bindings_def bt_exec_def remove_binding_def table_ok_filter
        intro: table_ok_terminal context_ok_loaded split: option.split, simp add: table_ok_def)
qed

text \<open>
  However requests, deletions and database faults interleave, and however stale the context
  of a request is when it records its outcome, a conversation has one binding at most, and every
  thread a request is given is anchored at its own conversation id, so the prompt cache key sent
  upstream for a conversation never changes.
\<close>

theorem conversation_anchor_stable:
  assumes "conversation_reachable (t, rs)"
  shows "distinct (map cb_key (bt_rows t))
    \<and> (\<forall>r \<in> set rs. \<forall>a th. resolve_attempt_thread (Some r) a = Some th \<longrightarrow>
         ta_thread_anchor th = rc_conversation_id r)
    \<and> (\<forall>p c b. find_binding t (p, c) = Some b \<longrightarrow> effective_thread_anchor (Some c) (Some b) = Some c)"
proof -
  from conversation_invariant [OF assms] have t: "table_ok t" and r: "\<forall>r \<in> set rs. context_ok r"
    by (simp_all add: list_all_iff)
  have "ta_thread_anchor th = rc_conversation_id r"
    if "r \<in> set rs" "resolve_attempt_thread (Some r) a = Some th" for r a th
    using that r by (auto simp: resolve_attempt_thread_def context_ok_def anchored_def cb_key_def
        split: if_splits option.splits)
  moreover have "cb_thread_anchor b = c" if "find_binding t (p, c) = Some b" for p c b
    using that t find_binding_key [OF that]
    by (auto simp: find_binding_def find_Some_iff table_ok_def anchored_def cb_key_def)
  ultimately show ?thesis using t
    by (auto simp: table_ok_def effective_thread_anchor_def or_else_def)
qed

theorem conversation_anchor_stable_witness:
  "\<exists>t' rs. conversation_reachable (t', rs) \<and> rs \<noteq> [] \<and> distinct (map cb_key (bt_rows t'))"
proof -
  let ?t = "\<lparr>bt_rows = [], bt_fault = None\<rparr>"
  have l: "load_conversation_binding ?t ''p'' (Some ''c'') = Inr None" by code_simp
  have "normalize_conversation_id (Some ''c'') \<noteq> None" by code_simp
  then obtain r cs1 where p: "prepare_conversation_routing_with_source None ''p'' (Some ''c'') None demo_pool
      NativeConversation = (Some r, cs1)" using prepare_some by blast
  have r1: "conversation_reachable (?t, [r])"
    by (rule conversation_reachable.step [OF conversation_reachable.start conversation_step.loads [OF l p]])
  have r2: "conversation_reachable (snd (record_conversation_binding_terminal_response (Some r)
      (demo_account ''a'' ''active'') None 200 5 ?t), [r])"
    by (rule conversation_reachable.step [OF r1 conversation_step.records]) simp
  from conversation_anchor_stable [OF r2] r2 show ?thesis by blast
qed

end
