(* ===== verification/Upstream_Support.thy ===== *)
theory Upstream_Support
  imports Rust_Text
begin

text \<open>
  The policies of \<^verbatim>\<open>gateway/upstream/support\<close> and \<^verbatim>\<open>gateway/upstream/config.rs\<close>:
  deadlines, jittered backoff, when to fail over, which URLs are OpenAI's own, and the upstream
  URL of a request path. An \<^verbatim>\<open>Instant\<close> and a \<^verbatim>\<open>Duration\<close> are naturals in
  nanoseconds; the current instant and the random draw are arguments.
\<close>

section \<open>Deadlines\<close>

abbreviation ms :: nat where "ms \<equiv> 10 ^ 6"
abbreviation u64_max :: nat where "u64_max \<equiv> 2 ^ 64 - 1"

definition effective_request_timeout :: "nat option \<Rightarrow> nat option \<Rightarrow> bool \<Rightarrow> nat option" where
  "effective_request_timeout total_to stream is_stream =
     (if \<not> is_stream then total_to
      else (case (total_to, stream) of
              (Some t, Some s) \<Rightarrow> Some (max t s)
            | (Some t, None) \<Rightarrow> Some t
            | (None, Some s) \<Rightarrow> Some s
            | (None, None) \<Rightarrow> None))"

definition request_deadline :: "nat option \<Rightarrow> nat option \<Rightarrow> nat \<Rightarrow> bool \<Rightarrow> nat option" where
  "request_deadline total_to stream started_at is_stream =
     map_option (\<lambda>timeout. started_at + timeout) (effective_request_timeout total_to stream is_stream)"

text \<open>\<^verbatim>\<open>saturating_duration_since\<close> is the subtraction of naturals.\<close>

definition remaining :: "nat option \<Rightarrow> nat \<Rightarrow> nat option" where
  "remaining deadline now = map_option (\<lambda>d. d - now) deadline"

definition is_expired :: "nat option \<Rightarrow> nat \<Rightarrow> bool" where
  "is_expired deadline now = (case remaining deadline now of None \<Rightarrow> False | Some r \<Rightarrow> r = 0)"

definition cap_wait :: "nat \<Rightarrow> nat option \<Rightarrow> nat \<Rightarrow> nat option" where
  "cap_wait wait deadline now =
     (case remaining deadline now of
        Some r \<Rightarrow> if r = 0 then None else Some (min wait r)
      | None \<Rightarrow> Some wait)"

definition send_timeout :: "nat option \<Rightarrow> nat option \<Rightarrow> bool \<Rightarrow> nat \<Rightarrow> nat option" where
  "send_timeout stream_timeout deadline is_stream now =
     (if is_stream
      then map_option (\<lambda>timeout. max timeout ms)
             (case (stream_timeout, remaining deadline now) of
                (Some c, Some r) \<Rightarrow> Some (min c r)
              | (Some c, None) \<Rightarrow> Some c
              | (None, Some r) \<Rightarrow> Some r
              | (None, None) \<Rightarrow> None)
      else map_option (\<lambda>r. max r ms) (remaining deadline now))"

lemma is_expired_iff: "is_expired deadline now \<longleftrightarrow> (\<exists>d. deadline = Some d \<and> d \<le> now)"
  by (auto simp: is_expired_def remaining_def split: option.split)

lemma is_expired_mono: "is_expired deadline now \<Longrightarrow> now \<le> later \<Longrightarrow> is_expired deadline later"
  by (auto simp: is_expired_iff)

lemma cap_wait_None_iff: "cap_wait wait deadline now = None \<longleftrightarrow> is_expired deadline now"
  by (auto simp: cap_wait_def is_expired_def split: option.split)

lemma cap_wait_le: "cap_wait wait deadline now = Some w \<Longrightarrow> w \<le> wait"
  by (auto simp: cap_wait_def split: option.splits if_splits)

lemma cap_wait_in_time: "cap_wait wait (Some d) now = Some w \<Longrightarrow> now + w \<le> d"
  by (auto simp: cap_wait_def remaining_def split: if_splits)

section \<open>Backoff\<close>

definition as_millis_u64 :: "nat \<Rightarrow> nat" where
  "as_millis_u64 d = min (d div ms) u64_max"

text \<open>\<open>draw m\<close> is the random number in \<^verbatim>\<open>0..=m\<close>.\<close>

definition exponential_jitter_delay :: "nat \<Rightarrow> nat \<Rightarrow> nat \<Rightarrow> (nat \<Rightarrow> nat) \<Rightarrow> nat" where
  "exponential_jitter_delay base cap attempt draw =
     (let base_ms = as_millis_u64 base; cap_ms = as_millis_u64 cap
      in if base_ms = 0 \<or> cap_ms = 0 then 0
         else (let multiplier = 2 ^ min attempt 10;
                   max_delay_ms = max (min (min (base_ms * multiplier) u64_max) cap_ms) 1
               in min (draw max_delay_ms) max_delay_ms * ms))"

text \<open>
  The wait is returned with the verdict instead of being slept: \<open>None\<close> is the refusal of
  \<^verbatim>\<open>sleep_with_exponential_jitter\<close> (its result \<^verbatim>\<open>false\<close>).
\<close>

definition sleep_with_exponential_jitter :: "nat \<Rightarrow> nat \<Rightarrow> nat \<Rightarrow> nat option \<Rightarrow> nat \<Rightarrow> (nat \<Rightarrow> nat) \<Rightarrow> nat option" where
  "sleep_with_exponential_jitter base cap attempt deadline now draw =
     cap_wait (exponential_jitter_delay base cap attempt draw) deadline now"

lemma exponential_jitter_delay_le: "exponential_jitter_delay base cap attempt draw \<le> cap"
proof -
  have "min (draw (max (min x (as_millis_u64 cap)) 1)) (max (min x (as_millis_u64 cap)) 1) * ms \<le> cap"
    if "as_millis_u64 cap \<noteq> 0" for x
  proof -
    define m where "m = max (min x (as_millis_u64 cap)) 1"
    have "m \<le> cap div ms" using that by (auto simp: as_millis_u64_def m_def)
    then have "min (draw m) m * ms \<le> cap div ms * ms" by (intro mult_right_mono) auto
    then show ?thesis unfolding m_def [symmetric] using div_times_less_eq_dividend order_trans by blast
  qed
  then show ?thesis
    unfolding exponential_jitter_delay_def Let_def by (simp only: le0 de_Morgan_disj split: if_split) blast
qed

section \<open>Failover policy\<close>

datatype follow_up = FollowFailover | FollowRespond

datatype custom_status = NotFound | RateLimited | ServerError | OtherStatus

definition follow_up_action :: "bool \<Rightarrow> bool \<Rightarrow> follow_up" where
  "follow_up_action should_failover has_more =
     (if should_failover \<and> has_more then FollowFailover else FollowRespond)"

definition classify_custom_upstream_status :: "nat \<Rightarrow> custom_status" where
  "classify_custom_upstream_status status =
     (if status = 404 then NotFound else if status = 429 then RateLimited
      else if 500 \<le> status \<and> status \<le> 599 then ServerError else OtherStatus)"

definition failover_after_fallback_status :: "nat \<Rightarrow> bool" where
  "failover_after_fallback_status status \<longleftrightarrow> status \<in> set [401, 403, 404, 408, 409, 429]"

section \<open>Targets\<close>

definition normalize_upstream_base_url :: "str \<Rightarrow> str" where
  "normalize_upstream_base_url base =
     (let normalized = trim_end_matches (CHR ''/'') (trim base);
          lower = to_ascii_lowercase normalized
      in if (str_starts_with lower ''https://chatgpt.com'' \<or> str_starts_with lower ''https://chat.openai.com'')
            \<and> \<not> str_contains lower ''/backend-api''
         then normalized @ ''/backend-api/codex'' else normalized)"

definition resolve_upstream_fallback_base_url :: "str \<Rightarrow> str option" where
  "resolve_upstream_fallback_base_url primary_base = None"

definition is_openai_api_base :: "str \<Rightarrow> bool" where
  "is_openai_api_base base = str_contains (to_ascii_lowercase (trim base)) ''api.openai.com/v1''"

definition is_chatgpt_backend_base :: "str \<Rightarrow> bool" where
  "is_chatgpt_backend_base base =
     (let n = to_ascii_lowercase (trim base)
      in str_contains n ''chatgpt.com/backend-api'' \<or> str_contains n ''chat.openai.com/backend-api'')"

definition should_send_chatgpt_account_header :: "str \<Rightarrow> bool" where
  "should_send_chatgpt_account_header base =
     str_contains (to_ascii_lowercase (trim base)) ''/backend-api/codex''"

definition is_official_openai_target :: "str \<Rightarrow> bool" where
  "is_official_openai_target base \<longleftrightarrow> is_chatgpt_backend_base base \<or> is_openai_api_base base"

definition should_try_openai_fallback :: "str \<Rightarrow> str \<Rightarrow> str option \<Rightarrow> bool" where
  "should_try_openai_fallback base path content_type = False"

definition should_try_openai_fallback_by_status :: "str \<Rightarrow> str \<Rightarrow> nat \<Rightarrow> bool" where
  "should_try_openai_fallback_by_status base path status = False"

definition is_compact_target :: "str \<Rightarrow> bool" where
  "is_compact_target url = str_contains (to_ascii_lowercase (trim url)) ''/responses/compact''"

definition is_html_content_type :: "str \<Rightarrow> bool" where
  "is_html_content_type v = str_starts_with (to_ascii_lowercase (trim v)) ''text/html''"

definition is_upstream_challenge_response :: "nat \<Rightarrow> str option \<Rightarrow> bool" where
  "is_upstream_challenge_response status content_type =
     (case content_type of None \<Rightarrow> False | Some v \<Rightarrow> is_html_content_type v)"

definition http_success :: "nat \<Rightarrow> bool" where
  "http_success status \<longleftrightarrow> 200 \<le> status \<and> status \<le> 299"

definition is_compact_path :: "str \<Rightarrow> bool" where
  "is_compact_path path \<longleftrightarrow>
     path = ''/v1/responses/compact'' \<or> str_starts_with path ''/v1/responses/compact?''"

definition resolve_upstream_is_stream :: "bool \<Rightarrow> str \<Rightarrow> bool" where
  "resolve_upstream_is_stream client_is_stream path \<longleftrightarrow>
     client_is_stream \<or> (str_starts_with path ''/v1/responses'' \<and> \<not> is_compact_path path)"

definition request_deadline_for_path :: "nat option \<Rightarrow> nat option \<Rightarrow> nat \<Rightarrow> bool \<Rightarrow> str \<Rightarrow> nat option" where
  "request_deadline_for_path total_to stream started_at client_is_stream path =
     request_deadline total_to stream started_at (resolve_upstream_is_stream client_is_stream path)"

section \<open>Upstream URLs\<close>

text \<open>\<^verbatim>\<open>trim_start_matches\<close> and \<^verbatim>\<open>trim_end_matches\<close> of a nonempty pattern repeat.\<close>

lemma drop_pattern_shorter:
  "pat \<noteq> [] \<Longrightarrow> str_starts_with s pat \<Longrightarrow> length s - length pat < length s"
  by (cases s; cases pat) auto

function trim_start_str :: "str \<Rightarrow> str \<Rightarrow> str" where
  "trim_start_str pat s =
     (if pat \<noteq> [] \<and> str_starts_with s pat then trim_start_str pat (drop (length pat) s) else s)"
  by pat_completeness auto
termination
  by (relation "measure (\<lambda>(pat, s). length s)") (auto intro: drop_pattern_shorter)

declare trim_start_str.simps [simp del]

definition trim_end_str :: "str \<Rightarrow> str \<Rightarrow> str" where
  "trim_end_str pat s = rev (trim_start_str (rev pat) (rev s))"

definition rewrite_path_preserving_query :: "str \<Rightarrow> str \<Rightarrow> str" where
  "rewrite_path_preserving_query path replacement =
     (case split_once ''?'' path of
        Some (_, query) \<Rightarrow> if trim query = [] then replacement else replacement @ ''?'' @ query
      | None \<Rightarrow> replacement)"

definition responses_compact_path :: "str \<Rightarrow> bool" where
  "responses_compact_path path \<longleftrightarrow> takeWhile (\<lambda>c. c \<noteq> CHR ''?'') path = ''/v1/responses/compact''"

definition resolve_upstream_request_path :: "str \<Rightarrow> str \<Rightarrow> str" where
  "resolve_upstream_request_path compact_api_path path =
     (if \<not> responses_compact_path path then path
      else rewrite_path_preserving_query path compact_api_path)"

definition compute_upstream_url :: "str \<Rightarrow> str \<Rightarrow> str \<Rightarrow> str \<times> str option" where
  "compute_upstream_url compact_api_path base0 path =
     (let base = trim_end_matches (CHR ''/'') base0;
          upath = resolve_upstream_request_path compact_api_path path;
          codex = str_contains base ''/backend-api/codex'' \<and> str_starts_with upath ''/v1/'';
          url = (if codex then base @ trim_start_str ''/v1'' upath
                 else if str_ends_with base ''/v1'' \<and> str_starts_with upath ''/v1''
                 then trim_end_str ''/v1'' base @ upath
                 else base @ upath)
      in (url, if codex then Some (base @ upath) else None))"

end
