(* ===== verification/Incoming_Headers.thy ===== *)
theory Incoming_Headers
  imports Token_Claims
begin

text \<open>
  \<^verbatim>\<open>gateway/request/incoming_headers.rs\<close>, \<^verbatim>\<open>request/session_affinity.rs\<close> and
  \<^verbatim>\<open>request/thread_anchor.rs\<close>: the snapshot of the headers the gateway reads from a
  request, and the session identity it sends on. A header is its name with the text of its value,
  \<open>None\<close> when the value is not a string.
\<close>

record header_snapshot =
  hs_authorization_present :: bool
  hs_x_api_key_present :: bool
  hs_bearer_strict :: "str option"
  hs_bearer_any_case :: "str option"
  hs_x_api_key :: "str option"
  hs_user_agent :: "str option"
  hs_originator :: "str option"
  hs_session_id :: "str option"
  hs_session_affinity :: "str option"
  hs_client_request_id :: "str option"
  hs_subagent :: "str option"
  hs_beta_features :: "str option"
  hs_window_id :: "str option"
  hs_turn_metadata :: "str option"
  hs_turn_state :: "str option"
  hs_parent_thread_id :: "str option"
  hs_codex_installation_id :: "str option"
  hs_timing_metrics :: "str option"
  hs_inference_call_id :: "str option"
  hs_oai_attestation :: "str option"
  hs_passthrough :: "(str \<times> str) list"
  hs_conversation_id :: "str option"

definition empty_snapshot :: header_snapshot where
  "empty_snapshot = \<lparr>hs_authorization_present = False, hs_x_api_key_present = False,
     hs_bearer_strict = None, hs_bearer_any_case = None, hs_x_api_key = None,
     hs_user_agent = None, hs_originator = None, hs_session_id = None, hs_session_affinity = None, hs_client_request_id = None, hs_subagent = None, hs_beta_features = None, hs_window_id = None, hs_turn_metadata = None, hs_turn_state = None, hs_parent_thread_id = None, hs_codex_installation_id = None, hs_timing_metrics = None, hs_inference_call_id = None, hs_oai_attestation = None,
     hs_passthrough = [], hs_conversation_id = None\<rparr>"

section \<open>Reading the headers\<close>

definition strict_bearer_token :: "str \<Rightarrow> str option" where
  "strict_bearer_token value =
     bind_opt (strip_prefix value ''Bearer '') (\<lambda>r. if trim r = [] then None else Some (trim r))"

definition case_insensitive_bearer_token :: "str \<Rightarrow> str option" where
  "case_insensitive_bearer_token value =
     bind_opt (split_once '' '' value)
       (\<lambda>(scheme, token). if \<not> eq_ignore_ascii_case scheme ''bearer'' then None
                         else if trim token = [] then None else Some (trim token))"

definition nonempty_value :: "str \<Rightarrow> str option" where
  "nonempty_value v = (if v = [] then None else Some v)"

definition should_capture_passthrough_codex_header :: "str \<Rightarrow> bool" where
  "should_capture_passthrough_codex_header name = False"

definition remember_passthrough_header :: "str \<Rightarrow> str \<Rightarrow> (str \<times> str) list \<Rightarrow> (str \<times> str) list" where
  "remember_passthrough_header name value headers =
     (if list_ex (\<lambda>(n, _). eq_ignore_ascii_case n name) headers then headers
      else headers @ [(name, value)])"

definition observe_header :: "str \<times> str option \<Rightarrow> header_snapshot \<Rightarrow> header_snapshot" where
  "observe_header h s =
     (case snd h of None \<Rightarrow> s | Some raw \<Rightarrow>
       (let name = fst h; value = trim raw in
      if eq_ignore_ascii_case name ''Authorization''
      then s\<lparr>hs_authorization_present := True,
             hs_bearer_strict := or_else (hs_bearer_strict s) (strict_bearer_token value),
             hs_bearer_any_case := or_else (hs_bearer_any_case s) (case_insensitive_bearer_token value)\<rparr>
      else if eq_ignore_ascii_case name ''x-api-key'' \<or> eq_ignore_ascii_case name ''x-goog-api-key''
      then s\<lparr>hs_x_api_key_present := True,
             hs_x_api_key := or_else (hs_x_api_key s) (nonempty_value value)\<rparr>
      else if hs_user_agent s = None \<and> eq_ignore_ascii_case name ''User-Agent''
      then s\<lparr>hs_user_agent := nonempty_value value\<rparr>
      else if hs_originator s = None \<and> eq_ignore_ascii_case name ''originator''
      then s\<lparr>hs_originator := nonempty_value value\<rparr>
      else if hs_session_id s = None \<and> eq_ignore_ascii_case name ''session_id''
      then s\<lparr>hs_session_id := nonempty_value value\<rparr>
      else if hs_session_affinity s = None \<and> eq_ignore_ascii_case name ''x-session-affinity''
      then s\<lparr>hs_session_affinity := nonempty_value value\<rparr>
      else if hs_client_request_id s = None \<and> eq_ignore_ascii_case name ''x-client-request-id''
      then s\<lparr>hs_client_request_id := nonempty_value value\<rparr>
      else if hs_subagent s = None \<and> eq_ignore_ascii_case name ''x-openai-subagent''
      then s\<lparr>hs_subagent := nonempty_value value\<rparr>
      else if hs_beta_features s = None \<and> eq_ignore_ascii_case name ''x-codex-beta-features''
      then s\<lparr>hs_beta_features := nonempty_value value\<rparr>
      else if hs_window_id s = None \<and> eq_ignore_ascii_case name ''x-codex-window-id''
      then s\<lparr>hs_window_id := nonempty_value value\<rparr>
      else if hs_turn_metadata s = None \<and> eq_ignore_ascii_case name ''x-codex-turn-metadata''
      then s\<lparr>hs_turn_metadata := nonempty_value value\<rparr>
      else if hs_turn_state s = None \<and> eq_ignore_ascii_case name ''x-codex-turn-state''
      then s\<lparr>hs_turn_state := nonempty_value value\<rparr>
      else if hs_parent_thread_id s = None \<and> eq_ignore_ascii_case name ''x-codex-parent-thread-id''
      then s\<lparr>hs_parent_thread_id := nonempty_value value\<rparr>
      else if hs_codex_installation_id s = None \<and> eq_ignore_ascii_case name ''x-codex-installation-id''
      then s\<lparr>hs_codex_installation_id := nonempty_value value\<rparr>
      else if hs_timing_metrics s = None \<and> eq_ignore_ascii_case name ''x-responsesapi-include-timing-metrics''
      then s\<lparr>hs_timing_metrics := nonempty_value value\<rparr>
      else if hs_inference_call_id s = None \<and> eq_ignore_ascii_case name ''x-codex-inference-call-id''
      then s\<lparr>hs_inference_call_id := nonempty_value value\<rparr>
      else if hs_oai_attestation s = None \<and> eq_ignore_ascii_case name ''x-oai-attestation''
      then s\<lparr>hs_oai_attestation := nonempty_value value\<rparr>
      else if should_capture_passthrough_codex_header name \<and> value \<noteq> []
      then s\<lparr>hs_passthrough := remember_passthrough_header name value (hs_passthrough s)\<rparr>
      else if hs_conversation_id s = None \<and> eq_ignore_ascii_case name ''conversation_id''
      then s\<lparr>hs_conversation_id := nonempty_value value\<rparr>
      else s))"

definition is_safe_derived_session_id :: "str \<Rightarrow> bool" where
  "is_safe_derived_session_id v \<longleftrightarrow>
     v \<noteq> [] \<and> length v \<le> 256 \<and> list_all (\<lambda>c. 33 \<le> (of_char c :: nat) \<and> (of_char c :: nat) \<le> 126) v"

definition session_id_from_turn_metadata :: "decoders \<Rightarrow> str \<Rightarrow> str option" where
  "session_id_from_turn_metadata dc text =
     bind_opt (dc_parse dc text) (\<lambda>payload.
     bind_opt (bind_opt (json_get payload ''session_id'') json_as_str) (\<lambda>raw.
       if is_safe_derived_session_id (trim raw) then Some (trim raw) else None))"

definition derive_session_id_from_turn_metadata :: "decoders \<Rightarrow> header_snapshot \<Rightarrow> header_snapshot" where
  "derive_session_id_from_turn_metadata dc s =
     (if hs_session_id s \<noteq> None then s
      else (case hs_turn_metadata s of None \<Rightarrow> s
            | Some m \<Rightarrow> s\<lparr>hs_session_id := session_id_from_turn_metadata dc m\<rparr>))"

definition from_http_headers :: "decoders \<Rightarrow> (str \<times> str option) list \<Rightarrow> header_snapshot" where
  "from_http_headers dc headers = derive_session_id_from_turn_metadata dc (fold observe_header headers empty_snapshot)"

section \<open>Keys and overrides\<close>

definition platform_key :: "header_snapshot \<Rightarrow> str option" where
  "platform_key s = or_else (hs_x_api_key s) (hs_bearer_strict s)"

definition sticky_key_material :: "header_snapshot \<Rightarrow> str option" where
  "sticky_key_material s = or_else (hs_session_id s) (or_else (hs_x_api_key s) (hs_bearer_any_case s))"

definition with_thread_affinity_override :: "str option \<Rightarrow> bool \<Rightarrow> header_snapshot \<Rightarrow> header_snapshot" where
  "with_thread_affinity_override conversation_id reset s =
     (let next_s = s\<lparr>hs_conversation_id := trimmed_nonempty conversation_id\<rparr>
      in if reset then next_s\<lparr>hs_session_id := None, hs_window_id := None, hs_turn_state := None\<rparr>
         else next_s)"

definition with_conversation_id_override :: "str option \<Rightarrow> header_snapshot \<Rightarrow> header_snapshot" where
  "with_conversation_id_override conversation_id s = with_thread_affinity_override conversation_id False s"

section \<open>Thread anchors\<close>

definition has_native_thread_anchor :: "header_snapshot \<Rightarrow> bool" where
  "has_native_thread_anchor s \<longleftrightarrow>
     trimmed_nonempty (hs_conversation_id s) \<noteq> None \<or> trimmed_nonempty (hs_turn_state s) \<noteq> None"

text \<open>\<open>sticky_id\<close> is the digest \<^verbatim>\<open>derive_sticky_conversation_id_from_headers\<close> takes of the key.\<close>

definition resolve_local_conversation_id_with_sticky_fallback ::
    "(str \<Rightarrow> str) \<Rightarrow> header_snapshot \<Rightarrow> bool \<Rightarrow> str option" where
  "resolve_local_conversation_id_with_sticky_fallback sticky_id s allow =
     (case trimmed_nonempty (hs_conversation_id s) of
        Some c \<Rightarrow> Some c
      | None \<Rightarrow> if \<not> allow \<or> trimmed_nonempty (hs_turn_state s) \<noteq> None then None
                else map_option sticky_id (sticky_key_material s))"

record session_identity =
  si_session_id :: "str option"
  si_client_request_id :: "str option"
  si_turn_state :: "str option"
  si_fallback_session_id :: "str option"

definition derive_outgoing_session_affinity ::
    "str option \<Rightarrow> str option \<Rightarrow> str option \<Rightarrow> str option \<Rightarrow> str option \<Rightarrow> session_identity" where
  "derive_outgoing_session_affinity session client_request turn_state conversation prompt_cache_key =
     (let conversation_anchor = trimmed_nonempty conversation;
          anchor = or_else (trimmed_nonempty prompt_cache_key) conversation_anchor;
          turn1 = (if turn_state \<noteq> None \<and> session = None \<and> anchor = None then None else turn_state);
          turn2 = (case (anchor, conversation_anchor) of
                     (Some t, Some c) \<Rightarrow> if c \<noteq> t then None else turn1
                   | _ \<Rightarrow> turn1)
      in \<lparr>si_session_id = or_else conversation_anchor session,
          si_client_request_id = or_else conversation_anchor client_request,
          si_turn_state = turn2, si_fallback_session_id = anchor\<rparr>)"

end
