(* ===== verification/Token_Refresh.thy ===== *)
theory Token_Refresh
  imports Account_Status
begin

text \<open>
  \<^verbatim>\<open>usage/usage_token_refresh.rs\<close> with the statements of
  \<^verbatim>\<open>storage/tokens.rs\<close> it runs: the exchange of a refresh token for new tokens, and what
  happens when another process has refreshed the same account meanwhile. The identity provider is
  a parameter; what other writers do to the store while the exchange is on its way is one too.
\<close>

text \<open>\<open>tw_schedule\<close> holds the columns \<^verbatim>\<open>access_token_exp\<close> and \<^verbatim>\<open>next_refresh_at\<close> of a token row.\<close>

record token_world =
  tw_store :: store
  tw_schedule :: "str \<rightharpoonup> i64 option \<times> i64 option"

section \<open>Statements\<close>

definition find_token_by_account_id :: "store \<Rightarrow> str \<Rightarrow> token option sql" where
  "find_token_by_account_id st i = run_sql st (List.find (\<lambda>t. tok_account_id t = i) (st_tokens st))"

definition upsert_token :: "token \<Rightarrow> token list \<Rightarrow> token list" where
  "upsert_token t ts =
     (if list_ex (\<lambda>r. tok_account_id r = tok_account_id t) ts
      then map (\<lambda>r. if tok_account_id r = tok_account_id t then t else r) ts
      else ts @ [t])"

text \<open>A token refers to its account: SQLite refuses a token without one.\<close>

definition insert_token :: "token \<Rightarrow> store \<Rightarrow> unit sql \<times> store" where
  "insert_token t st =
     (case st_fault st of Some e \<Rightarrow> (Inl e, st)
      | None \<Rightarrow>
        if list_ex (\<lambda>(a, _). acc_id a = tok_account_id t) (st_accounts st)
        then (Inr (), st\<lparr>st_tokens := upsert_token t (st_tokens st)\<rparr>)
        else (Inl ''FOREIGN KEY constraint failed'', st))"

definition update_token_refresh_schedule ::
    "str \<Rightarrow> i64 option \<Rightarrow> i64 option \<Rightarrow> token_world \<Rightarrow> unit sql \<times> token_world" where
  "update_token_refresh_schedule i access_exp next_at w =
     (case st_fault (tw_store w) of Some e \<Rightarrow> (Inl e, w)
      | None \<Rightarrow> (Inr (),
          if list_ex (\<lambda>t. tok_account_id t = i) (st_tokens (tw_store w))
          then w\<lparr>tw_schedule := (tw_schedule w)(i \<mapsto> (access_exp, next_at))\<rparr> else w))"

section \<open>Expiry\<close>

text \<open>
  \<^verbatim>\<open>as_i64\<close> of a number: its source text is an integer in range (\<^verbatim>\<open>-0\<close> is read as a
  float).
\<close>

definition json_as_i64 :: "json \<Rightarrow> i64 option" where
  "json_as_i64 v =
     (case v of
        JNum s \<Rightarrow>
          (case s of
             CHR ''-'' # ds \<Rightarrow>
               (if ds \<noteq> [] \<and> list_all is_ascii_digit ds \<and> 0 < digits_value ds \<and> digits_value ds \<le> 2 ^ 63
                then Some (- int (digits_value ds)) else None)
           | ds \<Rightarrow>
               (if ds \<noteq> [] \<and> list_all is_ascii_digit ds \<and> int (digits_value ds) \<le> i64_max
                then Some (int (digits_value ds)) else None))
      | _ \<Rightarrow> None)"

definition extract_token_exp :: "decoders \<Rightarrow> str \<Rightarrow> i64 option" where
  "extract_token_exp dc token =
     bind_opt (token_payload dc token) (\<lambda>v. bind_opt (json_get v ''exp'') json_as_i64)"

definition next_refresh_at_from_token :: "decoders \<Rightarrow> token \<Rightarrow> i64 \<Rightarrow> i64 option" where
  "next_refresh_at_from_token dc t ahead =
     (case (map_option (\<lambda>e. i64_sat_sub e ahead) (extract_token_exp dc (tok_access_token t)),
            map_option (\<lambda>e. i64_sat_sub e ahead) (extract_token_exp dc (tok_refresh_token t))) of
        (Some a, Some r) \<Rightarrow> Some (min a r)
      | (Some a, None) \<Rightarrow> Some a
      | (None, Some r) \<Rightarrow> Some r
      | (None, None) \<Rightarrow> None)"

definition parse_i64 :: "str \<Rightarrow> i64 option" where
  "parse_i64 s =
     (case s of
        CHR ''-'' # ds \<Rightarrow> map_option (\<lambda>n. - int n) (parse_digits (2 ^ 63) ds)
      | _ \<Rightarrow> map_option int (parse_unsigned (2 ^ 63 - 1) s))"

definition token_refresh_ahead_secs :: "process_env \<Rightarrow> i64" where
  "token_refresh_ahead_secs env =
     (case bind_opt (pe_var env ''CODEXMANAGER_TOKEN_REFRESH_AHEAD_SECS'') (\<lambda>v. parse_i64 (trim v)) of
        Some secs \<Rightarrow> if 0 < secs then secs else 3600
      | None \<Rightarrow> 3600)"

definition token_refresh_client_id :: "decoders \<Rightarrow> token \<Rightarrow> str \<Rightarrow> str" where
  "token_refresh_client_id dc t fallback =
     unwrap_or
       (or_else (extract_client_id_claim dc (tok_access_token t))
         (or_else (extract_client_id_claim dc (tok_id_token t))
           (if trim fallback = [] then None else Some (trim fallback))))
       ''app_EMoamEEZ73f0CkXaXp7hrann''"

section \<open>The refresh\<close>

record token_reply =
  rr_access_token :: str
  rr_refresh_token :: "str option"
  rr_id_token :: "str option"

text \<open>
  The identity provider and the other writers: \<open>rp_exchange\<close> and \<open>rp_api_key\<close> answer for an
  issuer, a client id and a token; \<open>rp_meanwhile\<close> is what others do to the tables during the
  exchange; \<open>rp_poisoned\<close> says that the account's refresh lock is poisoned.
\<close>

record refresh_peer =
  rp_poisoned :: bool
  rp_exchange :: "str \<Rightarrow> str \<Rightarrow> str \<Rightarrow> str + token_reply"
  rp_api_key :: "str \<Rightarrow> str \<Rightarrow> str \<Rightarrow> str + str"
  rp_meanwhile :: "token_world \<Rightarrow> token_world"
  rp_now :: i64

definition is_refresh_race_recoverable_error :: "str \<Rightarrow> bool" where
  "is_refresh_race_recoverable_error err \<longleftrightarrow>
     refresh_token_auth_error_reason_from_message err \<in> {Some InvalidGrant, Some Reused}"

definition recover_refresh_race_from_latest_token ::
    "store \<Rightarrow> token \<Rightarrow> str \<Rightarrow> str \<Rightarrow> (str + bool) \<times> token" where
  "recover_refresh_race_from_latest_token st t original_refresh err =
     (if \<not> is_refresh_race_recoverable_error err then (Inr False, t)
      else (case find_token_by_account_id st (tok_account_id t) of
              Inl e \<Rightarrow> (Inl e, t)
            | Inr None \<Rightarrow> (Inr False, t)
            | Inr (Some latest) \<Rightarrow>
                if trim (tok_refresh_token latest) = [] \<or> tok_refresh_token latest = original_refresh
                then (Inr False, t) else (Inr True, latest)))"

definition apply_token_reply :: "decoders \<Rightarrow> refresh_peer \<Rightarrow> str \<Rightarrow> str \<Rightarrow> token_reply \<Rightarrow> token \<Rightarrow> token" where
  "apply_token_reply dc peer issuer client reply t0 =
     (let t1 = t0\<lparr>tok_access_token := rr_access_token reply\<rparr>;
          t2 = (case rr_refresh_token reply of Some r \<Rightarrow> t1\<lparr>tok_refresh_token := r\<rparr> | None \<Rightarrow> t1);
          t3 = (case rr_id_token reply of
                  Some i \<Rightarrow>
                    (let t = t2\<lparr>tok_id_token := i\<rparr>
                     in (case rp_api_key peer issuer (token_refresh_client_id dc t client) i of
                           Inr key \<Rightarrow> t\<lparr>tok_api_key_access_token := Some key\<rparr>
                         | Inl _ \<Rightarrow> t))
                | None \<Rightarrow> t2)
      in t3\<lparr>tok_last_refresh := rp_now peer\<rparr>)"

definition persist_refreshed_token ::
    "decoders \<Rightarrow> i64 \<Rightarrow> token \<Rightarrow> token_world \<Rightarrow> (str + unit) \<times> token \<times> token_world" where
  "persist_refreshed_token dc ahead t w =
     (case insert_token t (tw_store w) of
        (Inl e, _) \<Rightarrow> (Inl e, t, w)
      | (Inr _, st) \<Rightarrow>
          (Inr (), t, snd (update_token_refresh_schedule (tok_account_id t)
                             (extract_token_exp dc (tok_access_token t))
                             (next_refresh_at_from_token dc t ahead) (w\<lparr>tw_store := st\<rparr>))))"

definition exchange_and_persist ::
    "decoders \<Rightarrow> refresh_peer \<Rightarrow> str \<Rightarrow> str \<Rightarrow> i64 \<Rightarrow> str \<Rightarrow> token \<Rightarrow> token_world
       \<Rightarrow> (str + unit) \<times> token \<times> token_world" where
  "exchange_and_persist dc peer issuer client_id ahead original_refresh t w0 =
     (let client = token_refresh_client_id dc t client_id; w = rp_meanwhile peer w0
      in (case rp_exchange peer issuer client (tok_refresh_token t) of
            Inr reply \<Rightarrow> persist_refreshed_token dc ahead (apply_token_reply dc peer issuer client reply t) w
          | Inl err \<Rightarrow>
              (case recover_refresh_race_from_latest_token (tw_store w) t original_refresh err of
                 (Inl e, t') \<Rightarrow> (Inl e, t', w)
               | (Inr recovered, t') \<Rightarrow> (if recovered then Inr () else Inl err, t', w))))"

definition refresh_and_persist_access_token ::
    "decoders \<Rightarrow> refresh_peer \<Rightarrow> str \<Rightarrow> str \<Rightarrow> i64 \<Rightarrow> token \<Rightarrow> token_world
       \<Rightarrow> (str + unit) \<times> token \<times> token_world" where
  "refresh_and_persist_access_token dc peer issuer client_id ahead t w =
     (if rp_poisoned peer then (Inl ''token refresh lock poisoned'', t, w)
      else (case find_token_by_account_id (tw_store w) (tok_account_id t) of
              Inl e \<Rightarrow> (Inl e, t, w)
            | Inr None \<Rightarrow>
                exchange_and_persist dc peer issuer client_id ahead (tok_refresh_token t) t w
            | Inr (Some latest) \<Rightarrow>
                if tok_access_token latest \<noteq> tok_access_token t \<or> tok_refresh_token latest \<noteq> tok_refresh_token t
                then (Inr (), latest, w)
                else exchange_and_persist dc peer issuer client_id ahead (tok_refresh_token t) latest w))"

lemma find_upsert_token:
  "List.find (\<lambda>r. tok_account_id r = i) (upsert_token t ts)
     = (if tok_account_id t = i then Some t else List.find (\<lambda>r. tok_account_id r = i) ts)"
proof -
  have *: "List.find (\<lambda>r. tok_account_id r = i)
             (map (\<lambda>r. if tok_account_id r = tok_account_id t then t else r) xs)
           = (if tok_account_id t = i \<and> list_ex (\<lambda>r. tok_account_id r = tok_account_id t) xs
              then Some t else List.find (\<lambda>r. tok_account_id r = i) xs)" for xs
    by (induction xs) auto
  have **: "List.find (\<lambda>r. tok_account_id r = i) (xs @ [t])
            = (if tok_account_id t = i then Some t else List.find (\<lambda>r. tok_account_id r = i) xs)"
    if "\<not> list_ex (\<lambda>r. tok_account_id r = tok_account_id t) xs" for xs
    using that by (induction xs) auto
  show ?thesis using * [of ts] ** [of ts] by (auto simp: upsert_token_def)
qed

lemma find_token_insert:
  "insert_token t st = (Inr (), st') \<Longrightarrow> find_token_by_account_id st' (tok_account_id t) = Inr (Some t)"
  by (auto simp: insert_token_def find_token_by_account_id_def find_upsert_token
      split: option.splits if_splits)

lemma update_schedule_store [simp]: "tw_store (snd (update_token_refresh_schedule i a b w)) = tw_store w"
  by (simp add: update_token_refresh_schedule_def split: option.split)

lemma find_token_id: "find_token_by_account_id st i = Inr (Some t) \<Longrightarrow> tok_account_id t = i"
  by (auto simp: find_token_by_account_id_def run_sql_def find_Some_iff split: option.splits)

lemma apply_token_reply_id [simp]: "tok_account_id (apply_token_reply dc peer issuer client reply t) = tok_account_id t"
  by (simp add: apply_token_reply_def Let_def split: option.split sum.split)

lemma recover_stored:
  assumes "recover_refresh_race_from_latest_token st t orig err = (Inr True, t')"
  shows "find_token_by_account_id st (tok_account_id t) = Inr (Some t')"
  using assms
  by (auto simp: recover_refresh_race_from_latest_token_def split: if_splits sum.splits option.splits)

lemma exchange_ok_stored:
  assumes "exchange_and_persist dc peer issuer client_id ahead orig t w0 = (Inr (), t', w')"
  shows "find_token_by_account_id (tw_store w') (tok_account_id t) = Inr (Some t')"
  using assms
  by (auto simp: exchange_and_persist_def persist_refreshed_token_def Let_def recover_stored
      dest!: find_token_insert split: sum.splits prod.splits if_splits)

lemma exchange_err_store:
  assumes "exchange_and_persist dc peer issuer client_id ahead orig t w0 = (Inl e, t', w')"
  shows "w' = rp_meanwhile peer w0"
  using assms
  by (auto simp: exchange_and_persist_def persist_refreshed_token_def Let_def
      split: sum.splits prod.splits if_splits)

text \<open>
  C13: a refresh that succeeds leaves in hand exactly the token the store holds for the account,
  whichever of its ways it took: another process's newer token found at the start, the exchange of
  its own, or the recovery from an exchange that another process has won.
\<close>

theorem refresh_returns_stored_token:
  assumes "refresh_and_persist_access_token dc peer issuer client_id ahead t w = (Inr (), t', w')"
  shows "find_token_by_account_id (tw_store w') (tok_account_id t) = Inr (Some t')"
  using assms unfolding refresh_and_persist_access_token_def
  by (auto split: if_splits sum.splits option.splits dest!: exchange_ok_stored dest: find_token_id)

definition demo_refresh_token :: token where
  "demo_refresh_token = \<lparr>tok_account_id = ''a'', tok_id_token = ''i'', tok_access_token = ''x'',
     tok_refresh_token = ''r'', tok_api_key_access_token = None, tok_last_refresh = 0\<rparr>"

definition demo_refresh_world :: "token list \<Rightarrow> token_world" where
  "demo_refresh_world ts =
     \<lparr>tw_store = \<lparr>st_accounts = [(\<lparr>acc_id = ''a'', acc_label = ''a'', acc_issuer = '''',
        acc_chatgpt_account_id = None, acc_workspace_id = None, acc_group_name = None, acc_sort = 0,
        acc_status = ''active'', acc_created_at = 0, acc_updated_at = 0\<rparr>, False)],
        st_tokens = ts, st_snapshots = [], st_events = [], st_next_id = 0, st_fault = None\<rparr>,
      tw_schedule = Map.empty\<rparr>"

definition demo_peer :: "str + token_reply \<Rightarrow> token list \<Rightarrow> refresh_peer" where
  "demo_peer answer ts =
     \<lparr>rp_poisoned = False, rp_exchange = (\<lambda>_ _ _. answer), rp_api_key = (\<lambda>_ _ _. Inl ''''),
      rp_meanwhile = (\<lambda>_. demo_refresh_world ts), rp_now = 7\<rparr>"

definition demo_decoders :: decoders where
  "demo_decoders = \<lparr>dc_b64 = (\<lambda>_. None), dc_parse = (\<lambda>_. None)\<rparr>"

lemma refresh_returns_stored_token_witness:
  "\<exists>t' w'. refresh_and_persist_access_token demo_decoders
       (demo_peer (Inr \<lparr>rr_access_token = ''y'', rr_refresh_token = Some ''s'', rr_id_token = None\<rparr>) [])
       ''iss'' ''c'' 60 demo_refresh_token (demo_refresh_world [demo_refresh_token]) = (Inr (), t', w')
     \<and> tok_access_token t' = ''y''
     \<and> find_token_by_account_id (tw_store w') ''a'' = Inr (Some t')"
proof -
  let ?peer = "demo_peer (Inr \<lparr>rr_access_token = ''y'', rr_refresh_token = Some ''s'', rr_id_token = None\<rparr>) []"
  obtain t' w' where r: "refresh_and_persist_access_token demo_decoders ?peer ''iss'' ''c'' 60
      demo_refresh_token (demo_refresh_world [demo_refresh_token]) = (Inr (), t', w')"
    and y: "tok_access_token t' = ''y''"
    by (simp add: refresh_and_persist_access_token_def exchange_and_persist_def persist_refreshed_token_def
        demo_peer_def demo_refresh_world_def demo_refresh_token_def apply_token_reply_def Let_def
        find_token_by_account_id_def insert_token_def run_sql_def split: prod.splits)
  from refresh_returns_stored_token [OF r] r y show ?thesis by (auto simp: demo_refresh_token_def)
qed

lemma same_secrets_exchange:
  assumes "\<not> rp_poisoned peer" "find_token_by_account_id (tw_store w) (tok_account_id t) = Inr (Some stored)"
    "tok_access_token stored = tok_access_token t" "tok_refresh_token stored = tok_refresh_token t"
  shows "refresh_and_persist_access_token dc peer issuer client_id ahead t w
    = exchange_and_persist dc peer issuer client_id ahead (tok_refresh_token t) stored w"
  using assms by (simp add: refresh_and_persist_access_token_def)

text \<open>
  C14: an exchange lost to another process is recovered. When the provider answers that the
  refresh token was used or is no longer valid, and another writer has stored a different refresh
  token meanwhile, the refresh succeeds with that writer's token and writes nothing; when the
  stored refresh token is still the old one, the provider's error is returned, again with
  nothing written.
\<close>

theorem lost_refresh_race_recovered:
  assumes "\<not> rp_poisoned peer"
    and "find_token_by_account_id (tw_store w) (tok_account_id t) = Inr (Some stored)"
    and "tok_access_token stored = tok_access_token t" "tok_refresh_token stored = tok_refresh_token t"
    and lost: "rp_exchange peer issuer (token_refresh_client_id dc stored client_id) (tok_refresh_token t) = Inl err"
    and "refresh_token_auth_error_reason_from_message err \<in> {Some InvalidGrant, Some Reused}"
    and latest: "find_token_by_account_id (tw_store (rp_meanwhile peer w)) (tok_account_id t) = Inr (Some latest)"
    and "trim (tok_refresh_token latest) \<noteq> []"
  shows "refresh_and_persist_access_token dc peer issuer client_id ahead t w
    = (if tok_refresh_token latest \<noteq> tok_refresh_token t then (Inr (), latest, rp_meanwhile peer w)
       else (Inl err, stored, rp_meanwhile peer w))"
proof -
  have "tok_account_id stored = tok_account_id t" using assms(2) by (rule find_token_id)
  with assms show ?thesis
    by (simp add: same_secrets_exchange exchange_and_persist_def recover_refresh_race_from_latest_token_def
        is_refresh_race_recoverable_error_def Let_def)
qed

lemma lost_refresh_race_recovered_witness:
  "\<exists>w'. refresh_and_persist_access_token demo_decoders
      (demo_peer (Inl ''refresh token failed with status 400 Bad Request: invalid_grant'')
        [demo_refresh_token\<lparr>tok_refresh_token := ''new''\<rparr>])
      ''iss'' ''c'' 60 demo_refresh_token (demo_refresh_world [demo_refresh_token])
    = (Inr (), demo_refresh_token\<lparr>tok_refresh_token := ''new''\<rparr>, w')"
proof -
  let ?err = "''refresh token failed with status 400 Bad Request: invalid_grant''"
  let ?peer = "demo_peer (Inl ?err) [demo_refresh_token\<lparr>tok_refresh_token := ''new''\<rparr>]"
  let ?w = "demo_refresh_world [demo_refresh_token]"
  let ?latest = "demo_refresh_token\<lparr>tok_refresh_token := ''new''\<rparr>"
  have reason: "refresh_token_auth_error_reason_from_message ?err = Some InvalidGrant"
    by code_simp
  have trimmed: "trim ''new'' \<noteq> []" by code_simp
  have "refresh_and_persist_access_token demo_decoders ?peer ''iss'' ''c'' 60 demo_refresh_token ?w
    = (if tok_refresh_token ?latest \<noteq> tok_refresh_token demo_refresh_token
       then (Inr (), ?latest, rp_meanwhile ?peer ?w) else (Inl ?err, demo_refresh_token, rp_meanwhile ?peer ?w))"
    by (rule lost_refresh_race_recovered)
       (use reason trimmed in \<open>simp_all add: demo_peer_def demo_refresh_world_def demo_refresh_token_def
          find_token_by_account_id_def run_sql_def\<close>)
  then show ?thesis by (simp add: demo_refresh_token_def)
qed

end
