(* ===== verification/Gateway_World.thy ===== *)
theory Gateway_World
  imports Cooldown Token_Refresh Incoming_Headers Upstream_Support Conversation_Binding "HOL-Library.State_Monad"
begin

text \<open>
  The world the failover engine runs in: the state of the gateway that a request reads and writes,
  the outside as oracles that are asked one tick after another, a log of what the request did, and
  the small actions of the attempt flow (\<^verbatim>\<open>gateway/mod.rs\<close>, \<^verbatim>\<open>observability/metrics.rs\<close>).
  A computation is a state transformer. The locale \<open>graded_effects\<close> is the contract of a
  relation that bounds what computations do; its rules follow the code.
\<close>

section \<open>State and outside\<close>

text \<open>An upstream response: the headers the engine reads, absent or not text being \<open>None\<close>.\<close>

record response =
  rs_status :: nat
  rs_content_type :: "str option"
  rs_cf_ray :: "str option"
  rs_body :: str

text \<open>The arguments of \<^verbatim>\<open>send_upstream_request\<close> that vary between sends.\<close>

record send_request =
  sq_url :: str
  sq_body :: str
  sq_auth :: str
  sq_account :: account
  sq_strip :: bool
  sq_compressed :: bool
  sq_headers :: header_snapshot

datatype skip_reason = SkipCooldown | SkipInflight

record bridge_result =
  br_stream_terminal_seen :: bool
  br_stream_terminal_error :: "str option"
  br_delivery_error :: "str option"
  br_upstream_error_hint :: "str option"
  br_delivered_status_code :: "nat option"

text \<open>
  What a request did, in order: requests to the upstream, waits, results of attempts, candidates
  started and skipped, failovers, queued usage refreshes, the final log record, and the two ways to
  answer the client (a text of the gateway's own, or the upstream's response).
\<close>

datatype event =
    EvSend send_request
  | EvFallback str str
  | EvSleep nat
  | EvAttempt str "str option" nat "str option"
  | EvStart str nat bool
  | EvSkip str nat skip_reason
  | EvFailover
  | EvRefreshQueued str
  | EvFinal "str option" "str option" nat "str option" "str list"
  | EvRespond nat str
  | EvBridge str response

record gateway_world =
  gw_tick :: nat
  gw_cooldown :: cooldown_state
  gw_quality :: quality_state
  gw_store :: store
  gw_schedule :: "str \<rightharpoonup> i64 option \<times> i64 option"
  gw_selection :: selection_state
  gw_bindings :: binding_table
  gw_inflight :: "str \<rightharpoonup> nat"
  gw_token :: token
  gw_attempt_url :: "str option"
  gw_attempt_error :: "str option"
  gw_log :: "event list"

text \<open>
  \<open>gw_token\<close>, \<open>gw_attempt_url\<close> and \<open>gw_attempt_error\<close> are the mutable locals of the candidate in
  hand (its token, its \<^verbatim>\<open>CandidateAttemptTrace\<close>). The oracles: the two clocks, the random
  draw of the jitter, the upstream (\<open>ge_send\<close> for \<^verbatim>\<open>send_upstream_request\<close>,
  \<open>ge_fallback\<close> for \<^verbatim>\<open>try_openai_fallback\<close>), the identity provider, and the delivery
  of a response to the client (\<open>ge_bridge\<close> for \<^verbatim>\<open>respond_with_upstream\<close>).
\<close>

record gateway_env =
  ge_instant :: "nat \<Rightarrow> nat"
  ge_now :: "nat \<Rightarrow> i64"
  ge_draw :: "nat \<Rightarrow> nat \<Rightarrow> nat"
  ge_send :: "nat \<Rightarrow> send_request \<Rightarrow> str + response"
  ge_fallback :: "nat \<Rightarrow> str \<Rightarrow> send_request \<Rightarrow> str + response option"
  ge_refresh :: "nat \<Rightarrow> refresh_peer"
  ge_bridge :: "nat \<Rightarrow> response \<Rightarrow> bool \<Rightarrow> str + bridge_result"
  ge_process :: process_env
  ge_decoders :: decoders
  ge_print :: "json \<Rightarrow> str option"
  ge_default_issuer :: str
  ge_client_id :: str

type_synonym 'a gateway = "(gateway_world, 'a) state"

section \<open>Basic actions\<close>

definition gets :: "('s \<Rightarrow> 'a) \<Rightarrow> ('s, 'a) state" where
  "gets f = State (\<lambda>s. (f s, s))"

definition modify :: "('s \<Rightarrow> 's) \<Rightarrow> ('s, unit) state" where
  "modify f = State (\<lambda>s. ((), f s))"

definition ask :: "(nat \<Rightarrow> 'a) \<Rightarrow> 'a gateway" where
  "ask f = State (\<lambda>w. (f (gw_tick w), w\<lparr>gw_tick := Suc (gw_tick w)\<rparr>))"

definition log_event :: "event \<Rightarrow> unit gateway" where
  "log_event e = modify (\<lambda>w. w\<lparr>gw_log := gw_log w @ [e]\<rparr>)"

definition run_if :: "bool \<Rightarrow> ('s, unit) state \<Rightarrow> ('s, unit) state" where
  "run_if b m = (if b then m else State_Monad.return ())"

definition discard :: "('s, 'a) state \<Rightarrow> ('s, unit) state" where
  "discard m = do { _ \<leftarrow> m; State_Monad.return () }"

definition cooldown_mark :: "gateway_env \<Rightarrow> str \<Rightarrow> cooldown_reason \<Rightarrow> unit gateway" where
  "cooldown_mark env a reason = do {
     now \<leftarrow> ask (ge_now env);
     modify (\<lambda>w. w\<lparr>gw_cooldown := mark_account_cooldown a reason now (gw_cooldown w)\<rparr>) }"

definition cooldown_mark_status :: "gateway_env \<Rightarrow> str \<Rightarrow> nat \<Rightarrow> unit gateway" where
  "cooldown_mark_status env a status = do {
     now \<leftarrow> ask (ge_now env);
     modify (\<lambda>w. w\<lparr>gw_cooldown := mark_account_cooldown_for_status a status now (gw_cooldown w)\<rparr>) }"

definition cooldown_clear :: "str \<Rightarrow> unit gateway" where
  "cooldown_clear a = modify (\<lambda>w. w\<lparr>gw_cooldown := clear_account_cooldown a (gw_cooldown w)\<rparr>)"

definition in_cooldown :: "gateway_env \<Rightarrow> str \<Rightarrow> bool gateway" where
  "in_cooldown env a = do {
     now \<leftarrow> ask (ge_now env);
     State (\<lambda>w. (let (b, c) = is_account_in_cooldown a now (gw_cooldown w) in (b, w\<lparr>gw_cooldown := c\<rparr>))) }"

definition quality_record_status :: "gateway_env \<Rightarrow> str \<Rightarrow> nat \<Rightarrow> unit gateway" where
  "quality_record_status env a status = do {
     now \<leftarrow> ask (ge_now env);
     modify (\<lambda>w. w\<lparr>gw_quality := record_route_quality a status now (gw_quality w)\<rparr>) }"

definition deadline_expired :: "gateway_env \<Rightarrow> nat option \<Rightarrow> bool gateway" where
  "deadline_expired env deadline = do {
     now \<leftarrow> ask (ge_instant env);
     State_Monad.return (is_expired deadline now) }"

definition jitter_sleep :: "gateway_env \<Rightarrow> nat \<Rightarrow> nat \<Rightarrow> nat \<Rightarrow> nat option \<Rightarrow> bool gateway" where
  "jitter_sleep env base cap attempt deadline = do {
     draw \<leftarrow> ask (ge_draw env);
     now \<leftarrow> ask (ge_instant env);
     (case sleep_with_exponential_jitter base cap attempt deadline now draw of
        None \<Rightarrow> State_Monad.return False
      | Some wait \<Rightarrow> do { log_event (EvSleep wait); State_Monad.return True }) }"

definition send_upstream :: "gateway_env \<Rightarrow> send_request \<Rightarrow> (str + response) gateway" where
  "send_upstream env rq = do {
     log_event (EvSend rq);
     ask (\<lambda>n. ge_send env n rq) }"

definition enqueue_usage_refresh :: "str \<Rightarrow> unit gateway" where
  "enqueue_usage_refresh a = log_event (EvRefreshQueued a)"

text \<open>Status changes of an account work on the store and on the candidate cache.\<close>

definition with_accounts :: "(acct_world \<Rightarrow> 'a \<times> acct_world) \<Rightarrow> 'a gateway" where
  "with_accounts f =
     State (\<lambda>w. (case f (gw_store w, gw_selection w) of
                   (r, st, sl) \<Rightarrow> (r, w\<lparr>gw_store := st, gw_selection := sl\<rparr>)))"

definition mark_unavailable_for_gateway_error :: "gateway_env \<Rightarrow> str \<Rightarrow> str \<Rightarrow> bool gateway" where
  "mark_unavailable_for_gateway_error env a err = do {
     now \<leftarrow> ask (ge_now env);
     with_accounts (mark_account_unavailable_for_gateway_error a err now) }"

definition mark_unavailable_for_refresh_error :: "gateway_env \<Rightarrow> str \<Rightarrow> str \<Rightarrow> bool gateway" where
  "mark_unavailable_for_refresh_error env a err = do {
     now \<leftarrow> ask (ge_now env);
     with_accounts (mark_account_unavailable_for_refresh_token_error a err now) }"

section \<open>Requests in flight\<close>

definition account_inflight_count :: "(str \<rightharpoonup> nat) \<Rightarrow> str \<Rightarrow> nat" where
  "account_inflight_count m a = unwrap_or (m a) 0"

definition inflight_acquired :: "str \<Rightarrow> (str \<rightharpoonup> nat) \<Rightarrow> (str \<rightharpoonup> nat)" where
  "inflight_acquired a m = m(a \<mapsto> unwrap_or (m a) 0 + 1)"

definition inflight_dropped :: "str \<Rightarrow> (str \<rightharpoonup> nat) \<Rightarrow> (str \<rightharpoonup> nat)" where
  "inflight_dropped a m =
     (case m a of
        Some n \<Rightarrow> if 1 < n then m(a \<mapsto> n - 1) else m(a := None)
      | None \<Rightarrow> m)"

definition acquire_account_inflight :: "str \<Rightarrow> unit gateway" where
  "acquire_account_inflight a = modify (\<lambda>w. w\<lparr>gw_inflight := inflight_acquired a (gw_inflight w)\<rparr>)"

definition drop_account_inflight :: "str \<Rightarrow> unit gateway" where
  "drop_account_inflight a = modify (\<lambda>w. w\<lparr>gw_inflight := inflight_dropped a (gw_inflight w)\<rparr>)"

lemma inflight_count_acquired:
  "account_inflight_count (inflight_acquired a m) = (account_inflight_count m)(a := Suc (account_inflight_count m a))"
  by (auto simp: account_inflight_count_def inflight_acquired_def)

lemma inflight_count_dropped:
  "account_inflight_count (inflight_dropped a m) = (account_inflight_count m)(a := account_inflight_count m a - 1)"
  by (rule ext) (auto simp: account_inflight_count_def inflight_dropped_def split: option.split)

section \<open>What a computation may do\<close>

text \<open>
  \<open>spends eff k m Q\<close>: from every state, \<open>m\<close> stays within the grade \<open>k\<close> of the relation and
  returns a value with \<open>Q\<close>. The computations are total, so \<open>Q\<close> holds of a value that is returned.
\<close>

definition spends :: "(nat \<Rightarrow> 's \<Rightarrow> 's \<Rightarrow> bool) \<Rightarrow> nat \<Rightarrow> ('s, 'a) state \<Rightarrow> ('a \<Rightarrow> bool) \<Rightarrow> bool" where
  "spends eff k m Q \<longleftrightarrow> (\<forall>s. eff k s (snd (run_state m s)) \<and> Q (fst (run_state m s)))"

lemma run_state_bind [simp]:
  "run_state (State_Monad.bind m f) s = (case run_state m s of (x, s') \<Rightarrow> run_state (f x) s')"
  by (simp add: State_Monad.bind_def)

lemma run_state_return [simp]: "run_state (State_Monad.return x) s = (x, s)"
  by (simp add: State_Monad.return_def)

lemma run_basic [simp]:
  "run_state (gets f) s = (f s, s)"
  "run_state (modify g) s = ((), g s)"
  "run_state (ask h) w = (h (gw_tick w), w\<lparr>gw_tick := Suc (gw_tick w)\<rparr>)"
  "run_state (log_event e) w = ((), w\<lparr>gw_log := gw_log w @ [e]\<rparr>)"
  by (simp_all add: gets_def modify_def ask_def log_event_def)

locale graded_effects =
  fixes eff :: "nat \<Rightarrow> 's \<Rightarrow> 's \<Rightarrow> bool"
  assumes eff_refl: "eff 0 s s"
    and eff_trans: "eff m s t \<Longrightarrow> eff n t u \<Longrightarrow> eff (m + n) s u"
    and eff_mono: "eff m s t \<Longrightarrow> m \<le> n \<Longrightarrow> eff n s t"
begin

lemma spends_weaken: "spends eff k m P \<Longrightarrow> k \<le> n \<Longrightarrow> (\<And>x. P x \<Longrightarrow> Q x) \<Longrightarrow> spends eff n m Q"
  unfolding spends_def by (blast intro: eff_mono)

lemma spends_return: "Q x \<Longrightarrow> spends eff k (State_Monad.return x) Q"
  unfolding spends_def by (auto intro: eff_mono eff_refl)

lemma spends_bind:
  assumes "spends eff j m P" "j \<le> k" "\<And>x. P x \<Longrightarrow> spends eff (k - j) (f x) Q"
  shows "spends eff k (State_Monad.bind m f) Q"
  unfolding spends_def
proof
  fix s
  obtain x t where m: "run_state m s = (x, t)" by fastforce
  with assms(1) have "eff j s t" "P x" unfolding spends_def by (metis fst_conv snd_conv)+
  moreover from assms(3) [OF \<open>P x\<close>] have "eff (k - j) t (snd (run_state (f x) t))" "Q (fst (run_state (f x) t))"
    unfolding spends_def by blast+
  ultimately show "eff k s (snd (run_state (State_Monad.bind m f) s)) \<and> Q (fst (run_state (State_Monad.bind m f) s))"
    using eff_trans [of j s t "k - j"] assms(2) by (simp add: m)
qed

lemma spends_if:
  "(b \<Longrightarrow> spends eff k m Q) \<Longrightarrow> (\<not> b \<Longrightarrow> spends eff k n Q) \<Longrightarrow> spends eff k (if b then m else n) Q"
  by simp

lemma spends_option:
  "(v = None \<Longrightarrow> spends eff k m Q) \<Longrightarrow> (\<And>x. v = Some x \<Longrightarrow> spends eff k (f x) Q)
     \<Longrightarrow> spends eff k (case v of None \<Rightarrow> m | Some x \<Rightarrow> f x) Q"
  by (cases v) simp_all

lemma spends_sum:
  "(\<And>e. v = Inl e \<Longrightarrow> spends eff k (f e) Q) \<Longrightarrow> (\<And>x. v = Inr x \<Longrightarrow> spends eff k (g x) Q)
     \<Longrightarrow> spends eff k (case v of Inl e \<Rightarrow> f e | Inr x \<Rightarrow> g x) Q"
  by (cases v) simp_all

lemma spends_gets: "(\<And>s. Q (f s)) \<Longrightarrow> spends eff k (gets f) Q"
  unfolding spends_def by (auto intro: eff_mono eff_refl)

lemma spends_modify: "(\<And>s. eff k s (f s)) \<Longrightarrow> Q () \<Longrightarrow> spends eff k (modify f) Q"
  unfolding spends_def by auto

lemma spends_result: "spends eff k m Q \<Longrightarrow> run_state m s = (x, t) \<Longrightarrow> eff k s t \<and> Q x"
  unfolding spends_def by (metis fst_conv snd_conv)

lemma spends_run_if: "spends eff k m (\<lambda>_. True) \<Longrightarrow> spends eff k (run_if b m) (\<lambda>_. True)"
  unfolding run_if_def by (rule spends_if) (auto intro: spends_return)

lemma spends_discard: "spends eff k m Q \<Longrightarrow> spends eff k (discard m) (\<lambda>_. True)"
  by (simp add: spends_def discard_def case_prod_beta)

lemmas spends_steps = spends_run_if spends_discard spends_return spends_if spends_option spends_sum

end

subsection \<open>The effects of an attempt\<close>

text \<open>
  \<open>attempt_effects a k\<close>: the log only grows, by at most \<open>k\<close> requests to the upstream, all of them
  for the account \<open>a\<close> and with a bearer token; nobody answers the client, and the requests
  in flight and the conversation bindings stay as they are.
\<close>

fun is_send :: "event \<Rightarrow> bool" where
  "is_send (EvSend rq) = True"
| "is_send (EvFallback b a) = True"
| "is_send _ = False"

fun is_reply :: "event \<Rightarrow> bool" where
  "is_reply (EvRespond s m) = True"
| "is_reply (EvBridge a r) = True"
| "is_reply _ = False"

text \<open>A bearer token is there and carries no outer whitespace.\<close>

definition bearer_ok :: "str \<Rightarrow> bool" where
  "bearer_ok auth \<longleftrightarrow> auth \<noteq> [] \<and> trim auth = auth"

fun request_event_ok :: "str \<Rightarrow> event \<Rightarrow> bool" where
  "request_event_ok a (EvSend rq) \<longleftrightarrow> acc_id (sq_account rq) = a \<and> bearer_ok (sq_auth rq)"
| "request_event_ok a (EvFallback b i) \<longleftrightarrow> i = a"
| "request_event_ok a _ \<longleftrightarrow> True"

definition attempt_event :: "str \<Rightarrow> event \<Rightarrow> bool" where
  "attempt_event a e \<longleftrightarrow> request_event_ok a e \<and> \<not> is_reply e"

definition attempt_effects :: "str \<Rightarrow> nat \<Rightarrow> gateway_world \<Rightarrow> gateway_world \<Rightarrow> bool" where
  "attempt_effects a k w w' \<longleftrightarrow>
     (\<exists>es. gw_log w' = gw_log w @ es \<and> list_all (attempt_event a) es \<and> length (filter is_send es) \<le> k)
     \<and> gw_inflight w' = gw_inflight w \<and> gw_bindings w' = gw_bindings w \<and> gw_tick w \<le> gw_tick w'"

lemma attempt_effects_trans:
  assumes "attempt_effects a m s t" "attempt_effects a n t u"
  shows "attempt_effects a (m + n) s u"
proof -
  from assms obtain es fs where
    "gw_log t = gw_log s @ es" "list_all (attempt_event a) es" "length (filter is_send es) \<le> m"
    "gw_log u = gw_log t @ fs" "list_all (attempt_event a) fs" "length (filter is_send fs) \<le> n"
    unfolding attempt_effects_def by blast
  then show ?thesis using assms
    unfolding attempt_effects_def by (auto intro!: exI [of _ "es @ fs"])
qed

interpretation attempt: graded_effects "attempt_effects a" for a
proof
  show "attempt_effects a 0 s s" for s by (auto simp: attempt_effects_def)
  show "attempt_effects a m s t \<Longrightarrow> m \<le> n \<Longrightarrow> attempt_effects a n s t" for m n s t
    unfolding attempt_effects_def by (meson le_trans)
qed (rule attempt_effects_trans)

lemma spends_silent:
  assumes "\<And>s. gw_log (snd (run_state m s)) = gw_log s" "\<And>s. gw_inflight (snd (run_state m s)) = gw_inflight s"
    "\<And>s. gw_bindings (snd (run_state m s)) = gw_bindings s" "\<And>s. gw_tick s \<le> gw_tick (snd (run_state m s))"
  shows "spends (attempt_effects a) k m (\<lambda>_. True)"
  using assms by (auto simp: spends_def attempt_effects_def)

lemma spends_log:
  "request_event_ok a e \<Longrightarrow> \<not> is_reply e \<Longrightarrow> (if is_send e then 1 else 0) \<le> k
   \<Longrightarrow> spends (attempt_effects a) k (log_event e) (\<lambda>_. True)"
  by (auto simp: spends_def attempt_effects_def attempt_event_def split: if_splits)

lemma spends_ask: "spends (attempt_effects a) k (ask f) (\<lambda>_. True)"
  by (rule spends_silent) simp_all

text \<open>The actions, each with the number of requests it may send.\<close>

named_theorems spends_intros

lemma ask_spends [spends_intros]: "spends (attempt_effects a) 0 (ask f) (\<lambda>_. True)"
  by (rule spends_ask)

lemma gets_spends [spends_intros]: "spends (attempt_effects a) 0 (gets f) (\<lambda>_. True)"
  by (rule spends_silent) simp_all

lemma modify_spends:
  assumes "\<And>w. gw_log (f w) = gw_log w" "\<And>w. gw_inflight (f w) = gw_inflight w"
    "\<And>w. gw_bindings (f w) = gw_bindings w" "\<And>w. gw_tick (f w) = gw_tick w"
  shows "spends (attempt_effects a) 0 (modify f) (\<lambda>_. True)"
  by (rule spends_silent) (simp_all add: assms)

lemma log_event_spends [spends_intros]:
  "\<not> is_reply e \<Longrightarrow> request_event_ok a e \<Longrightarrow> \<not> is_send e \<Longrightarrow> spends (attempt_effects a) 0 (log_event e) (\<lambda>_. True)"
  by (rule spends_log) simp_all

lemma with_accounts_spends [spends_intros]: "spends (attempt_effects a) 0 (with_accounts f) (\<lambda>_. True)"
  by (rule spends_silent) (simp_all add: with_accounts_def split: prod.split)

lemma cooldown_mark_spends [spends_intros]: "spends (attempt_effects a) 0 (cooldown_mark env b r) (\<lambda>_. True)"
  unfolding cooldown_mark_def by (rule spends_silent) simp_all

lemma cooldown_mark_status_spends [spends_intros]:
  "spends (attempt_effects a) 0 (cooldown_mark_status env b s) (\<lambda>_. True)"
  unfolding cooldown_mark_status_def by (rule spends_silent) simp_all

lemma cooldown_clear_spends [spends_intros]: "spends (attempt_effects a) 0 (cooldown_clear b) (\<lambda>_. True)"
  unfolding cooldown_clear_def by (rule spends_silent) simp_all

lemma in_cooldown_spends [spends_intros]: "spends (attempt_effects a) 0 (in_cooldown env b) (\<lambda>_. True)"
  unfolding in_cooldown_def by (rule spends_silent) (simp_all split: prod.split)

lemma quality_record_status_spends [spends_intros]:
  "spends (attempt_effects a) 0 (quality_record_status env b s) (\<lambda>_. True)"
  unfolding quality_record_status_def by (rule spends_silent) simp_all

lemma deadline_expired_spends [spends_intros]:
  "spends (attempt_effects a) 0 (deadline_expired env d) (\<lambda>_. True)"
  unfolding deadline_expired_def by (rule spends_silent) simp_all

lemma jitter_sleep_spends [spends_intros]:
  "spends (attempt_effects a) 0 (jitter_sleep env base cap n d) (\<lambda>_. True)"
  unfolding jitter_sleep_def
  by (rule attempt.spends_bind spends_intros attempt.spends_steps | simp)+

lemma enqueue_usage_refresh_spends [spends_intros]:
  "spends (attempt_effects a) 0 (enqueue_usage_refresh b) (\<lambda>_. True)"
  unfolding enqueue_usage_refresh_def by (intro spends_intros) simp_all

lemma mark_unavailable_spends [spends_intros]:
  "spends (attempt_effects a) 0 (mark_unavailable_for_gateway_error env b err) (\<lambda>_. True)"
  "spends (attempt_effects a) 0 (mark_unavailable_for_refresh_error env b err) (\<lambda>_. True)"
  unfolding mark_unavailable_for_gateway_error_def mark_unavailable_for_refresh_error_def
  by (rule attempt.spends_bind spends_intros | simp)+

lemma send_upstream_spends [spends_intros]:
  "acc_id (sq_account rq) = a \<Longrightarrow> bearer_ok (sq_auth rq)
   \<Longrightarrow> spends (attempt_effects a) 1 (send_upstream env rq) (\<lambda>_. True)"
  by (auto simp: spends_def attempt_effects_def attempt_event_def send_upstream_def)

end
