(* ===== verification/Attempt_Flow.thy ===== *)
theory Attempt_Flow
  imports Gateway_World
begin

text \<open>
  One attempt at one candidate: \<^verbatim>\<open>upstream/support/outcome.rs\<close>, \<^verbatim>\<open>support/retry.rs\<close>,
  \<^verbatim>\<open>attempt_flow/*.rs\<close> and \<^verbatim>\<open>upstream/executor\<close>. Every function that sends,
  waits, marks or logs is a computation on \<^typ>\<open>gateway_world\<close>; debug and warning log lines are
  left out. Each has a lemma that bounds its requests and says when it may fail over.
\<close>

section \<open>The attempt and its log\<close>

text \<open>
  The arguments the functions of the attempt share; the client, the method and the debug flag are
  behind \<open>ge_send\<close>.
\<close>

record attempt_ctx =
  at_base :: str
  at_path :: str
  at_url :: str
  at_alt :: "str option"
  at_deadline :: "nat option"
  at_protocol :: str
  at_request_path :: str
  at_headers :: header_snapshot
  at_body :: str
  at_is_stream :: bool
  at_fallback_base :: "str option"
  at_account :: account
  at_strip :: bool
  at_allow_fallback :: bool
  at_disable_stateless :: bool
  at_has_more :: bool

abbreviation protocol_openai_compat :: str where "protocol_openai_compat \<equiv> ''openai_compat''"
abbreviation protocol_anthropic_native :: str where "protocol_anthropic_native \<equiv> ''anthropic_native''"
abbreviation protocol_gemini_native :: str where "protocol_gemini_native \<equiv> ''gemini_native''"

definition total_timeout :: str where "total_timeout = ''upstream total timeout exceeded''"

definition attempt_id :: "attempt_ctx \<Rightarrow> str" where
  "attempt_id c = acc_id (at_account c)"

definition request_for :: "attempt_ctx \<Rightarrow> str \<Rightarrow> str \<Rightarrow> bool \<Rightarrow> bool \<Rightarrow> send_request" where
  "request_for c url auth strip compressed =
     \<lparr>sq_url = url, sq_body = at_body c, sq_auth = auth, sq_account = at_account c, sq_strip = strip,
      sq_compressed = compressed, sq_headers = at_headers c\<rparr>"

text \<open>\<^verbatim>\<open>format!("{prefix}{err}")\<close> is concatenation.\<close>

definition log_gateway_result :: "gateway_env \<Rightarrow> str \<Rightarrow> str option \<Rightarrow> nat \<Rightarrow> str option \<Rightarrow> unit gateway" where
  "log_gateway_result env a url status err = do {
     modify (\<lambda>w. w\<lparr>gw_attempt_url := url, gw_attempt_error := err\<rparr>);
     quality_record_status env a status;
     log_event (EvAttempt a url status err) }"

lemma log_gateway_result_spends [spends_intros]:
  "spends (attempt_effects a) 0 (log_gateway_result env a url status err) (\<lambda>_. True)"
  unfolding log_gateway_result_def
  by (rule attempt.spends_bind modify_spends spends_intros | simp)+

section \<open>The outcome of a response\<close>

datatype upstream_decision = DecideFailover | DecideRespond

definition from_follow_up_action :: "follow_up \<Rightarrow> upstream_decision" where
  "from_follow_up_action f = (case f of FollowFailover \<Rightarrow> DecideFailover | FollowRespond \<Rightarrow> DecideRespond)"

text \<open>A database error is no snapshot; the local cache only saves the second query.\<close>

definition latest_cached_usage_snapshot :: "str \<Rightarrow> usage_snapshot option gateway" where
  "latest_cached_usage_snapshot a =
     gets (\<lambda>w. Option.bind (sql_ok (latest_usage_snapshot_for_account (gw_store w) a)) (\<lambda>x. x))"

definition low_quota_by_snapshot :: "gateway_env \<Rightarrow> usage_snapshot \<Rightarrow> bool gateway" where
  "low_quota_by_snapshot env u =
     State (\<lambda>w. (case should_failover_from_low_quota_snapshot_value (ge_process env) u (gw_selection w) of
                   (b, sl) \<Rightarrow> (b, w\<lparr>gw_selection := sl\<rparr>)))"

definition compact_low_quota :: "gateway_env \<Rightarrow> str \<Rightarrow> nat \<Rightarrow> str \<Rightarrow> bool gateway" where
  "compact_low_quota env a status url =
     (if is_official_openai_target url \<and> is_compact_target url \<and> 500 \<le> status \<and> status \<le> 599
      then do {
        u \<leftarrow> latest_cached_usage_snapshot a;
        (case u of None \<Rightarrow> State_Monad.return False | Some s \<Rightarrow> low_quota_by_snapshot env s) }
      else State_Monad.return False)"

definition failover_with :: "gateway_env \<Rightarrow> unit gateway \<Rightarrow> str \<Rightarrow> nat \<Rightarrow> str \<Rightarrow> str \<Rightarrow> bool \<Rightarrow> upstream_decision gateway" where
  "failover_with env mark a status url err has_more = do {
     mark;
     log_gateway_result env a (Some url) status (Some err);
     State_Monad.return (from_follow_up_action (follow_up_action True has_more)) }"

definition decide_account_exhausted :: "gateway_env \<Rightarrow> str \<Rightarrow> nat \<Rightarrow> str \<Rightarrow> bool \<Rightarrow> upstream_decision gateway" where
  "decide_account_exhausted env a status url has_more =
     (let official = is_official_openai_target url in do {
        enqueue_usage_refresh a;
        u \<leftarrow> latest_cached_usage_snapshot a;
        if (\<not> official \<or> status \<noteq> 401) \<and> should_failover_from_cached_snapshot_value u False
        then (if official
              then failover_with env (cooldown_mark env a CdDefault) a status url ''upstream account exhausted'' has_more
              else failover_with env (cooldown_mark_status env a status) a status url ''upstream non-success'' has_more)
        else do {
          log_gateway_result env a (Some url) status (Some ''upstream non-success'');
          State_Monad.return DecideRespond } })"

definition decide_custom_upstream :: "gateway_env \<Rightarrow> str \<Rightarrow> nat \<Rightarrow> str \<Rightarrow> bool \<Rightarrow> upstream_decision gateway" where
  "decide_custom_upstream env a status url has_more =
     (let mark = cooldown_mark_status env a status in
      case classify_custom_upstream_status status of
        NotFound \<Rightarrow>
          if has_more then failover_with env mark a status url ''upstream not-found failover'' has_more
          else decide_account_exhausted env a status url has_more
      | RateLimited \<Rightarrow> failover_with env mark a status url ''upstream rate-limited'' has_more
      | ServerError \<Rightarrow> failover_with env mark a status url ''upstream server error'' has_more
      | OtherStatus \<Rightarrow> decide_account_exhausted env a status url has_more)"

definition mark_and_refresh :: "gateway_env \<Rightarrow> str \<Rightarrow> nat \<Rightarrow> unit gateway" where
  "mark_and_refresh env a status = do { cooldown_mark_status env a status; enqueue_usage_refresh a }"

definition decide_upstream_outcome ::
    "gateway_env \<Rightarrow> str \<Rightarrow> nat \<Rightarrow> str option \<Rightarrow> str \<Rightarrow> bool \<Rightarrow> upstream_decision gateway" where
  "decide_upstream_outcome env a status content_type url has_more =
     (let official = is_official_openai_target url in
      if http_success status then do {
        cooldown_clear a;
        log_gateway_result env a (Some url) status None;
        State_Monad.return DecideRespond }
      else if is_upstream_challenge_response status content_type
      then failover_with env (cooldown_mark env a CdChallenge) a status url ''upstream challenge blocked'' has_more
      else if official \<and> status = 429
      then failover_with env (mark_and_refresh env a status) a status url ''upstream rate-limited'' has_more
      else do {
        low \<leftarrow> compact_low_quota env a status url;
        if low
        then failover_with env (mark_and_refresh env a status) a status url
               ''upstream compact low-quota server error'' has_more
        else if official \<and> status = 401 then do {
          log_gateway_result env a (Some url) status (Some ''upstream unauthorized'');
          State_Monad.return DecideRespond }
        else if official then decide_account_exhausted env a status url has_more
        else decide_custom_upstream env a status url has_more })"

lemma from_follow_up_failover [simp]:
  "from_follow_up_action (follow_up_action True has_more) = DecideFailover \<longleftrightarrow> has_more"
  by (simp add: from_follow_up_action_def follow_up_action_def)

lemma low_quota_by_snapshot_spends [spends_intros]:
  "spends (attempt_effects a) 0 (low_quota_by_snapshot env u) (\<lambda>_. True)"
  by (rule spends_silent) (simp_all add: low_quota_by_snapshot_def split: prod.split)

lemma compact_low_quota_spends [spends_intros]:
  "spends (attempt_effects a) 0 (compact_low_quota env b status url) (\<lambda>_. True)"
  unfolding compact_low_quota_def latest_cached_usage_snapshot_def
  by (rule attempt.spends_bind attempt.spends_steps spends_intros | simp)+

lemma mark_and_refresh_spends [spends_intros]:
  "spends (attempt_effects a) 0 (mark_and_refresh env a status) (\<lambda>_. True)"
  unfolding mark_and_refresh_def by (rule attempt.spends_bind spends_intros | simp)+

lemma failover_with_spends:
  "spends (attempt_effects a) 0 mark (\<lambda>_. True)
   \<Longrightarrow> spends (attempt_effects a) 0 (failover_with env mark a status url err has_more) (\<lambda>d. d = DecideFailover \<longrightarrow> has_more)"
  unfolding failover_with_def by (rule attempt.spends_bind attempt.spends_steps spends_intros | simp)+

lemma decide_account_exhausted_spends:
  "spends (attempt_effects a) 0 (decide_account_exhausted env a status url has_more) (\<lambda>d. d = DecideFailover \<longrightarrow> has_more)"
  unfolding decide_account_exhausted_def latest_cached_usage_snapshot_def Let_def
  by (rule attempt.spends_bind attempt.spends_steps spends_intros failover_with_spends | simp)+

lemma decide_custom_upstream_spends:
  "spends (attempt_effects a) 0 (decide_custom_upstream env a status url has_more) (\<lambda>d. d = DecideFailover \<longrightarrow> has_more)"
  unfolding decide_custom_upstream_def Let_def
  by (cases "classify_custom_upstream_status status"; simp only: custom_status.case)
     (rule attempt.spends_if failover_with_spends decide_account_exhausted_spends spends_intros)+

lemma decide_upstream_outcome_spends [spends_intros]:
  "spends (attempt_effects a) 0 (decide_upstream_outcome env a status content_type url has_more)
     (\<lambda>d. d = DecideFailover \<longrightarrow> has_more)"
  unfolding decide_upstream_outcome_def Let_def
  by (rule attempt.spends_bind attempt.spends_steps spends_intros failover_with_spends
      decide_account_exhausted_spends decide_custom_upstream_spends | simp)+

section \<open>Retries\<close>

text \<open>\<^verbatim>\<open>PrimaryAttemptResult\<close>, \<^verbatim>\<open>AltPathRetryResult\<close> and \<^verbatim>\<open>StatelessRetryResult\<close>.\<close>

datatype primary_result = PrimaryUpstream response | PrimaryFailover | PrimaryTerminal nat str

datatype alt_result = AltNotTriggered | AltUpstream response | AltFailover | AltTerminal nat str

datatype stateless_result = StatelessNotTriggered | StatelessUpstream response | StatelessTerminal nat str

definition value_contains_codex :: "str option \<Rightarrow> bool" where
  "value_contains_codex v =
     (case trimmed_nonempty v of None \<Rightarrow> False | Some s \<Rightarrow> str_contains (to_ascii_lowercase s) ''codex'')"

definition looks_like_native_codex_client :: "header_snapshot \<Rightarrow> bool" where
  "looks_like_native_codex_client h \<longleftrightarrow>
     value_contains_codex (hs_user_agent h) \<or> value_contains_codex (hs_originator h)
     \<or> hs_client_request_id h \<noteq> None \<or> hs_subagent h \<noteq> None \<or> hs_beta_features h \<noteq> None
     \<or> hs_window_id h \<noteq> None \<or> hs_turn_metadata h \<noteq> None \<or> hs_turn_state h \<noteq> None
     \<or> hs_parent_thread_id h \<noteq> None"

definition should_skip_codex_v1_alt_for_api_client :: "str \<Rightarrow> str \<Rightarrow> header_snapshot \<Rightarrow> str \<Rightarrow> bool" where
  "should_skip_codex_v1_alt_for_api_client protocol request_path headers alt_url \<longleftrightarrow>
     protocol = protocol_openai_compat \<and> str_starts_with request_path ''/v1/responses''
     \<and> str_contains (to_ascii_lowercase alt_url) ''/backend-api/codex/v1/''
     \<and> \<not> looks_like_native_codex_client headers"

definition alt_retry_applies :: "attempt_ctx \<Rightarrow> str \<Rightarrow> nat \<Rightarrow> bool" where
  "alt_retry_applies c alt_url status \<longleftrightarrow>
     status \<in> set [400, 404]
     \<and> \<not> should_skip_codex_v1_alt_for_api_client (at_protocol c) (at_request_path c) (at_headers c) alt_url"

definition retry_with_alternate_path :: "gateway_env \<Rightarrow> attempt_ctx \<Rightarrow> str \<Rightarrow> str \<Rightarrow> nat \<Rightarrow> alt_result gateway" where
  "retry_with_alternate_path env c auth alt_url status =
     (if \<not> alt_retry_applies c alt_url status then State_Monad.return AltNotTriggered
      else do {
        expired \<leftarrow> deadline_expired env (at_deadline c);
        if expired then State_Monad.return (AltTerminal 504 total_timeout)
        else do {
          slept \<leftarrow> jitter_sleep env (40 * ms) (200 * ms) 0 (at_deadline c);
          if \<not> slept then State_Monad.return (AltTerminal 504 total_timeout)
          else do {
            r \<leftarrow> send_upstream env (request_for c alt_url auth (at_strip c) True);
            (case r of
               Inr resp \<Rightarrow> State_Monad.return (AltUpstream resp)
             | Inl err \<Rightarrow> do {
                 cooldown_mark env (attempt_id c) CdNetwork;
                 log_gateway_result env (attempt_id c) (Some alt_url) 502 (Some err);
                 State_Monad.return (if at_has_more c then AltFailover
                         else AltTerminal 502 (''upstream error: '' @ err)) }) } } })"

definition should_trigger_stateless_retry :: "nat \<Rightarrow> bool \<Rightarrow> bool \<Rightarrow> bool" where
  "should_trigger_stateless_retry status strip disabled =
     (if strip then \<not> disabled \<and> status \<in> set [403, 429]
      else if disabled then status = 404
      else status \<in> set [403, 404, 429])"

definition stateless_alt_send :: "gateway_env \<Rightarrow> attempt_ctx \<Rightarrow> str \<Rightarrow> response \<Rightarrow> stateless_result gateway" where
  "stateless_alt_send env c auth resp =
     (case at_alt c of
        None \<Rightarrow> State_Monad.return (StatelessUpstream resp)
      | Some alt_url \<Rightarrow>
          if rs_status resp \<notin> set [400, 404] then State_Monad.return (StatelessUpstream resp)
          else do {
            slept \<leftarrow> jitter_sleep env (80 * ms) (500 * ms) 2 (at_deadline c);
            if \<not> slept then State_Monad.return (StatelessTerminal 504 total_timeout)
            else do {
              r \<leftarrow> send_upstream env (request_for c alt_url auth True True);
              State_Monad.return (StatelessUpstream (case r of Inr resp' \<Rightarrow> resp' | Inl _ \<Rightarrow> resp)) } })"

definition retry_stateless_then_optional_alt ::
    "gateway_env \<Rightarrow> attempt_ctx \<Rightarrow> str \<Rightarrow> nat \<Rightarrow> stateless_result gateway" where
  "retry_stateless_then_optional_alt env c auth status = do {
     expired \<leftarrow> deadline_expired env (at_deadline c);
     if expired then State_Monad.return (StatelessTerminal 504 total_timeout)
     else if \<not> should_trigger_stateless_retry status (at_strip c) (at_disable_stateless c)
     then State_Monad.return StatelessNotTriggered
     else do {
       slept \<leftarrow> (if status \<in> set [403, 429] then jitter_sleep env (120 * ms) (900 * ms) 1 (at_deadline c)
                else State_Monad.return True);
       if \<not> slept then State_Monad.return (StatelessTerminal 504 total_timeout)
       else do {
         r \<leftarrow> send_upstream env (request_for c (at_url c) auth True True);
         (case r of
            Inl _ \<Rightarrow> State_Monad.return StatelessNotTriggered
          | Inr resp \<Rightarrow> stateless_alt_send env c auth resp) } } }"

definition should_failover_transport_error :: "str \<Rightarrow> bool \<Rightarrow> bool" where
  "should_failover_transport_error url has_more \<longleftrightarrow>
     has_more \<and> (is_chatgpt_backend_base url \<or> \<not> is_official_openai_target url)"

definition run_primary_upstream_attempt :: "gateway_env \<Rightarrow> attempt_ctx \<Rightarrow> str \<Rightarrow> primary_result gateway" where
  "run_primary_upstream_attempt env c auth = do {
     expired \<leftarrow> deadline_expired env (at_deadline c);
     if expired then do {
       log_gateway_result env (attempt_id c) (Some (at_url c)) 504 (Some total_timeout);
       State_Monad.return (PrimaryTerminal 504 total_timeout) }
     else do {
       r \<leftarrow> send_upstream env (request_for c (at_url c) auth (at_strip c) True);
       (case r of
          Inr resp \<Rightarrow> State_Monad.return (PrimaryUpstream resp)
        | Inl err \<Rightarrow> do {
            cooldown_mark env (attempt_id c) CdNetwork;
            log_gateway_result env (attempt_id c) (Some (at_url c)) 502 (Some err);
            State_Monad.return (if should_failover_transport_error (at_url c) (at_has_more c) then PrimaryFailover
                    else PrimaryTerminal 502 (''upstream error: '' @ err)) }) } }"

lemma request_for_account [simp]: "acc_id (sq_account (request_for c url auth strip compressed)) = attempt_id c"
  by (simp add: request_for_def attempt_id_def)

lemma request_for_auth [simp]: "sq_auth (request_for c url auth strip compressed) = auth"
  by (simp add: request_for_def)

lemma retry_with_alternate_path_spends:
  "bearer_ok auth \<Longrightarrow> spends (attempt_effects (attempt_id c)) 1 (retry_with_alternate_path env c auth alt_url status)
     (\<lambda>r. r = AltFailover \<longrightarrow> at_has_more c)"
  unfolding retry_with_alternate_path_def
  by (rule attempt.spends_bind attempt.spends_steps spends_intros | simp)+

lemma stateless_alt_send_spends [spends_intros]:
  "bearer_ok auth \<Longrightarrow> spends (attempt_effects (attempt_id c)) 1 (stateless_alt_send env c auth resp) (\<lambda>_. True)"
  unfolding stateless_alt_send_def
  by (rule attempt.spends_bind attempt.spends_steps spends_intros | simp)+

lemma retry_stateless_spends:
  "bearer_ok auth \<Longrightarrow> spends (attempt_effects (attempt_id c)) 2 (retry_stateless_then_optional_alt env c auth status) (\<lambda>_. True)"
  unfolding retry_stateless_then_optional_alt_def
  by (rule attempt.spends_bind attempt.spends_steps attempt.spends_weaken [OF stateless_alt_send_spends]
      spends_intros | simp)+

lemma run_primary_spends:
  "bearer_ok auth \<Longrightarrow> spends (attempt_effects (attempt_id c)) 1 (run_primary_upstream_attempt env c auth)
     (\<lambda>r. r = PrimaryFailover \<longrightarrow> at_has_more c)"
  unfolding run_primary_upstream_attempt_def should_failover_transport_error_def
  by (rule attempt.spends_bind attempt.spends_steps spends_intros | simp)+

section \<open>The fallback to OpenAI's own API\<close>

datatype fallback_result = FallbackNotTriggered | FallbackRespond response | FallbackFailover | FallbackTerminal nat str

datatype openai_result = OpenAiUpstream response | OpenAiFailover | OpenAiTerminal nat str

definition try_fallback :: "gateway_env \<Rightarrow> attempt_ctx \<Rightarrow> str \<Rightarrow> (str + response option) gateway" where
  "try_fallback env c base = do {
     log_event (EvFallback base (attempt_id c));
     ask (\<lambda>n. ge_fallback env n base (request_for c base [] (at_strip c) False)) }"

definition should_failover_after_fallback_non_success :: "nat \<Rightarrow> bool \<Rightarrow> bool" where
  "should_failover_after_fallback_non_success status has_more \<longleftrightarrow>
     follow_up_action (failover_after_fallback_status status) has_more = FollowFailover"

text \<open>
  \<open>hint\<close> is the text of \<^verbatim>\<open>summarize_fallback_non_success\<close>, a log line made of headers and
  body.
\<close>

definition after_fallback_response ::
    "gateway_env \<Rightarrow> (response \<Rightarrow> str) \<Rightarrow> attempt_ctx \<Rightarrow> str \<Rightarrow> response \<Rightarrow> fallback_result gateway" where
  "after_fallback_response env hint c base resp =
     (if http_success (rs_status resp) then do {
        cooldown_clear (attempt_id c);
        log_gateway_result env (attempt_id c) (Some base) (rs_status resp) None;
        State_Monad.return (FallbackRespond resp) }
      else do {
        cooldown_mark_status env (attempt_id c) (rs_status resp);
        log_gateway_result env (attempt_id c) (Some base) (rs_status resp) (Some (hint resp));
        State_Monad.return (if should_failover_after_fallback_non_success (rs_status resp) (at_has_more c)
                then FallbackFailover else FallbackRespond resp) })"

definition fallback_failed :: "gateway_env \<Rightarrow> attempt_ctx \<Rightarrow> str \<Rightarrow> str \<Rightarrow> str \<Rightarrow> fallback_result gateway" where
  "fallback_failed env c base err message = do {
     cooldown_mark env (attempt_id c) CdNetwork;
     log_gateway_result env (attempt_id c) (Some base) 502 (Some err);
     State_Monad.return (if at_has_more c then FallbackFailover else FallbackTerminal 502 message) }"

definition handle_openai_fallback_branch ::
    "gateway_env \<Rightarrow> (response \<Rightarrow> str) \<Rightarrow> attempt_ctx \<Rightarrow> nat \<Rightarrow> str option \<Rightarrow> fallback_result gateway" where
  "handle_openai_fallback_branch env hint c status content_type =
     (case at_fallback_base c of
        None \<Rightarrow> State_Monad.return FallbackNotTriggered
      | Some base \<Rightarrow>
          if \<not> at_allow_fallback c
             \<or> \<not> (should_try_openai_fallback (at_base c) (at_path c) content_type
                  \<or> should_try_openai_fallback_by_status (at_base c) (at_path c) status)
          then State_Monad.return FallbackNotTriggered
          else do {
            r \<leftarrow> try_fallback env c base;
            (case r of
               Inl err \<Rightarrow> fallback_failed env c base err (''upstream fallback error: '' @ err)
             | Inr answer \<Rightarrow>
                 (case answer of
                    None \<Rightarrow> fallback_failed env c base ''upstream fallback unavailable'' ''upstream blocked by Cloudflare''
                  | Some resp \<Rightarrow> after_fallback_response env hint c base resp)) })"

definition openai_base_failed :: "gateway_env \<Rightarrow> attempt_ctx \<Rightarrow> str \<Rightarrow> str \<Rightarrow> openai_result gateway" where
  "openai_base_failed env c err message = do {
     cooldown_mark env (attempt_id c) CdNetwork;
     log_gateway_result env (attempt_id c) (Some (at_base c)) 502 (Some err);
     State_Monad.return (OpenAiTerminal 502 message) }"

definition handle_openai_base_attempt :: "gateway_env \<Rightarrow> attempt_ctx \<Rightarrow> openai_result gateway" where
  "handle_openai_base_attempt env c = do {
     r \<leftarrow> try_fallback env c (at_base c);
     (case r of
        Inl err \<Rightarrow> openai_base_failed env c err (''openai upstream error: '' @ err)
      | Inr answer \<Rightarrow>
          (case answer of
             None \<Rightarrow> openai_base_failed env c ''openai upstream unavailable'' ''openai upstream unavailable''
           | Some resp \<Rightarrow> do {
               d \<leftarrow> decide_upstream_outcome env (attempt_id c) (rs_status resp) (rs_content_type resp)
                      (at_base c) (at_has_more c);
               State_Monad.return (if d = DecideFailover then OpenAiFailover else OpenAiUpstream resp) })) }"

text \<open>As \<^verbatim>\<open>config.rs\<close> stands, no response starts the fallback: the branch is dead.\<close>

lemma fallback_branch_dead [simp]:
  "handle_openai_fallback_branch env hint c status content_type = State_Monad.return FallbackNotTriggered"
  by (simp add: handle_openai_fallback_branch_def should_try_openai_fallback_def
      should_try_openai_fallback_by_status_def split: option.split)

lemma try_fallback_spends [spends_intros]:
  "spends (attempt_effects (attempt_id c)) 1 (try_fallback env c base) (\<lambda>_. True)"
  by (auto simp: spends_def attempt_effects_def attempt_event_def try_fallback_def)

lemma openai_base_failed_spends [spends_intros]:
  "spends (attempt_effects (attempt_id c)) 0 (openai_base_failed env c err message) (\<lambda>r. r \<noteq> OpenAiFailover)"
  unfolding openai_base_failed_def
  by (rule attempt.spends_bind attempt.spends_steps spends_intros | simp)+

lemma handle_openai_base_attempt_spends:
  "spends (attempt_effects (attempt_id c)) 1 (handle_openai_base_attempt env c)
     (\<lambda>r. r = OpenAiFailover \<longrightarrow> at_has_more c)"
  unfolding handle_openai_base_attempt_def
  by (rule attempt.spends_bind attempt.spends_steps attempt.spends_weaken [OF openai_base_failed_spends]
      spends_intros | simp)+

section \<open>The first request\<close>

datatype primary_decision =
    PfContinue response str | PfRespond response | PfFailover | PfTerminal nat str

definition resolve_chatgpt_primary_bearer :: "token \<Rightarrow> str option" where
  "resolve_chatgpt_primary_bearer t = trimmed_nonempty (Some (tok_access_token t))"

definition run_primary_upstream_flow ::
    "gateway_env \<Rightarrow> (response \<Rightarrow> str) \<Rightarrow> attempt_ctx \<Rightarrow> primary_decision gateway" where
  "run_primary_upstream_flow env hint c = do {
     t \<leftarrow> gets gw_token;
     (case resolve_chatgpt_primary_bearer t of
        None \<Rightarrow> do {
          log_gateway_result env (attempt_id c) (Some (at_url c)) 401 (Some ''missing chatgpt access token'');
          State_Monad.return (PfTerminal 401 ''missing chatgpt access token'') }
      | Some auth \<Rightarrow> do {
          p \<leftarrow> run_primary_upstream_attempt env c auth;
          (case p of
             PrimaryFailover \<Rightarrow> State_Monad.return PfFailover
           | PrimaryTerminal status message \<Rightarrow> State_Monad.return (PfTerminal status message)
           | PrimaryUpstream resp \<Rightarrow> do {
               f \<leftarrow> handle_openai_fallback_branch env hint c (rs_status resp) (rs_content_type resp);
               State_Monad.return (case f of
                   FallbackNotTriggered \<Rightarrow> PfContinue resp auth
                 | FallbackRespond r \<Rightarrow> PfRespond r
                 | FallbackFailover \<Rightarrow> PfFailover
                 | FallbackTerminal status message \<Rightarrow> PfTerminal status message) }) }) }"

lemma spends_primary_result:
  "(\<And>resp. r = PrimaryUpstream resp \<Longrightarrow> spends eff k (f resp) Q)
   \<Longrightarrow> (r = PrimaryFailover \<Longrightarrow> spends eff k g Q)
   \<Longrightarrow> (\<And>s m. r = PrimaryTerminal s m \<Longrightarrow> spends eff k (h s m) Q)
   \<Longrightarrow> spends eff k (case r of PrimaryUpstream resp \<Rightarrow> f resp | PrimaryFailover \<Rightarrow> g | PrimaryTerminal s m \<Rightarrow> h s m) Q"
  by (cases r) simp_all

lemma primary_bearer_ok: "resolve_chatgpt_primary_bearer t = Some auth \<Longrightarrow> bearer_ok auth"
  unfolding resolve_chatgpt_primary_bearer_def bearer_ok_def by (rule trimmed_nonempty_SomeD)

lemma run_primary_upstream_flow_spends:
  "spends (attempt_effects (attempt_id c)) 1 (run_primary_upstream_flow env hint c)
     (\<lambda>r. (r = PfFailover \<longrightarrow> at_has_more c) \<and> (\<forall>resp auth. r = PfContinue resp auth \<longrightarrow> bearer_ok auth))"
  unfolding run_primary_upstream_flow_def fallback_branch_dead State_Monad.bind_left_identity fallback_result.case
  by (rule attempt.spends_bind attempt.spends_steps spends_primary_result run_primary_spends spends_intros
      | erule primary_bearer_ok | simp)+

section \<open>After the first response\<close>

datatype post_decision = PostFailover | PostTerminal nat str | PostRespond response

definition should_treat_as_challenge_for_retry :: "response \<Rightarrow> bool" where
  "should_treat_as_challenge_for_retry r \<longleftrightarrow>
     rs_status r \<in> set [401, 403]
     \<and> (is_upstream_challenge_response (rs_status r) (rs_content_type r) \<or> rs_cf_ray r \<noteq> None)"

definition should_failover_immediately_for_cloudflare :: "response \<Rightarrow> bool \<Rightarrow> bool" where
  "should_failover_immediately_for_cloudflare r has_more \<longleftrightarrow>
     has_more \<and> should_treat_as_challenge_for_retry r"

definition challenge_cooldown_reason :: "str \<Rightarrow> cooldown_reason" where
  "challenge_cooldown_reason protocol =
     (if protocol = protocol_anthropic_native then CdAnthropicChallenge else CdChallenge)"

definition refresh_token_in_hand :: "gateway_env \<Rightarrow> str \<Rightarrow> (str + unit) gateway" where
  "refresh_token_in_hand env issuer = do {
     peer \<leftarrow> ask (ge_refresh env);
     State (\<lambda>w. (case refresh_and_persist_access_token (ge_decoders env) peer issuer (ge_client_id env)
                    (token_refresh_ahead_secs (ge_process env)) (gw_token w)
                    \<lparr>tw_store = gw_store w, tw_schedule = gw_schedule w\<rparr> of
                 (r, t, tw) \<Rightarrow>
                   (r, w\<lparr>gw_token := t, gw_store := tw_store tw, gw_schedule := tw_schedule tw\<rparr>))) }"

definition try_refresh_chatgpt_access_token :: "gateway_env \<Rightarrow> attempt_ctx \<Rightarrow> (str + str option) gateway" where
  "try_refresh_chatgpt_access_token env c = do {
     t \<leftarrow> gets gw_token;
     if is_openai_api_base (at_base c) \<or> trim (tok_refresh_token t) = [] then State_Monad.return (Inr None)
     else do {
       r \<leftarrow> refresh_token_in_hand env
              (if trim (acc_issuer (at_account c)) = [] then ge_default_issuer env else acc_issuer (at_account c));
       t' \<leftarrow> gets gw_token;
       State_Monad.return (case r of
           Inl e \<Rightarrow> Inl e
         | Inr _ \<Rightarrow> (if trim (tok_access_token t') = [] then Inl ''refreshed chatgpt access token is empty''
                    else Inr (Some (trim (tok_access_token t'))))) } }"

definition unauthorized_refresh_retry ::
    "gateway_env \<Rightarrow> attempt_ctx \<Rightarrow> str \<Rightarrow> response \<Rightarrow> (response \<times> str) gateway" where
  "unauthorized_refresh_retry env c auth resp =
     (if rs_status resp \<noteq> 401 then State_Monad.return (resp, auth)
      else do {
        r \<leftarrow> try_refresh_chatgpt_access_token env c;
        (case r of
           Inl err \<Rightarrow> do {
             discard (mark_unavailable_for_refresh_error env (attempt_id c) err);
             State_Monad.return (resp, auth) }
         | Inr refreshed \<Rightarrow>
             (case refreshed of
                None \<Rightarrow> State_Monad.return (resp, auth)
              | Some auth' \<Rightarrow> do {
                  s \<leftarrow> send_upstream env (request_for c (at_url c) auth' (at_strip c) True);
                  State_Monad.return (case s of Inr resp' \<Rightarrow> resp' | Inl _ \<Rightarrow> resp, auth') })) })"

definition alternate_path_stage ::
    "gateway_env \<Rightarrow> attempt_ctx \<Rightarrow> str \<Rightarrow> response \<Rightarrow> (post_decision + response) gateway" where
  "alternate_path_stage env c auth resp =
     (case at_alt c of
        None \<Rightarrow> State_Monad.return (Inr resp)
      | Some alt_url \<Rightarrow> do {
          r \<leftarrow> retry_with_alternate_path env c auth alt_url (rs_status resp);
          State_Monad.return (case r of
              AltNotTriggered \<Rightarrow> Inr resp
            | AltUpstream resp' \<Rightarrow> Inr resp'
            | AltFailover \<Rightarrow> Inl PostFailover
            | AltTerminal status message \<Rightarrow> Inl (PostTerminal status message)) })"

definition retry_upstream_server_error_once ::
    "gateway_env \<Rightarrow> attempt_ctx \<Rightarrow> str \<Rightarrow> response \<Rightarrow> (post_decision + response) gateway" where
  "retry_upstream_server_error_once env c auth resp =
     (if rs_status resp \<noteq> 500 then State_Monad.return (Inr resp)
      else do {
        slept \<leftarrow> jitter_sleep env (120 * ms) (900 * ms) 1 (at_deadline c);
        if \<not> slept then State_Monad.return (Inl (PostTerminal 504 total_timeout))
        else do {
          s \<leftarrow> send_upstream env (request_for c (at_url c) auth (at_strip c) True);
          State_Monad.return (Inr (case s of Inr resp' \<Rightarrow> resp' | Inl _ \<Rightarrow> resp)) } })"

definition retry_chatgpt_challenge_without_compression ::
    "gateway_env \<Rightarrow> attempt_ctx \<Rightarrow> str \<Rightarrow> response \<Rightarrow> response gateway" where
  "retry_chatgpt_challenge_without_compression env c auth resp =
     (if is_chatgpt_backend_base (at_base c) \<and> at_is_stream c
         \<and> str_starts_with (at_request_path c) ''/v1/responses''
         \<and> should_treat_as_challenge_for_retry resp
      then do {
        s \<leftarrow> send_upstream env (request_for c (at_url c) auth (at_strip c) False);
        State_Monad.return (case s of
            Inr resp' \<Rightarrow> if http_success (rs_status resp') then resp' else resp
          | Inl _ \<Rightarrow> resp) }
      else State_Monad.return resp)"

definition stateless_stage ::
    "gateway_env \<Rightarrow> attempt_ctx \<Rightarrow> str \<Rightarrow> response \<Rightarrow> (post_decision + response) gateway" where
  "stateless_stage env c auth resp =
     (if is_chatgpt_backend_base (at_base c) \<or> should_treat_as_challenge_for_retry resp
      then State_Monad.return (Inr resp)
      else do {
        r \<leftarrow> retry_stateless_then_optional_alt env c auth (rs_status resp);
        State_Monad.return (case r of
            StatelessNotTriggered \<Rightarrow> Inr resp
          | StatelessUpstream resp' \<Rightarrow> Inr resp'
          | StatelessTerminal status message \<Rightarrow> Inl (PostTerminal status message)) })"

definition fallback_stage ::
    "gateway_env \<Rightarrow> (response \<Rightarrow> str) \<Rightarrow> attempt_ctx \<Rightarrow> response \<Rightarrow> (post_decision + response) gateway" where
  "fallback_stage env hint c resp =
     (if is_compact_path (at_path c) \<or> should_treat_as_challenge_for_retry resp
      then State_Monad.return (Inr resp)
      else do {
        f \<leftarrow> handle_openai_fallback_branch env hint c (rs_status resp) (rs_content_type resp);
        State_Monad.return (case f of
            FallbackNotTriggered \<Rightarrow> Inr resp
          | FallbackRespond r \<Rightarrow> Inl (PostRespond r)
          | FallbackFailover \<Rightarrow> Inl PostFailover
          | FallbackTerminal status message \<Rightarrow> Inl (PostTerminal status message)) })"

definition outcome_stage :: "gateway_env \<Rightarrow> attempt_ctx \<Rightarrow> response \<Rightarrow> post_decision gateway" where
  "outcome_stage env c resp = do {
     run_if (at_protocol c = protocol_anthropic_native \<and> should_treat_as_challenge_for_retry resp)
       (cooldown_mark env (attempt_id c) (challenge_cooldown_reason (at_protocol c)));
     d \<leftarrow> decide_upstream_outcome env (attempt_id c) (rs_status resp) (rs_content_type resp) (at_url c) (at_has_more c);
     State_Monad.return (if d = DecideFailover then PostFailover else PostRespond resp) }"

text \<open>A stage that decides ends the flow; otherwise the next one works on its response.\<close>

definition and_then ::
    "(post_decision + response) gateway \<Rightarrow> (response \<Rightarrow> post_decision gateway) \<Rightarrow> post_decision gateway" where
  "and_then stage rest = do {
     r \<leftarrow> stage;
     (case r of Inl d \<Rightarrow> State_Monad.return d | Inr resp \<Rightarrow> rest resp) }"

definition process_upstream_post_retry_flow ::
    "gateway_env \<Rightarrow> (response \<Rightarrow> str) \<Rightarrow> attempt_ctx \<Rightarrow> str \<Rightarrow> response \<Rightarrow> post_decision gateway" where
  "process_upstream_post_retry_flow env hint c auth0 resp0 =
     (if should_failover_immediately_for_cloudflare resp0 (at_has_more c) then do {
        cooldown_mark env (attempt_id c) (challenge_cooldown_reason (at_protocol c));
        log_gateway_result env (attempt_id c) (Some (at_url c)) (rs_status resp0) (Some ''upstream challenge blocked'');
        State_Monad.return PostFailover }
      else do {
        ra \<leftarrow> unauthorized_refresh_retry env c auth0 resp0;
        (let auth = snd ra in
           and_then (alternate_path_stage env c auth (fst ra)) (\<lambda>resp2.
           and_then (retry_upstream_server_error_once env c auth resp2) (\<lambda>resp3. do {
             resp4 \<leftarrow> retry_chatgpt_challenge_without_compression env c auth resp3;
             and_then (stateless_stage env c auth resp4) (\<lambda>resp5.
             and_then (fallback_stage env hint c resp5) (\<lambda>resp6.
               outcome_stage env c resp6)) }))) })"

lemma refresh_token_in_hand_spends [spends_intros]:
  "spends (attempt_effects a) 0 (refresh_token_in_hand env issuer) (\<lambda>_. True)"
  by (rule spends_silent) (simp_all add: refresh_token_in_hand_def split: prod.split)

lemma try_refresh_spends [spends_intros]:
  "spends (attempt_effects a) 0 (try_refresh_chatgpt_access_token env c) (\<lambda>r. \<forall>auth. r = Inr (Some auth) \<longrightarrow> bearer_ok auth)"
  unfolding try_refresh_chatgpt_access_token_def
  by (rule attempt.spends_bind attempt.spends_steps spends_intros
      | simp add: bearer_ok_def split: sum.split)+

lemma unauthorized_refresh_retry_spends [spends_intros]:
  "bearer_ok auth \<Longrightarrow> spends (attempt_effects (attempt_id c)) 1 (unauthorized_refresh_retry env c auth resp) (\<lambda>r. bearer_ok (snd r))"
  unfolding unauthorized_refresh_retry_def
  by (rule attempt.spends_bind attempt.spends_steps spends_intros | simp)+

text \<open>What a stage may decide: to fail over only when there is another candidate.\<close>

definition stage_ok :: "attempt_ctx \<Rightarrow> post_decision + response \<Rightarrow> bool" where
  "stage_ok c r \<longleftrightarrow> (r = Inl PostFailover \<longrightarrow> at_has_more c)"

lemma stage_ok_simps [simp]:
  "stage_ok c (Inr resp)" "stage_ok c (Inl (PostTerminal s m))" "stage_ok c (Inl (PostRespond resp))"
  "stage_ok c (Inl PostFailover) \<longleftrightarrow> at_has_more c"
  by (simp_all add: stage_ok_def)

lemma alternate_path_stage_spends:
  "bearer_ok auth \<Longrightarrow> spends (attempt_effects (attempt_id c)) 1 (alternate_path_stage env c auth resp) (stage_ok c)"
  unfolding alternate_path_stage_def
  by (rule attempt.spends_bind attempt.spends_steps retry_with_alternate_path_spends
      | simp split: alt_result.split)+

lemma server_error_retry_spends:
  "bearer_ok auth \<Longrightarrow> spends (attempt_effects (attempt_id c)) 1 (retry_upstream_server_error_once env c auth resp) (stage_ok c)"
  unfolding retry_upstream_server_error_once_def
  by (rule attempt.spends_bind attempt.spends_steps spends_intros | simp)+

text \<open>The challenge is retried at ChatGPT only, the stateless retry is made elsewhere only.\<close>

lemma challenge_retry_spends:
  "bearer_ok auth \<Longrightarrow> spends (attempt_effects (attempt_id c)) (if is_chatgpt_backend_base (at_base c) then 1 else 0)
     (retry_chatgpt_challenge_without_compression env c auth resp) (\<lambda>_. True)"
  unfolding retry_chatgpt_challenge_without_compression_def
  by (cases "is_chatgpt_backend_base (at_base c)"; simp only: if_True if_False simp_thms)
     (rule attempt.spends_bind attempt.spends_steps spends_intros | simp)+

lemma stateless_stage_spends:
  "bearer_ok auth \<Longrightarrow> spends (attempt_effects (attempt_id c)) (if is_chatgpt_backend_base (at_base c) then 0 else 2)
     (stateless_stage env c auth resp) (stage_ok c)"
  unfolding stateless_stage_def
  by (cases "is_chatgpt_backend_base (at_base c)"; simp only: if_True if_False simp_thms)
     (rule attempt.spends_bind attempt.spends_steps retry_stateless_spends
      | simp split: stateless_result.split)+

lemma fallback_stage_spends:
  "spends (attempt_effects (attempt_id c)) 0 (fallback_stage env hint c resp) (stage_ok c)"
  unfolding fallback_stage_def fallback_branch_dead State_Monad.bind_left_identity fallback_result.case
  by (rule attempt.spends_steps | simp)+

lemma outcome_stage_spends:
  "spends (attempt_effects (attempt_id c)) 0 (outcome_stage env c resp) (\<lambda>d. d = PostFailover \<longrightarrow> at_has_more c)"
  unfolding outcome_stage_def
  by (rule attempt.spends_bind attempt.spends_steps spends_intros | simp)+

lemma and_then_spends:
  assumes "spends (attempt_effects a) j stage (stage_ok c)" "j \<le> k"
    "\<And>resp. spends (attempt_effects a) (k - j) (rest resp) (\<lambda>d. d = PostFailover \<longrightarrow> at_has_more c)"
  shows "spends (attempt_effects a) k (and_then stage rest) (\<lambda>d. d = PostFailover \<longrightarrow> at_has_more c)"
  unfolding and_then_def
  by (rule attempt.spends_bind [OF assms(1,2)], rule attempt.spends_sum)
     (auto intro: attempt.spends_return assms(3) simp: stage_ok_def)

lemma post_retry_flow_spends:
  "bearer_ok auth \<Longrightarrow> spends (attempt_effects (attempt_id c)) 5 (process_upstream_post_retry_flow env hint c auth resp)
     (\<lambda>d. d = PostFailover \<longrightarrow> at_has_more c)"
  unfolding process_upstream_post_retry_flow_def should_failover_immediately_for_cloudflare_def Let_def
  by (rule and_then_spends attempt.spends_bind attempt.spends_steps alternate_path_stage_spends
      server_error_retry_spends challenge_retry_spends stateless_stage_spends fallback_stage_spends
      attempt.spends_weaken [OF outcome_stage_spends] spends_intros | simp)+

section \<open>The executor\<close>

datatype executor_kind = ExecCodexResponses | ExecClaude | ExecGemini

datatype route_kind = RouteAccountRotation | RouteAggregateApi | RouteHybridAccountFirst

record execution_plan =
  xp_executor :: executor_kind
  xp_route :: route_kind

definition resolve_gateway_upstream_executor_kind :: "str \<Rightarrow> executor_kind" where
  "resolve_gateway_upstream_executor_kind protocol =
     (if protocol = protocol_anthropic_native then ExecClaude
      else if protocol = protocol_gemini_native then ExecGemini
      else ExecCodexResponses)"

definition resolve_gateway_upstream_execution_plan :: "str \<Rightarrow> str \<Rightarrow> execution_plan" where
  "resolve_gateway_upstream_execution_plan protocol rotation =
     \<lparr>xp_executor = resolve_gateway_upstream_executor_kind protocol,
      xp_route = (if rotation = ''aggregate_api_rotation'' then RouteAggregateApi
                  else if rotation = ''hybrid_rotation'' then RouteHybridAccountFirst
                  else RouteAccountRotation)\<rparr>"

datatype candidate_decision = CandRespond response | CandFailover | CandTerminal nat str

fun candidate_decision_of_post :: "post_decision \<Rightarrow> candidate_decision" where
  "candidate_decision_of_post PostFailover = CandFailover"
| "candidate_decision_of_post (PostTerminal status message) = CandTerminal status message"
| "candidate_decision_of_post (PostRespond resp) = CandRespond resp"

definition execute_openai_base :: "gateway_env \<Rightarrow> attempt_ctx \<Rightarrow> candidate_decision gateway" where
  "execute_openai_base env c = do {
     r \<leftarrow> handle_openai_base_attempt env c;
     State_Monad.return (case r of
         OpenAiUpstream resp \<Rightarrow> CandRespond resp
       | OpenAiFailover \<Rightarrow> CandFailover
       | OpenAiTerminal status message \<Rightarrow> CandTerminal status message) }"

definition execute_codex :: "gateway_env \<Rightarrow> (response \<Rightarrow> str) \<Rightarrow> attempt_ctx \<Rightarrow> candidate_decision gateway" where
  "execute_codex env hint c = do {
     expired \<leftarrow> deadline_expired env (at_deadline c);
     if expired then State_Monad.return (CandTerminal 504 total_timeout)
     else if is_openai_api_base (at_base c) then execute_openai_base env c
     else do {
       p \<leftarrow> run_primary_upstream_flow env hint c;
       (case p of
          PfRespond resp \<Rightarrow> State_Monad.return (CandRespond resp)
        | PfFailover \<Rightarrow> State_Monad.return CandFailover
        | PfTerminal status message \<Rightarrow> State_Monad.return (CandTerminal status message)
        | PfContinue resp auth \<Rightarrow> do {
            d \<leftarrow> process_upstream_post_retry_flow env hint c auth resp;
            State_Monad.return (candidate_decision_of_post d) }) } }"

text \<open>The Claude and Gemini executors hand over to the Codex one.\<close>

fun execute_candidate_upstream_flow ::
    "executor_kind \<Rightarrow> gateway_env \<Rightarrow> (response \<Rightarrow> str) \<Rightarrow> attempt_ctx \<Rightarrow> candidate_decision gateway" where
  "execute_candidate_upstream_flow ExecCodexResponses env hint c = execute_codex env hint c"
| "execute_candidate_upstream_flow ExecClaude env hint c = execute_codex env hint c"
| "execute_candidate_upstream_flow ExecGemini env hint c = execute_codex env hint c"

text \<open>\<^verbatim>\<open>run_candidate_attempt\<close>; its closure writes \<open>gw_attempt_url\<close> and \<open>gw_attempt_error\<close>.\<close>

definition run_candidate_attempt :: "gateway_env \<Rightarrow> (response \<Rightarrow> str) \<Rightarrow> attempt_ctx \<Rightarrow> candidate_decision gateway" where
  "run_candidate_attempt env hint c =
     execute_candidate_upstream_flow (resolve_gateway_upstream_executor_kind (at_protocol c)) env hint c"

lemma execute_flow_codex [simp]: "execute_candidate_upstream_flow k env hint c = execute_codex env hint c"
  by (cases k) simp_all

lemma candidate_decision_failover [simp]: "candidate_decision_of_post d = CandFailover \<longleftrightarrow> d = PostFailover"
  by (cases d) simp_all

lemma spends_primary_decision:
  "(\<And>resp auth. r = PfContinue resp auth \<Longrightarrow> spends eff k (f resp auth) Q)
   \<Longrightarrow> (\<And>resp. r = PfRespond resp \<Longrightarrow> spends eff k (g resp) Q)
   \<Longrightarrow> (r = PfFailover \<Longrightarrow> spends eff k h Q)
   \<Longrightarrow> (\<And>s m. r = PfTerminal s m \<Longrightarrow> spends eff k (t s m) Q)
   \<Longrightarrow> spends eff k (case r of PfContinue resp auth \<Rightarrow> f resp auth | PfRespond resp \<Rightarrow> g resp
         | PfFailover \<Rightarrow> h | PfTerminal s m \<Rightarrow> t s m) Q"
  by (cases r) simp_all

lemma execute_openai_base_spends:
  "spends (attempt_effects (attempt_id c)) 1 (execute_openai_base env c) (\<lambda>d. d = CandFailover \<longrightarrow> at_has_more c)"
  unfolding execute_openai_base_def
  by (rule attempt.spends_bind attempt.spends_steps handle_openai_base_attempt_spends
      | simp split: openai_result.split)+

lemma execute_codex_spends:
  "spends (attempt_effects (attempt_id c)) 6 (execute_codex env hint c) (\<lambda>d. d = CandFailover \<longrightarrow> at_has_more c)"
  unfolding execute_codex_def
  by (rule attempt.spends_bind attempt.spends_steps spends_primary_decision run_primary_upstream_flow_spends
      attempt.spends_weaken [OF execute_openai_base_spends] attempt.spends_weaken [OF post_retry_flow_spends]
      spends_intros post_retry_flow_spends | simp)+

lemma run_candidate_attempt_spends:
  "spends (attempt_effects (attempt_id c)) 6 (run_candidate_attempt env hint c) (\<lambda>d. d = CandFailover \<longrightarrow> at_has_more c)"
  by (simp add: run_candidate_attempt_def execute_codex_spends)

end
