(* ===== verification/Candidate_Body.thy ===== *)
theory Candidate_Body
  imports Gateway_World
begin

text \<open>
  \<^verbatim>\<open>proxy_pipeline/request_setup.rs\<close> (its record) and
  \<^verbatim>\<open>proxy_pipeline/candidate_state.rs\<close>: the request body each candidate is sent, with the
  caches that keep it from being rewritten again for every candidate. The rewriting itself
  (\<^verbatim>\<open>request_rewrite.rs\<close>) is a parameter.
\<close>

record request_setup =
  su_upstream_base :: str
  su_fallback_base :: "str option"
  su_url :: str
  su_url_alt :: "str option"
  su_candidate_count :: nat
  su_max_inflight :: nat
  su_anthropic_has_anchor :: bool
  su_sticky_session :: bool
  su_sticky_conversation :: bool
  su_encrypted :: bool
  su_routing :: "routing_context option"
  su_strategy_label :: str
  su_source_label :: str

text \<open>
  The two rewriting functions (with a forced prompt cache key, and without), as functions of the
  path, the body, the model override, the upstream base and the key; with the JSON reader and
  printer.
\<close>

record body_tools =
  bw_forced :: "str \<Rightarrow> str \<Rightarrow> str option \<Rightarrow> str \<Rightarrow> str option \<Rightarrow> str"
  bw_plain :: "str \<Rightarrow> str \<Rightarrow> str option \<Rightarrow> str \<Rightarrow> str option \<Rightarrow> str"
  bw_parse :: "str \<Rightarrow> json option"
  bw_print :: "json \<Rightarrow> str option"

record candidate_state =
  cs_stripped :: "str option"
  cs_rewritten :: "str \<rightharpoonup> str"
  cs_stripped_rewritten :: "str \<rightharpoonup> str"
  cs_first_scope :: "str option"

definition initial_candidate_state :: candidate_state where
  "initial_candidate_state = \<lparr>cs_stripped = None, cs_rewritten = Map.empty,
     cs_stripped_rewritten = Map.empty, cs_first_scope = None\<rparr>"

definition existing_prompt_cache_key :: "body_tools \<Rightarrow> str \<Rightarrow> str option" where
  "existing_prompt_cache_key tools body =
     bind_opt (bw_parse tools body) (\<lambda>v. trimmed_nonempty (json_get_str v ''prompt_cache_key''))"

definition rewrite_cache_key :: "str option \<Rightarrow> str option \<Rightarrow> str option" where
  "rewrite_cache_key model key =
     (let m = trimmed_nonempty model; k = trimmed_nonempty key
      in if m = None \<and> k = None then None
         else Some (''model='' @ unwrap_or m ''-'' @ ''|thread='' @ unwrap_or k ''-''))"

section \<open>Session affinity\<close>

definition candidate_scope :: "account \<Rightarrow> str option" where
  "candidate_scope a =
     or_else (trimmed_nonempty (acc_chatgpt_account_id a)) (trimmed_nonempty (acc_workspace_id a))"

definition strip_session_affinity ::
    "account \<Rightarrow> nat \<Rightarrow> bool \<Rightarrow> candidate_state \<Rightarrow> bool \<times> candidate_state" where
  "strip_session_affinity a idx has_anchor s =
     (if \<not> has_anchor then (0 < idx, s)
      else if idx = 0 then (False, s\<lparr>cs_first_scope := candidate_scope a\<rparr>)
      else (candidate_scope a \<noteq> cs_first_scope s, s))"

section \<open>Bodies\<close>

text \<open>What \<^verbatim>\<open>rewrite_body_for_model\<close> computes for an entry it does not hold.\<close>

definition rewritten_body :: "body_tools \<Rightarrow> str \<Rightarrow> str \<Rightarrow> request_setup \<Rightarrow> str option \<Rightarrow> str option \<Rightarrow> str" where
  "rewritten_body tools path body setup model effective =
     (let anchored = su_sticky_session setup \<or> su_sticky_conversation setup \<or> su_routing setup \<noteq> None;
          forced = (effective \<noteq> None \<and> anchored)
      in if forced then bw_forced tools path body model (su_upstream_base setup) effective
         else bw_plain tools path body model (su_upstream_base setup) None)"

definition rewrite_body_for_model ::
    "body_tools \<Rightarrow> str \<Rightarrow> str \<Rightarrow> request_setup \<Rightarrow> str option \<Rightarrow> str option \<Rightarrow> candidate_state
       \<Rightarrow> str \<times> candidate_state" where
  "rewrite_body_for_model tools path body setup model key s =
     (let effective = or_else (existing_prompt_cache_key tools body) key
      in (case rewrite_cache_key model effective of
            None \<Rightarrow> (body, s)
          | Some k \<Rightarrow>
              (case cs_rewritten s k of
                 Some b \<Rightarrow> (b, s)
               | None \<Rightarrow>
                   (let b = rewritten_body tools path body setup model effective
                    in (b, s\<lparr>cs_rewritten := (cs_rewritten s)(k \<mapsto> b)\<rparr>)))))"

definition stripped_of :: "body_tools \<Rightarrow> str \<Rightarrow> str" where
  "stripped_of tools b = unwrap_or (strip_encrypted_content_from_body (bw_parse tools) (bw_print tools) b) b"

definition stripped_body_for ::
    "body_tools \<Rightarrow> str option \<Rightarrow> str option \<Rightarrow> str \<Rightarrow> candidate_state \<Rightarrow> str \<times> candidate_state" where
  "stripped_body_for tools model key rewritten s =
     (case rewrite_cache_key model key of
        Some k \<Rightarrow>
          (case cs_stripped_rewritten s k of
             Some b \<Rightarrow> (b, s)
           | None \<Rightarrow>
               (let b = stripped_of tools rewritten
                in (b, s\<lparr>cs_stripped_rewritten := (cs_stripped_rewritten s)(k \<mapsto> b)\<rparr>)))
      | None \<Rightarrow>
          (case cs_stripped s of
             Some b \<Rightarrow> (b, s)
           | None \<Rightarrow> (let b = stripped_of tools rewritten in (b, s\<lparr>cs_stripped := Some b\<rparr>))))"

definition body_for_attempt ::
    "body_tools \<Rightarrow> str \<Rightarrow> str \<Rightarrow> bool \<Rightarrow> request_setup \<Rightarrow> str option \<Rightarrow> str option \<Rightarrow> candidate_state
       \<Rightarrow> str \<times> candidate_state" where
  "body_for_attempt tools path body strip setup model key s0 =
     (let (rewritten, s) = rewrite_body_for_model tools path body setup model key s0
      in if strip \<and> su_encrypted setup then stripped_body_for tools model key rewritten s
         else (rewritten, s))"

definition retry_body ::
    "body_tools \<Rightarrow> str \<Rightarrow> str \<Rightarrow> request_setup \<Rightarrow> str option \<Rightarrow> str option \<Rightarrow> candidate_state
       \<Rightarrow> str \<times> candidate_state" where
  "retry_body tools path body setup model key s0 =
     (let (rewritten, s) = rewrite_body_for_model tools path body setup model key s0
      in if su_encrypted setup then stripped_body_for tools model key rewritten s
         else (rewritten, s))"

section \<open>The caches are transparent\<close>

text \<open>
  The body an attempt should get, computed afresh: the thread's prompt cache key unless the client
  sent one, and the encrypted content removed when the session is given up.
\<close>

definition attempt_body :: "body_tools \<Rightarrow> str \<Rightarrow> str \<Rightarrow> bool \<Rightarrow> request_setup \<Rightarrow> str option \<Rightarrow> str" where
  "attempt_body tools path body strip setup key =
     (let effective = or_else (existing_prompt_cache_key tools body) key;
          rewritten = (if trimmed_nonempty effective = None then body
                       else rewritten_body tools path body setup None effective)
      in if strip \<and> su_encrypted setup then stripped_of tools rewritten else rewritten)"

text \<open>A key is clean when it is absent or trimmed and not empty: then cache keys tell keys apart.\<close>

definition clean_key :: "str option \<Rightarrow> bool" where
  "clean_key key \<longleftrightarrow> key = trimmed_nonempty key"

text \<open>One attempt's question to the caches: with or without the session, first or retry.\<close>

record body_ask =
  ba_strip :: bool
  ba_retry :: bool
  ba_key :: "str option"

definition ask_body ::
    "body_tools \<Rightarrow> str \<Rightarrow> str \<Rightarrow> request_setup \<Rightarrow> body_ask \<Rightarrow> candidate_state \<Rightarrow> str \<times> candidate_state" where
  "ask_body tools path body setup q s =
     (if ba_retry q then retry_body tools path body setup None (ba_key q) s
      else body_for_attempt tools path body (ba_strip q) setup None (ba_key q) s)"

fun ask_bodies ::
    "body_tools \<Rightarrow> str \<Rightarrow> str \<Rightarrow> request_setup \<Rightarrow> body_ask list \<Rightarrow> candidate_state \<Rightarrow> str list" where
  "ask_bodies tools path body setup [] s = []"
| "ask_bodies tools path body setup (q # qs) s =
     (case ask_body tools path body setup q s of
        (b, s') \<Rightarrow> b # ask_bodies tools path body setup qs s')"

definition thread_key :: "str \<Rightarrow> str" where
  "thread_key k = ''model=-|thread='' @ k"

lemma thread_key_inject [simp]: "thread_key k = thread_key l \<longleftrightarrow> k = l"
  by (simp add: thread_key_def)

text \<open>
  What the caches may hold for a path, a body and a setup: the rewriting under every clean key,
  the stripped rewriting under every clean key, and the stripped body of the keyless attempt.
\<close>

definition caches_ok :: "body_tools \<Rightarrow> str \<Rightarrow> str \<Rightarrow> request_setup \<Rightarrow> candidate_state \<Rightarrow> bool" where
  "caches_ok tools path body setup s \<longleftrightarrow>
     (\<forall>k b. cs_rewritten s (thread_key k) = Some b \<longrightarrow> clean_key (Some k)
        \<longrightarrow> b = rewritten_body tools path body setup None (Some k))
     \<and> (\<forall>k b. cs_stripped_rewritten s (thread_key k) = Some b \<longrightarrow> clean_key (Some k)
        \<longrightarrow> b = stripped_of tools (attempt_body tools path body False setup (Some k)))
     \<and> (\<forall>b. cs_stripped s = Some b \<longrightarrow> b = stripped_of tools (attempt_body tools path body False setup None))"

lemma rewrite_cache_key_clean:
  "clean_key key \<Longrightarrow> rewrite_cache_key None key = map_option thread_key key"
  by (cases key) (auto simp: rewrite_cache_key_def thread_key_def clean_key_def Let_def trimmed_nonempty_def split: if_splits)

lemma clean_key_trimmed [simp]: "clean_key (trimmed_nonempty v)"
  by (simp add: clean_key_def)

lemma clean_existing [simp]: "clean_key (existing_prompt_cache_key tools body)"
  by (cases "bw_parse tools body") (simp_all add: existing_prompt_cache_key_def clean_key_def)

lemma clean_effective: "clean_key key \<Longrightarrow> clean_key (or_else (existing_prompt_cache_key tools body) key)"
  using clean_existing [of tools body]
  by (cases "existing_prompt_cache_key tools body") simp_all

lemma clean_key_None [simp]: "clean_key None"
  by (simp add: clean_key_def)

lemma clean_key_SomeD: "clean_key (Some k) \<Longrightarrow> trimmed_nonempty (Some k) = Some k"
  by (simp add: clean_key_def)

lemma rewrite_body_cached:
  assumes "caches_ok tools path body setup s" "clean_key key"
    "rewrite_body_for_model tools path body setup None key s = (b, s')"
  shows "b = attempt_body tools path body False setup key \<and> caches_ok tools path body setup s'"
proof (cases "or_else (existing_prompt_cache_key tools body) key")
  case None
  with assms show ?thesis
    by (simp add: rewrite_body_for_model_def attempt_body_def rewrite_cache_key_def Let_def)
next
  case (Some k)
  have clean: "clean_key (Some k)" using clean_effective [OF assms(2), of tools body] Some by simp
  have key: "rewrite_cache_key None (Some k) = Some (thread_key k)"
    using rewrite_cache_key_clean [OF clean] by simp
  have fresh: "attempt_body tools path body False setup key = rewritten_body tools path body setup None (Some k)"
    using Some clean_key_SomeD [OF clean] by (simp add: attempt_body_def Let_def)
  show ?thesis
  proof (cases "cs_rewritten s (thread_key k)")
    case None
    with assms(3) Some key fresh assms(1) show ?thesis
      by (auto simp: rewrite_body_for_model_def Let_def caches_ok_def split: if_splits)
  next
    case (Some b')
    with assms(1) clean have "b' = rewritten_body tools path body setup None (Some k)"
      unfolding caches_ok_def by blast
    with assms(3,1) Some \<open>or_else _ _ = Some k\<close> key fresh show ?thesis
      by (simp add: rewrite_body_for_model_def Let_def)
  qed
qed

lemma stripped_body_cached:
  assumes "caches_ok tools path body setup s" "clean_key key"
    "stripped_body_for tools None key (attempt_body tools path body False setup key) s = (b, s')"
  shows "b = stripped_of tools (attempt_body tools path body False setup key) \<and> caches_ok tools path body setup s'"
proof (cases key)
  case None
  with assms show ?thesis
    by (auto simp: stripped_body_for_def rewrite_cache_key_def Let_def caches_ok_def split: option.splits)
next
  case (Some k)
  have key: "rewrite_cache_key None key = Some (thread_key k)"
    using rewrite_cache_key_clean [OF assms(2)] Some by simp
  show ?thesis
  proof (cases "cs_stripped_rewritten s (thread_key k)")
    case None
    with assms(1,3) Some key show ?thesis
      by (auto simp: stripped_body_for_def Let_def caches_ok_def split: if_splits)
  next
    case (Some b')
    with assms(1,2) \<open>key = Some k\<close> have "b' = stripped_of tools (attempt_body tools path body False setup (Some k))"
      unfolding caches_ok_def by blast
    with assms(1,3) Some key \<open>key = Some k\<close> show ?thesis by (simp add: stripped_body_for_def)
  qed
qed

lemma attempt_body_strip:
  "attempt_body tools path body strip setup key =
     (if strip \<and> su_encrypted setup then stripped_of tools (attempt_body tools path body False setup key)
      else attempt_body tools path body False setup key)"
  by (simp add: attempt_body_def Let_def)

lemma ask_body_cached:
  assumes "caches_ok tools path body setup s" "clean_key (ba_key q)"
    "ask_body tools path body setup q s = (b, s')"
  shows "b = attempt_body tools path body (ba_retry q \<or> ba_strip q) setup (ba_key q)
    \<and> caches_ok tools path body setup s'"
proof -
  obtain r s1 where r: "rewrite_body_for_model tools path body setup None (ba_key q) s = (r, s1)"
    by fastforce
  from rewrite_body_cached [OF assms(1,2) r]
  have fresh: "r = attempt_body tools path body False setup (ba_key q)" and ok: "caches_ok tools path body setup s1"
    by simp_all
  show ?thesis
  proof (cases "(ba_retry q \<or> ba_strip q) \<and> su_encrypted setup")
    case True
    then have "stripped_body_for tools None (ba_key q) r s1 = (b, s')"
      using assms(3) r by (auto simp: ask_body_def retry_body_def body_for_attempt_def split: if_splits)
    from stripped_body_cached [OF ok assms(2) this [unfolded fresh]] True show ?thesis
      by (simp add: attempt_body_strip [of _ _ _ True])
  next
    case False
    then have "b = r \<and> s' = s1"
      using assms(3) r by (auto simp: ask_body_def retry_body_def body_for_attempt_def split: if_splits)
    with False fresh ok show ?thesis
      by (auto simp: attempt_body_strip [of _ _ _ "ba_retry q \<or> ba_strip q"])
  qed
qed

lemma ask_bodies_cached:
  "caches_ok tools path body setup s \<Longrightarrow> list_all (\<lambda>q. clean_key (ba_key q)) qs
   \<Longrightarrow> ask_bodies tools path body setup qs s
     = map (\<lambda>q. attempt_body tools path body (ba_retry q \<or> ba_strip q) setup (ba_key q)) qs"
proof (induction qs arbitrary: s)
  case (Cons q qs)
  obtain b s' where "ask_body tools path body setup q s = (b, s')" by fastforce
  with Cons ask_body_cached [of tools path body "setup" s q b s'] show ?case by simp
qed simp


definition demo_tools :: body_tools where
  "demo_tools = \<lparr>bw_forced = (\<lambda>path body model base key. body @ unwrap_or key ''-''),
     bw_plain = (\<lambda>path body model base key. body @ ''.''), bw_parse = (\<lambda>_. None), bw_print = (\<lambda>_. None)\<rparr>"

definition demo_setup :: request_setup where
  "demo_setup = \<lparr>su_upstream_base = ''https://up'', su_fallback_base = None, su_url = ''https://up/v1/responses'',
     su_url_alt = None, su_candidate_count = 2, su_max_inflight = 0, su_anthropic_has_anchor = False,
     su_sticky_session = False, su_sticky_conversation = True, su_encrypted = True, su_routing = None,
     su_strategy_label = ''ordered'', su_source_label = ''route_strategy''\<rparr>"


end
