(* ===== verification/Candidate_Sequence.thy ===== *)
theory Candidate_Sequence
  imports Attempt_Flow Candidate_Body Account_Plan
begin

text \<open>
  \<^verbatim>\<open>upstream/proxy_pipeline\<close>: the candidates of a request are tried one after another
  until one answers the client. \<^verbatim>\<open>execution_context.rs\<close> and
  \<^verbatim>\<open>support/candidates.rs\<close> say which are skipped,
  \<^verbatim>\<open>response_finalize.rs\<close> hands a response over, and
  \<^verbatim>\<open>candidate_executor.rs\<close> is the loop. The client's request is a value that is used
  up by the first answer: \<open>ls_request\<close> says whether it is still there.
\<close>

record sequence_params =
  sp_headers :: header_snapshot
  sp_body :: str
  sp_path :: str
  sp_request_path :: str
  sp_prefers_raw :: bool
  sp_protocol :: str
  sp_model_for_log :: "str option"
  sp_setup :: request_setup
  sp_count :: nat
  sp_max_inflight :: nat
  sp_deadline :: "nat option"
  sp_client_is_stream :: bool
  sp_upstream_is_stream :: bool
  sp_allow_fallback :: bool
  sp_disable_stateless :: bool
  sp_tools :: body_tools
  sp_hint :: "response \<Rightarrow> str"

record loop_state =
  ls_request :: bool
  ls_bodies :: candidate_state
  ls_attempted :: "str list"
  ls_skipped_cooldown :: nat
  ls_skipped_inflight :: nat
  ls_last_url :: "str option"
  ls_last_error :: "str option"
  ls_force_strip :: bool

definition initial_loop_state :: loop_state where
  "initial_loop_state = \<lparr>ls_request = True, ls_bodies = initial_candidate_state, ls_attempted = [],
     ls_skipped_cooldown = 0, ls_skipped_inflight = 0, ls_last_url = None, ls_last_error = None,
     ls_force_strip = False\<rparr>"

section \<open>Which candidates are tried\<close>

definition has_more_candidates :: "sequence_params \<Rightarrow> nat \<Rightarrow> bool" where
  "has_more_candidates p idx \<longleftrightarrow> idx + 1 < sp_count p"

definition candidate_skip_reason_for_proxy ::
    "gateway_env \<Rightarrow> str \<Rightarrow> nat \<Rightarrow> nat \<Rightarrow> nat \<Rightarrow> bool \<Rightarrow> skip_reason option gateway" where
  "candidate_skip_reason_for_proxy env a idx candidate_count max_inflight skip_last = do {
     cooling \<leftarrow> in_cooldown env a;
     if cooling \<and> (idx + 1 < candidate_count \<or> skip_last) then State_Monad.return (Some SkipCooldown)
     else do {
       inflight \<leftarrow> gets gw_inflight;
       State_Monad.return
         (if 0 < max_inflight \<and> max_inflight \<le> account_inflight_count inflight a \<and> idx + 1 < candidate_count
          then Some SkipInflight else None) } }"

definition should_skip_candidate :: "gateway_env \<Rightarrow> sequence_params \<Rightarrow> str \<Rightarrow> nat \<Rightarrow> skip_reason option gateway" where
  "should_skip_candidate env p a idx =
     candidate_skip_reason_for_proxy env a idx (sp_count p) (sp_max_inflight p)
       (sp_protocol p = protocol_anthropic_native)"

definition apply_gateway_error_follow_up :: "gateway_env \<Rightarrow> str \<Rightarrow> str \<Rightarrow> bool \<Rightarrow> error_follow_up gateway" where
  "apply_gateway_error_follow_up env a err has_more =
     (let f = analyze_gateway_error err has_more in do {
        run_if (ef_default_cooldown f) (cooldown_mark env a CdDefault);
        run_if (ef_mark_unavailable f) (discard (mark_unavailable_for_gateway_error env a err));
        State_Monad.return f })"

definition allow_openai_fallback_for_account_with_snapshot ::
    "decoders \<Rightarrow> token \<Rightarrow> usage_snapshot option \<Rightarrow> bool" where
  "allow_openai_fallback_for_account_with_snapshot dc t snapshot =
     (let allowed = (\<lambda>plan. pl_normalized plan \<in> set [''free'', ''go'', ''plus'', ''pro'']) in
      case resolve_token_account_plan dc t of
        Some plan \<Rightarrow> allowed plan
      | None \<Rightarrow>
          (case resolve_account_plan dc (Some (token_plan_from_token t)) snapshot of
             None \<Rightarrow> False | Some plan \<Rightarrow> allowed plan))"

definition usage_snapshots_for_candidate_plans ::
    "decoders \<Rightarrow> store \<Rightarrow> (account \<times> token) list \<Rightarrow> str \<Rightarrow> usage_snapshot option" where
  "usage_snapshots_for_candidate_plans dc st cs =
     (let ids = map (\<lambda>c. acc_id (fst c)) (filter (\<lambda>c. resolve_token_account_plan dc (snd c) = None) cs) in
      if ids = [] then Map.empty
      else (case latest_usage_snapshots_for_accounts st ids of
              Inl _ \<Rightarrow> Map.empty
            | Inr us \<Rightarrow> map_of (rev (map (\<lambda>u. (us_account_id u, u)) us))))"

section \<open>Answering the client\<close>

definition bridge_is_ok :: "bridge_result \<Rightarrow> bool \<Rightarrow> bool" where
  "bridge_is_ok b is_stream \<longleftrightarrow>
     br_delivery_error b = None
     \<and> (is_stream \<longrightarrow> br_stream_terminal_seen b \<and> br_stream_terminal_error b = None)"

text \<open>
  The UTF-8 bytes of the message \<^verbatim>\<open>STREAM_INCOMPLETE_FALLBACK_MESSAGE\<close> (connection
  interrupted, perhaps by the network or the client).
\<close>

definition stream_incomplete_message :: str where
  "stream_incomplete_message = map char_of
     [0xE8, 0xBF, 0x9E, 0xE6, 0x8E, 0xA5, 0xE4, 0xB8, 0xAD, 0xE6, 0x96, 0xAD, 0xEF, 0xBC, 0x88,
      0xE5, 0x8F, 0xAF, 0xE8, 0x83, 0xBD, 0xE6, 0x98, 0xAF, 0xE7, 0xBD, 0x91, 0xE7, 0xBB, 0x9C,
      0xE6, 0xB3, 0xA2, 0xE5, 0x8A, 0xA8, 0xE6, 0x88, 0x96, 0xE5, 0xAE, 0xA2, 0xE6, 0x88, 0xB7,
      0xE7, 0xAB, 0xAF, 0xE4, 0xB8, 0xBB, 0xE5, 0x8A, 0xA8, 0xE5, 0x8F, 0x96, 0xE6, 0xB6, 0x88,
      0xEF, 0xBC, 0x89 :: nat]"

definition bridge_error_message :: "bridge_result \<Rightarrow> bool \<Rightarrow> str option" where
  "bridge_error_message b is_stream =
     (case br_stream_terminal_error b of
        Some err \<Rightarrow> Some err
      | None \<Rightarrow>
          if is_stream \<and> \<not> br_stream_terminal_seen b
          then or_else (trimmed_nonempty (br_upstream_error_hint b)) (Some stream_incomplete_message)
          else map_option (\<lambda>err. ''response write failed: '' @ err) (br_delivery_error b))"

definition is_client_disconnect_error :: "str \<Rightarrow> bool" where
  "is_client_disconnect_error message =
     any_contains (to_ascii_lowercase (trim message))
       [''broken pipe'', ''connection reset'', ''connection aborted'', ''connection was forcibly closed'',
        ''os error 32'', ''os error 54'', ''os error 104'']"

definition derive_final_error :: "nat \<Rightarrow> str option \<Rightarrow> str option \<Rightarrow> str option \<Rightarrow> str option" where
  "derive_final_error status last_error hint bridge_error =
     or_else (or_else hint (if 400 \<le> status then last_error else None)) bridge_error"

definition derive_status_for_log :: "nat \<Rightarrow> nat option \<Rightarrow> bool \<Rightarrow> bool \<Rightarrow> bool \<Rightarrow> bool \<Rightarrow> nat" where
  "derive_status_for_log status delivered bridge_ok failover stream_failed delivery_failed =
     (if delivery_failed then 499
      else (case delivered of
              Some d \<Rightarrow> d
            | None \<Rightarrow> if 400 \<le> status then status
                      else if stream_failed \<or> failover \<or> \<not> bridge_ok then 502 else status))"

definition respond_terminal :: "sequence_params \<Rightarrow> nat \<Rightarrow> str \<Rightarrow> unit gateway" where
  "respond_terminal p status message =
     log_event (EvRespond status (error_message_for_client (sp_prefers_raw p) message))"

definition respond_total_timeout :: "sequence_params \<Rightarrow> str list \<Rightarrow> unit gateway" where
  "respond_total_timeout p attempted = do {
     log_event (EvFinal None None 504 (Some total_timeout) attempted);
     respond_terminal p 504 total_timeout }"

definition finalize_terminal_candidate ::
    "gateway_env \<Rightarrow> sequence_params \<Rightarrow> str \<Rightarrow> str option \<Rightarrow> nat \<Rightarrow> str \<Rightarrow> str list \<Rightarrow> unit gateway" where
  "finalize_terminal_candidate env p a url status message attempted = do {
     discard (mark_unavailable_for_gateway_error env a message);
     log_event (EvFinal (Some a) url status (Some message) attempted);
     respond_terminal p status message }"

datatype finalize_outcome = FinalHandled | FinalFailover

definition record_delivery ::
    "gateway_env \<Rightarrow> sequence_params \<Rightarrow> str \<Rightarrow> response \<Rightarrow> str option \<Rightarrow> str option \<Rightarrow> bool \<Rightarrow> str list
       \<Rightarrow> bridge_result \<Rightarrow> finalize_outcome gateway" where
  "record_delivery env p a resp url last_error has_more attempted b =
     (let streaming = sp_client_is_stream p;
          ok = bridge_is_ok b streaming;
          bridge_error = (if ok then None
                          else Some (unwrap_or (bridge_error_message b streaming) ''upstream response incomplete''));
          final_error = derive_final_error (rs_status resp) last_error (br_upstream_error_hint b) bridge_error;
          stream_failed = (streaming \<and> (\<not> br_stream_terminal_seen b \<or> br_stream_terminal_error b \<noteq> None));
          delivery_failed = (case br_delivery_error b of None \<Rightarrow> False | Some m \<Rightarrow> is_client_disconnect_error m)
      in do {
        failover \<leftarrow> (case final_error of
                       None \<Rightarrow> State_Monad.return False
                     | Some err \<Rightarrow> do {
                         f \<leftarrow> apply_gateway_error_follow_up env a err has_more;
                         State_Monad.return (ef_failover f) });
        run_if stream_failed (do { cooldown_mark env a CdNetwork; quality_record_status env a 502 });
        log_event (EvFinal (Some a) url
          (derive_status_for_log (rs_status resp) (br_delivered_status_code b) ok failover stream_failed delivery_failed)
          final_error attempted);
        State_Monad.return (if failover then FinalFailover else FinalHandled) })"

text \<open>\<^verbatim>\<open>respond_with_upstream\<close> takes the request and the guard; both are gone when it returns.\<close>

definition finalize_upstream_response ::
    "gateway_env \<Rightarrow> sequence_params \<Rightarrow> str \<Rightarrow> response \<Rightarrow> str option \<Rightarrow> str option \<Rightarrow> bool \<Rightarrow> str list
       \<Rightarrow> (str + finalize_outcome) gateway" where
  "finalize_upstream_response env p a resp url last_error has_more attempted = do {
     log_event (EvBridge a resp);
     answer \<leftarrow> ask (\<lambda>n. ge_bridge env n resp has_more);
     drop_account_inflight a;
     (case answer of
        Inl e \<Rightarrow> State_Monad.return (Inl e)
      | Inr b \<Rightarrow> do {
          outcome \<leftarrow> record_delivery env p a resp url last_error has_more attempted b;
          State_Monad.return (Inr outcome) }) }"

section \<open>The loop\<close>

datatype step_result = StepNext loop_state | StepHandled | StepErr str | StepPanic

datatype sequence_result = SeqHandled | SeqExhausted loop_state | SeqErr str | SeqPanic

definition should_forward_thread_anchor_as_prompt_cache_key :: "str \<Rightarrow> bool" where
  "should_forward_thread_anchor_as_prompt_cache_key protocol \<longleftrightarrow> protocol \<noteq> protocol_gemini_native"

definition is_challenge_failover_error :: "str option \<Rightarrow> bool" where
  "is_challenge_failover_error err =
     (case trimmed_nonempty err of
        None \<Rightarrow> False
      | Some v \<Rightarrow> any_contains (to_ascii_lowercase v) [''challenge'', ''cloudflare'', ''cf_ray''])"

definition record_failover_attempt :: "loop_state \<Rightarrow> loop_state gateway" where
  "record_failover_attempt ls = do {
     log_event EvFailover;
     url \<leftarrow> gets gw_attempt_url;
     err \<leftarrow> gets gw_attempt_error;
     State_Monad.return (ls\<lparr>ls_last_url := url, ls_last_error := err\<rparr>) }"

definition should_failover_terminal_gateway_error ::
    "gateway_env \<Rightarrow> str \<Rightarrow> bool \<Rightarrow> str \<Rightarrow> loop_state \<Rightarrow> loop_state option gateway" where
  "should_failover_terminal_gateway_error env a has_more message ls = do {
     f \<leftarrow> apply_gateway_error_follow_up env a message has_more;
     if \<not> ef_failover f then State_Monad.return None
     else do {
       log_event EvFailover;
       url \<leftarrow> gets gw_attempt_url;
       State_Monad.return (Some (ls\<lparr>ls_last_url := url, ls_last_error := Some message\<rparr>)) } }"

definition respond_terminal_attempt ::
    "gateway_env \<Rightarrow> sequence_params \<Rightarrow> str \<Rightarrow> nat \<Rightarrow> str \<Rightarrow> str list \<Rightarrow> step_result gateway" where
  "respond_terminal_attempt env p a status message attempted = do {
     url \<leftarrow> gets gw_attempt_url;
     finalize_terminal_candidate env p a url status message attempted;
     State_Monad.return StepHandled }"

text \<open>What is fixed for a candidate before its first request.\<close>

record candidate_plan =
  cp_account :: account
  cp_index :: nat
  cp_strip :: bool
  cp_headers :: header_snapshot
  cp_key :: "str option"
  cp_allow_fallback :: bool
  cp_body :: str

definition prepare_candidate ::
    "gateway_env \<Rightarrow> sequence_params \<Rightarrow> (str \<Rightarrow> usage_snapshot option) \<Rightarrow> nat \<Rightarrow> account \<times> token \<Rightarrow> loop_state
       \<Rightarrow> candidate_plan \<times> loop_state" where
  "prepare_candidate env p snapshots idx candidate ls =
     (let (account, token) = candidate; setup_rec = sp_setup p;
          (strip, bodies) = (if ls_force_strip ls then (True, ls_bodies ls)
                             else strip_session_affinity account idx (su_anthropic_has_anchor setup_rec) (ls_bodies ls));
          thread = resolve_attempt_thread (su_routing setup_rec) account;
          headers = (case thread of
                       Some t \<Rightarrow> with_thread_affinity_override (Some (ta_thread_anchor t))
                                   (ta_reset_session_affinity t) (sp_headers p)
                     | None \<Rightarrow> sp_headers p);
          key = (if should_forward_thread_anchor_as_prompt_cache_key (sp_protocol p)
                 then map_option ta_thread_anchor thread else None);
          (body, bodies') = body_for_attempt (sp_tools p) (sp_path p) (sp_body p) strip setup_rec None key bodies
      in (\<lparr>cp_account = account, cp_index = idx, cp_strip = strip, cp_headers = headers, cp_key = key,
           cp_allow_fallback = (sp_allow_fallback p
             \<and> allow_openai_fallback_for_account_with_snapshot (ge_decoders env) token (snapshots (acc_id account))),
           cp_body = body\<rparr>, ls\<lparr>ls_bodies := bodies'\<rparr>))"

definition attempt_context :: "sequence_params \<Rightarrow> candidate_plan \<Rightarrow> str \<Rightarrow> bool \<Rightarrow> attempt_ctx" where
  "attempt_context p plan body strip =
     \<lparr>at_base = su_upstream_base (sp_setup p), at_path = sp_path p, at_url = su_url (sp_setup p),
      at_alt = su_url_alt (sp_setup p), at_deadline = sp_deadline p, at_protocol = sp_protocol p,
      at_request_path = sp_request_path p, at_headers = cp_headers plan, at_body = body,
      at_is_stream = sp_upstream_is_stream p, at_fallback_base = su_fallback_base (sp_setup p),
      at_account = cp_account plan, at_strip = strip, at_allow_fallback = cp_allow_fallback plan,
      at_disable_stateless = sp_disable_stateless p,
      at_has_more = has_more_candidates p (cp_index plan)\<rparr>"

definition plan_id :: "candidate_plan \<Rightarrow> str" where
  "plan_id plan = acc_id (cp_account plan)"

definition record_binding :: "gateway_env \<Rightarrow> sequence_params \<Rightarrow> account \<Rightarrow> nat \<Rightarrow> unit gateway" where
  "record_binding env p account status = do {
     now \<leftarrow> ask (ge_now env);
     modify (\<lambda>w. w\<lparr>gw_bindings := snd (record_conversation_binding_terminal_response
       (su_routing (sp_setup p)) account (sp_model_for_log p) status now (gw_bindings w))\<rparr>) }"

text \<open>
  The hand-over of a response. The boolean of a result says whether the guard of the account is
  still held. A failover after the hand-over continues without the request.
\<close>

definition conclude_response ::
    "gateway_env \<Rightarrow> sequence_params \<Rightarrow> candidate_plan \<Rightarrow> response \<Rightarrow> loop_state \<Rightarrow> (step_result \<times> bool) gateway" where
  "conclude_response env p plan resp ls = do {
     url \<leftarrow> gets gw_attempt_url;
     err \<leftarrow> gets gw_attempt_error;
     r \<leftarrow> finalize_upstream_response env p (plan_id plan) resp url err
            (has_more_candidates p (cp_index plan)) (ls_attempted ls);
     (case r of
        Inl e \<Rightarrow> State_Monad.return (StepErr e, False)
      | Inr outcome \<Rightarrow>
          if outcome = FinalHandled then do {
            record_binding env p (cp_account plan) (rs_status resp);
            State_Monad.return (StepHandled, False) }
          else do {
            ls' \<leftarrow> record_failover_attempt (ls\<lparr>ls_request := False\<rparr>);
            State_Monad.return (StepNext ls', False) }) }"

definition retry_without_session ::
    "gateway_env \<Rightarrow> sequence_params \<Rightarrow> candidate_plan \<Rightarrow> loop_state \<Rightarrow> (step_result \<times> bool) gateway" where
  "retry_without_session env p plan ls0 =
     (let (body, bodies) = retry_body (sp_tools p) (sp_path p) (sp_body p) (sp_setup p) None (cp_key plan) (ls_bodies ls0);
          ls = ls0\<lparr>ls_bodies := bodies\<rparr>
      in do {
        d \<leftarrow> run_candidate_attempt env (sp_hint p) (attempt_context p plan body True);
        (case d of
           CandRespond resp \<Rightarrow> conclude_response env p plan resp ls
         | CandFailover \<Rightarrow> do {
             ls' \<leftarrow> record_failover_attempt ls;
             State_Monad.return (StepNext ls', True) }
         | CandTerminal status message \<Rightarrow> do {
             r \<leftarrow> respond_terminal_attempt env p (plan_id plan) status message (ls_attempted ls);
             State_Monad.return (r, True) }) })"

definition forces_strip :: "sequence_params \<Rightarrow> str option \<Rightarrow> loop_state \<Rightarrow> loop_state" where
  "forces_strip p err ls =
     (if sp_protocol p = protocol_anthropic_native \<and> is_challenge_failover_error err
      then ls\<lparr>ls_force_strip := True\<rparr> else ls)"

definition retries_without_session :: "sequence_params \<Rightarrow> candidate_plan \<Rightarrow> response \<Rightarrow> bool" where
  "retries_without_session p plan resp \<longleftrightarrow>
     rs_status resp = 400 \<and> \<not> cp_strip plan
     \<and> (hs_turn_state (cp_headers plan) \<noteq> None \<or> su_encrypted (sp_setup p))"

definition try_candidate ::
    "gateway_env \<Rightarrow> sequence_params \<Rightarrow> candidate_plan \<Rightarrow> loop_state \<Rightarrow> (step_result \<times> bool) gateway" where
  "try_candidate env p plan ls = do {
     d \<leftarrow> run_candidate_attempt env (sp_hint p) (attempt_context p plan (cp_body plan) (cp_strip plan));
     (case d of
        CandFailover \<Rightarrow> do {
          err \<leftarrow> gets gw_attempt_error;
          ls' \<leftarrow> record_failover_attempt (forces_strip p err ls);
          State_Monad.return (StepNext ls', True) }
      | CandTerminal status message \<Rightarrow> do {
          f \<leftarrow> should_failover_terminal_gateway_error env (plan_id plan)
                 (has_more_candidates p (cp_index plan)) message ls;
          (case f of
             Some ls' \<Rightarrow> State_Monad.return (StepNext (forces_strip p (Some message) ls'), True)
           | None \<Rightarrow> do {
               r \<leftarrow> respond_terminal_attempt env p (plan_id plan) status message (ls_attempted ls);
               State_Monad.return (r, True) }) }
      | CandRespond resp \<Rightarrow>
          if retries_without_session p plan resp then retry_without_session env p plan ls
          else conclude_response env p plan resp ls) }"

definition guarded_attempt ::
    "gateway_env \<Rightarrow> sequence_params \<Rightarrow> candidate_plan \<Rightarrow> token \<Rightarrow> loop_state \<Rightarrow> step_result gateway" where
  "guarded_attempt env p plan token ls = do {
     modify (\<lambda>w. w\<lparr>gw_token := token, gw_attempt_url := None, gw_attempt_error := None\<rparr>);
     acquire_account_inflight (plan_id plan);
     r \<leftarrow> try_candidate env p plan ls;
     run_if (snd r) (drop_account_inflight (plan_id plan));
     State_Monad.return (fst r) }"

definition skip_candidate :: "skip_reason \<Rightarrow> loop_state \<Rightarrow> loop_state" where
  "skip_candidate reason ls =
     (case reason of
        SkipCooldown \<Rightarrow> ls\<lparr>ls_skipped_cooldown := Suc (ls_skipped_cooldown ls)\<rparr>
      | SkipInflight \<Rightarrow> ls\<lparr>ls_skipped_inflight := Suc (ls_skipped_inflight ls)\<rparr>)"

definition candidate_step ::
    "gateway_env \<Rightarrow> sequence_params \<Rightarrow> (str \<Rightarrow> usage_snapshot option) \<Rightarrow> nat \<Rightarrow> account \<times> token \<Rightarrow> loop_state
       \<Rightarrow> step_result gateway" where
  "candidate_step env p snapshots idx candidate ls0 = do {
     expired \<leftarrow> deadline_expired env (sp_deadline p);
     if expired
     then (if ls_request ls0
           then do { respond_total_timeout p (ls_attempted ls0); State_Monad.return StepHandled }
           else State_Monad.return StepPanic)
     else (let (plan, ls) = prepare_candidate env p snapshots idx candidate ls0; a = acc_id (fst candidate) in do {
       log_event (EvStart a idx (cp_strip plan));
       skip \<leftarrow> should_skip_candidate env p a idx;
       (case skip of
          Some reason \<Rightarrow> do {
            log_event (EvSkip a idx reason);
            State_Monad.return (StepNext (skip_candidate reason ls)) }
        | None \<Rightarrow>
            (let ls' = ls\<lparr>ls_attempted := ls_attempted ls @ [a]\<rparr> in
             if \<not> ls_request ls' then State_Monad.return (StepErr ''request already consumed'')
             else guarded_attempt env p plan (snd candidate) ls')) }) }"

text \<open>
  The result \<open>SeqPanic\<close> is an \<^verbatim>\<open>expect\<close> that fails: the request is asked for after it
  was used up.
\<close>

fun run_candidates ::
    "gateway_env \<Rightarrow> sequence_params \<Rightarrow> (str \<Rightarrow> usage_snapshot option) \<Rightarrow> nat \<Rightarrow> (account \<times> token) list \<Rightarrow> loop_state
       \<Rightarrow> sequence_result gateway" where
  "run_candidates env p snapshots idx [] ls =
     State_Monad.return (if ls_request ls then SeqExhausted ls else SeqPanic)"
| "run_candidates env p snapshots idx (candidate # rest) ls = do {
     r \<leftarrow> candidate_step env p snapshots idx candidate ls;
     (case r of
        StepNext ls' \<Rightarrow> run_candidates env p snapshots (Suc idx) rest ls'
      | StepHandled \<Rightarrow> State_Monad.return SeqHandled
      | StepErr e \<Rightarrow> State_Monad.return (SeqErr e)
      | StepPanic \<Rightarrow> State_Monad.return SeqPanic) }"

definition execute_candidate_sequence ::
    "gateway_env \<Rightarrow> sequence_params \<Rightarrow> (account \<times> token) list \<Rightarrow> sequence_result gateway" where
  "execute_candidate_sequence env p cs = do {
     st \<leftarrow> gets gw_store;
     run_candidates env p (usage_snapshots_for_candidate_plans (ge_decoders env) st cs) 0 cs initial_loop_state }"

end
