(* ===== verification/Failover_Properties.thy ===== *)
theory Failover_Properties
  imports Candidate_Sequence "HOL-Library.Sublist"
begin

text \<open>
  What the failover engine guarantees: which requests it sends and for whom, that the client is
  answered once, that the counters of requests in flight are given back, when a pool of candidates
  can be exhausted, and how deadlines end it. \<open>step_spec\<close> is the contract of one candidate; its
  rules follow the code of \<open>try_candidate\<close>.
\<close>

section \<open>One candidate\<close>

fun request_left :: "step_result \<Rightarrow> nat" where
  "request_left (StepNext ls) = (if ls_request ls then 1 else 0)"
| "request_left _ = 0"

abbreviation replies :: "event list \<Rightarrow> nat" where "replies es \<equiv> length (filter is_reply es)"
abbreviation requests :: "event list \<Rightarrow> nat" where "requests es \<equiv> length (filter is_send es)"

text \<open>
  The contract of trying a candidate while the client's request is there: at most \<open>k\<close> requests, for
  the account only; the client's request is answered or left, never both; the guard of the account
  is given back or still held; a binding changes only if the candidate has handled the request.
\<close>

definition step_spec ::
    "str \<Rightarrow> nat \<Rightarrow> (step_result \<Rightarrow> bool) \<Rightarrow> (step_result \<times> bool) gateway \<Rightarrow> bool" where
  "step_spec a k Q m \<longleftrightarrow>
     (\<forall>w. case run_state m w of ((r, held), w') \<Rightarrow>
        (\<exists>es. gw_log w' = gw_log w @ es \<and> list_all (request_event_ok a) es \<and> requests es \<le> k
              \<and> replies es + request_left r = 1)
        \<and> gw_inflight w' = (if held then gw_inflight w else inflight_dropped a (gw_inflight w))
        \<and> (gw_bindings w' = gw_bindings w \<or> r = StepHandled)
        \<and> Q r)"

definition tail_spec ::
    "str \<Rightarrow> (step_result \<Rightarrow> bool) \<Rightarrow> (step_result \<times> bool) gateway \<Rightarrow> bool" where
  "tail_spec a Q m \<longleftrightarrow>
     (\<forall>w. case run_state m w of ((r, held), w') \<Rightarrow>
        (\<exists>es. gw_log w' = gw_log w @ es \<and> list_all (attempt_event a) es \<and> requests es = 0)
        \<and> \<not> held \<and> request_left r = 0 \<and> gw_inflight w' = gw_inflight w
        \<and> (gw_bindings w' = gw_bindings w \<or> r = StepHandled)
        \<and> Q r)"

lemma attempt_events:
  assumes "list_all (attempt_event a) es"
  shows "list_all (request_event_ok a) es" "replies es = 0"
  using assms by (auto simp: attempt_event_def list_all_iff filter_empty_conv)

lemma tail_spec_return: "request_left r = 0 \<Longrightarrow> Q r \<Longrightarrow> tail_spec a Q (State_Monad.return (r, False))"
  by (simp add: tail_spec_def)

lemma tail_spec_handled:
  "Q StepHandled \<Longrightarrow> tail_spec a Q (State_Monad.bind (record_binding env p account status) (\<lambda>_. State_Monad.return (StepHandled, False)))"
  by (simp add: tail_spec_def record_binding_def)

lemma tail_spec_bind:
  assumes "spends (attempt_effects a) 0 m P" "\<And>x. P x \<Longrightarrow> tail_spec a Q (h x)"
  shows "tail_spec a Q (State_Monad.bind m h)"
  unfolding tail_spec_def
proof
  fix w
  obtain x w1 where m: "run_state m w = (x, w1)" by fastforce
  from attempt.spends_result [OF assms(1) m] have eff: "attempt_effects a 0 w w1" and x: "P x" by auto
  obtain r held w2 where h: "run_state (h x) w1 = ((r, held), w2)" by (metis prod.exhaust)
  from assms(2) [OF x, unfolded tail_spec_def, rule_format, of w1] h
  obtain es where "gw_log w2 = gw_log w1 @ es" "list_all (attempt_event a) es" "requests es = 0"
    "\<not> held" "request_left r = 0" "gw_inflight w2 = gw_inflight w1"
    "gw_bindings w2 = gw_bindings w1 \<or> r = StepHandled" "Q r" by auto
  moreover from eff obtain fs where "gw_log w1 = gw_log w @ fs" "list_all (attempt_event a) fs"
    "requests fs = 0" "gw_inflight w1 = gw_inflight w" "gw_bindings w1 = gw_bindings w"
    unfolding attempt_effects_def by auto
  ultimately show "case run_state (State_Monad.bind m h) w of ((r, held), w') \<Rightarrow>
      (\<exists>es. gw_log w' = gw_log w @ es \<and> list_all (attempt_event a) es \<and> requests es = 0)
      \<and> \<not> held \<and> request_left r = 0 \<and> gw_inflight w' = gw_inflight w
      \<and> (gw_bindings w' = gw_bindings w \<or> r = StepHandled) \<and> Q r"
    by (simp add: m h)
qed

lemma step_spec_bind:
  assumes "spends (attempt_effects a) j m P" "j \<le> k" "\<And>x. P x \<Longrightarrow> step_spec a (k - j) Q (h x)"
  shows "step_spec a k Q (State_Monad.bind m h)"
  unfolding step_spec_def
proof
  fix w
  obtain x w1 where m: "run_state m w = (x, w1)" by fastforce
  from attempt.spends_result [OF assms(1) m] have eff: "attempt_effects a j w w1" and x: "P x" by auto
  obtain r held w2 where h: "run_state (h x) w1 = ((r, held), w2)" by (metis prod.exhaust)
  from assms(3) [OF x, unfolded step_spec_def, rule_format, of w1] h
  obtain es where "gw_log w2 = gw_log w1 @ es" "list_all (request_event_ok a) es" "requests es \<le> k - j"
    "replies es + request_left r = 1"
    "gw_inflight w2 = (if held then gw_inflight w1 else inflight_dropped a (gw_inflight w1))"
    "gw_bindings w2 = gw_bindings w1 \<or> r = StepHandled" "Q r" by auto
  moreover from eff obtain fs where "gw_log w1 = gw_log w @ fs" "list_all (attempt_event a) fs"
    "requests fs \<le> j" "gw_inflight w1 = gw_inflight w" "gw_bindings w1 = gw_bindings w"
    unfolding attempt_effects_def by auto
  ultimately show "case run_state (State_Monad.bind m h) w of ((r, held), w') \<Rightarrow>
      (\<exists>es. gw_log w' = gw_log w @ es \<and> list_all (request_event_ok a) es \<and> requests es \<le> k
              \<and> replies es + request_left r = 1)
      \<and> gw_inflight w' = (if held then gw_inflight w else inflight_dropped a (gw_inflight w))
      \<and> (gw_bindings w' = gw_bindings w \<or> r = StepHandled) \<and> Q r"
    using assms(2) attempt_events [of a fs] by (simp add: m h)
qed

lemma step_spec_kept:
  "ls_request ls \<Longrightarrow> Q (StepNext ls) \<Longrightarrow> step_spec a k Q (State_Monad.return (StepNext ls, True))"
  by (simp add: step_spec_def)

lemma step_spec_replied:
  "Q StepHandled
   \<Longrightarrow> step_spec a k Q (State_Monad.bind (log_event (EvRespond s msg)) (\<lambda>_. State_Monad.return (StepHandled, True)))"
  by (simp add: step_spec_def)

lemma step_spec_bridged:
  assumes "\<And>answer. tail_spec a Q (h answer)"
  shows "step_spec a k Q (do {
    log_event (EvBridge a resp);
    answer \<leftarrow> ask f;
    drop_account_inflight a;
    h answer })"
  unfolding step_spec_def
proof
  fix w :: gateway_world
  define w1 where "w1 = w\<lparr>gw_log := gw_log w @ [EvBridge a resp], gw_tick := Suc (gw_tick w),
                          gw_inflight := inflight_dropped a (gw_inflight w)\<rparr>"
  let ?m = "h (f (gw_tick w))"
  have run: "run_state (do { log_event (EvBridge a resp); answer \<leftarrow> ask f; drop_account_inflight a; h answer }) w
    = run_state ?m w1"
    by (simp add: drop_account_inflight_def w1_def)
  obtain r held w2 where h: "run_state ?m w1 = ((r, held), w2)" by (metis prod.exhaust)
  from assms [of "f (gw_tick w)", unfolded tail_spec_def, rule_format, of w1] h
  obtain es where es: "gw_log w2 = gw_log w1 @ es" "list_all (attempt_event a) es" "requests es = 0"
    "\<not> held" "request_left r = 0" "gw_inflight w2 = gw_inflight w1"
    "gw_bindings w2 = gw_bindings w1 \<or> r = StepHandled" "Q r" by auto
  with attempt_events [OF es(2)] show "case run_state (do {
      log_event (EvBridge a resp); answer \<leftarrow> ask f; drop_account_inflight a; h answer }) w of
      ((r, held), w') \<Rightarrow>
      (\<exists>es. gw_log w' = gw_log w @ es \<and> list_all (request_event_ok a) es \<and> requests es \<le> k
              \<and> replies es + request_left r = 1)
      \<and> gw_inflight w' = (if held then gw_inflight w else inflight_dropped a (gw_inflight w))
      \<and> (gw_bindings w' = gw_bindings w \<or> r = StepHandled) \<and> Q r"
    unfolding run h by (auto simp: w1_def intro!: exI [of _ "EvBridge a resp # es"])
qed

lemma step_spec_if:
  "(b \<Longrightarrow> step_spec a k Q m) \<Longrightarrow> (\<not> b \<Longrightarrow> step_spec a k Q n) \<Longrightarrow> step_spec a k Q (if b then m else n)"
  by simp

lemma step_spec_option:
  "(v = None \<Longrightarrow> step_spec a k Q m) \<Longrightarrow> (\<And>x. v = Some x \<Longrightarrow> step_spec a k Q (f x))
     \<Longrightarrow> step_spec a k Q (case v of None \<Rightarrow> m | Some x \<Rightarrow> f x)"
  by (cases v) simp_all

lemma step_spec_decision:
  "(\<And>resp. d = CandRespond resp \<Longrightarrow> step_spec a k Q (f resp))
   \<Longrightarrow> (d = CandFailover \<Longrightarrow> step_spec a k Q g)
   \<Longrightarrow> (\<And>s m. d = CandTerminal s m \<Longrightarrow> step_spec a k Q (t s m))
   \<Longrightarrow> step_spec a k Q (case d of CandRespond resp \<Rightarrow> f resp | CandFailover \<Rightarrow> g | CandTerminal s m \<Rightarrow> t s m)"
  by (cases d) simp_all

definition same_progress :: "loop_state \<Rightarrow> loop_state \<Rightarrow> bool" where
  "same_progress ls ls' \<longleftrightarrow> ls_attempted ls' = ls_attempted ls
     \<and> ls_skipped_cooldown ls' = ls_skipped_cooldown ls \<and> ls_skipped_inflight ls' = ls_skipped_inflight ls"

text \<open>The sequence goes on only when another candidate follows.\<close>

definition next_ok :: "bool \<Rightarrow> loop_state \<Rightarrow> step_result \<Rightarrow> bool" where
  "next_ok has_more ls r \<longleftrightarrow> (\<forall>ls'. r = StepNext ls' \<longrightarrow> has_more \<and> same_progress ls ls')"

lemma next_ok_simps [simp]:
  "next_ok has_more ls StepHandled" "next_ok has_more ls (StepErr e)" "next_ok has_more ls StepPanic"
  "next_ok has_more ls (StepNext ls') \<longleftrightarrow> has_more \<and> same_progress ls ls'"
  by (simp_all add: next_ok_def)

lemma same_progress_simps [simp]:
  "same_progress ls ls" "same_progress ls (ls'\<lparr>ls_request := b\<rparr>) \<longleftrightarrow> same_progress ls ls'"
  "same_progress ls (ls'\<lparr>ls_force_strip := b\<rparr>) \<longleftrightarrow> same_progress ls ls'"
  "same_progress ls (ls'\<lparr>ls_bodies := c\<rparr>) \<longleftrightarrow> same_progress ls ls'"
  "same_progress (ls\<lparr>ls_bodies := c\<rparr>) ls' \<longleftrightarrow> same_progress ls ls'"
  "same_progress (ls\<lparr>ls_request := b\<rparr>) ls' \<longleftrightarrow> same_progress ls ls'"
  "same_progress ls (ls'\<lparr>ls_last_url := u, ls_last_error := e\<rparr>) \<longleftrightarrow> same_progress ls ls'"
  by (simp_all add: same_progress_def)

lemma same_progress_forces [simp]:
  "same_progress ls (forces_strip p err ls') \<longleftrightarrow> same_progress ls ls'"
  "same_progress (forces_strip p err ls) ls' \<longleftrightarrow> same_progress ls ls'"
  "ls_request (forces_strip p err ls) = ls_request ls"
  by (simp_all add: forces_strip_def same_progress_def)

lemma follow_up_spends [spends_intros]:
  "spends (attempt_effects a) 0 (apply_gateway_error_follow_up env b err has_more) (\<lambda>f. ef_failover f \<longrightarrow> has_more)"
  unfolding apply_gateway_error_follow_up_def Let_def
  by (rule attempt.spends_bind attempt.spends_steps spends_intros | simp add: analyze_gateway_error_def Let_def)+

lemma record_failover_spends [spends_intros]:
  "spends (attempt_effects a) 0 (record_failover_attempt ls)
     (\<lambda>ls'. same_progress ls ls' \<and> ls_request ls' = ls_request ls)"
  unfolding record_failover_attempt_def
  by (rule attempt.spends_bind attempt.spends_steps spends_intros | simp)+

lemma terminal_failover_spends [spends_intros]:
  "spends (attempt_effects a) 0 (should_failover_terminal_gateway_error env b has_more message ls)
     (pred_option (\<lambda>ls'. has_more \<and> same_progress ls ls' \<and> ls_request ls' = ls_request ls))"
  unfolding should_failover_terminal_gateway_error_def
  by (rule attempt.spends_bind attempt.spends_steps spends_intros | simp)+

lemma final_error_spends:
  "spends (attempt_effects a) 0
     (case e of None \<Rightarrow> State_Monad.return False
      | Some err \<Rightarrow> do { f \<leftarrow> apply_gateway_error_follow_up env b err has_more; State_Monad.return (ef_failover f) })
     (\<lambda>failover. failover \<longrightarrow> has_more)"
  by (rule attempt.spends_bind attempt.spends_steps spends_intros | simp)+

lemma record_delivery_spends:
  "spends (attempt_effects a) 0 (record_delivery env p b resp url err has_more attempted br)
     (\<lambda>f. f \<noteq> FinalHandled \<longrightarrow> has_more)"
  unfolding record_delivery_def Let_def
  by (rule attempt.spends_bind final_error_spends attempt.spends_steps spends_intros | simp)+

lemma respond_terminal_attempt_spec:
  "Q StepHandled \<Longrightarrow> step_spec a k Q (do {
     r \<leftarrow> respond_terminal_attempt env p b status message attempted;
     State_Monad.return (r, True) })"
  unfolding respond_terminal_attempt_def finalize_terminal_candidate_def respond_terminal_def
    State_Monad.bind_assoc State_Monad.bind_left_identity
  by (rule step_spec_bind step_spec_replied attempt.spends_steps spends_intros | simp)+

lemma record_delivery_tail:
  assumes "\<And>ls'. same_progress ls ls' \<Longrightarrow> has_more \<Longrightarrow> \<not> ls_request ls' \<Longrightarrow> Q (StepNext ls')" "Q StepHandled"
  shows "tail_spec a Q (do {
     outcome \<leftarrow> record_delivery env p b resp url err has_more attempted br;
     (if outcome = FinalHandled then do {
        record_binding env p account status;
        State_Monad.return (StepHandled, False) }
      else do {
        ls' \<leftarrow> record_failover_attempt (ls\<lparr>ls_request := False\<rparr>);
        State_Monad.return (StepNext ls', False) }) })"
proof (rule tail_spec_bind [OF record_delivery_spends])
  fix outcome assume o: "outcome \<noteq> FinalHandled \<longrightarrow> has_more"
  show "tail_spec a Q (if outcome = FinalHandled then do {
        record_binding env p account status; State_Monad.return (StepHandled, False) }
      else do { ls' \<leftarrow> record_failover_attempt (ls\<lparr>ls_request := False\<rparr>); State_Monad.return (StepNext ls', False) })"
  proof (cases "outcome = FinalHandled")
    case True
    then show ?thesis using assms(2) by (simp add: tail_spec_handled)
  next
    case False
    have "tail_spec a Q (do { ls' \<leftarrow> record_failover_attempt (ls\<lparr>ls_request := False\<rparr>); State_Monad.return (StepNext ls', False) })"
      by (rule tail_spec_bind [OF record_failover_spends], rule tail_spec_return)
         (use assms(1) o False in simp_all)
    with False show ?thesis by simp
  qed
qed

lemma conclude_response_holds:
  assumes next_one: "\<And>ls'. same_progress ls ls' \<Longrightarrow> has_more_candidates p (cp_index plan) \<Longrightarrow> \<not> ls_request ls' \<Longrightarrow> Q (StepNext ls')"
    and final: "Q StepHandled" "\<And>e. Q (StepErr e)"
  shows "step_spec (plan_id plan) k Q (conclude_response env p plan resp ls)"
proof -
  let ?more = "has_more_candidates p (cp_index plan)"
  have tail: "tail_spec (plan_id plan) Q (do {
      r \<leftarrow> (case answer of
              Inl e \<Rightarrow> State_Monad.return (Inl e)
            | Inr b \<Rightarrow> do {
                outcome \<leftarrow> record_delivery env p (plan_id plan) resp url err ?more (ls_attempted ls) b;
                State_Monad.return (Inr outcome) });
      (case r of
         Inl e \<Rightarrow> State_Monad.return (StepErr e, False)
       | Inr outcome \<Rightarrow>
           if outcome = FinalHandled then do {
             record_binding env p (cp_account plan) (rs_status resp);
             State_Monad.return (StepHandled, False) }
           else do {
             ls' \<leftarrow> record_failover_attempt (ls\<lparr>ls_request := False\<rparr>);
             State_Monad.return (StepNext ls', False) }) })" for answer url err
  proof (cases answer)
    case (Inl e)
    then show ?thesis by (simp add: tail_spec_return final)
  next
    case (Inr b)
    then show ?thesis
      using record_delivery_tail [of ls ?more Q] next_one final
      by (simp add: State_Monad.bind_assoc)
  qed
  show ?thesis
    unfolding conclude_response_def finalize_upstream_response_def State_Monad.bind_assoc
    by (rule step_spec_bind spends_intros step_spec_bridged tail | simp)+
qed

lemma conclude_response_spec:
  "step_spec (plan_id plan) k (next_ok (has_more_candidates p (cp_index plan)) ls) (conclude_response env p plan resp ls)"
  by (rule conclude_response_holds) simp_all

lemma attempt_context_id [simp]: "attempt_id (attempt_context p plan body strip) = plan_id plan"
  by (simp add: attempt_id_def attempt_context_def plan_id_def)

lemma attempt_context_more [simp]: "at_has_more (attempt_context p plan body strip) = has_more_candidates p (cp_index plan)"
  by (simp add: attempt_context_def)

lemma candidate_attempt_spends:
  "spends (attempt_effects (plan_id plan)) 6 (run_candidate_attempt env hint (attempt_context p plan body strip))
     (\<lambda>d. d = CandFailover \<longrightarrow> has_more_candidates p (cp_index plan))"
  using run_candidate_attempt_spends [of "attempt_context p plan body strip"] by simp

lemma step_spec_next:
  assumes "spends (attempt_effects a) 0 m (\<lambda>ls'. same_progress ls ls' \<and> ls_request ls' = ls_request ls)"
    "ls_request ls" "has_more"
  shows "step_spec a k (next_ok has_more ls) (do { ls' \<leftarrow> m; State_Monad.return (StepNext ls', True) })"
  by (rule step_spec_bind [OF assms(1)]) (use assms(2,3) in \<open>auto intro: step_spec_kept\<close>)

lemma retry_without_session_spec:
  assumes "ls_request ls"
  shows "step_spec (plan_id plan) 6 (next_ok (has_more_candidates p (cp_index plan)) ls) (retry_without_session env p plan ls)"
proof -
  obtain body bodies where b: "retry_body (sp_tools p) (sp_path p) (sp_body p) (sp_setup p) None (cp_key plan) (ls_bodies ls) = (body, bodies)"
    by fastforce
  let ?ls = "ls\<lparr>ls_bodies := bodies\<rparr>" and ?more = "has_more_candidates p (cp_index plan)"
  have next_ls: "next_ok ?more ?ls = next_ok ?more ls" by (rule ext) (simp add: next_ok_def)
  have req: "ls_request ?ls" using assms by simp
  have "step_spec (plan_id plan) 6 (next_ok ?more ?ls) (retry_without_session env p plan ls)"
    unfolding retry_without_session_def Let_def b prod.case
    by (rule step_spec_bind [OF candidate_attempt_spends] step_spec_decision conclude_response_spec
        respond_terminal_attempt_spec step_spec_next record_failover_spends req | simp add: req)+
  then show ?thesis by (simp only: next_ls)
qed

lemma terminal_decision_spec:
  assumes "ls_request ls"
  shows "step_spec (plan_id plan) k (next_ok (has_more_candidates p (cp_index plan)) ls) (do {
      f \<leftarrow> should_failover_terminal_gateway_error env (plan_id plan)
             (has_more_candidates p (cp_index plan)) message ls;
      (case f of
         Some ls' \<Rightarrow> State_Monad.return (StepNext (forces_strip p (Some message) ls'), True)
       | None \<Rightarrow> do {
           r \<leftarrow> respond_terminal_attempt env p (plan_id plan) status message (ls_attempted ls);
           State_Monad.return (r, True) }) })"
  by (rule step_spec_bind [OF terminal_failover_spends] step_spec_option respond_terminal_attempt_spec
      step_spec_kept | simp add: assms)+

lemma try_candidate_spec:
  assumes "ls_request ls"
  shows "step_spec (plan_id plan) 12 (next_ok (has_more_candidates p (cp_index plan)) ls) (try_candidate env p plan ls)"
proof -
  let ?more = "has_more_candidates p (cp_index plan)"
  have failover: "step_spec (plan_id plan) k (next_ok ?more ls) (do {
      err \<leftarrow> gets gw_attempt_error;
      ls' \<leftarrow> record_failover_attempt (forces_strip p err ls);
      State_Monad.return (StepNext ls', True) })" if ?more for k
  proof (rule step_spec_bind [OF gets_spends])
    fix err
    have *: "next_ok b (forces_strip p err ls) = next_ok b ls" for b by (rule ext) (simp add: next_ok_def)
    show "step_spec (plan_id plan) (k - 0) (next_ok ?more ls) (do {
      ls' \<leftarrow> record_failover_attempt (forces_strip p err ls);
      State_Monad.return (StepNext ls', True) })"
      using step_spec_next [OF record_failover_spends, of "forces_strip p err ls"] that assms
      by (simp add: *)
  qed simp
  show ?thesis
    unfolding try_candidate_def
    by (rule step_spec_bind [OF candidate_attempt_spends] step_spec_decision step_spec_if
        failover terminal_decision_spec conclude_response_spec
        retry_without_session_spec | simp add: assms)+
qed

section \<open>One step of the loop\<close>

definition inflight_of :: "gateway_world \<Rightarrow> str \<Rightarrow> nat" where
  "inflight_of w = account_inflight_count (gw_inflight w)"

text \<open>The contract of a step: \<open>n\<close> is 1 when the client's request is still to be answered.\<close>

definition candidate_spec ::
    "str \<Rightarrow> nat \<Rightarrow> nat \<Rightarrow> (step_result \<Rightarrow> bool) \<Rightarrow> step_result gateway \<Rightarrow> bool" where
  "candidate_spec a k n Q m \<longleftrightarrow>
     (\<forall>w. case run_state m w of (r, w') \<Rightarrow>
        (\<exists>es. gw_log w' = gw_log w @ es \<and> list_all (request_event_ok a) es \<and> requests es \<le> k
              \<and> replies es + request_left r = n)
        \<and> inflight_of w' = inflight_of w
        \<and> (gw_bindings w' = gw_bindings w \<or> r = StepHandled)
        \<and> Q r)"

lemma candidate_spec_bind:
  assumes "spends (attempt_effects a) j m P" "j \<le> k" "\<And>x. P x \<Longrightarrow> candidate_spec a (k - j) n Q (h x)"
  shows "candidate_spec a k n Q (State_Monad.bind m h)"
  unfolding candidate_spec_def
proof
  fix w
  obtain x w1 where m: "run_state m w = (x, w1)" by fastforce
  from attempt.spends_result [OF assms(1) m] have eff: "attempt_effects a j w w1" and x: "P x" by auto
  obtain r w2 where h: "run_state (h x) w1 = (r, w2)" by fastforce
  from assms(3) [OF x, unfolded candidate_spec_def, rule_format, of w1] h
  obtain es where "gw_log w2 = gw_log w1 @ es" "list_all (request_event_ok a) es" "requests es \<le> k - j"
    "replies es + request_left r = n" "inflight_of w2 = inflight_of w1"
    "gw_bindings w2 = gw_bindings w1 \<or> r = StepHandled" "Q r" by auto
  moreover from eff obtain fs where "gw_log w1 = gw_log w @ fs" "list_all (attempt_event a) fs"
    "requests fs \<le> j" "inflight_of w1 = inflight_of w" "gw_bindings w1 = gw_bindings w"
    unfolding attempt_effects_def inflight_of_def by auto
  ultimately show "case run_state (State_Monad.bind m h) w of (r, w') \<Rightarrow>
      (\<exists>es. gw_log w' = gw_log w @ es \<and> list_all (request_event_ok a) es \<and> requests es \<le> k
              \<and> replies es + request_left r = n)
      \<and> inflight_of w' = inflight_of w \<and> (gw_bindings w' = gw_bindings w \<or> r = StepHandled) \<and> Q r"
    using assms(2) attempt_events [of a fs] by (simp add: m h)
qed

lemma candidate_spec_return: "request_left r = n \<Longrightarrow> Q r \<Longrightarrow> candidate_spec a k n Q (State_Monad.return r)"
  by (simp add: candidate_spec_def)

lemma candidate_spec_timeout:
  "Q StepHandled \<Longrightarrow> candidate_spec a k 1 Q (do { respond_total_timeout p attempted; State_Monad.return StepHandled })"
  by (simp add: candidate_spec_def respond_total_timeout_def respond_terminal_def inflight_of_def)

lemma candidate_spec_if:
  "(b \<Longrightarrow> candidate_spec a k n Q m) \<Longrightarrow> (\<not> b \<Longrightarrow> candidate_spec a k n Q m') \<Longrightarrow> candidate_spec a k n Q (if b then m else m')"
  by simp

lemma candidate_spec_option:
  "(v = None \<Longrightarrow> candidate_spec a k n Q m) \<Longrightarrow> (\<And>x. v = Some x \<Longrightarrow> candidate_spec a k n Q (f x))
     \<Longrightarrow> candidate_spec a k n Q (case v of None \<Rightarrow> m | Some x \<Rightarrow> f x)"
  by (cases v) simp_all

text \<open>The guard is taken before the attempts and dropped exactly once after it.\<close>

lemma candidate_spec_guarded:
  assumes "step_spec a k Q m"
  shows "candidate_spec a k 1 Q (do {
    acquire_account_inflight a;
    r \<leftarrow> m;
    run_if (snd r) (drop_account_inflight a);
    State_Monad.return (fst r) })"
  unfolding candidate_spec_def
proof
  fix w :: gateway_world
  define w1 where "w1 = w\<lparr>gw_inflight := inflight_acquired a (gw_inflight w)\<rparr>"
  obtain r held w2 where m: "run_state m w1 = ((r, held), w2)" by (metis prod.exhaust)
  define w3 where "w3 = (if held then w2\<lparr>gw_inflight := inflight_dropped a (gw_inflight w2)\<rparr> else w2)"
  have run: "run_state (do { acquire_account_inflight a; r \<leftarrow> m; run_if (snd r) (drop_account_inflight a);
      State_Monad.return (fst r) }) w = (r, w3)"
    using m by (simp add: acquire_account_inflight_def drop_account_inflight_def run_if_def w1_def w3_def)
  from assms [unfolded step_spec_def, rule_format, of w1] m
  obtain es where es: "gw_log w2 = gw_log w1 @ es" "list_all (request_event_ok a) es" "requests es \<le> k"
    "replies es + request_left r = 1"
    "gw_inflight w2 = (if held then gw_inflight w1 else inflight_dropped a (gw_inflight w1))"
    "gw_bindings w2 = gw_bindings w1 \<or> r = StepHandled" "Q r" by auto
  have "gw_inflight w3 = inflight_dropped a (inflight_acquired a (gw_inflight w))"
    using es(5) by (simp add: w3_def w1_def)
  then have "inflight_of w3 = inflight_of w"
    by (simp add: inflight_of_def inflight_count_dropped inflight_count_acquired)
  with es show "case run_state (do { acquire_account_inflight a; r \<leftarrow> m; run_if (snd r) (drop_account_inflight a);
      State_Monad.return (fst r) }) w of (r, w') \<Rightarrow>
      (\<exists>es. gw_log w' = gw_log w @ es \<and> list_all (request_event_ok a) es \<and> requests es \<le> k
              \<and> replies es + request_left r = 1)
      \<and> inflight_of w' = inflight_of w \<and> (gw_bindings w' = gw_bindings w \<or> r = StepHandled) \<and> Q r"
    unfolding run by (simp add: w1_def w3_def)
qed

text \<open>
  What a step that goes on has done: skipped the candidate, which happens to the last one only for
  Anthropic's protocol, or tried it, with another one to follow.
\<close>

definition step_progress :: "sequence_params \<Rightarrow> nat \<Rightarrow> str \<Rightarrow> loop_state \<Rightarrow> step_result \<Rightarrow> bool" where
  "step_progress p idx a ls r \<longleftrightarrow>
     (case r of
        StepNext ls' \<Rightarrow>
          (ls_attempted ls' = ls_attempted ls \<and> ls_request ls' = ls_request ls
           \<and> ls_skipped_cooldown ls' + ls_skipped_inflight ls' = Suc (ls_skipped_cooldown ls + ls_skipped_inflight ls)
           \<and> (has_more_candidates p idx \<or> sp_protocol p = protocol_anthropic_native))
          \<or> (ls_attempted ls' = ls_attempted ls @ [a] \<and> has_more_candidates p idx
             \<and> ls_skipped_cooldown ls' = ls_skipped_cooldown ls \<and> ls_skipped_inflight ls' = ls_skipped_inflight ls)
      | StepHandled \<Rightarrow> ls_request ls
      | _ \<Rightarrow> True)"

lemma should_skip_spends:
  "spends (attempt_effects a) 0 (should_skip_candidate env p b idx)
     (\<lambda>s. s \<noteq> None \<longrightarrow> has_more_candidates p idx \<or> sp_protocol p = protocol_anthropic_native)"
  unfolding should_skip_candidate_def candidate_skip_reason_for_proxy_def has_more_candidates_def
  by (rule attempt.spends_bind attempt.spends_steps spends_intros | simp)+

lemma prepare_candidate_fields:
  assumes "prepare_candidate env p snapshots idx candidate ls = (plan, ls')"
  shows "cp_account plan = fst candidate" "cp_index plan = idx" "same_progress ls ls'" "ls_request ls' = ls_request ls"
  using assms by (auto simp: prepare_candidate_def Let_def same_progress_def split: prod.splits)

lemma guarded_attempt_spec:
  assumes "ls_request ls"
  shows "candidate_spec (plan_id plan) 12 1 (next_ok (has_more_candidates p (cp_index plan)) ls) (guarded_attempt env p plan t ls)"
  unfolding guarded_attempt_def
  by (rule candidate_spec_bind [where j = 0, OF modify_spends])
     (simp_all del: One_nat_def add: candidate_spec_guarded try_candidate_spec assms)

lemma candidate_spec_weaken:
  "candidate_spec a k n P m \<Longrightarrow> (\<And>r. P r \<Longrightarrow> Q r) \<Longrightarrow> candidate_spec a k n Q m"
  unfolding candidate_spec_def case_prod_beta by blast

lemma candidate_step_spec:
  "candidate_spec (acc_id (fst candidate)) 12 (if ls_request ls then 1 else 0)
     (step_progress p idx (acc_id (fst candidate)) ls) (candidate_step env p snapshots idx candidate ls)"
proof -
  obtain plan ls1 where prep: "prepare_candidate env p snapshots idx candidate ls = (plan, ls1)" by fastforce
  note f = prepare_candidate_fields [OF prep]
  let ?a = "acc_id (fst candidate)"
  let ?ls = "ls1\<lparr>ls_attempted := ls_attempted ls1 @ [?a]\<rparr>"
  have id: "plan_id plan = ?a" using f(1) by (simp add: plan_id_def)
  have attempt: "candidate_spec ?a 12 1 (step_progress p idx ?a ls) (guarded_attempt env p plan t ?ls)"
    if "ls_request ls" for t
  proof -
    have "candidate_spec ?a 12 1 (next_ok (has_more_candidates p idx) ?ls) (guarded_attempt env p plan t ?ls)"
      using guarded_attempt_spec [of ?ls plan p env t] that f(2,4) id by simp
    then show ?thesis
      by (rule candidate_spec_weaken)
         (use f(3) that in \<open>auto simp: next_ok_def step_progress_def same_progress_def split: step_result.splits\<close>)
  qed
  have skipped: "step_progress p idx ?a ls (StepNext (skip_candidate reason ls1))"
    if "has_more_candidates p idx \<or> sp_protocol p = protocol_anthropic_native" for reason
    using that f(3,4) by (cases reason) (auto simp: step_progress_def skip_candidate_def same_progress_def)
  have skip_left: "request_left (StepNext (skip_candidate reason ls1)) = (if ls_request ls then 1 else 0)" for reason
    using f(4) by (cases reason) (simp_all add: skip_candidate_def)
  show ?thesis
    unfolding candidate_step_def prep prod.case Let_def
  proof (rule candidate_spec_bind [OF deadline_expired_spends], simp, rule candidate_spec_if)
    fix expired
    show "candidate_spec ?a (12 - 0) (if ls_request ls then 1 else 0) (step_progress p idx ?a ls)
      (if ls_request ls then do { respond_total_timeout p (ls_attempted ls); State_Monad.return StepHandled }
       else State_Monad.return StepPanic)"
      by (cases "ls_request ls")
         (simp_all del: One_nat_def add: candidate_spec_timeout candidate_spec_return step_progress_def)
  next
    fix expired
    let ?left = "if ls_request ls then 1 else (0::nat)"
    show "candidate_spec ?a (12 - 0) ?left (step_progress p idx ?a ls) (do {
        log_event (EvStart ?a idx (cp_strip plan));
        skip \<leftarrow> should_skip_candidate env p ?a idx;
        (case skip of
           Some reason \<Rightarrow> do {
             log_event (EvSkip ?a idx reason);
             State_Monad.return (StepNext (skip_candidate reason ls1)) }
         | None \<Rightarrow>
             (if \<not> ls_request ?ls then State_Monad.return (StepErr ''request already consumed'')
              else guarded_attempt env p plan (snd candidate) ?ls)) })"
      apply (rule candidate_spec_bind [OF log_event_spends], simp, simp, simp, simp)
      apply (rule candidate_spec_bind [OF should_skip_spends], simp)
      apply (rule candidate_spec_option)
       apply (rule candidate_spec_if)
        apply (rule candidate_spec_return)
         apply (simp add: f(4))
        apply (simp add: step_progress_def)
       apply (use attempt f(4) in \<open>simp del: One_nat_def\<close>)
      apply (rule candidate_spec_bind [OF log_event_spends], simp, simp, simp, simp)
      apply (rule candidate_spec_return [OF skip_left])
      apply (use skipped in blast)
      done
  qed
qed

section \<open>The sequence\<close>

lemma candidate_step_run:
  assumes "run_state (candidate_step env p snapshots idx candidate ls) w = (r, w')"
  obtains es where "gw_log w' = gw_log w @ es" "list_all (request_event_ok (acc_id (fst candidate))) es"
    "requests es \<le> 12" "replies es + request_left r = (if ls_request ls then 1 else 0)"
    "inflight_of w' = inflight_of w" "gw_bindings w' = gw_bindings w \<or> r = StepHandled"
    "step_progress p idx (acc_id (fst candidate)) ls r"
  using candidate_step_spec [of candidate ls p idx env snapshots, unfolded candidate_spec_def, rule_format, of w] assms
  by auto

definition candidate_ids :: "(account \<times> token) list \<Rightarrow> str list" where
  "candidate_ids cs = map (\<lambda>c. acc_id (fst c)) cs"

fun sequence_left :: "sequence_result \<Rightarrow> nat" where
  "sequence_left (SeqExhausted ls) = 1"
| "sequence_left _ = 0"

text \<open>The events of a run, cut into one block per candidate reached.\<close>

definition event_blocks :: "str list \<Rightarrow> event list list \<Rightarrow> bool" where
  "event_blocks ids blocks \<longleftrightarrow>
     length blocks \<le> length ids
     \<and> (\<forall>i < length blocks. list_all (request_event_ok (ids ! i)) (blocks ! i) \<and> requests (blocks ! i) \<le> 12)"

lemma event_blocks_Nil [simp]: "event_blocks ids []"
  by (simp add: event_blocks_def)

lemma event_blocks_Cons:
  "list_all (request_event_ok a) es \<Longrightarrow> requests es \<le> 12 \<Longrightarrow> event_blocks ids blocks
   \<Longrightarrow> event_blocks (a # ids) (es # blocks)"
  by (auto simp: event_blocks_def nth_Cons split: nat.split)

text \<open>Every candidate of an exhausted sequence was tried, in order, or skipped.\<close>

definition exhausted_after :: "str list \<Rightarrow> loop_state \<Rightarrow> loop_state \<Rightarrow> bool" where
  "exhausted_after ids ls ls' \<longleftrightarrow>
     (\<exists>tried. ls_attempted ls' = ls_attempted ls @ tried \<and> subseq tried ids
        \<and> length tried + ls_skipped_cooldown ls' + ls_skipped_inflight ls'
            = length ids + ls_skipped_cooldown ls + ls_skipped_inflight ls)"

lemma exhausted_after_step:
  assumes "step_progress p idx a ls (StepNext ls1)" "exhausted_after ids ls1 ls'"
  shows "exhausted_after (a # ids) ls ls'"
proof -
  from assms(2) obtain tried where t: "ls_attempted ls' = ls_attempted ls1 @ tried" "subseq tried ids"
    "length tried + ls_skipped_cooldown ls' + ls_skipped_inflight ls'
       = length ids + ls_skipped_cooldown ls1 + ls_skipped_inflight ls1"
    unfolding exhausted_after_def by blast
  from assms(1) consider
      (skipped) "ls_attempted ls1 = ls_attempted ls"
        "ls_skipped_cooldown ls1 + ls_skipped_inflight ls1 = Suc (ls_skipped_cooldown ls + ls_skipped_inflight ls)"
    | (tried) "ls_attempted ls1 = ls_attempted ls @ [a]" "ls_skipped_cooldown ls1 = ls_skipped_cooldown ls"
        "ls_skipped_inflight ls1 = ls_skipped_inflight ls"
    by (auto simp: step_progress_def)
  then show ?thesis
  proof cases
    case skipped
    with t show ?thesis unfolding exhausted_after_def by (intro exI [of _ tried]) auto
  next
    case tried
    with t show ?thesis unfolding exhausted_after_def by (intro exI [of _ "a # tried"]) auto
  qed
qed

lemma run_candidates_spec:
  assumes "run_state (run_candidates env p snapshots idx cs ls) w = (r, w')"
  shows "(\<exists>blocks. gw_log w' = gw_log w @ concat blocks \<and> event_blocks (candidate_ids cs) blocks
            \<and> replies (concat blocks) + sequence_left r = (if ls_request ls then 1 else 0))
    \<and> inflight_of w' = inflight_of w
    \<and> (gw_bindings w' = gw_bindings w \<or> r = SeqHandled)
    \<and> (r = SeqHandled \<longrightarrow> ls_request ls)
    \<and> (\<forall>ls'. r = SeqExhausted ls' \<longrightarrow> exhausted_after (candidate_ids cs) ls ls')"
  using assms
proof (induction cs arbitrary: idx ls w)
  case Nil
  then show ?case by (auto simp: exhausted_after_def candidate_ids_def intro!: exI [of _ "[]"])
next
  case (Cons c cs)
  obtain s w1 where step: "run_state (candidate_step env p snapshots idx c ls) w = (s, w1)" by fastforce
  from candidate_step_run [OF step] obtain es where es: "gw_log w1 = gw_log w @ es"
    "list_all (request_event_ok (acc_id (fst c))) es" "requests es \<le> 12"
    "replies es + request_left s = (if ls_request ls then 1 else 0)" "inflight_of w1 = inflight_of w"
    "gw_bindings w1 = gw_bindings w \<or> s = StepHandled" "step_progress p idx (acc_id (fst c)) ls s" by metis
  have ids: "candidate_ids (c # cs) = acc_id (fst c) # candidate_ids cs" by (simp add: candidate_ids_def)
  have one: "event_blocks (candidate_ids (c # cs)) [es]"
    unfolding ids by (rule event_blocks_Cons) (use es in simp_all)
  show ?case
  proof (cases s)
    case (StepNext ls1)
    with Cons.prems step have rest: "run_state (run_candidates env p snapshots (Suc idx) cs ls1) w1 = (r, w')" by simp
    from Cons.IH [OF rest] obtain blocks where b: "gw_log w' = gw_log w1 @ concat blocks"
      "event_blocks (candidate_ids cs) blocks"
      "replies (concat blocks) + sequence_left r = (if ls_request ls1 then 1 else 0)"
      "inflight_of w' = inflight_of w1" "gw_bindings w' = gw_bindings w1 \<or> r = SeqHandled"
      "r = SeqHandled \<longrightarrow> ls_request ls1"
      "\<forall>ls'. r = SeqExhausted ls' \<longrightarrow> exhausted_after (candidate_ids cs) ls1 ls'" by blast
    have blocks: "event_blocks (candidate_ids (c # cs)) (es # blocks)"
      unfolding ids by (rule event_blocks_Cons) (use es b in simp_all)
    have request: "ls_request ls1 \<longrightarrow> ls_request ls" using es(4) StepNext by (auto split: if_splits)
    show ?thesis
    proof (intro conjI)
      show "\<exists>blocks. gw_log w' = gw_log w @ concat blocks \<and> event_blocks (candidate_ids (c # cs)) blocks
          \<and> replies (concat blocks) + sequence_left r = (if ls_request ls then 1 else 0)"
        by (rule exI [of _ "es # blocks"]) (use es(1,4) b(1,3) blocks StepNext in simp)
      show "\<forall>ls'. r = SeqExhausted ls' \<longrightarrow> exhausted_after (candidate_ids (c # cs)) ls ls'"
        unfolding ids using b(7) es(7) StepNext by (blast intro: exhausted_after_step)
    qed (use es b StepNext request in auto)
  qed (use Cons.prems step es one in \<open>auto simp: step_progress_def intro!: exI [of _ "[es]"]\<close>)
qed

lemma last_candidate_decides:
  assumes "run_state (run_candidates env p snapshots idx cs ls) w = (r, w')"
    and "cs \<noteq> []" "idx + length cs = sp_count p" "sp_protocol p \<noteq> protocol_anthropic_native"
  shows "sequence_left r = 0"
  using assms
proof (induction cs arbitrary: idx ls w)
  case (Cons c cs)
  obtain s w1 where step: "run_state (candidate_step env p snapshots idx c ls) w = (s, w1)" by fastforce
  from candidate_step_run [OF step] have "step_progress p idx (acc_id (fst c)) ls s" by metis
  then have more: "s = StepNext ls1 \<Longrightarrow> has_more_candidates p idx" for ls1
    using Cons.prems(4) by (auto simp: step_progress_def)
  show ?case
  proof (cases s)
    case (StepNext ls1)
    with more Cons.prems(3) have "cs \<noteq> []" by (auto simp: has_more_candidates_def)
    with Cons StepNext step show ?thesis by simp
  qed (use Cons.prems step in auto)
qed simp

lemma run_execute:
  "run_state (execute_candidate_sequence env p cs) w
     = run_state (run_candidates env p (usage_snapshots_for_candidate_plans (ge_decoders env) (gw_store w) cs)
         0 cs initial_loop_state) w"
  by (simp add: execute_candidate_sequence_def)

lemmas execute_spec = run_candidates_spec [where idx = 0 and ls = initial_loop_state]

lemma initial_request [simp]: "ls_request initial_loop_state" "ls_attempted initial_loop_state = []"
  "ls_skipped_cooldown initial_loop_state = 0" "ls_skipped_inflight initial_loop_state = 0"
  by (simp_all add: initial_loop_state_def)

lemma event_blocks_total: "event_blocks ids blocks \<Longrightarrow> requests (concat blocks) \<le> 12 * length ids"
proof (induction blocks arbitrary: ids)
  case (Cons es blocks)
  then obtain a rest where ids: "ids = a # rest" by (cases ids) (auto simp: event_blocks_def)
  from Cons.prems ids have "event_blocks rest blocks" "requests es \<le> 12"
    by (auto simp: event_blocks_def dest: spec [of _ "Suc _"])
  with Cons.IH [of rest] ids show ?case by simp
qed (simp add: event_blocks_def)


text \<open>
  C4: the client is answered once. Whatever the upstream, the clocks and the tables do, a run
  hands the client's request to exactly one answer, or to none when the candidates are exhausted,
  which is when the caller still has the request to answer.
\<close>

theorem client_answered_once:
  "\<exists>es. gw_log (snd (run_state (execute_candidate_sequence env p cs) w)) = gw_log w @ es
     \<and> replies es + sequence_left (fst (run_state (execute_candidate_sequence env p cs) w)) = 1"
proof -
  obtain r w' where run: "run_state (execute_candidate_sequence env p cs) w = (r, w')" by fastforce
  from execute_spec [OF run [unfolded run_execute]] run show ?thesis by auto
qed

text \<open>
  C7: the counters of requests in flight are given back. After a run, however it ends, every
  account has the count it had before.
\<close>

theorem inflight_counts_restored:
  "inflight_of (snd (run_state (execute_candidate_sequence env p cs) w)) = inflight_of w"
proof -
  obtain r w' where run: "run_state (execute_candidate_sequence env p cs) w = (r, w')" by fastforce
  from execute_spec [OF run [unfolded run_execute]] run show ?thesis by simp
qed

text \<open>
  C6: a pool of candidates decides. For every protocol but Anthropic's, a run over a pool that is
  not empty answers the client: the last candidate is tried whatever its cooldown and its load, and
  it cannot fail over.
\<close>

theorem nonempty_pool_decides:
  assumes "cs \<noteq> []" "sp_count p = length cs" "sp_protocol p \<noteq> protocol_anthropic_native"
  shows "\<exists>es. gw_log (snd (run_state (execute_candidate_sequence env p cs) w)) = gw_log w @ es \<and> replies es = 1"
proof -
  obtain r w' where run: "run_state (execute_candidate_sequence env p cs) w = (r, w')" by fastforce
  have "sequence_left r = 0"
    by (rule last_candidate_decides [OF run [unfolded run_execute]]) (use assms in simp_all)
  with execute_spec [OF run [unfolded run_execute]] run show ?thesis by auto
qed

text \<open>
  C8: an exhausted run has tried or skipped every candidate: the accounts attempted are a
  subsequence of the candidates, every other candidate is counted as skipped for its cooldown or its
  load, no binding has changed and the client has got no answer.
\<close>

theorem exhausted_sequence_complete:
  assumes "run_state (execute_candidate_sequence env p cs) w = (SeqExhausted ls, w')"
  shows "subseq (ls_attempted ls) (candidate_ids cs)
    \<and> length (ls_attempted ls) + ls_skipped_cooldown ls + ls_skipped_inflight ls = length cs
    \<and> gw_bindings w' = gw_bindings w
    \<and> (\<exists>es. gw_log w' = gw_log w @ es \<and> replies es = 0)"
proof -
  from execute_spec [OF assms [unfolded run_execute]]
  have ex: "exhausted_after (candidate_ids cs) initial_loop_state ls"
    and rest: "gw_bindings w' = gw_bindings w" "\<exists>es. gw_log w' = gw_log w @ es \<and> replies es = 0" by auto
  from ex have "subseq (ls_attempted ls) (candidate_ids cs)"
    "length (ls_attempted ls) + ls_skipped_cooldown ls + ls_skipped_inflight ls = length cs"
    by (auto simp: exhausted_after_def candidate_ids_def)
  with rest show ?thesis by blast
qed

text \<open>
  C10: a run that starts after its deadline answers 504 at once, sends nothing upstream and
  changes neither the tables nor the cooldowns.
\<close>

theorem expired_deadline_times_out:
  assumes "is_expired (sp_deadline p) (ge_instant env (gw_tick w))" "cs \<noteq> []"
  shows "run_state (execute_candidate_sequence env p cs) w
    = (SeqHandled, w\<lparr>gw_tick := Suc (gw_tick w),
         gw_log := gw_log w @ [EvFinal None None 504 (Some total_timeout) [],
                               EvRespond 504 (error_message_for_client (sp_prefers_raw p) total_timeout)]\<rparr>)"
  using assms
  by (cases cs) (simp_all add: run_execute candidate_step_def deadline_expired_def respond_total_timeout_def
      respond_terminal_def)

lemma consumed_step:
  assumes "\<not> ls_request ls" "run_state (candidate_step env p snapshots idx c ls) w = (r, w')"
  shows "(case r of StepNext ls' \<Rightarrow> \<not> ls_request ls' | StepHandled \<Rightarrow> False
     | StepErr e \<Rightarrow> e = ''request already consumed'' | StepPanic \<Rightarrow> True)
    \<and> (\<exists>es. gw_log w' = gw_log w @ es \<and> requests es = 0 \<and> replies es = 0)"
proof -
  obtain plan ls1 where prep: "prepare_candidate env p snapshots idx c ls = (plan, ls1)" by fastforce
  with assms(1) have gone: "\<not> ls_request ls1" using prepare_candidate_fields (4) by metis
  obtain skip w2 where skip: "run_state (should_skip_candidate env p (acc_id (fst c)) idx)
      (w\<lparr>gw_tick := Suc (gw_tick w), gw_log := gw_log w @ [EvStart (acc_id (fst c)) idx (cp_strip plan)]\<rparr>) = (skip, w2)"
    by fastforce
  from attempt.spends_result [OF should_skip_spends skip] obtain es where
    es: "gw_log w2 = gw_log w @ EvStart (acc_id (fst c)) idx (cp_strip plan) # es"
      "list_all (attempt_event (acc_id (fst c))) es" "requests es = 0"
    unfolding attempt_effects_def by auto
  note quiet = attempt_events (2) [OF es(2)]
  show ?thesis
  proof (cases "is_expired (sp_deadline p) (ge_instant env (gw_tick w))")
    case True
    with assms show ?thesis by (auto simp: candidate_step_def deadline_expired_def)
  next
    case False
    with assms prep skip gone show ?thesis
      using es quiet
      by (cases skip) (auto simp: candidate_step_def deadline_expired_def Let_def skip_candidate_def
          split: skip_reason.splits)
  qed
qed

lemma consumed_sequence:
  assumes "\<not> ls_request ls" "run_state (run_candidates env p snapshots idx cs ls) w = (r, w')"
  shows "r \<in> {SeqErr ''request already consumed'', SeqPanic}
    \<and> (\<exists>es. gw_log w' = gw_log w @ es \<and> requests es = 0 \<and> replies es = 0)"
  using assms
proof (induction cs arbitrary: idx ls w)
  case (Cons c cs)
  obtain s w1 where step: "run_state (candidate_step env p snapshots idx c ls) w = (s, w1)" by fastforce
  from consumed_step [OF Cons.prems(1) step] obtain es where
    s: "case s of StepNext ls' \<Rightarrow> \<not> ls_request ls' | StepHandled \<Rightarrow> False
     | StepErr e \<Rightarrow> e = ''request already consumed'' | StepPanic \<Rightarrow> True"
    and es: "gw_log w1 = gw_log w @ es" "requests es = 0" "replies es = 0" by blast
  show ?case
  proof (cases s)
    case (StepNext ls1)
    with Cons.prems step have rest: "run_state (run_candidates env p snapshots (Suc idx) cs ls1) w1 = (r, w')" by simp
    from Cons.IH [OF _ rest] s StepNext obtain fs where
      "r \<in> {SeqErr ''request already consumed'', SeqPanic}"
      "gw_log w' = gw_log w1 @ fs" "requests fs = 0" "replies fs = 0" by auto
    with es show ?thesis by (auto intro!: exI [of _ "es @ fs"])
  qed (use s es Cons.prems step in auto)
qed auto


section \<open>Concrete runs\<close>

definition demo_answer :: "nat \<Rightarrow> response" where
  "demo_answer status = \<lparr>rs_status = status, rs_content_type = None, rs_cf_ray = None, rs_body = ''''\<rparr>"

definition demo_bridge :: "str option \<Rightarrow> bridge_result" where
  "demo_bridge hint = \<lparr>br_stream_terminal_seen = True, br_stream_terminal_error = None,
     br_delivery_error = None, br_upstream_error_hint = hint, br_delivered_status_code = None\<rparr>"

definition demo_gateway :: "(send_request \<Rightarrow> str + response) \<Rightarrow> str option \<Rightarrow> gateway_env" where
  "demo_gateway send hint = \<lparr>ge_instant = (\<lambda>n. n), ge_now = (\<lambda>n. int n), ge_draw = (\<lambda>_ _. 0),
     ge_send = (\<lambda>_. send), ge_fallback = (\<lambda>_ _ _. Inr None),
     ge_refresh = (\<lambda>_. demo_peer (Inl '''') []), ge_bridge = (\<lambda>_ _ _. Inr (demo_bridge hint)),
     ge_process = \<lparr>pe_var = (\<lambda>_. None), pe_parse_f64 = (\<lambda>_. None)\<rparr>, ge_decoders = demo_decoders,
     ge_print = (\<lambda>_. None), ge_default_issuer = ''iss'', ge_client_id = ''c''\<rparr>"

definition demo_params :: "str \<Rightarrow> nat \<Rightarrow> nat option \<Rightarrow> sequence_params" where
  "demo_params protocol n deadline = \<lparr>sp_headers = empty_snapshot, sp_body = ''b'', sp_path = ''/v1/responses'',
     sp_request_path = ''/v1/responses'', sp_prefers_raw = False, sp_protocol = protocol,
     sp_model_for_log = None, sp_setup = demo_setup\<lparr>su_encrypted := False\<rparr>, sp_count = n,
     sp_max_inflight = 0, sp_deadline = deadline, sp_client_is_stream = True, sp_upstream_is_stream = True,
     sp_allow_fallback = False, sp_disable_stateless = False, sp_tools = demo_tools,
     sp_hint = (\<lambda>_. '''')\<rparr>"

definition demo_candidate :: "str \<Rightarrow> account \<times> token" where
  "demo_candidate i = (\<lparr>acc_id = i, acc_label = i, acc_issuer = '''', acc_chatgpt_account_id = None,
     acc_workspace_id = None, acc_group_name = None, acc_sort = 0, acc_status = ''active'',
     acc_created_at = 0, acc_updated_at = 0\<rparr>,
     \<lparr>tok_account_id = i, tok_id_token = '''', tok_access_token = ''t'', tok_refresh_token = '''',
      tok_api_key_access_token = None, tok_last_refresh = 0\<rparr>)"

definition demo_gateway_world :: "cooldown_state \<Rightarrow> gateway_world" where
  "demo_gateway_world cooling = \<lparr>gw_tick = 0, gw_cooldown = cooling, gw_quality = empty_quality,
     gw_store = \<lparr>st_accounts = [], st_tokens = [], st_snapshots = [], st_events = [], st_next_id = 0, st_fault = None\<rparr>,
     gw_schedule = Map.empty, gw_selection = initial_selection, gw_bindings = \<lparr>bt_rows = [], bt_fault = None\<rparr>,
     gw_inflight = Map.empty, gw_token = demo_refresh_token, gw_attempt_url = None, gw_attempt_error = None,
     gw_log = []\<rparr>"

lemma expired_deadline_times_out_witness:
  "fst (run_state (execute_candidate_sequence (demo_gateway (\<lambda>_. Inl ''down'') None)
      (demo_params protocol_openai_compat 1 (Some 0)) [demo_candidate ''a'']) (demo_gateway_world empty_cooldown))
     = SeqHandled"
  by (subst expired_deadline_times_out)
     (simp_all add: demo_params_def demo_gateway_def demo_gateway_world_def is_expired_def remaining_def)

lemma nonempty_pool_decides_witness:
  "\<exists>es. gw_log (snd (run_state (execute_candidate_sequence (demo_gateway (\<lambda>_. Inl ''down'') None)
      (demo_params protocol_openai_compat 2 None) [demo_candidate ''a'', demo_candidate ''b''])
      (demo_gateway_world empty_cooldown))) = es \<and> replies es = 1"
  using nonempty_pool_decides [of "[demo_candidate ''a'', demo_candidate ''b'']" "demo_params protocol_openai_compat 2 None"
      "demo_gateway (\<lambda>_. Inl ''down'') None" "demo_gateway_world empty_cooldown"]
  by (simp add: demo_params_def demo_gateway_world_def)

definition cooling_a :: cooldown_state where
  "cooling_a = empty_cooldown\<lparr>cd_entries := [''a'' \<mapsto> 100]\<rparr>"



lemma cooling_step:
  assumes "\<not> is_expired (sp_deadline p) (ge_instant env (gw_tick w))"
    and "fst (is_account_in_cooldown (acc_id (fst c)) (ge_now env (Suc (gw_tick w))) (gw_cooldown w))"
    and "has_more_candidates p idx \<or> sp_protocol p = protocol_anthropic_native"
  obtains plan ls1 cd where "prepare_candidate env p snapshots idx c ls = (plan, ls1)"
    "run_state (candidate_step env p snapshots idx c ls) w
      = (StepNext (skip_candidate SkipCooldown ls1),
         w\<lparr>gw_tick := Suc (Suc (gw_tick w)), gw_cooldown := cd,
           gw_log := gw_log w @ [EvStart (acc_id (fst c)) idx (cp_strip plan), EvSkip (acc_id (fst c)) idx SkipCooldown]\<rparr>)"
proof -
  obtain plan ls1 where prep: "prepare_candidate env p snapshots idx c ls = (plan, ls1)" by fastforce
  obtain cd where cd: "is_account_in_cooldown (acc_id (fst c)) (ge_now env (Suc (gw_tick w))) (gw_cooldown w) = (True, cd)"
    using assms(2) by (metis (full_types) prod.collapse)
  have more: "idx + 1 < sp_count p \<or> sp_protocol p = protocol_anthropic_native"
    using assms(3) by (simp add: has_more_candidates_def)
  show thesis
    by (rule that [OF prep])
       (use assms(1) more cd in \<open>simp add: candidate_step_def deadline_expired_def prep Let_def
          should_skip_candidate_def candidate_skip_reason_for_proxy_def in_cooldown_def\<close>)
qed

text \<open>
  C11: a candidate in cooldown is passed over without a request when another one follows it, and
  with Anthropic's protocol even when it is the last.
\<close>

theorem cooling_candidate_skipped:
  assumes "\<not> is_expired (sp_deadline p) (ge_instant env (gw_tick w))"
    and "fst (is_account_in_cooldown (acc_id (fst c)) (ge_now env (Suc (gw_tick w))) (gw_cooldown w))"
    and "has_more_candidates p idx \<or> sp_protocol p = protocol_anthropic_native"
  shows "\<exists>ls' w' strip. run_state (candidate_step env p snapshots idx c ls) w = (StepNext ls', w')
     \<and> gw_log w' = gw_log w @ [EvStart (acc_id (fst c)) idx strip, EvSkip (acc_id (fst c)) idx SkipCooldown]
     \<and> ls_request ls' = ls_request ls \<and> ls_attempted ls' = ls_attempted ls
     \<and> ls_skipped_cooldown ls' = Suc (ls_skipped_cooldown ls)"
proof -
  obtain plan ls1 cd where "prepare_candidate env p snapshots idx c ls = (plan, ls1)"
    and run: "run_state (candidate_step env p snapshots idx c ls) w
      = (StepNext (skip_candidate SkipCooldown ls1),
         w\<lparr>gw_tick := Suc (Suc (gw_tick w)), gw_cooldown := cd,
           gw_log := gw_log w @ [EvStart (acc_id (fst c)) idx (cp_strip plan), EvSkip (acc_id (fst c)) idx SkipCooldown]\<rparr>)"
    by (rule cooling_step [OF assms])
  from prepare_candidate_fields (3,4) [OF this(1)] show ?thesis
    by (simp add: run skip_candidate_def same_progress_def)
qed

lemma cooling_a:
  "fst (is_account_in_cooldown (acc_id (fst (demo_candidate ''a''))) (ge_now (demo_gateway (\<lambda>_. Inl ''down'') None)
     (Suc (gw_tick (demo_gateway_world cooling_a)))) (gw_cooldown (demo_gateway_world cooling_a)))"
  "\<not> is_expired (sp_deadline (demo_params protocol_anthropic_native 1 None))
     (ge_instant (demo_gateway (\<lambda>_. Inl ''down'') None) (gw_tick (demo_gateway_world cooling_a)))"
  "sp_protocol (demo_params protocol_anthropic_native 1 None) = protocol_anthropic_native"
  by (simp_all add: demo_candidate_def demo_params_def demo_gateway_def demo_gateway_world_def is_expired_def
      remaining_def is_account_in_cooldown_def cooling_a_def empty_cooldown_def)

lemma cooling_candidate_skipped_witness:
  "\<exists>ls' w'. run_state (candidate_step (demo_gateway (\<lambda>_. Inl ''down'') None)
      (demo_params protocol_anthropic_native 1 None) Map.empty 0 (demo_candidate ''a'') initial_loop_state)
      (demo_gateway_world cooling_a) = (StepNext ls', w') \<and> ls_skipped_cooldown ls' = 1"
  using cooling_candidate_skipped [OF cooling_a(2) cooling_a(1) disjI2 [OF cooling_a(3)],
      of Map.empty 0 initial_loop_state]
  by auto

lemma exhausted_sequence_complete_witness:
  "\<exists>ls w'. run_state (execute_candidate_sequence (demo_gateway (\<lambda>_. Inl ''down'') None)
      (demo_params protocol_anthropic_native 1 None) [demo_candidate ''a'']) (demo_gateway_world cooling_a)
    = (SeqExhausted ls, w') \<and> length (ls_attempted ls) + ls_skipped_cooldown ls + ls_skipped_inflight ls = 1"
proof -
  let ?env = "demo_gateway (\<lambda>_. Inl ''down'') None" and ?p = "demo_params protocol_anthropic_native 1 None"
    and ?w = "demo_gateway_world cooling_a" and ?cs = "[demo_candidate ''a'']"
  let ?snaps = "usage_snapshots_for_candidate_plans (ge_decoders ?env) (gw_store ?w) ?cs"
  obtain plan ls1 cd where prep: "prepare_candidate ?env ?p ?snaps 0 (demo_candidate ''a'') initial_loop_state = (plan, ls1)"
    and run: "run_state (candidate_step ?env ?p ?snaps 0 (demo_candidate ''a'') initial_loop_state) ?w
      = (StepNext (skip_candidate SkipCooldown ls1),
         ?w\<lparr>gw_tick := Suc (Suc (gw_tick ?w)), gw_cooldown := cd,
           gw_log := gw_log ?w @ [EvStart (acc_id (fst (demo_candidate ''a''))) 0 (cp_strip plan),
             EvSkip (acc_id (fst (demo_candidate ''a''))) 0 SkipCooldown]\<rparr>)"
    by (rule cooling_step [OF cooling_a(2) cooling_a(1) disjI2 [OF cooling_a(3)]])
  have "ls_request (skip_candidate SkipCooldown ls1)"
    using prepare_candidate_fields (4) [OF prep] by (simp add: skip_candidate_def)
  with run have whole: "run_state (execute_candidate_sequence ?env ?p ?cs) ?w
      = (SeqExhausted (skip_candidate SkipCooldown ls1),
         ?w\<lparr>gw_tick := Suc (Suc (gw_tick ?w)), gw_cooldown := cd,
           gw_log := gw_log ?w @ [EvStart (acc_id (fst (demo_candidate ''a''))) 0 (cp_strip plan),
             EvSkip (acc_id (fst (demo_candidate ''a''))) 0 SkipCooldown]\<rparr>)"
    by (simp only: run_execute run_candidates.simps run_state_bind prod.case step_result.case run_state_return if_True)
  from exhausted_sequence_complete [OF whole] whole show ?thesis by simp
qed


lemma handed_over_request_gone:
  assumes "run_state (conclude_response env p plan resp ls) w = ((StepNext ls', held), w')"
  shows "\<not> ls_request ls'"
proof -
  have "step_spec (plan_id plan) 0 (\<lambda>r. \<forall>l. r = StepNext l \<longrightarrow> \<not> ls_request l) (conclude_response env p plan resp ls)"
    by (rule conclude_response_holds) simp_all
  from this [unfolded step_spec_def, rule_format, of w] assms show ?thesis by simp
qed

text \<open>
  C9: a failover that is decided after a response was handed over is lost: the client's request
  went with the response, so whatever candidates follow, the run ends in the error
  \<^verbatim>\<open>request already consumed\<close> or in the panic of an \<^verbatim>\<open>expect\<close>.
\<close>

theorem failover_after_delivery_is_lost:
  assumes "run_state (conclude_response env p plan resp ls) w = ((StepNext ls', held), w')"
  shows "fst (run_state (run_candidates env p snapshots idx cs ls') w')
    \<in> {SeqErr ''request already consumed'', SeqPanic}"
proof -
  obtain r w2 where run: "run_state (run_candidates env p snapshots idx cs ls') w' = (r, w2)" by fastforce
  from consumed_sequence [OF handed_over_request_gone [OF assms] run] run show ?thesis by simp
qed

definition demo_plan :: candidate_plan where
  "demo_plan = \<lparr>cp_account = fst (demo_candidate ''a''), cp_index = 0, cp_strip = False, cp_headers = empty_snapshot,
     cp_key = None, cp_allow_fallback = False, cp_body = ''b''\<rparr>"

lemma usage_limit_fails_over:
  "ef_failover (analyze_gateway_error ''usage limit has been reached'' True)"
  by code_simp

lemma usage_limit_goes_on:
  "\<exists>ls' w'. run_state (conclude_response (demo_gateway (\<lambda>_. Inl ''down'') (Some ''usage limit has been reached''))
      (demo_params protocol_openai_compat 2 None) demo_plan (demo_answer 200) initial_loop_state)
      (demo_gateway_world empty_cooldown) = ((StepNext ls', False), w')"
  using usage_limit_fails_over
  by (simp add: conclude_response_def finalize_upstream_response_def drop_account_inflight_def record_delivery_def
      demo_gateway_def demo_params_def demo_plan_def demo_bridge_def demo_answer_def has_more_candidates_def Let_def
      derive_final_error_def apply_gateway_error_follow_up_def run_if_def record_failover_attempt_def
      bridge_is_ok_def split: prod.split)

lemma failover_after_delivery_is_lost_witness:
  "\<exists>ls' w'. run_state (conclude_response (demo_gateway (\<lambda>_. Inl ''down'') (Some ''usage limit has been reached''))
      (demo_params protocol_openai_compat 2 None) demo_plan (demo_answer 200) initial_loop_state)
      (demo_gateway_world empty_cooldown) = ((StepNext ls', False), w')
    \<and> fst (run_state (run_candidates (demo_gateway (\<lambda>_. Inl ''down'') (Some ''usage limit has been reached''))
      (demo_params protocol_openai_compat 2 None) Map.empty 1 [demo_candidate ''b''] ls') w')
      \<in> {SeqErr ''request already consumed'', SeqPanic}"
proof -
  obtain ls' w' where run: "run_state (conclude_response
      (demo_gateway (\<lambda>_. Inl ''down'') (Some ''usage limit has been reached''))
      (demo_params protocol_openai_compat 2 None) demo_plan (demo_answer 200) initial_loop_state)
      (demo_gateway_world empty_cooldown) = ((StepNext ls', False), w')"
    using usage_limit_goes_on by blast
  from failover_after_delivery_is_lost [OF run, of Map.empty 1 "[demo_candidate ''b'']"] run show ?thesis by blast
qed


end
