(* ===== verification/Sql_Table.thy ===== *)
theory Sql_Table
  imports Keyed_Store
begin

text \<open>
  Rows of a table with a primary or unique key, in scan order, and the statements the storage
  layer runs on them: a lookup by key, \<^verbatim>\<open>INSERT ... ON CONFLICT DO UPDATE\<close>,
  \<^verbatim>\<open>INSERT OR IGNORE\<close> and \<^verbatim>\<open>DELETE\<close>. With a merge that keeps the key, a
  table is a \<open>keyed_store\<close>.
\<close>

definition row_find :: "('r \<Rightarrow> 'k) \<Rightarrow> 'r list \<Rightarrow> 'k \<Rightarrow> 'r option" where
  "row_find key rows k = List.find (\<lambda>r. key r = k) rows"

definition row_exists :: "('r \<Rightarrow> 'k) \<Rightarrow> 'r list \<Rightarrow> 'k \<Rightarrow> bool" where
  "row_exists key rows k = list_ex (\<lambda>r. key r = k) rows"

definition row_upsert :: "('r \<Rightarrow> 'k) \<Rightarrow> ('r \<Rightarrow> 'r \<Rightarrow> 'r) \<Rightarrow> 'r \<Rightarrow> 'r list \<Rightarrow> 'r list" where
  "row_upsert key merge r rows =
     (if row_exists key rows (key r) then map (\<lambda>x. if key x = key r then merge x r else x) rows
      else rows @ [r])"

definition row_insert_ignore :: "('r \<Rightarrow> 'k) \<Rightarrow> 'r \<Rightarrow> 'r list \<Rightarrow> 'r list" where
  "row_insert_ignore key r rows = (if row_exists key rows (key r) then rows else rows @ [r])"

definition rows_insert_ignore :: "('r \<Rightarrow> 'k) \<Rightarrow> 'r list \<Rightarrow> 'r list \<Rightarrow> 'r list" where
  "rows_insert_ignore key rs rows = fold (row_insert_ignore key) rs rows"

definition row_delete :: "('r \<Rightarrow> 'k) \<Rightarrow> 'k \<Rightarrow> 'r list \<Rightarrow> 'r list" where
  "row_delete key k rows = filter (\<lambda>r. key r \<noteq> k) rows"

definition keys_unique :: "('r \<Rightarrow> 'k) \<Rightarrow> 'r list \<Rightarrow> bool" where
  "keys_unique key rows \<longleftrightarrow> distinct (map key rows)"

lemma row_exists_iff: "row_exists key rows k \<longleftrightarrow> k \<in> key ` set rows"
  by (auto simp: row_exists_def list_ex_iff)

lemma row_find_SomeD: "row_find key rows k = Some r \<Longrightarrow> r \<in> set rows \<and> key r = k"
  by (auto simp: row_find_def find_Some_iff)

lemma row_find_None_iff: "row_find key rows k = None \<longleftrightarrow> k \<notin> key ` set rows"
  by (auto simp: row_find_def find_None_iff)

lemma row_find_exists: "row_find key rows k \<noteq> None \<longleftrightarrow> row_exists key rows k"
  by (simp add: row_find_None_iff row_exists_iff)

lemma row_find_simps [simp]:
  "row_find key [] k = None"
  "row_find key (r # rows) k = (if key r = k then Some r else row_find key rows k)"
  by (simp_all add: row_find_def)

lemma row_find_append:
  "row_find key (xs @ ys) k = (case row_find key xs k of Some r \<Rightarrow> Some r | None \<Rightarrow> row_find key ys k)"
  by (induction xs) simp_all

lemma row_find_unique:
  "keys_unique key rows \<Longrightarrow> r \<in> set rows \<Longrightarrow> row_find key rows (key r) = Some r"
  by (induction rows) (auto simp: keys_unique_def)

section \<open>A table is a keyed store\<close>

lemma row_find_map_merge:
  assumes "\<And>x. key (merge x r) = key r"
  shows "row_find key (map (\<lambda>x. if key x = key r then merge x r else x) rows) k
           = (if k = key r then map_option (\<lambda>x. merge x r) (row_find key rows k) else row_find key rows k)"
  by (induction rows) (auto simp: assms)

lemma row_find_upsert:
  assumes "\<And>x. key (merge x r) = key r"
  shows "row_find key (row_upsert key merge r rows) k
           = (if k = key r then Some (case row_find key rows k of None \<Rightarrow> r | Some x \<Rightarrow> merge x r)
              else row_find key rows k)"
proof (cases "row_exists key rows (key r)")
  case True
  then obtain x where "row_find key rows (key r) = Some x" by (auto simp: row_find_exists [symmetric])
  with True show ?thesis by (simp add: row_upsert_def row_find_map_merge [where key = key and merge = merge, OF assms])
next
  case False
  then have "row_find key rows (key r) = None" by (simp add: row_find_exists [symmetric])
  with False show ?thesis by (auto simp: row_upsert_def row_find_append split: option.split)
qed

lemma row_find_delete: "row_find key (row_delete key k' rows) k = (if k = k' then None else row_find key rows k)"
  by (induction rows) (auto simp: row_delete_def)

lemma keyed_store_rows:
  assumes "\<And>x r. key (merge x r) = key r"
  shows "keyed_store (row_find key) (row_upsert key merge) (row_delete key) key
           (\<lambda>old r. case old of None \<Rightarrow> r | Some x \<Rightarrow> merge x r)"
  by unfold_locales (simp_all add: row_find_upsert [where key = key and merge = merge, OF assms] row_find_delete)

section \<open>Keys and rows\<close>

lemma set_row_insert_ignore:
  "set (row_insert_ignore key r rows) = set rows \<union> (if key r \<in> key ` set rows then {} else {r})"
  by (auto simp: row_insert_ignore_def row_exists_iff)

lemma keys_insert_ignore: "key ` set (row_insert_ignore key r rows) = insert (key r) (key ` set rows)"
  by (auto simp: set_row_insert_ignore split: if_splits)

lemma keys_rows_insert_ignore:
  "key ` set (rows_insert_ignore key rs rows) = key ` set rs \<union> key ` set rows"
  by (induction rs arbitrary: rows) (auto simp: rows_insert_ignore_def keys_insert_ignore)

lemma set_rows_insert_ignore: "set rows \<subseteq> set (rows_insert_ignore key rs rows)"
  by (induction rs arbitrary: rows) (force simp: rows_insert_ignore_def set_row_insert_ignore)+

lemma rows_insert_ignore_cases:
  "r \<in> set (rows_insert_ignore key rs rows) \<Longrightarrow> r \<in> set rows \<or> (r \<in> set rs \<and> key r \<notin> key ` set rows)"
proof (induction rs arbitrary: rows)
  case (Cons a rs)
  from Cons.prems have "r \<in> set (rows_insert_ignore key rs (row_insert_ignore key a rows))"
    by (simp add: rows_insert_ignore_def)
  from Cons.IH [OF this] show ?case
    by (auto simp: set_row_insert_ignore keys_insert_ignore split: if_splits)
qed (simp add: rows_insert_ignore_def)

lemma keys_upsert:
  assumes "\<And>x. key (merge x r) = key r"
  shows "key ` set (row_upsert key merge r rows) = insert (key r) (key ` set rows)"
proof (rule set_eqI)
  fix k
  have *: "k \<in> key ` set xs \<longleftrightarrow> row_find key xs k \<noteq> None" for xs
    by (simp add: row_find_None_iff del: not_None_eq)
  show "k \<in> key ` set (row_upsert key merge r rows) \<longleftrightarrow> k \<in> insert (key r) (key ` set rows)"
    unfolding insert_iff * row_find_upsert [where key = key and merge = merge, OF assms] by simp
qed

lemma row_upsert_cases:
  assumes "x \<in> set (row_upsert key merge r rows)"
  shows "x = r \<or> (x \<in> set rows \<and> key x \<noteq> key r) \<or> (\<exists>y\<in>set rows. key y = key r \<and> x = merge y r)"
proof (cases "row_exists key rows (key r)")
  case True
  with assms obtain y where "y \<in> set rows" "x = (if key y = key r then merge y r else y)"
    by (auto simp: row_upsert_def)
  then show ?thesis by (cases "key y = key r") auto
next
  case False
  with assms have "x = r \<or> x \<in> set rows" by (auto simp: row_upsert_def)
  with False show ?thesis by (metis imageI row_exists_iff)
qed

lemma keys_unique_simps [simp]:
  "keys_unique key []"
  "keys_unique key (r # rows) \<longleftrightarrow> key r \<notin> key ` set rows \<and> keys_unique key rows"
  by (simp_all add: keys_unique_def)

lemma keys_unique_append:
  "keys_unique key (xs @ ys) \<longleftrightarrow> keys_unique key xs \<and> keys_unique key ys \<and> key ` set xs \<inter> key ` set ys = {}"
  by (auto simp: keys_unique_def)

lemma keys_unique_filter: "keys_unique key rows \<Longrightarrow> keys_unique key (filter P rows)"
  by (simp add: keys_unique_def distinct_map_filter)

lemma keys_unique_map: "(\<And>r. key (f r) = key r) \<Longrightarrow> keys_unique key (map f rows) \<longleftrightarrow> keys_unique key rows"
  by (simp add: keys_unique_def comp_def)

lemma keys_unique_upsert:
  assumes "\<And>x. key (merge x r) = key r" "keys_unique key rows"
  shows "keys_unique key (row_upsert key merge r rows)"
proof (cases "row_exists key rows (key r)")
  case True
  with assms show ?thesis
    by (simp add: row_upsert_def keys_unique_def comp_def if_distrib [of key] cong: if_cong map_cong)
next
  case False
  with assms(2) show ?thesis
    by (auto simp: row_upsert_def keys_unique_append row_exists_iff)
qed

lemma keys_unique_insert_ignore: "keys_unique key rows \<Longrightarrow> keys_unique key (row_insert_ignore key r rows)"
  by (auto simp: row_insert_ignore_def keys_unique_append row_exists_iff)

lemma keys_unique_rows_insert_ignore:
  "keys_unique key rows \<Longrightarrow> keys_unique key (rows_insert_ignore key rs rows)"
  by (induction rs arbitrary: rows) (simp_all add: rows_insert_ignore_def keys_unique_insert_ignore)

lemma keys_unique_delete: "keys_unique key rows \<Longrightarrow> keys_unique key (row_delete key k rows)"
  by (simp add: row_delete_def keys_unique_filter)

lemma set_row_delete: "set (row_delete key k rows) = {r \<in> set rows. key r \<noteq> k}"
  by (simp add: row_delete_def)

lemma filter_upserts_other:
  assumes "\<And>x r. key (merge x r) = key r" "\<forall>v\<in>set vs. \<not> Q (key v)"
  shows "filter (\<lambda>x. Q (key x)) (fold (row_upsert key merge) vs rows) = filter (\<lambda>x. Q (key x)) rows"
  using assms(2)
proof (induction vs arbitrary: rows)
  case (Cons v vs)
  have "filter (\<lambda>x. Q (key x)) (map (\<lambda>x. if key x = key v then merge x v else x) rows) = filter (\<lambda>x. Q (key x)) rows"
    using Cons.prems by (induction rows) (auto simp: assms(1))
  then have "filter (\<lambda>x. Q (key x)) (row_upsert key merge v rows) = filter (\<lambda>x. Q (key x)) rows"
    using Cons.prems by (simp add: row_upsert_def)
  with Cons show ?case by simp
qed simp

lemma fold_upsert_fresh:
  "keys_unique key (rows @ rs) \<Longrightarrow> fold (row_upsert key merge) rs rows = rows @ rs"
proof (induction rs arbitrary: rows)
  case (Cons r rs)
  then have "\<not> row_exists key rows (key r)" by (auto simp: keys_unique_append row_exists_iff)
  with Cons.IH [of "rows @ [r]"] Cons.prems show ?case by (simp add: row_upsert_def)
qed simp

end
