(* ===== verification/Model_Store.thy ===== *)
theory Model_Store
  imports Sql_Table Account_Queries Json_Value
begin

text \<open>
  The tables of \<^verbatim>\<open>crates/core/src/storage\<close> that say which model is served by whom: the
  model catalog, model groups with their models and users, the owners of API keys, the models of the
  sources (accounts and aggregate APIs) with their mappings and preferences, and the aggregate APIs
  with their secrets, their assigned models and the model templates of their suppliers. A secret is kept as the pair of its
  API and its text; when it was written is not read anywhere. A table is the list of its rows in scan order. Every statement fails with
  \<open>ms_fault\<close> when that is set; \<open>ms_refusal\<close> is SQLite's text for a statement that a constraint
  refuses. Foreign keys are enforced: the driver enables them for every connection.
\<close>

section \<open>Rows\<close>

text \<open>
  Columns that routing only carries along are fields of their own record: the details of a catalog
  model, and the test and balance columns of an aggregate API.
\<close>

record catalog_details =
  cx_description :: "str option"
  cx_default_reasoning_level :: "str option"
  cx_shell_type :: "str option"
  cx_priority :: "i64 option"
  cx_availability_nux_json :: "str option"
  cx_upgrade_json :: "str option"
  cx_base_instructions :: "str option"
  cx_model_messages_json :: "str option"
  cx_supports_reasoning_summaries :: "bool option"
  cx_default_reasoning_summary :: "str option"
  cx_support_verbosity :: "bool option"
  cx_default_verbosity_json :: "str option"
  cx_apply_patch_tool_type :: "str option"
  cx_web_search_tool_type :: "str option"
  cx_truncation_mode :: "str option"
  cx_truncation_limit :: "i64 option"
  cx_truncation_extra_json :: "str option"
  cx_supports_parallel_tool_calls :: "bool option"
  cx_supports_image_detail_original :: "bool option"
  cx_context_window :: "i64 option"
  cx_auto_compact_token_limit :: "i64 option"
  cx_effective_context_window_percent :: "i64 option"
  cx_minimal_client_version_json :: "str option"
  cx_supports_search_tool :: "bool option"
  cx_extra_json :: str

record catalog_model =
  cm_scope :: str
  cm_slug :: str
  cm_display_name :: str
  cm_source_kind :: str
  cm_user_edited :: bool
  cm_visibility :: "str option"
  cm_supported :: "bool option"
  cm_details :: catalog_details
  cm_sort_index :: i64
  cm_updated_at :: i64

record model_group =
  mg_id :: str
  mg_name :: str
  mg_description :: "str option"
  mg_status :: str
  mg_sort :: i64
  mg_is_default :: bool
  mg_rate :: i64
  mg_created_at :: i64
  mg_updated_at :: i64

record group_model =
  gm_group_id :: str
  gm_slug :: str
  gm_enabled :: bool
  gm_rate :: "i64 option"
  gm_billing :: "str option"
  gm_note :: "str option"
  gm_created_at :: i64
  gm_updated_at :: i64

record user_group =
  ug_user_id :: str
  ug_group_id :: str
  ug_status :: str
  ug_expires_at :: "i64 option"
  ug_created_at :: i64
  ug_updated_at :: i64

record app_user =
  au_id :: str
  au_username :: str
  au_role :: str
  au_status :: str

record key_owner =
  ko_key_id :: str
  ko_kind :: str
  ko_user_id :: "str option"
  ko_project_id :: "str option"
  ko_updated_at :: i64

record source_model =
  sm_kind :: str
  sm_source_id :: str
  sm_upstream :: str
  sm_display_name :: "str option"
  sm_status :: str
  sm_discovery :: str
  sm_last_synced_at :: "i64 option"
  sm_extra_json :: str
  sm_created_at :: i64
  sm_updated_at :: i64

record source_mapping =
  mp_id :: str
  mp_slug :: str
  mp_kind :: str
  mp_source_id :: str
  mp_upstream :: str
  mp_enabled :: bool
  mp_priority :: i64
  mp_weight :: i64
  mp_billing :: "str option"
  mp_created_at :: i64
  mp_updated_at :: i64

record mapping_pref =
  pf_kind :: str
  pf_source_id :: str
  pf_upstream :: str
  pf_preference :: str
  pf_updated_at :: i64

record aggregate_probes =
  ap_last_test_at :: "i64 option"
  ap_last_test_status :: "str option"
  ap_last_test_error :: "str option"
  ap_balance_query_enabled :: bool
  ap_balance_query_template :: "str option"
  ap_balance_query_base_url :: "str option"
  ap_balance_query_user_id :: "str option"
  ap_balance_query_config_json :: "str option"
  ap_last_balance_at :: "i64 option"
  ap_last_balance_status :: "str option"
  ap_last_balance_error :: "str option"
  ap_last_balance_json :: "str option"

record aggregate_api =
  ag_id :: str
  ag_provider_type :: str
  ag_supplier_name :: "str option"
  ag_sort :: i64
  ag_url :: str
  ag_auth_type :: str
  ag_auth_params_json :: "str option"
  ag_action :: "str option"
  ag_model_override :: "str option"
  ag_status :: str
  ag_created_at :: i64
  ag_updated_at :: i64
  ag_probes :: aggregate_probes

record supplier_model =
  su_key :: str
  su_provider_type :: str
  su_upstream :: str
  su_display_name :: "str option"
  su_status :: str
  su_created_at :: i64
  su_updated_at :: i64

record quota_assignment =
  qa_kind :: str
  qa_source_id :: str
  qa_slug :: str
  qa_updated_at :: i64

record model_store =
  ms_catalog :: "catalog_model list"
  ms_groups :: "model_group list"
  ms_group_models :: "group_model list"
  ms_user_groups :: "user_group list"
  ms_users :: "app_user list"
  ms_owners :: "key_owner list"
  ms_sources :: "source_model list"
  ms_mappings :: "source_mapping list"
  ms_prefs :: "mapping_pref list"
  ms_apis :: "aggregate_api list"
  ms_secrets :: "(str \<times> str) list"
  ms_balance_secrets :: "(str \<times> str) list"
  ms_supplier_models :: "supplier_model list"
  ms_assignments :: "quota_assignment list"
  ms_fault :: "str option"
  ms_refusal :: str

section \<open>Statements\<close>

definition ms_query :: "model_store \<Rightarrow> 'a \<Rightarrow> 'a sql" where
  "ms_query st v = (case ms_fault st of Some e \<Rightarrow> Inl e | None \<Rightarrow> Inr v)"

definition ms_exec :: "model_store \<Rightarrow> model_store \<Rightarrow> unit sql \<times> model_store" where
  "ms_exec st st' = (case ms_fault st of Some e \<Rightarrow> (Inl e, st) | None \<Rightarrow> (Inr (), st'))"

text \<open>A statement or a transaction that changes the tables unless a constraint refuses it.\<close>

definition ms_exec_if :: "bool \<Rightarrow> model_store \<Rightarrow> model_store \<Rightarrow> unit sql \<times> model_store" where
  "ms_exec_if ok st st' =
     (case ms_fault st of Some e \<Rightarrow> (Inl e, st)
      | None \<Rightarrow> if ok then (Inr (), st') else (Inl (ms_refusal st), st))"

text \<open>The next statement runs only after the one before succeeded; what that one did stays.\<close>

definition ms_then ::
    "unit sql \<times> model_store \<Rightarrow> (model_store \<Rightarrow> 'a sql \<times> model_store) \<Rightarrow> 'a sql \<times> model_store" where
  "ms_then r f = (case r of (Inl e, st) \<Rightarrow> (Inl e, st) | (Inr _, st) \<Rightarrow> f st)"

lemma ms_exec_ok [simp]: "ms_fault st = None \<Longrightarrow> ms_exec st st' = (Inr (), st')"
  by (simp add: ms_exec_def)

lemma ms_query_ok [simp]: "ms_fault st = None \<Longrightarrow> ms_query st v = Inr v"
  by (simp add: ms_query_def)

lemma ms_exec_if_ok [simp]:
  "ms_fault st = None \<Longrightarrow> ms_exec_if ok st st' = (if ok then (Inr (), st') else (Inl (ms_refusal st), st))"
  by (simp add: ms_exec_if_def)

lemma ms_then_simps [simp]: "ms_then (Inl e, st) f = (Inl e, st)" "ms_then (Inr u, st) f = f st"
  by (simp_all add: ms_then_def)

lemma ms_exec_state: "snd (ms_exec st st') = (if ms_fault st = None then st' else st)"
  by (auto simp: ms_exec_def split: option.split)

lemma ms_exec_if_state: "snd (ms_exec_if ok st st') = (if ms_fault st = None \<and> ok then st' else st)"
  by (auto simp: ms_exec_if_def split: option.split)

section \<open>Fallible operations\<close>

text \<open>
  The service layer fails with a text: it maps the error of a statement to one of its own, and an
  operation that fails keeps what its earlier statements did.
\<close>

definition map_err :: "str \<Rightarrow> 'a sql \<Rightarrow> str + 'a" where
  "map_err what r = (case r of Inl e \<Rightarrow> Inl (what @ e) | Inr v \<Rightarrow> Inr v)"

definition sum_bind :: "'e + 'a \<Rightarrow> ('a \<Rightarrow> 'e + 'b) \<Rightarrow> 'e + 'b" where
  "sum_bind r f = (case r of Inl e \<Rightarrow> Inl e | Inr v \<Rightarrow> f v)"

lemma sum_bind_simps [simp]: "sum_bind (Inl e) f = Inl e" "sum_bind (Inr v) f = f v"
  by (simp_all add: sum_bind_def)

lemma map_err_simps [simp]: "map_err w (Inl e) = Inl (w @ e)" "map_err w (Inr v) = Inr v"
  by (simp_all add: map_err_def)

definition ms_try :: "str \<Rightarrow> 'a sql \<times> model_store \<Rightarrow> ('a \<Rightarrow> model_store \<Rightarrow> (str + 'b) \<times> model_store)
    \<Rightarrow> (str + 'b) \<times> model_store" where
  "ms_try what r f = (case r of (Inl e, st) \<Rightarrow> (Inl (what @ e), st) | (Inr v, st) \<Rightarrow> f v st)"

lemma ms_try_simps [simp]:
  "ms_try what (Inl e, st) f = (Inl (what @ e), st)" "ms_try what (Inr v, st) f = f v st"
  by (simp_all add: ms_try_def)

end
