(* ===== verification/Model_Sources.thy ===== *)
theory Model_Sources
  imports Model_Store
begin

text \<open>
  The models of the sources (\<^verbatim>\<open>core/src/storage/model_sources.rs\<close>): which upstream models an
  account pool or an aggregate API serves, which platform model is mapped on which of them, and the
  preferences that keep a mapping away. Every statement of the file is a definition here.
\<close>

section \<open>Keys, order and merging\<close>

definition sm_key :: "source_model \<Rightarrow> str \<times> str \<times> str" where
  "sm_key m = (sm_kind m, sm_source_id m, sm_upstream m)"

definition mp_key :: "source_mapping \<Rightarrow> str \<times> str \<times> str \<times> str" where
  "mp_key m = (mp_slug m, mp_kind m, mp_source_id m, mp_upstream m)"

definition pf_key :: "mapping_pref \<Rightarrow> str \<times> str \<times> str" where
  "pf_key p = (pf_kind p, pf_source_id p, pf_upstream p)"

definition merge_source_model :: "source_model \<Rightarrow> source_model \<Rightarrow> source_model" where
  "merge_source_model old new = new\<lparr>sm_created_at := sm_created_at old\<rparr>"

definition merge_mapping :: "source_mapping \<Rightarrow> source_mapping \<Rightarrow> source_mapping" where
  "merge_mapping old new =
     new\<lparr>mp_id := mp_id old, mp_created_at := mp_created_at old\<rparr>"

text \<open>\<^verbatim>\<open>ORDER BY priority DESC, weight DESC, upstream_model ASC\<close> within one source.\<close>

definition mapping_rank :: "source_mapping \<Rightarrow> i64 \<times> i64 \<times> str" where
  "mapping_rank m = (- mp_priority m, - mp_weight m, mp_upstream m)"

definition first_mapping :: "source_mapping list \<Rightarrow> source_mapping option" where
  "first_mapping ms = (case sort_key mapping_rank ms of [] \<Rightarrow> None | m # _ \<Rightarrow> Some m)"

text \<open>A set of texts in order: \<^verbatim>\<open>SELECT DISTINCT ... ORDER BY\<close>, or a \<^verbatim>\<open>BTreeSet\<close>.\<close>

definition distinct_texts :: "str list \<Rightarrow> str list" where
  "distinct_texts xs = remdups_adj (sort xs)"

lemma set_distinct_texts [simp]: "set (distinct_texts xs) = set xs"
  by (simp add: distinct_texts_def)

definition matches_text :: "str option \<Rightarrow> str \<Rightarrow> bool" where
  "matches_text o' x \<longleftrightarrow> (case o' of None \<Rightarrow> True | Some v \<Rightarrow> x = v)"

section \<open>Source models\<close>

definition list_model_source_models ::
    "model_store \<Rightarrow> str option \<Rightarrow> str option \<Rightarrow> source_model list sql" where
  "list_model_source_models st kind source =
     ms_query st (sort_key sm_key (filter (\<lambda>m. matches_text (trimmed_nonempty kind) (sm_kind m)
                                            \<and> matches_text (trimmed_nonempty source) (sm_source_id m)) (ms_sources st)))"

definition list_available_model_source_models_for_source ::
    "model_store \<Rightarrow> str \<Rightarrow> str \<Rightarrow> source_model list sql" where
  "list_available_model_source_models_for_source st kind source =
     (if trim kind = [] \<or> trim source = [] then Inr []
      else ms_query st (sort_key sm_upstream (filter (\<lambda>m. sm_kind m = trim kind \<and> sm_source_id m = trim source
             \<and> sm_status m = ''available'' \<and> sql_trim (sm_upstream m) \<noteq> []) (ms_sources st))))"

definition list_available_source_model_ids_by_upstream_model ::
    "model_store \<Rightarrow> str \<Rightarrow> str \<Rightarrow> str list sql" where
  "list_available_source_model_ids_by_upstream_model st kind upstream =
     (if trim kind = [] \<or> trim upstream = [] then Inr []
      else ms_query st (distinct_texts (map sm_source_id (filter (\<lambda>m. sm_kind m = trim kind
             \<and> sm_upstream m = trim upstream \<and> sm_status m = ''available'') (ms_sources st)))))"

definition list_model_source_model_source_ids_for_kind :: "model_store \<Rightarrow> str \<Rightarrow> str list sql" where
  "list_model_source_model_source_ids_for_kind st kind =
     (if trim kind = [] then Inr []
      else ms_query st (distinct_texts (map sm_source_id
             (filter (\<lambda>m. sm_kind m = trim kind \<and> sql_trim (sm_source_id m) \<noteq> []) (ms_sources st)))))"

definition available_source_model_exists :: "model_store \<Rightarrow> str \<Rightarrow> str \<Rightarrow> str \<Rightarrow> bool sql" where
  "available_source_model_exists st kind source upstream =
     (if trim kind = [] \<or> trim source = [] \<or> trim upstream = [] then Inr False
      else ms_query st (list_ex (\<lambda>m. sm_key m = (trim kind, trim source, trim upstream) \<and> sm_status m = ''available'')
             (ms_sources st)))"

definition upsert_model_source_model :: "source_model \<Rightarrow> model_store \<Rightarrow> unit sql \<times> model_store" where
  "upsert_model_source_model m st =
     ms_exec st (st\<lparr>ms_sources := row_upsert sm_key merge_source_model m (ms_sources st)\<rparr>)"

text \<open>One statement per element, each only after the one before succeeded.\<close>

fun ms_each ::
    "('a \<Rightarrow> model_store \<Rightarrow> unit sql \<times> model_store) \<Rightarrow> 'a list \<Rightarrow> model_store \<Rightarrow> unit sql \<times> model_store" where
  "ms_each f [] st = (Inr (), st)"
| "ms_each f (x # xs) st = ms_then (f x st) (ms_each f xs)"

text \<open>The names a discovery reports: trimmed, the empty ones and the repeated ones left out.\<close>

fun discovered_names :: "str set \<Rightarrow> str list \<Rightarrow> str list" where
  "discovered_names seen [] = []"
| "discovered_names seen (x # xs) =
     (let u = trim x
      in if u = [] \<or> u \<in> seen then discovered_names seen xs else u # discovered_names (insert u seen) xs)"

definition discovered_model :: "str \<Rightarrow> str \<Rightarrow> str \<Rightarrow> i64 \<Rightarrow> str \<Rightarrow> source_model" where
  "discovered_model kind source discovery now u =
     \<lparr>sm_kind = kind, sm_source_id = source, sm_upstream = u, sm_display_name = Some u,
      sm_status = ''available'', sm_discovery = discovery, sm_last_synced_at = Some now,
      sm_extra_json = ''{}'', sm_created_at = now, sm_updated_at = now\<rparr>"

definition remove_source_upstream :: "str \<Rightarrow> str \<Rightarrow> str \<Rightarrow> str \<Rightarrow> model_store \<Rightarrow> unit sql \<times> model_store" where
  "remove_source_upstream kind source discovery u st =
     ms_then (ms_exec st (st\<lparr>ms_mappings := filter (\<lambda>m. \<not> (mp_kind m = kind \<and> mp_source_id m = source
                \<and> mp_upstream m = u)) (ms_mappings st)\<rparr>)) (\<lambda>st.
     ms_then (ms_exec st (st\<lparr>ms_sources := filter (\<lambda>m. \<not> (sm_key m = (kind, source, u)
                \<and> sm_discovery m = discovery)) (ms_sources st)\<rparr>)) (\<lambda>st.
       ms_exec st (st\<lparr>ms_prefs := row_delete pf_key (kind, source, u) (ms_prefs st)\<rparr>)))"

definition known_upstreams :: "str \<Rightarrow> str \<Rightarrow> str \<Rightarrow> model_store \<Rightarrow> str list" where
  "known_upstreams kind source discovery st =
     map sm_upstream (filter (\<lambda>m. sm_kind m = kind \<and> sm_source_id m = source \<and> sm_discovery m = discovery)
       (ms_sources st))"

definition upsert_discovered_model_source_models ::
    "str \<Rightarrow> str \<Rightarrow> str list \<Rightarrow> str \<Rightarrow> i64 \<Rightarrow> model_store \<Rightarrow> source_model list sql \<times> model_store" where
  "upsert_discovered_model_source_models kind0 source0 upstreams discovery0 now st0 =
     (let kind = trim kind0; source = trim source0; discovery = trim discovery0;
          names = discovered_names {} upstreams;
          found = map (discovered_model kind source discovery now) names
      in ms_then (ms_each upsert_model_source_model found st0) (\<lambda>st.
           (case ms_query st (filter (\<lambda>u. u \<notin> set names) (distinct_texts (known_upstreams kind source discovery st))) of
              Inl e \<Rightarrow> (Inl e, st)
            | Inr stale \<Rightarrow>
                ms_then (ms_each (remove_source_upstream kind source discovery) stale st) (\<lambda>st. (Inr found, st)))))"

section \<open>Mappings\<close>

definition list_model_source_mappings :: "model_store \<Rightarrow> str option \<Rightarrow> source_mapping list sql" where
  "list_model_source_mappings st slug =
     ms_query st (case trimmed_nonempty slug of
         Some s \<Rightarrow> sort_key (\<lambda>m. (\<not> mp_enabled m, - mp_priority m, mp_kind m, mp_source_id m, mp_upstream m))
                      (filter (\<lambda>m. mp_slug m = s) (ms_mappings st))
       | None \<Rightarrow> sort_key (\<lambda>m. (mp_slug m, \<not> mp_enabled m, - mp_priority m, mp_kind m, mp_source_id m, mp_upstream m))
                   (ms_mappings st))"

definition enabled_for :: "str \<Rightarrow> source_mapping list \<Rightarrow> source_mapping list" where
  "enabled_for slug rows = filter (\<lambda>m. mp_slug m = slug \<and> mp_enabled m) rows"

definition enabled_for_kind :: "str \<Rightarrow> str \<Rightarrow> source_mapping list \<Rightarrow> source_mapping list" where
  "enabled_for_kind slug kind rows = filter (\<lambda>m. mp_kind m = kind) (enabled_for slug rows)"

definition list_enabled_model_source_mappings_for_platform ::
    "model_store \<Rightarrow> str \<Rightarrow> source_mapping list sql" where
  "list_enabled_model_source_mappings_for_platform st slug =
     (if trim slug = [] then Inr []
      else ms_query st (sort_key (\<lambda>m. (- mp_priority m, - mp_weight m, mp_kind m, mp_source_id m, mp_upstream m))
             (enabled_for (trim slug) (ms_mappings st))))"

definition list_enabled_model_source_mappings_for_platform_and_kind ::
    "model_store \<Rightarrow> str \<Rightarrow> str \<Rightarrow> source_mapping list sql" where
  "list_enabled_model_source_mappings_for_platform_and_kind st slug kind =
     (if trim slug = [] \<or> trim kind = [] then Inr []
      else ms_query st (sort_key (\<lambda>m. (- mp_priority m, - mp_weight m, mp_source_id m, mp_upstream m))
             (enabled_for_kind (trim slug) (trim kind) (ms_mappings st))))"

definition list_enabled_model_source_mapping_source_ids_for_platform_and_kind ::
    "model_store \<Rightarrow> str \<Rightarrow> str \<Rightarrow> str list sql" where
  "list_enabled_model_source_mapping_source_ids_for_platform_and_kind st slug kind =
     (if trim slug = [] \<or> trim kind = [] then Inr []
      else ms_query st (distinct_texts (map mp_source_id (enabled_for_kind (trim slug) (trim kind) (ms_mappings st)))))"

definition list_model_source_mapping_source_ids_for_kind :: "model_store \<Rightarrow> str \<Rightarrow> str list sql" where
  "list_model_source_mapping_source_ids_for_kind st kind =
     (if trim kind = [] then Inr []
      else ms_query st (distinct_texts (map mp_source_id (filter (\<lambda>m. mp_kind m = trim kind) (ms_mappings st)))))"

definition list_model_route_source_ids_for_kind :: "model_store \<Rightarrow> str \<Rightarrow> str list sql" where
  "list_model_route_source_ids_for_kind st kind =
     (if trim kind = [] then Inr []
      else ms_query st (distinct_texts (filter (\<lambda>i. sql_trim i \<noteq> [])
             (map sm_source_id (filter (\<lambda>m. sm_kind m = trim kind) (ms_sources st))
              @ map mp_source_id (filter (\<lambda>m. mp_kind m = trim kind) (ms_mappings st))))))"

definition list_model_source_mapping_platform_slugs_for_source ::
    "model_store \<Rightarrow> str \<Rightarrow> str \<Rightarrow> str list sql" where
  "list_model_source_mapping_platform_slugs_for_source st kind source =
     (if trim kind = [] \<or> trim source = [] then Inr []
      else ms_query st (distinct_texts (map mp_slug (filter (\<lambda>m. mp_kind m = trim kind \<and> mp_source_id m = trim source)
             (ms_mappings st)))))"

definition list_enabled_model_source_mapping_platform_slugs_for_kind :: "model_store \<Rightarrow> str \<Rightarrow> str list sql" where
  "list_enabled_model_source_mapping_platform_slugs_for_kind st kind =
     (if trim kind = [] then Inr []
      else ms_query st (distinct_texts (map mp_slug (filter (\<lambda>m. mp_kind m = trim kind \<and> mp_enabled m) (ms_mappings st)))))"

definition list_enabled_model_source_mapping_platform_slugs :: "model_store \<Rightarrow> str list sql" where
  "list_enabled_model_source_mapping_platform_slugs st =
     ms_query st (distinct_texts (map mp_slug (filter mp_enabled (ms_mappings st))))"

text \<open>The \<^verbatim>\<open>IN\<close> clause of a chunk of ids; the rows of the chunks are collected in a set.\<close>

definition in_chunks :: "('r \<Rightarrow> str) \<Rightarrow> 'r list \<Rightarrow> str list \<Rightarrow> 'r list" where
  "in_chunks column rows ids =
     concat (map (\<lambda>c. case text_id_in_clause c of None \<Rightarrow> [] | Some cond \<Rightarrow> filter (\<lambda>r. cond (column r)) rows)
       (chunks in_clause_batch_size ids))"

definition list_enabled_model_source_mapping_platform_slugs_for_platforms ::
    "model_store \<Rightarrow> str list \<Rightarrow> str list sql" where
  "list_enabled_model_source_mapping_platform_slugs_for_platforms st slugs0 =
     (let slugs = normalize_text_ids slugs0
      in if slugs = [] then Inr []
         else ms_query st (distinct_texts (map mp_slug (in_chunks mp_slug (filter mp_enabled (ms_mappings st)) slugs))))"

definition list_model_source_model_upstream_models_for_upstream_models ::
    "model_store \<Rightarrow> str list \<Rightarrow> str list sql" where
  "list_model_source_model_upstream_models_for_upstream_models st upstreams =
     (let us = normalize_text_ids upstreams
      in if us = [] then Inr []
         else ms_query st (distinct_texts (map sm_upstream (in_chunks sm_upstream (ms_sources st) us))))"

definition has_enabled_model_source_mapping_for_platform_and_kind ::
    "model_store \<Rightarrow> str \<Rightarrow> str \<Rightarrow> bool sql" where
  "has_enabled_model_source_mapping_for_platform_and_kind st slug kind =
     (if trim slug = [] \<or> trim kind = [] then Inr False
      else ms_query st (enabled_for_kind (trim slug) (trim kind) (ms_mappings st) \<noteq> []))"

definition has_enabled_model_source_mapping_for_platform :: "model_store \<Rightarrow> str \<Rightarrow> bool sql" where
  "has_enabled_model_source_mapping_for_platform st slug =
     (if trim slug = [] then Inr False else ms_query st (enabled_for (trim slug) (ms_mappings st) \<noteq> []))"

definition has_enabled_model_source_mapping_for_platform_matching_kinds ::
    "model_store \<Rightarrow> str \<Rightarrow> str list \<Rightarrow> bool sql" where
  "has_enabled_model_source_mapping_for_platform_matching_kinds st slug kinds =
     (if trim slug = [] \<or> normalize_text_ids kinds = [] then Inr False
      else case text_id_in_clause (normalize_text_ids kinds) of
             None \<Rightarrow> Inr False
           | Some cond \<Rightarrow> ms_query st (list_ex (\<lambda>m. cond (mp_kind m)) (enabled_for (trim slug) (ms_mappings st))))"

definition has_enabled_model_source_mapping_for_platform_outside_kinds ::
    "model_store \<Rightarrow> str \<Rightarrow> str list \<Rightarrow> bool sql" where
  "has_enabled_model_source_mapping_for_platform_outside_kinds st slug kinds =
     (if trim slug = [] then Inr False
      else if normalize_text_ids kinds = [] then ms_query st (enabled_for (trim slug) (ms_mappings st) \<noteq> [])
      else case text_id_in_clause (normalize_text_ids kinds) of
             None \<Rightarrow> Inr False
           | Some cond \<Rightarrow> ms_query st (list_ex (\<lambda>m. \<not> cond (mp_kind m)) (enabled_for (trim slug) (ms_mappings st))))"

definition find_enabled_model_source_mapping ::
    "model_store \<Rightarrow> str \<Rightarrow> str \<Rightarrow> str \<Rightarrow> source_mapping option sql" where
  "find_enabled_model_source_mapping st slug kind source =
     ms_query st (first_mapping (filter (\<lambda>m. mp_source_id m = trim source)
       (enabled_for_kind (trim slug) (trim kind) (ms_mappings st))))"

text \<open>The first row of each source: \<^verbatim>\<open>ROW_NUMBER() OVER (PARTITION BY source_id ...) = 1\<close>.\<close>

definition first_per_source :: "source_mapping list \<Rightarrow> source_mapping list" where
  "first_per_source rows =
     List.map_filter (\<lambda>i. first_mapping (filter (\<lambda>m. mp_source_id m = i) rows)) (remdups (map mp_source_id rows))"

definition list_enabled_model_source_mappings_for_sources_chunk ::
    "model_store \<Rightarrow> str \<Rightarrow> str \<Rightarrow> str list \<Rightarrow> source_mapping list" where
  "list_enabled_model_source_mappings_for_sources_chunk st slug kind ids =
     (case text_id_in_clause ids of
        None \<Rightarrow> []
      | Some cond \<Rightarrow> first_per_source (filter (\<lambda>m. cond (mp_source_id m)) (enabled_for_kind slug kind (ms_mappings st))))"

definition list_enabled_model_source_mappings_for_sources ::
    "model_store \<Rightarrow> str \<Rightarrow> str \<Rightarrow> str list \<Rightarrow> (str \<rightharpoonup> source_mapping) sql" where
  "list_enabled_model_source_mappings_for_sources st slug kind ids0 =
     (let ids = normalize_text_ids ids0
      in if trim slug = [] \<or> trim kind = [] \<or> ids = [] then Inr Map.empty
         else ms_query st (fold (\<lambda>m h. h(mp_source_id m \<mapsto> m))
                (concat (map (list_enabled_model_source_mappings_for_sources_chunk st (trim slug) (trim kind))
                   (chunks in_clause_batch_size ids))) Map.empty))"

text \<open>
  The conflict target is the unique index over the platform model and the upstream model; an id that
  belongs to another mapping is refused.
\<close>

definition upsert_model_source_mapping :: "source_mapping \<Rightarrow> model_store \<Rightarrow> unit sql \<times> model_store" where
  "upsert_model_source_mapping m st =
     ms_exec_if (row_exists mp_key (ms_mappings st) (mp_key m) \<or> \<not> row_exists mp_id (ms_mappings st) (mp_id m)) st
       (st\<lparr>ms_mappings := row_upsert mp_key merge_mapping m (ms_mappings st)\<rparr>)"

definition delete_model_source_mapping :: "str \<Rightarrow> model_store \<Rightarrow> unit sql \<times> model_store" where
  "delete_model_source_mapping i st =
     ms_exec st (st\<lparr>ms_mappings := row_delete mp_id (trim i) (ms_mappings st)\<rparr>)"

definition delete_model_source_routes_for_source :: "str \<Rightarrow> str \<Rightarrow> model_store \<Rightarrow> unit sql \<times> model_store" where
  "delete_model_source_routes_for_source kind source st =
     (if trim kind = [] \<or> trim source = [] then (Inr (), st)
      else ms_then (ms_exec st (st\<lparr>ms_mappings :=
               filter (\<lambda>m. \<not> (mp_kind m = trim kind \<and> mp_source_id m = trim source)) (ms_mappings st)\<rparr>)) (\<lambda>st.
             ms_exec st (st\<lparr>ms_sources :=
               filter (\<lambda>m. \<not> (sm_kind m = trim kind \<and> sm_source_id m = trim source)) (ms_sources st)\<rparr>)))"

definition delete_model_source_routes_for_platform_model :: "str \<Rightarrow> model_store \<Rightarrow> unit sql \<times> model_store" where
  "delete_model_source_routes_for_platform_model slug st =
     (if trim slug = [] then (Inr (), st)
      else ms_exec st (st\<lparr>ms_mappings := filter (\<lambda>m. mp_slug m \<noteq> trim slug) (ms_mappings st)\<rparr>))"

section \<open>Preferences\<close>

definition put_pref :: "str \<Rightarrow> str \<Rightarrow> str \<Rightarrow> str \<Rightarrow> i64 \<Rightarrow> mapping_pref list \<Rightarrow> mapping_pref list" where
  "put_pref kind source upstream preference now rows =
     row_upsert pf_key (\<lambda>old new. new)
       \<lparr>pf_kind = kind, pf_source_id = source, pf_upstream = upstream, pf_preference = preference,
        pf_updated_at = now\<rparr> rows"

definition upsert_model_source_mapping_preference ::
    "str \<Rightarrow> str \<Rightarrow> str \<Rightarrow> str \<Rightarrow> i64 \<Rightarrow> model_store \<Rightarrow> unit sql \<times> model_store" where
  "upsert_model_source_mapping_preference kind source upstream preference now st =
     (if trim kind = [] \<or> trim source = [] \<or> trim upstream = [] then (Inr (), st)
      else ms_exec_if (trim preference \<in> {''unlinked'', ''disabled''}) st
             (st\<lparr>ms_prefs := put_pref (trim kind) (trim source) (trim upstream) (trim preference) now (ms_prefs st)\<rparr>))"

definition delete_model_source_mapping_preference ::
    "str \<Rightarrow> str \<Rightarrow> str \<Rightarrow> model_store \<Rightarrow> unit sql \<times> model_store" where
  "delete_model_source_mapping_preference kind source upstream st =
     ms_exec st (st\<lparr>ms_prefs := row_delete pf_key (trim kind, trim source, trim upstream) (ms_prefs st)\<rparr>)"

definition delete_model_source_mapping_preferences_for_source ::
    "str \<Rightarrow> str \<Rightarrow> model_store \<Rightarrow> unit sql \<times> model_store" where
  "delete_model_source_mapping_preferences_for_source kind source st =
     (if trim kind = [] \<or> trim source = [] then (Inr (), st)
      else ms_exec st (st\<lparr>ms_prefs :=
             filter (\<lambda>p. \<not> (pf_kind p = trim kind \<and> pf_source_id p = trim source)) (ms_prefs st)\<rparr>))"

definition list_model_source_mapping_preferences ::
    "model_store \<Rightarrow> str \<Rightarrow> str \<Rightarrow> mapping_pref list sql" where
  "list_model_source_mapping_preferences st kind source =
     (if trim kind = [] \<or> trim source = [] then Inr []
      else ms_query st (filter (\<lambda>p. pf_kind p = trim kind \<and> pf_source_id p = trim source) (ms_prefs st)))"

text \<open>One transaction: the preference that keeps the mapping away, and its deletion.\<close>

definition delete_model_source_mapping_with_unlink_preference ::
    "str \<Rightarrow> str \<Rightarrow> str \<Rightarrow> str \<Rightarrow> i64 \<Rightarrow> model_store \<Rightarrow> unit sql \<times> model_store" where
  "delete_model_source_mapping_with_unlink_preference i kind source upstream now st =
     (if trim kind = [] \<or> trim source = [] \<or> trim upstream = [] then (Inr (), st)
      else ms_exec st (st\<lparr>ms_prefs := put_pref (trim kind) (trim source) (trim upstream) ''unlinked'' now (ms_prefs st),
                          ms_mappings := row_delete mp_id (trim i) (ms_mappings st)\<rparr>))"

section \<open>The tables as keyed stores\<close>

lemma source_keys [simp]:
  "sm_key (merge_source_model old new) = sm_key new"
  "mp_key (merge_mapping old' new') = mp_key new'"
  "mp_id (merge_mapping old' new') = mp_id old'"
  "sm_key (discovered_model kind source discovery now u) = (kind, source, u)"
  by (simp_all add: sm_key_def mp_key_def merge_source_model_def merge_mapping_def discovered_model_def)

interpretation source_rows: keyed_store "row_find sm_key" "row_upsert sm_key merge_source_model" "row_delete sm_key"
    sm_key "\<lambda>old new. case old of None \<Rightarrow> new | Some x \<Rightarrow> merge_source_model x new"
  by (rule keyed_store_rows) simp

interpretation mapping_rows: keyed_store "row_find mp_key" "row_upsert mp_key merge_mapping" "row_delete mp_key"
    mp_key "\<lambda>old new. case old of None \<Rightarrow> new | Some x \<Rightarrow> merge_mapping x new"
  by (rule keyed_store_rows) simp

interpretation pref_rows: keyed_store "row_find pf_key" "row_upsert pf_key (\<lambda>old new. new)" "row_delete pf_key"
    pf_key "\<lambda>old new. case old of None \<Rightarrow> new | Some x \<Rightarrow> new"
  by (rule keyed_store_rows) simp

section \<open>One lookup for many sources\<close>

lemma first_mapping_None_iff [simp]: "first_mapping ms = None \<longleftrightarrow> ms = []"
  by (auto simp: first_mapping_def split: list.splits dest: arg_cong [where f = set] sym)

lemma first_mapping_in: "first_mapping ms = Some m \<Longrightarrow> m \<in> set ms"
  by (auto simp: first_mapping_def split: list.splits dest!: arg_cong [where f = set])

definition first_of :: "source_mapping list \<Rightarrow> str \<Rightarrow> source_mapping option" where
  "first_of rows i = first_mapping (filter (\<lambda>m. mp_source_id m = i) rows)"

lemma first_of_in: "first_of rows i = Some m \<Longrightarrow> m \<in> set rows \<and> mp_source_id m = i"
  using first_mapping_in by (fastforce simp: first_of_def)

lemma first_of_None_iff: "first_of rows i = None \<longleftrightarrow> i \<notin> mp_source_id ` set rows"
  by (auto simp: first_of_def filter_empty_conv)

lemma first_of_filter:
  "first_of (filter (\<lambda>m. mp_source_id m \<in> S) rows) i = (if i \<in> S then first_of rows i else None)"
proof -
  have "filter (\<lambda>m. mp_source_id m = i) (filter (\<lambda>m. mp_source_id m \<in> S) rows)
      = (if i \<in> S then filter (\<lambda>m. mp_source_id m = i) rows else [])"
    by (induction rows) auto
  then show ?thesis by (simp add: first_of_def del: filter_filter)
qed

lemma first_per_source_iff: "m \<in> set (first_per_source rows) \<longleftrightarrow> first_of rows (mp_source_id m) = Some m"
proof -
  have "m \<in> set (first_per_source rows) \<longleftrightarrow> (\<exists>i\<in>mp_source_id ` set rows. first_of rows i = Some m)"
    by (auto simp: first_per_source_def first_of_def [symmetric] List.map_filter_def comp_def image_iff
        dest: first_of_in)
  also have "\<dots> \<longleftrightarrow> first_of rows (mp_source_id m) = Some m"
    by (metis first_of_in imageI)
  finally show ?thesis .
qed

lemma sources_chunk_iff:
  assumes "set c \<subseteq> set (normalize_text_ids ids)"
  shows "m \<in> set (list_enabled_model_source_mappings_for_sources_chunk st slug kind c)
     \<longleftrightarrow> mp_source_id m \<in> set c \<and> first_of (enabled_for_kind slug kind (ms_mappings st)) (mp_source_id m) = Some m"
proof (cases "normalize_text_ids c = []")
  case True
  with set_renormalize [OF assms] have "c = []" by simp
  with True show ?thesis
    by (simp add: list_enabled_model_source_mappings_for_sources_chunk_def text_id_in_clause_def)
next
  case False
  then show ?thesis
    by (simp add: list_enabled_model_source_mappings_for_sources_chunk_def text_id_in_clause_def Let_def
        set_renormalize [OF assms] first_per_source_iff first_of_filter)
qed

lemma fold_updates:
  assumes "\<And>m. m \<in> set ms \<Longrightarrow> F (mp_source_id m) = Some m"
  shows "fold (\<lambda>m h. h(mp_source_id m \<mapsto> m)) ms h i = (if i \<in> mp_source_id ` set ms then F i else h i)"
  using assms by (induction ms arbitrary: h) auto

lemma fold_exact_rows:
  assumes rows: "\<And>m. m \<in> set ms \<longleftrightarrow> mp_source_id m \<in> N \<and> F (mp_source_id m) = Some m"
    and own: "\<And>i m. F i = Some m \<Longrightarrow> mp_source_id m = i"
  shows "fold (\<lambda>m h. h(mp_source_id m \<mapsto> m)) ms Map.empty i = (if i \<in> N then F i else None)"
proof -
  have "fold (\<lambda>m h. h(mp_source_id m \<mapsto> m)) ms Map.empty i = (if i \<in> mp_source_id ` set ms then F i else None)"
    using fold_updates [of ms F Map.empty i] rows by simp
  moreover have "i \<in> mp_source_id ` set ms \<longleftrightarrow> i \<in> N \<and> F i \<noteq> None"
    unfolding image_iff rows Bex_def using own by (metis not_Some_eq)
  ultimately show ?thesis by auto
qed

text \<open>
  The lookup of many sources at once and the lookup of one agree: for every source that was
  asked for, the table holds the mapping that a lookup of that source alone finds, and it holds
  nothing else, whatever batches the ids were split into.
\<close>

theorem mapping_lookups_agree:
  assumes "ms_fault st = None" "trim slug \<noteq> []" "trim kind \<noteq> []"
  shows "\<exists>found. list_enabled_model_source_mappings_for_sources st slug kind ids = Inr found
    \<and> list_all (\<lambda>i. find_enabled_model_source_mapping st slug kind i = Inr (found i)) (normalize_text_ids ids)
    \<and> dom found \<subseteq> set (normalize_text_ids ids)"
proof -
  let ?n = "normalize_text_ids ids"
  let ?F = "first_of (enabled_for_kind (trim slug) (trim kind) (ms_mappings st))"
  let ?rows = "concat (map (list_enabled_model_source_mappings_for_sources_chunk st (trim slug) (trim kind))
      (chunks in_clause_batch_size ?n))"
  let ?found = "fold (\<lambda>m h. h(mp_source_id m \<mapsto> m)) ?rows Map.empty"
  have all: "concat (chunks in_clause_batch_size ?n) = ?n"
    by (rule concat_chunks) (simp add: in_clause_batch_size_def)
  have sub: "set c \<subseteq> set ?n" if "c \<in> set (chunks in_clause_batch_size ?n)" for c
    using that all by (metis UN_upper set_concat)
  have rows: "m \<in> set ?rows \<longleftrightarrow> mp_source_id m \<in> set ?n \<and> ?F (mp_source_id m) = Some m" for m
  proof -
    have "m \<in> set ?rows \<longleftrightarrow> (\<exists>c\<in>set (chunks in_clause_batch_size ?n). mp_source_id m \<in> set c) \<and> ?F (mp_source_id m) = Some m"
      using sources_chunk_iff [OF sub] by simp
    also have "(\<exists>c\<in>set (chunks in_clause_batch_size ?n). mp_source_id m \<in> set c) \<longleftrightarrow> mp_source_id m \<in> set ?n"
      using arg_cong [OF all, of set] by (auto simp: set_concat)
    finally show ?thesis .
  qed
  have found: "?found i = (if i \<in> set ?n then ?F i else None)" for i
    by (rule fold_exact_rows [OF rows]) (use first_of_in in blast)
  have run: "list_enabled_model_source_mappings_for_sources st slug kind ids = Inr ?found"
    using assms by (auto simp: list_enabled_model_source_mappings_for_sources_def Let_def chunks.simps)
  have "trim i = i" if "i \<in> set ?n" for i
    using that by (auto simp: set_normalize_text_ids)
  then have "list_all (\<lambda>i. find_enabled_model_source_mapping st slug kind i = Inr (?found i)) ?n"
    using assms(1) by (simp add: list_all_iff find_enabled_model_source_mapping_def found first_of_def)
  moreover have "dom ?found \<subseteq> set ?n" using found by (auto simp: dom_def split: if_splits)
  ultimately show ?thesis using run by blast
qed

definition demo_source :: "str \<Rightarrow> str \<Rightarrow> source_model" where
  "demo_source source u = discovered_model ''aggregate_api'' source ''synced'' 5 u"

definition demo_mapping :: "str \<Rightarrow> str \<Rightarrow> str \<Rightarrow> i64 \<Rightarrow> source_mapping" where
  "demo_mapping i source u priority =
     \<lparr>mp_id = i, mp_slug = ''gpt'', mp_kind = ''aggregate_api'', mp_source_id = source, mp_upstream = u,
      mp_enabled = True, mp_priority = priority, mp_weight = 1, mp_billing = None, mp_created_at = 1,
      mp_updated_at = 1\<rparr>"

definition demo_routes :: model_store where
  "demo_routes =
     \<lparr>ms_catalog = [], ms_groups = [], ms_group_models = [], ms_user_groups = [], ms_users = [], ms_owners = [],
      ms_sources = [demo_source ''a'' ''m1'', demo_source ''a'' ''m2'', demo_source ''b'' ''m1''],
      ms_mappings = [demo_mapping ''i1'' ''a'' ''m1'' 0, demo_mapping ''i2'' ''a'' ''m2'' 3,
                     demo_mapping ''i3'' ''b'' ''m1'' 0],
      ms_prefs = [], ms_apis = [], ms_secrets = [],
      ms_balance_secrets = [], ms_supplier_models = [], ms_assignments = [], ms_fault = None, ms_refusal = ''constraint failed''\<rparr>"

lemma demo_routes_fault: "ms_fault demo_routes = None" by (simp add: demo_routes_def)

lemma demo_text_trims: "trim ''gpt'' = ''gpt''" "trim ''aggregate_api'' = ''aggregate_api''" "trim ''a'' = ''a''"
  by code_simp+

theorem mapping_lookups_agree_witness:
  "\<exists>found. list_enabled_model_source_mappings_for_sources demo_routes ''gpt'' ''aggregate_api'' [''b'', ''a''] = Inr found
    \<and> list_all (\<lambda>i. find_enabled_model_source_mapping demo_routes ''gpt'' ''aggregate_api'' i = Inr (found i))
        (normalize_text_ids [''b'', ''a''])
    \<and> dom found \<subseteq> set (normalize_text_ids [''b'', ''a''])"
  by (rule mapping_lookups_agree) (simp_all add: demo_routes_fault demo_text_trims)

section \<open>The tables stay well formed\<close>

definition routes_wf :: "model_store \<Rightarrow> bool" where
  "routes_wf st \<longleftrightarrow>
     keys_unique sm_key (ms_sources st) \<and> keys_unique mp_key (ms_mappings st)
     \<and> keys_unique mp_id (ms_mappings st) \<and> keys_unique pf_key (ms_prefs st)
     \<and> (\<forall>p\<in>set (ms_prefs st). pf_preference p \<in> {''unlinked'', ''disabled''})"

datatype route_op =
    OpSourceModel source_model | OpDiscover str str "str list" str
  | OpMapping source_mapping | OpDropMapping str | OpUnlinkMapping str str str str
  | OpDropSource str str | OpDropPlatformModel str
  | OpPref str str str str | OpDropPref str str str | OpDropPrefs str str

fun run_route_op :: "route_op \<Rightarrow> i64 \<Rightarrow> model_store \<Rightarrow> unit sql \<times> model_store" where
  "run_route_op (OpSourceModel m) now st = upsert_model_source_model m st"
| "run_route_op (OpDiscover k s us d) now st =
     (case upsert_discovered_model_source_models k s us d now st of (r, st') \<Rightarrow> (map_sum id (\<lambda>_. ()) r, st'))"
| "run_route_op (OpMapping m) now st = upsert_model_source_mapping m st"
| "run_route_op (OpDropMapping i) now st = delete_model_source_mapping i st"
| "run_route_op (OpUnlinkMapping i k s u) now st = delete_model_source_mapping_with_unlink_preference i k s u now st"
| "run_route_op (OpDropSource k s) now st = delete_model_source_routes_for_source k s st"
| "run_route_op (OpDropPlatformModel slug) now st = delete_model_source_routes_for_platform_model slug st"
| "run_route_op (OpPref k s u p) now st = upsert_model_source_mapping_preference k s u p now st"
| "run_route_op (OpDropPref k s u) now st = delete_model_source_mapping_preference k s u st"
| "run_route_op (OpDropPrefs k s) now st = delete_model_source_mapping_preferences_for_source k s st"

inductive route_history :: "model_store \<Rightarrow> model_store \<Rightarrow> bool" where
  route_start: "route_history st st"
| route_step: "route_history st st' \<Longrightarrow> run_route_op op now st' = (r, st'') \<Longrightarrow> route_history st st''"

lemma keys_unique_upsert_id:
  assumes "keys_unique mp_id rows" "row_exists mp_key rows (mp_key m) \<or> \<not> row_exists mp_id rows (mp_id m)"
  shows "keys_unique mp_id (row_upsert mp_key merge_mapping m rows)"
proof (cases "row_exists mp_key rows (mp_key m)")
  case True
  have "map mp_id (row_upsert mp_key merge_mapping m rows) = map mp_id rows"
    using True by (simp add: row_upsert_def if_distrib [of mp_id] cong: if_cong)
  with assms(1) show ?thesis by (simp add: keys_unique_def)
next
  case False
  with assms show ?thesis by (auto simp: row_upsert_def keys_unique_append row_exists_iff)
qed

lemma put_pref_wf:
  assumes "routes_wf st" "preference \<in> {''unlinked'', ''disabled''}"
  shows "routes_wf (st\<lparr>ms_prefs := put_pref k s u preference now (ms_prefs st)\<rparr>)"
proof -
  have "pf_preference p \<in> {''unlinked'', ''disabled''}" if "p \<in> set (put_pref k s u preference now (ms_prefs st))" for p
    using row_upsert_cases [OF that [unfolded put_pref_def]] assms unfolding routes_wf_def
    by (elim disjE bexE conjE) simp_all
  moreover have "keys_unique pf_key (put_pref k s u preference now (ms_prefs st))"
    using assms(1) unfolding put_pref_def routes_wf_def
    by (intro keys_unique_upsert [where key = pf_key and merge = "\<lambda>old new. new"]) simp_all
  ultimately show ?thesis using assms(1) by (simp add: routes_wf_def)
qed

lemma filter_wf:
  "routes_wf st \<Longrightarrow> routes_wf (st\<lparr>ms_mappings := filter P (ms_mappings st)\<rparr>)"
  "routes_wf st \<Longrightarrow> routes_wf (st\<lparr>ms_sources := filter Q (ms_sources st)\<rparr>)"
  "routes_wf st \<Longrightarrow> routes_wf (st\<lparr>ms_prefs := filter R (ms_prefs st)\<rparr>)"
  by (simp_all add: routes_wf_def keys_unique_filter)

lemma exec_keeps:
  "routes_wf st \<Longrightarrow> routes_wf st' \<Longrightarrow> routes_wf (snd (ms_exec st st'))"
  "routes_wf st \<Longrightarrow> (ok \<Longrightarrow> routes_wf st') \<Longrightarrow> routes_wf (snd (ms_exec_if ok st st'))"
  by (simp_all add: ms_exec_state ms_exec_if_state)

lemma then_keeps:
  assumes "routes_wf (snd r)" "\<And>st. routes_wf st \<Longrightarrow> routes_wf (snd (f st))"
  shows "routes_wf (snd (ms_then r f))"
  using assms by (cases r) (auto simp: ms_then_def split: sum.split)

lemma each_keeps:
  assumes "\<And>x st. routes_wf st \<Longrightarrow> routes_wf (snd (f x st))"
  shows "routes_wf st \<Longrightarrow> routes_wf (snd (ms_each f xs st))"
  using assms by (induction xs arbitrary: st) (auto intro: then_keeps)

lemma upsert_source_model_wf: "routes_wf st \<Longrightarrow> routes_wf (snd (upsert_model_source_model m st))"
  unfolding upsert_model_source_model_def
  by (rule exec_keeps(1), assumption)
    (simp add: routes_wf_def keys_unique_upsert [where key = sm_key and merge = merge_source_model])

lemma remove_upstream_wf: "routes_wf st \<Longrightarrow> routes_wf (snd (remove_source_upstream k s d u st))"
  unfolding remove_source_upstream_def row_delete_def
  by (intro then_keeps exec_keeps(1) filter_wf)

lemma discover_wf: "routes_wf st \<Longrightarrow> routes_wf (snd (upsert_discovered_model_source_models k s us d now st))"
  unfolding upsert_discovered_model_source_models_def Let_def
  by (intro then_keeps each_keeps upsert_source_model_wf) (auto split: sum.split
      intro!: then_keeps each_keeps remove_upstream_wf)

lemma upsert_mapping_wf: "routes_wf st \<Longrightarrow> routes_wf (snd (upsert_model_source_mapping m st))"
  unfolding upsert_model_source_mapping_def
  by (rule exec_keeps(2), assumption)
    (simp add: routes_wf_def keys_unique_upsert_id keys_unique_upsert [where key = mp_key and merge = merge_mapping])

lemma pref_ops_wf:
  assumes "routes_wf st"
  shows "routes_wf (snd (upsert_model_source_mapping_preference k s u p now st))"
    "routes_wf (snd (delete_model_source_mapping_with_unlink_preference i k s u now st))"
  using assms filter_wf(1) [OF put_pref_wf [OF assms, of "''unlinked''" "trim k" "trim s" "trim u" now], of "\<lambda>m. mp_id m \<noteq> trim i"]
  by (simp_all add: upsert_model_source_mapping_preference_def ms_exec_if_state ms_exec_state put_pref_wf
      delete_model_source_mapping_with_unlink_preference_def row_delete_def)

lemma delete_ops_wf:
  assumes "routes_wf st"
  shows "routes_wf (snd (delete_model_source_mapping i st))"
    "routes_wf (snd (delete_model_source_routes_for_source k s st))"
    "routes_wf (snd (delete_model_source_routes_for_platform_model slug st))"
    "routes_wf (snd (delete_model_source_mapping_preference k s u st))"
    "routes_wf (snd (delete_model_source_mapping_preferences_for_source k s st))"
  using assms
  by (auto simp: delete_model_source_mapping_def delete_model_source_routes_for_source_def row_delete_def
      delete_model_source_routes_for_platform_model_def delete_model_source_mapping_preference_def
      delete_model_source_mapping_preferences_for_source_def intro!: then_keeps exec_keeps(1) filter_wf)

lemma run_route_op_wf: "routes_wf st \<Longrightarrow> routes_wf (snd (run_route_op op now st))"
  by (cases op) (simp_all add: upsert_source_model_wf discover_wf upsert_mapping_wf pref_ops_wf delete_ops_wf
      split_beta)


lemma demo_routes_wf: "routes_wf demo_routes"
  by code_simp


section \<open>A discovery\<close>

lemma each_upsert_sources:
  "ms_fault st = None \<Longrightarrow> ms_each upsert_model_source_model found st
     = (Inr (), st\<lparr>ms_sources := fold (row_upsert sm_key merge_source_model) found (ms_sources st)\<rparr>)"
  by (induction found arbitrary: st) (simp_all add: upsert_model_source_model_def)

definition without_upstreams :: "str \<Rightarrow> str \<Rightarrow> str \<Rightarrow> str set \<Rightarrow> model_store \<Rightarrow> model_store" where
  "without_upstreams kind source discovery us st =
     st\<lparr>ms_mappings := filter (\<lambda>m. \<not> (mp_kind m = kind \<and> mp_source_id m = source \<and> mp_upstream m \<in> us)) (ms_mappings st),
        ms_sources := filter (\<lambda>m. \<not> (sm_kind m = kind \<and> sm_source_id m = source \<and> sm_upstream m \<in> us
                                     \<and> sm_discovery m = discovery)) (ms_sources st),
        ms_prefs := filter (\<lambda>p. \<not> (pf_kind p = kind \<and> pf_source_id p = source \<and> pf_upstream p \<in> us)) (ms_prefs st)\<rparr>"

lemma without_none: "without_upstreams k s d {} st = st"
  by (simp add: without_upstreams_def)

lemma without_insert:
  "without_upstreams k s d us (without_upstreams k s d {u} st) = without_upstreams k s d (insert u us) st"
  by (rule model_store.equality) (auto simp: without_upstreams_def intro!: filter_cong)

lemma remove_upstream_exact:
  "ms_fault st = None \<Longrightarrow> remove_source_upstream k s d u st = (Inr (), without_upstreams k s d {u} st)"
  by (simp add: remove_source_upstream_def without_upstreams_def row_delete_def pf_key_def sm_key_def conj_assoc)

lemma each_remove_upstream:
  "ms_fault st = None \<Longrightarrow>
   ms_each (remove_source_upstream k s d) us st = (Inr (), without_upstreams k s d (set us) st)"
proof (induction us arbitrary: st)
  case (Cons u us)
  then have "ms_fault (without_upstreams k s d {u} st) = None" by (simp add: without_upstreams_def)
  from Cons.IH [OF this] Cons.prems show ?case by (simp add: remove_upstream_exact without_insert)
qed (simp add: without_none)

lemma discovered_row:
  assumes "u \<in> set names"
  shows "\<exists>m\<in>set (fold (row_upsert sm_key merge_source_model) (map (discovered_model k s d now) names) rows).
      sm_key m = (k, s, u) \<and> sm_discovery m = d"
proof -
  let ?put = "source_rows.put_all" and ?d = "discovered_model k s d now"
  obtain xs ys where names: "names = xs @ u # ys" "u \<notin> set ys" using split_list_last [OF assms] by blast
  have "row_find sm_key (?put (map ?d names) rows) (k, s, u)
      = Some (case row_find sm_key (?put (map ?d xs) rows) (k, s, u) of None \<Rightarrow> ?d u | Some x \<Rightarrow> merge_source_model x (?d u))"
    unfolding names(1) map_append list.map by (rule source_rows.put_all_last) (use names(2) in auto)
  then obtain m where "row_find sm_key (?put (map ?d names) rows) (k, s, u) = Some m" "sm_discovery m = d"
    by (cases "row_find sm_key (?put (map ?d xs) rows) (k, s, u)")
      (simp_all add: discovered_model_def merge_source_model_def)
  then show ?thesis
    unfolding source_rows.put_all_def by (blast dest: row_find_SomeD)
qed

definition stale_upstreams :: "str \<Rightarrow> str \<Rightarrow> str \<Rightarrow> str list \<Rightarrow> model_store \<Rightarrow> str set" where
  "stale_upstreams k s d names st = set (known_upstreams k s d st) - set names"

lemma known_after_upserts:
  assumes "u \<notin> set names"
  shows "u \<in> set (known_upstreams k s d (st\<lparr>ms_sources :=
             fold (row_upsert sm_key merge_source_model) (map (discovered_model k s d now) names) (ms_sources st)\<rparr>))
     \<longleftrightarrow> u \<in> set (known_upstreams k s d st)"
proof -
  let ?rows = "fold (row_upsert sm_key merge_source_model) (map (discovered_model k s d now) names) (ms_sources st)"
  have "filter (\<lambda>m. sm_key m = (k, s, u)) ?rows = filter (\<lambda>m. sm_key m = (k, s, u)) (ms_sources st)"
    by (rule filter_upserts_other [where Q = "\<lambda>x. x = (k, s, u)"]) (use assms in auto)
  from arg_cong [OF this, of set] have "{m \<in> set ?rows. sm_key m = (k, s, u)} = {m \<in> set (ms_sources st). sm_key m = (k, s, u)}"
    by simp
  then have "(\<exists>m\<in>set ?rows. sm_key m = (k, s, u) \<and> sm_discovery m = d)
      \<longleftrightarrow> (\<exists>m\<in>set (ms_sources st). sm_key m = (k, s, u) \<and> sm_discovery m = d)" by blast
  then show ?thesis by (simp add: known_upstreams_def sm_key_def image_iff Bex_def conj_ac eq_commute)
qed

text \<open>
  C27: a discovery makes the models of a source those it found. Afterwards the source has exactly the
  found models under that kind of discovery; a model that was known before and was not found again
  loses its mappings and its preference, and no other mapping, preference or source changes.
\<close>

theorem discovery_exact:
  assumes "ms_fault st = None" "trim kind = k" "trim source = s" "trim discovery = d"
    "discovered_names {} upstreams = names"
  shows "\<exists>st'. upsert_discovered_model_source_models kind source upstreams discovery now st
        = (Inr (map (discovered_model k s d now) names), st')
    \<and> set (known_upstreams k s d st') = set names
    \<and> ms_mappings st' = filter (\<lambda>m. \<not> (mp_kind m = k \<and> mp_source_id m = s
                                       \<and> mp_upstream m \<in> stale_upstreams k s d names st)) (ms_mappings st)
    \<and> ms_prefs st' = filter (\<lambda>p. \<not> (pf_kind p = k \<and> pf_source_id p = s
                                    \<and> pf_upstream p \<in> stale_upstreams k s d names st)) (ms_prefs st)
    \<and> filter (\<lambda>m. (sm_kind m, sm_source_id m) \<noteq> (k, s)) (ms_sources st')
        = filter (\<lambda>m. (sm_kind m, sm_source_id m) \<noteq> (k, s)) (ms_sources st)"
proof -
  let ?found = "map (discovered_model k s d now) names"
  let ?rows = "fold (row_upsert sm_key merge_source_model) ?found (ms_sources st)"
  let ?st1 = "st\<lparr>ms_sources := ?rows\<rparr>"
  let ?stale = "filter (\<lambda>u. u \<notin> set names) (distinct_texts (known_upstreams k s d ?st1))"
  have stale: "set ?stale = stale_upstreams k s d names st"
    using known_after_upserts [where names = names and st = st and now = now] by (auto simp: stale_upstreams_def)
  let ?st' = "without_upstreams k s d (stale_upstreams k s d names st) ?st1"
  have run: "upsert_discovered_model_source_models kind source upstreams discovery now st = (Inr ?found, ?st')"
    unfolding upsert_discovered_model_source_models_def Let_def assms(2-5)
    using assms(1) by (simp add: each_upsert_sources each_remove_upstream stale [simplified])
  have known: "set (known_upstreams k s d ?st') = set names"
  proof (intro set_eqI iffI)
    fix u assume "u \<in> set (known_upstreams k s d ?st')"
    then have "u \<in> set (known_upstreams k s d ?st1)" "u \<notin> stale_upstreams k s d names st"
      by (auto simp: known_upstreams_def without_upstreams_def)
    then show "u \<in> set names"
      using known_after_upserts [where u = u and names = names and st = st and now = now] by (auto simp: stale_upstreams_def)
  next
    fix u assume u: "u \<in> set names"
    from discovered_row [OF u, of k s d now "ms_sources st"]
    obtain m where "m \<in> set ?rows" "sm_key m = (k, s, u)" "sm_discovery m = d" by blast
    with u show "u \<in> set (known_upstreams k s d ?st')"
      by (auto simp: known_upstreams_def without_upstreams_def sm_key_def stale_upstreams_def image_iff)
  qed
  have "filter (\<lambda>m. (sm_kind m, sm_source_id m) \<noteq> (k, s)) ?rows
      = filter (\<lambda>m. (sm_kind m, sm_source_id m) \<noteq> (k, s)) (ms_sources st)"
    using filter_upserts_other [where key = sm_key and merge = merge_source_model
        and Q = "\<lambda>x. (fst x, fst (snd x)) \<noteq> (k, s)" and vs = ?found and rows = "ms_sources st"]
    by (simp add: sm_key_def [abs_def] discovered_model_def merge_source_model_def)
  moreover have "filter (\<lambda>m. (sm_kind m, sm_source_id m) \<noteq> (k, s)) (ms_sources ?st')
      = filter (\<lambda>m. (sm_kind m, sm_source_id m) \<noteq> (k, s)) ?rows"
    by (auto simp: without_upstreams_def intro!: filter_cong)
  ultimately have "filter (\<lambda>m. (sm_kind m, sm_source_id m) \<noteq> (k, s)) (ms_sources ?st')
      = filter (\<lambda>m. (sm_kind m, sm_source_id m) \<noteq> (k, s)) (ms_sources st)" by simp
  with run known show ?thesis by (auto simp: without_upstreams_def)
qed

theorem discovery_exact_witness:
  "\<exists>st'. upsert_discovered_model_source_models ''aggregate_api'' '' a'' [''m2 '', ''m3'', ''m2''] ''synced'' 9 demo_routes
        = (Inr (map (discovered_model ''aggregate_api'' ''a'' ''synced'' 9) [''m2'', ''m3'']), st')
    \<and> set (known_upstreams ''aggregate_api'' ''a'' ''synced'' st') = set [''m2'', ''m3'']
    \<and> list_all (\<lambda>m. mp_id m \<noteq> ''i1'') (ms_mappings st')"
proof -
  have names: "discovered_names {} [''m2 '', ''m3'', ''m2''] = [''m2'', ''m3'']"
    and trims: "trim ''aggregate_api'' = ''aggregate_api''" "trim '' a'' = ''a''" "trim ''synced'' = ''synced''"
    by code_simp+
  from discovery_exact [OF demo_routes_fault trims names, of 9]
  obtain st' where st': "upsert_discovered_model_source_models ''aggregate_api'' '' a'' [''m2 '', ''m3'', ''m2''] ''synced'' 9 demo_routes
        = (Inr (map (discovered_model ''aggregate_api'' ''a'' ''synced'' 9) [''m2'', ''m3'']), st')"
    "set (known_upstreams ''aggregate_api'' ''a'' ''synced'' st') = set [''m2'', ''m3'']"
    "ms_mappings st' = filter (\<lambda>m. \<not> (mp_kind m = ''aggregate_api'' \<and> mp_source_id m = ''a''
         \<and> mp_upstream m \<in> stale_upstreams ''aggregate_api'' ''a'' ''synced'' [''m2'', ''m3''] demo_routes)) (ms_mappings demo_routes)"
    by (elim exE conjE)
  have "list_all (\<lambda>m. mp_id m \<noteq> ''i1'') (ms_mappings st')"
    unfolding st'(3) by code_simp
  with st'(1,2) show ?thesis by (intro exI conjI)
qed

end
