(* ===== verification/Aggregate_Store.thy ===== *)
theory Aggregate_Store
  imports Model_Sources
begin

text \<open>
  The aggregate APIs of \<^verbatim>\<open>core/src/storage/aggregate_apis.rs\<close>: the upstream channels a gateway
  can send to instead of an account, with their secrets and the model templates of their suppliers.
  Every statement of the file but the creation of the tables is a definition here. \<open>now\<close> is the
  clock's second.
\<close>

section \<open>Inserting and finding\<close>

text \<open>
  \<^verbatim>\<open>INSERT OR REPLACE\<close> deletes the row that has the id, with the secrets that refer to it, and
  appends the new one.
\<close>

definition insert_aggregate_api :: "aggregate_api \<Rightarrow> model_store \<Rightarrow> unit sql \<times> model_store" where
  "insert_aggregate_api a st =
     ms_exec st (if row_exists ag_id (ms_apis st) (ag_id a)
       then st\<lparr>ms_apis := row_delete ag_id (ag_id a) (ms_apis st) @ [a],
               ms_secrets := row_delete fst (ag_id a) (ms_secrets st),
               ms_balance_secrets := row_delete fst (ag_id a) (ms_balance_secrets st)\<rparr>
       else st\<lparr>ms_apis := ms_apis st @ [a]\<rparr>)"

definition find_aggregate_api_by_id :: "model_store \<Rightarrow> str \<Rightarrow> aggregate_api option sql" where
  "find_aggregate_api_by_id st i = ms_query st (row_find ag_id (ms_apis st) i)"

definition find_aggregate_api_with_secrets_by_id ::
    "model_store \<Rightarrow> str \<Rightarrow> (aggregate_api \<times> str option \<times> str option) option sql" where
  "find_aggregate_api_with_secrets_by_id st i =
     ms_query st (map_option (\<lambda>a. (a, map_option snd (row_find fst (ms_secrets st) i),
                                      map_option snd (row_find fst (ms_balance_secrets st) i)))
       (row_find ag_id (ms_apis st) i))"

definition find_aggregate_api_status_by_id :: "model_store \<Rightarrow> str \<Rightarrow> str option sql" where
  "find_aggregate_api_status_by_id st i = ms_query st (map_option ag_status (row_find ag_id (ms_apis st) i))"

definition find_aggregate_api_auth_type_by_id :: "model_store \<Rightarrow> str \<Rightarrow> str option sql" where
  "find_aggregate_api_auth_type_by_id st i = ms_query st (map_option ag_auth_type (row_find ag_id (ms_apis st) i))"

definition find_aggregate_api_secret_config_by_id ::
    "model_store \<Rightarrow> str \<Rightarrow> (str \<times> str option) option sql" where
  "find_aggregate_api_secret_config_by_id st i =
     ms_query st (map_option (\<lambda>a. (ag_auth_type a, map_option snd (row_find fst (ms_secrets st) i)))
       (row_find ag_id (ms_apis st) i))"

record update_config =
  uc_auth_type :: str
  uc_balance_query_enabled :: bool
  uc_balance_query_template :: "str option"
  uc_balance_query_base_url :: "str option"
  uc_balance_query_user_id :: "str option"
  uc_balance_query_config_json :: "str option"

definition find_aggregate_api_update_config_by_id :: "model_store \<Rightarrow> str \<Rightarrow> update_config option sql" where
  "find_aggregate_api_update_config_by_id st i =
     ms_query st (map_option (\<lambda>a.
         \<lparr>uc_auth_type = ag_auth_type a,
          uc_balance_query_enabled = ap_balance_query_enabled (ag_probes a),
          uc_balance_query_template = ap_balance_query_template (ag_probes a),
          uc_balance_query_base_url = ap_balance_query_base_url (ag_probes a),
          uc_balance_query_user_id = ap_balance_query_user_id (ag_probes a),
          uc_balance_query_config_json = ap_balance_query_config_json (ag_probes a)\<rparr>)
       (row_find ag_id (ms_apis st) i))"

definition aggregate_api_exists :: "model_store \<Rightarrow> str \<Rightarrow> bool sql" where
  "aggregate_api_exists st i = ms_query st (row_exists ag_id (ms_apis st) i)"

definition find_aggregate_api_supplier_identity_by_id ::
    "model_store \<Rightarrow> str \<Rightarrow> (str \<times> str \<times> str option \<times> str) option sql" where
  "find_aggregate_api_supplier_identity_by_id st i =
     ms_query st (map_option (\<lambda>a. (ag_id a, ag_provider_type a, ag_supplier_name a, ag_url a))
       (row_find ag_id (ms_apis st) i))"

section \<open>Lists\<close>

text \<open>
  The order of the list leaves rows of the same \<^verbatim>\<open>sort\<close> and \<^verbatim>\<open>updated_at\<close> in scan order; the
  other queries break the tie by id.
\<close>

definition api_list_order :: "aggregate_api \<Rightarrow> i64 \<times> i64 \<times> str" where
  "api_list_order a = (ag_sort a, - ag_updated_at a, ag_id a)"

definition api_route_order :: "aggregate_api \<Rightarrow> i64 \<times> i64 \<times> str" where
  "api_route_order a = (ag_sort a, - ag_created_at a, ag_id a)"

definition list_aggregate_apis :: "model_store \<Rightarrow> aggregate_api list sql" where
  "list_aggregate_apis st = ms_query st (sort_key (\<lambda>a. (ag_sort a, - ag_updated_at a)) (ms_apis st))"

definition list_aggregate_apis_for_ids :: "model_store \<Rightarrow> str list \<Rightarrow> aggregate_api list sql" where
  "list_aggregate_apis_for_ids st ids0 =
     (let ids = normalize_text_ids ids0
      in if ids = [] then Inr []
         else ms_query st (sort_key api_list_order (in_chunks ag_id (ms_apis st) ids)))"

definition list_aggregate_api_dashboard_source_metadata_for_ids ::
    "model_store \<Rightarrow> str list \<Rightarrow> (str \<times> str \<times> str option \<times> str \<times> str) list sql" where
  "list_aggregate_api_dashboard_source_metadata_for_ids st ids0 =
     (let ids = normalize_text_ids ids0
      in if ids = [] then Inr []
         else ms_query st (map (\<lambda>a. (ag_id a, ag_provider_type a, ag_supplier_name a, ag_url a, ag_status a))
                (sort_key api_list_order (in_chunks ag_id (ms_apis st) ids))))"

definition list_aggregate_api_ids :: "model_store \<Rightarrow> str list sql" where
  "list_aggregate_api_ids st = ms_query st (map ag_id (sort_key api_list_order (ms_apis st)))"

text \<open>The summaries of the quota page: the row without the columns that page does not show.\<close>

definition list_aggregate_api_quota_source_summaries ::
    "model_store \<Rightarrow> ((str \<times> str \<times> str option \<times> str \<times> str \<times> bool) \<times> (i64 option \<times> str option \<times> str option \<times> str option)) list sql" where
  "list_aggregate_api_quota_source_summaries st =
     ms_query st (map (\<lambda>a.
         ((ag_id a, ag_provider_type a, ag_supplier_name a, ag_url a, ag_status a,
           ap_balance_query_enabled (ag_probes a)),
          (ap_last_balance_at (ag_probes a), ap_last_balance_status (ag_probes a),
           ap_last_balance_error (ag_probes a), ap_last_balance_json (ag_probes a))))
       (sort_key api_list_order (ms_apis st)))"

definition api_active :: "aggregate_api \<Rightarrow> bool" where
  "api_active a \<longleftrightarrow> to_ascii_lowercase (sql_trim (ag_status a)) = ''active''"

definition list_active_balance_query_aggregate_api_ids :: "model_store \<Rightarrow> str list sql" where
  "list_active_balance_query_aggregate_api_ids st =
     ms_query st (map ag_id (sort_key api_list_order
       (filter (\<lambda>a. ap_balance_query_enabled (ag_probes a) \<and> api_active a) (ms_apis st))))"

definition list_balance_query_aggregate_api_ids :: "model_store \<Rightarrow> str list sql" where
  "list_balance_query_aggregate_api_ids st =
     ms_query st (map ag_id (sort_key api_list_order
       (filter (\<lambda>a. ap_balance_query_enabled (ag_probes a)) (ms_apis st))))"

definition list_balance_query_aggregate_api_ids_for_ids :: "model_store \<Rightarrow> str list \<Rightarrow> str list sql" where
  "list_balance_query_aggregate_api_ids_for_ids st ids0 =
     (let ids = normalize_text_ids ids0
      in if ids = [] then Inr []
         else ms_query st (map ag_id (sort_key api_list_order
                (in_chunks ag_id (filter (\<lambda>a. ap_balance_query_enabled (ag_probes a)) (ms_apis st)) ids))))"

definition list_active_aggregate_api_ids :: "model_store \<Rightarrow> str list sql" where
  "list_active_aggregate_api_ids st =
     ms_query st (map ag_id (sort_key api_route_order (filter api_active (ms_apis st))))"

definition list_active_aggregate_apis :: "model_store \<Rightarrow> aggregate_api list sql" where
  "list_active_aggregate_apis st = ms_query st (sort_key api_route_order (filter api_active (ms_apis st)))"

section \<open>Provider types\<close>

definition replace_char :: "char \<Rightarrow> char \<Rightarrow> str \<Rightarrow> str" where
  "replace_char c d s = map (\<lambda>x. if x = c then d else x) s"

definition claude_aliases :: "str list" where
  "claude_aliases = [''claude'', ''anthropic'', ''anthropic_native'', ''claude_code'']"

definition gemini_aliases :: "str list" where
  "gemini_aliases = [''gemini'', ''gemini_native'', ''google'', ''google_ai'', ''google_gemini'']"

definition normalize_aggregate_api_provider_type :: "str \<Rightarrow> str" where
  "normalize_aggregate_api_provider_type v = replace_char CHR ''-'' CHR ''_'' (to_ascii_lowercase (trim v))"

definition sql_provider_type :: "aggregate_api \<Rightarrow> str" where
  "sql_provider_type a = replace_char CHR ''-'' CHR ''_'' (to_ascii_lowercase (sql_trim (ag_provider_type a)))"

definition aggregate_api_provider_type_condition :: "str \<Rightarrow> (aggregate_api \<Rightarrow> bool) option" where
  "aggregate_api_provider_type_condition provider =
     (let p = normalize_aggregate_api_provider_type provider
      in if p = [] then None
         else if p \<in> set claude_aliases then Some (\<lambda>a. sql_provider_type a \<in> set claude_aliases)
         else if p \<in> set gemini_aliases then Some (\<lambda>a. sql_provider_type a \<in> set gemini_aliases)
         else Some (\<lambda>a. sql_provider_type a \<notin> set (claude_aliases @ gemini_aliases)))"

definition list_active_aggregate_apis_by_provider_type ::
    "model_store \<Rightarrow> str \<Rightarrow> aggregate_api list sql" where
  "list_active_aggregate_apis_by_provider_type st provider =
     (case aggregate_api_provider_type_condition provider of
        None \<Rightarrow> Inr []
      | Some cond \<Rightarrow> ms_query st (sort_key api_route_order (filter (\<lambda>a. api_active a \<and> cond a) (ms_apis st))))"

section \<open>Statistics\<close>

fun max_present :: "i64 option list \<Rightarrow> i64 option" where
  "max_present [] = None"
| "max_present (x # xs) =
     (case (x, max_present xs) of (None, m) \<Rightarrow> m | (Some a, None) \<Rightarrow> Some a | (Some a, Some b) \<Rightarrow> Some (max a b))"

definition aggregate_api_overview_stats ::
    "model_store \<Rightarrow> (nat \<times> nat \<times> nat \<times> nat \<times> i64 option) sql" where
  "aggregate_api_overview_stats st =
     (let rows = map ag_probes (ms_apis st)
      in ms_query st
           (length rows, length (filter ap_balance_query_enabled rows),
            length (filter (\<lambda>p. ap_last_balance_status p = Some ''success'') rows),
            length (filter (\<lambda>p. ap_last_balance_status p \<in> {Some ''error'', Some ''failed''}) rows),
            max_present (map ap_last_balance_at rows)))"

definition list_aggregate_api_balance_jsons :: "model_store \<Rightarrow> str list sql" where
  "list_aggregate_api_balance_jsons st =
     ms_query st (List.map_filter (\<lambda>a. case ap_last_balance_json (ag_probes a) of
          None \<Rightarrow> None | Some j \<Rightarrow> if sql_trim j = [] then None else Some j)
       (sort_key api_list_order (ms_apis st)))"

section \<open>Updates\<close>

definition update_api :: "str \<Rightarrow> (aggregate_api \<Rightarrow> aggregate_api) \<Rightarrow> model_store \<Rightarrow> unit sql \<times> model_store" where
  "update_api i f st = ms_exec st (st\<lparr>ms_apis := map (\<lambda>a. if ag_id a = i then f a else a) (ms_apis st)\<rparr>)"

definition update_aggregate_api_url :: "str \<Rightarrow> str \<Rightarrow> i64 \<Rightarrow> model_store \<Rightarrow> unit sql \<times> model_store" where
  "update_aggregate_api_url i url now = update_api i (\<lambda>a. a\<lparr>ag_url := url, ag_updated_at := now\<rparr>)"

definition update_aggregate_api_supplier_name ::
    "str \<Rightarrow> str option \<Rightarrow> i64 \<Rightarrow> model_store \<Rightarrow> unit sql \<times> model_store" where
  "update_aggregate_api_supplier_name i name now =
     update_api i (\<lambda>a. a\<lparr>ag_supplier_name := name, ag_updated_at := now\<rparr>)"

definition update_aggregate_api_sort :: "str \<Rightarrow> i64 \<Rightarrow> i64 \<Rightarrow> model_store \<Rightarrow> unit sql \<times> model_store" where
  "update_aggregate_api_sort i s now = update_api i (\<lambda>a. a\<lparr>ag_sort := s, ag_updated_at := now\<rparr>)"

definition update_aggregate_api_status :: "str \<Rightarrow> str \<Rightarrow> i64 \<Rightarrow> model_store \<Rightarrow> unit sql \<times> model_store" where
  "update_aggregate_api_status i status now =
     update_api i (\<lambda>a. a\<lparr>ag_status := status, ag_updated_at := now\<rparr>)"

definition update_aggregate_api_type :: "str \<Rightarrow> str \<Rightarrow> i64 \<Rightarrow> model_store \<Rightarrow> unit sql \<times> model_store" where
  "update_aggregate_api_type i p now =
     update_api i (\<lambda>a. a\<lparr>ag_provider_type := p, ag_updated_at := now\<rparr>)"

definition update_aggregate_api_auth_type :: "str \<Rightarrow> str \<Rightarrow> i64 \<Rightarrow> model_store \<Rightarrow> unit sql \<times> model_store" where
  "update_aggregate_api_auth_type i t now =
     update_api i (\<lambda>a. a\<lparr>ag_auth_type := t, ag_updated_at := now\<rparr>)"

definition update_aggregate_api_auth_params_json ::
    "str \<Rightarrow> str option \<Rightarrow> i64 \<Rightarrow> model_store \<Rightarrow> unit sql \<times> model_store" where
  "update_aggregate_api_auth_params_json i p now =
     update_api i (\<lambda>a. a\<lparr>ag_auth_params_json := p, ag_updated_at := now\<rparr>)"

definition update_aggregate_api_action ::
    "str \<Rightarrow> str option \<Rightarrow> i64 \<Rightarrow> model_store \<Rightarrow> unit sql \<times> model_store" where
  "update_aggregate_api_action i action now =
     update_api i (\<lambda>a. a\<lparr>ag_action := action, ag_updated_at := now\<rparr>)"

definition update_aggregate_api_model_override ::
    "str \<Rightarrow> str option \<Rightarrow> i64 \<Rightarrow> model_store \<Rightarrow> unit sql \<times> model_store" where
  "update_aggregate_api_model_override i m now =
     update_api i (\<lambda>a. a\<lparr>ag_model_override := m, ag_updated_at := now\<rparr>)"

definition update_aggregate_api_balance_query ::
    "str \<Rightarrow> bool \<Rightarrow> str option \<Rightarrow> str option \<Rightarrow> str option \<Rightarrow> str option \<Rightarrow> i64
       \<Rightarrow> model_store \<Rightarrow> unit sql \<times> model_store" where
  "update_aggregate_api_balance_query i enabled template base_url user_id config now =
     update_api i (\<lambda>a. a\<lparr>ag_probes := (ag_probes a)\<lparr>ap_balance_query_enabled := enabled,
         ap_balance_query_template := template, ap_balance_query_base_url := base_url,
         ap_balance_query_user_id := user_id, ap_balance_query_config_json := config\<rparr>,
       ag_updated_at := now\<rparr>)"

definition outcome_text :: "bool \<Rightarrow> str" where
  "outcome_text ok = (if ok then ''success'' else ''failed'')"

definition update_aggregate_api_balance_result ::
    "str \<Rightarrow> bool \<Rightarrow> str option \<Rightarrow> str option \<Rightarrow> i64 \<Rightarrow> model_store \<Rightarrow> unit sql \<times> model_store" where
  "update_aggregate_api_balance_result i ok balance_json error now =
     update_api i (\<lambda>a. a\<lparr>ag_probes := (ag_probes a)\<lparr>ap_last_balance_at := Some now,
         ap_last_balance_status := Some (outcome_text ok), ap_last_balance_error := error,
         ap_last_balance_json := balance_json\<rparr>,
       ag_updated_at := now\<rparr>)"

definition update_aggregate_api_test_result ::
    "str \<Rightarrow> bool \<Rightarrow> i64 option \<Rightarrow> str option \<Rightarrow> i64 \<Rightarrow> model_store \<Rightarrow> unit sql \<times> model_store" where
  "update_aggregate_api_test_result i ok status_code error now st =
     ms_then (update_api i (\<lambda>a. a\<lparr>ag_probes := (ag_probes a)\<lparr>ap_last_test_at := Some now,
                 ap_last_test_status := Some (outcome_text ok), ap_last_test_error := error\<rparr>,
               ag_updated_at := now\<rparr>) st) (\<lambda>st.
       (case status_code of
          None \<Rightarrow> (Inr (), st)
        | Some code \<Rightarrow>
            if ok then (Inr (), st)
            else update_api i (\<lambda>a. a\<lparr>ag_probes := (ag_probes a)\<lparr>ap_last_test_error := Some (''http_status='' @ dec_int code)\<rparr>\<rparr>) st))"

section \<open>Deletion and secrets\<close>

definition aggregate_source_kind :: str where "aggregate_source_kind = ''aggregate_api''"

text \<open>One transaction.\<close>

definition delete_aggregate_api :: "str \<Rightarrow> model_store \<Rightarrow> unit sql \<times> model_store" where
  "delete_aggregate_api i st =
     ms_exec st (st\<lparr>
       ms_balance_secrets := row_delete fst i (ms_balance_secrets st),
       ms_secrets := row_delete fst i (ms_secrets st),
       ms_prefs := filter (\<lambda>p. \<not> (pf_kind p = aggregate_source_kind \<and> pf_source_id p = i)) (ms_prefs st),
       ms_mappings := filter (\<lambda>m. \<not> (mp_kind m = aggregate_source_kind \<and> mp_source_id m = i)) (ms_mappings st),
       ms_sources := filter (\<lambda>m. \<not> (sm_kind m = aggregate_source_kind \<and> sm_source_id m = i)) (ms_sources st),
       ms_apis := row_delete ag_id i (ms_apis st)\<rparr>)"

text \<open>A secret refers to its API: the foreign key refuses one of an API that is missing.\<close>

definition upsert_aggregate_api_secret :: "str \<Rightarrow> str \<Rightarrow> model_store \<Rightarrow> unit sql \<times> model_store" where
  "upsert_aggregate_api_secret i secret st =
     ms_exec_if (row_exists ag_id (ms_apis st) i) st
       (st\<lparr>ms_secrets := row_upsert fst (\<lambda>old new. new) (i, secret) (ms_secrets st)\<rparr>)"

definition find_aggregate_api_secret_by_id :: "model_store \<Rightarrow> str \<Rightarrow> str option sql" where
  "find_aggregate_api_secret_by_id st i = ms_query st (map_option snd (row_find fst (ms_secrets st) i))"

definition list_aggregate_api_secrets_for_ids :: "model_store \<Rightarrow> str list \<Rightarrow> (str \<rightharpoonup> str) sql" where
  "list_aggregate_api_secrets_for_ids st ids0 =
     (let ids = normalize_text_ids ids0
      in if ids = [] then Inr Map.empty
         else ms_query st (fold (\<lambda>(i, s) h. h(i \<mapsto> s)) (in_chunks fst (ms_secrets st) ids) Map.empty))"

definition upsert_aggregate_api_balance_secret :: "str \<Rightarrow> str \<Rightarrow> model_store \<Rightarrow> unit sql \<times> model_store" where
  "upsert_aggregate_api_balance_secret i token st =
     ms_exec_if (row_exists ag_id (ms_apis st) i) st
       (st\<lparr>ms_balance_secrets := row_upsert fst (\<lambda>old new. new) (i, token) (ms_balance_secrets st)\<rparr>)"

definition delete_aggregate_api_balance_secret :: "str \<Rightarrow> model_store \<Rightarrow> unit sql \<times> model_store" where
  "delete_aggregate_api_balance_secret i st =
     ms_exec st (st\<lparr>ms_balance_secrets := row_delete fst i (ms_balance_secrets st)\<rparr>)"

definition find_aggregate_api_balance_secret_by_id :: "model_store \<Rightarrow> str \<Rightarrow> str option sql" where
  "find_aggregate_api_balance_secret_by_id st i =
     ms_query st (map_option snd (row_find fst (ms_balance_secrets st) i))"

section \<open>Supplier templates\<close>

definition su_row_key :: "supplier_model \<Rightarrow> str \<times> str \<times> str" where
  "su_row_key m = (su_key m, su_provider_type m, su_upstream m)"

definition merge_supplier_model :: "supplier_model \<Rightarrow> supplier_model \<Rightarrow> supplier_model" where
  "merge_supplier_model old new = new\<lparr>su_created_at := su_created_at old\<rparr>"

definition list_aggregate_api_supplier_models ::
    "model_store \<Rightarrow> str option \<Rightarrow> str option \<Rightarrow> supplier_model list sql" where
  "list_aggregate_api_supplier_models st supplier provider =
     ms_query st (sort_key su_row_key (filter (\<lambda>m. matches_text (trimmed_nonempty supplier) (su_key m)
                                                 \<and> matches_text (trimmed_nonempty provider) (su_provider_type m))
       (ms_supplier_models st)))"

definition upsert_aggregate_api_supplier_model :: "supplier_model \<Rightarrow> model_store \<Rightarrow> unit sql \<times> model_store" where
  "upsert_aggregate_api_supplier_model m st =
     ms_exec st (st\<lparr>ms_supplier_models := row_upsert su_row_key merge_supplier_model m (ms_supplier_models st)\<rparr>)"

definition delete_aggregate_api_supplier_model ::
    "str \<Rightarrow> str \<Rightarrow> str \<Rightarrow> model_store \<Rightarrow> unit sql \<times> model_store" where
  "delete_aggregate_api_supplier_model supplier provider upstream st =
     ms_exec st (st\<lparr>ms_supplier_models :=
       row_delete su_row_key (trim supplier, trim provider, trim upstream) (ms_supplier_models st)\<rparr>)"

section \<open>Assigned models\<close>

text \<open>
  The models assigned to a source (\<^verbatim>\<open>quota_pools.rs\<close>), replaced as a whole in one
  transaction; the set of slugs is trimmed, sorted and without repetitions.
\<close>

definition qa_key :: "quota_assignment \<Rightarrow> str \<times> str \<times> str" where
  "qa_key q = (qa_kind q, qa_source_id q, qa_slug q)"

definition set_quota_source_model_assignments ::
    "str \<Rightarrow> str \<Rightarrow> str list \<Rightarrow> i64 \<Rightarrow> model_store \<Rightarrow> unit sql \<times> model_store" where
  "set_quota_source_model_assignments kind source slugs now st =
     (if trim kind = [] \<or> trim source = [] then (Inr (), st)
      else ms_exec st (st\<lparr>ms_assignments :=
             filter (\<lambda>q. \<not> (qa_kind q = trim kind \<and> qa_source_id q = trim source)) (ms_assignments st)
             @ map (\<lambda>s. \<lparr>qa_kind = trim kind, qa_source_id = trim source, qa_slug = s, qa_updated_at = now\<rparr>)
                 (normalize_text_ids slugs)\<rparr>))"

definition list_quota_source_model_assignments_for_sources ::
    "model_store \<Rightarrow> str \<Rightarrow> str list \<Rightarrow> quota_assignment list sql" where
  "list_quota_source_model_assignments_for_sources st kind sources =
     (let ids = normalize_text_ids sources
      in if trim kind = [] \<or> ids = [] then Inr []
         else ms_query st (sort_key qa_key
                (in_chunks qa_source_id (filter (\<lambda>q. qa_kind q = trim kind) (ms_assignments st)) ids)))"

definition load_aggregate_api_list_snapshot ::
    "model_store \<Rightarrow> (aggregate_api list \<times> quota_assignment list) sql" where
  "load_aggregate_api_list_snapshot st =
     (case list_aggregate_apis st of
        Inl e \<Rightarrow> Inl e
      | Inr items \<Rightarrow>
          (case list_quota_source_model_assignments_for_sources st aggregate_source_kind (map ag_id items) of
             Inl e \<Rightarrow> Inl e
           | Inr assignments \<Rightarrow> Inr (items, assignments)))"

section \<open>The tables stay well formed\<close>

definition apis_wf :: "model_store \<Rightarrow> bool" where
  "apis_wf st \<longleftrightarrow>
     keys_unique ag_id (ms_apis st) \<and> keys_unique fst (ms_secrets st) \<and> keys_unique fst (ms_balance_secrets st)
     \<and> fst ` set (ms_secrets st) \<subseteq> ag_id ` set (ms_apis st)
     \<and> fst ` set (ms_balance_secrets st) \<subseteq> ag_id ` set (ms_apis st)"

interpretation secret_rows: keyed_store "row_find fst" "row_upsert fst (\<lambda>old new. new)" "row_delete fst"
    fst "\<lambda>old new. case old of None \<Rightarrow> new | Some x \<Rightarrow> new"
  by (rule keyed_store_rows) simp

interpretation supplier_rows: keyed_store "row_find su_row_key" "row_upsert su_row_key merge_supplier_model"
    "row_delete su_row_key" su_row_key
    "\<lambda>old new. case old of None \<Rightarrow> new | Some x \<Rightarrow> merge_supplier_model x new"
  by (rule keyed_store_rows) (simp add: su_row_key_def merge_supplier_model_def)

lemma keys_row_delete: "key ` set (row_delete key k rows) = key ` set rows - {k}"
  by (auto simp: set_row_delete)

lemma update_api_wf:
  assumes "apis_wf st" "\<And>a. ag_id (f a) = ag_id a"
  shows "apis_wf (snd (update_api i f st))"
proof -
  let ?rows = "map (\<lambda>a. if ag_id a = i then f a else a) (ms_apis st)"
  have ids: "map ag_id ?rows = map ag_id (ms_apis st)" using assms(2) by simp
  have "keys_unique ag_id ?rows = keys_unique ag_id (ms_apis st)"
    unfolding keys_unique_def ids ..
  moreover have "ag_id ` set ?rows = ag_id ` set (ms_apis st)"
    using arg_cong [OF ids, of set] by (simp only: set_map)
  ultimately have "apis_wf (st\<lparr>ms_apis := ?rows\<rparr>)"
    using assms(1) unfolding apis_wf_def by (simp del: set_map)
  with assms(1) show ?thesis by (simp add: update_api_def ms_exec_state)
qed

lemma insert_api_wf: "apis_wf st \<Longrightarrow> apis_wf (snd (insert_aggregate_api a st))"
  unfolding apis_wf_def insert_aggregate_api_def ms_exec_state
  by (auto simp: keys_unique_append keys_unique_delete row_exists_iff set_row_delete)

lemma delete_api_wf:
  "apis_wf st \<Longrightarrow> apis_wf (snd (delete_aggregate_api i st))"
  "apis_wf st \<Longrightarrow> apis_wf (snd (delete_aggregate_api_balance_secret i st))"
  unfolding apis_wf_def delete_aggregate_api_def delete_aggregate_api_balance_secret_def ms_exec_state
  by (simp_all add: keys_unique_delete keys_row_delete) blast+

lemma upsert_secret_wf:
  "apis_wf st \<Longrightarrow> apis_wf (snd (upsert_aggregate_api_secret i s st))"
  "apis_wf st \<Longrightarrow> apis_wf (snd (upsert_aggregate_api_balance_secret i s st))"
  unfolding apis_wf_def upsert_aggregate_api_secret_def upsert_aggregate_api_balance_secret_def ms_exec_if_state
  by (simp_all add: keys_unique_upsert [where key = fst and merge = "\<lambda>old new. new"]
      keys_upsert [where key = fst and merge = "\<lambda>old new. new"] row_exists_iff)

datatype api_op =
    ApiInsert aggregate_api | ApiDelete str | ApiSecret str str | ApiBalanceSecret str str
  | ApiDropBalanceSecret str | ApiUrl str str | ApiSupplier str "str option" | ApiSort str i64 | ApiStatus str str
  | ApiType str str | ApiAuthType str str | ApiAuthParams str "str option" | ApiAction str "str option"
  | ApiOverride str "str option" | ApiBalanceQuery str bool "str option" "str option" "str option" "str option"
  | ApiBalanceResult str bool "str option" "str option" | ApiTestResult str bool "i64 option" "str option"
  | ApiAssign str "str list" | ApiTemplate supplier_model | ApiDropTemplate str str str

fun run_api_op :: "api_op \<Rightarrow> i64 \<Rightarrow> model_store \<Rightarrow> unit sql \<times> model_store" where
  "run_api_op (ApiInsert a) now st = insert_aggregate_api a st"
| "run_api_op (ApiDelete i) now st = delete_aggregate_api i st"
| "run_api_op (ApiSecret i s) now st = upsert_aggregate_api_secret i s st"
| "run_api_op (ApiBalanceSecret i s) now st = upsert_aggregate_api_balance_secret i s st"
| "run_api_op (ApiDropBalanceSecret i) now st = delete_aggregate_api_balance_secret i st"
| "run_api_op (ApiUrl i x) now st = update_aggregate_api_url i x now st"
| "run_api_op (ApiSupplier i x) now st = update_aggregate_api_supplier_name i x now st"
| "run_api_op (ApiSort i x) now st = update_aggregate_api_sort i x now st"
| "run_api_op (ApiStatus i x) now st = update_aggregate_api_status i x now st"
| "run_api_op (ApiType i x) now st = update_aggregate_api_type i x now st"
| "run_api_op (ApiAuthType i x) now st = update_aggregate_api_auth_type i x now st"
| "run_api_op (ApiAuthParams i x) now st = update_aggregate_api_auth_params_json i x now st"
| "run_api_op (ApiAction i x) now st = update_aggregate_api_action i x now st"
| "run_api_op (ApiOverride i x) now st = update_aggregate_api_model_override i x now st"
| "run_api_op (ApiBalanceQuery i e t b u c) now st = update_aggregate_api_balance_query i e t b u c now st"
| "run_api_op (ApiBalanceResult i ok j e) now st = update_aggregate_api_balance_result i ok j e now st"
| "run_api_op (ApiTestResult i ok c e) now st = update_aggregate_api_test_result i ok c e now st"
| "run_api_op (ApiAssign i slugs) now st = set_quota_source_model_assignments aggregate_source_kind i slugs now st"
| "run_api_op (ApiTemplate m) now st = upsert_aggregate_api_supplier_model m st"
| "run_api_op (ApiDropTemplate s p u) now st = delete_aggregate_api_supplier_model s p u st"

inductive api_history :: "model_store \<Rightarrow> model_store \<Rightarrow> bool" where
  api_start: "api_history st st"
| api_step: "api_history st st' \<Longrightarrow> run_api_op op now st' = (r, st'') \<Longrightarrow> api_history st st''"

lemma test_result_wf: "apis_wf st \<Longrightarrow> apis_wf (snd (update_aggregate_api_test_result i ok c e now st))"
proof -
  assume wf: "apis_wf st"
  let ?f = "\<lambda>a. a\<lparr>ag_probes := (ag_probes a)\<lparr>ap_last_test_at := Some now,
      ap_last_test_status := Some (outcome_text ok), ap_last_test_error := e\<rparr>, ag_updated_at := now\<rparr>"
  obtain r st1 where st1: "update_api i ?f st = (r, st1)" by fastforce
  have wf1: "apis_wf st1" using update_api_wf [OF wf, of ?f i] st1 by simp
  show ?thesis
    unfolding update_aggregate_api_test_result_def st1
    using wf1 update_api_wf [OF wf1] by (auto simp: ms_then_def split: sum.split option.split)
qed

lemma run_api_op_wf: "apis_wf st \<Longrightarrow> apis_wf (snd (run_api_op op now st))"
proof (cases op)
  case (ApiAssign i slugs)
  assume "apis_wf st"
  with ApiAssign show ?thesis
    by (simp add: set_quota_source_model_assignments_def ms_exec_state apis_wf_def)
next
  case (ApiTemplate m)
  assume "apis_wf st"
  with ApiTemplate show ?thesis by (simp add: upsert_aggregate_api_supplier_model_def ms_exec_state apis_wf_def)
next
  case (ApiDropTemplate s p u)
  assume "apis_wf st"
  with ApiDropTemplate show ?thesis by (simp add: delete_aggregate_api_supplier_model_def ms_exec_state apis_wf_def)
qed (simp_all add: insert_api_wf delete_api_wf upsert_secret_wf test_result_wf update_api_wf
    update_aggregate_api_url_def update_aggregate_api_supplier_name_def update_aggregate_api_sort_def
    update_aggregate_api_status_def update_aggregate_api_type_def update_aggregate_api_auth_type_def
    update_aggregate_api_auth_params_json_def update_aggregate_api_action_def
    update_aggregate_api_model_override_def update_aggregate_api_balance_query_def
    update_aggregate_api_balance_result_def)

text \<open>
  Whatever operations run on the aggregate APIs, in any order and whichever of them fail, the id of
  an API stays unique, it has at most one secret of each kind, and no secret outlives its API, also
  when an API is replaced by an insert of the same id.
\<close>

theorem api_tables_wf:
  assumes "api_history st st'" "apis_wf st"
  shows "apis_wf st'"
  using assms
proof (induction rule: api_history.induct)
  case (api_step st st' op now r st'')
  then show ?case using run_api_op_wf [of st' op now] by simp
qed

definition demo_probes :: aggregate_probes where
  "demo_probes =
     \<lparr>ap_last_test_at = None, ap_last_test_status = None, ap_last_test_error = None,
      ap_balance_query_enabled = False, ap_balance_query_template = None, ap_balance_query_base_url = None,
      ap_balance_query_user_id = None, ap_balance_query_config_json = None, ap_last_balance_at = None,
      ap_last_balance_status = None, ap_last_balance_error = None, ap_last_balance_json = None\<rparr>"

definition demo_api :: "str \<Rightarrow> str \<Rightarrow> aggregate_api" where
  "demo_api i provider =
     \<lparr>ag_id = i, ag_provider_type = provider, ag_supplier_name = Some ''shop'', ag_sort = 0,
      ag_url = ''https://a.example/v1'', ag_auth_type = ''apikey'', ag_auth_params_json = None, ag_action = None,
      ag_model_override = None, ag_status = ''active'', ag_created_at = 1, ag_updated_at = 1,
      ag_probes = demo_probes\<rparr>"

definition demo_apis :: model_store where
  "demo_apis = demo_routes\<lparr>ms_apis := [demo_api ''a'' ''claude'', demo_api ''b'' ''codex''],
                            ms_secrets := [(''a'', ''sk-a''), (''b'', ''sk-b'')]\<rparr>"

lemma demo_apis_wf: "apis_wf demo_apis"
  by code_simp

theorem api_tables_wf_witness:
  "apis_wf (snd (run_api_op (ApiInsert (demo_api ''a'' ''gemini'')) 9 demo_apis))"
proof -
  have "api_history demo_apis (snd (run_api_op (ApiInsert (demo_api ''a'' ''gemini'')) 9 demo_apis))"
    by (rule api_step [OF api_start]) (rule prod.collapse [symmetric])
  from api_tables_wf [OF this demo_apis_wf] show ?thesis .
qed

end
