(* ===== verification/Aggregate_Manage.thy ===== *)
theory Aggregate_Manage
  imports Aggregate_Store
begin

text \<open>
  Managing aggregate APIs (\<^verbatim>\<open>service/src/aggregate_api.rs\<close>): how the parameters of a request are
  normalised, and the operations that create, change and delete an API, read its secret back and
  manage the model templates of a supplier. The URL parser (\<^verbatim>\<open>reqwest\<close>) and serde_json's
  parsing and printing of texts are parameters.
\<close>

section \<open>What the libraries do\<close>

record custom_balance =
  cb_method :: "str option"
  cb_path :: str
  cb_auth :: "str option"
  cb_remaining_path :: str
  cb_unit :: "str option"
  cb_multiplier :: "f64 option"
  cb_total_path :: "str option"
  cb_used_path :: "str option"
  cb_plan_path :: "str option"
  cb_valid_path :: "str option"
  cb_invalid_message_path :: "str option"

record manage_libs =
  lib_url_scheme :: "str \<Rightarrow> str option"
  lib_print_json :: "json \<Rightarrow> str"
  lib_parse_userpass :: "str \<Rightarrow> (str \<times> str) option"
  lib_print_userpass :: "str \<times> str \<Rightarrow> str"
  lib_parse_balance :: "str \<Rightarrow> custom_balance option"
  lib_print_balance :: "custom_balance \<Rightarrow> str"

section \<open>Normalising texts\<close>

definition canonical :: "str \<Rightarrow> str" where
  "canonical raw = replace_char CHR ''-'' CHR ''_'' (to_ascii_lowercase (trim raw))"

definition normalize_supplier_name :: "str option \<Rightarrow> str + str" where
  "normalize_supplier_name v =
     (case trimmed_nonempty v of None \<Rightarrow> Inl ''supplier name is required'' | Some s \<Rightarrow> Inr s)"

definition normalize_aggregate_status :: "str option \<Rightarrow> str + str" where
  "normalize_aggregate_status v =
     (case v of None \<Rightarrow> Inr ''active''
      | Some raw \<Rightarrow>
          (let n = canonical raw
           in if n \<in> {''active'', ''enabled'', ''enable''} then Inr ''active''
              else if n \<in> {''disabled'', ''disable'', ''inactive''} then Inr ''disabled''
              else Inl (''unsupported aggregate api status: '' @ n)))"

definition normalize_auth_type :: "str option \<Rightarrow> str + str" where
  "normalize_auth_type v =
     (case v of None \<Rightarrow> Inr ''apikey''
      | Some raw \<Rightarrow>
          (let n = canonical raw
           in if n \<in> {''apikey'', ''api_key'', ''key''} then Inr ''apikey''
              else if n \<in> {''userpass'', ''username_password'', ''account_password'', ''basic'', ''http_basic''}
                then Inr ''userpass''
              else Inl (''unsupported aggregate api auth type: '' @ n)))"

definition normalize_provider_type :: "str option \<Rightarrow> str + str" where
  "normalize_provider_type v =
     (case v of None \<Rightarrow> Inr ''codex''
      | Some raw \<Rightarrow>
          (let n = canonical raw
           in if n \<in> {''codex'', ''openai'', ''openai_compat'', ''gpt''} then Inr ''codex''
              else if n \<in> set gemini_aliases then Inr ''gemini''
              else if n \<in> set claude_aliases then Inr ''claude''
              else Inl (''unsupported aggregate api provider type: '' @ n)))"

definition normalize_provider_type_value :: "str \<Rightarrow> str" where
  "normalize_provider_type_value v =
     (let n = canonical v
      in if n \<in> set claude_aliases then ''claude''
         else if n \<in> set gemini_aliases then ''gemini'' else ''codex'')"

definition provider_default_url :: "str \<Rightarrow> str" where
  "provider_default_url p =
     (if p = ''claude'' then ''https://api.anthropic.com/v1''
      else if p = ''gemini'' then ''https://generativelanguage.googleapis.com''
      else ''https://api.openai.com/v1'')"

definition normalize_action :: "str option \<Rightarrow> str + str option" where
  "normalize_action v =
     (case trimmed_nonempty v of
        None \<Rightarrow> Inr None
      | Some s \<Rightarrow>
          (let lower = to_ascii_lowercase s
           in if str_starts_with lower ''http://'' \<or> str_starts_with lower ''https://''
                then Inl ''aggregate api action must be a path, not a full url''
              else if str_contains s ''://'' then Inl ''aggregate api action is invalid''
              else Inr (Some (if str_starts_with s ''/'' then s else CHR ''/'' # s))))"

definition is_ascii_alphanumeric :: "char \<Rightarrow> bool" where
  "is_ascii_alphanumeric c \<longleftrightarrow> is_ascii_alphabetic c \<or> is_ascii_digit c"

definition normalize_model_override :: "str option \<Rightarrow> str + str option" where
  "normalize_model_override v =
     (case trimmed_nonempty v of
        None \<Rightarrow> Inr None
      | Some s \<Rightarrow>
          if eq_ignore_ascii_case s ''auto'' then Inr None
          else if list_ex (\<lambda>c. \<not> (is_ascii_alphanumeric c \<or> c \<in> set ''-_./:'')) s
            then Inl ''aggregate api modelOverride contains unsupported characters''
          else Inr (Some s))"

definition normalize_balance_query_template :: "str option \<Rightarrow> str + str option" where
  "normalize_balance_query_template v =
     (case v of None \<Rightarrow> Inr None
      | Some raw \<Rightarrow>
          (let n = canonical raw
           in if n = [] then Inr None
              else if n = ''generic'' then Inr (Some ''generic'')
              else if n \<in> {''newapi'', ''new_api''} then Inr (Some ''new_api'')
              else if n \<in> {''custom'', ''custom_json''} then Inr (Some ''custom'')
              else Inl (''unsupported aggregate api balance template: '' @ n)))"

definition default_balance_query_template :: "str option \<Rightarrow> str" where
  "default_balance_query_template t = unwrap_or t ''generic''"

definition to_ascii_uppercase :: "str \<Rightarrow> str" where
  "to_ascii_uppercase s = map (\<lambda>c. if 97 \<le> (of_char c :: nat) \<and> (of_char c :: nat) \<le> 122
                                  then char_of ((of_char c :: nat) - 32) else c) s"

definition normalize_custom_balance_method :: "str option \<Rightarrow> str + str" where
  "normalize_custom_balance_method v =
     (let m = to_ascii_uppercase (unwrap_or (trimmed_nonempty v) ''GET'')
      in if m \<in> {''GET'', ''POST''} then Inr m else Inl ''custom balance method must be GET or POST'')"

definition normalize_custom_balance_auth :: "str option \<Rightarrow> str + str" where
  "normalize_custom_balance_auth v =
     (let a = replace_char CHR ''-'' CHR ''_'' (to_ascii_lowercase (unwrap_or (trimmed_nonempty v) ''provider_bearer''))
      in if a \<in> {''provider'', ''provider_bearer'', ''api_key'', ''apikey''} then Inr ''provider_bearer''
         else if a \<in> {''balance'', ''balance_bearer'', ''access_token''} then Inr ''balance_bearer''
         else if a \<in> {''none'', ''no_auth''} then Inr ''none''
         else Inl ''custom balance auth is invalid'')"

definition normalize_custom_balance_endpoint_path :: "str \<Rightarrow> str + str" where
  "normalize_custom_balance_endpoint_path v =
     (let s = trim v
      in if s = [] then Inl ''custom balance path is required''
         else if str_starts_with s ''http://'' \<or> str_starts_with s ''https://''
           then Inl ''custom balance path must be relative, not a full url''
         else if str_contains s ''://'' then Inl ''custom balance path is invalid''
         else Inr (if str_starts_with s ''/'' then s else CHR ''/'' # s))"

fun check_segments :: "str \<Rightarrow> str list \<Rightarrow> str + unit" where
  "check_segments name [] = Inr ()"
| "check_segments name (x # xs) =
     (if x = [] then Inl (''custom balance '' @ name @ '' contains an empty segment'')
      else if \<not> list_all (\<lambda>c. is_ascii_alphanumeric c \<or> c \<in> set ''_-'') x
        then Inl (''custom balance '' @ name @ '' contains unsupported characters'')
      else check_segments name xs)"

definition normalize_custom_balance_json_path :: "str option \<Rightarrow> str \<Rightarrow> bool \<Rightarrow> str + str option" where
  "normalize_custom_balance_json_path v name required =
     (case trimmed_nonempty v of
        None \<Rightarrow> if required then Inl (''custom balance '' @ name @ '' is required'') else Inr None
      | Some s \<Rightarrow> sum_bind (check_segments name (split_on CHR ''.'' s)) (\<lambda>_. Inr (Some s)))"

text \<open>\<^verbatim>\<open>chars().count()\<close> of a UTF-8 text: the bytes that do not continue a character.\<close>

definition char_count :: "str \<Rightarrow> nat" where
  "char_count s = length (filter (\<lambda>c. \<not> cont_byte c) s)"

definition normalize_custom_balance_unit :: "str option \<Rightarrow> str + str option" where
  "normalize_custom_balance_unit v =
     (case trimmed_nonempty v of
        None \<Rightarrow> Inr (Some ''USD'')
      | Some s \<Rightarrow> if 16 < char_count s then Inl ''custom balance unit is too long'' else Inr (Some s))"

definition normalize_custom_balance_multiplier :: "f64 option \<Rightarrow> str + f64 option" where
  "normalize_custom_balance_multiplier v =
     (case unwrap_or v (Fin 1) of
        Fin m \<Rightarrow> if m \<le> 0 then Inl ''custom balance multiplier must be greater than 0'' else Inr (Some (Fin m))
      | _ \<Rightarrow> Inl ''custom balance multiplier must be greater than 0'')"

definition normalize_custom_balance_query_config :: "manage_libs \<Rightarrow> str option \<Rightarrow> str + str option" where
  "normalize_custom_balance_query_config libs v =
     (case trimmed_nonempty v of
        None \<Rightarrow> Inl ''custom balance query config is required''
      | Some raw \<Rightarrow>
          if 4096 < length raw then Inl ''custom balance query config is too large''
          else (case lib_parse_balance libs raw of
            None \<Rightarrow> Inl ''custom balance query config is invalid JSON''
          | Some c \<Rightarrow>
              sum_bind (normalize_custom_balance_method (cb_method c)) (\<lambda>method.
              sum_bind (normalize_custom_balance_endpoint_path (cb_path c)) (\<lambda>path.
              sum_bind (normalize_custom_balance_auth (cb_auth c)) (\<lambda>auth.
              sum_bind (normalize_custom_balance_json_path (Some (cb_remaining_path c)) ''remainingPath'' True) (\<lambda>remaining.
              sum_bind (normalize_custom_balance_unit (cb_unit c)) (\<lambda>unit.
              sum_bind (normalize_custom_balance_multiplier (cb_multiplier c)) (\<lambda>multiplier.
              sum_bind (normalize_custom_balance_json_path (cb_total_path c) ''totalPath'' False) (\<lambda>total_path.
              sum_bind (normalize_custom_balance_json_path (cb_used_path c) ''usedPath'' False) (\<lambda>used.
              sum_bind (normalize_custom_balance_json_path (cb_plan_path c) ''planPath'' False) (\<lambda>plan.
              sum_bind (normalize_custom_balance_json_path (cb_valid_path c) ''validPath'' False) (\<lambda>valid.
              sum_bind (normalize_custom_balance_json_path (cb_invalid_message_path c) ''invalidMessagePath'' False) (\<lambda>invalid.
                Inr (Some (lib_print_balance libs
                  \<lparr>cb_method = Some method, cb_path = path, cb_auth = Some auth,
                   cb_remaining_path = unwrap_or remaining [], cb_unit = unit, cb_multiplier = multiplier,
                   cb_total_path = total_path, cb_used_path = used, cb_plan_path = plan, cb_valid_path = valid,
                   cb_invalid_message_path = invalid\<rparr>)))))))))))))))"

definition normalize_balance_query_config_json ::
    "manage_libs \<Rightarrow> str option \<Rightarrow> str option \<Rightarrow> str + str option" where
  "normalize_balance_query_config_json libs template v =
     (if template = Some ''custom'' then normalize_custom_balance_query_config libs v else Inr None)"

definition normalize_http_url :: "manage_libs \<Rightarrow> str option \<Rightarrow> str \<Rightarrow> str + str option" where
  "normalize_http_url libs v name =
     (case v of None \<Rightarrow> Inr None
      | Some raw \<Rightarrow>
          (let url = trim_end_matches CHR ''/'' (trim raw)
           in if url = [] then Inr None
              else (case lib_url_scheme libs url of
                None \<Rightarrow> Inl (''invalid '' @ name)
              | Some scheme \<Rightarrow>
                  if scheme \<notin> {''http'', ''https''} then Inl (''invalid '' @ name @ '' scheme'')
                  else Inr (Some url))))"

definition normalize_required_text :: "str \<Rightarrow> str \<Rightarrow> str + str" where
  "normalize_required_text name v = (if trim v = [] then Inl (name @ '' is required'') else Inr (trim v))"

definition normalize_supplier_model_status :: "str option \<Rightarrow> str + str" where
  "normalize_supplier_model_status v =
     (let n = replace_char CHR ''-'' CHR ''_'' (to_ascii_lowercase (unwrap_or (trimmed_nonempty v) ''available''))
      in if n \<in> {''available'', ''active'', ''enabled'', ''enable''} then Inr ''available''
         else if n \<in> {''disabled'', ''disable'', ''inactive''} then Inr ''disabled''
         else Inl (''unsupported supplier model status: '' @ n))"

section \<open>Authentication parameters\<close>

record apikey_params =
  ak_location :: str
  ak_name :: str
  ak_format :: "str option"

record userpass_params =
  pp_mode :: str
  pp_username_name :: "str option"
  pp_password_name :: "str option"

text \<open>serde's reading of a text field and of an optional one; other fields are ignored.\<close>

definition text_field :: "json \<Rightarrow> str \<Rightarrow> str option" where
  "text_field v k = json_get_str v k"

definition optional_text_field :: "json \<Rightarrow> str \<Rightarrow> str option option" where
  "optional_text_field v k =
     (case json_get v k of None \<Rightarrow> Some None | Some JNull \<Rightarrow> Some None | Some (JStr s) \<Rightarrow> Some (Some s) | Some _ \<Rightarrow> None)"

definition apikey_params_from :: "json \<Rightarrow> apikey_params option" where
  "apikey_params_from v =
     bind_opt (text_field v ''location'') (\<lambda>l.
     bind_opt (text_field v ''name'') (\<lambda>n.
     bind_opt (optional_text_field v ''headerValueFormat'') (\<lambda>f.
       Some \<lparr>ak_location = l, ak_name = n, ak_format = f\<rparr>)))"

definition userpass_params_from :: "json \<Rightarrow> userpass_params option" where
  "userpass_params_from v =
     bind_opt (text_field v ''mode'') (\<lambda>m.
     bind_opt (optional_text_field v ''usernameName'') (\<lambda>u.
     bind_opt (optional_text_field v ''passwordName'') (\<lambda>p.
       Some \<lparr>pp_mode = m, pp_username_name = u, pp_password_name = p\<rparr>)))"

definition check_apikey_params :: "json \<Rightarrow> str + unit" where
  "check_apikey_params v =
     (case apikey_params_from v of
        None \<Rightarrow> Inl ''authParams is invalid''
      | Some p \<Rightarrow>
          (let location = to_ascii_lowercase (trim (ak_location p))
           in if location \<noteq> ''header'' \<and> location \<noteq> ''query''
                then Inl ''authParams.location must be header or query''
              else if trim (ak_name p) = [] then Inl ''authParams.name is required''
              else if location = ''header''
                \<and> to_ascii_lowercase (trim (unwrap_or (ak_format p) ''bearer'')) \<notin> {''bearer'', ''raw''}
                then Inl ''authParams.headerValueFormat must be bearer or raw''
              else Inr ()))"

definition check_userpass_params :: "json \<Rightarrow> str + unit" where
  "check_userpass_params v =
     (case userpass_params_from v of
        None \<Rightarrow> Inl ''authParams is invalid''
      | Some p \<Rightarrow>
          (let mode = to_ascii_lowercase (trim (pp_mode p))
           in if mode = ''basic'' then Inr ()
              else if mode \<in> {''headerpair'', ''querypair''} then
                (if trim (unwrap_or (pp_username_name p) []) = [] then Inl ''authParams.usernameName is required''
                 else if trim (unwrap_or (pp_password_name p) []) = [] then Inl ''authParams.passwordName is required''
                 else Inr ())
              else Inl ''authParams.mode must be basic, headerPair, or queryPair''))"

definition normalize_auth_params_json ::
    "manage_libs \<Rightarrow> str \<Rightarrow> bool option \<Rightarrow> json option \<Rightarrow> str + str option" where
  "normalize_auth_params_json libs auth_type enabled params =
     (case enabled of
        None \<Rightarrow> Inr None
      | Some False \<Rightarrow> Inr (Some [])
      | Some True \<Rightarrow>
          (case params of
             None \<Rightarrow> Inl ''authParams is required''
           | Some v \<Rightarrow>
               (case json_as_object v of
                  None \<Rightarrow> Inl ''authParams must be a JSON object''
                | Some obj \<Rightarrow>
                    if obj = [] then Inl ''authParams must not be empty''
                    else sum_bind (if auth_type = ''apikey'' then check_apikey_params v
                                   else if auth_type = ''userpass'' then check_userpass_params v
                                   else Inr ()) (\<lambda>_. Inr (Some (lib_print_json libs v))))))"

definition normalize_action_override :: "bool option \<Rightarrow> str option \<Rightarrow> str + str option option" where
  "normalize_action_override enabled action =
     (case enabled of
        None \<Rightarrow> Inr None
      | Some False \<Rightarrow> Inr (Some None)
      | Some True \<Rightarrow> sum_bind (normalize_action action) (\<lambda>a. Inr (Some (Some (unwrap_or a [])))))"

definition serialize_userpass_secret :: "manage_libs \<Rightarrow> str \<Rightarrow> str \<Rightarrow> str" where
  "serialize_userpass_secret libs username password = lib_print_userpass libs (trim username, trim password)"

section \<open>Steps\<close>

text \<open>
  An operation is a function of the tables that fails with a text; what its earlier statements did
  stays. Statements of the storage layer are steps as they are.
\<close>

type_synonym 'a step = "model_store \<Rightarrow> (str + 'a) \<times> model_store"

definition step_return :: "'a \<Rightarrow> 'a step" where "step_return v = (\<lambda>st. (Inr v, st))"

definition step_check :: "str + 'a \<Rightarrow> 'a step" where "step_check r = (\<lambda>st. (r, st))"

definition step_bind :: "'a step \<Rightarrow> ('a \<Rightarrow> 'b step) \<Rightarrow> 'b step" where
  "step_bind m f = (\<lambda>st. case m st of (Inl e, st') \<Rightarrow> (Inl e, st') | (Inr v, st') \<Rightarrow> f v st')"

definition step_query :: "(model_store \<Rightarrow> 'a sql) \<Rightarrow> 'a step" where "step_query q = (\<lambda>st. (q st, st))"

definition step_for :: "'a option \<Rightarrow> ('a \<Rightarrow> unit step) \<Rightarrow> unit step" where
  "step_for v f = (case v of None \<Rightarrow> step_return () | Some x \<Rightarrow> f x)"

definition step_seq :: "unit step list \<Rightarrow> unit step" where
  "step_seq ms = foldr (\<lambda>m rest. step_bind m (\<lambda>_. rest)) ms (step_return ())"

lemma step_simps [simp]:
  "step_return v st = (Inr v, st)" "step_check r st = (r, st)" "step_query q st = (q st, st)"
  "step_for None f = step_return ()" "step_for (Some x) f = f x"
  by (simp_all add: step_return_def step_check_def step_query_def step_for_def)

lemma step_bind_eq:
  "m st = (Inl e, st') \<Longrightarrow> step_bind m f st = (Inl e, st')"
  "m st = (Inr v, st') \<Longrightarrow> step_bind m f st = f v st'"
  by (simp_all add: step_bind_def)

lemma step_bind_check [simp]:
  "step_bind (step_check (Inl e)) f st = (Inl e, st)" "step_bind (step_check (Inr v)) f st = f v st"
  by (simp_all add: step_bind_def)

lemma step_seq_simps [simp]:
  "step_seq [] st = (Inr (), st)" "step_seq (m # ms) st = step_bind m (\<lambda>_. step_seq ms) st"
  by (simp_all add: step_seq_def)

section \<open>Creating an API\<close>

record api_params =
  rq_url :: "str option"
  rq_key :: "str option"
  rq_provider_type :: "str option"
  rq_supplier_name :: "str option"
  rq_sort :: "i64 option"
  rq_status :: "str option"
  rq_auth_type :: "str option"
  rq_auth_custom_enabled :: "bool option"
  rq_auth_params :: "json option"
  rq_action_custom_enabled :: "bool option"
  rq_action :: "str option"
  rq_model_override :: "str option"
  rq_username :: "str option"
  rq_password :: "str option"
  rq_balance_query_enabled :: "bool option"
  rq_balance_query_template :: "str option"
  rq_balance_query_base_url :: "str option"
  rq_balance_query_access_token :: "str option"
  rq_balance_query_user_id :: "str option"
  rq_balance_query_config_json :: "str option"
  rq_model_slugs :: "str list option"

definition secret_from_params :: "manage_libs \<Rightarrow> api_params \<Rightarrow> str \<Rightarrow> str + str" where
  "secret_from_params libs p auth_type =
     (if auth_type = ''apikey''
      then (case trimmed_nonempty (rq_key p) of None \<Rightarrow> Inl ''key is required'' | Some k \<Rightarrow> Inr k)
      else (case trimmed_nonempty (rq_username p) of
              None \<Rightarrow> Inl ''username is required''
            | Some u \<Rightarrow>
                (case trimmed_nonempty (rq_password p) of
                   None \<Rightarrow> Inl ''password is required''
                 | Some w \<Rightarrow> Inr (serialize_userpass_secret libs u w))))"

definition nonempty_text :: "str option \<Rightarrow> str option" where
  "nonempty_text v = (case v of None \<Rightarrow> None | Some s \<Rightarrow> if s = [] then None else Some s)"

definition new_api :: "manage_libs \<Rightarrow> api_params \<Rightarrow> str \<Rightarrow> i64 \<Rightarrow> str + (aggregate_api \<times> str)" where
  "new_api libs p i now =
     sum_bind (normalize_provider_type (rq_provider_type p)) (\<lambda>provider.
     sum_bind (normalize_supplier_name (rq_supplier_name p)) (\<lambda>supplier.
     sum_bind (normalize_http_url libs (rq_url p) ''upstreamBaseUrl'') (\<lambda>url.
     sum_bind (normalize_auth_type (rq_auth_type p)) (\<lambda>auth_type.
     sum_bind (normalize_auth_params_json libs auth_type (rq_auth_custom_enabled p) (rq_auth_params p)) (\<lambda>auth_params.
     sum_bind (normalize_action_override (rq_action_custom_enabled p) (rq_action p)) (\<lambda>action.
     sum_bind (normalize_model_override (rq_model_override p)) (\<lambda>override.
     sum_bind (normalize_balance_query_template (rq_balance_query_template p)) (\<lambda>template0.
     (let enabled = unwrap_or (rq_balance_query_enabled p) False;
          template = (if enabled then Some (default_balance_query_template template0) else template0)
      in
     sum_bind (normalize_http_url libs (rq_balance_query_base_url p) ''balanceQueryBaseUrl'') (\<lambda>balance_url.
     sum_bind (normalize_balance_query_config_json libs template (rq_balance_query_config_json p)) (\<lambda>config.
     sum_bind (secret_from_params libs p auth_type) (\<lambda>secret.
       Inr (\<lparr>ag_id = i, ag_provider_type = provider, ag_supplier_name = Some supplier,
             ag_sort = unwrap_or (rq_sort p) 0, ag_url = unwrap_or url (provider_default_url provider),
             ag_auth_type = auth_type, ag_auth_params_json = nonempty_text auth_params,
             ag_action = unwrap_or action None, ag_model_override = override, ag_status = ''active'',
             ag_created_at = now, ag_updated_at = now,
             ag_probes = \<lparr>ap_last_test_at = None, ap_last_test_status = None, ap_last_test_error = None,
               ap_balance_query_enabled = enabled, ap_balance_query_template = template,
               ap_balance_query_base_url = balance_url,
               ap_balance_query_user_id = trimmed_nonempty (rq_balance_query_user_id p),
               ap_balance_query_config_json = config, ap_last_balance_at = None, ap_last_balance_status = None,
               ap_last_balance_error = None, ap_last_balance_json = None\<rparr>\<rparr>, secret)))))))))))))"

text \<open>What follows the insert is undone by a deletion when it fails.\<close>

definition or_delete :: "str \<Rightarrow> str \<Rightarrow> unit step \<Rightarrow> unit step" where
  "or_delete i what m =
     (\<lambda>st. case m st of (Inr u, st') \<Rightarrow> (Inr u, st') | (Inl e, st') \<Rightarrow> (Inl (what @ e), snd (delete_aggregate_api i st')))"

definition store_extras :: "api_params \<Rightarrow> str \<Rightarrow> i64 \<Rightarrow> unit step" where
  "store_extras p i now =
     step_bind (step_for (trimmed_nonempty (rq_balance_query_access_token p)) (\<lambda>token.
       or_delete i ''persist aggregate api balance secret failed: '' (upsert_aggregate_api_balance_secret i token))) (\<lambda>_.
     step_for (rq_model_slugs p) (\<lambda>slugs.
       or_delete i ''persist aggregate api model assignments failed: ''
         (set_quota_source_model_assignments aggregate_source_kind i slugs now)))"

definition create_aggregate_api :: "manage_libs \<Rightarrow> api_params \<Rightarrow> str \<Rightarrow> i64 \<Rightarrow> (str \<times> str) step" where
  "create_aggregate_api libs p i now =
     step_bind (step_check (new_api libs p i now)) (\<lambda>(a, secret).
     step_bind (insert_aggregate_api a) (\<lambda>_.
     step_bind (or_delete i ''persist aggregate api secret failed: '' (upsert_aggregate_api_secret i secret)) (\<lambda>_.
     step_bind (store_extras p i now) (\<lambda>_.
       step_return (i, if ag_auth_type a = ''apikey'' then secret else [])))))"

section \<open>Changing an API\<close>

definition update_credentials :: "manage_libs \<Rightarrow> str \<Rightarrow> api_params \<Rightarrow> str \<Rightarrow> bool \<Rightarrow> unit step" where
  "update_credentials libs i p auth_type changed =
     (if auth_type = ''apikey'' then
        (let secret = trimmed_nonempty (rq_key p)
         in if changed \<and> secret = None
              then step_check (Inl ''key is required when switching authType to apikey'')
            else step_for secret (upsert_aggregate_api_secret i))
      else
        (let username = trim (unwrap_or (rq_username p) []); password = trim (unwrap_or (rq_password p) []);
             has_user = (username \<noteq> []); has_pass = (password \<noteq> [])
         in if has_user \<noteq> has_pass then step_check (Inl ''username and password must be provided together'')
            else if changed \<and> (\<not> has_user \<or> \<not> has_pass)
              then step_check (Inl ''username and password are required when switching authType to userpass'')
            else if has_user \<and> has_pass
              then upsert_aggregate_api_secret i (serialize_userpass_secret libs username password)
            else step_return ()))"

definition update_balance_query :: "manage_libs \<Rightarrow> str \<Rightarrow> api_params \<Rightarrow> update_config \<Rightarrow> i64 \<Rightarrow> unit step" where
  "update_balance_query libs i p old now =
     step_bind (step_check (normalize_balance_query_template (rq_balance_query_template p))) (\<lambda>template.
     step_bind (step_check (normalize_http_url libs (rq_balance_query_base_url p) ''balanceQueryBaseUrl'')) (\<lambda>base_url.
     (let user_id = trimmed_nonempty (rq_balance_query_user_id p);
          kept = or_else template (uc_balance_query_template old)
      in
     step_bind (step_check (if is_some (rq_balance_query_config_json p)
        then normalize_balance_query_config_json libs kept (rq_balance_query_config_json p) else Inr None)) (\<lambda>config.
       (if is_some (rq_balance_query_enabled p) \<or> is_some template \<or> is_some (rq_balance_query_base_url p)
           \<or> is_some (rq_balance_query_user_id p) \<or> is_some (rq_balance_query_config_json p)
        then (let enabled = unwrap_or (rq_balance_query_enabled p) (uc_balance_query_enabled old);
                  next_template = (if enabled then Some (default_balance_query_template kept) else kept)
              in step_bind (step_check (if is_some (rq_balance_query_config_json p) then Inr config
                   else if next_template = Some ''custom''
                     then normalize_balance_query_config_json libs next_template (uc_balance_query_config_json old)
                   else Inr None)) (\<lambda>next_config.
                 update_aggregate_api_balance_query i enabled next_template
                   (if is_some (rq_balance_query_base_url p) then base_url else uc_balance_query_base_url old)
                   (if is_some (rq_balance_query_user_id p) then user_id else uc_balance_query_user_id old)
                   next_config now))
        else step_return ())))))"

definition checked :: "(str + 'a) \<Rightarrow> ('a \<Rightarrow> unit step) \<Rightarrow> unit step" where
  "checked r f = step_bind (step_check r) f"

definition sum_or :: "'e + 'a \<Rightarrow> 'a \<Rightarrow> 'a" where
  "sum_or r d = (case r of Inl _ \<Rightarrow> d | Inr v \<Rightarrow> v)"

definition update_aggregate_api_steps ::
    "manage_libs \<Rightarrow> str \<Rightarrow> api_params \<Rightarrow> update_config \<Rightarrow> str option \<Rightarrow> i64 \<Rightarrow> unit step list" where
  "update_aggregate_api_steps libs i p old new_auth now =
     (let old_auth = sum_or (normalize_auth_type (Some (uc_auth_type old))) ''apikey'';
          auth_type = unwrap_or new_auth old_auth
      in [step_for new_auth (\<lambda>t. update_aggregate_api_auth_type i t now),
          step_for (rq_provider_type p) (\<lambda>t. checked (normalize_provider_type (Some t)) (\<lambda>t. update_aggregate_api_type i t now)),
          checked (normalize_supplier_name (rq_supplier_name p)) (\<lambda>s. update_aggregate_api_supplier_name i (Some s) now),
          step_for (rq_sort p) (\<lambda>s. update_aggregate_api_sort i s now),
          step_for (rq_status p) (\<lambda>s. checked (normalize_aggregate_status (Some s)) (\<lambda>s. update_aggregate_api_status i s now)),
          step_for (rq_url p) (\<lambda>u. checked (normalize_http_url libs (Some u) ''upstreamBaseUrl'') (\<lambda>url.
            case url of None \<Rightarrow> step_check (Inl ''url is required'') | Some url \<Rightarrow> update_aggregate_api_url i url now)),
          checked (normalize_auth_params_json libs auth_type (rq_auth_custom_enabled p) (rq_auth_params p)) (\<lambda>params.
            step_for params (\<lambda>j. update_aggregate_api_auth_params_json i (if trim j = [] then None else Some (trim j)) now)),
          checked (normalize_action_override (rq_action_custom_enabled p) (rq_action p)) (\<lambda>action.
            step_for action (\<lambda>a. update_aggregate_api_action i (map_option trim a) now)),
          (if is_some (rq_model_override p)
           then checked (normalize_model_override (rq_model_override p)) (\<lambda>m. update_aggregate_api_model_override i m now)
           else step_return ()),
          update_balance_query libs i p old now,
          step_for (trimmed_nonempty (rq_balance_query_access_token p)) (upsert_aggregate_api_balance_secret i),
          (if rq_balance_query_enabled p = Some False then delete_aggregate_api_balance_secret i else step_return ()),
          update_credentials libs i p auth_type (auth_type \<noteq> old_auth),
          step_for (rq_model_slugs p) (\<lambda>slugs. set_quota_source_model_assignments aggregate_source_kind i slugs now)])"

definition update_aggregate_api :: "manage_libs \<Rightarrow> str \<Rightarrow> api_params \<Rightarrow> i64 \<Rightarrow> unit step" where
  "update_aggregate_api libs i p now =
     (if i = [] then step_check (Inl ''aggregate api id required'')
      else step_bind (step_query (\<lambda>st. find_aggregate_api_update_config_by_id st i)) (\<lambda>found.
        (case found of
           None \<Rightarrow> step_check (Inl ''aggregate api not found'')
         | Some old \<Rightarrow>
             step_bind (step_check (case rq_auth_type p of None \<Rightarrow> Inr None
                | Some t \<Rightarrow> sum_bind (normalize_auth_type (Some t)) (\<lambda>t. Inr (Some t)))) (\<lambda>new_auth.
               step_seq (update_aggregate_api_steps libs i p old new_auth now)))))"

section \<open>Deleting an API and reading its secret\<close>

definition remove_aggregate_api :: "str \<Rightarrow> unit step" where
  "remove_aggregate_api i =
     (if i = [] then step_check (Inl ''aggregate api id required'') else delete_aggregate_api i)"

record secret_result =
  sr_id :: str
  sr_key :: str
  sr_auth_type :: str
  sr_username :: "str option"
  sr_password :: "str option"

definition read_aggregate_api_secret :: "manage_libs \<Rightarrow> str \<Rightarrow> model_store \<Rightarrow> str + secret_result" where
  "read_aggregate_api_secret libs i st =
     (if i = [] then Inl ''aggregate api id required''
      else sum_bind (find_aggregate_api_secret_config_by_id st i) (\<lambda>found.
        (case found of
           None \<Rightarrow> Inl ''aggregate api not found''
         | Some (_, None) \<Rightarrow> Inl ''aggregate api secret not found''
         | Some (auth, Some key) \<Rightarrow>
             sum_bind (normalize_auth_type (Some auth)) (\<lambda>auth_type.
               (if auth_type = ''userpass''
                then (case lib_parse_userpass libs key of
                   None \<Rightarrow> Inl ''invalid aggregate api secret''
                 | Some (u, w) \<Rightarrow> Inr \<lparr>sr_id = i, sr_key = [], sr_auth_type = auth_type,
                                        sr_username = Some u, sr_password = Some w\<rparr>)
                else Inr \<lparr>sr_id = i, sr_key = key, sr_auth_type = auth_type, sr_username = None,
                          sr_password = None\<rparr>)))))"

section \<open>Supplier templates\<close>

definition list_supplier_models ::
    "model_store \<Rightarrow> str option \<Rightarrow> str option \<Rightarrow> str + supplier_model list" where
  "list_supplier_models st supplier provider =
     sum_bind (case provider of None \<Rightarrow> Inr None
               | Some p \<Rightarrow> sum_bind (normalize_provider_type (Some p)) (\<lambda>t. Inr (trimmed_nonempty (Some t)))) (\<lambda>p.
       map_err ''list supplier models failed: '' (list_aggregate_api_supplier_models st (trimmed_nonempty supplier) p))"

definition save_supplier_model ::
    "str \<Rightarrow> str \<Rightarrow> str \<Rightarrow> str option \<Rightarrow> str option \<Rightarrow> i64 \<Rightarrow> supplier_model step" where
  "save_supplier_model supplier provider upstream name status now =
     step_bind (step_check (normalize_required_text ''supplierKey'' supplier)) (\<lambda>key.
     step_bind (step_check (normalize_provider_type (Some provider))) (\<lambda>p.
     step_bind (step_check (normalize_required_text ''upstreamModel'' upstream)) (\<lambda>u.
     step_bind (step_check (normalize_supplier_model_status status)) (\<lambda>s.
     (let m = \<lparr>su_key = key, su_provider_type = p, su_upstream = u, su_display_name = trimmed_nonempty name,
               su_status = s, su_created_at = now, su_updated_at = now\<rparr>
      in (\<lambda>st. ms_try ''save supplier model failed: '' (upsert_aggregate_api_supplier_model m st) (\<lambda>_. step_return m)))))))"

definition remove_supplier_model :: "str \<Rightarrow> str \<Rightarrow> str \<Rightarrow> unit step" where
  "remove_supplier_model supplier provider upstream =
     step_bind (step_check (normalize_required_text ''supplierKey'' supplier)) (\<lambda>key.
     step_bind (step_check (normalize_provider_type (Some provider))) (\<lambda>p.
     step_bind (step_check (normalize_required_text ''upstreamModel'' upstream)) (\<lambda>u.
       (\<lambda>st. ms_try ''delete supplier model failed: '' (delete_aggregate_api_supplier_model key p u st) step_return))))"

section \<open>Provider types in a query and in the gateway\<close>

lemma not_leads_ws_trim: "\<not> leads_ws (trim s)"
proof -
  have "trim_start (trim s) = trim s"
  proof -
    obtain p where "p @ trim_rev (rev (trim_start s)) = rev (trim_start s)"
      using trim_rev_suffix by blast
    then have "trim s @ rev p = trim_start s"
      unfolding trim_def by (metis rev_append rev_rev_ident)
    then have "\<not> leads_ws (trim s)" using leads_ws_prefix not_leads_ws_trim_start by metis
    then show ?thesis by (rule trim_start_no_ws)
  qed
  then show ?thesis using not_leads_ws_trim_start by metis
qed

lemma hd_trim_rev: "trim_rev s = c # t \<Longrightarrow> \<not> ws1 c"
  by (induction s rule: trim_rev.induct) (auto split: if_splits)

lemma hd_no_leads_ws: "\<not> leads_ws (c # s) \<Longrightarrow> \<not> ws1 c"
  by (cases "c # s" rule: leads_ws.cases) auto

lemma dropWhile_space: "(\<And>c t. s = c # t \<Longrightarrow> \<not> ws1 c) \<Longrightarrow> dropWhile (\<lambda>c. c = CHR '' '') s = s"
  by (cases s) (auto simp: ws1_def)

lemma sql_trim_trimmed: "sql_trim (trim s) = trim s"
proof -
  have "dropWhile (\<lambda>c. c = CHR '' '') (trim s) = trim s"
    by (rule dropWhile_space) (metis not_leads_ws_trim hd_no_leads_ws)
  moreover have "dropWhile (\<lambda>c. c = CHR '' '') (rev (trim s)) = rev (trim s)"
    by (rule dropWhile_space) (metis hd_trim_rev rev_rev_ident trim_def)
  ultimately show ?thesis by (simp add: sql_trim_def)
qed

lemma canonical_Nil_iff [simp]: "canonical v = [] \<longleftrightarrow> trim v = []"
  by (simp add: canonical_def replace_char_def to_ascii_lowercase_def)

lemma sql_provider_type_trimmed:
  "trim (ag_provider_type a) = ag_provider_type a \<Longrightarrow> sql_provider_type a = canonical (ag_provider_type a)"
  using sql_trim_trimmed [of "ag_provider_type a"] by (simp add: sql_provider_type_def canonical_def)

lemma alias_classes_disjoint: "set claude_aliases \<inter> set gemini_aliases = {}"
  by code_simp

lemma provider_condition_exact:
  assumes "aggregate_api_provider_type_condition p = Some cond" "trim (ag_provider_type a) = ag_provider_type a"
  shows "cond a \<longleftrightarrow> normalize_provider_type_value (ag_provider_type a) = normalize_provider_type_value p"
  using assms(1) alias_classes_disjoint
  unfolding aggregate_api_provider_type_condition_def normalize_provider_type_value_def Let_def
    normalize_aggregate_api_provider_type_def canonical_def [symmetric]
  by (auto simp: sql_provider_type_trimmed [OF assms(2)] split: if_splits)

text \<open>
  The query for the channels of a provider and the gateway's own classification of providers agree:
  as long as the stored provider types have no surrounding white space, the query for a provider
  returns, in the order of the routing, exactly the active APIs that the gateway puts in the same class,
  whichever of a provider's aliases the row and the request use; a blank provider gets nothing.
\<close>

theorem provider_query_agrees:
  assumes "ms_fault st = None" "list_all (\<lambda>a. trim (ag_provider_type a) = ag_provider_type a) (ms_apis st)"
  shows "\<exists>active. list_active_aggregate_apis st = Inr active
    \<and> list_active_aggregate_apis_by_provider_type st provider
        = Inr (filter (\<lambda>a. trim provider \<noteq> []
             \<and> normalize_provider_type_value (ag_provider_type a) = normalize_provider_type_value provider) active)"
proof (cases "aggregate_api_provider_type_condition provider")
  case None
  then have "trim provider = []"
    by (auto simp: aggregate_api_provider_type_condition_def Let_def normalize_aggregate_api_provider_type_def
        canonical_def [symmetric] split: if_splits)
  with None assms(1) show ?thesis
    by (simp add: list_active_aggregate_apis_def list_active_aggregate_apis_by_provider_type_def)
next
  case (Some cond)
  then have "trim provider \<noteq> []"
    by (auto simp: aggregate_api_provider_type_condition_def Let_def normalize_aggregate_api_provider_type_def
        canonical_def [symmetric] split: if_splits)
  moreover have "filter (\<lambda>a. api_active a \<and> cond a) (ms_apis st)
      = filter (\<lambda>a. normalize_provider_type_value (ag_provider_type a) = normalize_provider_type_value provider)
          (filter api_active (ms_apis st))"
    unfolding filter_filter using assms(2) provider_condition_exact [OF Some]
    by (intro filter_cong) (auto simp: list_all_iff)
  ultimately show ?thesis
    using assms(1) Some
    by (simp add: list_active_aggregate_apis_def list_active_aggregate_apis_by_provider_type_def filter_sort del: filter_filter)
qed

theorem provider_query_agrees_witness:
  "\<exists>active. list_active_aggregate_apis demo_apis = Inr active
    \<and> list_active_aggregate_apis_by_provider_type demo_apis ''Anthropic-Native''
        = Inr (filter (\<lambda>a. trim ''Anthropic-Native'' \<noteq> []
             \<and> normalize_provider_type_value (ag_provider_type a) = normalize_provider_type_value ''Anthropic-Native'') active)"
  by (rule provider_query_agrees) code_simp+

section \<open>A rejected change is half applied\<close>

definition no_change :: api_params where
  "no_change =
     \<lparr>rq_url = None, rq_key = None, rq_provider_type = None, rq_supplier_name = None, rq_sort = None,
      rq_status = None, rq_auth_type = None, rq_auth_custom_enabled = None, rq_auth_params = None,
      rq_action_custom_enabled = None, rq_action = None, rq_model_override = None, rq_username = None,
      rq_password = None, rq_balance_query_enabled = None, rq_balance_query_template = None,
      rq_balance_query_base_url = None, rq_balance_query_access_token = None, rq_balance_query_user_id = None,
      rq_balance_query_config_json = None, rq_model_slugs = None\<rparr>"

lemma row_find_update_api:
  assumes "row_find ag_id rows i = Some a" "\<And>x. ag_id (f x) = ag_id x"
  shows "row_find ag_id (map (\<lambda>x. if ag_id x = i then f x else x) rows) i = Some (f a)"
  using assms by (induction rows) (auto split: if_splits)

lemma unchanged_steps:
  "normalize_auth_params_json libs t None None = Inr None" "normalize_action_override None None = Inr None"
  "normalize_balance_query_template None = Inr None" "normalize_http_url libs None name = Inr None"
  by (simp_all add: normalize_auth_params_json_def normalize_action_override_def
      normalize_balance_query_template_def normalize_http_url_def)

text \<open>
  A change that is rejected is half applied. Asking for user and password authentication without
  giving a user and a password fails, but the new authentication type and the supplier's name are
  already stored while the secret is still the old key; from then on the secret cannot be read.
\<close>

theorem rejected_update_applied:
  assumes "ms_fault st = None" "i \<noteq> []" "row_find ag_id (ms_apis st) i = Some a"
    and auth: "normalize_auth_type (Some (ag_auth_type a)) = Inr ''apikey''" "normalize_auth_type (Some t) = Inr ''userpass''"
    and name: "trimmed_nonempty (Some supplier) = Some name"
    and key: "row_find fst (ms_secrets st) i = Some (i, key)" "lib_parse_userpass libs key = None"
  shows "\<exists>st'. update_aggregate_api libs i (no_change\<lparr>rq_auth_type := Some t, rq_supplier_name := Some supplier\<rparr>) now st
        = (Inl ''username and password are required when switching authType to userpass'', st')
    \<and> find_aggregate_api_by_id st' i
        = Inr (Some (a\<lparr>ag_auth_type := ''userpass'', ag_supplier_name := Some name, ag_updated_at := now\<rparr>))
    \<and> ms_secrets st' = ms_secrets st
    \<and> read_aggregate_api_secret libs i st' = Inl ''invalid aggregate api secret''"
proof -
  let ?old = "\<lparr>uc_auth_type = ag_auth_type a,
      uc_balance_query_enabled = ap_balance_query_enabled (ag_probes a),
      uc_balance_query_template = ap_balance_query_template (ag_probes a),
      uc_balance_query_base_url = ap_balance_query_base_url (ag_probes a),
      uc_balance_query_user_id = ap_balance_query_user_id (ag_probes a),
      uc_balance_query_config_json = ap_balance_query_config_json (ag_probes a)\<rparr>"
  let ?p = "no_change\<lparr>rq_auth_type := Some t, rq_supplier_name := Some supplier\<rparr>"
  let ?rows1 = "map (\<lambda>x. if ag_id x = i then x\<lparr>ag_auth_type := ''userpass'', ag_updated_at := now\<rparr> else x) (ms_apis st)"
  let ?rows2 = "map (\<lambda>x. if ag_id x = i then x\<lparr>ag_supplier_name := Some name, ag_updated_at := now\<rparr> else x) ?rows1"
  let ?st' = "st\<lparr>ms_apis := ?rows2\<rparr>"
  have balance: "update_balance_query libs i ?p ?old now s = (Inr (), s)" for s
    by (simp add: update_balance_query_def no_change_def unchanged_steps is_some_def)
  have reject: "update_credentials libs i ?p ''userpass'' True s
      = (Inl ''username and password are required when switching authType to userpass'', s)" for s
    by (simp add: update_credentials_def no_change_def)
  have steps: "step_seq (update_aggregate_api_steps libs i ?p ?old (Some ''userpass'') now) st
      = (Inl ''username and password are required when switching authType to userpass'', ?st')"
    using assms(1) auth(1) name balance reject
    by (simp add: update_aggregate_api_steps_def sum_or_def no_change_def checked_def step_bind_def update_api_def
        update_aggregate_api_auth_type_def update_aggregate_api_supplier_name_def normalize_supplier_name_def
        unchanged_steps is_some_def Let_def)
  have run: "update_aggregate_api libs i ?p now st
      = (Inl ''username and password are required when switching authType to userpass'', ?st')"
    using steps assms(1-3) auth(2)
    by (simp add: update_aggregate_api_def find_aggregate_api_update_config_by_id_def step_bind_def no_change_def)
  have found: "row_find ag_id ?rows2 i
      = Some (a\<lparr>ag_auth_type := ''userpass'', ag_supplier_name := Some name, ag_updated_at := now\<rparr>)"
    using row_find_update_api [OF row_find_update_api [OF assms(3), of "\<lambda>x. x\<lparr>ag_auth_type := ''userpass'', ag_updated_at := now\<rparr>"],
      of "\<lambda>x. x\<lparr>ag_supplier_name := Some name, ag_updated_at := now\<rparr>"] by simp
  have "normalize_auth_type (Some ''userpass'') = Inr ''userpass''" by code_simp
  with found assms(1,2) key have "read_aggregate_api_secret libs i ?st' = Inl ''invalid aggregate api secret''"
    by (simp add: read_aggregate_api_secret_def find_aggregate_api_secret_config_by_id_def del: list.map)
  with run found assms(1) show ?thesis
    by (intro exI [of _ ?st'] conjI) (simp_all add: find_aggregate_api_by_id_def)
qed

definition demo_libs :: manage_libs where
  "demo_libs =
     \<lparr>lib_url_scheme = (\<lambda>u. if str_starts_with u ''https://'' then Some ''https'' else None),
      lib_print_json = (\<lambda>_. ''{}''),
      lib_parse_userpass = (\<lambda>s. split_once ''|'' s), lib_print_userpass = (\<lambda>(u, w). u @ ''|'' @ w),
      lib_parse_balance = (\<lambda>_. None), lib_print_balance = (\<lambda>_. [])\<rparr>"

theorem rejected_update_applied_witness:
  "\<exists>st'. update_aggregate_api demo_libs ''a'' (no_change\<lparr>rq_auth_type := Some ''basic'', rq_supplier_name := Some ''shop''\<rparr>) 9 demo_apis
        = (Inl ''username and password are required when switching authType to userpass'', st')
    \<and> find_aggregate_api_by_id st' ''a''
        = Inr (Some (demo_api ''a'' ''claude''\<lparr>ag_auth_type := ''userpass'', ag_supplier_name := Some ''shop'', ag_updated_at := 9\<rparr>))
    \<and> ms_secrets st' = ms_secrets demo_apis
    \<and> read_aggregate_api_secret demo_libs ''a'' st' = Inl ''invalid aggregate api secret''"
  by (rule rejected_update_applied [where key = "''sk-a''"]) code_simp+

section \<open>A created API can be read back\<close>

lemma sum_bind_InrD: "sum_bind r f = Inr v \<Longrightarrow> \<exists>x. r = Inr x \<and> f x = Inr v"
  by (cases r) simp_all

lemma new_api_exact:
  assumes "new_api libs p i now = Inr (a, secret)"
  shows "ag_id a = i \<and> normalize_auth_type (rq_auth_type p) = Inr (ag_auth_type a)
    \<and> secret_from_params libs p (ag_auth_type a) = Inr secret"
  using assms unfolding new_api_def Let_def
  by (auto dest!: sum_bind_InrD)

lemma normalize_auth_type_cases: "normalize_auth_type v = Inr t \<Longrightarrow> t = ''apikey'' \<or> t = ''userpass''"
  by (auto simp: normalize_auth_type_def Let_def split: option.splits if_splits)

lemma step_bind_InrE:
  assumes "step_bind m f st = (Inr v, st')"
  obtains x st1 where "m st = (Inr x, st1)" "f x st1 = (Inr v, st')"
  using assms by (auto simp: step_bind_def split: prod.splits sum.splits)

lemma ms_exec_InrD: "ms_exec st st1 = (Inr u, st') \<Longrightarrow> ms_fault st = None \<and> st' = st1"
  by (auto simp: ms_exec_def split: option.splits)

lemma ms_exec_if_InrD: "ms_exec_if ok st st1 = (Inr u, st') \<Longrightarrow> ms_fault st = None \<and> ok \<and> st' = st1"
  by (auto simp: ms_exec_if_def split: option.splits if_splits)

lemma or_delete_InrD: "or_delete i what m st = (Inr u, st') \<Longrightarrow> m st = (Inr u, st')"
  by (auto simp: or_delete_def split: prod.splits sum.splits)

definition same_apis :: "model_store \<Rightarrow> model_store \<Rightarrow> bool" where
  "same_apis st st' \<longleftrightarrow> ms_apis st' = ms_apis st \<and> ms_secrets st' = ms_secrets st \<and> ms_fault st' = ms_fault st"

lemma extras_keep_apis: "store_extras p i now st = (Inr u, st') \<Longrightarrow> same_apis st st'"
  unfolding store_extras_def
  by (elim step_bind_InrE)
    (auto simp: same_apis_def step_for_def upsert_aggregate_api_balance_secret_def
      set_quota_source_model_assignments_def dest!: or_delete_InrD ms_exec_if_InrD ms_exec_InrD
      split: option.splits if_splits)

lemma created_rows:
  assumes "create_aggregate_api libs p i now st = (Inr r, st')"
  shows "\<exists>a secret. new_api libs p i now = Inr (a, secret) \<and> r = (i, if ag_auth_type a = ''apikey'' then secret else [])
    \<and> ms_fault st' = None \<and> row_find ag_id (ms_apis st') i = Some a \<and> row_find fst (ms_secrets st') i = Some (i, secret)"
proof -
  from assms obtain a secret u1 st1 u2 st2 u3 where
    new: "new_api libs p i now = Inr (a, secret)"
    and st1: "insert_aggregate_api a st = (Inr u1, st1)"
    and st2: "upsert_aggregate_api_secret i secret st1 = (Inr u2, st2)"
    and st': "store_extras p i now st2 = (Inr u3, st')"
    and r: "r = (i, if ag_auth_type a = ''apikey'' then secret else [])"
    unfolding create_aggregate_api_def
    by (elim step_bind_InrE) (auto elim!: step_bind_InrE dest!: or_delete_InrD)
  from new_api_exact [OF new] have i: "ag_id a = i" by blast
  have "row_find ag_id (ms_apis st1) i = Some a"
    using ms_exec_InrD [OF st1 [unfolded insert_aggregate_api_def]] i
    by (auto simp: row_find_append row_find_delete row_find_exists [symmetric] split: option.split)
  moreover from ms_exec_if_InrD [OF st2 [unfolded upsert_aggregate_api_secret_def]]
  have "ms_fault st2 = None" "ms_apis st2 = ms_apis st1" "row_find fst (ms_secrets st2) i = Some (i, secret)"
    using secret_rows.look_put_same [of "(i, secret)" "ms_secrets st1"] by (auto split: option.splits)
  ultimately show ?thesis
    using new r extras_keep_apis [OF st'] by (auto simp: same_apis_def)
qed

text \<open>
  C29: what was given when an API was created can be read back. After a successful creation the secret
  is read with the normalised authentication type: for a key it is the trimmed key, which the creation
  also returned; for a user and a password it is both, trimmed, and the creation returned no key.
\<close>

theorem created_secret_read_back:
  assumes "create_aggregate_api libs p i now st = (Inr r, st')" "i \<noteq> []"
    "\<And>x. lib_parse_userpass libs (lib_print_userpass libs x) = Some x"
  shows "\<exists>res. read_aggregate_api_secret libs i st' = Inr res \<and> sr_id res = fst r
    \<and> normalize_auth_type (rq_auth_type p) = Inr (sr_auth_type res)
    \<and> (if sr_auth_type res = ''apikey''
       then trimmed_nonempty (rq_key p) = Some (sr_key res) \<and> snd r = sr_key res
       else sr_username res = trimmed_nonempty (rq_username p) \<and> sr_password res = trimmed_nonempty (rq_password p)
            \<and> is_some (sr_username res) \<and> is_some (sr_password res) \<and> snd r = [])"
proof -
  obtain a secret where new: "new_api libs p i now = Inr (a, secret)"
    and r: "r = (i, if ag_auth_type a = ''apikey'' then secret else [])"
    and rows: "ms_fault st' = None" "row_find ag_id (ms_apis st') i = Some a" "row_find fst (ms_secrets st') i = Some (i, secret)"
    using created_rows [OF assms(1)] by blast
  from new_api_exact [OF new] have auth: "normalize_auth_type (rq_auth_type p) = Inr (ag_auth_type a)"
    and secret: "secret_from_params libs p (ag_auth_type a) = Inr secret" by blast+
  have again: "normalize_auth_type (Some (ag_auth_type a)) = Inr (ag_auth_type a)"
    using normalize_auth_type_cases [OF auth] by (elim disjE) (simp only:, code_simp)+
  show ?thesis
  proof (cases "ag_auth_type a = ''apikey''")
    case True
    with secret have "trimmed_nonempty (rq_key p) = Some secret"
      by (auto simp: secret_from_params_def split: option.splits)
    with True rows again auth r assms(2) show ?thesis
      by (simp add: read_aggregate_api_secret_def find_aggregate_api_secret_config_by_id_def)
  next
    case False
    with secret obtain u w where uw: "trimmed_nonempty (rq_username p) = Some u" "trimmed_nonempty (rq_password p) = Some w"
      "secret = serialize_userpass_secret libs u w"
      by (auto simp: secret_from_params_def split: option.splits)
    moreover have "trim u = u" "trim w = w" using uw(1,2) trimmed_nonempty_SomeD by blast+
    moreover have "ag_auth_type a = ''userpass''" using False normalize_auth_type_cases [OF auth] by blast
    ultimately show ?thesis using rows again auth r assms(2,3)
      by (simp add: read_aggregate_api_secret_def find_aggregate_api_secret_config_by_id_def serialize_userpass_secret_def)
  qed
qed

text \<open>A parser and a printer that are inverse: the length of the user in front of both texts.\<close>

definition counted_print :: "str \<times> str \<Rightarrow> str" where
  "counted_print x = replicate (length (fst x)) CHR ''1'' @ CHR ''0'' # fst x @ snd x"

definition counted_parse :: "str \<Rightarrow> (str \<times> str) option" where
  "counted_parse s = (let n = length (takeWhile (\<lambda>c. c = CHR ''1'') s); rest = drop (n + 1) s
     in Some (take n rest, drop n rest))"

lemma counted_roundtrip: "counted_parse (counted_print x) = Some x"
proof -
  have "takeWhile (\<lambda>c. c = CHR ''1'') (replicate n CHR ''1'' @ CHR ''0'' # t) = replicate n CHR ''1''" for n t
    by (induction n) simp_all
  then show ?thesis by (cases x) (simp add: counted_print_def counted_parse_def)
qed

definition counted_libs :: manage_libs where
  "counted_libs = demo_libs\<lparr>lib_parse_userpass := counted_parse, lib_print_userpass := counted_print\<rparr>"

lemma counted_libs_roundtrip: "lib_parse_userpass counted_libs (lib_print_userpass counted_libs x) = Some x"
  by (simp add: counted_libs_def counted_roundtrip)

definition demo_create :: api_params where
  "demo_create = no_change\<lparr>rq_supplier_name := Some ''shop'', rq_auth_type := Some ''Basic'',
     rq_username := Some ''ann '', rq_password := Some ''secret''\<rparr>"

lemma demo_created: "fst (create_aggregate_api counted_libs demo_create ''c'' 9 demo_apis) = Inr (''c'', [])"
  by code_simp

theorem created_secret_read_back_witness:
  "\<exists>res. read_aggregate_api_secret counted_libs ''c'' (snd (create_aggregate_api counted_libs demo_create ''c'' 9 demo_apis)) = Inr res
    \<and> sr_username res = Some ''ann'' \<and> sr_password res = Some ''secret''"
proof -
  have run: "create_aggregate_api counted_libs demo_create ''c'' 9 demo_apis
      = (Inr (''c'', []), snd (create_aggregate_api counted_libs demo_create ''c'' 9 demo_apis))"
    using demo_created by (metis prod.collapse)
  from created_secret_read_back [OF run list.distinct(2) counted_libs_roundtrip]
  obtain res where res: "read_aggregate_api_secret counted_libs ''c'' (snd (create_aggregate_api counted_libs demo_create ''c'' 9 demo_apis)) = Inr res"
    "normalize_auth_type (rq_auth_type demo_create) = Inr (sr_auth_type res)"
    "if sr_auth_type res = ''apikey'' then trimmed_nonempty (rq_key demo_create) = Some (sr_key res) \<and> snd (''c'', []) = sr_key res
       else sr_username res = trimmed_nonempty (rq_username demo_create) \<and> sr_password res = trimmed_nonempty (rq_password demo_create)
            \<and> is_some (sr_username res) \<and> is_some (sr_password res) \<and> snd (''c'', [] :: str) = []"
    by (elim exE conjE)
  have read: "normalize_auth_type (rq_auth_type demo_create) = Inr ''userpass''"
    "trimmed_nonempty (rq_username demo_create) = Some ''ann''" "trimmed_nonempty (rq_password demo_create) = Some ''secret''"
    by code_simp+
  from res(2) read(1) have "sr_auth_type res = ''userpass''" by simp
  with res(3) read(2,3) have "sr_username res = Some ''ann''" "sr_password res = Some ''secret''" by simp_all
  with res(1) show ?thesis by blast
qed

end
