(* ===== verification/Aggregate_Request.thy ===== *)
theory Aggregate_Request
  imports Aggregate_Manage Route_Hint Upstream_Support Incoming_Headers
begin

text \<open>
  One request to an aggregate API (\<^verbatim>\<open>gateway/upstream/protocol/aggregate_api.rs\<close>): the
  upstream's URL, the authentication a channel is configured with, the headers that are forwarded
  and the body, the error text of a failed response, and the order in which channels are tried.
  The URL type and the header types of \<^verbatim>\<open>reqwest\<close>, serde_json's parsing and printing, and the
  protocol adapter are parameters.
\<close>

section \<open>What the libraries do\<close>

text \<open>
  \<open>ul_set_query\<close> with \<open>None\<close> removes the query; \<open>ul_append_pair\<close> appends a form-encoded pair to it;
  \<open>ul_query_pairs\<close> decodes it. \<open>hl_name\<close> is \<^verbatim>\<open>HeaderName::from_bytes\<close>, \<open>hl_value_ok\<close> tells
  whether \<^verbatim>\<open>HeaderValue::from_str\<close> accepts a text, \<open>hl_basic\<close> is the value
  \<^verbatim>\<open>basic_auth\<close> sets.
\<close>

record 'u url_lib =
  ul_parse :: "str \<Rightarrow> 'u option"
  ul_path :: "'u \<Rightarrow> str"
  ul_set_path :: "str \<Rightarrow> 'u \<Rightarrow> 'u"
  ul_set_query :: "str option \<Rightarrow> 'u \<Rightarrow> 'u"
  ul_query_pairs :: "'u \<Rightarrow> (str \<times> str) list"
  ul_append_pair :: "str \<times> str \<Rightarrow> 'u \<Rightarrow> 'u"
  ul_text :: "'u \<Rightarrow> str"

record request_libs =
  hl_name :: "str \<Rightarrow> str option"
  hl_value_ok :: "str \<Rightarrow> bool"
  hl_basic :: "str \<Rightarrow> str \<Rightarrow> str"
  hl_parse_json :: "str \<Rightarrow> json option"
  hl_print_json :: "json \<Rightarrow> str option"
  hl_parse_userpass :: "str \<Rightarrow> (str \<times> str) option"
  hl_error_hint :: "nat \<Rightarrow> str \<Rightarrow> str option"
  hl_adapt_responses :: "str \<Rightarrow> str option \<Rightarrow> str + str"

section \<open>The upstream URL\<close>

definition normalize_header_key :: "str \<Rightarrow> str" where
  "normalize_header_key name = to_ascii_lowercase (trim name)"

definition normalize_action_path :: "str \<Rightarrow> str" where
  "normalize_action_path action =
     (let t = trim action in if t = [] then [] else if str_starts_with t ''/'' then t else ''/'' @ t)"

definition effective_action_path :: "aggregate_api \<Rightarrow> str \<Rightarrow> str" where
  "effective_action_path c path =
     (case map_option trim (ag_action c) of
        Some v \<Rightarrow> if v = [] then [] else normalize_action_path v
      | None \<Rightarrow> path)"

definition trim_start_matches :: "char \<Rightarrow> str \<Rightarrow> str" where
  "trim_start_matches c s = dropWhile (\<lambda>x. x = c) s"

definition build_upstream_url :: "'u url_lib \<Rightarrow> str \<Rightarrow> str \<Rightarrow> 'u option" where
  "build_upstream_url ul base_url effective_path =
     bind_opt (ul_parse ul base_url) (\<lambda>url.
       (let trimmed = trim effective_path in
        if trimmed = [] then Some url
        else (let (path_part, query_part) =
                    (case split_once ''?'' trimmed of None \<Rightarrow> (trimmed, None) | Some (p, q) \<Rightarrow> (p, Some q));
                  suffix = trim_start_matches CHR ''/'' path_part;
                  base_path = trim_end_matches CHR ''/'' (ul_path ul url);
                  combined = (if base_path = [] \<or> base_path = ''/'' then ''/'' @ suffix
                              else if suffix = [] then base_path
                              else base_path @ ''/'' @ suffix);
                  query = (case query_part of Some q \<Rightarrow> if trim q = [] then None else Some q | None \<Rightarrow> None)
              in Some (ul_set_query ul query (ul_set_path ul combined url)))))"

definition replace_query_param :: "'u url_lib \<Rightarrow> 'u \<Rightarrow> str \<Rightarrow> str \<Rightarrow> 'u" where
  "replace_query_param ul url name v =
     (let n = trim name in
      if n = [] then url
      else fold (ul_append_pair ul)
             (filter (\<lambda>(k, _). k \<noteq> n) (ul_query_pairs ul url) @ [(n, v)]) (ul_set_query ul None url))"

section \<open>The body\<close>

text \<open>Inserting into a map that is sorted by key.\<close>

fun obj_insert :: "str \<Rightarrow> json \<Rightarrow> (str \<times> json) list \<Rightarrow> (str \<times> json) list" where
  "obj_insert k v [] = [(k, v)]"
| "obj_insert k v ((j, w) # m) =
     (if j = k then (k, v) # m else if k < j then (k, v) # (j, w) # m else (j, w) # obj_insert k v m)"

lemma map_of_obj_insert [simp]: "map_of (obj_insert k v m) = (map_of m)(k \<mapsto> v)"
  by (induction m rule: obj_insert.induct [of _ k v]) (auto simp: fun_eq_iff)

definition rewrite_body_model_override :: "request_libs \<Rightarrow> str \<Rightarrow> str option \<Rightarrow> str" where
  "rewrite_body_model_override hl body override =
     (case trimmed_nonempty override of
        None \<Rightarrow> body
      | Some m \<Rightarrow>
          (case bind_opt (hl_parse_json hl body) json_as_object of
             None \<Rightarrow> body
           | Some obj \<Rightarrow>
               if bind_opt (map_of obj ''model'') json_as_str = Some m then body
               else unwrap_or (hl_print_json hl (JObj (obj_insert ''model'' (JStr m) obj))) body))"

definition aggregate_upstream_model_for_log :: "aggregate_api \<Rightarrow> str option \<Rightarrow> str option" where
  "aggregate_upstream_model_for_log c platform = or_else (ag_model_override c) platform"

definition should_bridge_responses_to_anthropic :: "aggregate_api \<Rightarrow> str \<Rightarrow> bool" where
  "should_bridge_responses_to_anthropic c path \<longleftrightarrow>
     normalize_provider_type_value (ag_provider_type c) = ''claude''
     \<and> (path = ''/v1/responses'' \<or> str_starts_with path ''/v1/responses?'')"

definition responses_to_anthropic_messages_action_path :: "'u url_lib \<Rightarrow> aggregate_api \<Rightarrow> str \<Rightarrow> str" where
  "responses_to_anthropic_messages_action_path ul c path =
     (if ag_action c \<noteq> None then effective_action_path c path
      else (let base = unwrap_or (map_option (\<lambda>u. trim_end_matches CHR ''/'' (ul_path ul u)) (ul_parse ul (ag_url c))) []
            in if base = ''/v1'' \<or> str_ends_with base ''/v1'' then ''/messages'' else ''/v1/messages''))"

section \<open>Authentication\<close>

datatype auth_config =
    ApiKeyDefaultBearer
  | ApiKeyHeader str str
  | ApiKeyQuery str
  | UserPassBasic
  | UserPassHeaderPair str str
  | UserPassQueryPair str str

definition bad_auth_params :: str where "bad_auth_params = ''invalid aggregate api authParams''"

definition apikey_config :: "apikey_params \<Rightarrow> auth_config \<times> str set" where
  "apikey_config p =
     (let name = trim (ak_name p) in
      if to_ascii_lowercase (trim (ak_location p)) = ''query'' then (ApiKeyQuery name, {})
      else (ApiKeyHeader name (to_ascii_lowercase (trim (unwrap_or (ak_format p) ''bearer''))),
            {normalize_header_key name}))"

definition userpass_config :: "userpass_params \<Rightarrow> str + auth_config \<times> str set" where
  "userpass_config p =
     (let mode = to_ascii_lowercase (trim (pp_mode p));
          user = trim (unwrap_or (pp_username_name p) ''username'');
          pass = trim (unwrap_or (pp_password_name p) ''password'')
      in if mode = ''basic'' then Inr (UserPassBasic, {})
         else if mode = ''headerpair''
           then Inr (UserPassHeaderPair user pass, {normalize_header_key user, normalize_header_key pass})
         else if mode = ''querypair'' then Inr (UserPassQueryPair user pass, {})
         else Inl bad_auth_params)"

definition parse_auth_config :: "request_libs \<Rightarrow> aggregate_api \<Rightarrow> str + auth_config \<times> str set" where
  "parse_auth_config hl c =
     (let auth_type = to_ascii_lowercase (trim (ag_auth_type c)) in
      case trimmed_nonempty (ag_auth_params_json c) of
        None \<Rightarrow> Inr (if auth_type = ''userpass'' then UserPassBasic else ApiKeyDefaultBearer, {})
      | Some raw \<Rightarrow>
          (case hl_parse_json hl raw of
             None \<Rightarrow> Inl bad_auth_params
           | Some v \<Rightarrow>
               if auth_type = ''apikey''
                 then (case apikey_params_from v of None \<Rightarrow> Inl bad_auth_params | Some p \<Rightarrow> Inr (apikey_config p))
               else if auth_type = ''userpass''
                 then (case userpass_params_from v of None \<Rightarrow> Inl bad_auth_params | Some p \<Rightarrow> userpass_config p)
               else Inr (ApiKeyDefaultBearer, {})))"

text \<open>The query parameters a configuration adds to the URL before a request.\<close>

definition bad_secret :: str where "bad_secret = ''invalid aggregate api secret''"

definition authenticated_url ::
    "'u url_lib \<Rightarrow> request_libs \<Rightarrow> auth_config \<Rightarrow> str \<Rightarrow> 'u \<Rightarrow> str + 'u" where
  "authenticated_url ul hl config secret url =
     (case config of
        ApiKeyQuery name \<Rightarrow> Inr (replace_query_param ul url name (trim secret))
      | UserPassQueryPair user pass \<Rightarrow>
          (case hl_parse_userpass hl (trim secret) of
             None \<Rightarrow> Inl bad_secret
           | Some (u, p) \<Rightarrow> Inr (replace_query_param ul (replace_query_param ul url user u) pass p))
      | _ \<Rightarrow> Inr url)"

section \<open>Forwarded headers\<close>

definition should_skip_forward_header :: "str \<Rightarrow> bool" where
  "should_skip_forward_header name \<longleftrightarrow>
     to_ascii_lowercase name \<in> {''authorization'', ''x-api-key'', ''api-key'', ''content-length'',
       ''connection'', ''proxy-authorization'', ''proxy-authenticate'', ''te'', ''trailer'',
       ''transfer-encoding'', ''upgrade'', ''host''}"

definition should_skip_forward_header_with_overrides :: "str \<Rightarrow> str set \<Rightarrow> bool" where
  "should_skip_forward_header_with_overrides name injected \<longleftrightarrow>
     should_skip_forward_header name \<or> normalize_header_key name \<in> injected"

definition should_skip_forward_header_for_aggregate_request :: "str \<Rightarrow> str set \<Rightarrow> bool \<Rightarrow> bool" where
  "should_skip_forward_header_for_aggregate_request name injected is_stream \<longleftrightarrow>
     should_skip_forward_header_with_overrides name injected
     \<or> is_stream \<and> normalize_header_key name = ''accept''"

definition forwarded_headers ::
    "request_libs \<Rightarrow> str set \<Rightarrow> bool \<Rightarrow> (str \<times> str) list \<Rightarrow> (str \<times> str) list" where
  "forwarded_headers hl injected is_stream headers =
     List.map_filter (\<lambda>(name, v).
       if should_skip_forward_header_for_aggregate_request name injected is_stream then None
       else (case hl_name hl name of
               Some n \<Rightarrow> if hl_value_ok hl v then Some (n, v) else None
             | None \<Rightarrow> None)) headers"

section \<open>The request\<close>

text \<open>The client's request as the channels see it, and what is sent to a channel.\<close>

record client_request =
  cr_method :: str
  cr_headers :: "(str \<times> str) list"
  cr_body :: str
  cr_is_stream :: bool

record 'u channel_request =
  ch_url :: 'u
  ch_method :: str
  ch_timeout :: "nat option"
  ch_headers :: "(str \<times> str) list"
  ch_body :: str

definition header_pair :: "request_libs \<Rightarrow> str \<Rightarrow> str \<Rightarrow> str + (str \<times> str) list" where
  "header_pair hl name v = (if hl_value_ok hl v then Inr [(name, v)] else Inl bad_secret)"

definition named_header :: "request_libs \<Rightarrow> str \<Rightarrow> str + str" where
  "named_header hl name =
     (case hl_name hl name of None \<Rightarrow> Inl ''invalid aggregate api auth header'' | Some n \<Rightarrow> Inr n)"

definition auth_headers :: "request_libs \<Rightarrow> auth_config \<Rightarrow> str \<Rightarrow> str + (str \<times> str) list" where
  "auth_headers hl config secret0 =
     (let secret = trim secret0 in
      case config of
        ApiKeyDefaultBearer \<Rightarrow> header_pair hl ''authorization'' (''Bearer '' @ secret)
      | ApiKeyHeader name format \<Rightarrow>
          sum_bind (named_header hl name) (\<lambda>n.
            header_pair hl n (if format = ''raw'' then secret else ''Bearer '' @ secret))
      | ApiKeyQuery name \<Rightarrow> Inr []
      | _ \<Rightarrow>
          (case hl_parse_userpass hl secret of
             None \<Rightarrow> Inl bad_secret
           | Some (user, pass) \<Rightarrow>
               (case config of
                  UserPassBasic \<Rightarrow> Inr [(''authorization'', hl_basic hl user pass)]
                | UserPassHeaderPair user_name pass_name \<Rightarrow>
                    sum_bind (named_header hl user_name) (\<lambda>un.
                    sum_bind (named_header hl pass_name) (\<lambda>pn.
                    sum_bind (header_pair hl un user) (\<lambda>a.
                    sum_bind (header_pair hl pn pass) (\<lambda>b. Inr (a @ b)))))
                | _ \<Rightarrow> Inr [])))"

definition build_aggregate_api_request ::
    "request_libs \<Rightarrow> client_request \<Rightarrow> 'u \<Rightarrow> str \<Rightarrow> str \<Rightarrow> auth_config \<Rightarrow> str set \<Rightarrow> nat option
       \<Rightarrow> str + 'u channel_request" where
  "build_aggregate_api_request hl cr url body secret config injected timeout =
     sum_bind (auth_headers hl config secret) (\<lambda>auth.
       Inr \<lparr>ch_url = url, ch_method = cr_method cr, ch_timeout = timeout,
            ch_headers = forwarded_headers hl injected (cr_is_stream cr) (cr_headers cr)
              @ (if cr_is_stream cr then [(''accept'', ''text/event-stream'')] else []) @ auth,
            ch_body = body\<rparr>)"

definition build_anthropic_bridge_aggregate_api_request ::
    "request_libs \<Rightarrow> client_request \<Rightarrow> 'u \<Rightarrow> str \<Rightarrow> str \<Rightarrow> auth_config \<Rightarrow> str set \<Rightarrow> nat option
       \<Rightarrow> str + 'u channel_request" where
  "build_anthropic_bridge_aggregate_api_request hl cr url body secret config injected timeout =
     sum_bind (build_aggregate_api_request hl cr url body secret config injected timeout) (\<lambda>r.
     sum_bind (if config = ApiKeyDefaultBearer then header_pair hl ''x-api-key'' (trim secret) else Inr []) (\<lambda>key.
       Inr (r\<lparr>ch_headers := ch_headers r @ [(''anthropic-version'', ''2023-06-01'')] @ key\<rparr>)))"

section \<open>Failed responses\<close>

text \<open>A response: its headers (\<open>None\<close> for a value that is not text) and its body, or the read error.\<close>

record channel_response =
  cs_status :: nat
  cs_headers :: "(str \<times> str option) list"
  cs_body :: "str + str"

text \<open>
  \<^verbatim>\<open>HeaderMap::get\<close>: the first value of the name. \<open>find_map\<close> takes the first name that gives
  a text.
\<close>

definition header_text :: "(str \<times> str option) list \<Rightarrow> str \<Rightarrow> str option" where
  "header_text headers name = bind_opt (map_of headers name) (\<lambda>v. v)"

definition first_upstream_header :: "(str \<times> str option) list \<Rightarrow> str list \<Rightarrow> str option" where
  "first_upstream_header headers names =
     find_map (\<lambda>name. trimmed_nonempty (header_text headers name)) names"

definition aggregate_api_failure_message ::
    "request_libs \<Rightarrow> nat \<Rightarrow> str \<Rightarrow> str option \<Rightarrow> str option \<Rightarrow> str option \<Rightarrow> str option \<Rightarrow> str" where
  "aggregate_api_failure_message hl status body request_id cf_ray auth_error identity_error_code =
     (let hint = unwrap_or (hl_error_hint hl status body) (''aggregate api upstream status='' @ dec status);
          part = (\<lambda>name v. (case trimmed_nonempty v of None \<Rightarrow> [] | Some t \<Rightarrow> [name @ ''='' @ t]));
          parts = part ''request_id'' request_id @ part ''cf_ray'' cf_ray @ part ''auth_error'' auth_error
            @ part ''identity_error_code'' identity_error_code
      in if parts = [] then hint else hint @ '' ['' @ join '', '' parts @ '']'')"

section \<open>The order of the channels\<close>

definition normalize_candidate_order :: "aggregate_api list \<Rightarrow> aggregate_api list" where
  "normalize_candidate_order cs = sort_key (\<lambda>c. (ag_sort c, - ag_created_at c, ag_id c)) cs"

definition promote_preferred_aggregate_candidate :: "str \<Rightarrow> aggregate_api list \<Rightarrow> aggregate_api list" where
  "promote_preferred_aggregate_candidate preferred cs =
     (let p = trim preferred in
      if p = [] then cs
      else (case position (\<lambda>c. ag_id c = p) cs of
              None \<Rightarrow> cs
            | Some i \<Rightarrow> if i = 0 then cs else cs ! i # take i cs @ drop (Suc i) cs))"

definition apply_gateway_route_strategy_to_aggregate_candidates ::
    "process_env \<Rightarrow> aggregate_api list \<Rightarrow> str \<Rightarrow> str option \<Rightarrow> str option \<Rightarrow> nat \<Rightarrow> route_state
       \<Rightarrow> aggregate_api list \<times> route_state" where
  "apply_gateway_route_strategy_to_aggregate_candidates env cs key_id model preferred now s =
     (if length cs \<le> 1 then (cs, s)
      else (let (strategy, s1) = current_route_strategy env s in
            if strategy \<noteq> ''balanced'' then (cs, s1)
            else if trimmed_nonempty preferred = Some (ag_id (hd cs))
              then (let (rest, s2) = apply_balanced_round_robin env (tl cs) key_id model now s1 in (hd cs # rest, s2))
            else apply_balanced_round_robin env cs key_id model now s1))"

definition resolve_aggregate_api_rotation_candidates ::
    "model_store \<Rightarrow> str \<Rightarrow> str option \<Rightarrow> str + aggregate_api list" where
  "resolve_aggregate_api_rotation_candidates st protocol aggregate_api_id =
     (let provider = (if protocol = ''anthropic_native'' then ''claude''
                      else if protocol = ''gemini_native'' then ''gemini'' else ''codex'')
      in sum_bind (list_active_aggregate_apis_by_provider_type st provider) (\<lambda>rows.
         (let ordered = normalize_candidate_order rows;
              cs = (case trimmed_nonempty aggregate_api_id of
                      None \<Rightarrow> ordered | Some i \<Rightarrow> promote_preferred_aggregate_candidate i ordered)
          in if cs = [] then Inl (''aggregate api not found for provider '' @ provider) else Inr cs)))"

section \<open>Whose credentials a request carries\<close>

text \<open>
  What is relied on of header names: they are lower case, and no text with white space around it is
  one.
\<close>

definition header_names_ok :: "request_libs \<Rightarrow> bool" where
  "header_names_ok hl \<longleftrightarrow> (\<forall>s n. hl_name hl s = Some n \<longrightarrow> n = to_ascii_lowercase s \<and> trim s = s)"

lemma set_forwarded_headers:
  "h \<in> set (forwarded_headers hl injected is_stream headers) \<longleftrightarrow>
     (\<exists>name. (name, snd h) \<in> set headers \<and> hl_name hl name = Some (fst h) \<and> hl_value_ok hl (snd h)
        \<and> \<not> should_skip_forward_header_for_aggregate_request name injected is_stream)"
proof (induction headers)
  case (Cons x headers)
  then show ?case
    by (cases x; cases h) (auto simp: forwarded_headers_def List.map_filter_simps split: option.splits if_splits)
qed (simp add: forwarded_headers_def List.map_filter_simps)

lemma forwarded_not_skipped:
  assumes "header_names_ok hl" "(n, v) \<in> set (forwarded_headers hl injected is_stream headers)"
  shows "n \<notin> injected" "n \<notin> {''authorization'', ''x-api-key'', ''api-key''}" "is_stream \<Longrightarrow> n \<noteq> ''accept''"
proof -
  from assms(2) obtain name where name: "hl_name hl name = Some n"
      "\<not> should_skip_forward_header_for_aggregate_request name injected is_stream"
    by (auto simp: set_forwarded_headers)
  from assms(1) name(1) have n: "n = to_ascii_lowercase name" "trim name = name"
    unfolding header_names_ok_def by blast+
  from name(2) show "n \<notin> injected" "n \<notin> {''authorization'', ''x-api-key'', ''api-key''}" "is_stream \<Longrightarrow> n \<noteq> ''accept''"
    by (auto simp: should_skip_forward_header_for_aggregate_request_def should_skip_forward_header_with_overrides_def
        should_skip_forward_header_def normalize_header_key_def n)
qed

lemma filter_forwarded_none:
  assumes "header_names_ok hl" "n \<in> injected \<union> {''authorization'', ''x-api-key'', ''api-key''}"
  shows "filter (\<lambda>h. fst h = n) (forwarded_headers hl injected is_stream headers) = []"
  using forwarded_not_skipped [OF assms(1)] assms(2) by (fastforce simp: filter_empty_conv)

text \<open>The names of a channel's own headers are the names that are not forwarded.\<close>

lemma header_pair_InrD: "header_pair hl n v = Inr hs \<Longrightarrow> hs = [(n, v)]"
  by (simp add: header_pair_def split: if_splits)

lemma named_header_InrD:
  "header_names_ok hl \<Longrightarrow> named_header hl name = Inr n \<Longrightarrow> n = normalize_header_key name"
  by (auto simp: named_header_def header_names_ok_def normalize_header_key_def split: option.splits)

lemma auth_header_names:
  assumes names: "header_names_ok hl" and config: "parse_auth_config hl c = Inr (config, injected)"
    and auth: "auth_headers hl config secret = Inr auth"
  shows "fst ` set auth \<subseteq> injected \<union> {''authorization''}"
proof (cases config)
  case (ApiKeyHeader name format)
  then have "normalize_header_key name \<in> injected" using config
    by (auto simp: parse_auth_config_def apikey_config_def userpass_config_def Let_def
        split: option.splits if_splits)
  with auth show ?thesis
    by (auto simp: ApiKeyHeader auth_headers_def Let_def dest!: sum_bind_InrD header_pair_InrD
        named_header_InrD [OF names])
next
  case (UserPassHeaderPair un pn)
  then have "normalize_header_key un \<in> injected" "normalize_header_key pn \<in> injected" using config
    by (auto simp: parse_auth_config_def apikey_config_def userpass_config_def Let_def
        split: option.splits if_splits)
  with auth show ?thesis
    by (auto simp: UserPassHeaderPair auth_headers_def Let_def dest!: sum_bind_InrD header_pair_InrD
        named_header_InrD [OF names] split: option.splits)
qed (use auth in \<open>auto simp: auth_headers_def Let_def dest!: header_pair_InrD split: option.splits\<close>)


definition demo_channel :: "str \<Rightarrow> str \<Rightarrow> str option \<Rightarrow> aggregate_api" where
  "demo_channel i auth_type params = (demo_api i ''codex'')\<lparr>ag_auth_type := auth_type, ag_auth_params_json := params\<rparr>"

definition demo_request_libs :: request_libs where
  "demo_request_libs =
     \<lparr>hl_name = (\<lambda>s. if trim s = s then Some (to_ascii_lowercase s) else None), hl_value_ok = (\<lambda>s. True),
      hl_basic = (\<lambda>u p. ''Basic '' @ u @ '':'' @ p), hl_parse_json = (\<lambda>s. None), hl_print_json = (\<lambda>v. None),
      hl_parse_userpass = (\<lambda>s. None), hl_error_hint = (\<lambda>st b. None), hl_adapt_responses = (\<lambda>b m. Inr b)\<rparr>"

definition demo_client :: client_request where
  "demo_client = \<lparr>cr_method = ''POST'', cr_headers = [(''Authorization'', ''Bearer client''), (''User-Agent'', ''cli'')],
     cr_body = ''{}'', cr_is_stream = False\<rparr>"


text \<open>
  The key of a Gemini client leaves the gateway. A client that presents its gateway key in
  \<^verbatim>\<open>x-goog-api-key\<close> is known by that key, and the header is forwarded to the channel beside
  the channel's own credentials: the list of headers that are not forwarded has the other two ways
  to present a key only.
\<close>

theorem goog_key_forwarded:
  assumes key: "trim key = key" "key \<noteq> []"
    and libs: "hl_name hl ''x-goog-api-key'' = Some ''x-goog-api-key''" "hl_value_ok hl key"
      "hl_value_ok hl (''Bearer '' @ trim secret)"
    and header: "cr_headers cr = [(''x-goog-api-key'', key)]"
  shows "platform_key (from_http_headers dc (map (\<lambda>(n, v). (n, Some v)) (cr_headers cr))) = Some key
    \<and> (\<exists>r. build_aggregate_api_request hl cr url body secret ApiKeyDefaultBearer {} timeout = Inr r
           \<and> (''x-goog-api-key'', key) \<in> set (ch_headers r))"
proof
  show "platform_key (from_http_headers dc (map (\<lambda>(n, v). (n, Some v)) (cr_headers cr))) = Some key"
    by (simp add: header from_http_headers_def observe_header_def derive_session_id_from_turn_metadata_def
        empty_snapshot_def platform_key_def eq_ignore_ascii_case_def to_ascii_lowercase_def ascii_lower_def
        nonempty_value_def or_else_def key)
  have "(''x-goog-api-key'', key) \<in> set (forwarded_headers hl {} (cr_is_stream cr) (cr_headers cr))"
    by (auto simp: set_forwarded_headers header libs should_skip_forward_header_for_aggregate_request_def
        should_skip_forward_header_with_overrides_def should_skip_forward_header_def normalize_header_key_def
        to_ascii_lowercase_def ascii_lower_def trim_def ws1_def ws2_def ws3_def)
  then show "\<exists>r. build_aggregate_api_request hl cr url body secret ApiKeyDefaultBearer {} timeout = Inr r
           \<and> (''x-goog-api-key'', key) \<in> set (ch_headers r)"
    by (simp add: build_aggregate_api_request_def auth_headers_def header_pair_def libs libs(3) [simplified] Let_def)
qed

theorem goog_key_forwarded_witness:
  "\<exists>r. build_aggregate_api_request demo_request_libs (demo_client\<lparr>cr_headers := [(''x-goog-api-key'', ''k'')]\<rparr>)
         ''u'' ''{}'' ''sk'' ApiKeyDefaultBearer {} None = Inr r
     \<and> (''x-goog-api-key'', ''k'') \<in> set (ch_headers r)"
  by (rule goog_key_forwarded [THEN conjunct2]) (simp_all add: demo_request_libs_def demo_client_def trim_def ws1_def ws2_def ws3_def
      to_ascii_lowercase_def ascii_lower_def)

section \<open>What was saved can be used\<close>

text \<open>
  The configuration that \<^verbatim>\<open>createAggregateApi\<close> promises for accepted parameters: names that are
  not empty and a known format.
\<close>

fun config_well_typed :: "auth_config \<Rightarrow> bool" where
  "config_well_typed (ApiKeyHeader name format) \<longleftrightarrow> name \<noteq> [] \<and> trim name = name \<and> format \<in> {''bearer'', ''raw''}"
| "config_well_typed (ApiKeyQuery name) \<longleftrightarrow> name \<noteq> [] \<and> trim name = name"
| "config_well_typed (UserPassHeaderPair user pass) \<longleftrightarrow> user \<noteq> [] \<and> pass \<noteq> []"
| "config_well_typed (UserPassQueryPair user pass) \<longleftrightarrow> user \<noteq> [] \<and> pass \<noteq> []"
| "config_well_typed _ \<longleftrightarrow> True"

lemma checked_apikey_config:
  assumes "check_apikey_params v = Inr ()"
  shows "\<exists>p. apikey_params_from v = Some p \<and> config_well_typed (fst (apikey_config p))"
  using assms by (auto simp: check_apikey_params_def apikey_config_def Let_def trim_idem split: option.splits if_splits)

lemma checked_userpass_config:
  assumes "check_userpass_params v = Inr ()"
  shows "\<exists>p config. userpass_params_from v = Some p \<and> userpass_config p = Inr config \<and> config_well_typed (fst config)"
proof -
  from assms obtain p where p: "userpass_params_from v = Some p"
    by (auto simp: check_userpass_params_def split: option.splits)
  have empty: "trim [] = []" by (simp add: trim_def)
  from assms p show ?thesis
    by (cases "pp_username_name p"; cases "pp_password_name p")
      (auto simp: check_userpass_params_def userpass_config_def Let_def empty split: if_splits)
qed

text \<open>
  Authentication parameters that were accepted can be used. What normalising the parameters
  of a request stores for an API is read by the proxy without an error, for both types of
  authentication, with a header or query name that is not empty and a known format; when parameters
  are switched off the default of the type is used. Printing and parsing JSON are inverse and a
  printed object carries no outer white space.
\<close>

theorem saved_auth_params_usable:
  assumes saved: "normalize_auth_params_json libs (ag_auth_type c) (Some b) params = Inr stored"
    and auth_type: "ag_auth_type c \<in> {''apikey'', ''userpass''}"
    and json: "\<And>v. params = Some v \<Longrightarrow> hl_parse_json hl (lib_print_json libs v) = Some v
       \<and> trim (lib_print_json libs v) = lib_print_json libs v \<and> lib_print_json libs v \<noteq> []"
  shows "\<exists>config injected. parse_auth_config hl (c\<lparr>ag_auth_params_json := stored\<rparr>) = Inr (config, injected)
    \<and> config_well_typed config"
proof -
  have kind: "to_ascii_lowercase (trim (ag_auth_type c)) = ag_auth_type c"
    using auth_type by (auto simp: to_ascii_lowercase_def ascii_lower_def trim_def ws1_def ws2_def ws3_def)
  show ?thesis
  proof (cases b)
    case False
    then have "stored = Some []" using saved by (simp add: normalize_auth_params_json_def)
    then show ?thesis by (simp add: parse_auth_config_def trimmed_nonempty_def trim_def Let_def)
  next
    case True
    with saved obtain v where params: "params = Some v"
      and v: "stored = Some (lib_print_json libs v)" "ag_auth_type c = ''apikey'' \<Longrightarrow> check_apikey_params v = Inr ()"
        "ag_auth_type c = ''userpass'' \<Longrightarrow> check_userpass_params v = Inr ()"
      by (auto simp: normalize_auth_params_json_def dest!: sum_bind_InrD split: option.splits if_splits)
    have raw: "trimmed_nonempty stored = Some (lib_print_json libs v)" "hl_parse_json hl (lib_print_json libs v) = Some v"
      using json [OF params] by (simp_all add: v(1) trimmed_nonempty_def)
    show ?thesis
    proof (cases "ag_auth_type c = ''apikey''")
      case True
      then have "to_ascii_lowercase (trim (ag_auth_type c)) = ''apikey''" using kind by simp
      with checked_apikey_config [OF v(2) [OF True]] raw show ?thesis
        by (cases "apikey_config (the (apikey_params_from v))") (auto simp: parse_auth_config_def Let_def)
    next
      case False
      then have user: "ag_auth_type c = ''userpass''" using auth_type by blast
      then have "to_ascii_lowercase (trim (ag_auth_type c)) = ''userpass''" using kind by simp
      with checked_userpass_config [OF v(3) [OF user]] raw show ?thesis
        by (auto simp: parse_auth_config_def Let_def)
    qed
  qed
qed

definition demo_params :: json where
  "demo_params = JObj [(''location'', JStr ''header''), (''name'', JStr '' X-Key '')]"

theorem saved_auth_params_usable_witness:
  "\<exists>config injected. parse_auth_config (demo_request_libs\<lparr>hl_parse_json := (\<lambda>s. Some demo_params)\<rparr>)
       ((demo_channel ''a'' ''apikey'' None)\<lparr>ag_auth_params_json := Some ''{}''\<rparr>) = Inr (config, injected)
     \<and> config_well_typed config"
  by (rule saved_auth_params_usable [where libs = "demo_libs\<lparr>lib_print_json := (\<lambda>v. ''{}'')\<rparr>" and b = True
        and params = "Some demo_params"])
    (simp_all add: demo_channel_def demo_api_def demo_params_def normalize_auth_params_json_def check_apikey_params_def
      apikey_params_from_def text_field_def optional_text_field_def json_get_def json_get_str_def json_as_str_def
      json_as_object_def to_ascii_lowercase_def ascii_lower_def trim_def ws1_def ws2_def ws3_def unwrap_or_def
      demo_libs_def)

section \<open>The preferred channel\<close>

lemma mset_promote: "mset (promote_preferred_aggregate_candidate p cs) = mset cs"
proof (cases "position (\<lambda>c. ag_id c = trim p) cs")
  case (Some i)
  then have "i < length cs" by (blast dest: position_SomeD)
  then have "mset (cs ! i # take i cs @ drop (Suc i) cs) = mset cs"
    using id_take_nth_drop [of i cs] by (metis mset.simps(2) mset_append union_mset_add_mset_right)
  with Some show ?thesis by (simp add: promote_preferred_aggregate_candidate_def Let_def)
qed (simp add: promote_preferred_aggregate_candidate_def Let_def)

lemma promoted_head:
  assumes "trim p \<noteq> []" "trim p \<in> ag_id ` set cs"
  shows "ag_id (hd (promote_preferred_aggregate_candidate p cs)) = trim p"
proof -
  from assms(2) obtain i where i: "position (\<lambda>c. ag_id c = trim p) cs = Some i"
    by (cases "position (\<lambda>c. ag_id c = trim p) cs") (auto simp: position_None_iff)
  then have "ag_id (cs ! i) = trim p" "i < length cs" by (blast dest: position_SomeD)+
  with i assms(1) show ?thesis
    by (cases cs) (auto simp: promote_preferred_aggregate_candidate_def Let_def)
qed

lemma mset_aggregate_strategy:
  "mset (fst (apply_gateway_route_strategy_to_aggregate_candidates env cs key_id model preferred now s)) = mset cs"
proof (cases cs)
  case (Cons c rest)
  then show ?thesis
    by (auto simp: apply_gateway_route_strategy_to_aggregate_candidates_def Let_def round_robin_mset split: prod.splits)
      (metis fst_conv round_robin_mset)+
qed (simp add: apply_gateway_route_strategy_to_aggregate_candidates_def)

text \<open>
  The preferred channel is tried first and no channel is lost. The channels that are tried for
  a request, after sorting, promotion of the preferred channel and the balanced strategy, are the
  active channels of the protocol's provider, each as often as the store has it; if the preferred
  channel is among them it is the first, whatever the strategy and its state.
\<close>

theorem preferred_channel_first:
  assumes provider: "provider = (if protocol = ''anthropic_native'' then ''claude''
      else if protocol = ''gemini_native'' then ''gemini'' else ''codex'')"
    and rows: "list_active_aggregate_apis_by_provider_type st provider = Inr rows"
    and cs: "resolve_aggregate_api_rotation_candidates st protocol preferred = Inr cs"
    and tried: "tried = fst (apply_gateway_route_strategy_to_aggregate_candidates env cs key_id model preferred now s)"
  shows "mset tried = mset rows \<and>
    (\<forall>p. trimmed_nonempty preferred = Some p \<and> p \<in> ag_id ` set rows \<longrightarrow> ag_id (hd tried) = p)"
proof -
  from cs have order: "cs = (case trimmed_nonempty preferred of None \<Rightarrow> normalize_candidate_order rows
      | Some i \<Rightarrow> promote_preferred_aggregate_candidate i (normalize_candidate_order rows))"
    unfolding resolve_aggregate_api_rotation_candidates_def provider [symmetric]
    by (simp add: rows Let_def split: if_splits option.splits)
  have all: "mset cs = mset rows"
    by (simp add: order mset_promote normalize_candidate_order_def split: option.split)
  have first: "ag_id (hd tried) = p" if p: "trimmed_nonempty preferred = Some p" "p \<in> ag_id ` set rows" for p
  proof -
    from p(1) have t: "trim p = p" "p \<noteq> []" by (blast dest: trimmed_nonempty_SomeD)+
    have "ag_id (hd cs) = p"
      using promoted_head [of p "normalize_candidate_order rows"] p(2)
      by (simp add: order p(1) t normalize_candidate_order_def)
    then show ?thesis
      by (auto simp: tried apply_gateway_route_strategy_to_aggregate_candidates_def Let_def p(1) split: prod.splits)
  qed
  show ?thesis using first all by (simp add: tried mset_aggregate_strategy)
qed

definition demo_channels :: model_store where
  "demo_channels = demo_apis\<lparr>ms_apis := [demo_api ''a'' ''codex'', demo_api ''b'' ''codex'']\<rparr>"

theorem preferred_channel_first_witness:
  "\<forall>env s. \<exists>cs. resolve_aggregate_api_rotation_candidates demo_channels ''openai'' (Some ''b'') = Inr cs \<and> length cs = 2
     \<and> ag_id (hd (fst (apply_gateway_route_strategy_to_aggregate_candidates env cs ''k'' None (Some ''b'') 0 s))) = ''b''"
proof (intro allI)
  fix env s
  have rows: "list_active_aggregate_apis_by_provider_type demo_channels ''codex''
      = Inr [demo_api ''a'' ''codex'', demo_api ''b'' ''codex'']" by code_simp
  have cs: "resolve_aggregate_api_rotation_candidates demo_channels ''openai'' (Some ''b'')
      = Inr [demo_api ''b'' ''codex'', demo_api ''a'' ''codex'']" by code_simp
  have "trimmed_nonempty (Some ''b'') = Some ''b''" by code_simp
  with preferred_channel_first [OF _ rows cs refl, of env "''k''" None 0 s] cs
  show "\<exists>cs. resolve_aggregate_api_rotation_candidates demo_channels ''openai'' (Some ''b'') = Inr cs \<and> length cs = 2
     \<and> ag_id (hd (fst (apply_gateway_route_strategy_to_aggregate_candidates env cs ''k'' None (Some ''b'') 0 s))) = ''b''"
    by (simp add: demo_api_def)
qed

end
