(* ===== verification/Error_Headers.thy ===== *)
theory Error_Headers
  imports Json_Value "HOL-Library.Word"
begin

unbundle bit_operations_syntax

text \<open>
  The identity error code an upstream hides in the \<^verbatim>\<open>x-error-json\<close> header
  (\<^verbatim>\<open>gateway/mod.rs\<close>): JSON, or Base64 of JSON, decoded by a routine of the gateway's own.
  A byte is an \<^verbatim>\<open>8 word\<close>; parsing JSON is a parameter.
\<close>

section \<open>Base64\<close>

definition byte :: "char \<Rightarrow> 8 word" where "byte c = word_of_nat (of_char c)"

definition char_of_byte :: "8 word \<Rightarrow> char" where "char_of_byte b = char_of (unat b)"

definition is_ascii_whitespace :: "char \<Rightarrow> bool" where
  "is_ascii_whitespace c \<longleftrightarrow> c \<in> {CHR '' '', CHR 0x09, CHR 0x0A, CHR 0x0C, CHR 0x0D}"

definition decode_char :: "char \<Rightarrow> 8 word option" where
  "decode_char c =
     (let n = (of_char c :: nat) in
      if 65 \<le> n \<and> n \<le> 90 then Some (byte c - 65)
      else if 97 \<le> n \<and> n \<le> 122 then Some (byte c - 97 + 26)
      else if 48 \<le> n \<and> n \<le> 57 then Some (byte c - 48 + 52)
      else if c = CHR ''+'' \<or> c = CHR ''-'' then Some 62
      else if c = CHR ''/'' \<or> c = CHR ''_'' then Some 63
      else None)"

text \<open>One chunk of four characters. Shifts of a \<^verbatim>\<open>u8\<close> drop the bits that leave it.\<close>

definition decode_quad :: "char \<Rightarrow> char \<Rightarrow> char \<Rightarrow> char \<Rightarrow> 8 word list option" where
  "decode_quad c0 c1 c2 c3 =
     bind_opt (decode_char c0) (\<lambda>a.
     bind_opt (decode_char c1) (\<lambda>b.
     bind_opt (if c2 = CHR ''='' then Some 0 else decode_char c2) (\<lambda>c.
     bind_opt (if c3 = CHR ''='' then Some 0 else decode_char c3) (\<lambda>d.
       Some ([push_bit 2 a OR drop_bit 4 b]
             @ (if c2 = CHR ''='' then [] else [push_bit 4 b OR drop_bit 2 c])
             @ (if c3 = CHR ''='' then [] else [push_bit 6 c OR d]))))))"

fun decode_quads :: "str \<Rightarrow> 8 word list option" where
  "decode_quads [] = Some []"
| "decode_quads (c0 # c1 # c2 # c3 # rest) =
     bind_opt (decode_quad c0 c1 c2 c3) (\<lambda>q. bind_opt (decode_quads rest) (\<lambda>bs. Some (q @ bs)))"
| "decode_quads _ = None"

definition decode_base64_header_value :: "str \<Rightarrow> str option" where
  "decode_base64_header_value input =
     (let filtered = filter (\<lambda>c. \<not> is_ascii_whitespace c) input in
      if filtered = [] \<or> length filtered mod 4 \<noteq> 0 then None
      else map_option (map char_of_byte) (decode_quads filtered))"

section \<open>The code\<close>

definition object_text :: "json \<Rightarrow> str \<Rightarrow> str \<Rightarrow> str option" where
  "object_text v outer inner =
     bind_opt (bind_opt (json_get v outer) json_as_object) (\<lambda>m. bind_opt (map_of m inner) json_as_str)"

definition extract_identity_error_code_from_error_json :: "(str \<Rightarrow> json option) \<Rightarrow> str \<Rightarrow> str option" where
  "extract_identity_error_code_from_error_json parse raw =
     bind_opt (parse raw) (\<lambda>v.
       trimmed_nonempty
         (or_else (json_get_str v ''identity_error_code'')
         (or_else (object_text v ''error'' ''code'')
         (or_else (object_text v ''error'' ''identity_error_code'')
                  (object_text v ''details'' ''identity_error_code'')))))"

definition extract_identity_error_code_from_header_value :: "(str \<Rightarrow> json option) \<Rightarrow> str \<Rightarrow> str option" where
  "extract_identity_error_code_from_header_value parse raw =
     (case extract_identity_error_code_from_error_json parse raw of
        Some code \<Rightarrow> Some code
      | None \<Rightarrow> bind_opt (bind_opt (decode_base64_header_value raw) from_utf8)
                  (extract_identity_error_code_from_error_json parse))"

definition extract_identity_error_code_from_headers :: "(str \<Rightarrow> json option) \<Rightarrow> (str \<times> str option) list \<Rightarrow> str option" where
  "extract_identity_error_code_from_headers parse headers =
     bind_opt (bind_opt (map_of headers ''x-error-json'') (\<lambda>v. v)) (extract_identity_error_code_from_header_value parse)"

section \<open>Decoding inverts encoding\<close>

text \<open>The encoder of RFC 4648, as the reference: six bits to a character, padded with \<^verbatim>\<open>=\<close>.\<close>

definition encode_char :: "8 word \<Rightarrow> char" where
  "encode_char w =
     (let n = unat w in
      char_of (if n < 26 then 65 + n else if n < 52 then 71 + n else if n < 62 then n - 4 else if n = 62 then 43 else 47))"

fun encode_base64 :: "8 word list \<Rightarrow> str" where
  "encode_base64 [] = []"
| "encode_base64 [x] = [encode_char (drop_bit 2 x), encode_char (push_bit 4 (take_bit 2 x)), CHR ''='', CHR ''='']"
| "encode_base64 [x, y] =
     [encode_char (drop_bit 2 x), encode_char (push_bit 4 (take_bit 2 x) OR drop_bit 4 y),
      encode_char (push_bit 2 (take_bit 4 y)), CHR ''='']"
| "encode_base64 (x # y # z # rest) =
     encode_char (drop_bit 2 x) # encode_char (push_bit 4 (take_bit 2 x) OR drop_bit 4 y)
       # encode_char (push_bit 2 (take_bit 4 y) OR drop_bit 6 z) # encode_char (take_bit 6 z) # encode_base64 rest"

definition sixbit :: "8 word \<Rightarrow> bool" where "sixbit w \<longleftrightarrow> take_bit 6 w = w"

lemma sixbit_less: "sixbit w \<Longrightarrow> unat w < 64"
proof -
  assume "sixbit w"
  then have "unat w = take_bit 6 (unat w)" unfolding sixbit_def by (metis unsigned_take_bit_eq)
  moreover have "take_bit 6 (unat w) < 2 ^ 6" by (rule take_bit_nat_less_exp)
  ultimately show ?thesis by simp
qed

lemma char_codes: "m < 256 \<Longrightarrow> of_char (char_of m) = (m :: nat)"
  by (simp add: of_char_of)

lemma char_differs: "m < 256 \<Longrightarrow> of_char c \<noteq> (m :: nat) \<Longrightarrow> char_of m \<noteq> c"
  using char_codes [of m] by auto

lemma byte_of_code: "m < 256 \<Longrightarrow> byte (char_of m) = word_of_nat m"
  by (simp add: byte_def char_codes)

lemma sixbit_coded:
  assumes "sixbit w"
  shows "decode_char (encode_char w) = Some w" "encode_char w \<noteq> CHR ''=''" "\<not> is_ascii_whitespace (encode_char w)"
proof -
  define n where "n = unat w"
  have n: "n < 64" "w = word_of_nat n" using sixbit_less [OF assms] by (simp_all add: n_def)
  define m where "m = (if n < 26 then 65 + n else if n < 52 then 71 + n else if n < 62 then n - 4 else if n = 62 then 43 else 47)"
  have m: "m < 256" "encode_char w = char_of m"
    using n(1) by (auto simp: m_def encode_char_def n_def Let_def)
  have "m \<notin> {61, 32, 9, 10, 12, 13}" using n(1) by (auto simp: m_def split: if_splits)
  then show "encode_char w \<noteq> CHR ''=''" "\<not> is_ascii_whitespace (encode_char w)"
    using char_differs [OF m(1)] by (simp_all add: m(2) is_ascii_whitespace_def)
  have digits: "word_of_nat (n - 4) = (word_of_nat n - 4 :: 8 word)" "48 \<le> n - 4" "n - 4 \<le> 57" "n - 4 < 65"
    if "52 \<le> n" "n < 62" using that by (simp_all add: of_nat_diff)
  have signs: "char_of (43 :: nat) = CHR ''+''" "char_of (47 :: nat) = CHR ''/''" by code_simp+
  consider "n < 26" | "26 \<le> n" "n < 52" | "52 \<le> n" "n < 62" | "n = 62" | "n = 63" using n(1) by linarith
  then show "decode_char (encode_char w) = Some w" unfolding decode_char_def m(2) Let_def
    by cases (simp_all add: m_def char_codes byte_of_code n(2) digits signs)
qed

text \<open>The parts of a group are six bits wide, and the shifts of the decoder put them together.\<close>

lemma byte_eqI:
  fixes a b :: "8 word"
  assumes "\<And>n. n \<in> {0, 1, 2, 3, 4, 5, 6, 7} \<Longrightarrow> bit a n = bit b n"
  shows "a = b"
proof (rule bit_word_eqI)
  fix n assume "n < LENGTH(8)"
  then have "n \<in> {0, 1, 2, 3, 4, 5, 6, 7}" by (simp, presburger)
  then show "bit a n = bit b n" by (rule assms)
qed

lemma bit_beyond: "8 \<le> n \<Longrightarrow> \<not> bit (x :: 8 word) n"
  using bit_imp_le_length [of x n] by auto

lemma sixbit_parts:
  "sixbit (drop_bit 2 x)" "sixbit (push_bit 4 (take_bit 2 x))"
  "sixbit (push_bit 4 (take_bit 2 x) OR drop_bit 4 y)" "sixbit (push_bit 2 (take_bit 4 y))"
  "sixbit (push_bit 2 (take_bit 4 y) OR drop_bit 6 z)" "sixbit (take_bit 6 z)"
  unfolding sixbit_def by (auto intro!: byte_eqI simp: bit_simps bit_beyond)

lemma parts_joined:
  fixes x y z :: "8 word"
  shows "push_bit 2 (drop_bit 2 x) OR drop_bit 4 (push_bit 4 (take_bit 2 x)) = x"
    and "push_bit 2 (drop_bit 2 x) OR drop_bit 4 (push_bit 4 (take_bit 2 x) OR drop_bit 4 y) = x"
    and "push_bit 4 (push_bit 4 (take_bit 2 x) OR drop_bit 4 y) OR drop_bit 2 (push_bit 2 (take_bit 4 y)) = y"
    and "push_bit 4 (push_bit 4 (take_bit 2 x) OR drop_bit 4 y) OR drop_bit 2 (push_bit 2 (take_bit 4 y) OR drop_bit 6 z) = y"
    and "push_bit 6 (push_bit 2 (take_bit 4 y) OR drop_bit 6 z) OR take_bit 6 z = z"
    and "push_bit 4 (drop_bit 4 y) OR drop_bit 2 (push_bit 2 (take_bit 4 y)) = y"
    and "push_bit 6 (drop_bit 6 z) OR take_bit 6 z = z"
  by (auto intro!: byte_eqI simp: bit_simps bit_beyond)

lemma decode_encoded_quads: "decode_quads (encode_base64 bs) = Some bs"
  by (induction bs rule: encode_base64.induct)
    (simp_all add: decode_quad_def sixbit_coded sixbit_parts parts_joined)

lemma encoded_clean: "filter (\<lambda>c. \<not> is_ascii_whitespace c) (encode_base64 bs) = encode_base64 bs"
  by (induction bs rule: encode_base64.induct)
    (simp_all add: sixbit_coded sixbit_parts, simp_all add: is_ascii_whitespace_def)

lemma encoded_length: "length (encode_base64 bs) mod 4 = 0"
  by (induction bs rule: encode_base64.induct) simp_all

text \<open>
  The gateway's Base64 decoder inverts the standard encoding. The bytes of every text but the
  empty one come back from their RFC 4648 encoding, padding included, although the decoder shifts
  in eight bits.
\<close>

theorem base64_roundtrip:
  assumes "s \<noteq> []"
  shows "decode_base64_header_value (encode_base64 (map byte s)) = Some s"
proof -
  have "encode_base64 (map byte s) \<noteq> []" using assms
    by (cases "map byte s" rule: encode_base64.cases) simp_all
  moreover have "char_of_byte (byte c) = c" for c
    by (simp add: char_of_byte_def byte_def unsigned_of_nat take_bit_eq_mod)
  ultimately show ?thesis
    by (simp add: decode_base64_header_value_def encoded_clean encoded_length decode_encoded_quads comp_def)
qed

theorem base64_roundtrip_witness:
  "decode_base64_header_value (encode_base64 (map byte ''ok?'')) = Some ''ok?''"
  by (rule base64_roundtrip) simp

end
