(* ===== verification/Aggregate_Proxy.thy ===== *)
theory Aggregate_Proxy
  imports Aggregate_Request Candidate_Sequence Error_Headers
begin

text \<open>
  The failover over aggregate APIs (\<^verbatim>\<open>proxy_aggregate_request\<close> of
  \<^verbatim>\<open>gateway/upstream/protocol/aggregate_api.rs\<close>): every channel of the list is sent the request
  up to four times, and the first success goes to the client. The clock, the upstreams and the
  delivery of a response are oracles, asked one tick after another; what the request did is a log
  (\<open>ChFinal\<close> is the final record, \<^verbatim>\<open>log_request_final\<close>).
\<close>

section \<open>The world of a request\<close>

datatype response_adapter =
    Passthrough
  | AnthropicMessagesFromResponses
  | ResponsesFromAnthropicMessages
  | ChatCompletionsFromResponses
  | CompactFromChatCompletions
  | ImagesB64JsonFromResponses
  | ImagesUrlFromResponses
  | GeminiJson
  | GeminiSse
  | GeminiCliJson
  | GeminiCliSse

datatype sse_protocol = SseGeneric | SseAnthropicNative

datatype 'u channel_event =
    ChSend "'u channel_request"
  | ChFailover
  | ChFinal "str option" nat "str option" "str list"
  | ChRespond nat str
  | ChBridge str channel_response response_adapter

record 'u channel_world =
  cw_tick :: nat
  cw_inflight :: "str \<rightharpoonup> nat"
  cw_log :: "'u channel_event list"

record 'u channel_env =
  ce_instant :: "nat \<Rightarrow> nat"
  ce_send :: "nat \<Rightarrow> 'u channel_request \<Rightarrow> str + channel_response"
  ce_bridge :: "nat \<Rightarrow> channel_response \<Rightarrow> response_adapter \<Rightarrow> sse_protocol option \<Rightarrow> str + bridge_result"
  ce_urls :: "'u url_lib"
  ce_libs :: request_libs
  ce_stream_timeout :: "nat option"

type_synonym ('u, 'a) channel_step = "('u channel_world, 'a) state"

definition ask_channel :: "(nat \<Rightarrow> 'a) \<Rightarrow> ('u, 'a) channel_step" where
  "ask_channel f = State (\<lambda>w. (f (cw_tick w), w\<lparr>cw_tick := Suc (cw_tick w)\<rparr>))"

definition log_channel :: "'u channel_event \<Rightarrow> ('u, unit) channel_step" where
  "log_channel e = modify (\<lambda>w. w\<lparr>cw_log := cw_log w @ [e]\<rparr>)"

text \<open>What is fixed for a request, and the locals of the loop that end in its last log record.\<close>

record proxy_params =
  px_key_id :: str
  px_path :: str
  px_request :: client_request
  px_adapter :: response_adapter
  px_model :: "str option"
  px_deadline :: "nat option"
  px_prefers_raw :: bool

record last_attempt =
  la_url :: "str option"
  la_id :: "str option"
  la_model :: "str option"
  la_supplier :: "str option"
  la_error :: "str option"
  la_status :: nat

definition no_attempt :: last_attempt where
  "no_attempt = \<lparr>la_url = None, la_id = None, la_model = None, la_supplier = None, la_error = None, la_status = 502\<rparr>"

definition attempt_failed :: "aggregate_api \<Rightarrow> str \<Rightarrow> str \<Rightarrow> nat \<Rightarrow> last_attempt \<Rightarrow> last_attempt" where
  "attempt_failed c url message status la =
     la\<lparr>la_url := Some url, la_supplier := ag_supplier_name c, la_error := Some message, la_status := status\<rparr>"

definition attempts_per_channel :: nat where "attempts_per_channel = 4"

section \<open>One attempt\<close>

text \<open>What is known of a channel once its secret and its configuration were read.\<close>

record channel =
  hc_api :: aggregate_api
  hc_secret :: str
  hc_bridge :: bool
  hc_path :: str
  hc_adapter :: response_adapter
  hc_config :: auth_config
  hc_injected :: "str set"

definition prepare_channel ::
    "'u channel_env \<Rightarrow> proxy_params \<Rightarrow> (str \<rightharpoonup> str) \<Rightarrow> aggregate_api \<Rightarrow> (nat \<times> str) + channel" where
  "prepare_channel env p secrets c =
     (case secrets (ag_id c) of
        None \<Rightarrow> Inl (403, ''aggregate api secret not found'')
      | Some secret \<Rightarrow>
          (let bridge = should_bridge_responses_to_anthropic c (px_path p) in
           case parse_auth_config (ce_libs env) c of
             Inl e \<Rightarrow> Inl (502, e)
           | Inr (config, injected) \<Rightarrow>
               Inr \<lparr>hc_api = c, hc_secret = secret, hc_bridge = bridge,
                    hc_path = (if bridge then responses_to_anthropic_messages_action_path (ce_urls env) c (px_path p)
                               else effective_action_path c (px_path p)),
                    hc_adapter = (if bridge then ResponsesFromAnthropicMessages else px_adapter p),
                    hc_config = config, hc_injected = injected\<rparr>))"

definition channel_body :: "request_libs \<Rightarrow> channel \<Rightarrow> str \<Rightarrow> str + str" where
  "channel_body hl ch body =
     (let rewritten = rewrite_body_model_override hl body (ag_model_override (hc_api ch)) in
      if hc_bridge ch then hl_adapt_responses hl rewritten (ag_model_override (hc_api ch)) else Inr rewritten)"

text \<open>
  The request to a channel, with the URL that the log shows: an error here is one of the
  \<^verbatim>\<open>?\<close> of the code.
\<close>

definition channel_request_for ::
    "'u channel_env \<Rightarrow> proxy_params \<Rightarrow> channel \<Rightarrow> nat option \<Rightarrow> 'u \<Rightarrow> str + 'u channel_request" where
  "channel_request_for env p ch timeout base =
     (let hl = ce_libs env in
      sum_bind (authenticated_url (ce_urls env) hl (hc_config ch) (hc_secret ch) base) (\<lambda>url.
      sum_bind (channel_body hl ch (cr_body (px_request p))) (\<lambda>body.
        if hc_bridge ch
        then build_anthropic_bridge_aggregate_api_request hl (px_request p) url body (hc_secret ch)
               (hc_config ch) (hc_injected ch) timeout
        else build_aggregate_api_request hl (px_request p) url body (hc_secret ch)
               (hc_config ch) (hc_injected ch) timeout)))"

definition failed_response_message :: "request_libs \<Rightarrow> channel_response \<Rightarrow> str \<Rightarrow> str" where
  "failed_response_message hl resp body =
     aggregate_api_failure_message hl (cs_status resp) body
       (first_upstream_header (cs_headers resp) [''x-request-id'', ''x-oai-request-id''])
       (first_upstream_header (cs_headers resp) [''cf-ray''])
       (first_upstream_header (cs_headers resp) [''x-openai-authorization-error''])
       (extract_identity_error_code_from_headers (hl_parse_json hl) (cs_headers resp))"

definition resolve_passthrough_sse_protocol :: "str \<Rightarrow> response_adapter \<Rightarrow> sse_protocol option" where
  "resolve_passthrough_sse_protocol path adapter =
     (if adapter \<noteq> Passthrough then None
      else if path = ''/v1/messages'' \<or> str_starts_with path ''/v1/messages?'' then Some SseAnthropicNative
      else None)"

definition delivered_status :: "bridge_result \<Rightarrow> bool \<Rightarrow> nat \<times> str option" where
  "delivered_status b is_stream =
     (let ok = bridge_is_ok b is_stream;
          error = (if br_upstream_error_hint b = None \<and> \<not> ok
                   then Some (unwrap_or (bridge_error_message b is_stream) ''aggregate api upstream response incomplete'')
                   else br_upstream_error_hint b);
          status = unwrap_or (br_delivered_status_code b) (if ok then 200 else 502)
      in (if error \<noteq> None \<and> status < 400 then 502 else status, error))"

datatype attempt_result = AttAnswered | AttRetry last_attempt | AttNext last_attempt | AttErr str

text \<open>\<^verbatim>\<open>respond_with_upstream\<close> takes the request and the guard of the requests in flight.\<close>

definition deliver ::
    "'u channel_env \<Rightarrow> proxy_params \<Rightarrow> channel \<Rightarrow> str \<Rightarrow> channel_response \<Rightarrow> str list
       \<Rightarrow> ('u, attempt_result) channel_step" where
  "deliver env p ch url resp attempted = do {
     modify (\<lambda>w. w\<lparr>cw_inflight := inflight_acquired (px_key_id p) (cw_inflight w)\<rparr>);
     log_channel (ChBridge (ag_id (hc_api ch)) resp (hc_adapter ch));
     answer \<leftarrow> ask_channel (\<lambda>n. ce_bridge env n resp (hc_adapter ch)
                 (resolve_passthrough_sse_protocol (px_path p) (hc_adapter ch)));
     modify (\<lambda>w. w\<lparr>cw_inflight := inflight_dropped (px_key_id p) (cw_inflight w)\<rparr>);
     (case answer of
        Inl e \<Rightarrow> State_Monad.return (AttErr e)
      | Inr b \<Rightarrow> (case delivered_status b (cr_is_stream (px_request p)) of (status, err) \<Rightarrow> do {
          log_channel (ChFinal (Some url) status err attempted);
          State_Monad.return AttAnswered })) }"

definition respond_final :: "proxy_params \<Rightarrow> nat \<Rightarrow> str option \<Rightarrow> str \<Rightarrow> str list \<Rightarrow> ('u, unit) channel_step" where
  "respond_final p status url message attempted = do {
     log_channel (ChFinal url status (Some message) attempted);
     log_channel (ChRespond status (error_message_for_client (px_prefers_raw p) message)) }"

definition receive ::
    "'u channel_env \<Rightarrow> proxy_params \<Rightarrow> channel \<Rightarrow> str \<Rightarrow> channel_response \<Rightarrow> str list \<Rightarrow> last_attempt
       \<Rightarrow> ('u, attempt_result) channel_step" where
  "receive env p ch url resp attempted la =
     (if http_success (cs_status resp) then deliver env p ch url resp attempted
      else (case cs_body resp of
              Inl e \<Rightarrow> State_Monad.return (AttErr (''read upstream body failed: '' @ e))
            | Inr body \<Rightarrow> State_Monad.return
                (AttRetry (attempt_failed (hc_api ch) url (failed_response_message (ce_libs env) resp body) 502 la))))"

definition channel_attempt ::
    "'u channel_env \<Rightarrow> proxy_params \<Rightarrow> channel \<Rightarrow> str list \<Rightarrow> last_attempt \<Rightarrow> ('u, attempt_result) channel_step" where
  "channel_attempt env p ch attempted la = do {
     now \<leftarrow> ask_channel (ce_instant env);
     if is_expired (px_deadline p) now
     then do {
       respond_final p 504 (Some (ag_url (hc_api ch))) ''aggregate api request timeout'' attempted;
       State_Monad.return AttAnswered }
     else (case build_upstream_url (ce_urls env) (ag_url (hc_api ch)) (hc_path ch) of
        None \<Rightarrow> State_Monad.return (AttNext (attempt_failed (hc_api ch) (ag_url (hc_api ch)) ''invalid aggregate api url'' 502 la))
      | Some base \<Rightarrow> do {
          later \<leftarrow> ask_channel (ce_instant env);
          (case channel_request_for env p ch
                  (send_timeout (ce_stream_timeout env) (px_deadline p) (cr_is_stream (px_request p)) later) base of
             Inl e \<Rightarrow> State_Monad.return (AttErr e)
           | Inr rq \<Rightarrow> do {
               log_channel (ChSend rq);
               reply \<leftarrow> ask_channel (\<lambda>n. ce_send env n rq);
               (case reply of
                  Inl e \<Rightarrow> State_Monad.return (AttRetry
                    (attempt_failed (hc_api ch) (ul_text (ce_urls env) (ch_url rq)) (''aggregate api upstream error: '' @ e) 502 la))
                | Inr resp \<Rightarrow> receive env p ch (ul_text (ce_urls env) (ch_url rq)) resp attempted la) }) }) }"

section \<open>The loops\<close>

text \<open>\<open>n\<close> attempts are left; the last one that fails leaves the loop like the others.\<close>

datatype channel_end = EndAnswered | EndNext last_attempt | EndErr str

fun channel_attempts ::
    "'u channel_env \<Rightarrow> proxy_params \<Rightarrow> channel \<Rightarrow> str list \<Rightarrow> nat \<Rightarrow> last_attempt \<Rightarrow> ('u, channel_end) channel_step" where
  "channel_attempts env p ch attempted 0 la = State_Monad.return (EndNext la)"
| "channel_attempts env p ch attempted (Suc n) la = do {
     r \<leftarrow> channel_attempt env p ch attempted la;
     (case r of
        AttRetry la' \<Rightarrow> channel_attempts env p ch attempted n la'
      | AttNext la' \<Rightarrow> State_Monad.return (EndNext la')
      | AttAnswered \<Rightarrow> State_Monad.return EndAnswered
      | AttErr e \<Rightarrow> State_Monad.return (EndErr e)) }"

datatype proxy_end = ProxyAnswered | ProxyErr str | ProxyExhausted last_attempt "str list"

text \<open>
  A channel without a secret or with broken parameters is skipped by a \<^verbatim>\<open>continue\<close>, which no
  failover is counted for.
\<close>

fun channel_loop ::
    "'u channel_env \<Rightarrow> proxy_params \<Rightarrow> (str \<rightharpoonup> str) \<Rightarrow> aggregate_api list \<Rightarrow> str list \<Rightarrow> last_attempt
       \<Rightarrow> ('u, proxy_end) channel_step" where
  "channel_loop env p secrets [] attempted la = State_Monad.return (ProxyExhausted la attempted)"
| "channel_loop env p secrets (c # cs) attempted0 la0 =
     (let attempted = attempted0 @ [ag_id c];
          la = la0\<lparr>la_id := Some (ag_id c), la_model := aggregate_upstream_model_for_log c (px_model p)\<rparr>
      in case prepare_channel env p secrets c of
           Inl (status, message) \<Rightarrow> channel_loop env p secrets cs attempted (attempt_failed c (ag_url c) message status la)
         | Inr ch \<Rightarrow> do {
             r \<leftarrow> channel_attempts env p ch attempted attempts_per_channel la;
             (case r of
                EndAnswered \<Rightarrow> State_Monad.return ProxyAnswered
              | EndErr e \<Rightarrow> State_Monad.return (ProxyErr e)
              | EndNext la' \<Rightarrow> do {
                  run_if (cs \<noteq> []) (log_channel ChFailover);
                  channel_loop env p secrets cs attempted la' }) })"

definition aggregate_api_secrets_by_candidate_id :: "model_store \<Rightarrow> aggregate_api list \<Rightarrow> str + (str \<rightharpoonup> str)" where
  "aggregate_api_secrets_by_candidate_id st cs = list_aggregate_api_secrets_for_ids st (map ag_id cs)"

definition proxy_aggregate_request ::
    "'u channel_env \<Rightarrow> proxy_params \<Rightarrow> model_store \<Rightarrow> aggregate_api list \<Rightarrow> ('u, str + unit) channel_step" where
  "proxy_aggregate_request env p st cs =
     (if cs = [] then do {
        respond_final p 404 None ''aggregate api not found'' [];
        State_Monad.return (Inr ()) }
      else (case aggregate_api_secrets_by_candidate_id st cs of
              Inl e \<Rightarrow> State_Monad.return (Inl e)
            | Inr secrets \<Rightarrow> do {
                done \<leftarrow> channel_loop env p secrets cs [] no_attempt;
                (case done of
                   ProxyAnswered \<Rightarrow> State_Monad.return (Inr ())
                 | ProxyErr e \<Rightarrow> State_Monad.return (Inl e)
                 | ProxyExhausted la attempted \<Rightarrow> do {
                     respond_final p (la_status la) (la_url la)
                       (unwrap_or (la_error la) ''aggregate api upstream response failed'') attempted;
                     State_Monad.return (Inr ()) }) }))"

section \<open>What a request does to the client and the channels\<close>

fun is_channel_send :: "'u channel_event \<Rightarrow> bool" where
  "is_channel_send (ChSend rq) = True"
| "is_channel_send _ = False"

fun is_channel_reply :: "'u channel_event \<Rightarrow> bool" where
  "is_channel_reply (ChRespond s m) = True"
| "is_channel_reply (ChBridge i r a) = True"
| "is_channel_reply _ = False"

definition channel_sends :: "'u channel_event list \<Rightarrow> nat" where "channel_sends es = length (filter is_channel_send es)"

definition channel_replies :: "'u channel_event list \<Rightarrow> nat" where "channel_replies es = length (filter is_channel_reply es)"

lemma sends_replies_simps [simp]:
  "channel_sends [] = 0" "channel_sends (es @ fs) = channel_sends es + channel_sends fs" "channel_sends (e # es) = (if is_channel_send e then 1 else 0) + channel_sends es"
  "channel_replies [] = 0" "channel_replies (es @ fs) = channel_replies es + channel_replies fs"
  "channel_replies (e # es) = (if is_channel_reply e then 1 else 0) + channel_replies es"
  by (simp_all add: channel_sends_def channel_replies_def)

text \<open>
  \<open>channel_spec k m Q\<close>: \<open>m\<close> only appends to the log, at most \<open>k\<close> requests to channels are among
  what it appends, its value and the number of its replies to the client satisfy \<open>Q\<close>, and the
  counters of requests in flight are what they were.
\<close>

definition channel_spec :: "nat \<Rightarrow> ('u, 'a) channel_step \<Rightarrow> ('a \<Rightarrow> nat \<Rightarrow> bool) \<Rightarrow> bool" where
  "channel_spec k m Q \<longleftrightarrow> (\<forall>w. \<exists>es. cw_log (snd (run_state m w)) = cw_log w @ es \<and> channel_sends es \<le> k
     \<and> Q (fst (run_state m w)) (channel_replies es)
     \<and> account_inflight_count (cw_inflight (snd (run_state m w))) = account_inflight_count (cw_inflight w))"

lemma channel_spec_return: "Q x 0 \<Longrightarrow> channel_spec k (State_Monad.return x) Q"
  by (simp add: channel_spec_def)

lemma channel_spec_bind:
  assumes m: "channel_spec j m P" and f: "\<And>x a. P x a \<Longrightarrow> channel_spec (k - j) (f x) (\<lambda>y b. Q y (a + b))" and le: "j \<le> k"
  shows "channel_spec k (State_Monad.bind m f) Q"
  unfolding channel_spec_def
proof
  fix w
  obtain x w' where r: "run_state m w = (x, w')" by fastforce
  with m obtain es where es: "cw_log w' = cw_log w @ es" "channel_sends es \<le> j" "P x (channel_replies es)"
      "account_inflight_count (cw_inflight w') = account_inflight_count (cw_inflight w)"
    unfolding channel_spec_def by (metis fst_conv snd_conv)
  from f [OF es(3)] obtain fs where fs: "cw_log (snd (run_state (f x) w')) = cw_log w' @ fs" "channel_sends fs \<le> k - j"
      "Q (fst (run_state (f x) w')) (channel_replies es + channel_replies fs)"
      "account_inflight_count (cw_inflight (snd (run_state (f x) w'))) = account_inflight_count (cw_inflight w')"
    unfolding channel_spec_def by blast
  show "\<exists>es. cw_log (snd (run_state (State_Monad.bind m f) w)) = cw_log w @ es \<and> channel_sends es \<le> k
     \<and> Q (fst (run_state (State_Monad.bind m f) w)) (channel_replies es)
     \<and> account_inflight_count (cw_inflight (snd (run_state (State_Monad.bind m f) w))) = account_inflight_count (cw_inflight w)"
    using es fs le by (intro exI [of _ "es @ fs"]) (simp add: r)
qed

lemma channel_spec_ask: "(\<And>x. Q x 0) \<Longrightarrow> channel_spec k (ask_channel h) Q"
  by (simp add: channel_spec_def ask_channel_def)

lemma channel_spec_log:
  "(if is_channel_send e then 1 else 0) \<le> k \<Longrightarrow> Q () (if is_channel_reply e then 1 else 0) \<Longrightarrow> channel_spec k (log_channel e) Q"
  unfolding channel_spec_def log_channel_def by (auto intro!: exI [of _ "[e]"])

lemma channel_spec_run_if: "channel_spec k m Q \<Longrightarrow> Q () 0 \<Longrightarrow> channel_spec k (run_if b m) Q"
  by (simp add: run_if_def channel_spec_return)

fun attempt_replies :: "attempt_result \<Rightarrow> nat \<Rightarrow> bool" where
  "attempt_replies AttAnswered n = (n = 1)"
| "attempt_replies (AttErr e) n = (n \<le> 1)"
| "attempt_replies _ n = (n = 0)"

fun end_replies :: "channel_end \<Rightarrow> nat \<Rightarrow> bool" where
  "end_replies EndAnswered n = (n = 1)"
| "end_replies (EndErr e) n = (n \<le> 1)"
| "end_replies (EndNext la) n = (n = 0)"

fun proxy_replies :: "proxy_end \<Rightarrow> nat \<Rightarrow> bool" where
  "proxy_replies ProxyAnswered n = (n = 1)"
| "proxy_replies (ProxyErr e) n = (n \<le> 1)"
| "proxy_replies (ProxyExhausted la attempted) n = (n = 0)"

lemma respond_final_spec: "channel_spec 0 (respond_final p status url message attempted) (\<lambda>_ n. n = 1)"
  unfolding respond_final_def
  by (rule channel_spec_bind [where j = 0 and P = "\<lambda>_ n. n = 0"]) (auto intro!: channel_spec_log)

lemma deliver_spec: "channel_spec 0 (deliver env p ch url resp attempted) attempt_replies"
  unfolding channel_spec_def
proof
  fix w :: "'a channel_world"
  let ?m = "cw_inflight w" and ?k = "px_key_id p"
  have count: "account_inflight_count (inflight_dropped ?k (inflight_acquired ?k ?m)) = account_inflight_count ?m"
    by (simp add: inflight_count_acquired inflight_count_dropped)
  show "\<exists>es. cw_log (snd (run_state (deliver env p ch url resp attempted) w)) = cw_log w @ es \<and> channel_sends es \<le> 0
     \<and> attempt_replies (fst (run_state (deliver env p ch url resp attempted) w)) (channel_replies es)
     \<and> account_inflight_count (cw_inflight (snd (run_state (deliver env p ch url resp attempted) w)))
         = account_inflight_count ?m"
    by (auto simp: deliver_def ask_channel_def log_channel_def count split: sum.split prod.split)
qed

lemma receive_spec: "channel_spec 0 (receive env p ch url resp attempted la) attempt_replies"
  by (auto simp: receive_def deliver_spec intro!: channel_spec_return split: sum.split)

lemma attempt_spec: "channel_spec 1 (channel_attempt env p ch attempted la) attempt_replies"
proof -
  have answered: "channel_spec 1 (do { respond_final p 504 (Some url) message attempted;
      State_Monad.return AttAnswered } :: ('a, attempt_result) channel_step) attempt_replies" for url message
    by (rule channel_spec_bind [OF respond_final_spec]) (auto intro: channel_spec_return)
  have sent: "channel_spec 1 (do { log_channel (ChSend rq); reply \<leftarrow> ask_channel h;
      (case reply of Inl e \<Rightarrow> State_Monad.return (AttRetry (f e)) | Inr resp \<Rightarrow> receive env p ch url resp attempted la) })
      attempt_replies" for rq :: "'a channel_request" and h :: "nat \<Rightarrow> str + channel_response" and f url
    by (rule channel_spec_bind [where j = 1 and P = "\<lambda>_ n. n = 0"])
      (auto intro!: channel_spec_log channel_spec_bind [where j = 0 and P = "\<lambda>_ n. n = 0"] channel_spec_ask
        channel_spec_return receive_spec split: sum.split)
  show ?thesis unfolding channel_attempt_def
    by (rule channel_spec_bind [where j = 0 and P = "\<lambda>_ n. n = 0"])
      (auto simp: answered [simplified] sent [simplified] intro!: channel_spec_ask channel_spec_return
        channel_spec_bind [where j = 0 and P = "\<lambda>_ n. n = 0"] split: option.split sum.split)
qed

lemma attempts_spec: "channel_spec n (channel_attempts env p ch attempted n la) end_replies"
proof (induction n arbitrary: la)
  case (Suc n)
  then show ?case unfolding channel_attempts.simps
    by (intro channel_spec_bind [OF attempt_spec]) (auto intro!: channel_spec_return split: attempt_result.split)
qed (simp add: channel_spec_return)

lemma loop_spec:
  "channel_spec (attempts_per_channel * length cs) (channel_loop env p secrets cs attempted la) proxy_replies"
proof (induction cs arbitrary: attempted la)
  case (Cons c cs)
  have more: "channel_spec (attempts_per_channel * length cs)
      (do { run_if b (log_channel ChFailover); channel_loop env p secrets cs a l }) proxy_replies" for b a l
    by (rule channel_spec_bind [where j = 0 and P = "\<lambda>_ n. n = 0"])
      (auto intro!: channel_spec_run_if channel_spec_log Cons.IH)
  have weaken: "channel_spec k m Q \<Longrightarrow> channel_spec (attempts_per_channel + k) m Q" for k and m :: "('a, proxy_end) channel_step" and Q
    unfolding channel_spec_def by (meson order_trans le_add2)
  show ?case
    by (auto simp: Let_def weaken Cons.IH split: sum.split intro!: channel_spec_bind [OF attempts_spec] channel_spec_return
        more split: channel_end.split)
qed (simp add: channel_spec_return)

lemma proxy_aggregate_spec:
  "channel_spec (4 * length cs) (proxy_aggregate_request env p st cs) (\<lambda>r n. case r of Inr _ \<Rightarrow> n = 1 | Inl _ \<Rightarrow> n \<le> 1)"
proof (cases "cs = []")
  case True
  then show ?thesis
    by (auto simp: proxy_aggregate_request_def intro!: channel_spec_bind [OF respond_final_spec] channel_spec_return)
next
  case False
  have loop: "channel_spec (4 * length cs) (channel_loop env p secrets cs [] no_attempt) proxy_replies" for secrets
    using loop_spec [of cs env p secrets] by (simp add: attempts_per_channel_def)
  show ?thesis unfolding proxy_aggregate_request_def
    by (auto simp: False intro!: channel_spec_bind [OF loop] channel_spec_bind [OF respond_final_spec]
        channel_spec_return split: sum.split proxy_end.split)
qed

text \<open>
  C16: the client of an aggregate API is answered once. From every state the proxy of a request only
  adds to the log: when it returns \<^verbatim>\<open>Ok\<close> the client has exactly one answer, the response of a
  channel or an error of the gateway's own; when it returns an error there is at most one; and the
  counters of requests in flight are back where they were.
\<close>

theorem aggregate_answered_once:
  "\<exists>es. cw_log (snd (run_state (proxy_aggregate_request env p st cs) w)) = cw_log w @ es
     \<and> (case fst (run_state (proxy_aggregate_request env p st cs) w) of
          Inr _ \<Rightarrow> length (filter is_channel_reply es) = 1
        | Inl _ \<Rightarrow> length (filter is_channel_reply es) \<le> 1)
     \<and> length (filter is_channel_send es) \<le> 4 * length cs
     \<and> account_inflight_count (cw_inflight (snd (run_state (proxy_aggregate_request env p st cs) w)))
         = account_inflight_count (cw_inflight w)"
  using proxy_aggregate_spec [of cs env p st] unfolding channel_spec_def channel_sends_def channel_replies_def by blast

section \<open>Refinement: the first live channel answers\<close>

text \<open>
  The abstract specification knows no retries, clocks or logs. A channel has a verdict, and the
  request is answered by the first channel in the list that is live, unless a channel before it
  is broken in a way that ends the request.
\<close>

datatype verdict = Dead | Live channel_response | Broken str

definition channel_verdict ::
    "'u channel_env \<Rightarrow> proxy_params \<Rightarrow> ('u channel_request \<Rightarrow> str + channel_response) \<Rightarrow> channel \<Rightarrow> verdict" where
  "channel_verdict env p up ch =
     (case build_upstream_url (ce_urls env) (ag_url (hc_api ch)) (hc_path ch) of
        None \<Rightarrow> Dead
      | Some base \<Rightarrow>
          (case channel_request_for env p ch
                  (send_timeout (ce_stream_timeout env) None (cr_is_stream (px_request p)) 0) base of
             Inl e \<Rightarrow> Broken e
           | Inr rq \<Rightarrow>
               (case up rq of
                  Inl e \<Rightarrow> Dead
                | Inr resp \<Rightarrow>
                    if http_success (cs_status resp) then Live resp
                    else (case cs_body resp of Inl e \<Rightarrow> Broken (''read upstream body failed: '' @ e) | Inr _ \<Rightarrow> Dead))))"

definition api_verdict ::
    "'u channel_env \<Rightarrow> proxy_params \<Rightarrow> (str \<rightharpoonup> str) \<Rightarrow> ('u channel_request \<Rightarrow> str + channel_response)
       \<Rightarrow> aggregate_api \<Rightarrow> verdict" where
  "api_verdict env p secrets up c =
     (case prepare_channel env p secrets c of Inl _ \<Rightarrow> Dead | Inr ch \<Rightarrow> channel_verdict env p up ch)"

fun first_live :: "(aggregate_api \<Rightarrow> verdict) \<Rightarrow> aggregate_api list \<Rightarrow> (str + aggregate_api \<times> channel_response) option" where
  "first_live v [] = None"
| "first_live v (c # cs) =
     (case v c of Dead \<Rightarrow> first_live v cs | Live resp \<Rightarrow> Some (Inr (c, resp)) | Broken e \<Rightarrow> Some (Inl e))"

definition adds_replies :: "('u, 'a) channel_step \<Rightarrow> 'u channel_world \<Rightarrow> 'u channel_event list \<Rightarrow> bool" where
  "adds_replies m w rs \<longleftrightarrow>
     (\<exists>es. cw_log (snd (run_state m w)) = cw_log w @ es \<and> filter is_channel_reply es = rs)"

lemma adds_replies_return [simp]: "adds_replies (State_Monad.return x) w rs \<longleftrightarrow> rs = []"
  by (auto simp: adds_replies_def)

lemma adds_replies_bind:
  assumes "run_state m w = (x, w')" "adds_replies m w rs" "adds_replies (f x) w' ss"
  shows "adds_replies (State_Monad.bind m f) w (rs @ ss)"
  using assms unfolding adds_replies_def by force

text \<open>The upstreams answer a request the same whenever it is sent, and there is no deadline.\<close>

definition steady :: "'u channel_env \<Rightarrow> proxy_params \<Rightarrow> ('u channel_request \<Rightarrow> str + channel_response) \<Rightarrow> bool" where
  "steady env p up \<longleftrightarrow> (\<forall>n rq. ce_send env n rq = up rq) \<and> px_deadline p = None"

lemma steady_timeout: "send_timeout c None b n = send_timeout c None b 0"
  by (simp add: send_timeout_def remaining_def)

fun verdict_attempt :: "verdict \<Rightarrow> attempt_result \<Rightarrow> bool" where
  "verdict_attempt Dead r = (\<exists>la. (r = AttRetry la \<or> r = AttNext la) \<and> la_status la = 502)"
| "verdict_attempt (Live resp) r = (r = AttAnswered \<or> (\<exists>e. r = AttErr e))"
| "verdict_attempt (Broken e) r = (r = AttErr e)"

fun verdict_replies :: "channel \<Rightarrow> verdict \<Rightarrow> 'u channel_event list" where
  "verdict_replies ch (Live resp) = [ChBridge (ag_id (hc_api ch)) resp (hc_adapter ch)]"
| "verdict_replies ch _ = []"

lemma deliver_replies:
  "fst (run_state (deliver env p ch url resp attempted) w) = AttAnswered
    \<or> (\<exists>e. fst (run_state (deliver env p ch url resp attempted) w) = AttErr e)"
  "adds_replies (deliver env p ch url resp attempted) w [ChBridge (ag_id (hc_api ch)) resp (hc_adapter ch)]"
  by (auto simp: adds_replies_def deliver_def ask_channel_def log_channel_def split: sum.split prod.split)

lemma attempt_verdict:
  assumes "steady env p up"
  shows "verdict_attempt (channel_verdict env p up ch) (fst (run_state (channel_attempt env p ch attempted la) w))
    \<and> adds_replies (channel_attempt env p ch attempted la) w (verdict_replies ch (channel_verdict env p up ch))"
proof (cases "build_upstream_url (ce_urls env) (ag_url (hc_api ch)) (hc_path ch)")
  case None
  then show ?thesis using assms
    by (simp add: channel_verdict_def channel_attempt_def steady_def is_expired_def remaining_def attempt_failed_def
        ask_channel_def adds_replies_def)
next
  case (Some base)
  let ?rq = "channel_request_for env p ch (send_timeout (ce_stream_timeout env) None (cr_is_stream (px_request p)) 0) base"
  show ?thesis
  proof (cases ?rq)
    case (Inl e)
    then show ?thesis using assms Some
      by (simp add: channel_verdict_def channel_attempt_def steady_def is_expired_def remaining_def
          ask_channel_def adds_replies_def steady_timeout [of _ _ "ce_instant env (Suc (cw_tick w))"])
  next
    case (Inr rq)
    define w1 where "w1 = w\<lparr>cw_log := cw_log w @ [ChSend rq], cw_tick := Suc (Suc (Suc (cw_tick w)))\<rparr>"
    let ?next = "case up rq of
        Inl e \<Rightarrow> State_Monad.return (AttRetry
          (attempt_failed (hc_api ch) (ul_text (ce_urls env) (ch_url rq)) (''aggregate api upstream error: '' @ e) 502 la))
      | Inr resp \<Rightarrow> receive env p ch (ul_text (ce_urls env) (ch_url rq)) resp attempted la"
    have run: "run_state (channel_attempt env p ch attempted la) w = run_state ?next w1" using assms Some Inr
      by (cases "up rq") (simp_all add: channel_attempt_def steady_def is_expired_def remaining_def ask_channel_def log_channel_def
          steady_timeout [of _ _ "ce_instant env (Suc (cw_tick w))"] w1_def)
    have v: "channel_verdict env p up ch = (case up rq of Inl e \<Rightarrow> Dead
        | Inr resp \<Rightarrow> if http_success (cs_status resp) then Live resp
            else (case cs_body resp of Inl e \<Rightarrow> Broken (''read upstream body failed: '' @ e) | Inr _ \<Rightarrow> Dead))"
      using Some Inr by (simp add: channel_verdict_def)
    have "verdict_attempt (channel_verdict env p up ch) (fst (run_state ?next w1))
        \<and> adds_replies ?next w1 (verdict_replies ch (channel_verdict env p up ch))"
      unfolding v receive_def by (simp add: attempt_failed_def deliver_replies split: sum.split)
    moreover have "adds_replies (channel_attempt env p ch attempted la) w rs" if "adds_replies ?next w1 rs" for rs
    proof -
      from that obtain es where "cw_log (snd (run_state ?next w1)) = cw_log w1 @ es" "filter is_channel_reply es = rs"
        unfolding adds_replies_def by blast
      then show ?thesis unfolding adds_replies_def run
        by (intro exI [of _ "ChSend rq # es"]) (simp add: w1_def)
    qed
    ultimately show ?thesis by (simp add: run)
  qed
qed

text \<open>A channel's attempts end the way one of them does.\<close>

fun verdict_end :: "verdict \<Rightarrow> channel_end \<Rightarrow> bool" where
  "verdict_end Dead r = (\<exists>la. r = EndNext la \<and> la_status la \<in> {403, 502})"
| "verdict_end (Live resp) r = (r = EndAnswered \<or> (\<exists>e. r = EndErr e))"
| "verdict_end (Broken e) r = (r = EndErr e)"

lemma attempts_verdict:
  assumes steady: "steady env p up" and la: "la_status la \<in> {403, 502}" and n: "n \<noteq> 0 \<or> channel_verdict env p up ch = Dead"
  shows "verdict_end (channel_verdict env p up ch) (fst (run_state (channel_attempts env p ch attempted n la) w))
    \<and> adds_replies (channel_attempts env p ch attempted n la) w (verdict_replies ch (channel_verdict env p up ch))"
  using la n
proof (induction n arbitrary: la w)
  case (Suc n)
  obtain r w' where r: "run_state (channel_attempt env p ch attempted la) w = (r, w')" by fastforce
  note one = attempt_verdict [OF steady, of ch attempted la w, unfolded r fst_conv]
  have step: "adds_replies (channel_attempts env p ch attempted (Suc n) la) w (verdict_replies ch (channel_verdict env p up ch))"
    if "adds_replies (case r of AttRetry la' \<Rightarrow> channel_attempts env p ch attempted n la'
          | AttNext la' \<Rightarrow> State_Monad.return (EndNext la') | AttAnswered \<Rightarrow> State_Monad.return EndAnswered
          | AttErr e \<Rightarrow> State_Monad.return (EndErr e)) w' []"
    using adds_replies_bind [OF r conjunct2 [OF one], of _ "[]"] that by simp
  show ?case
  proof (cases "channel_verdict env p up ch")
    case Dead
    then obtain la' where la': "r = AttRetry la' \<or> r = AttNext la'" "la_status la' \<in> {403, 502}" using one by auto
    from la'(1) show ?thesis
    proof
      assume "r = AttRetry la'"
      with Suc.IH [OF la'(2)] Dead step show ?thesis by (simp add: r)
    next
      assume "r = AttNext la'"
      with la'(2) Dead step show ?thesis by (simp add: r)
    qed
  qed (use one step in \<open>auto simp: r\<close>)
qed auto

fun live_end :: "(str + aggregate_api \<times> channel_response) option \<Rightarrow> proxy_end \<Rightarrow> bool" where
  "live_end None r = (\<exists>la attempted. r = ProxyExhausted la attempted \<and> la_status la \<in> {403, 502})"
| "live_end (Some (Inl e)) r = (r = ProxyErr e)"
| "live_end (Some (Inr x)) r = (r = ProxyAnswered \<or> (\<exists>e. r = ProxyErr e))"

fun live_replies :: "(str + aggregate_api \<times> channel_response) option \<Rightarrow> (nat \<times> str \<times> channel_response) list" where
  "live_replies (Some (Inr (c, resp))) = [(cs_status resp, ag_id c, resp)]"
| "live_replies _ = []"

fun reply_of :: "'u channel_event \<Rightarrow> (nat \<times> str \<times> channel_response) option" where
  "reply_of (ChBridge i resp a) = Some (cs_status resp, i, resp)"
| "reply_of _ = None"

lemma attempts_pos: "attempts_per_channel \<noteq> 0"
  by (simp add: attempts_per_channel_def)

lemma prepared_api: "prepare_channel env p secrets c = Inr ch \<Longrightarrow> hc_api ch = c"
  by (auto simp: prepare_channel_def Let_def split: option.splits sum.splits)

lemma loop_first_live:
  assumes steady: "steady env p up" and la: "la_status la \<in> {403, 502}"
  shows "live_end (first_live (api_verdict env p secrets up) cs) (fst (run_state (channel_loop env p secrets cs attempted la) w))
    \<and> (\<exists>rs. adds_replies (channel_loop env p secrets cs attempted la) w rs
         \<and> map reply_of rs = map Some (live_replies (first_live (api_verdict env p secrets up) cs)))"
  using la
proof (induction cs arbitrary: attempted la w)
  case (Cons c cs)
  let ?la = "la\<lparr>la_id := Some (ag_id c), la_model := aggregate_upstream_model_for_log c (px_model p)\<rparr>"
  let ?at = "attempted @ [ag_id c]"
  show ?case
  proof (cases "prepare_channel env p secrets c")
    case (Inl x)
    then have "fst x \<in> {403, 502}" by (auto simp: prepare_channel_def Let_def split: option.splits sum.splits)
    with Inl Cons.IH [of "attempt_failed c (ag_url c) (snd x) (fst x) ?la" ?at w] show ?thesis
      by (cases x) (auto simp: api_verdict_def attempt_failed_def)
  next
    case (Inr ch)
    have v: "api_verdict env p secrets up c = channel_verdict env p up ch" by (simp add: api_verdict_def Inr)
    obtain r w' where r: "run_state (channel_attempts env p ch ?at attempts_per_channel ?la) w = (r, w')" by fastforce
    have one: "verdict_end (channel_verdict env p up ch) r"
      "adds_replies (channel_attempts env p ch ?at attempts_per_channel ?la) w (verdict_replies ch (channel_verdict env p up ch))"
      using attempts_verdict [OF steady, of ?la attempts_per_channel ch ?at w] Cons.prems
      by (simp_all add: r attempts_pos)
    let ?then = "\<lambda>r. case r of EndAnswered \<Rightarrow> State_Monad.return ProxyAnswered
        | EndErr e \<Rightarrow> State_Monad.return (ProxyErr e)
        | EndNext la' \<Rightarrow> do { run_if (cs \<noteq> []) (log_channel ChFailover); channel_loop env p secrets cs ?at la' }"
    have loop: "channel_loop env p secrets (c # cs) attempted la
        = do { r \<leftarrow> channel_attempts env p ch ?at attempts_per_channel ?la; ?then r }"
      by (simp add: Inr Let_def)
    have value_of: "fst (run_state (channel_loop env p secrets (c # cs) attempted la) w) = fst (run_state (?then r) w')"
      unfolding loop by (simp only: run_state_bind r prod.case)
    have step: "adds_replies (channel_loop env p secrets (c # cs) attempted la) w (verdict_replies ch (channel_verdict env p up ch) @ ss)"
      if "adds_replies (?then r) w' ss" for ss
      unfolding loop using r one(2) that by (rule adds_replies_bind)
    show ?thesis
    proof (cases "channel_verdict env p up ch")
      case Dead
      with one(1) obtain la' where la': "r = EndNext la'" "la_status la' \<in> {403, 502}" by auto
      define w2 where "w2 = snd (run_state (run_if (cs \<noteq> []) (log_channel ChFailover)) w')"
      obtain rs where rs: "adds_replies (channel_loop env p secrets cs ?at la') w2 rs"
          "map reply_of rs = map Some (live_replies (first_live (api_verdict env p secrets up) cs))"
          "live_end (first_live (api_verdict env p secrets up) cs) (fst (run_state (channel_loop env p secrets cs ?at la') w2))"
        using Cons.IH [OF la'(2)] by blast
      have "adds_replies (run_if (cs \<noteq> []) (log_channel ChFailover)) w' []"
        by (simp add: adds_replies_def run_if_def log_channel_def)
      from adds_replies_bind [OF prod.collapse [symmetric] this, unfolded w2_def [symmetric], OF rs(1)]
      have "adds_replies (do { run_if (cs \<noteq> []) (log_channel ChFailover); channel_loop env p secrets cs ?at la' }) w' rs"
        by simp
      then have "adds_replies (?then r) w' rs" by (simp add: la'(1))
      from step [OF this] Dead rs(2,3) show ?thesis
        unfolding value_of by (auto simp: v la'(1) w2_def case_prod_beta simp del: channel_loop.simps)
    next
      case (Live resp)
      from step [of "[]"] one(1) Live show ?thesis
        unfolding value_of by (auto simp: v prepared_api [OF Inr] simp del: channel_loop.simps)
    next
      case (Broken e)
      from step [of "[]"] one(1) Broken show ?thesis
        unfolding value_of by (auto simp: v simp del: channel_loop.simps)
    qed
  qed
qed simp

text \<open>
  C15: the proxy implements the specification. When the upstreams answer a request the same whenever
  it is sent and there is no deadline, the answer to the client is the one of the first live channel
  in the list, whatever the retries, the clock and the state were; if a channel before it cannot
  be sent to at all the request ends with that error, unanswered; and if no channel is live the
  client gets one error with the status 403 or 502.
\<close>

theorem first_live_channel_answers:
  assumes steady: "steady env p up" and cs: "cs \<noteq> []"
    and secrets: "aggregate_api_secrets_by_candidate_id st cs = Inr secrets"
  shows "\<exists>es. cw_log (snd (run_state (proxy_aggregate_request env p st cs) w)) = cw_log w @ es
     \<and> (case first_live (api_verdict env p secrets up) cs of
          None \<Rightarrow> fst (run_state (proxy_aggregate_request env p st cs) w) = Inr ()
            \<and> (\<exists>status\<in>{403, 502}. \<exists>m. filter is_channel_reply es = [ChRespond status m])
        | Some (Inl e) \<Rightarrow> fst (run_state (proxy_aggregate_request env p st cs) w) = Inl e
            \<and> filter is_channel_reply es = []
        | Some (Inr (c, resp)) \<Rightarrow> \<exists>a. filter is_channel_reply es = [ChBridge (ag_id c) resp a])"
proof -
  let ?loop = "channel_loop env p secrets cs [] no_attempt"
  obtain d w' where r: "run_state ?loop w = (d, w')" by fastforce
  have "la_status no_attempt \<in> {403, 502}" by (simp add: no_attempt_def)
  from loop_first_live [OF steady this, of secrets cs "[]" w]
  obtain rs where d: "live_end (first_live (api_verdict env p secrets up) cs) d" and rs: "adds_replies ?loop w rs"
      "map reply_of rs = map Some (live_replies (first_live (api_verdict env p secrets up) cs))"
    by (auto simp: r)
  from rs(1) obtain es where es: "cw_log w' = cw_log w @ es" "filter is_channel_reply es = rs"
    by (auto simp: adds_replies_def r)
  have run: "run_state (proxy_aggregate_request env p st cs) w = run_state (case d of
        ProxyAnswered \<Rightarrow> State_Monad.return (Inr ()) | ProxyErr e \<Rightarrow> State_Monad.return (Inl e)
      | ProxyExhausted la attempted \<Rightarrow> do { respond_final p (la_status la) (la_url la)
            (unwrap_or (la_error la) ''aggregate api upstream response failed'') attempted; State_Monad.return (Inr ()) }) w'"
    by (simp add: proxy_aggregate_request_def cs secrets r)
  show ?thesis
  proof (cases "first_live (api_verdict env p secrets up) cs")
    case None
    with d rs(2) es show ?thesis
      by (auto simp: run respond_final_def log_channel_def)
  next
    case (Some x)
    then show ?thesis
    proof (cases x)
      case (Inl e)
      with Some d rs(2) es show ?thesis by (simp add: run)
    next
      case (Inr y)
      obtain c resp where y: "y = (c, resp)" by fastforce
      have one: "reply_of e = Some (n, i, resp') \<longleftrightarrow> (\<exists>a. e = ChBridge i resp' a \<and> n = cs_status resp')" for e :: "'a channel_event" and n i resp'
        by (cases e) auto
      from rs(2) have "\<exists>a. rs = [ChBridge (ag_id c) resp a]"
        by (simp add: Some Inr y map_eq_Cons_conv one) blast
      with Some Inr y d es show ?thesis by (auto simp: run)
    qed
  qed
qed


section \<open>Concrete requests\<close>

text \<open>A URL type that is enough to evaluate the examples: a path and its query pairs.\<close>

definition plain_urls :: "(str \<times> (str \<times> str) list) url_lib" where
  "plain_urls =
     \<lparr>ul_parse = (\<lambda>s. Some (s, [])), ul_path = fst, ul_set_path = (\<lambda>s (_, q). (s, q)),
      ul_set_query = (\<lambda>q (s, _). (s, [])), ul_query_pairs = snd, ul_append_pair = (\<lambda>kv (s, q). (s, q @ [kv])),
      ul_text = fst\<rparr>"

definition ok_response :: channel_response where
  "ok_response = \<lparr>cs_status = 200, cs_headers = [], cs_body = Inr ''{}''\<rparr>"

definition delivered :: bridge_result where
  "delivered = \<lparr>br_stream_terminal_seen = True, br_stream_terminal_error = None, br_delivery_error = None,
     br_upstream_error_hint = None, br_delivered_status_code = Some 200\<rparr>"

text \<open>Only requests with the secret of the second channel succeed.\<close>

definition demo_upstream :: "(str \<times> (str \<times> str) list) channel_request \<Rightarrow> str + channel_response" where
  "demo_upstream rq = (if (''authorization'', ''Bearer sk-b'') \<in> set (ch_headers rq) then Inr ok_response else Inl ''refused'')"

definition demo_channel_env :: "(str \<times> (str \<times> str) list) channel_env" where
  "demo_channel_env =
     \<lparr>ce_instant = (\<lambda>n. n), ce_send = (\<lambda>n. demo_upstream), ce_bridge = (\<lambda>n r a s. Inr delivered),
      ce_urls = plain_urls, ce_libs = demo_request_libs, ce_stream_timeout = None\<rparr>"

definition demo_proxy :: proxy_params where
  "demo_proxy = \<lparr>px_key_id = ''k'', px_path = ''/v1/responses'', px_request = demo_client, px_adapter = Passthrough,
     px_model = None, px_deadline = None, px_prefers_raw = False\<rparr>"

definition demo_channel_world :: "(str \<times> (str \<times> str) list) channel_world" where
  "demo_channel_world = \<lparr>cw_tick = 0, cw_inflight = Map.empty, cw_log = []\<rparr>"

lemma demo_channel_facts:
  "parse_auth_config (ce_libs demo_channel_env) (demo_api ''a'' ''codex'') = Inr (ApiKeyDefaultBearer, {})"
  "build_upstream_url (ce_urls demo_channel_env) (ag_url (demo_api ''a'' ''codex''))
     (effective_action_path (demo_api ''a'' ''codex'') (px_path demo_proxy)) = Some (''https://a.example/v1/v1/responses'', [])"
  "auth_headers (ce_libs demo_channel_env) ApiKeyDefaultBearer ''sk-a'' = Inr [(''authorization'', ''Bearer sk-a'')]"
  "parse_auth_config (ce_libs demo_channel_env) (demo_api ''b'' ''codex'') = Inr (ApiKeyDefaultBearer, {})"
  "build_upstream_url (ce_urls demo_channel_env) (ag_url (demo_api ''b'' ''codex''))
     (effective_action_path (demo_api ''b'' ''codex'') (px_path demo_proxy)) = Some (''https://a.example/v1/v1/responses'', [])"
  "auth_headers (ce_libs demo_channel_env) ApiKeyDefaultBearer ''sk-b'' = Inr [(''authorization'', ''Bearer sk-b'')]"
  "forwarded_headers (ce_libs demo_channel_env) {} False (cr_headers demo_client) = [(''user-agent'', ''cli'')]"
  "should_bridge_responses_to_anthropic (demo_api i ''codex'') (px_path demo_proxy) = False"
  by (code_simp, code_simp, code_simp, code_simp, code_simp, code_simp, code_simp,
      simp add: should_bridge_responses_to_anthropic_def demo_api_def) code_simp

lemma demo_verdict:
  assumes "secrets i = Some secret"
    and "parse_auth_config (ce_libs demo_channel_env) (demo_api i ''codex'') = Inr (ApiKeyDefaultBearer, {})"
    and "build_upstream_url (ce_urls demo_channel_env) (ag_url (demo_api i ''codex''))
      (effective_action_path (demo_api i ''codex'') (px_path demo_proxy)) = Some base"
    and "auth_headers (ce_libs demo_channel_env) ApiKeyDefaultBearer secret = Inr [(''authorization'', bearer)]"
  shows "api_verdict demo_channel_env demo_proxy secrets up (demo_api i ''codex'') =
    (case up \<lparr>ch_url = base, ch_method = ''POST'', ch_timeout = None,
              ch_headers = [(''user-agent'', ''cli''), (''authorization'', bearer)], ch_body = ''{}''\<rparr> of
       Inl e \<Rightarrow> Dead
     | Inr resp \<Rightarrow> if http_success (cs_status resp) then Live resp
         else (case cs_body resp of Inl e \<Rightarrow> Broken (''read upstream body failed: '' @ e) | Inr _ \<Rightarrow> Dead))"
proof -
  have client: "cr_is_stream demo_client = False" "cr_body demo_client = ''{}''" "cr_method demo_client = ''POST''"
    "px_request demo_proxy = demo_client" "ag_model_override (demo_api i ''codex'') = None" "ag_id (demo_api i ''codex'') = i"
    by (simp_all add: demo_client_def demo_proxy_def demo_api_def)
  show ?thesis using assms
    by (simp add: api_verdict_def prepare_channel_def channel_verdict_def channel_request_for_def authenticated_url_def
        channel_body_def rewrite_body_model_override_def build_aggregate_api_request_def client
        demo_channel_facts(7,8) send_timeout_def remaining_def Let_def)
qed

theorem first_live_channel_answers_witness:
  "\<exists>es a. cw_log (snd (run_state (proxy_aggregate_request demo_channel_env demo_proxy demo_channels (ms_apis demo_channels))
        demo_channel_world)) = es
     \<and> filter is_channel_reply es = [ChBridge ''b'' ok_response a]"
proof -
  have steady: "steady demo_channel_env demo_proxy demo_upstream"
    by (simp add: steady_def demo_channel_env_def demo_proxy_def)
  have cs: "ms_apis demo_channels = [demo_api ''a'' ''codex'', demo_api ''b'' ''codex'']" by code_simp
  obtain secrets where s: "aggregate_api_secrets_by_candidate_id demo_channels (ms_apis demo_channels) = Inr secrets"
      "secrets ''a'' = Some ''sk-a''" "secrets ''b'' = Some ''sk-b''"
  proof -
    have "fold (\<lambda>(i, s) h. h(i \<mapsto> s)) [(''a'', ''sk-a''), (''b'', ''sk-b'')] Map.empty
        = [''a'' \<mapsto> ''sk-a'', ''b'' \<mapsto> ''sk-b'']" by simp
    moreover have "in_chunks fst (ms_secrets demo_channels) (normalize_text_ids (map ag_id (ms_apis demo_channels)))
        = [(''a'', ''sk-a''), (''b'', ''sk-b'')]" by code_simp
    moreover have "ms_fault demo_channels = None" "normalize_text_ids (map ag_id (ms_apis demo_channels)) \<noteq> []"
      by code_simp+
    ultimately show ?thesis
      by (intro that [of "[''a'' \<mapsto> ''sk-a'', ''b'' \<mapsto> ''sk-b'']"])
        (simp_all add: aggregate_api_secrets_by_candidate_id_def list_aggregate_api_secrets_for_ids_def ms_query_ok Let_def)
  qed
  have a: "api_verdict demo_channel_env demo_proxy secrets demo_upstream (demo_api ''a'' ''codex'') = Dead"
    using demo_verdict [where secrets = secrets, OF s(2) demo_channel_facts(1,2,3)] by (simp add: demo_upstream_def)
  have b: "api_verdict demo_channel_env demo_proxy secrets demo_upstream (demo_api ''b'' ''codex'') = Live ok_response"
    using demo_verdict [where secrets = secrets, OF s(3) demo_channel_facts(4,5,6)]
    by (simp add: demo_upstream_def ok_response_def http_success_def)
  from first_live_channel_answers [OF steady _ s(1), of demo_channel_world] show ?thesis
    by (simp add: cs a b) (simp add: demo_api_def demo_channel_world_def)
qed


end
