(* ===== verification/Model_Groups.thy ===== *)
theory Model_Groups
  imports Model_Store
begin

text \<open>
  Model groups (\<^verbatim>\<open>core/src/storage/model_groups.rs\<close> and
  \<^verbatim>\<open>service/src/model_groups.rs\<close>): which models a user's keys may use and at which rate,
  the default group that follows the model catalog, and the access decision of a request. The texts
  of the messages are UTF-8 bytes.
\<close>

section \<open>Keys\<close>

definition default_model_group_id_const :: str where "default_model_group_id_const = ''mg_default''"

definition gm_key :: "group_model \<Rightarrow> str \<times> str" where "gm_key m = (gm_group_id m, gm_slug m)"

definition ug_key :: "user_group \<Rightarrow> str \<times> str" where "ug_key u = (ug_user_id u, ug_group_id u)"

definition cm_key :: "catalog_model \<Rightarrow> str \<times> str" where "cm_key c = (cm_scope c, cm_slug c)"

text \<open>\<^verbatim>\<open>COALESCE(supported_in_api, 1) = 1 AND TRIM(slug) <> ''\<close> in the default scope.\<close>

definition catalog_supported :: "catalog_model \<Rightarrow> bool" where
  "catalog_supported c \<longleftrightarrow>
     cm_scope c = ''default'' \<and> unwrap_or (cm_supported c) True \<and> sql_trim (cm_slug c) \<noteq> []"

definition supported_slugs :: "model_store \<Rightarrow> str list" where
  "supported_slugs st = map cm_slug (filter catalog_supported (ms_catalog st))"

section \<open>The default group\<close>

definition default_group_name :: str where
  "default_group_name =
     map char_of [0xE9, 0xBB, 0x98, 0xE8, 0xAE, 0xA4, 0xE6, 0xA8, 0xA1, 0xE5, 0x9E, 0x8B, 0xE7, 0xBB, 0x84
     :: nat]"

definition default_group_description :: str where
  "default_group_description =
     map char_of [0xE5, 0x8D, 0x87, 0xE7, 0xBA, 0xA7, 0xE5, 0x89, 0x8D, 0xE5, 0xB7, 0xB2, 0xE6, 0x9C, 0x89,
     0xE7, 0x94, 0xA8, 0xE6, 0x88, 0xB7, 0xE7, 0x9A, 0x84, 0xE9, 0xBB, 0x98, 0xE8, 0xAE, 0xA4, 0xE5, 0x8F,
     0xAF, 0xE7, 0x94, 0xA8, 0xE6, 0xA8, 0xA1, 0xE5, 0x9E, 0x8B, 0xE9, 0x9B, 0x86, 0xE5, 0x90, 0x88 :: nat]"

definition default_group_row :: "i64 \<Rightarrow> model_group" where
  "default_group_row now =
     \<lparr>mg_id = default_model_group_id_const, mg_name = default_group_name,
      mg_description = Some default_group_description, mg_status = ''active'', mg_sort = 0,
      mg_is_default = True, mg_rate = 1000, mg_created_at = now, mg_updated_at = now\<rparr>"

definition group_model_row :: "str \<Rightarrow> str \<Rightarrow> i64 \<Rightarrow> str \<Rightarrow> group_model" where
  "group_model_row note g now slug =
     \<lparr>gm_group_id = g, gm_slug = slug, gm_enabled = True, gm_rate = None, gm_billing = None,
      gm_note = Some note, gm_created_at = now, gm_updated_at = now\<rparr>"

definition active_assignment :: "i64 \<Rightarrow> str \<Rightarrow> str \<Rightarrow> user_group" where
  "active_assignment now g u =
     \<lparr>ug_user_id = u, ug_group_id = g, ug_status = ''active'', ug_expires_at = None,
      ug_created_at = now, ug_updated_at = now\<rparr>"

text \<open>
  \<^verbatim>\<open>OR IGNORE\<close> skips a row that meets a unique index: the primary key, or the index that
  allows one default group.
\<close>

definition insert_default_group :: "i64 \<Rightarrow> model_store \<Rightarrow> model_store" where
  "insert_default_group now st =
     (if list_ex mg_is_default (ms_groups st) then st
      else st\<lparr>ms_groups := row_insert_ignore mg_id (default_group_row now) (ms_groups st)\<rparr>)"

text \<open>
  It does not skip a foreign key: new rows for a group that is missing are refused.
\<close>

definition insert_group_models :: "group_model list \<Rightarrow> model_store \<Rightarrow> unit sql \<times> model_store" where
  "insert_group_models rows st =
     ms_exec_if (\<forall>r\<in>set rows. row_exists gm_key (ms_group_models st) (gm_key r)
                             \<or> row_exists mg_id (ms_groups st) (gm_group_id r)) st
       (st\<lparr>ms_group_models := rows_insert_ignore gm_key rows (ms_group_models st)\<rparr>)"

definition insert_user_groups :: "user_group list \<Rightarrow> model_store \<Rightarrow> unit sql \<times> model_store" where
  "insert_user_groups rows st =
     ms_exec_if (\<forall>r\<in>set rows. row_exists ug_key (ms_user_groups st) (ug_key r)
                             \<or> (row_exists mg_id (ms_groups st) (ug_group_id r)
                                \<and> row_exists au_id (ms_users st) (ug_user_id r))) st
       (st\<lparr>ms_user_groups := rows_insert_ignore ug_key rows (ms_user_groups st)\<rparr>)"

definition default_group_ids :: "model_store \<Rightarrow> str list" where
  "default_group_ids st = map mg_id (filter mg_is_default (ms_groups st))"

definition prune_default_model_group_models_not_in_catalog :: "model_store \<Rightarrow> unit sql \<times> model_store" where
  "prune_default_model_group_models_not_in_catalog st =
     ms_exec st (st\<lparr>ms_group_models :=
       filter (\<lambda>m. \<not> (gm_group_id m \<in> set (default_group_ids st) \<and> supported_slugs st \<noteq> []
                      \<and> gm_slug m \<notin> set (supported_slugs st))) (ms_group_models st)\<rparr>)"

definition bootstrap_default_model_group :: "i64 \<Rightarrow> model_store \<Rightarrow> unit sql \<times> model_store" where
  "bootstrap_default_model_group now st0 =
     ms_then (ms_exec st0 (insert_default_group now st0)) (\<lambda>st1.
     ms_then (insert_group_models
                (map (group_model_row ''bootstrap'' default_model_group_id_const now) (supported_slugs st1)) st1) (\<lambda>st2.
     ms_then (prune_default_model_group_models_not_in_catalog st2) (\<lambda>st3.
       insert_user_groups
         (map (\<lambda>u. active_assignment now default_model_group_id_const (au_id u))
            (filter (\<lambda>u. au_role u = ''member'' \<and> au_status u = ''active'') (ms_users st3))) st3)))"

definition sync_default_model_group_models_from_catalog :: "i64 \<Rightarrow> model_store \<Rightarrow> unit sql \<times> model_store" where
  "sync_default_model_group_models_from_catalog now st0 =
     ms_then (prune_default_model_group_models_not_in_catalog st0) (\<lambda>st.
       insert_group_models
         (concat (map (\<lambda>g. map (group_model_row ''catalog_sync'' g now) (supported_slugs st))
            (default_group_ids st))) st)"

text \<open>
  A catalog row is replaced but for its key; the write of all models is one transaction, the
  default group follows in statements of its own.
\<close>

definition upsert_catalog_row :: "catalog_model \<Rightarrow> catalog_model list \<Rightarrow> catalog_model list" where
  "upsert_catalog_row c rows = row_upsert cm_key (\<lambda>old new. new) c rows"

definition upsert_model_catalog_models ::
    "catalog_model list \<Rightarrow> i64 \<Rightarrow> model_store \<Rightarrow> unit sql \<times> model_store" where
  "upsert_model_catalog_models models now st =
     ms_then (ms_exec st (st\<lparr>ms_catalog := fold upsert_catalog_row models (ms_catalog st)\<rparr>))
       (sync_default_model_group_models_from_catalog now)"

definition delete_model_catalog_model :: "str \<Rightarrow> str \<Rightarrow> model_store \<Rightarrow> unit sql \<times> model_store" where
  "delete_model_catalog_model scope slug st =
     ms_exec st (st\<lparr>ms_catalog := row_delete cm_key (scope, slug) (ms_catalog st)\<rparr>)"

definition model_catalog_model_exists :: "model_store \<Rightarrow> str \<Rightarrow> str \<Rightarrow> bool sql" where
  "model_catalog_model_exists st scope slug = ms_query st (row_exists cm_key (ms_catalog st) (scope, slug))"

definition delete_model_group_model_references :: "str \<Rightarrow> model_store \<Rightarrow> unit sql \<times> model_store" where
  "delete_model_group_model_references slug0 st =
     (let slug = trim slug0
      in if slug = [] then (Inr (), st)
         else ms_exec st (st\<lparr>ms_group_models := filter (\<lambda>m. gm_slug m \<noteq> slug) (ms_group_models st)\<rparr>))"

section \<open>Groups\<close>

definition default_model_group_id :: "model_store \<Rightarrow> str option sql" where
  "default_model_group_id st =
     ms_query st (case default_group_ids st of [] \<Rightarrow> None | g # _ \<Rightarrow> Some g)"

definition list_model_groups :: "model_store \<Rightarrow> model_group list sql" where
  "list_model_groups st = ms_query st (sort_key (\<lambda>g. (mg_sort g, mg_name g, mg_created_at g)) (ms_groups st))"

definition find_model_group :: "model_store \<Rightarrow> str \<Rightarrow> model_group option sql" where
  "find_model_group st i = ms_query st (row_find mg_id (ms_groups st) i)"

definition merge_group :: "model_group \<Rightarrow> model_group \<Rightarrow> model_group" where
  "merge_group old g = g\<lparr>mg_created_at := mg_created_at old\<rparr>"

definition upsert_model_group :: "model_group \<Rightarrow> model_store \<Rightarrow> unit sql \<times> model_store" where
  "upsert_model_group g st0 =
     ms_then (if mg_is_default g
              then ms_exec st0 (st0\<lparr>ms_groups :=
                     map (\<lambda>x. if mg_id x \<noteq> mg_id g then x\<lparr>mg_is_default := False\<rparr> else x) (ms_groups st0)\<rparr>)
              else (Inr (), st0)) (\<lambda>st.
       ms_exec_if (mg_status g \<in> {''active'', ''disabled''}) st
         (st\<lparr>ms_groups := row_upsert mg_id merge_group g (ms_groups st)\<rparr>))"

text \<open>The rows that refer to a group go with it.\<close>

definition delete_model_group :: "str \<Rightarrow> model_store \<Rightarrow> unit sql \<times> model_store" where
  "delete_model_group i st =
     ms_exec st
       (if list_ex (\<lambda>g. mg_id g = i \<and> \<not> mg_is_default g) (ms_groups st)
        then st\<lparr>ms_groups := filter (\<lambda>g. \<not> (mg_id g = i \<and> \<not> mg_is_default g)) (ms_groups st),
                ms_group_models := filter (\<lambda>m. gm_group_id m \<noteq> i) (ms_group_models st),
                ms_user_groups := filter (\<lambda>u. ug_group_id u \<noteq> i) (ms_user_groups st)\<rparr>
        else st)"

definition replace_model_group_models ::
    "str \<Rightarrow> group_model list \<Rightarrow> model_store \<Rightarrow> unit sql \<times> model_store" where
  "replace_model_group_models g models st =
     (let kept = filter (\<lambda>m. gm_group_id m \<noteq> g) (ms_group_models st) @ models
      in ms_exec_if (keys_unique gm_key kept
                     \<and> (\<forall>m\<in>set models. row_exists mg_id (ms_groups st) (gm_group_id m))) st
           (st\<lparr>ms_group_models := kept\<rparr>))"

definition replace_user_model_groups_for_group ::
    "str \<Rightarrow> user_group list \<Rightarrow> model_store \<Rightarrow> unit sql \<times> model_store" where
  "replace_user_model_groups_for_group g assignments st =
     (let kept = filter (\<lambda>u. ug_group_id u \<noteq> g) (ms_user_groups st) @ assignments
      in ms_exec_if (keys_unique ug_key kept
                     \<and> (\<forall>u\<in>set assignments. ug_status u \<in> {''active'', ''disabled''}
                          \<and> row_exists mg_id (ms_groups st) (ug_group_id u)
                          \<and> row_exists au_id (ms_users st) (ug_user_id u))) st
           (st\<lparr>ms_user_groups := kept\<rparr>))"

definition assign_default_model_group_to_user :: "str \<Rightarrow> i64 \<Rightarrow> model_store \<Rightarrow> unit sql \<times> model_store" where
  "assign_default_model_group_to_user user now st =
     (case default_model_group_id st of
        Inl e \<Rightarrow> (Inl e, st)
      | Inr None \<Rightarrow> (Inr (), st)
      | Inr (Some g) \<Rightarrow> insert_user_groups [active_assignment now g user] st)"

definition load_model_group_list_snapshot ::
    "i64 \<Rightarrow> model_store \<Rightarrow> (model_group list \<times> group_model list \<times> user_group list) sql \<times> model_store" where
  "load_model_group_list_snapshot now st0 =
     ms_then (bootstrap_default_model_group now st0) (\<lambda>st.
       (ms_query st
          (sort_key (\<lambda>g. (mg_sort g, mg_name g, mg_created_at g)) (ms_groups st),
           sort_key gm_key (ms_group_models st),
           sort_key ug_key (ms_user_groups st)), st))"

section \<open>Access\<close>

record group_access =
  ga_group_id :: str
  ga_group_name :: str
  ga_slug :: str
  ga_rate :: i64
  ga_billing :: "str option"

definition assignment_valid :: "str \<Rightarrow> i64 \<Rightarrow> user_group \<Rightarrow> bool" where
  "assignment_valid user now u \<longleftrightarrow>
     ug_user_id u = user \<and> ug_status u = ''active''
     \<and> (case ug_expires_at u of None \<Rightarrow> True | Some t \<Rightarrow> now < t)"

text \<open>The rows of the join behind both access queries.\<close>

definition grants :: "model_store \<Rightarrow> str \<Rightarrow> i64 \<Rightarrow> (model_group \<times> group_model) list" where
  "grants st user now =
     [(g, m). u \<leftarrow> filter (assignment_valid user now) (ms_user_groups st),
              g \<leftarrow> filter (\<lambda>g. mg_id g = ug_group_id u \<and> mg_status g = ''active'') (ms_groups st),
              m \<leftarrow> filter (\<lambda>m. gm_group_id m = mg_id g \<and> gm_enabled m) (ms_group_models st),
              _ \<leftarrow> filter (\<lambda>c. catalog_supported c \<and> cm_slug c = gm_slug m) (ms_catalog st)]"

definition allowed_model_slugs_for_user :: "model_store \<Rightarrow> str \<Rightarrow> i64 \<Rightarrow> str list sql" where
  "allowed_model_slugs_for_user st user now =
     ms_query st (remdups_adj (sort (map (\<lambda>(g, m). gm_slug m) (grants st user now))))"

definition effective_rate :: "model_group \<Rightarrow> group_model \<Rightarrow> i64" where
  "effective_rate g m = i64_sat_mul (max 0 (mg_rate g)) (max 0 (unwrap_or (gm_rate m) 1000)) div 1000"

definition access_of :: "model_group \<times> group_model \<Rightarrow> group_access" where
  "access_of x = (case x of (g, m) \<Rightarrow>
     \<lparr>ga_group_id = mg_id g, ga_group_name = mg_name g, ga_slug = gm_slug m,
      ga_rate = effective_rate g m, ga_billing = gm_billing m\<rparr>)"

fun best_access :: "group_access option \<Rightarrow> group_access list \<Rightarrow> group_access option" where
  "best_access best [] = best"
| "best_access best (a # as) =
     best_access (case best of None \<Rightarrow> Some a
                  | Some b \<Rightarrow> if ga_rate a < ga_rate b then Some a else best) as"

definition resolve_model_group_access_for_user ::
    "model_store \<Rightarrow> str \<Rightarrow> str \<Rightarrow> i64 \<Rightarrow> group_access option sql" where
  "resolve_model_group_access_for_user st user slug now =
     ms_query st (best_access None (map access_of (filter (\<lambda>(g, m). gm_slug m = slug) (grants st user now))))"

definition find_api_key_owner :: "model_store \<Rightarrow> str \<Rightarrow> key_owner option sql" where
  "find_api_key_owner st k = ms_query st (row_find ko_key_id (ms_owners st) k)"

definition find_app_user_access_summary_by_id :: "model_store \<Rightarrow> str \<Rightarrow> app_user option sql" where
  "find_app_user_access_summary_by_id st i = ms_query st (row_find au_id (ms_users st) i)"

definition user_owner :: "key_owner \<Rightarrow> str option" where
  "user_owner ko = (if ko_kind ko \<noteq> ''user'' then None else trimmed_nonempty (ko_user_id ko))"

definition owner_missing_message :: str where
  "owner_missing_message =
     ''API Key '' @ map char_of [0xE5, 0xBD, 0x92, 0xE5, 0xB1, 0x9E, 0xE7, 0x94, 0xA8, 0xE6, 0x88, 0xB7,
     0xE4, 0xB8, 0x8D, 0xE5, 0xAD, 0x98, 0xE5, 0x9C, 0xA8 :: nat]"

definition owner_disabled_message :: str where
  "owner_disabled_message =
     ''API Key '' @ map char_of [0xE5, 0xBD, 0x92, 0xE5, 0xB1, 0x9E, 0xE7, 0x94, 0xA8, 0xE6, 0x88, 0xB7,
     0xE5, 0xB7, 0xB2, 0xE5, 0x81, 0x9C, 0xE7, 0x94, 0xA8 :: nat]"

text \<open>The user a key belongs to: \<open>None\<close> when the key belongs to nobody or to a project.\<close>

definition key_user :: "model_store \<Rightarrow> str \<Rightarrow> str + (str \<times> app_user) option" where
  "key_user st key_id =
     sum_bind (map_err ''read api key owner failed: '' (find_api_key_owner st key_id)) (\<lambda>owner.
       (case bind_opt owner user_owner of
          None \<Rightarrow> Inr None
        | Some user_id \<Rightarrow>
            sum_bind (map_err ''read app user failed: '' (find_app_user_access_summary_by_id st user_id)) (\<lambda>user.
              (case user of None \<Rightarrow> Inl owner_missing_message | Some u \<Rightarrow> Inr (Some (user_id, u))))))"

definition resolve_api_key_model_group_access ::
    "model_store \<Rightarrow> i64 \<Rightarrow> str \<Rightarrow> str \<Rightarrow> str + group_access option" where
  "resolve_api_key_model_group_access st now key_id slug =
     sum_bind (key_user st key_id) (\<lambda>ku.
       (case ku of
          None \<Rightarrow> Inr None
        | Some (user_id, user) \<Rightarrow>
            if au_role user = ''admin'' then Inr None
            else if au_status user \<noteq> ''active'' then Inl owner_disabled_message
            else sum_bind (map_err ''read model group access failed: ''
                             (resolve_model_group_access_for_user st user_id slug now)) (\<lambda>access.
              (case access of Some a \<Rightarrow> Inr (Some a)
                            | None \<Rightarrow> Inl (''model_not_allowed: '' @ slug)))))"

definition allowed_model_slugs_for_api_key :: "model_store \<Rightarrow> i64 \<Rightarrow> str \<Rightarrow> str + str set option" where
  "allowed_model_slugs_for_api_key st now key_id =
     sum_bind (key_user st key_id) (\<lambda>ku.
       (case ku of
          None \<Rightarrow> Inr None
        | Some (user_id, user) \<Rightarrow>
            if au_role user = ''admin'' then Inr None
            else sum_bind (map_err ''read allowed model groups failed: ''
                             (allowed_model_slugs_for_user st user_id now)) (\<lambda>slugs.
              Inr (Some (set slugs)))))"

section \<open>Managing groups\<close>

definition group_name_empty :: str where
  "group_name_empty =
     map char_of [0xE6, 0xA8, 0xA1, 0xE5, 0x9E, 0x8B, 0xE7, 0xBB, 0x84, 0xE5, 0x90, 0x8D, 0xE7, 0xA7, 0xB0,
     0xE4, 0xB8, 0x8D, 0xE8, 0x83, 0xBD, 0xE4, 0xB8, 0xBA, 0xE7, 0xA9, 0xBA :: nat]"

definition group_save_empty :: str where
  "group_save_empty =
     map char_of [0xE6, 0xA8, 0xA1, 0xE5, 0x9E, 0x8B, 0xE7, 0xBB, 0x84, 0xE4, 0xBF, 0x9D, 0xE5, 0xAD, 0x98,
     0xE7, 0xBB, 0x93, 0xE6, 0x9E, 0x9C, 0xE4, 0xB8, 0xBA, 0xE7, 0xA9, 0xBA :: nat]"

definition group_missing :: str where
  "group_missing =
     map char_of [0xE6, 0xA8, 0xA1, 0xE5, 0x9E, 0x8B, 0xE7, 0xBB, 0x84, 0xE4, 0xB8, 0x8D, 0xE5, 0xAD, 0x98,
     0xE5, 0x9C, 0xA8 :: nat]"

definition group_default_kept :: str where
  "group_default_kept =
     map char_of [0xE9, 0xBB, 0x98, 0xE8, 0xAE, 0xA4, 0xE6, 0xA8, 0xA1, 0xE5, 0x9E, 0x8B, 0xE7, 0xBB, 0x84,
     0xE4, 0xB8, 0x8D, 0xE8, 0x83, 0xBD, 0xE5, 0x88, 0xA0, 0xE9, 0x99, 0xA4 :: nat]"

definition group_id_empty :: str where
  "group_id_empty =
     map char_of [0xE6, 0xA8, 0xA1, 0xE5, 0x9E, 0x8B, 0xE7, 0xBB, 0x84 :: nat] @ '' ID '' @ map char_of
     [0xE4, 0xB8, 0x8D, 0xE8, 0x83, 0xBD, 0xE4, 0xB8, 0xBA, 0xE7, 0xA9, 0xBA :: nat]"

definition slug_empty :: str where
  "slug_empty =
     map char_of [0xE5, 0xB9, 0xB3, 0xE5, 0x8F, 0xB0, 0xE6, 0xA8, 0xA1, 0xE5, 0x9E, 0x8B, 0xE4, 0xB8, 0x8D,
     0xE8, 0x83, 0xBD, 0xE4, 0xB8, 0xBA, 0xE7, 0xA9, 0xBA :: nat]"

definition user_id_empty :: str where
  "user_id_empty =
     map char_of [0xE7, 0x94, 0xA8, 0xE6, 0x88, 0xB7 :: nat] @ '' ID '' @ map char_of [0xE4, 0xB8, 0x8D,
     0xE8, 0x83, 0xBD, 0xE4, 0xB8, 0xBA, 0xE7, 0xA9, 0xBA :: nat]"

definition slug_missing_1 :: str where
  "slug_missing_1 =
     map char_of [0xE5, 0xB9, 0xB3, 0xE5, 0x8F, 0xB0, 0xE6, 0xA8, 0xA1, 0xE5, 0x9E, 0x8B :: nat] @ '' `''"

definition missing_2 :: str where
  "missing_2 =
     ''` '' @ map char_of [0xE4, 0xB8, 0x8D, 0xE5, 0xAD, 0x98, 0xE5, 0x9C, 0xA8 :: nat]"

definition user_missing_1 :: str where
  "user_missing_1 =
     map char_of [0xE7, 0x94, 0xA8, 0xE6, 0x88, 0xB7 :: nat] @ '' `''"

definition user_not_member_2 :: str where
  "user_not_member_2 =
     ''` '' @ map char_of [0xE4, 0xB8, 0x8D, 0xE6, 0x98, 0xAF, 0xE6, 0x88, 0x90, 0xE5, 0x91, 0x98, 0xE8,
     0xB4, 0xA6, 0xE5, 0x8F, 0xB7 :: nat]"

definition normalize_status :: "str option \<Rightarrow> str + str" where
  "normalize_status value =
     (let v = unwrap_or (trimmed_nonempty value) ''active''
      in if v \<in> {''active'', ''disabled''} then Inr v else Inl (''unsupported model group status: '' @ v))"

definition normalize_rate :: "i64 option \<Rightarrow> i64" where
  "normalize_rate value = max 0 (min 100000 (unwrap_or value 1000))"

record group_params =
  gp_id :: "str option"
  gp_name :: str
  gp_description :: "str option"
  gp_status :: "str option"
  gp_sort :: "i64 option"
  gp_is_default :: "bool option"
  gp_rate :: "i64 option"

text \<open>\<open>fresh\<close> is the id the random generator would give.\<close>

definition group_from_params ::
    "group_params \<Rightarrow> str \<Rightarrow> i64 \<Rightarrow> model_group option \<Rightarrow> str + model_group" where
  "group_from_params p i now existing =
     (case trimmed_nonempty (Some (gp_name p)) of
        None \<Rightarrow> Inl group_name_empty
      | Some name \<Rightarrow>
          sum_bind (normalize_status (gp_status p)) (\<lambda>status.
            Inr \<lparr>mg_id = i, mg_name = name, mg_description = trimmed_nonempty (gp_description p),
                 mg_status = status,
                 mg_sort = unwrap_or (gp_sort p) (case existing of Some g \<Rightarrow> mg_sort g | None \<Rightarrow> 0),
                 mg_is_default = unwrap_or (gp_is_default p) (case existing of Some g \<Rightarrow> mg_is_default g | None \<Rightarrow> False),
                 mg_rate = normalize_rate (or_else (gp_rate p) (map_option mg_rate existing)),
                 mg_created_at = (case existing of Some g \<Rightarrow> mg_created_at g | None \<Rightarrow> now),
                 mg_updated_at = now\<rparr>))"

definition upsert_group ::
    "group_params \<Rightarrow> str \<Rightarrow> i64 \<Rightarrow> model_store \<Rightarrow> (str + model_group) \<times> model_store" where
  "upsert_group p fresh now st0 =
     ms_try ''bootstrap default model group failed: '' (bootstrap_default_model_group now st0) (\<lambda>_ st.
       (let i = unwrap_or (trimmed_nonempty (gp_id p)) fresh
        in ms_try ''read model group failed: '' (find_model_group st i, st) (\<lambda>existing st.
          (case group_from_params p i now existing of
             Inl e \<Rightarrow> (Inl e, st)
           | Inr g \<Rightarrow>
               ms_try ''save model group failed: '' (upsert_model_group g st) (\<lambda>_ st.
               ms_try ''read model group failed: '' (find_model_group st i, st) (\<lambda>saved st.
                 ((case saved of Some s \<Rightarrow> Inr s | None \<Rightarrow> Inl group_save_empty), st)))))))"

definition result_from_storage ::
    "i64 \<Rightarrow> model_store \<Rightarrow> (str + (model_group list \<times> group_model list \<times> user_group list)) \<times> model_store" where
  "result_from_storage now st =
     ms_try ''load model group list failed: '' (load_model_group_list_snapshot now st) (\<lambda>v st. (Inr v, st))"

definition delete_group ::
    "str \<Rightarrow> i64 \<Rightarrow> model_store \<Rightarrow> (str + (model_group list \<times> group_model list \<times> user_group list)) \<times> model_store" where
  "delete_group i now st =
     ms_try ''read model group failed: '' (find_model_group st i, st) (\<lambda>found st.
       (case found of
          None \<Rightarrow> (Inl group_missing, st)
        | Some g \<Rightarrow>
            if mg_is_default g then (Inl group_default_kept, st)
            else ms_try ''delete model group failed: '' (delete_model_group i st) (\<lambda>_ st.
              result_from_storage now st)))"

record group_model_param =
  gi_slug :: str
  gi_enabled :: "bool option"
  gi_rate :: "i64 option"
  gi_billing :: "str option"
  gi_note :: "str option"

text \<open>The first item of each slug, with the slug trimmed; a blank slug is an error.\<close>

fun unique_trimmed :: "str \<Rightarrow> ('a \<Rightarrow> str) \<Rightarrow> str set \<Rightarrow> 'a list \<Rightarrow> str + ('a \<times> str) list" where
  "unique_trimmed empty_message slug_of seen [] = Inr []"
| "unique_trimmed empty_message slug_of seen (x # xs) =
     (case trimmed_nonempty (Some (slug_of x)) of
        None \<Rightarrow> Inl empty_message
      | Some s \<Rightarrow>
          if s \<in> seen then unique_trimmed empty_message slug_of seen xs
          else sum_bind (unique_trimmed empty_message slug_of (insert s seen) xs) (\<lambda>rest. Inr ((x, s) # rest)))"

definition list_existing_model_catalog_slugs :: "model_store \<Rightarrow> str \<Rightarrow> str list \<Rightarrow> str list sql" where
  "list_existing_model_catalog_slugs st scope slugs0 =
     (let slugs = normalize_text_ids slugs0
      in if slugs = [] then Inr []
         else ms_query st (remdups_adj (sort (concat (map (\<lambda>c.
            (case text_id_in_clause c of
               None \<Rightarrow> []
             | Some cond \<Rightarrow> map cm_slug (filter (\<lambda>m. cm_scope m = trim scope \<and> cond (cm_slug m)) (ms_catalog st))))
            (chunks in_clause_batch_size slugs))))))"

fun group_models_from :: "str \<Rightarrow> i64 \<Rightarrow> str set \<Rightarrow> (group_model_param \<times> str) list \<Rightarrow> str + group_model list" where
  "group_models_from g now known [] = Inr []"
| "group_models_from g now known ((p, slug) # rest) =
     (if slug \<notin> known then Inl (slug_missing_1 @ slug @ missing_2)
      else sum_bind (group_models_from g now known rest) (\<lambda>models.
        Inr (\<lparr>gm_group_id = g, gm_slug = slug, gm_enabled = unwrap_or (gi_enabled p) True,
               gm_rate = map_option (\<lambda>v. max 0 (min 100000 v)) (gi_rate p),
               gm_billing = trimmed_nonempty (gi_billing p), gm_note = trimmed_nonempty (gi_note p),
               gm_created_at = now, gm_updated_at = now\<rparr> # models)))"

definition with_group ::
    "str \<Rightarrow> model_store \<Rightarrow> (str \<Rightarrow> model_store \<Rightarrow> (str + 'a) \<times> model_store) \<Rightarrow> (str + 'a) \<times> model_store" where
  "with_group raw st f =
     (case trimmed_nonempty (Some raw) of
        None \<Rightarrow> (Inl group_id_empty, st)
      | Some g \<Rightarrow>
          ms_try ''read model group failed: '' (find_model_group st g, st) (\<lambda>found st.
            (case found of None \<Rightarrow> (Inl group_missing, st) | Some _ \<Rightarrow> f g st)))"

definition set_model_group_models ::
    "str \<Rightarrow> group_model_param list \<Rightarrow> i64 \<Rightarrow> model_store
       \<Rightarrow> (str + (model_group list \<times> group_model list \<times> user_group list)) \<times> model_store" where
  "set_model_group_models raw items now st0 =
     with_group raw st0 (\<lambda>g st.
       (case unique_trimmed slug_empty gi_slug {} items of
          Inl e \<Rightarrow> (Inl e, st)
        | Inr unique \<Rightarrow>
            ms_try ''list model catalog failed: ''
              (list_existing_model_catalog_slugs st ''default'' (map snd unique), st) (\<lambda>known st.
            (case group_models_from g now (set known) unique of
               Inl e \<Rightarrow> (Inl e, st)
             | Inr models \<Rightarrow>
                 ms_try ''save model group models failed: '' (replace_model_group_models g models st) (\<lambda>_ st.
                   result_from_storage now st)))))"

fun assignments_from :: "str \<Rightarrow> i64 \<Rightarrow> app_user list \<Rightarrow> str list \<Rightarrow> str + user_group list" where
  "assignments_from g now users [] = Inr []"
| "assignments_from g now users (i # rest) =
     (case row_find au_id users i of
        None \<Rightarrow> Inl (user_missing_1 @ i @ missing_2)
      | Some u \<Rightarrow>
          if au_role u \<noteq> ''member'' then Inl (user_missing_1 @ au_username u @ user_not_member_2)
          else sum_bind (assignments_from g now users rest) (\<lambda>as. Inr (active_assignment now g i # as)))"

definition set_model_group_users ::
    "str \<Rightarrow> str list \<Rightarrow> i64 \<Rightarrow> model_store
       \<Rightarrow> (str + (model_group list \<times> group_model list \<times> user_group list)) \<times> model_store" where
  "set_model_group_users raw ids now st0 =
     with_group raw st0 (\<lambda>g st.
       (case unique_trimmed user_id_empty (\<lambda>i. i) {} ids of
          Inl e \<Rightarrow> (Inl e, st)
        | Inr unique \<Rightarrow>
            ms_try ''read app users failed: '' (if unique = [] then Inr () else ms_query st (), st) (\<lambda>_ st.
            (case assignments_from g now (ms_users st) (map snd unique) of
               Inl e \<Rightarrow> (Inl e, st)
             | Inr assignments \<Rightarrow>
                 ms_try ''save model group users failed: ''
                   (replace_user_model_groups_for_group g assignments st) (\<lambda>_ st. result_from_storage now st)))))"

section \<open>The least rate\<close>

lemma best_access_None_iff: "best_access b as = None \<longleftrightarrow> b = None \<and> as = []"
  by (induction b as rule: best_access.induct) (auto split: option.splits)

lemma best_access_member: "best_access b as = Some a \<Longrightarrow> b = Some a \<or> a \<in> set as"
  by (induction b as rule: best_access.induct) (auto split: option.splits if_splits)

lemma best_access_le_start: "best_access (Some b) as = Some a \<Longrightarrow> ga_rate a \<le> ga_rate b"
  by (induction as arbitrary: b) (force split: if_splits)+

lemma best_access_least:
  "best_access b as = Some a \<Longrightarrow> x \<in> set as \<Longrightarrow> ga_rate a \<le> ga_rate x"
proof (induction b as rule: best_access.induct)
  case (2 best y as)
  show ?case
  proof (cases "x = y")
    case True
    with 2 (2) show ?thesis
      by (auto split: option.splits if_splits dest!: best_access_le_start)
  next
    case False
    with 2 show ?thesis by simp
  qed
qed simp

lemma key_user_fault: "key_user st k = Inr (Some x) \<Longrightarrow> ms_fault st = None"
  by (auto simp: key_user_def find_api_key_owner_def ms_query_def split: option.splits)

lemma resolve_access_cases:
  assumes "key_user st k = Inr (Some (uid, u))" "au_role u \<noteq> ''admin''" "au_status u = ''active''"
  shows "resolve_api_key_model_group_access st now k slug =
    (case best_access None (map access_of (filter (\<lambda>(g, m). gm_slug m = slug) (grants st uid now))) of
       Some a \<Rightarrow> Inr (Some a) | None \<Rightarrow> Inl (''model_not_allowed: '' @ slug))"
  using assms key_user_fault [OF assms(1)]
  by (simp add: resolve_api_key_model_group_access_def resolve_model_group_access_for_user_def split: option.split)

lemma allowed_slugs_cases:
  assumes "key_user st k = Inr (Some (uid, u))" "au_role u \<noteq> ''admin''"
  shows "allowed_model_slugs_for_api_key st now k = Inr (Some (gm_slug ` snd ` set (grants st uid now)))"
  using assms key_user_fault [OF assms(1)]
  by (simp add: allowed_model_slugs_for_api_key_def allowed_model_slugs_for_user_def
      image_image split_beta)

text \<open>
  C24: the two access decisions agree. For the key of an active user who is no admin, the models that
  are listed as allowed are those a request is let through with; every other model is refused by
  name, and a request is charged the least rate among the groups that grant its model.
\<close>

theorem model_access_exact:
  assumes "key_user st k = Inr (Some (uid, u))" "au_role u \<noteq> ''admin''" "au_status u = ''active''"
  shows "\<exists>slugs. allowed_model_slugs_for_api_key st now k = Inr (Some slugs)
    \<and> (if slug \<in> slugs
       then (\<exists>g m. (g, m) \<in> set (grants st uid now) \<and> gm_slug m = slug
               \<and> resolve_api_key_model_group_access st now k slug = Inr (Some (access_of (g, m)))
               \<and> list_all (\<lambda>(g', m'). gm_slug m' \<noteq> slug \<or> effective_rate g m \<le> effective_rate g' m')
                   (grants st uid now))
       else resolve_api_key_model_group_access st now k slug = Inl (''model_not_allowed: '' @ slug))"
proof -
  let ?rows = "filter (\<lambda>(g, m). gm_slug m = slug) (grants st uid now)"
  let ?best = "best_access None (map access_of ?rows)"
  let ?slugs = "gm_slug ` snd ` set (grants st uid now)"
  have empty: "?best = None \<longleftrightarrow> slug \<notin> ?slugs"
    by (force simp: best_access_None_iff filter_empty_conv)
  show ?thesis
  proof (cases ?best)
    case None
    with empty show ?thesis
      by (simp add: allowed_slugs_cases [OF assms(1,2)] resolve_access_cases [OF assms])
  next
    case (Some a)
    from best_access_member [OF Some] obtain g m
      where gm: "(g, m) \<in> set (grants st uid now)" "gm_slug m = slug" "a = access_of (g, m)" by auto
    have "effective_rate g m \<le> effective_rate g' m'"
      if "(g', m') \<in> set (grants st uid now)" "gm_slug m' = slug" for g' m'
      using best_access_least [OF Some, of "access_of (g', m')"] that gm(3) by (force simp: access_of_def)
    then have "list_all (\<lambda>(g', m'). gm_slug m' \<noteq> slug \<or> effective_rate g m \<le> effective_rate g' m') (grants st uid now)"
      by (auto simp: list_all_iff)
    with Some gm empty show ?thesis
      by (auto simp: allowed_slugs_cases [OF assms(1,2)] resolve_access_cases [OF assms])
  qed
qed

definition demo_details :: catalog_details where
  "demo_details = \<lparr>cx_description = None, cx_default_reasoning_level = None, cx_shell_type = None, cx_priority = None,
     cx_availability_nux_json = None, cx_upgrade_json = None, cx_base_instructions = None,
     cx_model_messages_json = None, cx_supports_reasoning_summaries = None,
     cx_default_reasoning_summary = None, cx_support_verbosity = None, cx_default_verbosity_json = None,
     cx_apply_patch_tool_type = None, cx_web_search_tool_type = None, cx_truncation_mode = None,
     cx_truncation_limit = None, cx_truncation_extra_json = None, cx_supports_parallel_tool_calls = None,
     cx_supports_image_detail_original = None, cx_context_window = None, cx_auto_compact_token_limit = None,
     cx_effective_context_window_percent = None, cx_minimal_client_version_json = None,
     cx_supports_search_tool = None, cx_extra_json = ''{}''\<rparr>"

definition demo_catalog_model :: "str \<Rightarrow> catalog_model" where
  "demo_catalog_model s = \<lparr>cm_scope = ''default'', cm_slug = s, cm_display_name = s, cm_source_kind = ''remote'',
     cm_user_edited = False, cm_visibility = None, cm_supported = Some True, cm_details = demo_details,
     cm_sort_index = 0, cm_updated_at = 1\<rparr>"

definition demo_group :: "str \<Rightarrow> bool \<Rightarrow> i64 \<Rightarrow> model_group" where
  "demo_group i d rate = \<lparr>mg_id = i, mg_name = i, mg_description = None, mg_status = ''active'', mg_sort = 0,
     mg_is_default = d, mg_rate = rate, mg_created_at = 1, mg_updated_at = 1\<rparr>"

text \<open>Two models, two groups: the default group grants both, the team's half-price group one.\<close>

definition demo_models :: model_store where
  "demo_models = \<lparr>ms_catalog = [demo_catalog_model ''m1'', demo_catalog_model ''m2''],
     ms_groups = [demo_group default_model_group_id_const True 1000, demo_group ''team'' False 500],
     ms_group_models = [group_model_row ''bootstrap'' default_model_group_id_const 1 ''m1'',
       group_model_row ''bootstrap'' default_model_group_id_const 1 ''m2'', group_model_row ''note'' ''team'' 1 ''m1''],
     ms_user_groups = [active_assignment 1 default_model_group_id_const ''u'', active_assignment 1 ''team'' ''u''],
     ms_users = [\<lparr>au_id = ''u'', au_username = ''ann'', au_role = ''member'', au_status = ''active''\<rparr>],
     ms_owners = [\<lparr>ko_key_id = ''k'', ko_kind = ''user'', ko_user_id = Some ''u'', ko_project_id = None, ko_updated_at = 1\<rparr>],
     ms_sources = [], ms_mappings = [], ms_prefs = [], ms_apis = [], ms_secrets = [],
      ms_balance_secrets = [], ms_supplier_models = [], ms_assignments = [], ms_fault = None,
     ms_refusal = ''constraint failed''\<rparr>"

lemma demo_key_user:
  "key_user demo_models ''k'' = Inr (Some (''u'', \<lparr>au_id = ''u'', au_username = ''ann'', au_role = ''member'', au_status = ''active''\<rparr>))"
  by code_simp

theorem model_access_exact_witness:
  "\<exists>slugs. allowed_model_slugs_for_api_key demo_models 5 ''k'' = Inr (Some slugs)
    \<and> (if ''m1'' \<in> slugs
       then (\<exists>g m. (g, m) \<in> set (grants demo_models ''u'' 5) \<and> gm_slug m = ''m1''
               \<and> resolve_api_key_model_group_access demo_models 5 ''k'' ''m1'' = Inr (Some (access_of (g, m)))
               \<and> list_all (\<lambda>(g', m'). gm_slug m' \<noteq> ''m1'' \<or> effective_rate g m \<le> effective_rate g' m')
                   (grants demo_models ''u'' 5))
       else resolve_api_key_model_group_access demo_models 5 ''k'' ''m1'' = Inl (''model_not_allowed: '' @ ''m1''))"
  by (rule model_access_exact [OF demo_key_user]) simp_all

section \<open>The tables stay well formed\<close>

definition one_default :: "model_group list \<Rightarrow> bool" where
  "one_default gs \<longleftrightarrow>
     (\<forall>g\<in>set gs. \<forall>h\<in>set gs. mg_is_default g \<and> mg_is_default h \<longrightarrow> mg_id g = mg_id h)"

definition groups_wf :: "model_store \<Rightarrow> bool" where
  "groups_wf st \<longleftrightarrow>
     keys_unique mg_id (ms_groups st) \<and> keys_unique gm_key (ms_group_models st)
     \<and> keys_unique ug_key (ms_user_groups st) \<and> keys_unique cm_key (ms_catalog st)
     \<and> one_default (ms_groups st)
     \<and> (\<forall>g\<in>set (ms_groups st). mg_status g \<in> {''active'', ''disabled''})
     \<and> gm_group_id ` set (ms_group_models st) \<subseteq> mg_id ` set (ms_groups st)
     \<and> ug_group_id ` set (ms_user_groups st) \<subseteq> mg_id ` set (ms_groups st)
     \<and> ug_user_id ` set (ms_user_groups st) \<subseteq> au_id ` set (ms_users st)"

text \<open>The storage operations on these tables, one step each.\<close>

datatype group_op =
    OpBootstrap | OpPruneDefault | OpSyncCatalog "catalog_model list" | OpDeleteCatalog str str
  | OpDeleteReferences str | OpUpsertGroup model_group | OpDeleteGroup str
  | OpReplaceModels str "group_model list" | OpReplaceUsers str "user_group list" | OpAssignDefault str

fun run_group_op :: "group_op \<Rightarrow> i64 \<Rightarrow> model_store \<Rightarrow> unit sql \<times> model_store" where
  "run_group_op OpBootstrap now st = bootstrap_default_model_group now st"
| "run_group_op OpPruneDefault now st = prune_default_model_group_models_not_in_catalog st"
| "run_group_op (OpSyncCatalog models) now st = upsert_model_catalog_models models now st"
| "run_group_op (OpDeleteCatalog scope slug) now st = delete_model_catalog_model scope slug st"
| "run_group_op (OpDeleteReferences slug) now st = delete_model_group_model_references slug st"
| "run_group_op (OpUpsertGroup g) now st = upsert_model_group g st"
| "run_group_op (OpDeleteGroup i) now st = delete_model_group i st"
| "run_group_op (OpReplaceModels g models) now st = replace_model_group_models g models st"
| "run_group_op (OpReplaceUsers g users) now st = replace_user_model_groups_for_group g users st"
| "run_group_op (OpAssignDefault user) now st = assign_default_model_group_to_user user now st"

inductive group_history :: "model_store \<Rightarrow> model_store \<Rightarrow> bool" where
  group_start: "group_history st st"
| group_step: "group_history st st' \<Longrightarrow> run_group_op op now st' = (r, st'') \<Longrightarrow> group_history st st''"

lemma ms_then_keeps:
  "P (snd r) \<Longrightarrow> (\<And>st. P st \<Longrightarrow> P (snd (f st))) \<Longrightarrow> P (snd (ms_then r f))"
  by (auto simp: ms_then_def split: prod.split sum.split)

lemmas wf_then = ms_then_keeps [where P = groups_wf]

lemma ms_exec_wf: "groups_wf st \<Longrightarrow> groups_wf st' \<Longrightarrow> groups_wf (snd (ms_exec st st'))"
  by (simp add: ms_exec_state)

lemma insert_default_group_wf:
  assumes "groups_wf st"
  shows "groups_wf (insert_default_group now st)"
proof (cases "list_ex mg_is_default (ms_groups st) \<or> row_exists mg_id (ms_groups st) default_model_group_id_const")
  case True
  with assms show ?thesis
    by (auto simp: insert_default_group_def row_insert_ignore_def default_group_row_def)
next
  case False
  then have "\<forall>g\<in>set (ms_groups st). \<not> mg_is_default g" "default_model_group_id_const \<notin> mg_id ` set (ms_groups st)"
    by (auto simp: list_ex_iff filter_empty_conv row_exists_iff)
  with assms False show ?thesis
    by (auto simp: groups_wf_def insert_default_group_def row_insert_ignore_def default_group_row_def
        keys_unique_append one_default_def)
qed

lemma insert_group_models_wf: "groups_wf st \<Longrightarrow> groups_wf (snd (insert_group_models rows st))"
  unfolding groups_wf_def insert_group_models_def ms_exec_if_state
  by (auto simp: keys_unique_rows_insert_ignore row_exists_iff dest!: rows_insert_ignore_cases)

lemma insert_user_groups_wf: "groups_wf st \<Longrightarrow> groups_wf (snd (insert_user_groups rows st))"
  unfolding groups_wf_def insert_user_groups_def ms_exec_if_state
  by (auto simp: keys_unique_rows_insert_ignore row_exists_iff dest!: rows_insert_ignore_cases)

lemma prune_default_wf: "groups_wf st \<Longrightarrow> groups_wf (snd (prune_default_model_group_models_not_in_catalog st))"
  unfolding groups_wf_def prune_default_model_group_models_not_in_catalog_def ms_exec_state
  by (auto simp: keys_unique_filter)

lemma bootstrap_wf: "groups_wf st \<Longrightarrow> groups_wf (snd (bootstrap_default_model_group now st))"
  unfolding bootstrap_default_model_group_def
  by (intro wf_then ms_exec_wf insert_default_group_wf insert_group_models_wf prune_default_wf
      insert_user_groups_wf)

lemma sync_default_wf: "groups_wf st \<Longrightarrow> groups_wf (snd (sync_default_model_group_models_from_catalog now st))"
  unfolding sync_default_model_group_models_from_catalog_def
  by (intro wf_then insert_group_models_wf prune_default_wf)

lemma keys_unique_upsert_catalog:
  "keys_unique cm_key rows \<Longrightarrow> keys_unique cm_key (fold upsert_catalog_row models rows)"
  by (induction models arbitrary: rows)
    (simp_all add: upsert_catalog_row_def keys_unique_upsert)

lemma upsert_models_wf: "groups_wf st \<Longrightarrow> groups_wf (snd (upsert_model_catalog_models models now st))"
  unfolding upsert_model_catalog_models_def
  by (intro wf_then ms_exec_wf sync_default_wf) (auto simp: groups_wf_def keys_unique_upsert_catalog)

definition only_default :: "model_group \<Rightarrow> model_group list \<Rightarrow> bool" where
  "only_default g rows \<longleftrightarrow> (mg_is_default g \<longrightarrow> (\<forall>x\<in>set rows. mg_is_default x \<longrightarrow> mg_id x = mg_id g))"

definition clear_other_defaults :: "model_group \<Rightarrow> model_group list \<Rightarrow> model_group list" where
  "clear_other_defaults g rows = map (\<lambda>x. if mg_id x \<noteq> mg_id g then x\<lparr>mg_is_default := False\<rparr> else x) rows"

lemma upsert_model_group_cleared:
  "upsert_model_group g st0 =
     ms_then (if mg_is_default g
              then ms_exec st0 (st0\<lparr>ms_groups := clear_other_defaults g (ms_groups st0)\<rparr>)
              else (Inr (), st0)) (\<lambda>st.
       ms_exec_if (mg_status g \<in> {''active'', ''disabled''}) st
         (st\<lparr>ms_groups := row_upsert mg_id merge_group g (ms_groups st)\<rparr>))"
  by (simp add: upsert_model_group_def clear_other_defaults_def)

lemma clear_other_defaults_wf:
  assumes "groups_wf st"
  shows "groups_wf (st\<lparr>ms_groups := clear_other_defaults g (ms_groups st)\<rparr>)"
proof -
  have "map mg_id (clear_other_defaults g (ms_groups st)) = map mg_id (ms_groups st)"
    by (simp add: clear_other_defaults_def)
  then have ids: "mg_id ` set (clear_other_defaults g (ms_groups st)) = mg_id ` set (ms_groups st)"
    and uniq: "keys_unique mg_id (clear_other_defaults g (ms_groups st)) \<longleftrightarrow> keys_unique mg_id (ms_groups st)"
    unfolding keys_unique_def by (metis list.set_map)+
  have "x \<in> set (clear_other_defaults g (ms_groups st)) \<Longrightarrow> mg_is_default x \<Longrightarrow> x \<in> set (ms_groups st)"
    and "x \<in> set (clear_other_defaults g (ms_groups st)) \<Longrightarrow> \<exists>y\<in>set (ms_groups st). mg_status x = mg_status y" for x
    by (auto simp: clear_other_defaults_def split: if_splits)
  with assms ids uniq show ?thesis
    unfolding groups_wf_def one_default_def by (auto, metis+)
qed

lemma upsert_group_row_wf:
  assumes "groups_wf st" "only_default g (ms_groups st)" "mg_status g \<in> {''active'', ''disabled''}"
  shows "groups_wf (st\<lparr>ms_groups := row_upsert mg_id merge_group g (ms_groups st)\<rparr>)"
proof -
  let ?rows = "row_upsert mg_id merge_group g (ms_groups st)"
  have id: "mg_id (merge_group x g) = mg_id g" for x by (simp add: merge_group_def)
  have cases: "(mg_id z = mg_id g \<and> mg_is_default g) \<or> (z \<in> set (ms_groups st) \<and> \<not> mg_is_default g)"
    if "z \<in> set ?rows" "mg_is_default z" for z
    using row_upsert_cases [OF that(1)] that(2) assms(2) by (auto simp: merge_group_def only_default_def)
  have one: "one_default ?rows"
    unfolding one_default_def
  proof (intro ballI impI)
    fix x y assume "x \<in> set ?rows" "y \<in> set ?rows" "mg_is_default x \<and> mg_is_default y"
    with cases [of x] cases [of y] assms(1) show "mg_id x = mg_id y"
      by (auto simp: groups_wf_def one_default_def)
  qed
  have "mg_status x \<in> {''active'', ''disabled''}" if "x \<in> set ?rows" for x
    using row_upsert_cases [OF that] assms(1,3) by (auto simp: groups_wf_def merge_group_def)
  with assms(1) one show ?thesis
    unfolding groups_wf_def
    by (simp add: keys_upsert [where key = mg_id and merge = merge_group, OF id] keys_unique_upsert [where key = mg_id and merge = merge_group, OF id] subset_insertI2)
qed

lemma upsert_group_wf:
  assumes "groups_wf st"
  shows "groups_wf (snd (upsert_model_group g st))"
proof (cases "ms_fault st")
  case None
  let ?st = "if mg_is_default g then st\<lparr>ms_groups := clear_other_defaults g (ms_groups st)\<rparr> else st"
  have "groups_wf ?st" "only_default g (ms_groups ?st)"
    using assms clear_other_defaults_wf [OF assms]
    by (auto simp: only_default_def) (auto simp: clear_other_defaults_def split: if_splits)
  then have "groups_wf (?st\<lparr>ms_groups := row_upsert mg_id merge_group g (ms_groups ?st)\<rparr>)"
    if "mg_status g \<in> {''active'', ''disabled''}"
    using that by (rule upsert_group_row_wf)
  with \<open>groups_wf ?st\<close> None show ?thesis
    by (auto simp: upsert_model_group_cleared ms_exec_if_def)
next
  case (Some e)
  with assms show ?thesis by (simp add: upsert_model_group_def ms_exec_def ms_exec_if_def)
qed

lemma delete_group_wf:
  assumes "groups_wf st"
  shows "groups_wf (snd (delete_model_group i st))"
proof -
  let ?gs = "filter (\<lambda>g. \<not> (mg_id g = i \<and> \<not> mg_is_default g)) (ms_groups st)"
  have "mg_id ` set (ms_groups st) - {i} \<subseteq> mg_id ` set ?gs" by auto
  moreover have "gm_group_id ` set (filter (\<lambda>m. gm_group_id m \<noteq> i) (ms_group_models st)) \<subseteq> mg_id ` set (ms_groups st) - {i}"
    "ug_group_id ` set (filter (\<lambda>u. ug_group_id u \<noteq> i) (ms_user_groups st)) \<subseteq> mg_id ` set (ms_groups st) - {i}"
    using assms by (auto simp: groups_wf_def)
  ultimately have refs: "gm_group_id ` set (filter (\<lambda>m. gm_group_id m \<noteq> i) (ms_group_models st)) \<subseteq> mg_id ` set ?gs"
    "ug_group_id ` set (filter (\<lambda>u. ug_group_id u \<noteq> i) (ms_user_groups st)) \<subseteq> mg_id ` set ?gs"
    by (iprover intro: subset_trans)+
  have others: "one_default ?gs" "\<forall>g\<in>set ?gs. mg_status g \<in> {''active'', ''disabled''}"
    "ug_user_id ` set (filter (\<lambda>u. ug_group_id u \<noteq> i) (ms_user_groups st)) \<subseteq> au_id ` set (ms_users st)"
    using assms unfolding groups_wf_def one_default_def by (simp, simp, auto)
  have "groups_wf (st\<lparr>ms_groups := ?gs, ms_group_models := filter (\<lambda>m. gm_group_id m \<noteq> i) (ms_group_models st),
          ms_user_groups := filter (\<lambda>u. ug_group_id u \<noteq> i) (ms_user_groups st)\<rparr>)"
    unfolding groups_wf_def using assms [unfolded groups_wf_def] refs others
    by (simp del: set_filter add: keys_unique_filter)
  with assms show ?thesis by (simp add: delete_model_group_def ms_exec_state)
qed

lemma replace_models_wf: "groups_wf st \<Longrightarrow> groups_wf (snd (replace_model_group_models g models st))"
  unfolding replace_model_group_models_def Let_def ms_exec_if_state groups_wf_def
  by (auto simp: row_exists_iff)

lemma replace_users_wf: "groups_wf st \<Longrightarrow> groups_wf (snd (replace_user_model_groups_for_group g users st))"
  unfolding replace_user_model_groups_for_group_def Let_def ms_exec_if_state groups_wf_def
  by (auto simp: row_exists_iff)

lemma assign_default_wf: "groups_wf st \<Longrightarrow> groups_wf (snd (assign_default_model_group_to_user user now st))"
  by (auto simp: assign_default_model_group_to_user_def insert_user_groups_wf split: sum.split option.split)

lemma catalog_ops_wf:
  "groups_wf st \<Longrightarrow> groups_wf (snd (delete_model_catalog_model scope slug st))"
  "groups_wf st \<Longrightarrow> groups_wf (snd (delete_model_group_model_references slug st))"
  unfolding delete_model_catalog_model_def delete_model_group_model_references_def Let_def groups_wf_def
  by (auto simp: ms_exec_state keys_unique_filter keys_unique_delete split: if_splits)

lemma run_group_op_wf: "groups_wf st \<Longrightarrow> groups_wf (snd (run_group_op op now st))"
  by (cases op) (simp_all add: bootstrap_wf prune_default_wf upsert_models_wf catalog_ops_wf upsert_group_wf
      delete_group_wf replace_models_wf replace_users_wf assign_default_wf)


lemma demo_models_wf: "groups_wf demo_models"
  by code_simp


section \<open>The default group follows the catalog\<close>

definition follows_catalog :: "model_store \<Rightarrow> bool" where
  "follows_catalog st \<longleftrightarrow>
     (\<forall>g\<in>set (default_group_ids st).
        (\<forall>slug\<in>set (supported_slugs st). row_exists gm_key (ms_group_models st) (g, slug))
        \<and> (supported_slugs st = [] \<or>
           (\<forall>m\<in>set (ms_group_models st). gm_group_id m = g \<longrightarrow> gm_slug m \<in> set (supported_slugs st))))"

lemma sync_default_follows:
  assumes "ms_fault st = None"
  shows "\<exists>st'. sync_default_model_group_models_from_catalog now st = (Inr (), st')
    \<and> ms_catalog st' = ms_catalog st \<and> ms_groups st' = ms_groups st \<and> follows_catalog st'
    \<and> filter (\<lambda>m. gm_group_id m \<notin> set (default_group_ids st)) (ms_group_models st')
        = filter (\<lambda>m. gm_group_id m \<notin> set (default_group_ids st)) (ms_group_models st)"
proof -
  define kept where "kept = filter (\<lambda>m. \<not> (gm_group_id m \<in> set (default_group_ids st) \<and> supported_slugs st \<noteq> []
      \<and> gm_slug m \<notin> set (supported_slugs st))) (ms_group_models st)"
  define new where "new = concat (map (\<lambda>g. map (group_model_row ''catalog_sync'' g now) (supported_slugs st))
      (default_group_ids st))"
  define st' where "st' = st\<lparr>ms_group_models := rows_insert_ignore gm_key new kept\<rparr>"
  have same: "supported_slugs (st\<lparr>ms_group_models := ms\<rparr>) = supported_slugs st"
    "default_group_ids (st\<lparr>ms_group_models := ms\<rparr>) = default_group_ids st" for ms
    by (simp_all add: supported_slugs_def default_group_ids_def)
  have fk: "\<forall>r\<in>set new. row_exists mg_id (ms_groups st) (gm_group_id r)"
    by (auto simp: new_def group_model_row_def default_group_ids_def row_exists_iff)
  have run: "sync_default_model_group_models_from_catalog now st = (Inr (), st')"
    using assms fk
    by (simp add: sync_default_model_group_models_from_catalog_def prune_default_model_group_models_not_in_catalog_def
        insert_group_models_def same st'_def kept_def new_def)
  have keys_new: "gm_key ` set new = set (default_group_ids st) \<times> set (supported_slugs st)"
    by (force simp: new_def gm_key_def group_model_row_def)
  have rows: "m \<in> set kept \<or> m \<in> set new" if "m \<in> set (ms_group_models st')" for m
    using that rows_insert_ignore_cases [of m gm_key new kept] by (auto simp: st'_def)
  have others: "\<forall>m\<in>set new. gm_group_id m \<in> set (default_group_ids st)"
    by (auto simp: new_def group_model_row_def)
  have follows: "follows_catalog st'"
    using keys_rows_insert_ignore [of gm_key new kept] keys_new rows
    by (fastforce simp: follows_catalog_def st'_def same row_exists_iff kept_def new_def group_model_row_def)
  have "filter (\<lambda>m. gm_group_id m \<notin> set (default_group_ids st)) (rows_insert_ignore gm_key rs ms)
      = filter (\<lambda>m. gm_group_id m \<notin> set (default_group_ids st)) ms"
    if "\<forall>m\<in>set rs. gm_group_id m \<in> set (default_group_ids st)" for rs ms
    using that by (induction rs arbitrary: ms) (simp_all add: rows_insert_ignore_def row_insert_ignore_def)
  from this [OF others, of kept] have "filter (\<lambda>m. gm_group_id m \<notin> set (default_group_ids st)) (ms_group_models st')
      = filter (\<lambda>m. gm_group_id m \<notin> set (default_group_ids st)) (ms_group_models st)"
    by (simp add: st'_def kept_def) (auto intro: filter_cong)
  with run follows show ?thesis by (simp add: st'_def)
qed

text \<open>
  After models are written to the catalog the default group holds every model that is supported
  in the default scope and, when there is one, no other model; the models of every other group are
  what they were.
\<close>

theorem default_group_follows_catalog:
  assumes "ms_fault st = None"
  shows "\<exists>st'. upsert_model_catalog_models models now st = (Inr (), st')
    \<and> ms_catalog st' = fold upsert_catalog_row models (ms_catalog st)
    \<and> follows_catalog st'
    \<and> filter (\<lambda>m. gm_group_id m \<notin> set (default_group_ids st)) (ms_group_models st')
        = filter (\<lambda>m. gm_group_id m \<notin> set (default_group_ids st)) (ms_group_models st)"
  using sync_default_follows [of "st\<lparr>ms_catalog := fold upsert_catalog_row models (ms_catalog st)\<rparr>" now] assms
  by (simp add: upsert_model_catalog_models_def default_group_ids_def) blast

theorem default_group_follows_catalog_witness:
  "\<exists>st'. upsert_model_catalog_models [demo_catalog_model ''m3''] 5 demo_models = (Inr (), st')
    \<and> ms_catalog st' = fold upsert_catalog_row [demo_catalog_model ''m3''] (ms_catalog demo_models)
    \<and> follows_catalog st'
    \<and> filter (\<lambda>m. gm_group_id m \<notin> set (default_group_ids demo_models)) (ms_group_models st')
        = filter (\<lambda>m. gm_group_id m \<notin> set (default_group_ids demo_models)) (ms_group_models demo_models)"
  by (rule default_group_follows_catalog) (simp add: demo_models_def)

section \<open>The default group can be lost\<close>

lemma default_id_missing_blocks:
  assumes "ms_fault st = None" "list_ex mg_is_default (ms_groups st)"
    "\<not> row_exists mg_id (ms_groups st) default_model_group_id_const"
    "default_model_group_id_const \<notin> gm_group_id ` set (ms_group_models st)" "supported_slugs st \<noteq> []"
  shows "bootstrap_default_model_group now st = (Inl (ms_refusal st), st)"
proof -
  obtain slug where slug: "slug \<in> set (supported_slugs st)" using assms(5) by (cases "supported_slugs st") auto
  let ?rows = "map (group_model_row ''bootstrap'' default_model_group_id_const now) (supported_slugs st)"
  have row: "group_model_row ''bootstrap'' default_model_group_id_const now slug \<in> set ?rows" using slug by simp
  have "\<not> row_exists gm_key (ms_group_models st) (gm_key (group_model_row ''bootstrap'' default_model_group_id_const now slug))"
    using assms(4) by (force simp: row_exists_iff gm_key_def group_model_row_def)
  then have "\<not> (\<forall>r\<in>set ?rows. row_exists gm_key (ms_group_models st) (gm_key r)
                             \<or> row_exists mg_id (ms_groups st) (gm_group_id r))"
    using row assms(3) by (force simp: group_model_row_def)
  with assms(1) have "insert_group_models ?rows st = (Inl (ms_refusal st), st)"
    by (simp only: insert_group_models_def ms_exec_if_ok if_False)
  with assms(1,2) show ?thesis
    by (simp add: bootstrap_default_model_group_def insert_default_group_def)
qed

text \<open>
  The state after the default group is replaced and then deleted: the built-in group and its models
  are gone, the other default group is there, and the rest is untouched.
\<close>

lemma replaced_default_gone:
  assumes wf: "groups_wf st" and fault: "ms_fault st = None"
    and other: "mg_is_default g" "mg_id g \<noteq> default_model_group_id_const" "mg_status g = ''active''"
    and st': "st' = snd (delete_model_group default_model_group_id_const (snd (upsert_model_group g st)))"
  shows "\<not> row_exists mg_id (ms_groups st') default_model_group_id_const"
    and "default_model_group_id_const \<notin> gm_group_id ` set (ms_group_models st')"
    and "ms_fault st' = None" and "ms_refusal st' = ms_refusal st" and "ms_catalog st' = ms_catalog st"
    and "\<exists>x\<in>set (ms_groups st'). mg_is_default x"
proof -
  let ?d = default_model_group_id_const
  define st1 where "st1 = snd (upsert_model_group g st)"
  have st1: "st1 = st\<lparr>ms_groups := row_upsert mg_id merge_group g (clear_other_defaults g (ms_groups st))\<rparr>"
    using fault other by (simp add: st1_def upsert_model_group_cleared)
  have wf1: "groups_wf st1" unfolding st1_def by (rule upsert_group_wf [OF wf])
  obtain x where x: "row_find mg_id (ms_groups st1) (mg_id g) = Some x" "mg_is_default x"
    using other(1) by (auto simp: st1 row_find_upsert [where key = mg_id and merge = merge_group] merge_group_def
        split: option.split)
  from wf1 have one: "one_default (ms_groups st1)" unfolding groups_wf_def by blast
  from row_find_SomeD [OF x(1)] have xg: "x \<in> set (ms_groups st1)" "mg_id x = mg_id g" by blast+
  have plain: "\<not> mg_is_default y" if "y \<in> set (ms_groups st1)" "mg_id y = ?d" for y
    using one xg x(2) that other(2) unfolding one_default_def by metis
  have rows: "m \<in> set (ms_group_models st1) \<Longrightarrow> gm_group_id m = ?d \<Longrightarrow> list_ex (\<lambda>g. mg_id g = ?d \<and> \<not> mg_is_default g) (ms_groups st1)" for m
  proof -
    assume m: "m \<in> set (ms_group_models st1)" "gm_group_id m = ?d"
    from wf1 have refs: "gm_group_id ` set (ms_group_models st1) \<subseteq> mg_id ` set (ms_groups st1)"
      unfolding groups_wf_def by (elim conjE)
    from subsetD [OF refs imageI [OF m(1)]] m(2) obtain y where "y \<in> set (ms_groups st1)" "?d = mg_id y"
      unfolding image_iff by (elim bexE) (rule that, assumption, simp only:)
    then have "y \<in> set (ms_groups st1)" "mg_id y = ?d" by (simp_all only:)
    with plain show ?thesis unfolding list_ex_iff by blast
  qed
  have fault1: "ms_fault st1 = None" using fault by (simp add: st1)
  let ?D = "list_ex (\<lambda>g. mg_id g = ?d \<and> \<not> mg_is_default g) (ms_groups st1)"
  have deleted: "st' = (if ?D then st1\<lparr>ms_groups := filter (\<lambda>g. \<not> (mg_id g = ?d \<and> \<not> mg_is_default g)) (ms_groups st1),
                    ms_group_models := filter (\<lambda>m. gm_group_id m \<noteq> ?d) (ms_group_models st1),
                    ms_user_groups := filter (\<lambda>u. ug_group_id u \<noteq> ?d) (ms_user_groups st1)\<rparr> else st1)"
    unfolding st' st1_def [symmetric] delete_model_group_def using fault1 by simp
  show "\<not> row_exists mg_id (ms_groups st') ?d"
  proof (cases ?D)
    case True
    then show ?thesis unfolding deleted row_exists_iff using plain by auto
  next
    case False
    then show ?thesis unfolding deleted row_exists_iff using plain by (auto simp: list_ex_iff)
  qed
  show "?d \<notin> gm_group_id ` set (ms_group_models st')"
  proof (cases ?D)
    case True
    then show ?thesis unfolding deleted by auto
  next
    case False
    with rows have "gm_group_id m \<noteq> ?d" if "m \<in> set (ms_group_models st1)" for m using that by blast
    with False show ?thesis unfolding deleted by (simp add: image_iff) metis
  qed
  have kept: "x \<in> set (ms_groups st')" unfolding deleted using xg x(2) by simp
  show "ms_fault st' = None" "ms_refusal st' = ms_refusal st" "ms_catalog st' = ms_catalog st"
    unfolding deleted using fault1 by (simp_all add: st1)
  show "\<exists>x\<in>set (ms_groups st'). mg_is_default x" using kept x(2) by blast
qed

text \<open>
  C26: a default group that is replaced and then deleted blocks the management of groups. Once
  another group is made the default the built-in group can be deleted; from then on, while the
  catalog has a supported model, listing the groups and saving one both fail with the refusal of the
  database: the built-in group is not put back because a default exists, and its models are inserted
  nevertheless.
\<close>

theorem deleted_default_group_blocks:
  assumes wf: "groups_wf st" and fault: "ms_fault st = None" and models: "supported_slugs st \<noteq> []"
    and other: "mg_is_default g" "mg_id g \<noteq> default_model_group_id_const" "mg_status g = ''active''"
    and st': "st' = snd (delete_model_group default_model_group_id_const (snd (upsert_model_group g st)))"
  shows "fst (result_from_storage now st') = Inl (''load model group list failed: '' @ ms_refusal st)
    \<and> fst (upsert_group p fresh now st') = Inl (''bootstrap default model group failed: '' @ ms_refusal st)"
proof -
  note gone = replaced_default_gone [OF wf fault other st']
  have "bootstrap_default_model_group now st' = (Inl (ms_refusal st'), st')"
    using gone(1-3,5,6) models
    by (intro default_id_missing_blocks) (auto simp: list_ex_iff supported_slugs_def)
  then show ?thesis
    by (simp add: result_from_storage_def load_model_group_list_snapshot_def upsert_group_def gone(4))
qed

theorem deleted_default_group_blocks_witness:
  "fst (result_from_storage 9 (snd (delete_model_group default_model_group_id_const
      (snd (upsert_model_group (demo_group ''other'' True 900) demo_models)))))
     = Inl (''load model group list failed: '' @ ms_refusal demo_models)"
  using deleted_default_group_blocks [OF demo_models_wf _ _ _ _ _ refl, of "demo_group ''other'' True 900" 9]
  by (simp add: demo_group_def) (simp add: demo_models_def supported_slugs_def catalog_supported_def
      demo_catalog_model_def unwrap_or_def sql_trim_def default_model_group_id_const_def)

end
