(* ===== verification/Proxy_Request.thy ===== *)
theory Proxy_Request
  imports Failover_Properties Aggregate_Proxy Request_Gate Model_Groups
begin

text \<open>
  A request from validation to its answer (\<^verbatim>\<open>gateway/upstream/proxy.rs\<close>): which route the
  key's rotation strategy takes, whether the model may and can be served
  (\<^verbatim>\<open>model_route_error\<close>), the candidates of the account pool
  (\<^verbatim>\<open>support/precheck.rs\<close>, \<^verbatim>\<open>support/candidates.rs\<close>), the setup of their requests
  (\<^verbatim>\<open>proxy_pipeline/request_setup.rs\<close>), the request gate
  (\<^verbatim>\<open>proxy_pipeline/request_gate.rs\<close>), the failover over accounts and over aggregate APIs,
  and the answers the gateway gives itself. The bootstrap of model routes
  (\<^verbatim>\<open>apikey_models.rs\<close>), whose result is ignored here, is an oracle that may change the model
  tables in any way.
\<close>

section \<open>The validated request\<close>

record validated_request =
  vr_headers :: header_snapshot
  vr_http_headers :: "(str \<times> str) list"
  vr_path :: str
  vr_passthrough_path :: str
  vr_body :: str
  vr_passthrough_body :: str
  vr_is_stream :: bool
  vr_has_prompt_cache_key :: bool
  vr_protocol :: str
  vr_rotation :: str
  vr_aggregate_api_id :: "str option"
  vr_plan_filter :: "str option"
  vr_method :: str
  vr_key_id :: str
  vr_platform_key_hash :: str
  vr_conversation_id :: "str option"
  vr_conversation_source :: "conversation_source option"
  vr_binding :: "conversation_binding option"
  vr_model :: "str option"
  vr_prefers_raw :: bool

text \<open>
  The state: the accounts' side of the gateway, the log of the channels, the model tables, the
  state of the route strategy, and the answers \<^verbatim>\<open>proxy.rs\<close> gives itself. The clock and the
  counters of requests in flight are shared by both sides.
\<close>

record 'u proxy_world =
  vw_gateway :: gateway_world
  vw_channel_log :: "'u channel_event list"
  vw_models :: model_store
  vw_route :: route_state
  vw_answers :: "(nat \<times> str) list"

record 'u proxy_env =
  ve_gateway :: gateway_env
  ve_channels :: "'u channel_env"
  ve_bootstrap_accounts :: "nat \<Rightarrow> bool \<Rightarrow> model_store \<Rightarrow> model_store"
  ve_bootstrap_channels :: "nat \<Rightarrow> model_store \<Rightarrow> model_store"
  ve_gate_try :: "nat \<Rightarrow> gate_error + bool"
  ve_gate_wait :: "nat \<Rightarrow> nat option \<Rightarrow> gate_error + bool"
  ve_gate_timeout :: "nat option"
  ve_total_timeout :: "nat option"
  ve_stream_timeout :: "nat option"
  ve_upstream_base :: str
  ve_compact_api_path :: str
  ve_max_inflight :: nat
  ve_sticky :: "header_snapshot \<Rightarrow> str option"
  ve_tools :: body_tools
  ve_hint :: "response \<Rightarrow> str"

type_synonym ('u, 'a) proxy_step = "('u proxy_world, 'a) state"

definition zoom_gateway :: "'a gateway \<Rightarrow> ('u, 'a) proxy_step" where
  "zoom_gateway m = State (\<lambda>w. case run_state m (vw_gateway w) of (x, g) \<Rightarrow> (x, w\<lparr>vw_gateway := g\<rparr>))"

definition channel_view :: "'u proxy_world \<Rightarrow> 'u channel_world" where
  "channel_view w = \<lparr>cw_tick = gw_tick (vw_gateway w), cw_inflight = gw_inflight (vw_gateway w), cw_log = vw_channel_log w\<rparr>"

definition zoom_channels :: "('u, 'a) channel_step \<Rightarrow> ('u, 'a) proxy_step" where
  "zoom_channels m = State (\<lambda>w. case run_state m (channel_view w) of (x, c) \<Rightarrow>
     (x, w\<lparr>vw_gateway := (vw_gateway w)\<lparr>gw_tick := cw_tick c, gw_inflight := cw_inflight c\<rparr>, vw_channel_log := cw_log c\<rparr>))"

definition ask_proxy :: "(nat \<Rightarrow> 'a) \<Rightarrow> ('u, 'a) proxy_step" where "ask_proxy f = zoom_gateway (ask f)"

definition if_ok :: "('u, 'e + 'a) proxy_step \<Rightarrow> ('a \<Rightarrow> ('u, 'e + 'b) proxy_step) \<Rightarrow> ('u, 'e + 'b) proxy_step" where
  "if_ok m f = do { r \<leftarrow> m; (case r of Inl e \<Rightarrow> State_Monad.return (Inl e) | Inr x \<Rightarrow> f x) }"

definition answer :: "validated_request \<Rightarrow> nat \<Rightarrow> str \<Rightarrow> ('u, unit) proxy_step" where
  "answer v status message =
     modify (\<lambda>w. w\<lparr>vw_answers := vw_answers w @ [(status, error_message_for_client (vr_prefers_raw v) message)]\<rparr>)"

section \<open>May the model be served\<close>

definition source_kinds_for_route :: "route_kind \<Rightarrow> str list" where
  "source_kinds_for_route route =
     (case route of RouteAccountRotation \<Rightarrow> [''openai_account''] | RouteAggregateApi \<Rightarrow> [''aggregate_api'']
      | RouteHybridAccountFirst \<Rightarrow> [''openai_account'', ''aggregate_api''])"

definition plan_can_refresh_account_catalog :: "route_kind \<Rightarrow> bool" where
  "plan_can_refresh_account_catalog route \<longleftrightarrow> route = RouteAccountRotation \<or> route = RouteHybridAccountFirst"

definition bootstrap_accounts :: "'u proxy_env \<Rightarrow> bool \<Rightarrow> ('u, unit) proxy_step" where
  "bootstrap_accounts env remote = do {
     change \<leftarrow> ask_proxy (\<lambda>n. ve_bootstrap_accounts env n remote);
     modify (\<lambda>w. w\<lparr>vw_models := change (vw_models w)\<rparr>) }"

definition bootstrap_channels :: "'u proxy_env \<Rightarrow> ('u, unit) proxy_step" where
  "bootstrap_channels env = do {
     change \<leftarrow> ask_proxy (ve_bootstrap_channels env);
     modify (\<lambda>w. w\<lparr>vw_models := change (vw_models w)\<rparr>) }"

definition bootstrap_model_routes_for_plan :: "'u proxy_env \<Rightarrow> route_kind \<Rightarrow> bool \<Rightarrow> ('u, unit) proxy_step" where
  "bootstrap_model_routes_for_plan env route remote =
     (case route of
        RouteAccountRotation \<Rightarrow> bootstrap_accounts env remote
      | RouteAggregateApi \<Rightarrow> bootstrap_channels env
      | RouteHybridAccountFirst \<Rightarrow> do { bootstrap_accounts env remote; bootstrap_channels env })"

fun direct_upstream_model_matches_route :: "model_store \<Rightarrow> str \<Rightarrow> str list \<Rightarrow> str + bool" where
  "direct_upstream_model_matches_route st model [] = Inr False"
| "direct_upstream_model_matches_route st model (kind # kinds) =
     sum_bind (list_available_source_model_ids_by_upstream_model st kind model) (\<lambda>ids.
       if ids \<noteq> [] then Inr True else direct_upstream_model_matches_route st model kinds)"

text \<open>A lookup that is repeated after a remote refresh when it found nothing.\<close>

definition lookup_with_refresh ::
    "'u proxy_env \<Rightarrow> route_kind \<Rightarrow> str \<Rightarrow> (model_store \<Rightarrow> str + bool) \<Rightarrow> ('u, nat \<times> str + bool) proxy_step" where
  "lookup_with_refresh env route failed look =
     (let query = (do { st \<leftarrow> gets vw_models; State_Monad.return (case look st of Inl e \<Rightarrow> Inl (500, failed @ e) | Inr b \<Rightarrow> Inr b) })
      in if_ok query (\<lambda>found.
           if \<not> found \<and> plan_can_refresh_account_catalog route
           then do { bootstrap_model_routes_for_plan env route True; query }
           else State_Monad.return (Inr found)))"

definition model_route_error :: "'u proxy_env \<Rightarrow> validated_request \<Rightarrow> route_kind \<Rightarrow> ('u, nat \<times> str + unit) proxy_step" where
  "model_route_error env v route =
     (case trimmed_nonempty (vr_model v) of
        None \<Rightarrow> State_Monad.return (Inr ())
      | Some model \<Rightarrow> do {
          bootstrap_model_routes_for_plan env route False;
          if_ok (lookup_with_refresh env route ''model_catalog_read_failed: ''
                  (\<lambda>st. model_catalog_model_exists st ''default'' model)) (\<lambda>known.
          if \<not> known then State_Monad.return (Inl (404, ''model_not_found: '' @ model))
          else do {
            now \<leftarrow> ask_proxy (ge_now (ve_gateway env));
            st \<leftarrow> gets vw_models;
            (case resolve_api_key_model_group_access st now (vr_key_id v) model of
               Inl e \<Rightarrow> State_Monad.return (Inl (if str_contains e ''model_not_allowed'' then 403 else 500, e))
             | Inr _ \<Rightarrow>
                 if_ok (lookup_with_refresh env route ''source_model_read_failed: ''
                         (\<lambda>st. direct_upstream_model_matches_route st model (source_kinds_for_route route))) (\<lambda>served.
                 State_Monad.return (if served then Inr () else Inl (503, ''model_unavailable: '' @ model)))) }) })"

section \<open>Aggregate candidates\<close>

definition resolve_active_explicit_aggregate_candidate ::
    "model_store \<Rightarrow> str option \<Rightarrow> str + aggregate_api option" where
  "resolve_active_explicit_aggregate_candidate st i =
     (case trimmed_nonempty i of
        None \<Rightarrow> Inr None
      | Some j \<Rightarrow> sum_bind (map_err ''find explicit aggregate api failed: '' (find_aggregate_api_by_id st j)) (\<lambda>c.
          Inr (case c of None \<Rightarrow> None
               | Some api \<Rightarrow> if eq_ignore_ascii_case (trim (ag_status api)) ''active'' then Some api else None)))"

definition apply_aggregate_model_filter ::
    "model_store \<Rightarrow> aggregate_api list \<Rightarrow> str option \<Rightarrow> str + aggregate_api list" where
  "apply_aggregate_model_filter st cs model =
     (case trimmed_nonempty model of
        None \<Rightarrow> Inr cs
      | Some m \<Rightarrow>
          sum_bind (map_err ''list aggregate source models failed: ''
              (list_available_source_model_ids_by_upstream_model st ''aggregate_api'' m)) (\<lambda>ids.
            (let kept = filter (\<lambda>c. ag_id c \<in> set ids) cs
             in if kept = [] then Inl (''model_unavailable: '' @ m) else Inr kept)))"

definition resolve_aggregate_candidates_for_route ::
    "model_store \<Rightarrow> str \<Rightarrow> str option \<Rightarrow> str option \<Rightarrow> str + aggregate_api list" where
  "resolve_aggregate_candidates_for_route st protocol i model =
     sum_bind (resolve_active_explicit_aggregate_candidate st i) (\<lambda>explicit.
     sum_bind (case resolve_aggregate_api_rotation_candidates st protocol i of
                 Inr cs \<Rightarrow> Inr cs
               | Inl e \<Rightarrow> if explicit \<noteq> None then Inr [] else Inl e) (\<lambda>cs.
       apply_aggregate_model_filter st
         (case explicit of None \<Rightarrow> cs | Some c \<Rightarrow> c # filter (\<lambda>x. ag_id x \<noteq> ag_id c) cs) model))"

definition hybrid_route_error_message :: "str option \<Rightarrow> str \<Rightarrow> str" where
  "hybrid_route_error_message account_error aggregate_error =
     (let head = map char_of [0xE8, 0xB4, 0xA6, 0xE5, 0x8F, 0xB7, 0xE6, 0xB1, 0xA0, 0xE4, 0xB8, 0x8E, 0xE8, 0x81, 0x9A, 0xE5, 0x90, 0x88 :: nat] @ '' API '' @ map char_of [0xE5, 0x9D, 0x87, 0xE4, 0xB8, 0x8D, 0xE5, 0x8F, 0xAF, 0xE7, 0x94, 0xA8 :: nat]; tail = map char_of [0xEF, 0xBC, 0x9B, 0xE8, 0x81, 0x9A, 0xE5, 0x90, 0x88 :: nat] @ '' API'' @ map char_of [0xEF, 0xBC, 0x9A :: nat]
      in case trimmed_nonempty account_error of
           Some e \<Rightarrow> bilingual_error (head @ map char_of [0xEF, 0xBC, 0x9A :: nat] @ e @ tail @ aggregate_error)
             (''account pool and aggregate api are unavailable: '' @ e @ ''; aggregate api: '' @ aggregate_error)
         | None \<Rightarrow> bilingual_error (head @ tail @ aggregate_error)
             (''account pool and aggregate api are unavailable; aggregate api: '' @ aggregate_error))"

datatype proxy_outcome = PrOk | PrErr str | PrPanic

definition proxy_with_aggregate_candidates ::
    "'u proxy_env \<Rightarrow> validated_request \<Rightarrow> str \<Rightarrow> str \<Rightarrow> nat option \<Rightarrow> aggregate_api list \<Rightarrow> ('u, proxy_outcome) proxy_step" where
  "proxy_with_aggregate_candidates env v path body deadline cs = do {
     now \<leftarrow> ask_proxy (ge_instant (ve_gateway env));
     ordered \<leftarrow> State (\<lambda>w. (case apply_gateway_route_strategy_to_aggregate_candidates (ge_process (ve_gateway env)) cs
                   (vr_key_id v) (vr_model v) (vr_aggregate_api_id v) now (vw_route w) of
                 (cs', s) \<Rightarrow> (cs', w\<lparr>vw_route := s\<rparr>)));
     st \<leftarrow> gets vw_models;
     r \<leftarrow> zoom_channels (proxy_aggregate_request (ve_channels env)
            \<lparr>px_key_id = vr_key_id v, px_path = path,
             px_request = \<lparr>cr_method = vr_method v, cr_headers = vr_http_headers v, cr_body = body, cr_is_stream = vr_is_stream v\<rparr>,
             px_adapter = Passthrough, px_model = vr_model v, px_deadline = deadline,
             px_prefers_raw = vr_prefers_raw v\<rparr> st ordered);
     State_Monad.return (case r of Inl e \<Rightarrow> PrErr e | Inr _ \<Rightarrow> PrOk) }"

definition aggregate_route ::
    "'u proxy_env \<Rightarrow> validated_request \<Rightarrow> str \<Rightarrow> str \<Rightarrow> nat option \<Rightarrow> (str \<Rightarrow> str) \<Rightarrow> ('u, proxy_outcome) proxy_step" where
  "aggregate_route env v path body deadline message = do {
     st \<leftarrow> gets vw_models;
     (case resolve_aggregate_candidates_for_route st (vr_protocol v) (vr_aggregate_api_id v) (vr_model v) of
        Inr cs \<Rightarrow> proxy_with_aggregate_candidates env v path body deadline cs
      | Inl e \<Rightarrow> do { answer v 404 (message e); State_Monad.return PrOk }) }"

section \<open>The candidates of the account pool\<close>

definition low_quota_candidate_mode_for_protocol :: "str \<Rightarrow> low_quota_mode" where
  "low_quota_candidate_mode_for_protocol protocol =
     (if protocol = protocol_anthropic_native then AppendFallback else NormalOnly)"

definition collect_candidates ::
    "'u proxy_env \<Rightarrow> low_quota_mode \<Rightarrow> str list option \<Rightarrow> ('u, str + (account \<times> token) list) proxy_step" where
  "collect_candidates env mode ids = do {
     now \<leftarrow> ask_proxy (ge_now (ve_gateway env));
     read_at \<leftarrow> ask_proxy (ge_instant (ve_gateway env));
     written_at \<leftarrow> ask_proxy (ge_instant (ve_gateway env));
     zoom_gateway (with_accounts (let pe = ge_process (ve_gateway env); dc = ge_decoders (ve_gateway env) in
       case ids of
         Some l \<Rightarrow> collect_gateway_candidates_for_accounts_with_low_quota_mode pe dc l mode now
       | None \<Rightarrow> collect_gateway_candidates_with_low_quota_mode pe dc mode now (read_at, written_at))) }"

definition account_source_ids_for_model :: "model_store \<Rightarrow> str \<Rightarrow> str + str list" where
  "account_source_ids_for_model st model =
     map_err ''list source models by upstream model failed: ''
       (list_available_source_model_ids_by_upstream_model st ''openai_account'' model)"

definition filter_by_plan ::
    "decoders \<Rightarrow> store \<Rightarrow> str option \<Rightarrow> (account \<times> token) list \<Rightarrow> str + (account \<times> token) list" where
  "filter_by_plan dc st plan_filter cs =
     (case trimmed_nonempty plan_filter of
        None \<Rightarrow> Inr cs
      | Some f \<Rightarrow>
          if eq_ignore_ascii_case f ''all'' then Inr cs
          else sum_bind (map_err ''list account usage snapshots failed: ''
                 (latest_usage_snapshots_for_accounts st (map (\<lambda>c. acc_id (fst c)) cs))) (\<lambda>us.
            Inr (filter (\<lambda>(a, t). account_matches_plan_filter_with_snapshot dc t
                   (map_of (rev (map (\<lambda>u. (us_account_id u, u)) us)) (acc_id a)) (Some f)) cs)))"

definition prepare_gateway_candidates ::
    "'u proxy_env \<Rightarrow> validated_request \<Rightarrow> low_quota_mode \<Rightarrow> ('u, str + (account \<times> token) list) proxy_step" where
  "prepare_gateway_candidates env v mode =
     if_ok (case trimmed_nonempty (vr_model v) of
              None \<Rightarrow> State_Monad.return (Inr None)
            | Some model \<Rightarrow> do {
                bootstrap_accounts env False;
                st \<leftarrow> gets vw_models;
                State_Monad.return (sum_bind (account_source_ids_for_model st model) (\<lambda>ids. Inr (Some ids))) })
       (\<lambda>ids. if_ok (collect_candidates env mode ids) (\<lambda>cs. do {
          st \<leftarrow> gets (\<lambda>w. gw_store (vw_gateway w));
          State_Monad.return (filter_by_plan (ge_decoders (ve_gateway env)) st (vr_plan_filter v) cs) }))"

datatype precheck = PreReady "(account \<times> token) list" | PreEmpty | PreResponded

definition no_account_message :: str where
  "no_account_message = bilingual_error (map char_of [0xE6, 0x97, 0xA0, 0xE5, 0x8F, 0xAF, 0xE7, 0x94, 0xA8, 0xE8, 0xB4, 0xA6, 0xE5, 0x8F, 0xB7 :: nat]) ''no available account''"

definition prepare_candidates_for_proxy :: "'u proxy_env \<Rightarrow> validated_request \<Rightarrow> bool \<Rightarrow> ('u, precheck) proxy_step" where
  "prepare_candidates_for_proxy env v respond_when_empty = do {
     r \<leftarrow> prepare_gateway_candidates env v (low_quota_candidate_mode_for_protocol (vr_protocol v));
     (case r of
        Inl e \<Rightarrow> do {
          answer v 500 (bilingual_error (map char_of [0xE5, 0x80, 0x99, 0xE9, 0x80, 0x89, 0xE8, 0xB4, 0xA6, 0xE5, 0x8F, 0xB7, 0xE8, 0xA7, 0xA3, 0xE6, 0x9E, 0x90, 0xE5, 0xA4, 0xB1, 0xE8, 0xB4, 0xA5 :: nat]) (''candidate resolve failed: '' @ e));
          State_Monad.return PreResponded }
      | Inr cs \<Rightarrow>
          if cs \<noteq> [] then State_Monad.return (PreReady cs)
          else if \<not> respond_when_empty then State_Monad.return PreEmpty
          else do { answer v 503 no_account_message; State_Monad.return PreResponded }) }"

section \<open>The setup of the requests\<close>

definition rotate_candidates ::
    "'u proxy_env \<Rightarrow> validated_request \<Rightarrow> (account \<times> token) list \<Rightarrow> routing_context option
       \<Rightarrow> ('u, rotation_plan \<times> (account \<times> token) list) proxy_step" where
  "rotate_candidates env v cs routing = do {
     start \<leftarrow> ask_proxy (ge_instant (ve_gateway env));
     p2c \<leftarrow> ask_proxy (ge_instant (ve_gateway env));
     score0 \<leftarrow> ask_proxy (ge_now (ve_gateway env));
     score1 \<leftarrow> ask_proxy (ge_now (ve_gateway env));
     State (\<lambda>w. (case apply_candidate_rotation (ge_process (ve_gateway env)) (Some (gw_store (vw_gateway w))) cs routing
              (vr_key_id v) (vr_model v) \<lparr>rt_start = start, rt_p2c = p2c, rt_score0 = score0, rt_score1 = score1\<rparr>
              (vw_route w, gw_quality (vw_gateway w)) of
            (r, s, q) \<Rightarrow> (r, w\<lparr>vw_route := s, vw_gateway := (vw_gateway w)\<lparr>gw_quality := q\<rparr>\<rparr>))) }"

definition prepare_request_setup ::
    "'u proxy_env \<Rightarrow> validated_request \<Rightarrow> (account \<times> token) list
       \<Rightarrow> ('u, request_setup \<times> (account \<times> token) list) proxy_step" where
  "prepare_request_setup env v cs0 = do {
     st \<leftarrow> gets (\<lambda>w. gw_store (vw_gateway w));
     (let base = ve_upstream_base env;
          (url, url_alt) = compute_upstream_url (ve_compact_api_path env) base (vr_path v);
          (routing, cs1) = prepare_conversation_routing_with_source (Some st) (vr_platform_key_hash v)
             (vr_conversation_id v) (vr_binding v) cs0 (unwrap_or (vr_conversation_source v) StickyFallback)
      in do {
        (plan, cs2) \<leftarrow> rotate_candidates env v cs1 routing;
        State_Monad.return
          (\<lparr>su_upstream_base = base, su_fallback_base = resolve_upstream_fallback_base_url base,
            su_url = url, su_url_alt = url_alt, su_candidate_count = length cs0, su_max_inflight = ve_max_inflight env,
            su_anthropic_has_anchor = (vr_protocol v = protocol_anthropic_native \<and> (vr_has_prompt_cache_key v \<or> routing \<noteq> None)),
            su_sticky_session = False, su_sticky_conversation = (ve_sticky env (vr_headers v) \<noteq> None),
            su_encrypted = body_has_encrypted_content_hint (vr_body v), su_routing = routing,
            su_strategy_label = rp_strategy_label plan, su_source_label = rotation_source_str (rp_source plan)\<rparr>, cs2) }) }"

section \<open>The request gate\<close>

text \<open>
  How long a request waits for the gate of its key: \<open>None\<close> when it does not wait at all,
  \<open>Some None\<close> without a bound. The value of \<open>acquire_request_gate\<close> tells whether it holds the gate;
  a request that does not get it goes on all the same.
\<close>

definition gate_wait :: "nat option \<Rightarrow> nat option \<Rightarrow> nat \<Rightarrow> nat option option" where
  "gate_wait timeout deadline now =
     (case timeout of
        Some t \<Rightarrow> (case cap_wait t deadline now of
                     Some e \<Rightarrow> if e = 0 then None else Some (Some e) | None \<Rightarrow> None)
      | None \<Rightarrow> (case remaining deadline now of
                   Some r \<Rightarrow> if r = 0 then None else Some (Some r) | None \<Rightarrow> Some None))"

definition acquire_request_gate :: "'u proxy_env \<Rightarrow> nat option \<Rightarrow> ('u, bool) proxy_step" where
  "acquire_request_gate env deadline = do {
     first \<leftarrow> ask_proxy (ve_gate_try env);
     (case first of
        Inl _ \<Rightarrow> State_Monad.return False
      | Inr True \<Rightarrow> State_Monad.return True
      | Inr False \<Rightarrow> do {
          now \<leftarrow> ask_proxy (ge_instant (ve_gateway env));
          (case gate_wait (ve_gate_timeout env) deadline now of
             None \<Rightarrow> State_Monad.return False
           | Some limit \<Rightarrow> do {
               r \<leftarrow> ask_proxy (\<lambda>n. ve_gate_wait env n limit);
               State_Monad.return (case r of Inr b \<Rightarrow> b | Inl _ \<Rightarrow> False) }) }) }"

section \<open>The request\<close>

definition exhausted_gateway_error_for_log :: "loop_state \<Rightarrow> str" where
  "exhausted_gateway_error_for_log ls =
     (let cooldown = ls_skipped_cooldown ls; inflight = ls_skipped_inflight ls;
          kind = (if ls_attempted ls \<noteq> [] then ''no_available_account_exhausted''
                  else if 0 < cooldown \<and> 0 < inflight then ''no_available_account_skipped''
                  else if 0 < cooldown then ''no_available_account_cooldown''
                  else if 0 < inflight then ''no_available_account_inflight''
                  else ''no_available_account'')
      in join ''; ''
           ([no_account_message, ''kind='' @ kind]
            @ (if ls_attempted ls \<noteq> [] then [''attempted='' @ join '','' (ls_attempted ls)] else [])
            @ (if 0 < cooldown \<or> 0 < inflight
               then [''skipped(cooldown='' @ dec cooldown @ '', inflight='' @ dec inflight @ '')''] else [])
            @ (case trimmed_nonempty (ls_last_error ls) of None \<Rightarrow> [] | Some e \<Rightarrow> [''last_attempt='' @ e])))"

definition sequence_params_for ::
    "'u proxy_env \<Rightarrow> validated_request \<Rightarrow> request_setup \<Rightarrow> nat option \<Rightarrow> sequence_params" where
  "sequence_params_for env v setup deadline =
     \<lparr>sp_headers = vr_headers v, sp_body = vr_body v, sp_path = vr_path v, sp_request_path = vr_path v,
      sp_prefers_raw = vr_prefers_raw v, sp_protocol = vr_protocol v, sp_model_for_log = vr_model v,
      sp_setup = setup, sp_count = su_candidate_count setup, sp_max_inflight = su_max_inflight setup,
      sp_deadline = deadline, sp_client_is_stream = vr_is_stream v,
      sp_upstream_is_stream = resolve_upstream_is_stream (vr_is_stream v) (vr_path v),
      sp_allow_fallback = (su_fallback_base setup \<noteq> None),
      sp_disable_stateless = (\<not> (vr_protocol v = protocol_anthropic_native \<and> length (vr_body v) \<le> 2 * 1024)
         \<and> \<not> str_starts_with (vr_path v) ''/v1/responses''),
      sp_tools = ve_tools env, sp_hint = ve_hint env\<rparr>"

text \<open>The end of an account rotation that no candidate answered.\<close>

definition after_exhaustion ::
    "'u proxy_env \<Rightarrow> validated_request \<Rightarrow> route_kind \<Rightarrow> str \<Rightarrow> nat option \<Rightarrow> loop_state \<Rightarrow> ('u, proxy_outcome) proxy_step" where
  "after_exhaustion env v route base deadline ls =
     (let final_error = exhausted_gateway_error_for_log ls in
      if route = RouteHybridAccountFirst
      then aggregate_route env v (vr_passthrough_path v) (vr_passthrough_body v) deadline
             (hybrid_route_error_message (Some final_error))
      else do {
        zoom_gateway (log_event (EvFinal None (or_else (ls_last_url ls) (Some base)) 503 (Some final_error) (ls_attempted ls)));
        answer v 503 no_account_message;
        State_Monad.return PrOk })"

definition account_route ::
    "'u proxy_env \<Rightarrow> validated_request \<Rightarrow> route_kind \<Rightarrow> nat option \<Rightarrow> ('u, proxy_outcome) proxy_step" where
  "account_route env v route deadline = do {
     pre \<leftarrow> prepare_candidates_for_proxy env v (route \<noteq> RouteHybridAccountFirst);
     (case pre of
        PreResponded \<Rightarrow> State_Monad.return PrOk
      | PreEmpty \<Rightarrow> aggregate_route env v (vr_passthrough_path v) (vr_passthrough_body v) deadline
          (hybrid_route_error_message (Some no_account_message))
      | PreReady cs0 \<Rightarrow> do {
          (setup, cs) \<leftarrow> prepare_request_setup env v cs0;
          acquire_request_gate env deadline;
          r \<leftarrow> zoom_gateway (execute_candidate_sequence (ve_gateway env) (sequence_params_for env v setup deadline) cs);
          (case r of
             SeqHandled \<Rightarrow> State_Monad.return PrOk
           | SeqErr e \<Rightarrow> State_Monad.return (PrErr e)
           | SeqPanic \<Rightarrow> State_Monad.return PrPanic
           | SeqExhausted ls \<Rightarrow> after_exhaustion env v route (su_upstream_base setup) deadline ls) }) }"

definition proxy_validated_request :: "'u proxy_env \<Rightarrow> validated_request \<Rightarrow> ('u, proxy_outcome) proxy_step" where
  "proxy_validated_request env v = do {
     started \<leftarrow> ask_proxy (ge_instant (ve_gateway env));
     (let deadline = request_deadline_for_path (ve_total_timeout env) (ve_stream_timeout env) started (vr_is_stream v) (vr_path v);
          route = xp_route (resolve_gateway_upstream_execution_plan (vr_protocol v) (vr_rotation v))
      in do {
        checked \<leftarrow> model_route_error env v route;
        (case checked of
           Inl (status, message) \<Rightarrow> do { answer v status message; State_Monad.return PrOk }
         | Inr _ \<Rightarrow>
             if route = RouteAggregateApi then aggregate_route env v (vr_path v) (vr_body v) deadline (\<lambda>e. e)
             else account_route env v route deadline) }) }"

section \<open>What a request does\<close>

text \<open>
  The stores the bootstraps may lead to, from the store at the start.
\<close>

inductive bootstrapped :: "'u proxy_env \<Rightarrow> model_store \<Rightarrow> model_store \<Rightarrow> bool" for env st0 where
  start: "bootstrapped env st0 st0"
| accounts: "bootstrapped env st0 st \<Longrightarrow> bootstrapped env st0 (ve_bootstrap_accounts env n remote st)"
| channels: "bootstrapped env st0 st \<Longrightarrow> bootstrapped env st0 (ve_bootstrap_channels env n st)"

text \<open>
  \<open>proxy_spec S m Q\<close>: from a state whose model tables are in \<open>S\<close>, \<open>m\<close> leads to one whose model
  tables are in \<open>S\<close>; it appends to the logs and to the answers of the gateway's own, and its value
  and what it appends satisfy \<open>Q\<close>; and the counters of requests in flight are what they were.
\<close>

definition proxy_spec ::
    "model_store set \<Rightarrow> ('u, 'a) proxy_step
       \<Rightarrow> ('a \<Rightarrow> event list \<Rightarrow> 'u channel_event list \<Rightarrow> (nat \<times> str) list \<Rightarrow> bool) \<Rightarrow> bool" where
  "proxy_spec S m Q \<longleftrightarrow> (\<forall>w x w'. vw_models w \<in> S \<longrightarrow> run_state m w = (x, w') \<longrightarrow>
     vw_models w' \<in> S \<and> inflight_of (vw_gateway w') = inflight_of (vw_gateway w)
     \<and> (\<exists>es cs ans. gw_log (vw_gateway w') = gw_log (vw_gateway w) @ es \<and> vw_channel_log w' = vw_channel_log w @ cs
          \<and> vw_answers w' = vw_answers w @ ans \<and> Q x es cs ans))"

definition quiet :: "('a \<Rightarrow> bool) \<Rightarrow> 'a \<Rightarrow> event list \<Rightarrow> 'u channel_event list \<Rightarrow> (nat \<times> str) list \<Rightarrow> bool" where
  "quiet R x es cs ans \<longleftrightarrow> R x \<and> es = [] \<and> cs = [] \<and> ans = []"

abbreviation always :: "'a \<Rightarrow> bool" where "always \<equiv> \<lambda>_. True"

lemma proxy_specI:
  assumes "\<And>w x w'. vw_models w \<in> S \<Longrightarrow> run_state m w = (x, w') \<Longrightarrow>
     vw_models w' \<in> S \<and> inflight_of (vw_gateway w') = inflight_of (vw_gateway w)
     \<and> (\<exists>es cs ans. gw_log (vw_gateway w') = gw_log (vw_gateway w) @ es \<and> vw_channel_log w' = vw_channel_log w @ cs
          \<and> vw_answers w' = vw_answers w @ ans \<and> Q x es cs ans)"
  shows "proxy_spec S m Q"
  using assms unfolding proxy_spec_def by blast

lemma proxy_spec_bind:
  assumes m: "proxy_spec S m P"
    and f: "\<And>x es cs ans. P x es cs ans \<Longrightarrow> proxy_spec S (f x) (\<lambda>y fs ds bns. Q y (es @ fs) (cs @ ds) (ans @ bns))"
  shows "proxy_spec S (State_Monad.bind m f) Q"
proof (rule proxy_specI)
  fix w y w2 assume S: "vw_models w \<in> S" and run: "run_state (State_Monad.bind m f) w = (y, w2)"
  obtain x w' where r: "run_state m w = (x, w')" by fastforce
  with run have r2: "run_state (f x) w' = (y, w2)" by simp
  from m S r obtain es cs ans where one: "vw_models w' \<in> S" "inflight_of (vw_gateway w') = inflight_of (vw_gateway w)"
      "gw_log (vw_gateway w') = gw_log (vw_gateway w) @ es" "vw_channel_log w' = vw_channel_log w @ cs"
      "vw_answers w' = vw_answers w @ ans" "P x es cs ans"
    unfolding proxy_spec_def by blast
  from f [OF one(6)] one(1) r2 obtain fs ds bns where two: "vw_models w2 \<in> S"
      "inflight_of (vw_gateway w2) = inflight_of (vw_gateway w')"
      "gw_log (vw_gateway w2) = gw_log (vw_gateway w') @ fs" "vw_channel_log w2 = vw_channel_log w' @ ds"
      "vw_answers w2 = vw_answers w' @ bns" "Q y (es @ fs) (cs @ ds) (ans @ bns)"
    unfolding proxy_spec_def by blast
  with one show "vw_models w2 \<in> S \<and> inflight_of (vw_gateway w2) = inflight_of (vw_gateway w)
     \<and> (\<exists>es cs ans. gw_log (vw_gateway w2) = gw_log (vw_gateway w) @ es \<and> vw_channel_log w2 = vw_channel_log w @ cs
          \<and> vw_answers w2 = vw_answers w @ ans \<and> Q y es cs ans)" by auto
qed

lemma proxy_spec_return: "Q x [] [] [] \<Longrightarrow> proxy_spec S (State_Monad.return x) Q"
  by (rule proxy_specI) simp

lemma proxy_spec_quiet_return: "R x \<Longrightarrow> proxy_spec S (State_Monad.return x) (quiet R)"
  by (rule proxy_spec_return) (simp add: quiet_def)

lemma proxy_spec_then:
  assumes "proxy_spec S m (quiet R)" "\<And>x. R x \<Longrightarrow> proxy_spec S (f x) Q"
  shows "proxy_spec S (State_Monad.bind m f) Q"
  using assms by (intro proxy_spec_bind [OF assms(1)]) (auto simp: quiet_def)

lemma proxy_spec_if:
  "(b \<Longrightarrow> proxy_spec S m Q) \<Longrightarrow> (\<not> b \<Longrightarrow> proxy_spec S n Q) \<Longrightarrow> proxy_spec S (if b then m else n) Q"
  by simp

lemma proxy_spec_sum:
  "(\<And>e. r = Inl e \<Longrightarrow> proxy_spec S (f e) Q) \<Longrightarrow> (\<And>x. r = Inr x \<Longrightarrow> proxy_spec S (g x) Q)
     \<Longrightarrow> proxy_spec S (case r of Inl e \<Rightarrow> f e | Inr x \<Rightarrow> g x) Q"
  by (cases r) simp_all

text \<open>A step that leaves the logs, the answers, the model tables and the counters alone.\<close>

lemma proxy_spec_silent:
  assumes "\<And>w x w'. vw_models w \<in> S \<Longrightarrow> run_state m w = (x, w') \<Longrightarrow> R x \<and> vw_models w' \<in> S
     \<and> gw_log (vw_gateway w') = gw_log (vw_gateway w) \<and> gw_inflight (vw_gateway w') = gw_inflight (vw_gateway w)
     \<and> vw_channel_log w' = vw_channel_log w \<and> vw_answers w' = vw_answers w"
  shows "proxy_spec S m (quiet R)"
proof (rule proxy_specI)
  fix w x w' assume "vw_models w \<in> S" "run_state m w = (x, w')"
  from assms [OF this] show "vw_models w' \<in> S \<and> inflight_of (vw_gateway w') = inflight_of (vw_gateway w)
     \<and> (\<exists>es cs ans. gw_log (vw_gateway w') = gw_log (vw_gateway w) @ es \<and> vw_channel_log w' = vw_channel_log w @ cs
          \<and> vw_answers w' = vw_answers w @ ans \<and> quiet R x es cs ans)"
    by (simp add: inflight_of_def quiet_def)
qed

lemma proxy_spec_gets: "proxy_spec S (gets h) (quiet always)"
  by (rule proxy_spec_silent) auto

lemma proxy_spec_models: "proxy_spec S (gets vw_models) (quiet (\<lambda>st. st \<in> S))"
  by (rule proxy_spec_silent) auto

lemma proxy_spec_ask: "proxy_spec S (ask_proxy h) (quiet always)"
  by (rule proxy_spec_silent) (auto simp: ask_proxy_def zoom_gateway_def)

lemma proxy_spec_answer:
  "proxy_spec S (answer v status message) (\<lambda>_ es cs ans. es = [] \<and> cs = [] \<and>
     ans = [(status, error_message_for_client (vr_prefers_raw v) message)])"
  by (rule proxy_specI) (auto simp: answer_def)

text \<open>A step of the accounts' side, and one of the channels' side.\<close>

lemma proxy_spec_gateway:
  assumes "\<And>g x g'. run_state m g = (x, g') \<Longrightarrow>
     inflight_of g' = inflight_of g \<and> (\<exists>es. gw_log g' = gw_log g @ es \<and> P x es)"
  shows "proxy_spec S (zoom_gateway m) (\<lambda>x es cs ans. P x es \<and> cs = [] \<and> ans = [])"
proof (rule proxy_specI)
  fix w x w' assume S: "vw_models w \<in> S" and run: "run_state (zoom_gateway m) w = (x, w')"
  obtain y g where r: "run_state m (vw_gateway w) = (y, g)" by fastforce
  with run have w': "x = y" "w' = w\<lparr>vw_gateway := g\<rparr>" by (simp_all add: zoom_gateway_def)
  with S assms [OF r] show "vw_models w' \<in> S \<and> inflight_of (vw_gateway w') = inflight_of (vw_gateway w)
     \<and> (\<exists>es cs ans. gw_log (vw_gateway w') = gw_log (vw_gateway w) @ es \<and> vw_channel_log w' = vw_channel_log w @ cs
          \<and> vw_answers w' = vw_answers w @ ans \<and> P x es \<and> cs = [] \<and> ans = [])" by auto
qed

lemma proxy_spec_channels:
  assumes "channel_spec k m P"
  shows "proxy_spec S (zoom_channels m) (\<lambda>x es cs ans. P x (channel_replies cs) \<and> es = [] \<and> ans = [])"
proof (rule proxy_specI)
  fix w x w' assume S: "vw_models w \<in> S" and run: "run_state (zoom_channels m) w = (x, w')"
  obtain y c where r: "run_state m (channel_view w) = (y, c)" by fastforce
  with assms obtain cs where cs: "cw_log c = cw_log (channel_view w) @ cs" "P y (channel_replies cs)"
    "account_inflight_count (cw_inflight c) = account_inflight_count (cw_inflight (channel_view w))"
    unfolding channel_spec_def by (metis fst_conv snd_conv)
  have "x = y" and w': "w' = w\<lparr>vw_gateway := (vw_gateway w)\<lparr>gw_tick := cw_tick c, gw_inflight := cw_inflight c\<rparr>,
      vw_channel_log := cw_log c\<rparr>"
    using run r by (auto simp: zoom_channels_def)
  then show "vw_models w' \<in> S \<and> inflight_of (vw_gateway w') = inflight_of (vw_gateway w)
     \<and> (\<exists>es cs ans. gw_log (vw_gateway w') = gw_log (vw_gateway w) @ es \<and> vw_channel_log w' = vw_channel_log w @ cs
          \<and> vw_answers w' = vw_answers w @ ans \<and> P x (channel_replies cs) \<and> es = [] \<and> ans = [])"
    using cs S by (simp add: channel_view_def inflight_of_def)
qed

lemma proxy_spec_accounts: "proxy_spec S (zoom_gateway (with_accounts f)) (quiet always)"
  by (rule proxy_spec_silent) (auto simp: zoom_gateway_def with_accounts_def split: prod.splits)

lemma proxy_spec_final:
  "proxy_spec S (zoom_gateway (log_event e)) (\<lambda>_ es cs ans. es = [e] \<and> cs = [] \<and> ans = [])"
  by (rule proxy_spec_gateway) (auto simp: log_event_def inflight_of_def)

lemma proxy_spec_candidates:
  "proxy_spec S (zoom_gateway (execute_candidate_sequence env p cs))
     (\<lambda>r es cs ans. replies es + sequence_left r = 1 \<and> cs = [] \<and> ans = [])"
proof (rule proxy_spec_gateway)
  fix g r g' assume "run_state (execute_candidate_sequence env p cs) g = (r, g')"
  from execute_spec [OF this [unfolded run_execute]]
  show "inflight_of g' = inflight_of g \<and> (\<exists>es. gw_log g' = gw_log g @ es \<and> replies es + sequence_left r = 1)" by auto
qed

section \<open>The steps before the upstream\<close>

definition closed_store :: "'u proxy_env \<Rightarrow> model_store set \<Rightarrow> bool" where
  "closed_store env S \<longleftrightarrow> (\<forall>st \<in> S. \<forall>n remote. ve_bootstrap_accounts env n remote st \<in> S \<and> ve_bootstrap_channels env n st \<in> S)"

lemma closed_bootstrapped: "closed_store env {st. bootstrapped env st0 st}"
  by (auto simp: closed_store_def intro: bootstrapped.intros)

lemma closed_UNIV: "closed_store env UNIV"
  by (simp add: closed_store_def)

lemma proxy_spec_bootstrap:
  assumes "closed_store env S"
  shows "proxy_spec S (bootstrap_accounts env remote) (quiet always)" "proxy_spec S (bootstrap_channels env) (quiet always)"
proof -
  show "proxy_spec S (bootstrap_accounts env remote) (quiet always)"
    by (rule proxy_spec_silent)
      (use assms in \<open>auto simp: bootstrap_accounts_def ask_proxy_def zoom_gateway_def closed_store_def\<close>)
  show "proxy_spec S (bootstrap_channels env) (quiet always)"
    by (rule proxy_spec_silent)
      (use assms in \<open>auto simp: bootstrap_channels_def ask_proxy_def zoom_gateway_def closed_store_def\<close>)
qed

lemma proxy_spec_plan:
  assumes "closed_store env S"
  shows "proxy_spec S (bootstrap_model_routes_for_plan env route remote) (quiet always)"
  using proxy_spec_bootstrap [OF assms]
  by (cases route) (auto simp: bootstrap_model_routes_for_plan_def intro: proxy_spec_then)

lemma proxy_spec_if_ok:
  assumes "proxy_spec S m (quiet R)" "\<And>x. R (Inr x) \<Longrightarrow> proxy_spec S (f x) (quiet T)" "\<And>e. R (Inl e) \<Longrightarrow> T (Inl e)"
  shows "proxy_spec S (if_ok m f) (quiet T)"
  using assms(2,3) by (auto simp: if_ok_def intro!: proxy_spec_then [OF assms(1)] proxy_spec_quiet_return split: sum.split)

text \<open>A lookup that is answered yes found it in a store of \<open>S\<close>.\<close>

lemma proxy_spec_lookup:
  assumes S: "closed_store env S"
  shows "proxy_spec S (lookup_with_refresh env route failed look)
    (quiet (\<lambda>r. (r = Inr True \<longrightarrow> (\<exists>st \<in> S. look st = Inr True)) \<and> (\<forall>e. r = Inl e \<longrightarrow> fst e = 500)))"
    (is "proxy_spec S _ (quiet ?R)")
proof -
  let ?query = "do { st \<leftarrow> gets vw_models; State_Monad.return (case look st of Inl e \<Rightarrow> Inl (500, failed @ e) | Inr b \<Rightarrow> Inr b) }"
  have query: "proxy_spec S ?query (quiet ?R)"
    by (rule proxy_spec_then [OF proxy_spec_models]) (auto intro!: proxy_spec_quiet_return split: sum.split)
  show ?thesis unfolding lookup_with_refresh_def Let_def
  proof (rule proxy_spec_if_ok [OF query], rule proxy_spec_if)
    show "proxy_spec S (do { bootstrap_model_routes_for_plan env route True; ?query }) (quiet ?R)"
      by (rule proxy_spec_then [OF proxy_spec_plan [OF S] query])
  qed (auto intro: proxy_spec_quiet_return)
qed

text \<open>
  A model that passes the check is in the catalog, is granted to the key at the time of the check
  and has a live source of a kind the route uses, each in a store the bootstraps lead to.
\<close>

definition model_granted :: "model_store set \<Rightarrow> validated_request \<Rightarrow> route_kind \<Rightarrow> str \<Rightarrow> bool" where
  "model_granted S v route model \<longleftrightarrow>
     (\<exists>st \<in> S. model_catalog_model_exists st ''default'' model = Inr True)
     \<and> (\<exists>st \<in> S. \<exists>now access. resolve_api_key_model_group_access st now (vr_key_id v) model = Inr access)
     \<and> (\<exists>st \<in> S. direct_upstream_model_matches_route st model (source_kinds_for_route route) = Inr True)"

definition model_checked :: "model_store set \<Rightarrow> validated_request \<Rightarrow> route_kind \<Rightarrow> (nat \<times> str) + unit \<Rightarrow> bool" where
  "model_checked S v route r \<longleftrightarrow>
     (case r of Inl e \<Rightarrow> fst e \<in> {403, 404, 500, 503}
      | Inr _ \<Rightarrow> \<forall>model. trimmed_nonempty (vr_model v) = Some model \<longrightarrow> model_granted S v route model)"

lemma proxy_spec_model_route:
  assumes S: "closed_store env S"
  shows "proxy_spec S (model_route_error env v route) (quiet (model_checked S v route))"
proof (cases "trimmed_nonempty (vr_model v)")
  case None
  then show ?thesis by (simp add: model_route_error_def model_checked_def proxy_spec_quiet_return)
next
  case (Some model)
  have served: "proxy_spec S (if_ok (lookup_with_refresh env route ''source_model_read_failed: ''
        (\<lambda>st. direct_upstream_model_matches_route st model (source_kinds_for_route route))) (\<lambda>served.
        State_Monad.return (if served then Inr () else Inl (503, ''model_unavailable: '' @ model)))) (quiet (model_checked S v route))"
    if "\<exists>st \<in> S. model_catalog_model_exists st ''default'' model = Inr True"
      "\<exists>st \<in> S. \<exists>now access. resolve_api_key_model_group_access st now (vr_key_id v) model = Inr access"
    using that
    by (intro proxy_spec_if_ok [OF proxy_spec_lookup [OF S]] proxy_spec_quiet_return)
      (auto simp: model_checked_def model_granted_def Some)
  show ?thesis unfolding model_route_error_def Some option.case
    apply (rule proxy_spec_then [OF proxy_spec_plan [OF S]])
    apply (rule proxy_spec_if_ok [OF proxy_spec_lookup [OF S]])
     apply (rule proxy_spec_if)
      apply (simp add: proxy_spec_quiet_return model_checked_def)
     apply (rule proxy_spec_then [OF proxy_spec_ask])
     apply (rule proxy_spec_then [OF proxy_spec_models])
     apply (rule proxy_spec_sum)
      apply (simp add: proxy_spec_quiet_return model_checked_def)
     apply (rule served; auto)
    apply (auto simp: model_checked_def)
    done
qed

lemma proxy_spec_collect: "proxy_spec S (collect_candidates env mode ids) (quiet always)"
  unfolding collect_candidates_def
  by (intro proxy_spec_then [OF proxy_spec_ask] proxy_spec_accounts)

lemma proxy_spec_candidates_read:
  assumes S: "closed_store env S"
  shows "proxy_spec S (prepare_gateway_candidates env v mode) (quiet always)"
proof -
  have ids: "proxy_spec S (case trimmed_nonempty (vr_model v) of
              None \<Rightarrow> State_Monad.return (Inr None)
            | Some model \<Rightarrow> do {
                bootstrap_accounts env False;
                st \<leftarrow> gets vw_models;
                State_Monad.return (sum_bind (account_source_ids_for_model st model) (\<lambda>ids. Inr (Some ids))) }) (quiet always)"
    by (auto intro!: proxy_spec_then [OF proxy_spec_bootstrap(1) [OF S]] proxy_spec_then [OF proxy_spec_gets]
        proxy_spec_quiet_return split: option.split)
  show ?thesis unfolding prepare_gateway_candidates_def
    by (rule proxy_spec_if_ok [OF ids], rule proxy_spec_if_ok [OF proxy_spec_collect])
      (auto intro: proxy_spec_then [OF proxy_spec_gets] proxy_spec_quiet_return)
qed

lemma proxy_spec_setup: "proxy_spec S (prepare_request_setup env v cs) (quiet always)"
proof -
  have rotate: "proxy_spec S (rotate_candidates env v cs routing) (quiet always)" for cs routing
    unfolding rotate_candidates_def
    by (intro proxy_spec_then [OF proxy_spec_ask] proxy_spec_silent) (auto split: prod.splits)
  show ?thesis unfolding prepare_request_setup_def Let_def
    by (auto intro!: proxy_spec_then [OF proxy_spec_gets] proxy_spec_then [OF rotate] proxy_spec_quiet_return split: prod.split)
qed

lemma proxy_spec_gate: "proxy_spec S (acquire_request_gate env deadline) (quiet always)"
  unfolding acquire_request_gate_def
  by (rule proxy_spec_then [OF proxy_spec_ask])
    (auto intro!: proxy_spec_quiet_return proxy_spec_then [OF proxy_spec_ask] split: sum.split bool.split option.split)

section \<open>The steps that answer\<close>

text \<open>
  The end of a request by a route: the client has one answer when the request succeeds and at most
  one when it fails, and only the upstreams of the route were used.
\<close>

fun outcome_answers :: "proxy_outcome \<Rightarrow> nat \<Rightarrow> bool" where
  "outcome_answers PrOk n \<longleftrightarrow> n = 1"
| "outcome_answers _ n \<longleftrightarrow> n \<le> 1"

definition answered ::
    "route_kind \<Rightarrow> proxy_outcome \<Rightarrow> event list \<Rightarrow> 'u channel_event list \<Rightarrow> (nat \<times> str) list \<Rightarrow> bool" where
  "answered route r es cs ans \<longleftrightarrow>
     outcome_answers r (replies es + channel_replies cs + length ans)
     \<and> (case route of RouteAccountRotation \<Rightarrow> cs = [] | RouteAggregateApi \<Rightarrow> es = [] | RouteHybridAccountFirst \<Rightarrow> True)"

lemma proxy_spec_answered:
  "proxy_spec S (do { answer v status message; State_Monad.return PrOk }) (answered route)"
  by (auto simp: answered_def intro!: proxy_spec_bind [OF proxy_spec_answer] proxy_spec_return split: route_kind.split)

lemma proxy_spec_aggregate_candidates:
  "proxy_spec S (proxy_with_aggregate_candidates env v path body deadline cs)
     (\<lambda>r es ds ans. outcome_answers r (channel_replies ds) \<and> es = [] \<and> ans = [])"
proof -
  have rot: "proxy_spec S (State (\<lambda>w. case f w of (cs', s) \<Rightarrow> (cs', w\<lparr>vw_route := s\<rparr>))) (quiet always)"
    for f :: "'a proxy_world \<Rightarrow> aggregate_api list \<times> route_state"
    by (rule proxy_spec_silent) (auto split: prod.splits)
  show ?thesis unfolding proxy_with_aggregate_candidates_def
    by (rule proxy_spec_then [OF proxy_spec_ask], rule proxy_spec_then [OF rot], rule proxy_spec_then [OF proxy_spec_gets],
        rule proxy_spec_bind [OF proxy_spec_channels [OF proxy_aggregate_spec]], rule proxy_spec_return)
      (auto split: sum.splits)
qed

lemma proxy_spec_weaken:
  "proxy_spec S m P \<Longrightarrow> (\<And>x es cs ans. P x es cs ans \<Longrightarrow> Q x es cs ans) \<Longrightarrow> proxy_spec S m Q"
  unfolding proxy_spec_def by meson

lemma proxy_spec_aggregate_route:
  assumes "route \<noteq> RouteAccountRotation"
  shows "proxy_spec S (aggregate_route env v path body deadline message) (answered route)"
  unfolding aggregate_route_def
  by (rule proxy_spec_then [OF proxy_spec_gets], rule proxy_spec_sum, rule proxy_spec_answered,
      rule proxy_spec_weaken [OF proxy_spec_aggregate_candidates])
    (use assms in \<open>auto simp: answered_def split: route_kind.split\<close>)

lemma proxy_spec_precheck:
  assumes "closed_store env S"
  shows "proxy_spec S (prepare_candidates_for_proxy env v respond)
    (\<lambda>r es cs ans. es = [] \<and> cs = [] \<and> length ans = (if r = PreResponded then 1 else 0) \<and> (r = PreEmpty \<longrightarrow> \<not> respond))"
  unfolding prepare_candidates_for_proxy_def
  by (rule proxy_spec_then [OF proxy_spec_candidates_read [OF assms]])
    (auto intro!: proxy_spec_bind [OF proxy_spec_answer] proxy_spec_return split: sum.split)

lemma proxy_spec_exhausted:
  assumes "route \<noteq> RouteAggregateApi"
  shows "proxy_spec S (after_exhaustion env v route base deadline ls) (answered route)"
proof -
  have "proxy_spec S (aggregate_route env v path body deadline message) (answered RouteHybridAccountFirst)" for path body message
    by (rule proxy_spec_aggregate_route) simp
  moreover have "proxy_spec S (do { zoom_gateway (log_event (EvFinal a b s e l)); answer v 503 no_account_message; State_Monad.return PrOk })
      (answered route)" for a b s e l
    using assms by (intro proxy_spec_bind [OF proxy_spec_final] proxy_spec_bind [OF proxy_spec_answer] proxy_spec_return)
      (auto simp: answered_def split: route_kind.split)
  ultimately show ?thesis by (auto simp: after_exhaustion_def Let_def)
qed

lemma proxy_spec_run:
  assumes "route \<noteq> RouteAggregateApi"
  shows "proxy_spec S (do { r \<leftarrow> zoom_gateway (execute_candidate_sequence genv p cs);
      (case r of SeqHandled \<Rightarrow> State_Monad.return PrOk | SeqErr e \<Rightarrow> State_Monad.return (PrErr e)
       | SeqPanic \<Rightarrow> State_Monad.return PrPanic
       | SeqExhausted ls \<Rightarrow> after_exhaustion env v route base deadline ls) }) (answered route)"
proof (rule proxy_spec_bind [OF proxy_spec_candidates])
  fix r and es :: "event list" and ds :: "'a channel_event list" and ans :: "(nat \<times> str) list"
  assume "replies es + sequence_left r = 1 \<and> ds = [] \<and> ans = []"
  then have one: "replies es + sequence_left r = 1" "ds = []" "ans = []" by auto
  show "proxy_spec S (case r of SeqHandled \<Rightarrow> State_Monad.return PrOk | SeqErr e \<Rightarrow> State_Monad.return (PrErr e)
       | SeqPanic \<Rightarrow> State_Monad.return PrPanic
       | SeqExhausted ls \<Rightarrow> after_exhaustion env v route base deadline ls)
       (\<lambda>y fs ds' bns. answered route y (es @ fs) (ds @ ds') (ans @ bns))"
  proof (cases r)
    case (SeqExhausted ls)
    have "answered route y (es @ fs) (ds @ ds') (ans @ bns)" if "answered route y fs ds' bns" for y fs and ds' :: "'a channel_event list" and bns
      using that one SeqExhausted assms by (cases route) (auto simp: answered_def)
    with SeqExhausted show ?thesis
      by (simp add: proxy_spec_weaken [OF proxy_spec_exhausted [OF assms]])
  qed (use one assms in \<open>auto simp: answered_def intro!: proxy_spec_return split: route_kind.split\<close>)
qed

lemma proxy_spec_account_route:
  assumes route: "route \<noteq> RouteAggregateApi" and S: "closed_store env S"
  shows "proxy_spec S (account_route env v route deadline) (answered route)"
  unfolding account_route_def
proof (rule proxy_spec_bind [OF proxy_spec_precheck [OF S]])
  fix r and es :: "event list" and ds :: "'a channel_event list" and ans :: "(nat \<times> str) list"
  assume pre: "es = [] \<and> ds = [] \<and> length ans = (if r = PreResponded then 1 else 0) \<and> (r = PreEmpty \<longrightarrow> \<not> route \<noteq> RouteHybridAccountFirst)"
  have run: "proxy_spec S (do {
          (setup, cs) \<leftarrow> prepare_request_setup env v cs0;
          acquire_request_gate env deadline;
          r \<leftarrow> zoom_gateway (execute_candidate_sequence (ve_gateway env) (sequence_params_for env v setup deadline) cs);
          (case r of
             SeqHandled \<Rightarrow> State_Monad.return PrOk
           | SeqErr e \<Rightarrow> State_Monad.return (PrErr e)
           | SeqPanic \<Rightarrow> State_Monad.return PrPanic
           | SeqExhausted ls \<Rightarrow> after_exhaustion env v route (su_upstream_base setup) deadline ls) }) (answered route)" for cs0
    using proxy_spec_run [OF route]
    by (auto intro!: proxy_spec_then [OF proxy_spec_setup] proxy_spec_then [OF proxy_spec_gate] split: prod.split)
  show "proxy_spec S (case r of
        PreResponded \<Rightarrow> State_Monad.return PrOk
      | PreEmpty \<Rightarrow> aggregate_route env v (vr_passthrough_path v) (vr_passthrough_body v) deadline
          (hybrid_route_error_message (Some no_account_message))
      | PreReady cs0 \<Rightarrow> do {
          (setup, cs) \<leftarrow> prepare_request_setup env v cs0;
          acquire_request_gate env deadline;
          r \<leftarrow> zoom_gateway (execute_candidate_sequence (ve_gateway env) (sequence_params_for env v setup deadline) cs);
          (case r of
             SeqHandled \<Rightarrow> State_Monad.return PrOk
           | SeqErr e \<Rightarrow> State_Monad.return (PrErr e)
           | SeqPanic \<Rightarrow> State_Monad.return PrPanic
           | SeqExhausted ls \<Rightarrow> after_exhaustion env v route (su_upstream_base setup) deadline ls) })
      (\<lambda>y fs ds' bns. answered route y (es @ fs) (ds @ ds') (ans @ bns))"
  proof (cases r)
    case (PreReady cs0)
    with pre run [of cs0] show ?thesis by simp
  next
    case PreEmpty
    with pre proxy_spec_aggregate_route [of route] show ?thesis by simp
  next
    case PreResponded
    with pre route show ?thesis
      by (auto simp: answered_def intro!: proxy_spec_return split: route_kind.split)
  qed
qed

section \<open>A request from validation to its answer\<close>

abbreviation proxy_route :: "validated_request \<Rightarrow> route_kind" where
  "proxy_route v \<equiv> xp_route (resolve_gateway_upstream_execution_plan (vr_protocol v) (vr_rotation v))"

definition refused :: "event list \<Rightarrow> 'u channel_event list \<Rightarrow> (nat \<times> str) list \<Rightarrow> bool" where
  "refused es cs ans \<longleftrightarrow> es = [] \<and> cs = [] \<and> (\<exists>status message. ans = [(status, message)] \<and> status \<in> {403, 404, 500, 503})"

lemma proxy_spec_request:
  assumes S: "closed_store env S"
  shows "proxy_spec S (proxy_validated_request env v) (\<lambda>r es cs ans. answered (proxy_route v) r es cs ans
    \<and> ((\<forall>model. trimmed_nonempty (vr_model v) = Some model \<longrightarrow> model_granted S v (proxy_route v) model) \<or> refused es cs ans))"
    (is "proxy_spec S _ (\<lambda>r es cs ans. answered ?route r es cs ans \<and> (?granted \<or> refused es cs ans))")
  unfolding proxy_validated_request_def Let_def
proof (rule proxy_spec_then [OF proxy_spec_ask], rule proxy_spec_then [OF proxy_spec_model_route [OF S]], rule proxy_spec_sum)
  fix checked e
  assume "model_checked S v ?route checked" "checked = (Inl e :: (nat \<times> str) + unit)"
  then have e: "fst e \<in> {403, 404, 500, 503}" by (simp add: model_checked_def)
  show "proxy_spec S (case e of (status, message) \<Rightarrow> do { answer v status message; State_Monad.return PrOk })
      (\<lambda>r es cs ans. answered ?route r es cs ans \<and> (?granted \<or> refused es cs ans))"
    unfolding prod.case_eq_if
    by (rule proxy_spec_bind [OF proxy_spec_answer], rule proxy_spec_return)
      (use e in \<open>auto simp: answered_def refused_def split: route_kind.split\<close>)
next
  fix checked u and deadline
  assume "model_checked S v ?route checked" "checked = (Inr u :: (nat \<times> str) + unit)"
  then have granted: ?granted by (simp add: model_checked_def)
  have "proxy_spec S (if ?route = RouteAggregateApi then aggregate_route env v (vr_path v) (vr_body v) d (\<lambda>e. e)
      else account_route env v ?route d) (answered ?route)" for d
    by (rule proxy_spec_if) (simp_all add: proxy_spec_aggregate_route proxy_spec_account_route S)
  then show "proxy_spec S (if ?route = RouteAggregateApi
        then aggregate_route env v (vr_path v) (vr_body v)
          (request_deadline_for_path (ve_total_timeout env) (ve_stream_timeout env) deadline (vr_is_stream v) (vr_path v)) (\<lambda>e. e)
        else account_route env v ?route
          (request_deadline_for_path (ve_total_timeout env) (ve_stream_timeout env) deadline (vr_is_stream v) (vr_path v)))
      (\<lambda>r es cs ans. answered ?route r es cs ans \<and> (?granted \<or> refused es cs ans))"
    by (rule proxy_spec_weaken) (use granted in blast)
qed

lemmas request_effects = proxy_spec_request [unfolded proxy_spec_def, rule_format]

text \<open>
  C1: one request, one answer. Whatever the accounts, the channels, the clocks and the bootstraps do,
  a request that ends well has been answered exactly once, by an account, by a channel or by the
  gateway itself; one that ends in an error at most once; and no account or channel is left marked
  as busy.
\<close>

theorem request_answered_once:
  "case run_state (proxy_validated_request env v) w of (r, w') \<Rightarrow>
     inflight_of (vw_gateway w') = inflight_of (vw_gateway w)
     \<and> (\<exists>es cs ans. gw_log (vw_gateway w') = gw_log (vw_gateway w) @ es \<and> vw_channel_log w' = vw_channel_log w @ cs
          \<and> vw_answers w' = vw_answers w @ ans
          \<and> (let n = replies es + channel_replies cs + length ans in if r = PrOk then n = 1 else n \<le> 1))"
proof -
  obtain r w' where run: "run_state (proxy_validated_request env v) w = (r, w')" by fastforce
  from request_effects [OF closed_UNIV UNIV_I run] show ?thesis
    by (cases r) (auto simp: run answered_def)
qed

text \<open>
  C3: the rotation strategy confines a request. A key with account rotation never reaches an
  aggregate API, and one with aggregate API rotation never touches an account: the log of the other
  side is what it was, whatever fails. Only a hybrid key may use both.
\<close>

theorem rotation_confines_upstreams:
  "case run_state (proxy_validated_request env v) w of (r, w') \<Rightarrow>
     (case xp_route (resolve_gateway_upstream_execution_plan (vr_protocol v) (vr_rotation v)) of
        RouteAccountRotation \<Rightarrow> vw_channel_log w' = vw_channel_log w
      | RouteAggregateApi \<Rightarrow> gw_log (vw_gateway w') = gw_log (vw_gateway w)
      | RouteHybridAccountFirst \<Rightarrow> vr_rotation v = ''hybrid_rotation'')"
proof -
  obtain r w' where run: "run_state (proxy_validated_request env v) w = (r, w')" by fastforce
  from request_effects [OF closed_UNIV UNIV_I run] show ?thesis
    by (auto simp: run answered_def resolve_gateway_upstream_execution_plan_def)
qed


text \<open>A key of a user that is disabled, and bootstraps that find nothing new.\<close>

definition demo_disabled :: model_store where
  "demo_disabled = demo_models\<lparr>ms_users := [\<lparr>au_id = ''u'', au_username = ''ann'', au_role = ''member'', au_status = ''disabled''\<rparr>]\<rparr>"

lemma demo_disabled_key:
  "key_user demo_disabled ''k'' = Inr (Some (''u'', \<lparr>au_id = ''u'', au_username = ''ann'', au_role = ''member'', au_status = ''disabled''\<rparr>))"
  by code_simp

lemma idle_bootstraps:
  assumes "bootstrapped (env\<lparr>ve_bootstrap_accounts := \<lambda>n remote st. st, ve_bootstrap_channels := \<lambda>n st. st\<rparr>) st0 st"
  shows "st = st0"
  using assms by induction simp_all


end
