(* ===== verification/Model_Catalog.thy ===== *)
theory Model_Catalog
  imports Json_Value
begin

text \<open>
  The managed model catalog (\<^verbatim>\<open>service/src/apikey/apikey_models.rs\<close>): the
  description of a model, its normal form, and the merge of the catalog that is stored with the one
  a remote has sent. A \<^verbatim>\<open>BTreeMap\<close> is the list of its entries, sorted by key.
\<close>

section \<open>Sorted maps and first occurrences\<close>

type_synonym json_map = "(str \<times> json) list"

fun bt_insert :: "'k::linorder \<Rightarrow> 'v \<Rightarrow> ('k \<times> 'v) list \<Rightarrow> ('k \<times> 'v) list" where
  "bt_insert k v [] = [(k, v)]"
| "bt_insert k v ((k', v') # m) =
     (if k < k' then (k, v) # (k', v') # m else if k = k' then (k, v) # m else (k', v') # bt_insert k v m)"

definition bt_extend :: "('k::linorder \<times> 'v) list \<Rightarrow> ('k \<times> 'v) list \<Rightarrow> ('k \<times> 'v) list" where
  "bt_extend m n = fold (\<lambda>(k, v). bt_insert k v) n m"

definition bt_wf :: "('k::linorder \<times> 'v) list \<Rightarrow> bool" where
  "bt_wf m \<longleftrightarrow> sorted_wrt (<) (map fst m)"

lemma map_of_bt_insert [simp]: "bt_wf m \<Longrightarrow> map_of (bt_insert k v m) = (map_of m)(k \<mapsto> v)"
  by (induction m) (auto simp: bt_wf_def fun_eq_iff map_of_eq_None_iff dest: less_imp_neq)

lemma keys_bt_insert [simp]: "fst ` set (bt_insert k v m) = insert k (fst ` set m)"
  by (induction k v m rule: bt_insert.induct) (simp_all add: insert_commute)

lemma bt_wf_insert [simp]: "bt_wf m \<Longrightarrow> bt_wf (bt_insert k v m)"
proof (induction m)
  case (Cons e m)
  have "fst ` set (bt_insert k v m) = insert k (fst ` set m)" by simp
  then have "\<forall>x \<in> set (bt_insert k v m). fst x \<in> insert k (fst ` set m)" by (metis imageI)
  with Cons show ?case by (cases e) (force simp: bt_wf_def)
qed (simp add: bt_wf_def)

lemma bt_extend_spec:
  assumes "bt_wf m"
  shows "bt_wf (bt_extend m n) \<and> map_of (bt_extend m n) = map_of m ++ map_of (rev n)"
  using assms unfolding bt_extend_def
  by (induction n arbitrary: m) (auto simp: map_add_def fun_eq_iff split: option.split)

text \<open>The elements whose key was not met before, as \<^verbatim>\<open>seen.insert(key)\<close> keeps them.\<close>

fun first_by :: "('a \<Rightarrow> 'k) \<Rightarrow> 'k set \<Rightarrow> 'a list \<Rightarrow> 'a list" where
  "first_by key seen [] = []"
| "first_by key seen (x # xs) =
     (if key x \<in> seen then first_by key seen xs else x # first_by key (insert (key x) seen) xs)"

lemma first_by_keys [simp]: "key ` set (first_by key seen xs) = key ` set xs - seen"
  by (induction xs arbitrary: seen) auto

lemma first_by_subset: "set (first_by key seen xs) \<subseteq> set xs"
  by (induction xs arbitrary: seen) (auto split: if_splits)

lemma distinct_first_by [simp]: "distinct (map key (first_by key seen xs))"
proof (induction xs arbitrary: seen)
  case (Cons x xs)
  have "key x \<notin> key ` set (first_by key (insert (key x) seen) xs)" by simp
  with Cons show ?case by simp
qed simp

lemma first_by_id: "distinct (map key xs) \<Longrightarrow> key ` set xs \<inter> seen = {} \<Longrightarrow> first_by key seen xs = xs"
  by (induction xs arbitrary: seen) auto

lemma first_by_idem [simp]: "first_by key {} (first_by key {} xs) = first_by key {} xs"
  by (rule first_by_id) simp_all

lemma first_by_filter: "distinct (map key xs) \<Longrightarrow> first_by key seen xs = filter (\<lambda>x. key x \<notin> seen) xs"
proof (induction xs arbitrary: seen)
  case (Cons x xs)
  then have "filter (\<lambda>y. key y \<notin> insert (key x) seen) xs = filter (\<lambda>y. key y \<notin> seen) xs"
    by (intro filter_cong) (auto simp: image_iff)
  with Cons show ?case by simp
qed simp

lemma map_first_by:
  "(\<And>x. key' (f x) = key x) \<Longrightarrow> map f (first_by key seen xs) = first_by key' seen (map f xs)"
  by (induction xs arbitrary: seen) simp_all

lemma first_by_same: "(\<forall>x \<in> set xs. f x = x) \<Longrightarrow> map f (first_by key seen xs) = first_by key seen xs"
  using first_by_subset [of key seen xs] by (auto intro: map_idI)

section \<open>The description of a model\<close>

record service_tier =
  ti_id :: str
  ti_name :: str
  ti_description :: str
  ti_extra :: json_map

record reasoning_level =
  rl_effort :: str
  rl_description :: str
  rl_extra :: json_map

record truncation_policy =
  tp_mode :: str
  tp_limit :: i64
  tp_extra :: json_map

record model_info =
  mi_slug :: str
  mi_display_name :: str
  mi_description :: "str option"
  mi_default_reasoning_level :: "str option"
  mi_supported_reasoning_levels :: "reasoning_level list"
  mi_shell_type :: "str option"
  mi_visibility :: "str option"
  mi_supported_in_api :: bool
  mi_priority :: i64
  mi_additional_speed_tiers :: "str list"
  mi_service_tiers :: "service_tier list"
  mi_default_service_tier :: "str option"
  mi_availability_nux :: "json option"
  mi_upgrade :: "json option"
  mi_upgrade_info :: "json option"
  mi_base_instructions :: "str option"
  mi_model_messages :: "json option"
  mi_supports_reasoning_summaries :: "bool option"
  mi_default_reasoning_summary :: "str option"
  mi_support_verbosity :: "bool option"
  mi_default_verbosity :: "json option"
  mi_apply_patch_tool_type :: "str option"
  mi_web_search_tool_type :: "str option"
  mi_truncation_policy :: "truncation_policy option"
  mi_supports_parallel_tool_calls :: "bool option"
  mi_supports_image_detail_original :: "bool option"
  mi_context_window :: "i64 option"
  mi_auto_compact_token_limit :: "i64 option"
  mi_effective_context_window_percent :: "i64 option"
  mi_experimental_supported_tools :: "str list"
  mi_input_modalities :: "str list"
  mi_minimal_client_version :: "json option"
  mi_supports_search_tool :: "bool option"
  mi_available_in_plans :: "str list"
  mi_extra :: json_map

definition default_input_modalities :: "str list" where
  "default_input_modalities = [''text'', ''image'']"

definition default_model_info :: model_info where
  "default_model_info =
     \<lparr>mi_slug = [], mi_display_name = [], mi_description = None, mi_default_reasoning_level = None,
      mi_supported_reasoning_levels = [], mi_shell_type = None, mi_visibility = None,
      mi_supported_in_api = True, mi_priority = 0, mi_additional_speed_tiers = [],
      mi_service_tiers = [], mi_default_service_tier = None, mi_availability_nux = None,
      mi_upgrade = None, mi_upgrade_info = None, mi_base_instructions = None,
      mi_model_messages = None, mi_supports_reasoning_summaries = None,
      mi_default_reasoning_summary = None, mi_support_verbosity = None,
      mi_default_verbosity = None, mi_apply_patch_tool_type = None,
      mi_web_search_tool_type = None, mi_truncation_policy = None,
      mi_supports_parallel_tool_calls = None, mi_supports_image_detail_original = None,
      mi_context_window = None, mi_auto_compact_token_limit = None,
      mi_effective_context_window_percent = None, mi_experimental_supported_tools = [],
      mi_input_modalities = default_input_modalities, mi_minimal_client_version = None,
      mi_supports_search_tool = None, mi_available_in_plans = [], mi_extra = []\<rparr>"

section \<open>The normal form\<close>

definition normalize_optional :: "str \<Rightarrow> str option" where
  "normalize_optional value = (if trim value = [] then None else Some (trim value))"

definition normalize_visibility :: "str option \<Rightarrow> str option" where
  "normalize_visibility value =
     map_option (\<lambda>v. let l = to_ascii_lowercase v in if l = ''hidden'' then ''hide'' else l) (trimmed_nonempty value)"

definition normalize_service_tier :: "service_tier \<Rightarrow> service_tier" where
  "normalize_service_tier t =
     (let i = trim (ti_id t); name = trim (ti_name t)
      in t\<lparr>ti_id := i, ti_name := (if name = [] then i else name), ti_description := trim (ti_description t)\<rparr>)"

definition normalize_service_tiers :: "service_tier list \<Rightarrow> service_tier list" where
  "normalize_service_tiers ts =
     map normalize_service_tier (first_by (\<lambda>t. trim (ti_id t)) {} (filter (\<lambda>t. trim (ti_id t) \<noteq> []) ts))"

definition normalize_model_info :: "model_info \<Rightarrow> model_info option" where
  "normalize_model_info m =
     (let slug = trim (mi_slug m)
      in if slug = [] then None
         else Some (m\<lparr>mi_slug := slug,
           mi_display_name := (if trim (mi_display_name m) = [] then slug else mi_display_name m),
           mi_visibility := normalize_visibility (mi_visibility m),
           mi_input_modalities := (if mi_input_modalities m = [] then default_input_modalities else mi_input_modalities m),
           mi_service_tiers := normalize_service_tiers (mi_service_tiers m),
           mi_default_service_tier := bind_opt (mi_default_service_tier m) normalize_optional\<rparr>))"

record models_response =
  mr_models :: "model_info list"
  mr_extra :: json_map

record catalog_entry =
  ce_model :: model_info
  ce_source_kind :: str
  ce_user_edited :: bool
  ce_sort_index :: i64
  ce_updated_at :: i64

record managed_catalog =
  mc_items :: "catalog_entry list"
  mc_extra :: json_map

abbreviation entry_slug :: "catalog_entry \<Rightarrow> str" where "entry_slug e \<equiv> mi_slug (ce_model e)"

definition normalize_models_response :: "models_response \<Rightarrow> models_response" where
  "normalize_models_response r =
     r\<lparr>mr_models := first_by mi_slug {} (List.map_filter normalize_model_info (mr_models r))\<rparr>"

definition normalize_source_kind :: "str option \<Rightarrow> str" where
  "normalize_source_kind kind = (if trim (unwrap_or kind []) = ''custom'' then ''custom'' else ''remote'')"

definition normalize_entry :: "catalog_entry \<Rightarrow> catalog_entry option" where
  "normalize_entry e =
     map_option (\<lambda>m. e\<lparr>ce_model := m, ce_source_kind := normalize_source_kind (Some (ce_source_kind e))\<rparr>)
       (normalize_model_info (ce_model e))"

definition normalize_managed_model_catalog :: "managed_catalog \<Rightarrow> managed_catalog" where
  "normalize_managed_model_catalog c =
     c\<lparr>mc_items := first_by entry_slug {} (List.map_filter normalize_entry (mc_items c))\<rparr>"

section \<open>Merging two descriptions\<close>

definition merge_string :: "str \<Rightarrow> str \<Rightarrow> str" where
  "merge_string cached incoming = (if trim incoming = [] then cached else incoming)"

definition merge_option_string :: "str option \<Rightarrow> str option \<Rightarrow> str option" where
  "merge_option_string cached incoming =
     (case incoming of Some v \<Rightarrow> if trim v \<noteq> [] then Some v else cached | None \<Rightarrow> cached)"

definition merge_number :: "i64 \<Rightarrow> i64 \<Rightarrow> i64" where
  "merge_number cached incoming = (if incoming = 0 then cached else incoming)"

definition merge_extra_maps :: "json_map \<Rightarrow> json_map \<Rightarrow> json_map" where
  "merge_extra_maps cached incoming = bt_extend cached incoming"

definition merge_reasoning_level :: "(str \<times> reasoning_level) list \<Rightarrow> reasoning_level \<Rightarrow> reasoning_level" where
  "merge_reasoning_level by_effort l =
     (case map_of by_effort (rl_effort l) of
        Some c \<Rightarrow> \<lparr>rl_effort = rl_effort l, rl_description = merge_string (rl_description c) (rl_description l),
                   rl_extra = merge_extra_maps (rl_extra c) (rl_extra l)\<rparr>
      | None \<Rightarrow> l)"

definition merge_reasoning_levels :: "reasoning_level list \<Rightarrow> reasoning_level list \<Rightarrow> reasoning_level list" where
  "merge_reasoning_levels cached incoming =
     (if incoming = [] then cached
      else (let by_effort = bt_extend [] (map (\<lambda>l. (rl_effort l, l)) cached);
                merged = map (merge_reasoning_level by_effort) incoming
            in merged @ map snd (filter (\<lambda>(e, l). e \<notin> rl_effort ` set incoming) by_effort)))"

definition merge_string_vec :: "str list \<Rightarrow> str list \<Rightarrow> str list" where
  "merge_string_vec cached incoming =
     (if incoming = [] then cached
      else first_by (\<lambda>v. v) {} (filter (\<lambda>v. v \<noteq> []) (map trim (incoming @ cached))))"

definition merge_service_tiers :: "service_tier list \<Rightarrow> service_tier list \<Rightarrow> service_tier list" where
  "merge_service_tiers cached incoming =
     (let i = normalize_service_tiers incoming in if i = [] then normalize_service_tiers cached else i)"

definition merge_model_info :: "model_info \<Rightarrow> model_info \<Rightarrow> model_info" where
  "merge_model_info c i =
     unwrap_or (normalize_model_info (c\<lparr>
       mi_slug := mi_slug i,
       mi_display_name := merge_string (mi_display_name c) (mi_display_name i),
       mi_description := merge_option_string (mi_description c) (mi_description i),
       mi_default_reasoning_level := merge_option_string (mi_default_reasoning_level c) (mi_default_reasoning_level i),
       mi_supported_reasoning_levels := merge_reasoning_levels (mi_supported_reasoning_levels c) (mi_supported_reasoning_levels i),
       mi_shell_type := merge_option_string (mi_shell_type c) (mi_shell_type i),
       mi_visibility := merge_option_string (mi_visibility c) (mi_visibility i),
       mi_supported_in_api := (mi_supported_in_api c \<or> mi_supported_in_api i),
       mi_priority := merge_number (mi_priority c) (mi_priority i),
       mi_additional_speed_tiers := merge_string_vec (mi_additional_speed_tiers c) (mi_additional_speed_tiers i),
       mi_service_tiers := merge_service_tiers (mi_service_tiers c) (mi_service_tiers i),
       mi_default_service_tier := merge_option_string (mi_default_service_tier c) (mi_default_service_tier i),
       mi_availability_nux := or_else (mi_availability_nux i) (mi_availability_nux c),
       mi_upgrade := or_else (mi_upgrade i) (mi_upgrade c),
       mi_upgrade_info := or_else (mi_upgrade_info i) (mi_upgrade_info c),
       mi_base_instructions := merge_option_string (mi_base_instructions c) (mi_base_instructions i),
       mi_model_messages := or_else (mi_model_messages i) (mi_model_messages c),
       mi_supports_reasoning_summaries := or_else (mi_supports_reasoning_summaries i) (mi_supports_reasoning_summaries c),
       mi_default_reasoning_summary := merge_option_string (mi_default_reasoning_summary c) (mi_default_reasoning_summary i),
       mi_support_verbosity := or_else (mi_support_verbosity i) (mi_support_verbosity c),
       mi_default_verbosity := or_else (mi_default_verbosity i) (mi_default_verbosity c),
       mi_apply_patch_tool_type := merge_option_string (mi_apply_patch_tool_type c) (mi_apply_patch_tool_type i),
       mi_web_search_tool_type := merge_option_string (mi_web_search_tool_type c) (mi_web_search_tool_type i),
       mi_truncation_policy := or_else (mi_truncation_policy i) (mi_truncation_policy c),
       mi_supports_parallel_tool_calls := or_else (mi_supports_parallel_tool_calls i) (mi_supports_parallel_tool_calls c),
       mi_supports_image_detail_original := or_else (mi_supports_image_detail_original i) (mi_supports_image_detail_original c),
       mi_context_window := or_else (mi_context_window i) (mi_context_window c),
       mi_auto_compact_token_limit := or_else (mi_auto_compact_token_limit i) (mi_auto_compact_token_limit c),
       mi_effective_context_window_percent := or_else (mi_effective_context_window_percent i) (mi_effective_context_window_percent c),
       mi_experimental_supported_tools := merge_string_vec (mi_experimental_supported_tools c) (mi_experimental_supported_tools i),
       mi_input_modalities := merge_string_vec (mi_input_modalities c) (mi_input_modalities i),
       mi_minimal_client_version := or_else (mi_minimal_client_version i) (mi_minimal_client_version c),
       mi_supports_search_tool := or_else (mi_supports_search_tool i) (mi_supports_search_tool c),
       mi_available_in_plans := merge_string_vec (mi_available_in_plans c) (mi_available_in_plans i),
       mi_extra := merge_extra_maps (mi_extra c) (mi_extra i)\<rparr>)) default_model_info"

section \<open>Merging two catalogs\<close>

definition merge_models_response :: "models_response \<Rightarrow> models_response \<Rightarrow> models_response" where
  "merge_models_response cached0 incoming0 =
     (let cached = normalize_models_response cached0; incoming = normalize_models_response incoming0
      in if mr_models cached = [] then incoming
         else if mr_models incoming = [] then cached
         else (let by_slug = bt_extend [] (map (\<lambda>m. (mi_slug m, m)) (mr_models cached));
                   merged = map (\<lambda>m. case map_of by_slug (mi_slug m) of Some c \<Rightarrow> merge_model_info c m | None \<Rightarrow> m)
                              (mr_models incoming)
               in \<lparr>mr_models = merged @ first_by mi_slug (mi_slug ` set (mr_models incoming)) (mr_models cached),
                   mr_extra = merge_extra_maps (mr_extra cached) (mr_extra incoming)\<rparr>))"

definition remote_entry :: "nat \<times> model_info \<Rightarrow> catalog_entry" where
  "remote_entry p = \<lparr>ce_model = snd p, ce_source_kind = ''remote'', ce_user_edited = False,
     ce_sort_index = int (fst p), ce_updated_at = 0\<rparr>"

definition merge_entry :: "(str \<times> catalog_entry) list \<Rightarrow> nat \<times> model_info \<Rightarrow> catalog_entry" where
  "merge_entry by_slug p =
     (case map_of by_slug (mi_slug (snd p)) of
        Some c \<Rightarrow>
          if ce_user_edited c then (if ce_sort_index c < 0 then c\<lparr>ce_sort_index := int (fst p)\<rparr> else c)
          else c\<lparr>ce_model := merge_model_info (ce_model c) (snd p),
                 ce_source_kind := normalize_source_kind (Some (ce_source_kind c)), ce_user_edited := False\<rparr>
      | None \<Rightarrow> remote_entry p)"

definition merge_managed_model_catalog :: "managed_catalog \<Rightarrow> models_response \<Rightarrow> managed_catalog" where
  "merge_managed_model_catalog cached0 incoming0 =
     (let cached = normalize_managed_model_catalog cached0; incoming = normalize_models_response incoming0
      in if mc_items cached = []
         then \<lparr>mc_items = map remote_entry (List.enumerate 0 (mr_models incoming)), mc_extra = mr_extra incoming\<rparr>
         else if mr_models incoming = [] then cached
         else (let by_slug = bt_extend [] (map (\<lambda>e. (entry_slug e, e)) (mc_items cached));
                   merged = map (merge_entry by_slug) (List.enumerate 0 (mr_models incoming))
               in normalize_managed_model_catalog
                    \<lparr>mc_items = merged @ first_by entry_slug (mi_slug ` set (mr_models incoming)) (mc_items cached),
                     mc_extra = merge_extra_maps (mc_extra cached) (mr_extra incoming)\<rparr>))"

definition managed_catalog_to_models_response :: "managed_catalog \<Rightarrow> models_response" where
  "managed_catalog_to_models_response c = \<lparr>mr_models = map ce_model (mc_items c), mr_extra = mc_extra c\<rparr>"

section \<open>The normal form is a fixed point\<close>

lemma lower_ws [simp]: "ws1 (ascii_lower c) = ws1 c" "ws2 (ascii_lower c) (ascii_lower d) = ws2 c d"
  "ws3 (ascii_lower c) (ascii_lower d) (ascii_lower e) = ws3 c d e"
  by (auto simp: ascii_lower_def ws1_def ws2_def ws3_def Let_def)

lemma trim_start_lower: "trim_start (map ascii_lower s) = map ascii_lower (trim_start s)"
  by (induction s rule: trim_start.induct) simp_all

lemma trim_rev_lower: "trim_rev (map ascii_lower s) = map ascii_lower (trim_rev s)"
  by (induction s rule: trim_rev.induct) simp_all

lemma trim_lower [simp]: "trim (to_ascii_lowercase s) = to_ascii_lowercase (trim s)"
  by (simp add: trim_def to_ascii_lowercase_def trim_start_lower trim_rev_lower rev_map)

lemma trim_hide: "trim ''hide'' = ''hide''" "to_ascii_lowercase ''hide'' = ''hide''"
  by code_simp+

lemma lower_Nil [simp]: "to_ascii_lowercase s = [] \<longleftrightarrow> s = []" "to_ascii_lowercase [] = []"
  by (simp_all add: to_ascii_lowercase_def)

lemma normalize_visibility_idem [simp]:
  "normalize_visibility (normalize_visibility v) = normalize_visibility v"
proof (cases "trimmed_nonempty v")
  case (Some t)
  let ?x = "if to_ascii_lowercase t = ''hidden'' then ''hide'' else to_ascii_lowercase t"
  from trimmed_nonempty_SomeD [OF Some] have "trim ?x = ?x" "?x \<noteq> []" "to_ascii_lowercase ?x = ?x" "?x \<noteq> ''hidden''"
    by (auto simp: trim_hide)
  then have "normalize_visibility (Some ?x) = Some ?x"
    by (simp only: normalize_visibility_def trimmed_nonempty_def option.case option.map Let_def if_False)
  then show ?thesis by (simp add: normalize_visibility_def Some Let_def)
qed (simp add: normalize_visibility_def)

lemma normalize_service_tiers_idem [simp]:
  "normalize_service_tiers (normalize_service_tiers ts) = normalize_service_tiers ts"
proof -
  let ?i = "\<lambda>t. trim (ti_id t)"
  have idem: "normalize_service_tier (normalize_service_tier t) = normalize_service_tier t" for t
    by (simp add: normalize_service_tier_def Let_def)
  have key: "?i (normalize_service_tier t) = ?i t" for t
    by (simp add: normalize_service_tier_def Let_def)
  let ?ts = "filter (\<lambda>t. ?i t \<noteq> []) ts"
  have nts: "normalize_service_tiers ts = first_by ?i {} (map normalize_service_tier ?ts)"
    unfolding normalize_service_tiers_def by (rule map_first_by) (rule key)
  have "filter (\<lambda>t. ?i t \<noteq> []) (normalize_service_tiers ts) = normalize_service_tiers ts"
    unfolding nts using first_by_subset [of ?i "{}" "map normalize_service_tier ?ts"]
    by (auto simp: filter_id_conv key)
  then have "normalize_service_tiers (normalize_service_tiers ts)
      = map normalize_service_tier (normalize_service_tiers ts)"
    by (subst normalize_service_tiers_def) (simp add: nts)
  also have "\<dots> = normalize_service_tiers ts"
    unfolding nts by (rule first_by_same) (auto simp: idem)
  finally show ?thesis .
qed

definition normal_model :: "model_info \<Rightarrow> bool" where
  "normal_model m \<longleftrightarrow> mi_slug m \<noteq> [] \<and> trim (mi_slug m) = mi_slug m \<and> trim (mi_display_name m) \<noteq> []
     \<and> normalize_visibility (mi_visibility m) = mi_visibility m \<and> mi_input_modalities m \<noteq> []
     \<and> normalize_service_tiers (mi_service_tiers m) = mi_service_tiers m
     \<and> bind_opt (mi_default_service_tier m) normalize_optional = mi_default_service_tier m"

lemma normal_modelD: "normal_model m \<Longrightarrow> normalize_model_info m = Some m"
  by (simp add: normal_model_def normalize_model_info_def)

lemma normalize_optional_idem [simp]:
  "bind_opt (bind_opt v normalize_optional) normalize_optional = bind_opt v normalize_optional"
  by (cases v) (simp_all add: normalize_optional_def)

lemma normalized_model_normal: "normalize_model_info m = Some m' \<Longrightarrow> normal_model m'"
  unfolding normalize_model_info_def Let_def normal_model_def
  by (clarsimp split: if_split_asm simp: default_input_modalities_def)

lemma normalize_model_info_idem: "normalize_model_info m = Some m' \<Longrightarrow> normalize_model_info m' = Some m'"
  by (rule normal_modelD) (rule normalized_model_normal)

lemma normalize_model_info_slug:
  "normalize_model_info m = Some m' \<Longrightarrow> mi_slug m' = trim (mi_slug m) \<and> trim (mi_slug m) \<noteq> []"
  by (auto simp: normalize_model_info_def Let_def split: if_splits)

lemma normalize_source_kind_idem [simp]:
  "normalize_source_kind (Some (normalize_source_kind k)) = normalize_source_kind k"
proof -
  have "trim ''custom'' = ''custom''" "trim ''remote'' = ''remote''" by code_simp+
  then show ?thesis by (simp add: normalize_source_kind_def)
qed

definition normal_entry :: "catalog_entry \<Rightarrow> bool" where
  "normal_entry e \<longleftrightarrow> normalize_entry e = Some e"

lemma normal_entry_iff:
  "normal_entry e \<longleftrightarrow> normalize_model_info (ce_model e) = Some (ce_model e)
     \<and> normalize_source_kind (Some (ce_source_kind e)) = ce_source_kind e"
  by (cases e) (auto simp: normal_entry_def normalize_entry_def)

definition catalog_wf :: "managed_catalog \<Rightarrow> bool" where
  "catalog_wf c \<longleftrightarrow> distinct (map entry_slug (mc_items c)) \<and> (\<forall>e \<in> set (mc_items c). normal_entry e)"

lemma normalized_entry_normal: "normalize_entry e = Some e' \<Longrightarrow> normal_entry e'"
  by (auto simp: normal_entry_def normalize_entry_def dest: normalize_model_info_idem)

lemma map_filter_id: "\<forall>x \<in> set xs. f x = Some x \<Longrightarrow> List.map_filter f xs = xs"
  by (induction xs) (simp_all add: List.map_filter_simps)

lemma set_map_filter: "set (List.map_filter f xs) = {y. \<exists>x \<in> set xs. f x = Some y}"
  by (induction xs) (auto simp: List.map_filter_simps split: option.split)

lemma normalize_catalog_wf: "catalog_wf (normalize_managed_model_catalog c)"
  using first_by_subset [of entry_slug "{}" "List.map_filter normalize_entry (mc_items c)"]
  by (auto simp: catalog_wf_def normalize_managed_model_catalog_def set_map_filter dest!: subsetD intro: normalized_entry_normal)

lemma normalize_wf_id: "catalog_wf c \<Longrightarrow> normalize_managed_model_catalog c = c"
  by (simp add: normalize_managed_model_catalog_def catalog_wf_def normal_entry_def map_filter_id first_by_id)

lemma normalize_response_normal:
  "distinct (map mi_slug (mr_models (normalize_models_response r)))"
  "m \<in> set (mr_models (normalize_models_response r)) \<Longrightarrow> normalize_model_info m = Some m"
  using first_by_subset [of mi_slug "{}" "List.map_filter normalize_model_info (mr_models r)"]
  by (auto simp: normalize_models_response_def set_map_filter dest!: subsetD intro: normalize_model_info_idem)

section \<open>What a merge keeps\<close>

lemma by_slug_lookup:
  assumes "distinct (map key xs)"
  shows "map_of (bt_extend [] (map (\<lambda>x. (key x, x)) xs)) k = Some x \<longleftrightarrow> x \<in> set xs \<and> key x = k"
proof -
  have "map_of (bt_extend [] (map (\<lambda>x. (key x, x)) xs)) = map_of (rev (map (\<lambda>x. (key x, x)) xs))"
    using bt_extend_spec [of "[]" "map (\<lambda>x. (key x, x)) xs"] by (simp add: bt_wf_def)
  moreover have "distinct (map fst (rev (map (\<lambda>x. (key x, x)) xs)))"
    using assms by (simp add: rev_map [symmetric] comp_def)
  ultimately show ?thesis
    by (auto simp: map_of_eq_Some_iff)
qed

lemma merge_model_info_normal:
  assumes "normalize_model_info i = Some i"
  shows "normalize_model_info (merge_model_info c i) = Some (merge_model_info c i)" "mi_slug (merge_model_info c i) = mi_slug i"
proof -
  from normalize_model_info_slug [OF assms] have slug: "trim (mi_slug i) = mi_slug i" "mi_slug i \<noteq> []" by auto
  have some: "normalize_model_info x = Some (unwrap_or (normalize_model_info x) d) \<and> mi_slug (unwrap_or (normalize_model_info x) d) = mi_slug i"
    if "mi_slug x = mi_slug i" for x d
    using slug that by (simp add: normalize_model_info_def Let_def)
  have "normalize_model_info x = Some x \<and> mi_slug x = mi_slug i" if "x = merge_model_info c i" for x
    unfolding that merge_model_info_def
    by (intro conjI normalize_model_info_idem [OF conjunct1 [OF some]] conjunct2 [OF some]) simp_all
  then show "normalize_model_info (merge_model_info c i) = Some (merge_model_info c i)"
    "mi_slug (merge_model_info c i) = mi_slug i" by auto
qed

lemma map_entry_slug_merge:
  assumes c: "catalog_wf c"
    and i: "\<forall>m \<in> set (map snd ps). normalize_model_info m = Some m"
    and lookup: "by_slug = bt_extend [] (map (\<lambda>e. (entry_slug e, e)) (mc_items c))"
  shows "map entry_slug (map (merge_entry by_slug) ps) = map mi_slug (map snd ps)"
    "\<forall>e \<in> set (map (merge_entry by_slug) ps). normal_entry e"
proof -
  have found: "e \<in> set (mc_items c) \<and> entry_slug e = s" if "map_of by_slug s = Some e" for s e
    using that by_slug_lookup [of entry_slug "mc_items c" s e] c by (simp add: lookup catalog_wf_def)
  have one: "entry_slug (merge_entry by_slug p) = mi_slug (snd p) \<and> normal_entry (merge_entry by_slug p)"
    if p: "normalize_model_info (snd p) = Some (snd p)" for p
  proof (cases "map_of by_slug (mi_slug (snd p))")
    case None
    then show ?thesis using p
      by (simp add: merge_entry_def remote_entry_def normal_entry_iff)
        (simp add: normalize_source_kind_def, code_simp)
  next
    case (Some e)
    from found [OF Some] c have "entry_slug e = mi_slug (snd p)" "normal_entry e" by (auto simp: catalog_wf_def)
    with Some merge_model_info_normal [OF p, of "ce_model e"] show ?thesis
      by (auto simp: merge_entry_def normal_entry_iff)
  qed
  from i one show "map entry_slug (map (merge_entry by_slug) ps) = map mi_slug (map snd ps)"
    "\<forall>e \<in> set (map (merge_entry by_slug) ps). normal_entry e" by auto
qed

lemma merge_items:
  assumes "mc_items (normalize_managed_model_catalog c) \<noteq> []" "mr_models (normalize_models_response r) \<noteq> []"
  defines "nc \<equiv> normalize_managed_model_catalog c" and "nr \<equiv> normalize_models_response r"
  shows "mc_items (merge_managed_model_catalog c r) =
      map (merge_entry (bt_extend [] (map (\<lambda>e. (entry_slug e, e)) (mc_items nc)))) (List.enumerate 0 (mr_models nr))
      @ filter (\<lambda>e. entry_slug e \<notin> mi_slug ` set (mr_models nr)) (mc_items nc)"
proof -
  let ?m = "map (merge_entry (bt_extend [] (map (\<lambda>e. (entry_slug e, e)) (mc_items nc)))) (List.enumerate 0 (mr_models nr))"
  let ?rest = "filter (\<lambda>e. entry_slug e \<notin> mi_slug ` set (mr_models nr)) (mc_items nc)"
  have c: "catalog_wf nc" unfolding nc_def by (rule normalize_catalog_wf)
  have normal: "distinct (map mi_slug (mr_models nr))" "m \<in> set (mr_models nr) \<Longrightarrow> normalize_model_info m = Some m" for m
    unfolding nr_def by (rule normalize_response_normal; assumption?)+
  have models: "map snd (List.enumerate 0 (mr_models nr)) = mr_models nr" by simp
  from normal(2) have all: "\<forall>m \<in> set (map snd (List.enumerate 0 (mr_models nr))). normalize_model_info m = Some m"
    unfolding models by blast
  have first: "first_by entry_slug (mi_slug ` set (mr_models nr)) (mc_items nc) = ?rest"
    using c by (intro first_by_filter) (simp add: catalog_wf_def)
  note slugs = map_entry_slug_merge [OF c all refl]
  have "catalog_wf \<lparr>mc_items = ?m @ ?rest, mc_extra = x\<rparr>" for x
    using c slugs normal(1) by (auto simp: catalog_wf_def distinct_map_filter simp del: map_map)
       (metis image_eqI list.set_map models)
  from normalize_wf_id [OF this] assms show ?thesis
    by (simp add: merge_managed_model_catalog_def Let_def nc_def nr_def first [unfolded nc_def nr_def])
qed

lemma merge_empty_cases:
  assumes "mc_items (normalize_managed_model_catalog c) = [] \<or> mr_models (normalize_models_response r) = []"
  shows "mc_items (merge_managed_model_catalog c r) =
    (if mc_items (normalize_managed_model_catalog c) = []
     then map remote_entry (List.enumerate 0 (mr_models (normalize_models_response r)))
     else mc_items (normalize_managed_model_catalog c))"
  using assms by (auto simp: merge_managed_model_catalog_def Let_def)

lemma remote_entries_wf:
  "catalog_wf \<lparr>mc_items = map remote_entry (List.enumerate 0 (mr_models (normalize_models_response r))), mc_extra = x\<rparr>"
proof -
  let ?ms = "mr_models (normalize_models_response r)"
  have slugs: "map entry_slug (map remote_entry (List.enumerate n ms)) = map mi_slug ms" for n ms
    by (induction ms arbitrary: n) (simp_all add: remote_entry_def)
  have "normalize_source_kind (Some ''remote'') = ''remote''" by code_simp
  then have "normal_entry (remote_entry (n, m))" if "m \<in> set ?ms" for n m
    using normalize_response_normal(2) [OF that] by (simp add: normal_entry_iff remote_entry_def)
  then show ?thesis using normalize_response_normal(1) [of r] slugs [of 0 ?ms]
    by (auto simp: catalog_wf_def in_set_enumerate_eq simp del: map_map)
qed

section \<open>Properties of the merge\<close>

text \<open>
  C23: a merged catalog is in normal form: whatever was stored and whatever a remote sends, every slug
  is trimmed and there is one entry for each, normalizing the catalog once more changes nothing, and
  the entries are the remote's models in their order, followed by the stored entries the remote does
  not know in theirs.
\<close>

theorem merged_catalog_normal:
  "catalog_wf (merge_managed_model_catalog c r)
   \<and> normalize_managed_model_catalog (merge_managed_model_catalog c r) = merge_managed_model_catalog c r
   \<and> map entry_slug (mc_items (merge_managed_model_catalog c r))
       = map mi_slug (mr_models (normalize_models_response r))
         @ filter (\<lambda>s. s \<notin> mi_slug ` set (mr_models (normalize_models_response r)))
             (map entry_slug (mc_items (normalize_managed_model_catalog c)))"
proof -
  let ?nc = "normalize_managed_model_catalog c" and ?nr = "normalize_models_response r" and ?m = "merge_managed_model_catalog c r"
  have slugs: "map entry_slug (map remote_entry (List.enumerate n ms)) = map mi_slug ms" for n ms
    by (induction ms arbitrary: n) (simp_all add: remote_entry_def)
  have all: "\<forall>m \<in> set (map snd (List.enumerate 0 (mr_models ?nr))). normalize_model_info m = Some m"
    using normalize_response_normal(2) [of _ r] by simp
  note merged = map_entry_slug_merge [OF normalize_catalog_wf [of c] all refl]
  have order: "map entry_slug (mc_items ?m) = map mi_slug (mr_models ?nr)
      @ filter (\<lambda>s. s \<notin> mi_slug ` set (mr_models ?nr)) (map entry_slug (mc_items ?nc))"
  proof (cases "mc_items ?nc = [] \<or> mr_models ?nr = []")
    case True
    then show ?thesis using slugs [of 0 "mr_models ?nr"] by (auto simp: merge_empty_cases simp del: map_map)
  next
    case False
    then show ?thesis using merged(1) by (simp add: merge_items filter_map comp_def del: map_map)
  qed
  moreover have "catalog_wf ?m"
  proof (cases "mc_items ?nc = [] \<or> mr_models ?nr = []")
    case True
    then show ?thesis using remote_entries_wf [of r "mr_extra ?nr"] normalize_catalog_wf [of c]
      by (auto simp: catalog_wf_def merge_empty_cases)
  next
    case False
    then have "mc_items ?m = map (merge_entry (bt_extend [] (map (\<lambda>e. (entry_slug e, e)) (mc_items ?nc)))) (List.enumerate 0 (mr_models ?nr))
        @ filter (\<lambda>e. entry_slug e \<notin> mi_slug ` set (mr_models ?nr)) (mc_items ?nc)" by (simp add: merge_items)
    moreover have "distinct (map entry_slug (mc_items ?m))"
      unfolding order using normalize_response_normal(1) [of r] normalize_catalog_wf [of c]
      by (auto simp: catalog_wf_def)
    ultimately show ?thesis using merged(2) normalize_catalog_wf [of c] by (auto simp: catalog_wf_def)
  qed
  ultimately show ?thesis by (simp add: normalize_wf_id)
qed

text \<open>
  C21: a refresh never overwrites what a user has edited. An entry of the stored catalog that is
  marked as edited keeps its description, its kind and its mark in every merge, and its place unless
  that was negative, whatever the remote says of the model.
\<close>

theorem merge_keeps_user_edits:
  assumes e: "e \<in> set (mc_items (normalize_managed_model_catalog c))" and edited: "ce_user_edited e"
  shows "\<exists>e' \<in> set (mc_items (merge_managed_model_catalog c r)).
      (if ce_sort_index e < 0 then e'\<lparr>ce_sort_index := ce_sort_index e\<rparr> = e else e' = e)"
proof (cases "mr_models (normalize_models_response r) = []")
  case True
  then show ?thesis using e by (auto simp: merge_empty_cases intro!: bexI [of _ e])
next
  case False
  let ?nc = "normalize_managed_model_catalog c" and ?nr = "normalize_models_response r"
  let ?by = "bt_extend [] (map (\<lambda>e. (entry_slug e, e)) (mc_items ?nc))"
  from e have items: "mc_items ?nc \<noteq> []" by auto
  show ?thesis
  proof (cases "entry_slug e \<in> mi_slug ` set (mr_models ?nr)")
    case False
    then show ?thesis using e \<open>mr_models ?nr \<noteq> []\<close> items by (auto simp: merge_items intro!: bexI [of _ e])
  next
    case True
    then obtain k where k: "k < length (mr_models ?nr)" "mi_slug (mr_models ?nr ! k) = entry_slug e"
      by (auto simp: in_set_conv_nth)
    have "map_of ?by (entry_slug e) = Some e"
      using by_slug_lookup [of entry_slug "mc_items ?nc" "entry_slug e" e] normalize_catalog_wf [of c] e
      by (simp add: catalog_wf_def)
    with k edited have "merge_entry ?by (k, mr_models ?nr ! k)
        = (if ce_sort_index e < 0 then e\<lparr>ce_sort_index := int k\<rparr> else e)"
      by (simp add: merge_entry_def)
    moreover have "merge_entry ?by (k, mr_models ?nr ! k) \<in> set (mc_items (merge_managed_model_catalog c r))"
      using k items \<open>mr_models ?nr \<noteq> []\<close>
      by (auto simp: merge_items in_set_enumerate_eq intro!: imageI)
    ultimately show ?thesis by (cases "ce_sort_index e < 0") force+
  qed
qed

text \<open>A model the user has renamed, and a remote that sends its own description of it.\<close>

definition demo_info :: "str \<Rightarrow> str \<Rightarrow> model_info" where
  "demo_info slug name = default_model_info\<lparr>mi_slug := slug, mi_display_name := name\<rparr>"

definition demo_managed :: managed_catalog where
  "demo_managed = \<lparr>mc_items = [\<lparr>ce_model = demo_info ''m'' ''mine'', ce_source_kind = ''remote'', ce_user_edited = True,
     ce_sort_index = 3, ce_updated_at = 1\<rparr>], mc_extra = []\<rparr>"

theorem merge_keeps_user_edits_witness:
  "\<exists>e' \<in> set (mc_items (merge_managed_model_catalog demo_managed \<lparr>mr_models = [demo_info ''m'' ''theirs''], mr_extra = []\<rparr>)).
     mi_display_name (ce_model e') = ''mine'' \<and> ce_user_edited e'"
proof -
  have "mc_items (normalize_managed_model_catalog demo_managed) = mc_items demo_managed" by code_simp
  then have "hd (mc_items demo_managed) \<in> set (mc_items (normalize_managed_model_catalog demo_managed))"
    by (simp add: demo_managed_def)
  from merge_keeps_user_edits [OF this, of "\<lparr>mr_models = [demo_info ''m'' ''theirs''], mr_extra = []\<rparr>"]
  have "hd (mc_items demo_managed) \<in> set (mc_items (merge_managed_model_catalog demo_managed
      \<lparr>mr_models = [demo_info ''m'' ''theirs''], mr_extra = []\<rparr>))" by (simp add: demo_managed_def)
  then show ?thesis by (rule bexI [rotated]) (simp add: demo_managed_def demo_info_def)
qed

end
