(* ===== verification/Catalog_Store.thy ===== *)
theory Catalog_Store
  imports Model_Catalog Model_Groups Model_Sources
begin

text \<open>
  The model catalog in the database: the child tables of a catalog row (reasoning levels and lists
  of texts) and the row of the scope (\<^verbatim>\<open>core/src/storage/model_options.rs\<close>), the
  conversion between rows and descriptions, and the operations on the whole catalog
  (\<^verbatim>\<open>service/src/apikey/apikey_models.rs\<close>): read, save, replace, delete, prune and refresh.
  The state is the model tables of \<^verbatim>\<open>Model_Store\<close> with the child tables beside them. Reading
  and printing of JSON are serde_json's and enter as \<open>json_io\<close>.
\<close>

section \<open>Tables\<close>

record scope_row =
  sc_scope :: str
  sc_extra_json :: str
  sc_updated_at :: i64

record level_row =
  lv_scope :: str
  lv_slug :: str
  lv_effort :: str
  lv_description :: str
  lv_extra_json :: str
  lv_sort_index :: i64
  lv_updated_at :: i64

record item_row =
  it_scope :: str
  it_slug :: str
  it_kind :: str
  it_value :: str
  it_sort_index :: i64
  it_updated_at :: i64

record catalog_store =
  cs_models :: model_store
  cs_scopes :: "scope_row list"
  cs_levels :: "level_row list"
  cs_items :: "item_row list"

record json_io =
  js_print :: "json \<Rightarrow> str + str"
  js_parse :: "str \<Rightarrow> json option"

definition lv_key :: "level_row \<Rightarrow> str \<times> str \<times> str" where "lv_key l = (lv_scope l, lv_slug l, lv_effort l)"

definition it_key :: "item_row \<Rightarrow> str \<times> str \<times> str \<times> str" where
  "it_key i = (it_scope i, it_slug i, it_kind i, it_value i)"

definition cs_query :: "catalog_store \<Rightarrow> 'a \<Rightarrow> 'a sql" where
  "cs_query st v = ms_query (cs_models st) v"

definition cs_exec :: "catalog_store \<Rightarrow> catalog_store \<Rightarrow> unit sql \<times> catalog_store" where
  "cs_exec st st' = (case ms_fault (cs_models st) of Some e \<Rightarrow> (Inl e, st) | None \<Rightarrow> (Inr (), st'))"

text \<open>A step on the model tables; the next step after one that succeeded.\<close>

definition on_models :: "(model_store \<Rightarrow> (str + 'a) \<times> model_store) \<Rightarrow> catalog_store \<Rightarrow> (str + 'a) \<times> catalog_store" where
  "on_models f st = (case f (cs_models st) of (r, m) \<Rightarrow> (r, st\<lparr>cs_models := m\<rparr>))"

definition cs_try ::
    "(str + 'a) \<times> catalog_store \<Rightarrow> ('a \<Rightarrow> catalog_store \<Rightarrow> (str + 'b) \<times> catalog_store) \<Rightarrow> (str + 'b) \<times> catalog_store" where
  "cs_try r f = (case r of (Inl e, st) \<Rightarrow> (Inl e, st) | (Inr v, st) \<Rightarrow> f v st)"

definition cs_ask :: "str + 'a \<Rightarrow> catalog_store \<Rightarrow> ('a \<Rightarrow> (str + 'b) \<times> catalog_store) \<Rightarrow> (str + 'b) \<times> catalog_store" where
  "cs_ask r st f = (case r of Inl e \<Rightarrow> (Inl e, st) | Inr v \<Rightarrow> f v)"

lemma cs_simps [simp]:
  "cs_try (Inl e, st) f = (Inl e, st)" "cs_try (Inr v, st) f = f v st"
  "cs_ask (Inl e) st g = (Inl e, st)" "cs_ask (Inr v) st g = g v"
  by (simp_all add: cs_try_def cs_ask_def)

lemma cs_exec_ok [simp]: "ms_fault (cs_models st) = None \<Longrightarrow> cs_exec st st' = (Inr (), st')"
  by (simp add: cs_exec_def)

lemma cs_query_ok [simp]: "ms_fault (cs_models st) = None \<Longrightarrow> cs_query st v = Inr v"
  by (simp add: cs_query_def)

section \<open>Statements\<close>

definition upsert_model_catalog_scope :: "scope_row \<Rightarrow> catalog_store \<Rightarrow> unit sql \<times> catalog_store" where
  "upsert_model_catalog_scope r st =
     cs_exec st (st\<lparr>cs_scopes := row_upsert sc_scope (\<lambda>old new. new) r (cs_scopes st)\<rparr>)"

definition get_model_catalog_scope :: "catalog_store \<Rightarrow> str \<Rightarrow> scope_row option sql" where
  "get_model_catalog_scope st scope = cs_query st (row_find sc_scope (cs_scopes st) scope)"

definition list_model_catalog_models :: "catalog_store \<Rightarrow> str \<Rightarrow> catalog_model list sql" where
  "list_model_catalog_models st scope =
     cs_query st (sort_key (\<lambda>c. (cm_sort_index c, - cm_updated_at c, cm_slug c))
       (filter (\<lambda>c. cm_scope c = scope) (ms_catalog (cs_models st))))"

definition upsert_model_catalog_reasoning_levels :: "level_row list \<Rightarrow> catalog_store \<Rightarrow> unit sql \<times> catalog_store" where
  "upsert_model_catalog_reasoning_levels rows st =
     cs_exec st (st\<lparr>cs_levels := fold (row_upsert lv_key (\<lambda>old new. new)) rows (cs_levels st)\<rparr>)"

definition list_model_catalog_reasoning_levels :: "catalog_store \<Rightarrow> str \<Rightarrow> level_row list sql" where
  "list_model_catalog_reasoning_levels st scope =
     cs_query st (sort_key (\<lambda>l. (lv_slug l, lv_sort_index l, lv_effort l))
       (filter (\<lambda>l. lv_scope l = scope) (cs_levels st)))"

definition delete_model_catalog_reasoning_levels :: "str \<Rightarrow> str \<Rightarrow> catalog_store \<Rightarrow> unit sql \<times> catalog_store" where
  "delete_model_catalog_reasoning_levels scope slug st =
     cs_exec st (st\<lparr>cs_levels := filter (\<lambda>l. \<not> (lv_scope l = scope \<and> lv_slug l = slug)) (cs_levels st)\<rparr>)"

definition upsert_model_catalog_string_items :: "item_row list \<Rightarrow> catalog_store \<Rightarrow> unit sql \<times> catalog_store" where
  "upsert_model_catalog_string_items rows st =
     cs_exec st (st\<lparr>cs_items := fold (row_upsert it_key (\<lambda>old new. new)) rows (cs_items st)\<rparr>)"

definition list_model_catalog_string_items_for_kinds :: "catalog_store \<Rightarrow> str \<Rightarrow> str list \<Rightarrow> item_row list sql" where
  "list_model_catalog_string_items_for_kinds st scope kinds =
     (if kinds = [] then Inr []
      else cs_query st (sort_key (\<lambda>i. (it_kind i, it_slug i, it_sort_index i, it_value i))
             (filter (\<lambda>i. it_scope i = trim scope \<and> it_kind i \<in> set kinds) (cs_items st))))"

definition delete_model_catalog_string_items :: "str \<Rightarrow> str \<Rightarrow> str \<Rightarrow> catalog_store \<Rightarrow> unit sql \<times> catalog_store" where
  "delete_model_catalog_string_items scope slug kind st =
     cs_exec st (st\<lparr>cs_items := filter (\<lambda>i. \<not> (it_scope i = scope \<and> it_slug i = slug \<and> it_kind i = kind)) (cs_items st)\<rparr>)"

definition delete_model_catalog_string_item_kinds :: "str \<Rightarrow> str \<Rightarrow> str list \<Rightarrow> catalog_store \<Rightarrow> unit sql \<times> catalog_store" where
  "delete_model_catalog_string_item_kinds scope slug kinds st =
     (let ks = filter (\<lambda>k. k \<noteq> []) (map trim kinds) in
      if ks = [] then (Inr (), st)
      else cs_exec st (st\<lparr>cs_items := filter (\<lambda>i. \<not> (it_scope i = scope \<and> it_slug i = slug \<and> it_kind i \<in> set ks)) (cs_items st)\<rparr>))"

definition list_remote_unedited_model_catalog_slugs :: "catalog_store \<Rightarrow> str \<Rightarrow> str list sql" where
  "list_remote_unedited_model_catalog_slugs st scope =
     cs_query st (map cm_slug (sort_key (\<lambda>c. (cm_sort_index c, - cm_updated_at c, cm_slug c))
       (filter (\<lambda>c. cm_scope c = scope \<and> cm_source_kind c = ''remote'' \<and> \<not> cm_user_edited c) (ms_catalog (cs_models st)))))"

abbreviation kind_speed :: str where "kind_speed \<equiv> ''additional_speed_tiers''"
abbreviation kind_tools :: str where "kind_tools \<equiv> ''experimental_supported_tools''"
abbreviation kind_modalities :: str where "kind_modalities \<equiv> ''input_modalities''"
abbreviation kind_plans :: str where "kind_plans \<equiv> ''available_in_plans''"

definition item_kinds :: "str list" where
  "item_kinds = [kind_speed, kind_tools, kind_modalities, kind_plans]"

record catalog_snapshot =
  ss_scope :: "scope_row option"
  ss_models :: "catalog_model list"
  ss_levels :: "level_row list"
  ss_items :: "item_row list"

definition load_model_catalog_storage_snapshot :: "catalog_store \<Rightarrow> str \<Rightarrow> catalog_snapshot sql" where
  "load_model_catalog_storage_snapshot st scope =
     sum_bind (list_model_catalog_models st scope) (\<lambda>models.
       if models = [] then Inr \<lparr>ss_scope = None, ss_models = [], ss_levels = [], ss_items = []\<rparr>
       else sum_bind (list_model_catalog_string_items_for_kinds st scope item_kinds) (\<lambda>items.
            sum_bind (get_model_catalog_scope st scope) (\<lambda>sc.
            sum_bind (list_model_catalog_reasoning_levels st scope) (\<lambda>levels.
              Inr \<lparr>ss_scope = sc, ss_models = models, ss_levels = levels, ss_items = items\<rparr>))))"

section \<open>JSON columns\<close>

definition serialize_extra_map :: "json_io \<Rightarrow> json_map \<Rightarrow> str + str" where
  "serialize_extra_map io m = js_print io (JObj m)"

definition serialize_json_option :: "json_io \<Rightarrow> json option \<Rightarrow> str + str option" where
  "serialize_json_option io v =
     (case v of None \<Rightarrow> Inr None | Some j \<Rightarrow> sum_bind (js_print io j) (\<lambda>s. Inr (Some s)))"

definition parse_json_value :: "json_io \<Rightarrow> str option \<Rightarrow> json option" where
  "parse_json_value io raw = bind_opt raw (js_parse io)"

definition parse_extra_json_map :: "json_io \<Rightarrow> str option \<Rightarrow> json_map option" where
  "parse_extra_json_map io raw = bind_opt (parse_json_value io raw) json_as_object"

fun take_json_field :: "str list \<Rightarrow> json_map \<Rightarrow> json option \<times> json_map" where
  "take_json_field [] m = (None, m)"
| "take_json_field (k # ks) m =
     (case map_of m k of Some v \<Rightarrow> (Some v, filter (\<lambda>e. fst e \<noteq> k) m) | None \<Rightarrow> take_json_field ks m)"

text \<open>\<^verbatim>\<open>serde\<close>'s view of a service tier: three texts with defaults, the rest in \<open>extra\<close>.\<close>

definition tier_to_json :: "service_tier \<Rightarrow> json" where
  "tier_to_json t = JObj (bt_extend []
     ([(''id'', JStr (ti_id t)), (''name'', JStr (ti_name t)), (''description'', JStr (ti_description t))] @ ti_extra t))"

definition text_field :: "json_map \<Rightarrow> str \<Rightarrow> str option" where
  "text_field m k = (case map_of m k of None \<Rightarrow> Some [] | Some (JStr s) \<Rightarrow> Some s | Some _ \<Rightarrow> None)"

definition tier_of_json :: "json \<Rightarrow> service_tier option" where
  "tier_of_json j = bind_opt (json_as_object j) (\<lambda>m.
     bind_opt (text_field m ''id'') (\<lambda>i. bind_opt (text_field m ''name'') (\<lambda>n.
     bind_opt (text_field m ''description'') (\<lambda>d.
       Some \<lparr>ti_id = i, ti_name = n, ti_description = d,
             ti_extra = filter (\<lambda>e. fst e \<notin> {''id'', ''name'', ''description''}) m\<rparr>))))"

definition all_some :: "'a option list \<Rightarrow> 'a list option" where
  "all_some xs = foldr (\<lambda>x r. bind_opt x (\<lambda>v. map_option ((#) v) r)) xs (Some [])"

definition tiers_of_json :: "json \<Rightarrow> service_tier list option" where
  "tiers_of_json j = bind_opt (json_as_array j) (\<lambda>xs. all_some (map tier_of_json xs))"

definition model_extra_json :: "json_io \<Rightarrow> model_info \<Rightarrow> str + str" where
  "model_extra_json io m = serialize_extra_map io (bt_extend (mi_extra m)
     ((if mi_service_tiers m = [] then [] else [(''service_tiers'', JArr (map tier_to_json (mi_service_tiers m)))])
      @ (case mi_default_service_tier m of None \<Rightarrow> [] | Some v \<Rightarrow> [(''default_service_tier'', JStr v)])
      @ (case mi_upgrade_info m of None \<Rightarrow> [] | Some v \<Rightarrow> [(''upgrade_info'', v)])))"

text \<open>The policy of a row; the description that is filled in has none before.\<close>

definition build_truncation_policy ::
    "json_io \<Rightarrow> str option \<Rightarrow> i64 option \<Rightarrow> str option \<Rightarrow> truncation_policy option \<Rightarrow> truncation_policy option" where
  "build_truncation_policy io mode limit extra existing =
     (if mode = None \<and> limit = None \<and> extra = None then existing
      else (let p = unwrap_or existing \<lparr>tp_mode = [], tp_limit = 0, tp_extra = []\<rparr>
            in Some \<lparr>tp_mode = unwrap_or mode (tp_mode p), tp_limit = unwrap_or limit (tp_limit p),
                 tp_extra = unwrap_or (parse_extra_json_map io extra) (tp_extra p)\<rparr>))"

section \<open>From a row to a description\<close>

record row_lists =
  rw_levels :: "reasoning_level list option"
  rw_speed :: "str list option"
  rw_tools :: "str list option"
  rw_modalities :: "str list option"
  rw_plans :: "str list option"

definition model_info_from_row :: "json_io \<Rightarrow> catalog_model \<Rightarrow> row_lists \<Rightarrow> model_info option" where
  "model_info_from_row io row ls =
     (let x = cm_details row;
          e0 = unwrap_or (parse_extra_json_map io (Some (cx_extra_json x))) [];
          (tiers, e1) = take_json_field [''service_tiers'', ''serviceTiers''] e0;
          (tier, e2) = take_json_field [''default_service_tier'', ''defaultServiceTier''] e1;
          (upgrade, e3) = take_json_field [''upgrade_info'', ''upgradeInfo''] e2
      in normalize_model_info
        \<lparr>mi_slug = cm_slug row, mi_display_name = cm_display_name row,
         mi_description = cx_description x, mi_default_reasoning_level = cx_default_reasoning_level x,
         mi_supported_reasoning_levels = unwrap_or (rw_levels ls) [],
         mi_shell_type = cx_shell_type x, mi_visibility = cm_visibility row,
         mi_supported_in_api = unwrap_or (cm_supported row) True, mi_priority = unwrap_or (cx_priority x) 0,
         mi_additional_speed_tiers = unwrap_or (rw_speed ls) [],
         mi_service_tiers = unwrap_or (map_option normalize_service_tiers (bind_opt tiers tiers_of_json)) [],
         mi_default_service_tier = bind_opt (bind_opt tier json_as_str) normalize_optional,
         mi_availability_nux = parse_json_value io (cx_availability_nux_json x),
         mi_upgrade = parse_json_value io (cx_upgrade_json x), mi_upgrade_info = upgrade,
         mi_base_instructions = cx_base_instructions x,
         mi_model_messages = parse_json_value io (cx_model_messages_json x),
         mi_supports_reasoning_summaries = cx_supports_reasoning_summaries x,
         mi_default_reasoning_summary = cx_default_reasoning_summary x,
         mi_support_verbosity = cx_support_verbosity x,
         mi_default_verbosity = parse_json_value io (cx_default_verbosity_json x),
         mi_apply_patch_tool_type = cx_apply_patch_tool_type x,
         mi_web_search_tool_type = cx_web_search_tool_type x,
         mi_truncation_policy = build_truncation_policy io (cx_truncation_mode x) (cx_truncation_limit x)
           (cx_truncation_extra_json x) None,
         mi_supports_parallel_tool_calls = cx_supports_parallel_tool_calls x,
         mi_supports_image_detail_original = cx_supports_image_detail_original x,
         mi_context_window = cx_context_window x, mi_auto_compact_token_limit = cx_auto_compact_token_limit x,
         mi_effective_context_window_percent = cx_effective_context_window_percent x,
         mi_experimental_supported_tools = unwrap_or (rw_tools ls) [],
         mi_input_modalities = unwrap_or (rw_modalities ls) default_input_modalities,
         mi_minimal_client_version = parse_json_value io (cx_minimal_client_version_json x),
         mi_supports_search_tool = cx_supports_search_tool x,
         mi_available_in_plans = unwrap_or (rw_plans ls) [], mi_extra = e3\<rparr>)"

definition managed_catalog_entry_from_row :: "json_io \<Rightarrow> catalog_model \<Rightarrow> row_lists \<Rightarrow> catalog_entry option" where
  "managed_catalog_entry_from_row io row ls =
     map_option (\<lambda>m. \<lparr>ce_model = m, ce_source_kind = normalize_source_kind (Some (cm_source_kind row)),
        ce_user_edited = cm_user_edited row, ce_sort_index = cm_sort_index row, ce_updated_at = cm_updated_at row\<rparr>)
       (model_info_from_row io row ls)"

text \<open>The lists of a slug, absent when there is no row; a list is used up by the first row of its slug.\<close>

definition group_of :: "'a list \<Rightarrow> 'a list option" where "group_of xs = (if xs = [] then None else Some xs)"

definition level_of_row :: "json_io \<Rightarrow> level_row \<Rightarrow> reasoning_level" where
  "level_of_row io l = \<lparr>rl_effort = lv_effort l, rl_description = lv_description l,
     rl_extra = unwrap_or (parse_extra_json_map io (Some (lv_extra_json l))) []\<rparr>"

definition lists_of_slug :: "json_io \<Rightarrow> str \<Rightarrow> level_row list \<Rightarrow> item_row list \<Rightarrow> row_lists" where
  "lists_of_slug io slug levels items =
     (let texts = (\<lambda>kind. group_of (map it_value (filter (\<lambda>i. it_slug i = slug \<and> it_kind i = kind) items)))
      in \<lparr>rw_levels = group_of (map (level_of_row io) (filter (\<lambda>l. lv_slug l = slug) levels)),
          rw_speed = texts kind_speed, rw_tools = texts kind_tools, rw_modalities = texts kind_modalities,
          rw_plans = texts kind_plans\<rparr>)"

fun rebuild_items :: "json_io \<Rightarrow> catalog_model list \<Rightarrow> level_row list \<Rightarrow> item_row list \<Rightarrow> catalog_entry list" where
  "rebuild_items io [] levels items = []"
| "rebuild_items io (r # rows) levels items =
     (case managed_catalog_entry_from_row io r (lists_of_slug io (cm_slug r) levels items) of Some e \<Rightarrow> [e] | None \<Rightarrow> [])
     @ rebuild_items io rows (filter (\<lambda>l. lv_slug l \<noteq> cm_slug r) levels) (filter (\<lambda>i. it_slug i \<noteq> cm_slug r) items)"

definition needs_structured_backfill :: "catalog_model list \<Rightarrow> bool \<Rightarrow> bool" where
  "needs_structured_backfill rows missing_scope \<longleftrightarrow>
     missing_scope \<or> list_ex (\<lambda>r. cm_supported r = None \<and> cx_priority (cm_details r) = None \<and> cm_visibility r = None
       \<and> cx_minimal_client_version_json (cm_details r) = None \<and> cx_context_window (cm_details r) = None
       \<and> trim (cx_extra_json (cm_details r)) = []) rows"

section \<open>From a description to its rows\<close>

definition model_record_from_model :: "json_io \<Rightarrow> catalog_entry \<Rightarrow> i64 \<Rightarrow> i64 \<Rightarrow> str + catalog_model" where
  "model_record_from_model io e sort_index updated_at =
     (let m = ce_model e; tp = mi_truncation_policy m in
      sum_bind (case tp of None \<Rightarrow> Inr None | Some p \<Rightarrow> sum_bind (serialize_extra_map io (tp_extra p)) (\<lambda>s. Inr (Some s))) (\<lambda>tx.
      sum_bind (serialize_json_option io (mi_availability_nux m)) (\<lambda>nux.
      sum_bind (serialize_json_option io (mi_upgrade m)) (\<lambda>upgrade.
      sum_bind (serialize_json_option io (mi_model_messages m)) (\<lambda>messages.
      sum_bind (serialize_json_option io (mi_default_verbosity m)) (\<lambda>verbosity.
      sum_bind (serialize_json_option io (mi_minimal_client_version m)) (\<lambda>version.
      sum_bind (model_extra_json io m) (\<lambda>extra.
        Inr \<lparr>cm_scope = ''default'', cm_slug = mi_slug m, cm_display_name = mi_display_name m,
             cm_source_kind = normalize_source_kind (Some (ce_source_kind e)), cm_user_edited = ce_user_edited e,
             cm_visibility = mi_visibility m, cm_supported = Some (mi_supported_in_api m),
             cm_details = \<lparr>
               cx_description = mi_description m, cx_default_reasoning_level = mi_default_reasoning_level m,
               cx_shell_type = mi_shell_type m, cx_priority = Some (mi_priority m),
               cx_availability_nux_json = nux, cx_upgrade_json = upgrade, cx_base_instructions = mi_base_instructions m,
               cx_model_messages_json = messages, cx_supports_reasoning_summaries = mi_supports_reasoning_summaries m,
               cx_default_reasoning_summary = mi_default_reasoning_summary m, cx_support_verbosity = mi_support_verbosity m,
               cx_default_verbosity_json = verbosity, cx_apply_patch_tool_type = mi_apply_patch_tool_type m,
               cx_web_search_tool_type = mi_web_search_tool_type m, cx_truncation_mode = map_option tp_mode tp,
               cx_truncation_limit = map_option tp_limit tp, cx_truncation_extra_json = tx,
               cx_supports_parallel_tool_calls = mi_supports_parallel_tool_calls m,
               cx_supports_image_detail_original = mi_supports_image_detail_original m,
               cx_context_window = mi_context_window m, cx_auto_compact_token_limit = mi_auto_compact_token_limit m,
               cx_effective_context_window_percent = mi_effective_context_window_percent m,
               cx_minimal_client_version_json = version, cx_supports_search_tool = mi_supports_search_tool m,
               cx_extra_json = extra\<rparr>,
             cm_sort_index = sort_index, cm_updated_at = updated_at\<rparr>))))))))"

fun level_records :: "json_io \<Rightarrow> str \<Rightarrow> i64 \<Rightarrow> nat \<Rightarrow> reasoning_level list \<Rightarrow> str + level_row list" where
  "level_records io slug updated_at n [] = Inr []"
| "level_records io slug updated_at n (l # ls) =
     sum_bind (serialize_extra_map io (rl_extra l)) (\<lambda>s.
     sum_bind (level_records io slug updated_at (Suc n) ls) (\<lambda>rows.
       Inr (\<lparr>lv_scope = ''default'', lv_slug = slug, lv_effort = rl_effort l, lv_description = rl_description l,
             lv_extra_json = s, lv_sort_index = int n, lv_updated_at = updated_at\<rparr> # rows)))"

definition reasoning_records_from_model :: "json_io \<Rightarrow> model_info \<Rightarrow> i64 \<Rightarrow> str + level_row list" where
  "reasoning_records_from_model io m updated_at = level_records io (mi_slug m) updated_at 0 (mi_supported_reasoning_levels m)"

definition string_records_from_model :: "str \<Rightarrow> str \<Rightarrow> str list \<Rightarrow> i64 \<Rightarrow> item_row list" where
  "string_records_from_model kind slug values updated_at =
     map (\<lambda>(n, v). \<lparr>it_scope = ''default'', it_slug = slug, it_kind = kind, it_value = v, it_sort_index = int n,
                    it_updated_at = updated_at\<rparr>) (List.enumerate 0 values)"

definition values_of_kind :: "model_info \<Rightarrow> str \<Rightarrow> str list" where
  "values_of_kind m kind =
     (if kind = kind_speed then mi_additional_speed_tiers m
      else if kind = kind_tools then mi_experimental_supported_tools m
      else if kind = kind_modalities then mi_input_modalities m
      else mi_available_in_plans m)"

section \<open>Saving a catalog\<close>

record catalog_rows =
  cr_models :: "catalog_model list"
  cr_levels :: "level_row list"
  cr_items :: "str \<Rightarrow> item_row list"

definition stamp_entry :: "i64 \<Rightarrow> nat \<Rightarrow> catalog_entry \<Rightarrow> catalog_entry" where
  "stamp_entry updated_at n e =
     e\<lparr>ce_updated_at := (if 0 < ce_updated_at e then ce_updated_at e else updated_at),
       ce_sort_index := (if 0 \<le> ce_sort_index e then ce_sort_index e else int n)\<rparr>"

fun catalog_rows_of :: "json_io \<Rightarrow> i64 \<Rightarrow> nat \<Rightarrow> catalog_entry list \<Rightarrow> str + catalog_rows" where
  "catalog_rows_of io updated_at n [] = Inr \<lparr>cr_models = [], cr_levels = [], cr_items = (\<lambda>kind. [])\<rparr>"
| "catalog_rows_of io updated_at n (e0 # es) =
     (let e = stamp_entry updated_at n e0 in
      sum_bind (model_record_from_model io e (ce_sort_index e) (ce_updated_at e)) (\<lambda>row.
      sum_bind (reasoning_records_from_model io (ce_model e) (ce_updated_at e)) (\<lambda>levels.
      sum_bind (catalog_rows_of io updated_at (Suc n) es) (\<lambda>rest.
        Inr \<lparr>cr_models = row # cr_models rest, cr_levels = levels @ cr_levels rest,
             cr_items = (\<lambda>kind. string_records_from_model kind (mi_slug (ce_model e)) (values_of_kind (ce_model e) kind) (ce_updated_at e)
                                 @ cr_items rest kind)\<rparr>))))"

definition upsert_lists :: "level_row list \<Rightarrow> (str \<Rightarrow> item_row list) \<Rightarrow> catalog_store \<Rightarrow> (str + unit) \<times> catalog_store" where
  "upsert_lists levels items st0 =
     cs_try (upsert_model_catalog_reasoning_levels levels st0) (\<lambda>_ st1.
     cs_try (upsert_model_catalog_string_items (items kind_speed) st1) (\<lambda>_ st2.
     cs_try (upsert_model_catalog_string_items (items kind_tools) st2) (\<lambda>_ st3.
     cs_try (upsert_model_catalog_string_items (items kind_modalities) st3) (\<lambda>_ st4.
       upsert_model_catalog_string_items (items kind_plans) st4))))"

definition save_managed_model_catalog_rows ::
    "json_io \<Rightarrow> i64 \<Rightarrow> managed_catalog \<Rightarrow> i64 \<Rightarrow> catalog_store \<Rightarrow> (str + unit) \<times> catalog_store" where
  "save_managed_model_catalog_rows io now c updated_at st =
     cs_ask (serialize_extra_map io (mc_extra c)) st (\<lambda>extra.
     cs_try (upsert_model_catalog_scope \<lparr>sc_scope = ''default'', sc_extra_json = extra, sc_updated_at = updated_at\<rparr> st) (\<lambda>_ st1.
     cs_ask (catalog_rows_of io updated_at 0 (mc_items c)) st1 (\<lambda>rows.
     cs_try (on_models (upsert_model_catalog_models (cr_models rows) now) st1) (\<lambda>_ st2.
       upsert_lists (cr_levels rows) (cr_items rows) st2))))"

definition save_managed_model_catalog_with_storage ::
    "json_io \<Rightarrow> i64 \<Rightarrow> managed_catalog \<Rightarrow> catalog_store \<Rightarrow> (str + unit) \<times> catalog_store" where
  "save_managed_model_catalog_with_storage io now c st =
     save_managed_model_catalog_rows io now (normalize_managed_model_catalog c) now st"

definition save_model_options_with_storage ::
    "json_io \<Rightarrow> i64 \<Rightarrow> models_response \<Rightarrow> catalog_store \<Rightarrow> (str + unit) \<times> catalog_store" where
  "save_model_options_with_storage io now r st =
     (let n = normalize_models_response r
      in save_managed_model_catalog_with_storage io now
           \<lparr>mc_items = map remote_entry (List.enumerate 0 (mr_models n)), mc_extra = mr_extra n\<rparr> st)"

section \<open>Reading a catalog\<close>

definition empty_catalog :: managed_catalog where "empty_catalog = \<lparr>mc_items = [], mc_extra = []\<rparr>"

definition max_updated_at :: "catalog_model list \<Rightarrow> i64" where
  "max_updated_at rows = foldr (\<lambda>r m. max (cm_updated_at r) m) (tl rows) (cm_updated_at (hd rows))"

definition read_managed_model_catalog_from_storage ::
    "json_io \<Rightarrow> i64 \<Rightarrow> catalog_store \<Rightarrow> (str + managed_catalog) \<times> catalog_store" where
  "read_managed_model_catalog_from_storage io now st =
     cs_ask (load_model_catalog_storage_snapshot st ''default'') st (\<lambda>s.
       (let items = rebuild_items io (ss_models s) (ss_levels s) (ss_items s);
            extra = unwrap_or (bind_opt (ss_scope s) (\<lambda>r. parse_extra_json_map io (Some (sc_extra_json r)))) [];
            response = normalize_managed_model_catalog \<lparr>mc_items = items, mc_extra = extra\<rparr>
        in if items = [] then (Inr empty_catalog, st)
           else if needs_structured_backfill (ss_models s) (ss_scope s = None)
           then (Inr response, snd (save_managed_model_catalog_rows io now response (max_updated_at (ss_models s)) st))
           else (Inr response, st)))"

definition read_model_options_from_storage :: "json_io \<Rightarrow> i64 \<Rightarrow> catalog_store \<Rightarrow> (str + models_response) \<times> catalog_store" where
  "read_model_options_from_storage io now st =
     cs_try (read_managed_model_catalog_from_storage io now st) (\<lambda>c st1. (Inr (managed_catalog_to_models_response c), st1))"

text \<open>
  A refresh asks the remote when it is told to, or when nothing is stored and fetching is enabled. A
  remote that fails, or has no model, does not replace what is stored.
\<close>

definition models_response_has_catalog_text_model :: "models_response \<Rightarrow> bool" where
  "models_response_has_catalog_text_model r = list_ex (\<lambda>m. trim (mi_slug m) \<noteq> []) (mr_models r)"

definition managed_catalog_has_catalog_text_model :: "managed_catalog \<Rightarrow> bool" where
  "managed_catalog_has_catalog_text_model c = list_ex (\<lambda>e. trim (entry_slug e) \<noteq> []) (mc_items c)"

definition empty_remote_message :: str where
  "empty_remote_message = map char_of [0xE8, 0xBF, 0x9C, 0xE7, 0xAB, 0xAF, 0xE6, 0xA8, 0xA1, 0xE5, 0x9E, 0x8B, 0xE7, 0x9B, 0xAE, 0xE5, 0xBD, 0x95, 0xE6, 0xB2, 0xA1, 0xE6, 0x9C, 0x89, 0xE8, 0xBF, 0x94, 0xE5, 0x9B, 0x9E, 0xE5, 0x8F, 0xAF, 0xE7, 0x94, 0xA8, 0xE6, 0xA8, 0xA1, 0xE5, 0x9E, 0x8B, 0xEF, 0xBC, 0x8C, 0xE5, 0xB7, 0xB2, 0xE6, 0x8B, 0x92, 0xE7, 0xBB, 0x9D, 0xE8, 0xA6, 0x86, 0xE7, 0x9B, 0x96, 0xE6, 0x9C, 0xAC, 0xE5, 0x9C, 0xB0, 0xE7, 0x9B, 0xAE, 0xE5, 0xBD, 0x95 :: nat]"

definition read_managed_model_catalog ::
    "json_io \<Rightarrow> i64 \<Rightarrow> bool \<Rightarrow> bool \<Rightarrow> str + models_response \<Rightarrow> catalog_store \<Rightarrow> (str + managed_catalog) \<times> catalog_store" where
  "read_managed_model_catalog io now refresh auto_fetch fetched st0 =
     cs_try (read_managed_model_catalog_from_storage io now st0) (\<lambda>cached st.
       if \<not> (refresh \<or> \<not> managed_catalog_has_catalog_text_model cached \<and> auto_fetch) then (Inr cached, st)
       else (case fetched of
          Inr models0 \<Rightarrow>
            (let models = normalize_models_response models0; merged = merge_managed_model_catalog cached models in
             if \<not> models_response_has_catalog_text_model models \<and> managed_catalog_has_catalog_text_model cached
             then (Inr cached, st)
             else if \<not> models_response_has_catalog_text_model models \<and> refresh then (Inl empty_remote_message, st)
             else (Inr merged, if mc_items merged = [] then st
                               else snd (save_managed_model_catalog_with_storage io now merged st)))
        | Inl e \<Rightarrow>
            if managed_catalog_has_catalog_text_model cached then (Inr cached, st)
            else if refresh then (Inl e, st) else (Inr empty_catalog, st)))"

definition read_model_options ::
    "json_io \<Rightarrow> i64 \<Rightarrow> bool \<Rightarrow> bool \<Rightarrow> str + models_response \<Rightarrow> catalog_store \<Rightarrow> (str + models_response) \<times> catalog_store" where
  "read_model_options io now refresh auto_fetch fetched st =
     cs_try (read_managed_model_catalog io now refresh auto_fetch fetched st) (\<lambda>c st1. (Inr (managed_catalog_to_models_response c), st1))"

section \<open>Deleting, replacing, pruning\<close>

definition prune_refused_message :: str where
  "prune_refused_message = map char_of [0xE8, 0xBF, 0x9C, 0xE7, 0xAB, 0xAF, 0xE6, 0xA8, 0xA1, 0xE5, 0x9E, 0x8B, 0xE7, 0x9B, 0xAE, 0xE5, 0xBD, 0x95, 0xE6, 0xB2, 0xA1, 0xE6, 0x9C, 0x89, 0xE8, 0xBF, 0x94, 0xE5, 0x9B, 0x9E, 0xE5, 0x8F, 0xAF, 0xE7, 0x94, 0xA8, 0xE6, 0xA8, 0xA1, 0xE5, 0x9E, 0x8B, 0xEF, 0xBC, 0x8C, 0xE5, 0xB7, 0xB2, 0xE6, 0x8B, 0x92, 0xE7, 0xBB, 0x9D, 0xE6, 0xB8, 0x85, 0xE7, 0x90, 0x86, 0xE6, 0x9C, 0xAC, 0xE5, 0x9C, 0xB0, 0xE7, 0x9B, 0xAE, 0xE5, 0xBD, 0x95 :: nat]"

definition blank_slug_message :: str where
  "blank_slug_message = map char_of [0xE6, 0xA8, 0xA1, 0xE5, 0x9E, 0x8B :: nat] @ '' slug '' @ map char_of [0xE4, 0xB8, 0x8D, 0xE8, 0x83, 0xBD, 0xE4, 0xB8, 0xBA, 0xE7, 0xA9, 0xBA :: nat]"

text \<open>The preferences of all mappings are written even when some fail; the failures are one error.\<close>

fun unlink_mappings :: "i64 \<Rightarrow> source_mapping list \<Rightarrow> model_store \<Rightarrow> str list \<times> model_store" where
  "unlink_mappings now [] st = ([], st)"
| "unlink_mappings now (m # ms) st =
     (case delete_model_source_mapping_with_unlink_preference (mp_id m) (mp_kind m) (mp_source_id m) (mp_upstream m) now st of
        (r, st1) \<Rightarrow> (case unlink_mappings now ms st1 of (es, st2) \<Rightarrow>
          ((case r of Inl e \<Rightarrow> [mp_upstream m @ '': '' @ e] | Inr _ \<Rightarrow> []) @ es, st2)))"

definition unlink_platform_model :: "i64 \<Rightarrow> str \<Rightarrow> model_store \<Rightarrow> (str + unit) \<times> model_store" where
  "unlink_platform_model now slug st =
     (case list_model_source_mappings st (Some slug) of
        Inl e \<Rightarrow> (Inl (map char_of [0xE6, 0x97, 0xA0, 0xE6, 0xB3, 0x95, 0xE8, 0xAF, 0xBB, 0xE5, 0x8F, 0x96, 0xE6, 0xA8, 0xA1, 0xE5, 0x9E, 0x8B, 0xE6, 0x9D, 0xA5, 0xE6, 0xBA, 0x90, 0xE6, 0x98, 0xA0, 0xE5, 0xB0, 0x84 :: nat] @ '': '' @ e), st)
      | Inr ms \<Rightarrow> (case unlink_mappings now ms st of
          (es, st1) \<Rightarrow> (if es = [] then Inr () else Inl (map char_of [0xE6, 0x97, 0xA0, 0xE6, 0xB3, 0x95, 0xE4, 0xB8, 0xBA, 0xE6, 0x89, 0x80, 0xE6, 0x9C, 0x89, 0xE6, 0x9D, 0xA5, 0xE6, 0xBA, 0x90, 0xE6, 0xA8, 0xA1, 0xE5, 0x9E, 0x8B, 0xE8, 0xAE, 0xBE, 0xE7, 0xBD, 0xAE, 0xE5, 0x88, 0xA0, 0xE9, 0x99, 0xA4, 0xE5, 0x81, 0x8F, 0xE5, 0xA5, 0xBD :: nat] @ '': '' @ join ''; '' es), st1)))"

definition delete_model_catalog_entry :: "i64 \<Rightarrow> str \<Rightarrow> bool \<Rightarrow> catalog_store \<Rightarrow> (str + unit) \<times> catalog_store" where
  "delete_model_catalog_entry now slug unlink st0 =
     cs_try (if unlink then on_models (unlink_platform_model now slug) st0 else (Inr (), st0)) (\<lambda>_ st1.
     cs_try (on_models (delete_model_group_model_references slug) st1) (\<lambda>_ st2.
     cs_try (on_models (delete_model_source_routes_for_platform_model slug) st2) (\<lambda>_ st3.
     cs_try (delete_model_catalog_reasoning_levels ''default'' slug st3) (\<lambda>_ st4.
     cs_try (delete_model_catalog_string_item_kinds ''default'' slug item_kinds st4) (\<lambda>_ st5.
       on_models (delete_model_catalog_model ''default'' slug) st5)))))"

definition clear_lists :: "str \<Rightarrow> catalog_store \<Rightarrow> (str + unit) \<times> catalog_store" where
  "clear_lists slug st0 =
     cs_try (delete_model_catalog_reasoning_levels ''default'' slug st0) (\<lambda>_ st1.
     cs_try (delete_model_catalog_string_items ''default'' slug kind_speed st1) (\<lambda>_ st2.
     cs_try (delete_model_catalog_string_items ''default'' slug kind_tools st2) (\<lambda>_ st3.
     cs_try (delete_model_catalog_string_items ''default'' slug kind_modalities st3) (\<lambda>_ st4.
       delete_model_catalog_string_items ''default'' slug kind_plans st4))))"

definition replace_model_catalog_entry ::
    "json_io \<Rightarrow> i64 \<Rightarrow> str option \<Rightarrow> catalog_entry \<Rightarrow> catalog_store \<Rightarrow> (str + unit) \<times> catalog_store" where
  "replace_model_catalog_entry io now previous e st0 =
     (let slug = entry_slug e; updated_at = (if 0 < ce_updated_at e then ce_updated_at e else now);
          old = trim (unwrap_or previous []) in
      cs_try (if old \<noteq> [] \<and> old \<noteq> slug then delete_model_catalog_entry now old False st0 else (Inr (), st0)) (\<lambda>_ st1.
      cs_try (clear_lists slug st1) (\<lambda>_ st2.
      cs_ask (model_record_from_model io e (ce_sort_index e) updated_at) st2 (\<lambda>row.
      cs_try (on_models (upsert_model_catalog_models [row] now) st2) (\<lambda>_ st3.
      cs_ask (reasoning_records_from_model io (ce_model e) updated_at) st3 (\<lambda>levels.
        upsert_lists levels (\<lambda>kind. string_records_from_model kind slug (values_of_kind (ce_model e) kind) updated_at) st3))))))"

fun delete_entries :: "i64 \<Rightarrow> str list \<Rightarrow> catalog_store \<Rightarrow> (str + unit) \<times> catalog_store" where
  "delete_entries now [] st = (Inr (), st)"
| "delete_entries now (s # ss) st =
     cs_try (delete_model_catalog_entry now s False st) (\<lambda>_ st1. delete_entries now ss st1)"

definition prune_unedited_remote_model_catalog_entries_missing_from_remote ::
    "i64 \<Rightarrow> models_response \<Rightarrow> catalog_store \<Rightarrow> (str + unit) \<times> catalog_store" where
  "prune_unedited_remote_model_catalog_entries_missing_from_remote now r st =
     cs_ask (list_remote_unedited_model_catalog_slugs st ''default'') st (\<lambda>slugs.
       delete_entries now (filter (\<lambda>s. s \<notin> mi_slug ` set (mr_models r)) slugs) st)"

definition prune_stale_remote_managed_model_catalog ::
    "json_io \<Rightarrow> i64 \<Rightarrow> str + models_response \<Rightarrow> catalog_store \<Rightarrow> (str + managed_catalog) \<times> catalog_store" where
  "prune_stale_remote_managed_model_catalog io now fetched st0 =
     cs_try (read_managed_model_catalog_from_storage io now st0) (\<lambda>cached st1.
     cs_ask fetched st1 (\<lambda>models0.
       (let models = normalize_models_response models0; merged = merge_managed_model_catalog cached models in
        if \<not> models_response_has_catalog_text_model models then (Inl prune_refused_message, st1)
        else cs_try (if mc_items merged = [] then (Inr (), st1) else save_managed_model_catalog_with_storage io now merged st1) (\<lambda>_ st2.
             cs_try (prune_unedited_remote_model_catalog_entries_missing_from_remote now models st2) (\<lambda>_ st3.
               read_managed_model_catalog_from_storage io now st3)))))"

definition delete_managed_model_catalog_model :: "i64 \<Rightarrow> str \<Rightarrow> catalog_store \<Rightarrow> (str + unit) \<times> catalog_store" where
  "delete_managed_model_catalog_model now slug0 st =
     (let slug = trim slug0 in if slug = [] then (Inl blank_slug_message, st) else delete_model_catalog_entry now slug True st)"

section \<open>Saving one model\<close>

record upsert_params =
  cp_previous_slug :: "str option"
  cp_source_kind :: "str option"
  cp_user_edited :: "bool option"
  cp_sort_index :: "i64 option"
  cp_model :: model_info

definition ensure_platform_model_enableable :: "model_store \<Rightarrow> model_info \<Rightarrow> str + unit" where
  "ensure_platform_model_enableable st m =
     (if \<not> mi_supported_in_api m then Inr ()
      else sum_bind (map_err ''check model mappings failed: '' (has_enabled_model_source_mapping_for_platform st (mi_slug m))) (\<lambda>ok.
        if ok then Inr () else Inl (map char_of [0xE6, 0xA8, 0xA1, 0xE5, 0x9E, 0x8B :: nat] @ '' `'' @ mi_slug m @ ''` '' @ map char_of [0xE5, 0x90, 0xAF, 0xE7, 0x94, 0xA8 :: nat] @ '' API '' @ map char_of [0xE5, 0x89, 0x8D, 0xE8, 0x87, 0xB3, 0xE5, 0xB0, 0x91, 0xE9, 0x9C, 0x80, 0xE8, 0xA6, 0x81, 0xE4, 0xB8, 0x80, 0xE4, 0xB8, 0xAA, 0xE5, 0x90, 0xAF, 0xE7, 0x94, 0xA8, 0xE7, 0x9A, 0x84, 0xE6, 0x9D, 0xA5, 0xE6, 0xBA, 0x90, 0xE6, 0x98, 0xA0, 0xE5, 0xB0, 0x84 :: nat])))"

definition find_entry :: "managed_catalog \<Rightarrow> str \<Rightarrow> catalog_entry option" where
  "find_entry c slug = find (\<lambda>e. entry_slug e = slug) (mc_items c)"

definition next_sort_index :: "managed_catalog \<Rightarrow> i64" where
  "next_sort_index c = (case mc_items c of [] \<Rightarrow> 0 | e # es \<Rightarrow> foldr (\<lambda>x m. max (ce_sort_index x) m) es (ce_sort_index e) + 1)"

definition save_managed_model_catalog_model ::
    "json_io \<Rightarrow> i64 \<Rightarrow> upsert_params \<Rightarrow> catalog_store \<Rightarrow> (str + catalog_entry) \<times> catalog_store" where
  "save_managed_model_catalog_model io now p st0 =
     cs_try (read_managed_model_catalog_from_storage io now st0) (\<lambda>current st.
       (case normalize_model_info (cp_model p) of
          None \<Rightarrow> (Inl blank_slug_message, st)
        | Some m \<Rightarrow>
            (let previous = trimmed_nonempty (cp_previous_slug p);
                 existing = or_else (bind_opt previous (find_entry current)) (find_entry current (mi_slug m));
                 e = \<lparr>ce_model = m,
                      ce_source_kind = unwrap_or (or_else (trimmed_nonempty (cp_source_kind p)) (map_option ce_source_kind existing)) ''custom'',
                      ce_user_edited = unwrap_or (cp_user_edited p) True,
                      ce_sort_index = (case cp_sort_index p of Some n \<Rightarrow> n
                        | None \<Rightarrow> (case existing of Some x \<Rightarrow> ce_sort_index x | None \<Rightarrow> next_sort_index current)),
                      ce_updated_at = now\<rparr>
             in if previous \<noteq> None \<and> previous \<noteq> Some (mi_slug m) \<and> find_entry current (mi_slug m) \<noteq> None
                then (Inl (map char_of [0xE6, 0xA8, 0xA1, 0xE5, 0x9E, 0x8B :: nat] @ '' `'' @ mi_slug m @ ''` '' @ map char_of [0xE5, 0xB7, 0xB2, 0xE5, 0xAD, 0x98, 0xE5, 0x9C, 0xA8 :: nat]), st)
                else cs_ask (ensure_platform_model_enableable (cs_models st) m) st (\<lambda>_.
                     cs_try (replace_model_catalog_entry io now previous e st) (\<lambda>_ st1. (Inr e, st1))))))"

end
