(* ===== verification/Catalog_Properties.thy ===== *)
theory Catalog_Properties
  imports Catalog_Store
begin

text \<open>
  What the operations on the stored catalog guarantee: a saved catalog is read back as it was, a
  refresh never replaces a catalog by an empty one, pruning spares what a user has edited or added,
  and a deleted model leaves no row behind.
\<close>

section \<open>Sorted maps are determined by their lookups\<close>

lemma bt_eqI:
  assumes "bt_wf m" "bt_wf n" "map_of m = map_of n"
  shows "m = n"
proof -
  have rebuild: "xs = map (\<lambda>k. (k, the (map_of xs k))) (map fst xs)" if "bt_wf xs" for xs :: "('a \<times> 'b) list"
  proof -
    from that have "distinct (map fst xs)" by (simp add: bt_wf_def strict_sorted_iff)
    then have "map (\<lambda>p. (fst p, the (map_of xs (fst p)))) xs = xs"
      by (intro map_idI) (auto simp: map_of_eq_Some_iff)
    then show ?thesis by (simp add: comp_def)
  qed
  have "fst ` set m = fst ` set n" using assms(3) by (metis dom_map_of_conv_image_fst)
  then have "map fst m = map fst n"
    using assms(1,2) by (intro strict_sorted_equal) (auto simp: bt_wf_def)
  with rebuild [OF assms(1)] rebuild [OF assms(2)] assms(3) show ?thesis by metis
qed

lemma map_of_filter_key: "map_of (filter (\<lambda>e. fst e \<noteq> k) m) = (map_of m)(k := None)"
  by (induction m) (auto simp: fun_eq_iff)

lemma map_of_filter_keys: "map_of (filter (\<lambda>e. fst e \<notin> K) m) = (\<lambda>k. if k \<in> K then None else map_of m k)"
  by (induction m) (auto simp: fun_eq_iff)

lemma bt_wf_filter: "bt_wf m \<Longrightarrow> bt_wf (filter P m)"
  by (induction m) (auto simp: bt_wf_def)

lemma map_of_none: "k \<notin> fst ` set m \<Longrightarrow> map_of m k = None"
  by (simp add: map_of_eq_None_iff)

lemma map_of_rev_wf: "bt_wf m \<Longrightarrow> map_of (rev m) = map_of m"
proof -
  assume "bt_wf m"
  then have "distinct (map fst m)" "distinct (map fst (rev m))" by (simp_all add: bt_wf_def strict_sorted_iff rev_map [symmetric])
  then show ?thesis by (intro ext option.expand) (auto simp: map_of_eq_Some_iff map_of_eq_None_iff rev_map [symmetric])
qed

section \<open>A description survives its row\<close>

text \<open>What is asked of \<^verbatim>\<open>serde_json\<close>: a value that is written is read back as it was.\<close>

definition prints_back :: "json_io \<Rightarrow> json \<Rightarrow> bool" where
  "prints_back io v = (case js_print io v of Inr s \<Rightarrow> js_parse io s = Some v | Inl _ \<Rightarrow> False)"

definition storable_tier :: "service_tier \<Rightarrow> bool" where
  "storable_tier t \<longleftrightarrow> bt_wf (ti_extra t) \<and> fst ` set (ti_extra t) \<inter> {''id'', ''name'', ''description''} = {}"

definition reserved_fields :: "str list" where
  "reserved_fields = [''service_tiers'', ''serviceTiers'', ''default_service_tier'', ''defaultServiceTier'', ''upgrade_info'', ''upgradeInfo'']"

definition put_field :: "str \<Rightarrow> json option \<Rightarrow> json_map \<Rightarrow> json_map" where
  "put_field k v m = (case v of None \<Rightarrow> m | Some x \<Rightarrow> bt_insert k x m)"

text \<open>The object of the column of further fields, and every value the columns of a description hold.\<close>

definition stored_extra :: "model_info \<Rightarrow> json_map" where
  "stored_extra m = put_field ''upgrade_info'' (mi_upgrade_info m)
     (put_field ''default_service_tier'' (map_option JStr (mi_default_service_tier m))
       (put_field ''service_tiers'' (if mi_service_tiers m = [] then None else Some (JArr (map tier_to_json (mi_service_tiers m))))
         (mi_extra m)))"

definition model_columns :: "model_info \<Rightarrow> json list" where
  "model_columns m = JObj (stored_extra m)
     # (case mi_truncation_policy m of None \<Rightarrow> [] | Some p \<Rightarrow> [JObj (tp_extra p)])
     @ concat (map (\<lambda>v. case v of None \<Rightarrow> [] | Some j \<Rightarrow> [j])
         [mi_availability_nux m, mi_upgrade m, mi_model_messages m, mi_default_verbosity m, mi_minimal_client_version m])
     @ map (\<lambda>l. JObj (rl_extra l)) (mi_supported_reasoning_levels m)"

definition storable_model :: "json_io \<Rightarrow> model_info \<Rightarrow> bool" where
  "storable_model io m \<longleftrightarrow> normal_model m
     \<and> list_all (prints_back io) (model_columns m)
     \<and> distinct (map rl_effort (mi_supported_reasoning_levels m))
     \<and> list_all (\<lambda>kind. distinct (values_of_kind m kind)) item_kinds
     \<and> list_all storable_tier (mi_service_tiers m)
     \<and> bt_wf (mi_extra m) \<and> fst ` set (mi_extra m) \<inter> set reserved_fields = {}"

lemma storable_values: "storable_model io m \<Longrightarrow> distinct (values_of_kind m kind)"
  by (auto simp: storable_model_def item_kinds_def values_of_kind_def split: if_splits)

lemma storable_levels: "storable_model io m \<Longrightarrow> \<forall>l \<in> set (mi_supported_reasoning_levels m). prints_back io (JObj (rl_extra l))"
  by (auto simp: storable_model_def model_columns_def list_all_iff)

lemma storable_tier_roundtrip:
  assumes "storable_tier t"
  shows "tier_of_json (tier_to_json t) = Some t"
proof -
  let ?head = "[(''id'', JStr (ti_id t)), (''name'', JStr (ti_name t)), (''description'', JStr (ti_description t))]"
  define m where "m = bt_extend [] (?head @ ti_extra t)"
  have ex: "bt_wf (ti_extra t)" "k \<in> {''id'', ''name'', ''description''} \<Longrightarrow> map_of (ti_extra t) k = None" for k
    using assms unfolding storable_tier_def by (metis disjoint_iff map_of_none)+
  have m: "bt_wf m" "map_of m = map_of (rev ?head) ++ map_of (ti_extra t)"
    using bt_extend_spec [of "[]" "?head @ ti_extra t"] ex(1) unfolding m_def by (auto simp: bt_wf_def map_of_rev_wf)
  have fields: "text_field m ''id'' = Some (ti_id t)" "text_field m ''name'' = Some (ti_name t)"
    "text_field m ''description'' = Some (ti_description t)"
    by (simp_all add: text_field_def m(2) map_add_def ex(2))
  have "filter (\<lambda>e. fst e \<notin> {''id'', ''name'', ''description''}) m = ti_extra t"
  proof (rule bt_eqI)
    show "map_of (filter (\<lambda>e. fst e \<notin> {''id'', ''name'', ''description''}) m) = map_of (ti_extra t)"
      unfolding map_of_filter_keys m(2) using ex(2) by (auto simp: fun_eq_iff map_add_def split: option.split)
  qed (simp_all add: bt_wf_filter m ex)
  with fields show ?thesis
    by (simp add: tier_of_json_def tier_to_json_def json_as_object_def m_def [symmetric] del: append_Cons)
qed

lemma tiers_roundtrip: "\<forall>t \<in> set ts. storable_tier t \<Longrightarrow> tiers_of_json (JArr (map tier_to_json ts)) = Some ts"
  by (induction ts) (simp_all add: tiers_of_json_def json_as_array_def all_some_def storable_tier_roundtrip)

lemma put_field_wf: "bt_wf m \<Longrightarrow> bt_wf (put_field k v m)"
  by (simp add: put_field_def split: option.split)

lemma map_of_put_field:
  "bt_wf m \<Longrightarrow> map_of (put_field k v m) = (case v of None \<Rightarrow> map_of m | Some x \<Rightarrow> (map_of m)(k \<mapsto> x))"
  by (simp add: put_field_def split: option.split)

lemma take_json_field_put:
  assumes "bt_wf m" "map_of m k = None" "map_of m k' = None" "k \<noteq> k'"
  shows "take_json_field [k, k'] (put_field k v m) = (v, m)"
proof (cases v)
  case (Some x)
  have "filter (\<lambda>e. fst e \<noteq> k) (bt_insert k x m) = m"
    by (rule bt_eqI) (use assms in \<open>auto simp: bt_wf_filter map_of_filter_key fun_eq_iff\<close>)
  with Some assms show ?thesis by (simp add: put_field_def)
qed (use assms in \<open>simp add: put_field_def\<close>)

lemma put_field_commute:
  assumes "bt_wf m" "k \<noteq> k'"
  shows "put_field k v (put_field k' v' m) = put_field k' v' (put_field k v m)"
  by (rule bt_eqI) (use assms in \<open>auto simp: put_field_wf map_of_put_field fun_eq_iff split: option.split\<close>)

lemma take_three_fields:
  fixes t d u :: "json option"
  assumes "bt_wf m" "fst ` set m \<inter> set reserved_fields = {}"
  defines "m3 \<equiv> put_field ''upgrade_info'' u (put_field ''default_service_tier'' d (put_field ''service_tiers'' t m))"
  shows "take_json_field [''service_tiers'', ''serviceTiers''] m3
      = (t, put_field ''upgrade_info'' u (put_field ''default_service_tier'' d m))"
    "take_json_field [''default_service_tier'', ''defaultServiceTier''] (put_field ''upgrade_info'' u (put_field ''default_service_tier'' d m))
      = (d, put_field ''upgrade_info'' u m)"
    "take_json_field [''upgrade_info'', ''upgradeInfo''] (put_field ''upgrade_info'' u m) = (u, m)"
proof -
  have none: "map_of m k = None" if "k \<in> set reserved_fields" for k
    using assms(2) that by (auto simp: map_of_eq_None_iff)
  have "m3 = put_field ''service_tiers'' t (put_field ''upgrade_info'' u (put_field ''default_service_tier'' d m))"
    unfolding m3_def by (simp add: assms put_field_wf put_field_commute [of _ "''default_service_tier''" "''service_tiers''"]
        put_field_commute [of _ "''upgrade_info''" "''service_tiers''"])
  then show "take_json_field [''service_tiers'', ''serviceTiers''] m3
      = (t, put_field ''upgrade_info'' u (put_field ''default_service_tier'' d m))"
    using none by (simp only:, intro take_json_field_put)
      (auto simp: assms put_field_wf map_of_put_field reserved_fields_def split: option.split)
  have swap: "put_field ''upgrade_info'' u (put_field ''default_service_tier'' d m)
      = put_field ''default_service_tier'' d (put_field ''upgrade_info'' u m)"
    by (rule put_field_commute) (simp_all add: assms)
  show "take_json_field [''default_service_tier'', ''defaultServiceTier''] (put_field ''upgrade_info'' u (put_field ''default_service_tier'' d m))
      = (d, put_field ''upgrade_info'' u m)"
    unfolding swap by (rule take_json_field_put)
      (use none in \<open>auto simp: assms put_field_wf map_of_put_field reserved_fields_def split: option.split\<close>)
  show "take_json_field [''upgrade_info'', ''upgradeInfo''] (put_field ''upgrade_info'' u m) = (u, m)"
    using none by (intro take_json_field_put) (auto simp: assms reserved_fields_def)
qed

lemma print_ok: "prints_back io v \<Longrightarrow> \<exists>s. js_print io v = Inr s \<and> js_parse io s = Some v"
  by (auto simp: prints_back_def split: sum.splits)

lemma serialize_map_ok:
  assumes "prints_back io (JObj m)"
  obtains s where "serialize_extra_map io m = Inr s" "parse_extra_json_map io (Some s) = Some m"
  using print_ok [OF assms]
  by (auto simp: serialize_extra_map_def parse_extra_json_map_def parse_json_value_def json_as_object_def)

lemma serialize_option_ok:
  assumes "list_all (prints_back io) (case v of None \<Rightarrow> [] | Some j \<Rightarrow> [j])"
  obtains s where "serialize_json_option io v = Inr s" "parse_json_value io s = v"
proof (cases v)
  case None
  then show ?thesis using that [of None] by (simp add: serialize_json_option_def parse_json_value_def)
next
  case (Some j)
  then show ?thesis using print_ok [of io j] assms that
    by (auto simp: serialize_json_option_def parse_json_value_def)
qed

lemma bt_extend_Nil [simp]: "bt_extend m [] = m"
  by (simp add: bt_extend_def)

lemma bt_extend_Cons [simp]: "bt_extend m ((k, v) # n) = bt_extend (bt_insert k v m) n"
  by (simp add: bt_extend_def)

lemma model_extra_fields: "model_extra_json io m = serialize_extra_map io (stored_extra m)"
  by (simp add: model_extra_json_def stored_extra_def put_field_def split: option.split)

text \<open>The lists a row is read with are those of the model, an empty one being absent.\<close>

definition lists_match :: "model_info \<Rightarrow> row_lists \<Rightarrow> bool" where
  "lists_match m ls \<longleftrightarrow> rw_levels ls = group_of (mi_supported_reasoning_levels m)
     \<and> rw_speed ls = group_of (mi_additional_speed_tiers m) \<and> rw_tools ls = group_of (mi_experimental_supported_tools m)
     \<and> rw_modalities ls = group_of (mi_input_modalities m) \<and> rw_plans ls = group_of (mi_available_in_plans m)"

lemma group_of_default [simp]: "unwrap_or (group_of xs) [] = xs" "xs \<noteq> [] \<Longrightarrow> unwrap_or (group_of xs) d = xs"
  by (simp_all add: group_of_def)

lemma row_roundtrip:
  assumes m: "storable_model io (ce_model e)"
    and kind: "normalize_source_kind (Some (ce_source_kind e)) = ce_source_kind e"
  obtains row where "model_record_from_model io e si ua = Inr row"
    "cm_scope row = ''default''" "cm_slug row = entry_slug e" "cm_sort_index row = si" "cm_updated_at row = ua"
    "cm_supported row \<noteq> None"
    "\<And>ls. lists_match (ce_model e) ls \<Longrightarrow>
       managed_catalog_entry_from_row io row ls = Some (e\<lparr>ce_sort_index := si, ce_updated_at := ua\<rparr>)"
proof -
  let ?m = "ce_model e"
  have io: "prints_back io (JObj (stored_extra ?m))"
    "list_all (prints_back io) (case mi_truncation_policy ?m of None \<Rightarrow> [] | Some p \<Rightarrow> [JObj (tp_extra p)])"
    "list_all (prints_back io) (case mi_availability_nux ?m of None \<Rightarrow> [] | Some j \<Rightarrow> [j])"
    "list_all (prints_back io) (case mi_upgrade ?m of None \<Rightarrow> [] | Some j \<Rightarrow> [j])"
    "list_all (prints_back io) (case mi_model_messages ?m of None \<Rightarrow> [] | Some j \<Rightarrow> [j])"
    "list_all (prints_back io) (case mi_default_verbosity ?m of None \<Rightarrow> [] | Some j \<Rightarrow> [j])"
    "list_all (prints_back io) (case mi_minimal_client_version ?m of None \<Rightarrow> [] | Some j \<Rightarrow> [j])"
    using m by (simp_all add: storable_model_def model_columns_def)
  obtain nux where nux: "serialize_json_option io (mi_availability_nux ?m) = Inr nux" "parse_json_value io nux = mi_availability_nux ?m"
    by (rule serialize_option_ok [OF io(3)])
  obtain up where up: "serialize_json_option io (mi_upgrade ?m) = Inr up" "parse_json_value io up = mi_upgrade ?m"
    by (rule serialize_option_ok [OF io(4)])
  obtain ms where ms: "serialize_json_option io (mi_model_messages ?m) = Inr ms" "parse_json_value io ms = mi_model_messages ?m"
    by (rule serialize_option_ok [OF io(5)])
  obtain dv where dv: "serialize_json_option io (mi_default_verbosity ?m) = Inr dv" "parse_json_value io dv = mi_default_verbosity ?m"
    by (rule serialize_option_ok [OF io(6)])
  obtain mv where mv: "serialize_json_option io (mi_minimal_client_version ?m) = Inr mv"
    "parse_json_value io mv = mi_minimal_client_version ?m"
    by (rule serialize_option_ok [OF io(7)])
  obtain tx where tx: "(case mi_truncation_policy ?m of None \<Rightarrow> Inr None
        | Some p \<Rightarrow> sum_bind (serialize_extra_map io (tp_extra p)) (\<lambda>s. Inr (Some s))) = Inr tx"
    "build_truncation_policy io (map_option tp_mode (mi_truncation_policy ?m)) (map_option tp_limit (mi_truncation_policy ?m)) tx None
       = mi_truncation_policy ?m"
  proof (cases "mi_truncation_policy ?m")
    case None
    then show ?thesis using that [of None] by (simp add: build_truncation_policy_def)
  next
    case (Some p)
    obtain s where "serialize_extra_map io (tp_extra p) = Inr s" "parse_extra_json_map io (Some s) = Some (tp_extra p)"
      using io(2) Some by (auto intro: serialize_map_ok [of io "tp_extra p"])
    then show ?thesis using that [of "Some s"] Some by (simp add: build_truncation_policy_def)
  qed
  define t where "t = (if mi_service_tiers ?m = [] then None else Some (JArr (map tier_to_json (mi_service_tiers ?m))))"
  obtain ex where ex: "model_extra_json io ?m = Inr ex"
    "parse_extra_json_map io (Some ex) = Some (put_field ''upgrade_info'' (mi_upgrade_info ?m)
       (put_field ''default_service_tier'' (map_option JStr (mi_default_service_tier ?m))
         (put_field ''service_tiers'' t (mi_extra ?m))))"
    unfolding model_extra_fields t_def stored_extra_def [symmetric] by (rule serialize_map_ok [OF io(1)])
  from m have normal: "normal_model ?m" and tiers: "tiers_of_json (JArr (map tier_to_json (mi_service_tiers ?m))) = Some (mi_service_tiers ?m)"
    and extra: "bt_wf (mi_extra ?m)" "fst ` set (mi_extra ?m) \<inter> set reserved_fields = {}"
    by (auto simp: storable_model_def list_all_iff intro: tiers_roundtrip)
  have tier_field: "unwrap_or (map_option normalize_service_tiers (bind_opt t tiers_of_json)) [] = mi_service_tiers ?m"
    using tiers normal by (simp add: t_def normal_model_def)
  have default_field: "bind_opt (bind_opt (map_option JStr (mi_default_service_tier ?m)) json_as_str) normalize_optional = mi_default_service_tier ?m"
    using normal by (cases "mi_default_service_tier ?m") (simp_all add: normal_model_def json_as_str_def)
  note fields = take_three_fields [OF extra]
  show ?thesis
  proof (rule that)
    show "model_record_from_model io e si ua = Inr (projr (model_record_from_model io e si ua))"
      "cm_scope (projr (model_record_from_model io e si ua)) = ''default''"
      "cm_slug (projr (model_record_from_model io e si ua)) = entry_slug e"
      "cm_sort_index (projr (model_record_from_model io e si ua)) = si"
      "cm_updated_at (projr (model_record_from_model io e si ua)) = ua"
      "cm_supported (projr (model_record_from_model io e si ua)) \<noteq> None"
      by (simp_all add: model_record_from_model_def Let_def tx(1) nux(1) up(1) ms(1) dv(1) mv(1) ex(1))
    fix ls assume ls: "lists_match ?m ls"
    have "model_info_from_row io (projr (model_record_from_model io e si ua)) ls = normalize_model_info ?m"
      using ls normal
      by (simp add: model_info_from_row_def model_record_from_model_def Let_def tx nux up ms dv mv ex fields
          tier_field default_field lists_match_def normal_model_def del: take_json_field.simps)
        (cases "ce_model e", simp)
    then show "managed_catalog_entry_from_row io (projr (model_record_from_model io e si ua)) ls
        = Some (e\<lparr>ce_sort_index := si, ce_updated_at := ua\<rparr>)"
      using normal_modelD [OF normal] kind
      by (simp add: managed_catalog_entry_from_row_def)
        (simp add: model_record_from_model_def Let_def tx nux up ms dv mv ex)
  qed
qed

section \<open>A catalog survives its rows\<close>

lemma level_records_ok:
  assumes "\<forall>l \<in> set ls. prints_back io (JObj (rl_extra l))"
  obtains rows where "level_records io slug ua n ls = Inr rows" "map (level_of_row io) rows = ls"
    "\<forall>r \<in> set rows. lv_scope r = ''default'' \<and> lv_slug r = slug \<and> int n \<le> lv_sort_index r"
    "map lv_effort rows = map rl_effort ls" "sorted (map (\<lambda>l. (lv_slug l, lv_sort_index l, lv_effort l)) rows)"
  using assms
proof (induction ls arbitrary: n thesis)
  case Nil
  show ?case by (rule Nil(1) [of "[]"]) simp_all
next
  case (Cons l ls)
  obtain s where s: "serialize_extra_map io (rl_extra l) = Inr s" "parse_extra_json_map io (Some s) = Some (rl_extra l)"
    using Cons.prems(2) by (auto intro: serialize_map_ok [of io "rl_extra l"])
  obtain rows where "level_records io slug ua (Suc n) ls = Inr rows" "map (level_of_row io) rows = ls"
    "\<forall>r \<in> set rows. lv_scope r = ''default'' \<and> lv_slug r = slug \<and> int (Suc n) \<le> lv_sort_index r"
    "map lv_effort rows = map rl_effort ls" "sorted (map (\<lambda>l. (lv_slug l, lv_sort_index l, lv_effort l)) rows)"
    using Cons.IH [of "Suc n"] Cons.prems(2) by auto
  moreover from this(3) have "\<forall>r \<in> set rows. int n < lv_sort_index r" by force
  moreover define r where "r = \<lparr>lv_scope = ''default'', lv_slug = slug, lv_effort = rl_effort l,
    lv_description = rl_description l, lv_extra_json = s, lv_sort_index = int n, lv_updated_at = ua\<rparr>"
  moreover have "level_of_row io r = l" using s by (simp add: level_of_row_def r_def)
  moreover have "lv_scope r = ''default''" "lv_slug r = slug" "lv_sort_index r = int n" "lv_effort r = rl_effort l"
    by (simp_all add: r_def)
  ultimately show ?case using s by (intro Cons.prems(1) [of "r # rows"]) (simp_all add: less_imp_le)
qed

lemma string_records_ok:
  "\<forall>r \<in> set (string_records_from_model kind slug vs ua). it_scope r = ''default'' \<and> it_slug r = slug \<and> it_kind r = kind"
  "map it_value (string_records_from_model kind slug vs ua) = vs"
  "sorted (map (\<lambda>i. (it_kind i, it_slug i, it_sort_index i, it_value i)) (string_records_from_model kind slug vs ua))"
proof -
  let ?f = "\<lambda>(n, v). \<lparr>it_scope = ''default'', it_slug = slug, it_kind = kind, it_value = v, it_sort_index = int n, it_updated_at = ua\<rparr>"
  have all: "(\<forall>r \<in> set (map ?f (List.enumerate k vs)). it_scope r = ''default'' \<and> it_slug r = slug \<and> it_kind r = kind \<and> int k \<le> it_sort_index r)
      \<and> map it_value (map ?f (List.enumerate k vs)) = vs
      \<and> sorted (map (\<lambda>i. (it_kind i, it_slug i, it_sort_index i, it_value i)) (map ?f (List.enumerate k vs)))" for k
    by (induction vs arbitrary: k) (force simp: less_eq_prod_def)+
  from all [of 0] show "\<forall>r \<in> set (string_records_from_model kind slug vs ua). it_scope r = ''default'' \<and> it_slug r = slug \<and> it_kind r = kind"
    "map it_value (string_records_from_model kind slug vs ua) = vs"
    "sorted (map (\<lambda>i. (it_kind i, it_slug i, it_sort_index i, it_value i)) (string_records_from_model kind slug vs ua))"
    by (simp_all add: string_records_from_model_def del: map_map)
qed

text \<open>Rows of several entries, told apart by their slugs.\<close>

lemma filter_concat_slug:
  assumes "distinct (map slug S)" "e \<in> set S" "\<forall>x \<in> set S. \<forall>r \<in> set (f x). g r = slug x"
  shows "filter (\<lambda>r. g r = slug e) (concat (map f S)) = f e"
  using assms
proof (induction S)
  case (Cons x S)
  have none: "filter (\<lambda>r. g r = slug e) (concat (map f S)) = []" if "slug e \<notin> slug ` set S"
    using that Cons.prems(3) by (auto simp: filter_empty_conv) (metis image_eqI)
  show ?case
  proof (cases "e = x")
    case True
    then show ?thesis using Cons.prems none by (auto simp: filter_id_conv)
  next
    case False
    with Cons.prems have "slug x \<noteq> slug e" "e \<in> set S" by auto
    with Cons show ?thesis by (auto simp: filter_empty_conv)
  qed
qed simp

lemma keys_unique_concat_slug:
  assumes "distinct (map slug S)" "\<forall>x \<in> set S. keys_unique key (f x) \<and> (\<forall>r \<in> set (f x). h (key r) = slug x)"
  shows "keys_unique key (concat (map f S))"
  using assms
proof (induction S)
  case (Cons x S)
  have "key ` set (f x) \<inter> key ` set (concat (map f S)) = {}"
  proof (rule ccontr)
    assume "key ` set (f x) \<inter> key ` set (concat (map f S)) \<noteq> {}"
    then obtain r y r' where "r \<in> set (f x)" "y \<in> set S" "r' \<in> set (f y)" "key r = key r'" by auto
    with Cons.prems have "slug x = slug y" "y \<in> set S" by (metis list.set_intros)+
    with Cons.prems(1) show False by auto
  qed
  with Cons show ?case by (simp add: keys_unique_append)
qed simp

lemma sort_key_map: "sort_key K (map f xs) = map f (sort_key (\<lambda>x. K (f x)) xs)"
proof (induction xs)
  case (Cons x xs)
  have "insort_key K (f x) (map f ys) = map f (insort_key (\<lambda>x. K (f x)) x ys)" for ys
    by (induction ys) simp_all
  with Cons show ?case by simp
qed simp

fun stamp_all :: "i64 \<Rightarrow> nat \<Rightarrow> catalog_entry list \<Rightarrow> catalog_entry list" where
  "stamp_all ua k [] = []"
| "stamp_all ua k (e # es) = stamp_entry ua k e # stamp_all ua (Suc k) es"

definition row_of :: "json_io \<Rightarrow> catalog_entry \<Rightarrow> catalog_model" where
  "row_of io e = projr (model_record_from_model io e (ce_sort_index e) (ce_updated_at e))"

definition levels_of :: "json_io \<Rightarrow> catalog_entry \<Rightarrow> level_row list" where
  "levels_of io e = projr (reasoning_records_from_model io (ce_model e) (ce_updated_at e))"

definition items_of :: "str \<Rightarrow> catalog_entry \<Rightarrow> item_row list" where
  "items_of kind e = string_records_from_model kind (entry_slug e) (values_of_kind (ce_model e) kind) (ce_updated_at e)"

definition storable_entry :: "json_io \<Rightarrow> catalog_entry \<Rightarrow> bool" where
  "storable_entry io e \<longleftrightarrow> storable_model io (ce_model e) \<and> normalize_source_kind (Some (ce_source_kind e)) = ce_source_kind e"

lemma stamp_entry_simps [simp]:
  "ce_model (stamp_entry ua n e) = ce_model e" "ce_source_kind (stamp_entry ua n e) = ce_source_kind e"
  "storable_entry io (stamp_entry ua n e) = storable_entry io e" "normal_entry (stamp_entry ua n e) = normal_entry e"
  by (simp_all add: stamp_entry_def storable_entry_def normal_entry_iff)

lemma stamp_all_simps [simp]:
  "map entry_slug (stamp_all ua k es) = map entry_slug es" "(stamp_all ua k es = []) = (es = [])"
  "(\<forall>e \<in> set (stamp_all ua k es). storable_entry io e) = (\<forall>e \<in> set es. storable_entry io e)"
  "(\<forall>e \<in> set (stamp_all ua k es). normal_entry e) = (\<forall>e \<in> set es. normal_entry e)"
  by (induction es arbitrary: k) simp_all

lemma row_of_ok:
  assumes "storable_entry io e"
  shows "model_record_from_model io e (ce_sort_index e) (ce_updated_at e) = Inr (row_of io e)"
    "cm_scope (row_of io e) = ''default''" "cm_slug (row_of io e) = entry_slug e" "cm_sort_index (row_of io e) = ce_sort_index e"
    "cm_updated_at (row_of io e) = ce_updated_at e" "cm_supported (row_of io e) \<noteq> None"
    "lists_match (ce_model e) ls \<Longrightarrow> managed_catalog_entry_from_row io (row_of io e) ls = Some e"
proof -
  from assms have "storable_model io (ce_model e)" "normalize_source_kind (Some (ce_source_kind e)) = ce_source_kind e"
    by (simp_all add: storable_entry_def)
  from row_roundtrip [OF this, of "ce_sort_index e" "ce_updated_at e"] obtain row where
    row: "model_record_from_model io e (ce_sort_index e) (ce_updated_at e) = Inr row"
    "cm_scope row = ''default''" "cm_slug row = entry_slug e" "cm_sort_index row = ce_sort_index e" "cm_updated_at row = ce_updated_at e"
    "cm_supported row \<noteq> None"
    "\<And>ls. lists_match (ce_model e) ls \<Longrightarrow>
       managed_catalog_entry_from_row io row ls = Some (e\<lparr>ce_sort_index := ce_sort_index e, ce_updated_at := ce_updated_at e\<rparr>)"
    by blast
  moreover from row(1) have "row_of io e = row" by (simp add: row_of_def)
  ultimately show "model_record_from_model io e (ce_sort_index e) (ce_updated_at e) = Inr (row_of io e)"
    "cm_scope (row_of io e) = ''default''" "cm_slug (row_of io e) = entry_slug e" "cm_sort_index (row_of io e) = ce_sort_index e"
    "cm_updated_at (row_of io e) = ce_updated_at e" "cm_supported (row_of io e) \<noteq> None"
    "lists_match (ce_model e) ls \<Longrightarrow> managed_catalog_entry_from_row io (row_of io e) ls = Some e"
    by simp_all
qed

lemma levels_of_ok:
  assumes "storable_entry io e"
  shows "reasoning_records_from_model io (ce_model e) (ce_updated_at e) = Inr (levels_of io e)"
    "map (level_of_row io) (levels_of io e) = mi_supported_reasoning_levels (ce_model e)"
    "\<forall>r \<in> set (levels_of io e). lv_scope r = ''default'' \<and> lv_slug r = entry_slug e"
    "map lv_effort (levels_of io e) = map rl_effort (mi_supported_reasoning_levels (ce_model e))"
    "sorted (map (\<lambda>l. (lv_slug l, lv_sort_index l, lv_effort l)) (levels_of io e))"
proof -
  from assms have sm: "storable_model io (ce_model e)" by (simp add: storable_entry_def)
  obtain rows where rows: "level_records io (entry_slug e) (ce_updated_at e) 0 (mi_supported_reasoning_levels (ce_model e)) = Inr rows"
    "map (level_of_row io) rows = mi_supported_reasoning_levels (ce_model e)"
    "\<forall>r \<in> set rows. lv_scope r = ''default'' \<and> lv_slug r = entry_slug e \<and> int 0 \<le> lv_sort_index r"
    "map lv_effort rows = map rl_effort (mi_supported_reasoning_levels (ce_model e))"
    "sorted (map (\<lambda>l. (lv_slug l, lv_sort_index l, lv_effort l)) rows)"
    by (rule level_records_ok [OF storable_levels [OF sm]])
  then have "levels_of io e = rows" by (simp add: levels_of_def reasoning_records_from_model_def)
  with rows show "reasoning_records_from_model io (ce_model e) (ce_updated_at e) = Inr (levels_of io e)"
    "map (level_of_row io) (levels_of io e) = mi_supported_reasoning_levels (ce_model e)"
    "\<forall>r \<in> set (levels_of io e). lv_scope r = ''default'' \<and> lv_slug r = entry_slug e"
    "map lv_effort (levels_of io e) = map rl_effort (mi_supported_reasoning_levels (ce_model e))"
    "sorted (map (\<lambda>l. (lv_slug l, lv_sort_index l, lv_effort l)) (levels_of io e))"
    by (simp_all add: reasoning_records_from_model_def)
qed

lemma catalog_rows_ok:
  assumes "\<forall>e \<in> set es. storable_entry io e"
  shows "catalog_rows_of io ua k es = Inr \<lparr>cr_models = map (row_of io) (stamp_all ua k es),
    cr_levels = concat (map (levels_of io) (stamp_all ua k es)),
    cr_items = (\<lambda>kind. concat (map (items_of kind) (stamp_all ua k es)))\<rparr>"
  using assms
proof (induction es arbitrary: k)
  case (Cons e es)
  then have "storable_entry io (stamp_entry ua k e)" by simp
  note row = row_of_ok(1) [OF this] and levels = levels_of_ok(1) [OF this]
  from Cons row levels show ?case by (simp add: items_of_def Let_def)
qed simp

lemma distinct_map_via: "distinct (map f xs) \<Longrightarrow> (\<And>x y. g x = g y \<Longrightarrow> f x = f y) \<Longrightarrow> distinct (map g xs)"
  unfolding distinct_map inj_on_def by blast

lemma levels_unique:
  assumes "distinct (map entry_slug S)" "\<forall>e \<in> set S. storable_entry io e"
  shows "keys_unique lv_key (concat (map (levels_of io) S))"
proof (rule keys_unique_concat_slug [where slug = entry_slug and h = "\<lambda>k. fst (snd k)"], rule assms(1), intro ballI conjI)
  fix e assume "e \<in> set S"
  with assms(2) have e: "storable_entry io e" by blast
  then have "distinct (map lv_effort (levels_of io e))"
    by (simp add: levels_of_ok [OF e] storable_entry_def storable_model_def)
  then show "keys_unique lv_key (levels_of io e)"
    unfolding keys_unique_def by (rule distinct_map_via) (simp add: lv_key_def)
  show "fst (snd (lv_key r)) = entry_slug e" if "r \<in> set (levels_of io e)" for r
    using levels_of_ok(3) [OF e] that by (simp add: lv_key_def)
qed

lemma items_of_ok:
  "\<forall>r \<in> set (items_of kind e). it_scope r = ''default'' \<and> it_slug r = entry_slug e \<and> it_kind r = kind"
  "map it_value (items_of kind e) = values_of_kind (ce_model e) kind"
  "sorted (map (\<lambda>i. (it_kind i, it_slug i, it_sort_index i, it_value i)) (items_of kind e))"
  unfolding items_of_def by (rule string_records_ok)+

lemma items_unique:
  assumes "distinct (map entry_slug S)" "\<forall>e \<in> set S. storable_entry io e"
  shows "keys_unique it_key (concat (map (items_of kind) S))"
proof (rule keys_unique_concat_slug [where slug = entry_slug and h = "\<lambda>k. fst (snd k)"], rule assms(1), intro ballI conjI)
  fix e assume "e \<in> set S"
  with assms(2) have "distinct (map it_value (items_of kind e))"
    unfolding items_of_ok storable_entry_def by (blast intro: storable_values)
  then show "keys_unique it_key (items_of kind e)"
    unfolding keys_unique_def by (rule distinct_map_via) (simp add: it_key_def)
  show "fst (snd (it_key r)) = entry_slug e" if "r \<in> set (items_of kind e)" for r
    using items_of_ok(1) [of kind e] that by (simp add: it_key_def)
qed

definition all_items :: "catalog_entry list \<Rightarrow> item_row list" where
  "all_items S = concat (map (\<lambda>kind. concat (map (items_of kind) S)) item_kinds)"

lemma kinds_apart: "distinct item_kinds" by code_simp

lemma concat_kind_items:
  "\<forall>r \<in> set (concat (map (items_of kind) S)). it_kind r = kind \<and> it_scope r = ''default''"
  using items_of_ok(1) [of kind] by auto

lemma all_items_unique:
  assumes "distinct (map entry_slug S)" "\<forall>e \<in> set S. storable_entry io e"
  shows "keys_unique it_key (all_items S)"
  unfolding all_items_def
proof (rule keys_unique_concat_slug [where slug = "\<lambda>k. k" and h = "\<lambda>k. fst (snd (snd k))"], simp add: kinds_apart, intro ballI conjI)
  show "keys_unique it_key (concat (map (items_of kind) S))" for kind by (rule items_unique [OF assms])
  show "fst (snd (snd (it_key r))) = kind" if "r \<in> set (concat (map (items_of kind) S))" for r kind
    using bspec [OF concat_kind_items that] by (simp add: it_key_def)
qed

lemma filter_all_items:
  assumes "distinct (map entry_slug S)" "e \<in> set S" "kind \<in> set item_kinds"
  shows "filter (\<lambda>i. it_slug i = entry_slug e \<and> it_kind i = kind) (all_items S) = items_of kind e"
proof -
  have "filter (\<lambda>i. it_kind i = kind) (all_items S) = concat (map (items_of kind) S)"
    unfolding all_items_def using kinds_apart assms(3) concat_kind_items
    by (intro filter_concat_slug [where slug = "\<lambda>k. k"]) auto
  then have "filter (\<lambda>i. it_slug i = entry_slug e) (filter (\<lambda>i. it_kind i = kind) (all_items S)) = items_of kind e"
    using items_of_ok(1) [of kind] by (simp only:) (rule filter_concat_slug [OF assms(1,2)], blast)
  then show ?thesis by (simp add: conj_commute)
qed

lemma lists_of_saved:
  assumes S: "distinct (map entry_slug S)" "e \<in> set S" and storable: "\<forall>e \<in> set S. storable_entry io e"
  shows "lists_match (ce_model e) (lists_of_slug io (entry_slug e)
     (sort_key (\<lambda>l. (lv_slug l, lv_sort_index l, lv_effort l)) (concat (map (levels_of io) S)))
     (sort_key (\<lambda>i. (it_kind i, it_slug i, it_sort_index i, it_value i)) (all_items S)))"
proof -
  have e: "storable_entry io e" using S(2) storable by blast
  have levels: "filter (\<lambda>l. lv_slug l = entry_slug e)
      (sort_key (\<lambda>l. (lv_slug l, lv_sort_index l, lv_effort l)) (concat (map (levels_of io) S))) = levels_of io e"
  proof -
    have "filter (\<lambda>l. lv_slug l = entry_slug e) (concat (map (levels_of io) S)) = levels_of io e"
      using levels_of_ok(3) storable by (intro filter_concat_slug [OF S]) blast
    then show ?thesis by (simp only: filter_sort sort_key_id_if_sorted [OF levels_of_ok(5) [OF e]])
  qed
  have items: "map it_value (filter (\<lambda>i. it_slug i = entry_slug e \<and> it_kind i = kind)
      (sort_key (\<lambda>i. (it_kind i, it_slug i, it_sort_index i, it_value i)) (all_items S))) = values_of_kind (ce_model e) kind"
    if "kind \<in> set item_kinds" for kind
    by (simp only: filter_sort filter_all_items [OF S that] sort_key_id_if_sorted [OF items_of_ok(3)] items_of_ok(2))
  show ?thesis
    by (simp add: lists_match_def lists_of_slug_def Let_def levels levels_of_ok(2) [OF e] items item_kinds_def values_of_kind_def)
qed

lemma rebuild_items_flat:
  assumes "distinct (map cm_slug rows)"
  shows "rebuild_items io rows levels items =
    concat (map (\<lambda>r. case managed_catalog_entry_from_row io r (lists_of_slug io (cm_slug r) levels items) of Some e \<Rightarrow> [e] | None \<Rightarrow> []) rows)"
  using assms
proof (induction rows arbitrary: levels items)
  case (Cons r rows)
  have "lists_of_slug io (cm_slug x) (filter (\<lambda>l. lv_slug l \<noteq> cm_slug r) levels) (filter (\<lambda>i. it_slug i \<noteq> cm_slug r) items)
      = lists_of_slug io (cm_slug x) levels items" if "x \<in> set rows" for x
  proof -
    from that Cons.prems have ne: "cm_slug x \<noteq> cm_slug r" by (metis distinct.simps(2) image_eqI list.set_map list.simps(9))
    then have "filter (\<lambda>l. lv_slug l = cm_slug x) (filter (\<lambda>l. lv_slug l \<noteq> cm_slug r) levels) = filter (\<lambda>l. lv_slug l = cm_slug x) levels"
      "filter (\<lambda>i. it_slug i = cm_slug x \<and> it_kind i = k) (filter (\<lambda>i. it_slug i \<noteq> cm_slug r) items)
         = filter (\<lambda>i. it_slug i = cm_slug x \<and> it_kind i = k) items" for k
      by (auto intro!: filter_cong)
    then show ?thesis by (simp add: lists_of_slug_def del: filter_filter)
  qed
  with Cons show ?case by (simp cong: map_cong)
qed simp

lemma sync_default_fault:
  "ms_fault st = None \<Longrightarrow> ms_fault (snd (sync_default_model_group_models_from_catalog now st)) = None"
  by (simp add: sync_default_model_group_models_from_catalog_def prune_default_model_group_models_not_in_catalog_def
      insert_group_models_def)

lemma upsert_models_saved:
  assumes "ms_fault st = None" "ms_catalog st = []" "keys_unique cm_key rows"
  obtains st' where "upsert_model_catalog_models rows now st = (Inr (), st')" "ms_catalog st' = rows" "ms_fault st' = None"
proof -
  let ?st = "st\<lparr>ms_catalog := rows\<rparr>"
  have "fold upsert_catalog_row rows [] = rows"
    using fold_upsert_fresh [of cm_key "[]" rows "\<lambda>old new. new"] assms(3)
    by (simp add: upsert_catalog_row_def [abs_def])
  with assms have run: "upsert_model_catalog_models rows now st = sync_default_model_group_models_from_catalog now ?st"
    by (simp add: upsert_model_catalog_models_def)
  from sync_default_follows [of ?st now] assms(1) obtain st' where
    "sync_default_model_group_models_from_catalog now ?st = (Inr (), st')" "ms_catalog st' = rows" by auto
  with run sync_default_fault [of ?st now] assms(1) that show ?thesis by simp
qed

lemma upsert_lists_saved:
  assumes "ms_fault (cs_models st) = None" "cs_levels st = []" "cs_items st = []"
    "keys_unique lv_key levels" "keys_unique it_key (concat (map items item_kinds))"
  shows "upsert_lists levels items st = (Inr (), st\<lparr>cs_levels := levels, cs_items := concat (map items item_kinds)\<rparr>)"
proof -
  have "fold (row_upsert lv_key (\<lambda>old new. new)) levels [] = levels"
    using fold_upsert_fresh [of lv_key "[]" levels] assms(4) by simp
  moreover have "fold (row_upsert it_key (\<lambda>old new. new)) (concat (map items item_kinds)) [] = concat (map items item_kinds)"
    using fold_upsert_fresh [of it_key "[]"] assms(5) by simp
  ultimately show ?thesis using assms(1-3)
    by (simp add: upsert_lists_def upsert_model_catalog_reasoning_levels_def upsert_model_catalog_string_items_def item_kinds_def)
qed

definition catalog_order :: "catalog_entry \<Rightarrow> i64 \<times> i64 \<times> str" where
  "catalog_order e = (ce_sort_index e, - ce_updated_at e, entry_slug e)"

lemma normal_catalog_permuted:
  assumes "catalog_wf c" "mset es = mset (stamp_all ua 0 (mc_items c))"
  shows "normalize_managed_model_catalog \<lparr>mc_items = es, mc_extra = x\<rparr> = \<lparr>mc_items = es, mc_extra = x\<rparr>"
proof (rule normalize_wf_id)
  have "set es = set (stamp_all ua 0 (mc_items c))" using assms(2) by (metis set_mset_mset)
  moreover have "distinct (map entry_slug es)"
    using assms by (metis catalog_wf_def mset_eq_imp_distinct_iff mset_map stamp_all_simps(1))
  ultimately show "catalog_wf \<lparr>mc_items = es, mc_extra = x\<rparr>"
    using assms(1) by (simp add: catalog_wf_def)
qed

lemma sort_key_cong: "(\<And>x. x \<in> set xs \<Longrightarrow> f x = g x) \<Longrightarrow> sort_key f xs = sort_key g xs"
proof (induction xs)
  case (Cons x xs)
  have insort: "(\<And>y. y \<in> set ys \<Longrightarrow> f y = g y) \<Longrightarrow> insort_key f x ys = insort_key g x ys" for ys
    using Cons.prems [of x] by (induction ys) auto
  from Cons have "sort_key f xs = sort_key g xs" by simp
  with insort [of "sort_key g xs"] Cons.prems show ?case by simp
qed simp

text \<open>Reading tables that hold the rows of a catalog and nothing else.\<close>

lemma read_saved_rows:
  assumes c: "catalog_wf c" and storable: "\<forall>e \<in> set (mc_items c). storable_entry io e"
    and some: "mc_items c \<noteq> []" and fault: "ms_fault (cs_models st) = None"
    and rows: "ms_catalog (cs_models st) = map (row_of io) (stamp_all ua 0 (mc_items c))"
    and lists: "cs_levels st = concat (map (levels_of io) (stamp_all ua 0 (mc_items c)))" "cs_items st = all_items (stamp_all ua 0 (mc_items c))"
    and scope: "row_find sc_scope (cs_scopes st) ''default'' = Some sc" "parse_extra_json_map io (Some (sc_extra_json sc)) = Some (mc_extra c)"
  shows "read_managed_model_catalog_from_storage io later st
    = (Inr (c\<lparr>mc_items := sort_key catalog_order (stamp_all ua 0 (mc_items c))\<rparr>), st)"
proof -
  let ?S = "stamp_all ua 0 (mc_items c)"
  define T where "T = sort_key catalog_order ?S"
  have S: "distinct (map entry_slug ?S)" "\<forall>e \<in> set ?S. storable_entry io e" using c storable by (simp_all add: catalog_wf_def)
  have T: "mset T = mset ?S" "set T = set ?S" using some by (simp_all add: T_def)
  then have T_some: "T \<noteq> []" using some by (metis set_empty stamp_all_simps(2))
  have dT: "distinct (map entry_slug T)" using S(1) T(1) by (metis mset_eq_imp_distinct_iff mset_map)
  note row = row_of_ok [OF S(2) [rule_format]]
  have all: "filter (\<lambda>r. cm_scope r = ''default'') (map (row_of io) ?S) = map (row_of io) ?S"
    using row(2) by (auto simp: filter_id_conv)
  have sorted: "sort_key (\<lambda>r. (cm_sort_index r, - cm_updated_at r, cm_slug r)) (map (row_of io) ?S) = map (row_of io) T"
    unfolding sort_key_map T_def
    by (rule arg_cong [of _ _ "map (row_of io)"], rule sort_key_cong) (simp add: catalog_order_def row(3,4,5))
  have models: "list_model_catalog_models st ''default'' = Inr (map (row_of io) T)"
    by (simp add: list_model_catalog_models_def fault rows all sorted)
  let ?levels = "sort_key (\<lambda>l. (lv_slug l, lv_sort_index l, lv_effort l)) (concat (map (levels_of io) ?S))"
  let ?items = "sort_key (\<lambda>i. (it_kind i, it_slug i, it_sort_index i, it_value i)) (all_items ?S)"
  have "filter (\<lambda>l. lv_scope l = ''default'') (concat (map (levels_of io) ?S)) = concat (map (levels_of io) ?S)"
    using levels_of_ok(3) [OF S(2) [rule_format]] by (fastforce simp: filter_id_conv)
  then have levels: "list_model_catalog_reasoning_levels st ''default'' = Inr ?levels"
    by (simp add: list_model_catalog_reasoning_levels_def fault lists)
  have "trim ''default'' = ''default''" by code_simp
  moreover have "filter (\<lambda>i. it_scope i = ''default'' \<and> it_kind i \<in> set item_kinds) (all_items ?S) = all_items ?S"
    using items_of_ok(1) by (auto simp: filter_id_conv all_items_def)
  ultimately have items: "list_model_catalog_string_items_for_kinds st ''default'' item_kinds = Inr ?items"
    by (simp add: list_model_catalog_string_items_for_kinds_def fault lists item_kinds_def)
  have snapshot: "load_model_catalog_storage_snapshot st ''default''
      = Inr \<lparr>ss_scope = Some sc, ss_models = map (row_of io) T, ss_levels = ?levels, ss_items = ?items\<rparr>"
    using T_some by (simp add: load_model_catalog_storage_snapshot_def models levels items get_model_catalog_scope_def fault scope)
  have slug: "cm_slug (row_of io e) = entry_slug e" "cm_supported (row_of io e) \<noteq> None"
    "managed_catalog_entry_from_row io (row_of io e) (lists_of_slug io (entry_slug e) ?levels ?items) = Some e" if "e \<in> set T" for e
    using that row(3,6,7) T(2) lists_of_saved [OF S(1) _ S(2)] by auto
  have "map cm_slug (map (row_of io) T) = map entry_slug T"
    unfolding map_map by (rule map_cong [OF refl]) (simp add: slug(1))
  with dT have "rebuild_items io (map (row_of io) T) ?levels ?items
      = concat (map ((\<lambda>r. case managed_catalog_entry_from_row io r (lists_of_slug io (cm_slug r) ?levels ?items) of Some e \<Rightarrow> [e] | None \<Rightarrow> []) \<circ> row_of io) T)"
    by (simp only: rebuild_items_flat map_map)
  also have "\<dots> = concat (map (\<lambda>e. [e]) T)"
    by (rule arg_cong [of _ _ concat], rule map_cong [OF refl]) (simp add: slug(1,3))
  finally have "rebuild_items io (map (row_of io) T) ?levels ?items = concat (map (\<lambda>e. [e]) T)" .
  then have rebuilt: "rebuild_items io (map (row_of io) T) ?levels ?items = T" by simp
  have "\<not> needs_structured_backfill (map (row_of io) T) False"
    using slug(2) by (auto simp: needs_structured_backfill_def list_ex_iff)
  then show ?thesis
    using T_some normal_catalog_permuted [OF c T(1), of "mc_extra c"]
    by (simp add: read_managed_model_catalog_from_storage_def snapshot rebuilt scope Let_def T_def [symmetric])
qed

text \<open>
  C19: a saved catalog is read back. A catalog in normal form whose descriptions can be stored, saved
  into empty tables, is read as the same entries in the order of their sort indices, with the same
  descriptions field by field, and the reading writes nothing; only entries without a time or with a
  negative index are stamped with the time and the place of the save.
\<close>

theorem saved_catalog_read_back:
  assumes c: "catalog_wf c" "prints_back io (JObj (mc_extra c))" and entries: "\<forall>e \<in> set (mc_items c). storable_model io (ce_model e)"
    and some: "mc_items c \<noteq> []"
    and empty: "ms_fault (cs_models st) = None" "ms_catalog (cs_models st) = []" "cs_levels st = []" "cs_items st = []"
  shows "\<exists>st'. save_managed_model_catalog_rows io now c ua st = (Inr (), st')
    \<and> read_managed_model_catalog_from_storage io later st'
        = (Inr (c\<lparr>mc_items := sort_key catalog_order (stamp_all ua 0 (mc_items c))\<rparr>), st')"
proof -
  let ?S = "stamp_all ua 0 (mc_items c)"
  let ?rows = "map (row_of io) ?S" and ?levels = "concat (map (levels_of io) ?S)"
  have storable: "\<forall>e \<in> set (mc_items c). storable_entry io e"
    using entries c(1) by (auto simp: storable_entry_def catalog_wf_def normal_entry_iff)
  then have S: "distinct (map entry_slug ?S)" "\<forall>e \<in> set ?S. storable_entry io e" using c(1) by (simp_all add: catalog_wf_def)
  note row = row_of_ok [OF S(2) [rule_format]]
  obtain x where x: "serialize_extra_map io (mc_extra c) = Inr x" "parse_extra_json_map io (Some x) = Some (mc_extra c)"
    by (rule serialize_map_ok [OF c(2)])
  have slugs: "map cm_slug ?rows = map entry_slug ?S"
    unfolding map_map by (rule map_cong [OF refl]) (simp add: row(3))
  have "keys_unique cm_key ?rows"
    unfolding keys_unique_def by (rule distinct_map_via [where f = cm_slug]) (use S(1) slugs in \<open>simp_all add: cm_key_def\<close>)
  from upsert_models_saved [OF empty(1,2) this, of now] obtain m where
    m: "upsert_model_catalog_models ?rows now (cs_models st) = (Inr (), m)" "ms_catalog m = ?rows" "ms_fault m = None" by blast
  let ?scope = "\<lparr>sc_scope = ''default'', sc_extra_json = x, sc_updated_at = ua\<rparr>"
  let ?scopes = "row_upsert sc_scope (\<lambda>old new. new) ?scope (cs_scopes st)"
  let ?st' = "st\<lparr>cs_models := m, cs_scopes := ?scopes, cs_levels := ?levels, cs_items := all_items ?S\<rparr>"
  have "save_managed_model_catalog_rows io now c ua st = (Inr (), ?st')"
    using empty m x(1) upsert_lists_saved [of "st\<lparr>cs_scopes := ?scopes, cs_models := m\<rparr>" ?levels "\<lambda>kind. concat (map (items_of kind) ?S)"]
      levels_unique [OF S] all_items_unique [OF S]
    by (simp add: save_managed_model_catalog_rows_def catalog_rows_ok [OF storable] upsert_model_catalog_scope_def on_models_def all_items_def)
  moreover have "read_managed_model_catalog_from_storage io later ?st' = (Inr (c\<lparr>mc_items := sort_key catalog_order ?S\<rparr>), ?st')"
    using read_saved_rows [OF c(1) storable some, of ?st' ua ?scope] m x(2)
    by (simp add: row_find_upsert [where key = sc_scope and merge = "\<lambda>old new. new"] split: option.split)
  ultimately show ?thesis by blast
qed

text \<open>A description with a service tier, a reasoning level and lists, and a JSON printer for its columns.\<close>

definition demo_stored :: model_info where
  "demo_stored = default_model_info\<lparr>mi_slug := ''m'', mi_display_name := ''M'',
     mi_supported_reasoning_levels := [\<lparr>rl_effort = ''low'', rl_description = ''quick'', rl_extra = []\<rparr>],
     mi_service_tiers := [\<lparr>ti_id = ''fast'', ti_name = ''F'', ti_description = ''d'', ti_extra = []\<rparr>],
     mi_input_modalities := [''text''], mi_available_in_plans := [''plus'', ''pro'']\<rparr>"

definition demo_catalog :: managed_catalog where
  "demo_catalog = \<lparr>mc_items = [\<lparr>ce_model = demo_stored, ce_source_kind = ''custom'', ce_user_edited = True,
     ce_sort_index = -1, ce_updated_at = 0\<rparr>], mc_extra = []\<rparr>"

definition demo_io :: json_io where
  "demo_io = \<lparr>js_print = (\<lambda>v. if v = JObj [] then Inr ''{}'' else if v = JObj (stored_extra demo_stored) then Inr ''{...}'' else Inl ''?''),
     js_parse = (\<lambda>s. if s = ''{}'' then Some (JObj []) else if s = ''{...}'' then Some (JObj (stored_extra demo_stored)) else None)\<rparr>"

definition empty_tables :: catalog_store where
  "empty_tables = \<lparr>cs_models = demo_models\<lparr>ms_catalog := []\<rparr>, cs_scopes = [], cs_levels = [], cs_items = []\<rparr>"

theorem saved_catalog_read_back_witness:
  "\<exists>st'. save_managed_model_catalog_rows demo_io 7 demo_catalog 5 empty_tables = (Inr (), st')
    \<and> read_managed_model_catalog_from_storage demo_io 9 st'
        = (Inr (demo_catalog\<lparr>mc_items := [hd (mc_items demo_catalog)\<lparr>ce_sort_index := 0, ce_updated_at := 5\<rparr>]\<rparr>), st')"
proof -
  have model: "storable_model demo_io demo_stored" by code_simp
  have "normal_entry (hd (mc_items demo_catalog))" by code_simp
  then have c: "catalog_wf demo_catalog" by (simp add: catalog_wf_def demo_catalog_def)
  have order: "sort_key catalog_order (stamp_all 5 0 (mc_items demo_catalog))
      = [hd (mc_items demo_catalog)\<lparr>ce_sort_index := 0, ce_updated_at := 5\<rparr>]"
    by (simp add: demo_catalog_def stamp_entry_def)
  have "prints_back demo_io (JObj (mc_extra demo_catalog))" by (simp add: prints_back_def demo_io_def demo_catalog_def)
  from saved_catalog_read_back [OF c this, of empty_tables 7 5 9] model
  show ?thesis unfolding order by (simp add: demo_catalog_def empty_tables_def demo_models_def)
qed

section \<open>Refusing an empty remote\<close>

lemma blank_response:
  assumes "\<forall>m \<in> set (mr_models r). trim (mi_slug m) = []"
  shows "\<not> models_response_has_catalog_text_model (normalize_models_response r)"
proof -
  have "List.map_filter normalize_model_info (mr_models r) = []"
    using assms unfolding List.map_filter_def
    by (auto simp: filter_empty_conv normalize_model_info_def Let_def)
  then show ?thesis by (simp add: models_response_has_catalog_text_model_def normalize_models_response_def)
qed

text \<open>
  C22: the stored catalog survives the remote. When the stored catalog names a model, a remote that
  fails or that names none leaves catalog and tables as they were read: a forced refresh answers with
  the stored catalog, and a pruning ends with an error before anything is deleted.
\<close>

theorem stored_catalog_survives:
  assumes "read_managed_model_catalog_from_storage io now st = (Inr cached, st1)"
    and "managed_catalog_has_catalog_text_model cached"
    and "\<forall>r. fetched = Inr r \<longrightarrow> (\<forall>m \<in> set (mr_models r). trim (mi_slug m) = [])"
  shows "read_managed_model_catalog io now refresh auto fetched st = (Inr cached, st1)
    \<and> (\<exists>e. prune_stale_remote_managed_model_catalog io now fetched st = (Inl e, st1))"
proof (cases fetched)
  case (Inl e)
  with assms show ?thesis by (simp add: read_managed_model_catalog_def prune_stale_remote_managed_model_catalog_def)
next
  case (Inr r)
  with assms(3) have "\<not> models_response_has_catalog_text_model (normalize_models_response r)" by (simp add: blank_response)
  with assms Inr show ?thesis
    by (simp add: read_managed_model_catalog_def prune_stale_remote_managed_model_catalog_def Let_def)
qed

definition demo_tables :: catalog_store where
  "demo_tables = snd (save_managed_model_catalog_rows demo_io 7 demo_catalog 5 empty_tables)"

theorem stored_catalog_survives_witness:
  "\<exists>cached. read_managed_model_catalog_from_storage demo_io 9 demo_tables = (Inr cached, demo_tables) \<and> mc_items cached \<noteq> []
    \<and> read_managed_model_catalog demo_io 9 True True (Inl ''offline'') demo_tables = (Inr cached, demo_tables)
    \<and> (\<exists>e. prune_stale_remote_managed_model_catalog demo_io 9 (Inl ''offline'') demo_tables = (Inl e, demo_tables))"
proof -
  let ?read = "read_managed_model_catalog_from_storage demo_io 9 demo_tables"
  have "?read = (Inr (projr (fst ?read)), demo_tables)" "managed_catalog_has_catalog_text_model (projr (fst ?read))" by code_simp+
  with stored_catalog_survives [of demo_io 9 demo_tables "projr (fst ?read)" demo_tables "Inl ''offline''" True True]
  show ?thesis by (auto simp: managed_catalog_has_catalog_text_model_def)
qed

section \<open>Deleting models\<close>

text \<open>The tables without the rows of some models; group members and mappings are found by the trimmed slug.\<close>

definition drop_models :: "str set \<Rightarrow> catalog_store \<Rightarrow> catalog_store" where
  "drop_models K st = st\<lparr>cs_models := (cs_models st)\<lparr>
       ms_group_models := filter (\<lambda>m. gm_slug m \<notin> trim ` K - {[]}) (ms_group_models (cs_models st)),
       ms_mappings := filter (\<lambda>m. mp_slug m \<notin> trim ` K - {[]}) (ms_mappings (cs_models st)),
       ms_catalog := filter (\<lambda>c. \<not> (cm_scope c = ''default'' \<and> cm_slug c \<in> K)) (ms_catalog (cs_models st))\<rparr>,
     cs_levels := filter (\<lambda>l. \<not> (lv_scope l = ''default'' \<and> lv_slug l \<in> K)) (cs_levels st),
     cs_items := filter (\<lambda>i. \<not> (it_scope i = ''default'' \<and> it_slug i \<in> K \<and> it_kind i \<in> set item_kinds)) (cs_items st)\<rparr>"

lemma drop_none [simp]: "drop_models {} st = st"
  by (simp add: drop_models_def)

lemma drop_fault [simp]: "ms_fault (cs_models (drop_models K st)) = ms_fault (cs_models st)"
  by (simp add: drop_models_def)

lemma drop_drop: "drop_models K (drop_models {s} st) = drop_models (insert s K) st"
  by (intro catalog_store.equality model_store.equality) (auto simp: drop_models_def intro!: filter_cong)

lemma trimmed_kinds: "filter (\<lambda>k. k \<noteq> []) (map trim item_kinds) = item_kinds"
  by code_simp

lemma delete_entry_exact:
  assumes "ms_fault (cs_models st) = None"
  shows "delete_model_catalog_entry now s False st = (Inr (), drop_models {s} st)"
proof -
  have "item_kinds \<noteq> []" by (simp add: item_kinds_def)
  with assms show ?thesis
    by (cases "trim s = []")
      (simp_all add: delete_model_catalog_entry_def on_models_def delete_model_group_model_references_def Let_def
        delete_model_source_routes_for_platform_model_def delete_model_catalog_reasoning_levels_def
        delete_model_catalog_string_item_kinds_def trimmed_kinds delete_model_catalog_model_def row_delete_def cm_key_def
        drop_models_def cong: filter_cong)
qed

lemma delete_entries_exact:
  "ms_fault (cs_models st) = None \<Longrightarrow> delete_entries now ss st = (Inr (), drop_models (set ss) st)"
  by (induction ss arbitrary: st) (simp_all add: delete_entry_exact drop_drop)

text \<open>The catalog rows a pruning is about: of the remote, not edited, and unknown to the remote now.\<close>

definition stale_row :: "models_response \<Rightarrow> catalog_model \<Rightarrow> bool" where
  "stale_row r c \<longleftrightarrow> cm_scope c = ''default'' \<and> cm_source_kind c = ''remote'' \<and> \<not> cm_user_edited c \<and> cm_slug c \<notin> mi_slug ` set (mr_models r)"

definition stale_slugs :: "models_response \<Rightarrow> catalog_store \<Rightarrow> str set" where
  "stale_slugs r st = cm_slug ` set (filter (stale_row r) (ms_catalog (cs_models st)))"

text \<open>
  C20: pruning deletes the stale models and nothing else. Exactly the catalog rows that came from the
  remote, were never edited and are unknown to the remote go, so models of the user's own and edited
  ones stay; with a row go its group memberships, its source mappings, its reasoning levels and its
  text lists, and all other rows of these tables stay.
\<close>

theorem prune_exact:
  assumes "ms_fault (cs_models st) = None" "keys_unique cm_key (ms_catalog (cs_models st))"
  shows "\<exists>st'. prune_unedited_remote_model_catalog_entries_missing_from_remote now r st = (Inr (), st')
    \<and> ms_catalog (cs_models st') = filter (\<lambda>c. \<not> stale_row r c) (ms_catalog (cs_models st))
    \<and> ms_group_models (cs_models st') = filter (\<lambda>m. gm_slug m \<notin> trim ` stale_slugs r st - {[]}) (ms_group_models (cs_models st))
    \<and> ms_mappings (cs_models st') = filter (\<lambda>m. mp_slug m \<notin> trim ` stale_slugs r st - {[]}) (ms_mappings (cs_models st))
    \<and> cs_levels st' = filter (\<lambda>l. \<not> (lv_scope l = ''default'' \<and> lv_slug l \<in> stale_slugs r st)) (cs_levels st)
    \<and> cs_items st' = filter (\<lambda>i. \<not> (it_scope i = ''default'' \<and> it_slug i \<in> stale_slugs r st \<and> it_kind i \<in> set item_kinds)) (cs_items st)"
proof -
  let ?slugs = "map cm_slug (sort_key (\<lambda>c. (cm_sort_index c, - cm_updated_at c, cm_slug c))
    (filter (\<lambda>c. cm_scope c = ''default'' \<and> cm_source_kind c = ''remote'' \<and> \<not> cm_user_edited c) (ms_catalog (cs_models st))))"
  have gone: "set (filter (\<lambda>s. s \<notin> mi_slug ` set (mr_models r)) ?slugs) = stale_slugs r st"
    by (auto simp: stale_slugs_def stale_row_def)
  have listed: "list_remote_unedited_model_catalog_slugs st ''default'' = Inr ?slugs"
    by (simp add: list_remote_unedited_model_catalog_slugs_def assms(1))
  have run: "prune_unedited_remote_model_catalog_entries_missing_from_remote now r st = (Inr (), drop_models (stale_slugs r st) st)"
    by (simp only: prune_unedited_remote_model_catalog_entries_missing_from_remote_def listed cs_simps
        delete_entries_exact [OF assms(1)] gone)
  have "filter (\<lambda>c. \<not> (cm_scope c = ''default'' \<and> cm_slug c \<in> stale_slugs r st)) (ms_catalog (cs_models st))
      = filter (\<lambda>c. \<not> stale_row r c) (ms_catalog (cs_models st))"
  proof (rule filter_cong [OF refl])
    fix c assume c: "c \<in> set (ms_catalog (cs_models st))"
    show "(\<not> (cm_scope c = ''default'' \<and> cm_slug c \<in> stale_slugs r st)) = (\<not> stale_row r c)"
    proof
      assume "\<not> stale_row r c"
      show "\<not> (cm_scope c = ''default'' \<and> cm_slug c \<in> stale_slugs r st)"
      proof
        assume d: "cm_scope c = ''default'' \<and> cm_slug c \<in> stale_slugs r st"
        then obtain c' where c': "c' \<in> set (ms_catalog (cs_models st))" "stale_row r c'" "cm_slug c = cm_slug c'"
          unfolding stale_slugs_def set_filter by blast
        with d have "cm_key c = cm_key c'" by (simp add: cm_key_def stale_row_def)
        with assms(2) c c'(1) have "c = c'" by (simp add: keys_unique_def distinct_map inj_on_def)
        with c'(2) \<open>\<not> stale_row r c\<close> show False by simp
      qed
    qed (use c in \<open>auto simp: stale_slugs_def stale_row_def\<close>)
  qed
  with run show ?thesis by (simp add: drop_models_def)
qed

theorem prune_exact_witness:
  "\<exists>st'. prune_unedited_remote_model_catalog_entries_missing_from_remote 9 \<lparr>mr_models = [demo_info ''m1'' ''one''], mr_extra = []\<rparr>
        (empty_tables\<lparr>cs_models := demo_models\<rparr>) = (Inr (), st')
    \<and> map cm_slug (ms_catalog (cs_models st')) = [''m1'']"
proof -
  have rows: "filter (\<lambda>c. \<not> stale_row \<lparr>mr_models = [demo_info ''m1'' ''one''], mr_extra = []\<rparr> c) (ms_catalog demo_models)
      = [demo_catalog_model ''m1'']" by code_simp
  have "ms_fault demo_models = None" "keys_unique cm_key (ms_catalog demo_models)" by code_simp+
  with prune_exact [of "empty_tables\<lparr>cs_models := demo_models\<rparr>" 9 "\<lparr>mr_models = [demo_info ''m1'' ''one''], mr_extra = []\<rparr>"]
  show ?thesis by (auto simp: rows demo_catalog_model_def)
qed

end
