(* ===== verification/Price_Rules.thy ===== *)
theory Price_Rules
  imports Account_Queries Rust_F64 Sql_Table
begin

text \<open>
  Model prices (\<^verbatim>\<open>service/src/quota/model_pricing.rs\<close>,
  \<^verbatim>\<open>core/src/storage/model_price_rules.rs\<close>): the table of official prices, the price
  rules of the database it is copied to, the matching of a model against the patterns of the rules and
  the cost of a request in dollars. Prices and costs are doubles, with every operation rounded.
\<close>

section \<open>Arithmetic on doubles\<close>

fun f64_neg :: "f64 \<Rightarrow> f64" where
  "f64_neg NaN = NaN"
| "f64_neg PInf = NInf"
| "f64_neg NInf = PInf"
| "f64_neg (Fin a) = Fin (- a)"

definition f64_add :: "f64 \<Rightarrow> f64 \<Rightarrow> f64" where
  "f64_add x y = f64_sub x (f64_neg y)"

fun f64_mul :: "f64 \<Rightarrow> f64 \<Rightarrow> f64" where
  "f64_mul NaN _ = NaN"
| "f64_mul _ NaN = NaN"
| "f64_mul (Fin a) (Fin b) = round_f64 (a * b)"
| "f64_mul x y =
     (if x = Fin 0 \<or> y = Fin 0 then NaN else if f64_lt x (Fin 0) = f64_lt y (Fin 0) then PInf else NInf)"

text \<open>Division; the code divides by positive constants and by a price it has found to be positive.\<close>

fun f64_div :: "f64 \<Rightarrow> f64 \<Rightarrow> f64" where
  "f64_div NaN _ = NaN"
| "f64_div _ NaN = NaN"
| "f64_div (Fin a) (Fin b) =
     (if b = 0 then (if a = 0 then NaN else if 0 < a then PInf else NInf) else round_f64 (a / b))"
| "f64_div (Fin _) _ = Fin 0"
| "f64_div x (Fin b) = (if 0 \<le> b then x else f64_neg x)"
| "f64_div _ _ = NaN"

text \<open>\<^verbatim>\<open>f64::max\<close> and \<^verbatim>\<open>min\<close> ignore a NaN.\<close>

definition f64_max :: "f64 \<Rightarrow> f64 \<Rightarrow> f64" where
  "f64_max x y = (if x = NaN then y else if y = NaN then x else if f64_lt x y then y else x)"

definition f64_min :: "f64 \<Rightarrow> f64 \<Rightarrow> f64" where
  "f64_min x y = (if x = NaN then y else if y = NaN then x else if f64_lt y x then y else x)"

definition f64_of_i64 :: "i64 \<Rightarrow> f64" where
  "f64_of_i64 n = round_f64 (of_int n)"

text \<open>\<^verbatim>\<open>as i64\<close> saturates and takes NaN to 0; \<^verbatim>\<open>round\<close> goes away from zero at a half.\<close>

definition rat_round :: "rat \<Rightarrow> int" where
  "rat_round x = (if 0 \<le> x then \<lfloor>x + 1 / 2\<rfloor> else - \<lfloor>1 / 2 - x\<rfloor>)"

fun f64_as_i64 :: "(rat \<Rightarrow> int) \<Rightarrow> f64 \<Rightarrow> i64" where
  "f64_as_i64 f NaN = 0"
| "f64_as_i64 f PInf = i64_max"
| "f64_as_i64 f NInf = i64_min"
| "f64_as_i64 f (Fin a) = i64_sat (f a)"

lemma f64_le_refl [simp]: "f64_le x x \<longleftrightarrow> x \<noteq> NaN"
  by (cases x) simp_all

lemma f64_max_ge: "y \<noteq> NaN \<Longrightarrow> f64_le y (f64_max x y)"
  by (cases x; cases y) (auto simp: f64_max_def)

section \<open>Rules\<close>

record price_rule =
  pr_id :: str
  pr_provider :: str
  pr_pattern :: str
  pr_match_type :: str
  pr_billing_mode :: str
  pr_currency :: str
  pr_unit :: str
  pr_input :: "f64 option"
  pr_cached :: "f64 option"
  pr_output :: "f64 option"
  pr_reasoning_output :: "f64 option"
  pr_cache_write_5m :: "f64 option"
  pr_cache_write_1h :: "f64 option"
  pr_cache_hit :: "f64 option"
  pr_long_threshold :: "i64 option"
  pr_long_input :: "f64 option"
  pr_long_cached :: "f64 option"
  pr_long_output :: "f64 option"
  pr_source :: str
  pr_source_url :: "str option"
  pr_seed_version :: "str option"
  pr_enabled :: bool
  pr_priority :: i64
  pr_created_at :: i64
  pr_updated_at :: i64

text \<open>The table, and the process-wide copy of its enabled rules with the path of its database.\<close>

record price_store =
  ps_rules :: "price_rule list"
  ps_cache :: "(str \<times> price_rule list) option"
  ps_fault :: "str option"

text \<open>\<^verbatim>\<open>length\<close> of a text is its number of characters.\<close>

definition sql_length :: "str \<Rightarrow> nat" where
  "sql_length s = length (filter (\<lambda>c. \<not> cont_byte c) s)"

definition upsert_model_price_rule :: "price_rule \<Rightarrow> price_store \<Rightarrow> unit sql \<times> price_store" where
  "upsert_model_price_rule r st =
     (case ps_fault st of Some e \<Rightarrow> (Inl e, st)
      | None \<Rightarrow> (Inr (), st\<lparr>ps_rules := row_upsert pr_id (\<lambda>old new. new\<lparr>pr_created_at := pr_created_at old\<rparr>) r (ps_rules st)\<rparr>))"

definition count_model_price_rules_for_seed :: "price_store \<Rightarrow> str \<Rightarrow> nat sql" where
  "count_model_price_rules_for_seed st version =
     (case ps_fault st of Some e \<Rightarrow> Inl e
      | None \<Rightarrow> Inr (length (filter (\<lambda>r. pr_source r = ''official_seed'' \<and> pr_seed_version r = Some version) (ps_rules st))))"

definition enabled_rules :: "price_rule list \<Rightarrow> price_rule list" where
  "enabled_rules rows = sort_key (\<lambda>r. (- pr_priority r, - int (sql_length (pr_pattern r)), pr_pattern r)) (filter pr_enabled rows)"

definition list_enabled_model_price_rules :: "price_store \<Rightarrow> price_rule list sql" where
  "list_enabled_model_price_rules st = (case ps_fault st of Some e \<Rightarrow> Inl e | None \<Rightarrow> Inr (enabled_rules (ps_rules st)))"

definition find_enabled_custom_exact_model_price_rule :: "price_store \<Rightarrow> str \<Rightarrow> price_rule option sql" where
  "find_enabled_custom_exact_model_price_rule st model =
     (case ps_fault st of Some e \<Rightarrow> Inl e
      | None \<Rightarrow> Inr (case sort_key (\<lambda>r. (- pr_priority r, pr_id r))
            (filter (\<lambda>r. pr_source r = ''custom'' \<and> pr_enabled r \<and> eq_ignore_ascii_case (pr_match_type r) ''exact''
               \<and> eq_ignore_ascii_case (pr_pattern r) (trim model)) (ps_rules st)) of [] \<Rightarrow> None | r # _ \<Rightarrow> Some r))"

section \<open>Official prices\<close>

record price_seed =
  sd_provider :: str
  sd_pattern :: str
  sd_input :: f64
  sd_cached :: "f64 option"
  sd_output :: f64
  sd_long_threshold :: "i64 option"
  sd_long_input :: "f64 option"
  sd_long_cached :: "f64 option"
  sd_long_output :: "f64 option"
  sd_url :: str

text \<open>An entry of the table, with its decimal literals; a literal denotes the nearest double.\<close>

definition seed_entry :: "str \<Rightarrow> str \<Rightarrow> rat \<Rightarrow> rat option \<Rightarrow> rat \<Rightarrow> i64 option \<Rightarrow> rat option \<Rightarrow> rat option \<Rightarrow> rat option \<Rightarrow> str \<Rightarrow> price_seed" where
  "seed_entry provider pattern input cached output threshold long_input long_cached long_output url =
     \<lparr>sd_provider = provider, sd_pattern = pattern, sd_input = round_f64 input, sd_cached = map_option round_f64 cached,
      sd_output = round_f64 output, sd_long_threshold = threshold, sd_long_input = map_option round_f64 long_input,
      sd_long_cached = map_option round_f64 long_cached, sd_long_output = map_option round_f64 long_output, sd_url = url\<rparr>"

definition price_seed_version :: str where "price_seed_version = ''2026-05-11''"

definition openai_price_source :: str where "openai_price_source = ''https://developers.openai.com/api/docs/pricing''"

definition anthropic_price_source :: str where "anthropic_price_source = ''https://docs.claude.com/en/docs/about-claude/pricing''"

definition gemini_price_source :: str where "gemini_price_source = ''https://ai.google.dev/gemini-api/docs/pricing''"

definition openai_5_5_to_5_3 :: "price_seed list" where
  "openai_5_5_to_5_3 =
    [seed_entry ''openai'' ''gpt-5.5-pro'' 30 None 180
       (Some (272000)) (Some (60)) None (Some (270)) openai_price_source,
     seed_entry ''openai'' ''gpt-5.5'' 5 (Some (1 / 2)) 30
       (Some (272000)) (Some (10)) (Some (1)) (Some (45)) openai_price_source,
     seed_entry ''openai'' ''gpt-5.4-pro'' 30 None 180
       (Some (272000)) (Some (60)) None (Some (270)) openai_price_source,
     seed_entry ''openai'' ''gpt-5.4-mini'' (3 / 4) (Some (3 / 40)) (9 / 2)
       None None None None openai_price_source,
     seed_entry ''openai'' ''gpt-5.4-nano'' (1 / 5) (Some (1 / 50)) (5 / 4)
       None None None None openai_price_source,
     seed_entry ''openai'' ''gpt-5.4'' (5 / 2) (Some (1 / 4)) 15
       (Some (272000)) (Some (5)) (Some (1 / 2)) (Some (45 / 2)) openai_price_source,
     seed_entry ''openai'' ''gpt-5.3-codex'' (7 / 4) (Some (7 / 40)) 14
       None None None None openai_price_source]"

definition openai_5_2_to_5 :: "price_seed list" where
  "openai_5_2_to_5 =
    [seed_entry ''openai'' ''gpt-5.2-pro'' 21 None 168
       None None None None openai_price_source,
     seed_entry ''openai'' ''gpt-5.2'' (7 / 4) (Some (7 / 40)) 14
       None None None None openai_price_source,
     seed_entry ''openai'' ''gpt-5.1'' (5 / 4) (Some (1 / 8)) 10
       None None None None openai_price_source,
     seed_entry ''openai'' ''gpt-5-pro'' 15 None 120
       None None None None openai_price_source,
     seed_entry ''openai'' ''gpt-5-mini'' (1 / 4) (Some (1 / 40)) 2
       None None None None openai_price_source,
     seed_entry ''openai'' ''gpt-5-nano'' (1 / 20) (Some (1 / 200)) (2 / 5)
       None None None None openai_price_source,
     seed_entry ''openai'' ''gpt-5'' (5 / 4) (Some (1 / 8)) 10
       None None None None openai_price_source]"

definition openai_before_5 :: "price_seed list" where
  "openai_before_5 =
    [seed_entry ''openai'' ''gpt-4.1'' 2 (Some (1 / 2)) 8
       None None None None openai_price_source,
     seed_entry ''openai'' ''gpt-4o'' (5 / 2) (Some (5 / 4)) 10
       None None None None openai_price_source,
     seed_entry ''openai'' ''o4-mini'' (11 / 10) (Some (11 / 40)) (22 / 5)
       None None None None openai_price_source,
     seed_entry ''openai'' ''o3'' 2 (Some (1 / 2)) 8
       None None None None openai_price_source]"

definition anthropic_seeds :: "price_seed list" where
  "anthropic_seeds =
    [seed_entry ''anthropic'' ''claude-opus-4.7'' 5 (Some (1 / 2)) 25
       None None None None anthropic_price_source,
     seed_entry ''anthropic'' ''claude-opus-4.6'' 5 (Some (1 / 2)) 25
       None None None None anthropic_price_source,
     seed_entry ''anthropic'' ''claude-opus-4.5'' 5 (Some (1 / 2)) 25
       None None None None anthropic_price_source,
     seed_entry ''anthropic'' ''claude-opus-4'' 15 (Some (3 / 2)) 75
       None None None None anthropic_price_source,
     seed_entry ''anthropic'' ''claude-sonnet-4'' 3 (Some (3 / 10)) 15
       None None None None anthropic_price_source,
     seed_entry ''anthropic'' ''claude-haiku-4'' 1 (Some (1 / 10)) 5
       None None None None anthropic_price_source]"

definition google_seeds :: "price_seed list" where
  "google_seeds =
    [seed_entry ''google'' ''gemini-2.5-pro'' (5 / 4) (Some (1 / 8)) 10
       (Some (200000)) (Some (5 / 2)) (Some (1 / 4)) (Some (15)) gemini_price_source,
     seed_entry ''google'' ''gemini-2.5-flash'' (3 / 10) (Some (3 / 100)) (5 / 2)
       None None None None gemini_price_source,
     seed_entry ''google'' ''gemini-2.5-flash-lite'' (1 / 10) (Some (1 / 100)) (2 / 5)
       None None None None gemini_price_source]"

definition price_seeds :: "price_seed list" where
  "price_seeds = openai_5_5_to_5_3 @ openai_5_2_to_5 @ openai_before_5 @ anthropic_seeds @ google_seeds"

definition rule_of_seed :: "i64 \<Rightarrow> nat \<Rightarrow> price_seed \<Rightarrow> price_rule" where
  "rule_of_seed now n s =
     \<lparr>pr_id = ''official-'' @ price_seed_version @ ''-'' @ sd_pattern s, pr_provider = sd_provider s, pr_pattern = sd_pattern s,
      pr_match_type = ''prefix'', pr_billing_mode = ''standard'', pr_currency = ''USD'', pr_unit = ''per_1m_tokens'',
      pr_input = Some (sd_input s), pr_cached = sd_cached s, pr_output = Some (sd_output s), pr_reasoning_output = None,
      pr_cache_write_5m = None, pr_cache_write_1h = None, pr_cache_hit = None, pr_long_threshold = sd_long_threshold s,
      pr_long_input = sd_long_input s, pr_long_cached = sd_long_cached s, pr_long_output = sd_long_output s,
      pr_source = ''official_seed'', pr_source_url = Some (sd_url s), pr_seed_version = Some price_seed_version,
      pr_enabled = True, pr_priority = 10000 - int n, pr_created_at = now, pr_updated_at = now\<rparr>"

fun upsert_rules :: "price_rule list \<Rightarrow> price_store \<Rightarrow> unit sql \<times> price_store" where
  "upsert_rules [] st = (Inr (), st)"
| "upsert_rules (r # rs) st =
     (case upsert_model_price_rule r st of
        (Inl e, st1) \<Rightarrow> (Inl (''insert official model price seed failed: '' @ e), st1)
      | (Inr _, st1) \<Rightarrow> upsert_rules rs st1)"

definition invalidate_price_rule_cache :: "price_store \<Rightarrow> price_store" where
  "invalidate_price_rule_cache st = st\<lparr>ps_cache := None\<rparr>"

definition ensure_official_price_seed :: "i64 \<Rightarrow> price_store \<Rightarrow> unit sql \<times> price_store" where
  "ensure_official_price_seed now st =
     (case count_model_price_rules_for_seed st price_seed_version of
        Inl e \<Rightarrow> (Inl (''count model price seeds failed: '' @ e), st)
      | Inr n \<Rightarrow>
          if length price_seeds \<le> n then (Inr (), st)
          else (case upsert_rules (map (\<lambda>(i, s). rule_of_seed now i s) (List.enumerate 0 price_seeds)) st of
                  (Inl e, st1) \<Rightarrow> (Inl e, st1)
                | (Inr _, st1) \<Rightarrow> (Inr (), invalidate_price_rule_cache st1)))"

definition load_enabled_price_rules :: "i64 \<Rightarrow> price_store \<Rightarrow> price_rule list sql \<times> price_store" where
  "load_enabled_price_rules now st =
     (case ensure_official_price_seed now st of
        (Inl e, st1) \<Rightarrow> (Inl e, st1)
      | (Inr _, st1) \<Rightarrow>
          ((case list_enabled_model_price_rules st1 of
              Inl e \<Rightarrow> Inl (''list enabled model price rules failed: '' @ e) | Inr rs \<Rightarrow> Inr rs), st1))"

text \<open>The path of the database is read from the environment.\<close>

definition current_price_rule_cache_db_path :: "str option \<Rightarrow> str option" where
  "current_price_rule_cache_db_path env =
     (case env of None \<Rightarrow> None | Some p \<Rightarrow> if trim p = [] \<or> trim p = ''<unset>'' then None else Some (trim p))"

definition load_enabled_price_rules_cached ::
    "str option \<Rightarrow> i64 \<Rightarrow> price_store \<Rightarrow> price_rule list sql \<times> price_store" where
  "load_enabled_price_rules_cached env now st =
     (case current_price_rule_cache_db_path env of
        None \<Rightarrow> load_enabled_price_rules now st
      | Some path \<Rightarrow>
          (let fresh = (case load_enabled_price_rules now st of
                 (Inl e, st1) \<Rightarrow> (Inl e, st1)
               | (Inr rules, st1) \<Rightarrow> (Inr rules, st1\<lparr>ps_cache := Some (path, rules)\<rparr>))
           in case ps_cache st of Some (p, rules) \<Rightarrow> if p = path then (Inr rules, st) else fresh | None \<Rightarrow> fresh))"

section \<open>Matching\<close>

text \<open>
  The loop of \<^verbatim>\<open>wildcard_matches\<close> over the non-empty parts of the pattern: the first part must
  begin the text unless the pattern begins with a star, every other one is looked for and the text after
  its first occurrence is what remains.
\<close>

fun match_parts :: "bool \<Rightarrow> str list \<Rightarrow> str \<Rightarrow> str option" where
  "match_parts anchored [] rest = Some rest"
| "match_parts True (p # ps) rest =
     (case strip_prefix rest p of None \<Rightarrow> None | Some r \<Rightarrow> match_parts False ps r)"
| "match_parts False (p # ps) rest =
     (case split_once p rest of None \<Rightarrow> None | Some (_, r) \<Rightarrow> match_parts False ps r)"

abbreviation star :: char where "star \<equiv> CHR ''*''"

definition wildcard_matches :: "str \<Rightarrow> str \<Rightarrow> bool" where
  "wildcard_matches pattern text =
     (if pattern = [star] then True
      else if star \<notin> set pattern then pattern = text
      else (case match_parts (\<not> str_starts_with pattern [star]) (filter (\<lambda>p. p \<noteq> []) (split_on star pattern)) text of
              None \<Rightarrow> False | Some rest \<Rightarrow> str_ends_with pattern [star] \<or> rest = []))"

definition rule_matches :: "price_rule \<Rightarrow> str \<Rightarrow> bool" where
  "rule_matches r model =
     (let pattern = to_ascii_lowercase (trim (pr_pattern r)); kind = to_ascii_lowercase (trim (pr_match_type r)) in
      if pattern = [] then False
      else if kind = ''exact'' then model = pattern
      else if kind = ''glob'' \<or> kind = ''wildcard'' then wildcard_matches pattern model
      else str_starts_with model pattern)"

record price_match =
  pm_provider :: str
  pm_input :: f64
  pm_cached :: f64
  pm_output :: f64

definition price_from_rule :: "price_rule \<Rightarrow> i64 \<Rightarrow> price_match option" where
  "price_from_rule r input_tokens =
     (if \<not> pr_enabled r \<or> \<not> eq_ignore_ascii_case (pr_currency r) ''USD'' \<or> \<not> eq_ignore_ascii_case (pr_unit r) ''per_1m_tokens''
      then None
      else (case pr_input r of None \<Rightarrow> None | Some input \<Rightarrow> (case pr_output r of None \<Rightarrow> None | Some output_price \<Rightarrow>
        (let cached = unwrap_or (or_else (pr_cached r) (pr_cache_hit r)) input in
         if (case pr_long_threshold r of Some n \<Rightarrow> n \<le> input_tokens | None \<Rightarrow> False)
         then (let long = unwrap_or (pr_long_input r) input in
               Some \<lparr>pm_provider = pr_provider r, pm_input = long, pm_cached = unwrap_or (pr_long_cached r) long,
                     pm_output = unwrap_or (pr_long_output r) output_price\<rparr>)
         else Some \<lparr>pm_provider = pr_provider r, pm_input = input, pm_cached = cached, pm_output = output_price\<rparr>))))"

text \<open>\<^verbatim>\<open>Iterator::max_by_key\<close>: the last of the greatest.\<close>

fun max_by_key :: "('a \<Rightarrow> 'k::linorder) \<Rightarrow> 'a list \<Rightarrow> 'a option" where
  "max_by_key f [] = None"
| "max_by_key f (x # xs) = (case max_by_key f xs of None \<Rightarrow> Some x | Some y \<Rightarrow> if f y < f x then Some x else Some y)"

definition known_model :: "str \<Rightarrow> bool" where
  "known_model m \<longleftrightarrow> m \<noteq> [] \<and> m \<noteq> ''unknown''"

definition resolve_model_price_from_rules :: "price_rule list \<Rightarrow> str \<Rightarrow> i64 \<Rightarrow> price_match option" where
  "resolve_model_price_from_rules rules model input_tokens =
     (let m = to_ascii_lowercase (trim model) in
      if \<not> known_model m then None
      else (case max_by_key (\<lambda>r. (pr_priority r, length (pr_pattern r))) (filter (\<lambda>r. rule_matches r m) rules) of
              None \<Rightarrow> None | Some r \<Rightarrow> price_from_rule r input_tokens))"

definition price_from_seed :: "price_seed \<Rightarrow> i64 \<Rightarrow> price_match" where
  "price_from_seed s input_tokens =
     (if (case sd_long_threshold s of Some n \<Rightarrow> n \<le> input_tokens | None \<Rightarrow> False)
      then (let long = unwrap_or (sd_long_input s) (sd_input s) in
            \<lparr>pm_provider = sd_provider s, pm_input = long, pm_cached = unwrap_or (sd_long_cached s) long,
             pm_output = unwrap_or (sd_long_output s) (sd_output s)\<rparr>)
      else \<lparr>pm_provider = sd_provider s, pm_input = sd_input s, pm_cached = unwrap_or (sd_cached s) (sd_input s),
            pm_output = sd_output s\<rparr>)"

definition best_seed :: "str \<Rightarrow> price_seed option" where
  "best_seed m = max_by_key (\<lambda>s. length (sd_pattern s)) (filter (\<lambda>s. str_starts_with m (sd_pattern s)) price_seeds)"

definition resolve_model_price :: "str \<Rightarrow> i64 \<Rightarrow> price_match option" where
  "resolve_model_price model input_tokens =
     (let m = to_ascii_lowercase (trim model) in
      if \<not> known_model m then None else map_option (\<lambda>s. price_from_seed s input_tokens) (best_seed m))"

definition infer_provider :: "str \<Rightarrow> str" where
  "infer_provider pattern =
     (let m = to_ascii_lowercase (trim pattern) in
      if m = [] then ''openai'' else (case best_seed m of Some s \<Rightarrow> sd_provider s | None \<Rightarrow> ''openai''))"

section \<open>Costs\<close>

record cost_estimate =
  co_provider :: "str option"
  co_cost_usd :: "f64 option"
  co_status :: str

abbreviation zero_f64 :: f64 where "zero_f64 \<equiv> Fin 0"
abbreviation million_f64 :: f64 where "million_f64 \<equiv> Fin 1000000"

definition price_times :: "f64 \<Rightarrow> f64 \<Rightarrow> f64" where
  "price_times tokens price = f64_mul (f64_div tokens million_f64) price"

definition estimate_cost_from_price :: "price_match \<Rightarrow> i64 \<Rightarrow> i64 \<Rightarrow> i64 \<Rightarrow> cost_estimate" where
  "estimate_cost_from_price p input_tokens cached_tokens output_tokens =
     (let input_total = f64_of_i64 (max input_tokens 0);
          cached = f64_min (f64_of_i64 (max cached_tokens 0)) input_total;
          billable = f64_max (f64_sub input_total cached) zero_f64;
          output = f64_of_i64 (max output_tokens 0);
          cost = f64_add (f64_add (price_times billable (pm_input p)) (price_times cached (pm_cached p)))
                   (price_times output (pm_output p))
      in \<lparr>co_provider = Some (pm_provider p), co_cost_usd = Some (f64_max cost zero_f64), co_status = ''ok''\<rparr>)"

definition missing_price :: cost_estimate where
  "missing_price = \<lparr>co_provider = None, co_cost_usd = None, co_status = ''missing''\<rparr>"

definition estimate_cost :: "str option \<Rightarrow> i64 \<Rightarrow> i64 \<Rightarrow> i64 \<Rightarrow> cost_estimate" where
  "estimate_cost model input_tokens cached_tokens output_tokens =
     (case trimmed_nonempty model of None \<Rightarrow> missing_price
      | Some m \<Rightarrow> (case resolve_model_price m (max input_tokens 0) of
          None \<Rightarrow> missing_price | Some p \<Rightarrow> estimate_cost_from_price p input_tokens cached_tokens output_tokens))"

definition estimate_cost_with_rules :: "price_rule list \<Rightarrow> str option \<Rightarrow> i64 \<Rightarrow> i64 \<Rightarrow> i64 \<Rightarrow> cost_estimate" where
  "estimate_cost_with_rules rules model input_tokens cached_tokens output_tokens =
     (case trimmed_nonempty model of None \<Rightarrow> missing_price
      | Some m \<Rightarrow>
          (case or_else (resolve_model_price_from_rules rules m (max input_tokens 0)) (resolve_model_price m (max input_tokens 0)) of
             None \<Rightarrow> missing_price | Some p \<Rightarrow> estimate_cost_from_price p input_tokens cached_tokens output_tokens))"

definition estimate_remaining_tokens_from_usd_with_rules :: "price_rule list \<Rightarrow> str \<Rightarrow> f64 \<Rightarrow> i64 option" where
  "estimate_remaining_tokens_from_usd_with_rules rules model balance =
     (if \<not> f64_is_finite balance \<or> f64_lt balance zero_f64 then None
      else (case or_else (resolve_model_price_from_rules rules model 0) (resolve_model_price model 0) of
              None \<Rightarrow> None
            | Some p \<Rightarrow>
                if balance = zero_f64 then Some 0
                else (let blended = f64_add (f64_mul (pm_input p) (round_f64 (7 / 10))) (f64_mul (pm_output p) (round_f64 (3 / 10)))
                      in if f64_le blended zero_f64 then None
                         else Some (f64_as_i64 floor (f64_mul (f64_div balance blended) million_f64)))))"

definition estimate_cost_usd_for_log ::
    "str option \<Rightarrow> i64 \<Rightarrow> str option \<Rightarrow> i64 option \<Rightarrow> i64 option \<Rightarrow> i64 option \<Rightarrow> price_store \<Rightarrow> f64 \<times> price_store" where
  "estimate_cost_usd_for_log env now model input_tokens cached_tokens output_tokens st0 =
     (case load_enabled_price_rules_cached env now st0 of (r, st) \<Rightarrow>
       (let i = unwrap_or input_tokens 0; c = unwrap_or cached_tokens 0; o' = unwrap_or output_tokens 0;
            plain = estimate_cost model i c o';
            cost = (case r of Inl _ \<Rightarrow> plain
                    | Inr rules \<Rightarrow> if rules = [] then plain else estimate_cost_with_rules rules model i c o')
        in (unwrap_or (co_cost_usd cost) zero_f64, st)))"

end
