(* ===== verification/Price_Properties.thy ===== *)
theory Price_Properties
  imports Price_Rules
begin

text \<open>
  What the price rules guarantee: the wildcard match against a reference glob, the prices of the
  database against the official table they are copied from, and the sign of a cost.
\<close>

section \<open>Wildcards\<close>

text \<open>The reference: a star matches any text, every other character itself.\<close>

fun glob :: "str \<Rightarrow> str \<Rightarrow> bool" where
  "glob [] s \<longleftrightarrow> s = []"
| "glob (p # ps) [] \<longleftrightarrow> p = star \<and> glob ps []"
| "glob (p # ps) (c # s) \<longleftrightarrow> (if p = star then glob ps (c # s) \<or> glob (p # ps) s else p = c \<and> glob ps s)"

lemma glob_star: "glob (star # ps) s \<longleftrightarrow> (\<exists>u v. s = u @ v \<and> glob ps v)"
proof (induction s)
  case (Cons c s)
  have "(\<exists>u v. c # s = u @ v \<and> glob ps v) \<longleftrightarrow> glob ps (c # s) \<or> (\<exists>u v. s = u @ v \<and> glob ps v)"
    by (metis append_Cons append_Nil append_eq_Cons_conv)
  with Cons show ?case by simp
qed simp

lemma glob_literal: "star \<notin> set lit \<Longrightarrow> glob (lit @ ps) s \<longleftrightarrow> (\<exists>v. s = lit @ v \<and> glob ps v)"
proof (induction lit arbitrary: s)
  case (Cons c lit)
  then show ?case by (cases s) auto
qed simp

text \<open>Texts that hold the parts one after the other and end with a remainder.\<close>

fun gaps_to :: "str list \<Rightarrow> str \<Rightarrow> str \<Rightarrow> bool" where
  "gaps_to [] s r \<longleftrightarrow> s = r"
| "gaps_to (p # ps) s r \<longleftrightarrow> (\<exists>u w. s = u @ p @ w \<and> gaps_to ps w r)"

lemma split_on_unsplit: "split_on sep s = a # as \<Longrightarrow> s = a @ concat (map ((#) sep) as)"
proof (induction s arbitrary: a as)
  case (Cons c s)
  obtain b bs where b: "split_on sep s = b # bs" by (cases "split_on sep s") auto
  from Cons.IH [OF b] have s: "s = b @ concat (map ((#) sep) bs)" .
  show ?case
  proof (cases "c = sep")
    case True
    with Cons.prems b have "a = []" "as = b # bs" by auto
    with True s show ?thesis by simp
  next
    case False
    with Cons.prems b have "a = c # b" "as = bs" by auto
    with s show ?thesis by simp
  qed
qed simp

lemma glob_gaps: "\<forall>a \<in> set as. star \<notin> set a \<Longrightarrow> glob (concat (map ((#) star) as)) s \<longleftrightarrow> gaps_to as s []"
proof (induction as arbitrary: s)
  case (Cons a as)
  then have "glob (a @ concat (map ((#) star) as)) v \<longleftrightarrow> (\<exists>w. v = a @ w \<and> gaps_to as w [])" for v
    by (simp add: glob_literal)
  then show ?case by (auto simp: glob_star)
qed simp

lemma glob_split:
  assumes "split_on star p = a # as"
  shows "glob p s \<longleftrightarrow> (\<exists>v. s = a @ v \<and> gaps_to as v [])"
proof -
  have "star \<notin> set a" "\<forall>x \<in> set as. star \<notin> set x"
    using split_on_no_sep [of _ star p] by (auto simp: assms)
  then show ?thesis by (subst split_on_unsplit [OF assms]) (simp add: glob_literal glob_gaps)
qed

lemma gaps_to_prefix: "as \<noteq> [] \<Longrightarrow> gaps_to as w r \<Longrightarrow> gaps_to as (u @ w) r"
  by (cases as) (auto, metis append.assoc)

lemma gaps_insert_empty: "gaps_to (filter (\<lambda>p. p \<noteq> []) as) s r \<Longrightarrow> gaps_to as s r"
proof (induction as arbitrary: s)
  case (Cons a as)
  show ?case
  proof (cases "a = []")
    case True
    with Cons show ?thesis by (auto intro: exI [of _ "[]"])
  next
    case False
    with Cons show ?thesis by auto
  qed
qed simp

text \<open>Some remainder is left.\<close>

definition some_gaps :: "str list \<Rightarrow> str \<Rightarrow> bool" where "some_gaps as s \<longleftrightarrow> (\<exists>r. gaps_to as s r)"

lemma some_gaps_Nil [simp]: "some_gaps [] s" by (simp add: some_gaps_def)

lemma some_gaps_Cons [simp]: "some_gaps (a # as) s \<longleftrightarrow> (\<exists>u w. s = u @ a @ w \<and> some_gaps as w)"
  by (auto simp: some_gaps_def)

lemma some_gaps_prefix: "some_gaps as w \<Longrightarrow> some_gaps as (u @ w)"
  by (cases as) (auto, metis append.assoc)

lemma some_gaps_filter: "some_gaps (filter (\<lambda>p. p \<noteq> []) as) s \<longleftrightarrow> some_gaps as s"
proof (induction as arbitrary: s)
  case (Cons a as)
  show ?case
  proof (cases "a = []")
    case True
    with Cons have "some_gaps (filter (\<lambda>p. p \<noteq> []) (a # as)) s \<longleftrightarrow> some_gaps as s" by simp
    also have "\<dots> \<longleftrightarrow> some_gaps (a # as) s"
      using True some_gaps_prefix by simp (metis append_Nil)
    finally show ?thesis .
  next
    case False
    then show ?thesis using Cons by auto
  qed
qed simp

lemma gaps_open: "as \<noteq> [] \<Longrightarrow> last as = [] \<Longrightarrow> gaps_to as s [] \<longleftrightarrow> some_gaps as s"
proof (induction as arbitrary: s)
  case (Cons a as)
  show ?case
  proof (cases "as = []")
    case True
    with Cons.prems show ?thesis by auto
  next
    case False
    with Cons show ?thesis by simp
  qed
qed simp

lemma split_once_leftmost:
  "p \<noteq> [] \<Longrightarrow> s = u @ p @ w \<Longrightarrow> \<exists>a t. split_once p s = Some (a, t @ w)"
proof (induction s arbitrary: u)
  case (Cons c s)
  show ?case
  proof (cases "str_starts_with (c # s) p")
    case True
    then obtain x where x: "c # s = p @ x" by (auto simp: str_starts_with_iff)
    with Cons.prems(2) have "p @ x = u @ p @ w" by simp
    then have "drop (length u) (drop (length p) (p @ x)) = drop (length u + length p) (u @ p @ w)"
      by (simp only: drop_drop)
    then have "drop (length u) x = w" by simp
    then have "x = take (length u) x @ w" using append_take_drop_id [of "length u" x] by simp
    moreover have "split_once p (c # s) = Some ([], x)"
    proof -
      have "split_once p (c # s) = Some ([], drop (length p) (c # s))" using True by simp
      then show ?thesis by (simp only: x append_eq_conv_conj [THEN iffD1, OF refl]) simp
    qed
    ultimately show ?thesis by metis
  next
    case False
    with Cons.prems obtain u' where "s = u' @ p @ w" by (cases u) (auto simp: str_starts_with_iff)
    with Cons.IH [OF Cons.prems(1)] False show ?thesis by fastforce
  qed
qed simp

lemma match_parts_gaps: "match_parts False ps s = Some r \<Longrightarrow> gaps_to ps s r"
proof (induction ps arbitrary: s)
  case (Cons p ps)
  then obtain a b where "split_once p s = Some (a, b)" "match_parts False ps b = Some r"
    by (auto split: option.splits)
  with Cons.IH [of b] split_once_SomeD [of p s a b] show ?case by auto
qed simp

lemma match_parts_some: "\<forall>p \<in> set ps. p \<noteq> [] \<Longrightarrow> match_parts False ps s \<noteq> None \<longleftrightarrow> some_gaps ps s"
proof (induction ps arbitrary: s)
  case (Cons p ps)
  show ?case
  proof
    assume "match_parts False (p # ps) s \<noteq> None"
    then obtain r where "match_parts False (p # ps) s = Some r" by blast
    then show "some_gaps (p # ps) s" unfolding some_gaps_def by (blast dest: match_parts_gaps)
  next
    assume "some_gaps (p # ps) s"
    then obtain u w where s: "s = u @ p @ w" "some_gaps ps w" by auto
    then obtain a t where "split_once p s = Some (a, t @ w)" using split_once_leftmost [of p s u w] Cons.prems by auto
    moreover from s(2) have "some_gaps ps (t @ w)" by (rule some_gaps_prefix)
    ultimately show "match_parts False (p # ps) s \<noteq> None" using Cons by simp
  qed
qed simp

lemma wildcard_parts:
  assumes "split_on star p = a # as" "as \<noteq> []"
  shows "match_parts (\<not> str_starts_with p [star]) (filter (\<lambda>x. x \<noteq> []) (split_on star p)) s
     = (if a = [] then match_parts False (filter (\<lambda>x. x \<noteq> []) as) s
        else case strip_prefix s a of None \<Rightarrow> None | Some r \<Rightarrow> match_parts False (filter (\<lambda>x. x \<noteq> []) as) r)"
proof -
  have p: "p = a @ concat (map ((#) star) as)" by (rule split_on_unsplit [OF assms(1)])
  have "star \<notin> set a" using split_on_no_sep [of a star p] assms(1) by simp
  then have "str_starts_with p [star] \<longleftrightarrow> a = []"
    using assms(2) unfolding p by (cases a; cases as) auto
  then show ?thesis by (auto simp: assms(1))
qed

lemma split_on_single: "split_on sep s = [a] \<Longrightarrow> sep \<notin> set s"
  using split_on_unsplit [of sep s a "[]"] split_on_no_sep [of a sep s] by simp

lemma last_part: "split_on star p = a # as \<Longrightarrow> as \<noteq> [] \<Longrightarrow> str_ends_with p [star] \<longleftrightarrow> last as = []"
proof -
  assume split: "split_on star p = a # as" and "as \<noteq> []"
  then obtain bs b where as: "as = bs @ [b]" by (metis append_butlast_last_id)
  have "star \<notin> set b" using split_on_no_sep [of b star p] split as by simp
  moreover have "p = (a @ concat (map ((#) star) bs)) @ star # b" using split_on_unsplit [OF split] as by simp
  ultimately show "str_ends_with p [star] \<longleftrightarrow> last as = []"
    by (cases b rule: rev_cases) (auto simp: str_ends_with_iff as)
qed

lemma strip_prefix_iff: "strip_prefix s p = Some r \<longleftrightarrow> s = p @ r"
  by (auto simp: strip_prefix_def str_starts_with_iff)

lemma strip_prefix_append: "strip_prefix (p @ r) p = Some r"
  by (simp add: strip_prefix_iff)

text \<open>
  C40: a wildcard match is a glob match. A model that the matching of a pattern accepts matches the
  pattern read as a glob, where a star stands for any text; for a pattern that ends with a star, or has
  none, the two agree. (A pattern with text after its last star can miss a model: the loop takes the
  first occurrence of that text, not the last.)
\<close>

theorem wildcard_matches_glob:
  "(wildcard_matches p s \<longrightarrow> glob p s) \<and> (star \<notin> set p \<or> str_ends_with p [star] \<longrightarrow> wildcard_matches p s = glob p s)"
proof (cases "star \<in> set p")
  case False
  then have "glob p s \<longleftrightarrow> p = s" using glob_literal [of p "[]" s] by auto
  with False show ?thesis by (auto simp: wildcard_matches_def)
next
  case True
  obtain a as where split: "split_on star p = a # as" by (cases "split_on star p") auto
  with True have some: "as \<noteq> []" using split_on_single [of star p a] by auto
  let ?ne = "filter (\<lambda>x. x \<noteq> []) as"
  have rest: "glob p s \<longleftrightarrow> (\<exists>v. s = a @ v \<and> gaps_to as v [])" by (rule glob_split [OF split])
  have run: "match_parts (\<not> str_starts_with p [star]) (filter (\<lambda>x. x \<noteq> []) (split_on star p)) s = Some r
      \<longleftrightarrow> (\<exists>v. s = a @ v \<and> match_parts False ?ne v = Some r)" for r
    unfolding wildcard_parts [OF split some]
    by (cases "a = []") (auto simp: strip_prefix_iff strip_prefix_append split: option.splits)
  have step: "wildcard_matches p s \<longleftrightarrow> (\<exists>v r. s = a @ v \<and> match_parts False ?ne v = Some r \<and> (last as = [] \<or> r = []))"
    if "p \<noteq> [star]"
  proof -
    have "wildcard_matches p s \<longleftrightarrow> (\<exists>r. match_parts (\<not> str_starts_with p [star])
        (filter (\<lambda>x. x \<noteq> []) (split_on star p)) s = Some r \<and> (last as = [] \<or> r = []))"
      using True that last_part [OF split some] by (simp add: wildcard_matches_def split: option.split)
    then show ?thesis unfolding run by blast
  qed
  show ?thesis
  proof (cases "p = [star]")
    case True
    have "glob p s" unfolding True using glob_star [of "[]" s] by auto
    with True show ?thesis by (simp add: wildcard_matches_def)
  next
    case False
    have "gaps_to as v [] \<longleftrightarrow> (\<exists>r. match_parts False ?ne v = Some r)" if "last as = []" for v
      using gaps_open [OF some that, of v] some_gaps_filter [of as v] match_parts_some [of ?ne v] by auto
    moreover have "gaps_to as v []" if "match_parts False ?ne v = Some []" for v
      using match_parts_gaps [OF that] by (rule gaps_insert_empty)
    ultimately show ?thesis unfolding step [OF False] rest using True last_part [OF split some] by auto
  qed
qed

theorem wildcard_matches_glob_witness:
  "wildcard_matches ''gpt-*-mini*'' ''gpt-5.4-mini-high'' = glob ''gpt-*-mini*'' ''gpt-5.4-mini-high''
   \<and> glob ''gpt-*-mini*'' ''gpt-5.4-mini-high''"
proof -
  have "str_ends_with ''gpt-*-mini*'' [star]" "wildcard_matches ''gpt-*-mini*'' ''gpt-5.4-mini-high''" by code_simp+
  with wildcard_matches_glob [of "''gpt-*-mini*''" "''gpt-5.4-mini-high''"] show ?thesis by blast
qed

text \<open>The pattern that ends a model with 5 misses a model with two of them.\<close>

theorem wildcard_misses_last_occurrence:
  "glob ''gpt*5'' ''gpt-5.5'' \<and> \<not> wildcard_matches ''gpt*5'' ''gpt-5.5''"
  by code_simp

section \<open>Seeded prices\<close>

lemma max_by_key_in: "max_by_key f xs = Some x \<Longrightarrow> x \<in> set xs \<and> (\<forall>y \<in> set xs. f y \<le> f x)"
proof (induction xs arbitrary: x)
  case (Cons a xs)
  show ?case
  proof (cases "max_by_key f xs")
    case None
    then have "xs = []" by (cases xs) (auto split: option.splits if_splits)
    with Cons.prems show ?thesis by simp
  next
    case (Some y)
    with Cons.IH [OF Some] Cons.prems show ?thesis by (auto split: if_splits intro: order_trans less_imp_le)
  qed
qed simp

lemma max_by_key_None [simp]: "max_by_key f xs = None \<longleftrightarrow> xs = []"
  by (cases xs) (auto split: option.splits if_splits)

lemma max_by_key_unique:
  assumes "x \<in> set xs" "\<forall>y \<in> set xs. y \<noteq> x \<longrightarrow> f y < f x"
  shows "max_by_key f xs = Some x"
proof (cases "max_by_key f xs")
  case None
  with assms show ?thesis by auto
next
  case (Some y)
  with max_by_key_in [OF Some] assms show ?thesis by (metis leD)
qed

text \<open>The rules a fresh database holds after seeding, and the number of the seed of a rule.\<close>

definition seeded_rules :: "i64 \<Rightarrow> price_rule list" where
  "seeded_rules now = map (\<lambda>(i, s). rule_of_seed now i s) (List.enumerate 0 price_seeds)"

lemma upsert_rules_ok:
  "ps_fault st = None \<Longrightarrow> upsert_rules rs st
     = (Inr (), st\<lparr>ps_rules := fold (row_upsert pr_id (\<lambda>old new. new\<lparr>pr_created_at := pr_created_at old\<rparr>)) rs (ps_rules st)\<rparr>)"
  by (induction rs arbitrary: st) (simp_all add: upsert_model_price_rule_def)

lemma seed_patterns:
  "map sd_pattern price_seeds = [''gpt-5.5-pro'', ''gpt-5.5'', ''gpt-5.4-pro'', ''gpt-5.4-mini'', ''gpt-5.4-nano'', ''gpt-5.4'', ''gpt-5.3-codex'', ''gpt-5.2-pro'', ''gpt-5.2'', ''gpt-5.1'', ''gpt-5-pro'', ''gpt-5-mini'', ''gpt-5-nano'', ''gpt-5'', ''gpt-4.1'', ''gpt-4o'', ''o4-mini'', ''o3'', ''claude-opus-4.7'', ''claude-opus-4.6'', ''claude-opus-4.5'', ''claude-opus-4'', ''claude-sonnet-4'', ''claude-haiku-4'', ''gemini-2.5-pro'', ''gemini-2.5-flash'', ''gemini-2.5-flash-lite'']"
  by (simp add: price_seeds_def openai_5_5_to_5_3_def openai_5_2_to_5_def openai_before_5_def anthropic_seeds_def google_seeds_def seed_entry_def)

lemma length_price_seeds: "length price_seeds = 27"
  using arg_cong [OF seed_patterns, of length] by simp

lemma seeded_ids: "map pr_id (seeded_rules now) = map (\<lambda>s. ''official-'' @ price_seed_version @ ''-'' @ sd_pattern s) price_seeds"
proof -
  have "map pr_id (map (\<lambda>(i, s). rule_of_seed now i s) (List.enumerate n xs)) = map (\<lambda>s. ''official-'' @ price_seed_version @ ''-'' @ sd_pattern s) xs" for n xs
    by (induction xs arbitrary: n) (simp_all add: rule_of_seed_def)
  then show ?thesis unfolding seeded_rules_def .
qed

lemma distinct_patterns: "distinct (map sd_pattern price_seeds)"
  unfolding seed_patterns by simp

lemma seeded_keys: "keys_unique pr_id (seeded_rules now)"
proof -
  have "distinct (map (\<lambda>s. ''official-'' @ price_seed_version @ ''-'' @ sd_pattern s) price_seeds)"
    using distinct_patterns unfolding distinct_map inj_on_def by simp
  then show ?thesis by (simp add: keys_unique_def seeded_ids)
qed

lemma seeding_empty:
  assumes "ps_fault st = None" "ps_rules st = []"
  shows "ensure_official_price_seed now st = (Inr (), st\<lparr>ps_rules := seeded_rules now, ps_cache := None\<rparr>)"
  using assms fold_upsert_fresh [of pr_id "[]" "seeded_rules now"] seeded_keys [of now] length_price_seeds
  by (simp add: ensure_official_price_seed_def count_model_price_rules_for_seed_def upsert_rules_ok
      seeded_rules_def [symmetric] invalidate_price_rule_cache_def)

text \<open>A seed whose pattern begins a later seed's pattern: there is one such pair.\<close>

fun shadowed :: "str list \<Rightarrow> (str \<times> str) list" where
  "shadowed [] = []"
| "shadowed (p # ps) = map (Pair p) (filter (\<lambda>q. str_starts_with q p) ps) @ shadowed ps"

lemma shadowed_seeds: "shadowed (map sd_pattern price_seeds) = [(''gemini-2.5-flash'', ''gemini-2.5-flash-lite'')]"
  unfolding seed_patterns by code_simp

lemma shadowed_pairs: "i < j \<Longrightarrow> j < length ps \<Longrightarrow> str_starts_with (ps ! j) (ps ! i) \<Longrightarrow> (ps ! i, ps ! j) \<in> set (shadowed ps)"
proof (induction ps arbitrary: i j)
  case (Cons p ps)
  then show ?case by (cases i; cases j) auto
qed simp

definition matching :: "str \<Rightarrow> nat \<Rightarrow> bool" where
  "matching m i \<longleftrightarrow> i < length price_seeds \<and> str_starts_with m (sd_pattern (price_seeds ! i))"

lemma nth_pattern: "i < length price_seeds \<Longrightarrow> sd_pattern (price_seeds ! i) = map sd_pattern price_seeds ! i"
  by simp

lemma prefixes_nested:
  "str_starts_with m p \<Longrightarrow> str_starts_with m q \<Longrightarrow> length p \<le> length q \<Longrightarrow> str_starts_with q p"
proof -
  assume "str_starts_with m p" "str_starts_with m q" and le: "length p \<le> length q"
  then obtain u v where m: "m = p @ u" "m = q @ v" unfolding str_starts_with_iff by blast
  then have "p = take (length p) q" using le by (metis append_eq_append_conv_if append_take_drop_id)
  then have "q = p @ drop (length p) q" by (metis append_take_drop_id)
  then show ?thesis unfolding str_starts_with_iff by blast
qed

text \<open>The first matching seed is the longest, unless the text begins like the one shadowed pattern.\<close>

lemma first_is_longest:
  assumes i: "matching m i" "\<forall>k < i. \<not> matching m k" and j: "matching m j" "j \<noteq> i"
    and lite: "\<not> str_starts_with m ''gemini-2.5-flash-lite''"
  shows "length (sd_pattern (price_seeds ! j)) < length (sd_pattern (price_seeds ! i))"
proof (rule ccontr)
  let ?p = "\<lambda>k. sd_pattern (price_seeds ! k)"
  assume "\<not> length (?p j) < length (?p i)"
  then have le: "length (?p i) \<le> length (?p j)" by (rule leI)
  from i(1) j(1) have "str_starts_with m (?p i)" "str_starts_with m (?p j)" unfolding matching_def by blast+
  from this le have "str_starts_with (?p j) (?p i)" by (rule prefixes_nested)
  moreover have "i < j" using i(2) j by (metis linorder_neqE_nat)
  moreover have "j < length price_seeds" using j(1) unfolding matching_def by blast
  ultimately have "(?p i, ?p j) \<in> set (shadowed (map sd_pattern price_seeds))"
    using shadowed_pairs [of i j "map sd_pattern price_seeds"] by (simp only: length_map nth_map order.strict_trans)
  then have "(?p i, ?p j) = (''gemini-2.5-flash'', ''gemini-2.5-flash-lite'')" unfolding shadowed_seeds by simp
  then have "?p j = ''gemini-2.5-flash-lite''" by (rule Pair_inject)
  with j(1) lite show False unfolding matching_def by metis
qed

lemma seed_pattern_normal: "p \<in> set (map sd_pattern price_seeds) \<Longrightarrow> to_ascii_lowercase (trim p) = p \<and> p \<noteq> []"
proof -
  have "list_all (\<lambda>p. to_ascii_lowercase (trim p) = p \<and> p \<noteq> []) (map sd_pattern price_seeds)"
    unfolding seed_patterns by code_simp
  then show "p \<in> set (map sd_pattern price_seeds) \<Longrightarrow> to_ascii_lowercase (trim p) = p \<and> p \<noteq> []"
    by (auto simp: list_all_iff)
qed

lemma seed_rule_matches:
  assumes "i < length price_seeds"
  shows "rule_matches (rule_of_seed now i (price_seeds ! i)) m \<longleftrightarrow> matching m i"
proof -
  have "to_ascii_lowercase (trim ''prefix'') = ''prefix''" by code_simp
  with assms seed_pattern_normal [of "sd_pattern (price_seeds ! i)"] show ?thesis
    by (simp add: rule_matches_def rule_of_seed_def matching_def Let_def)
qed

lemma seed_rule_price: "price_from_rule (rule_of_seed now i s) n = Some (price_from_seed s n)"
  by (cases "sd_cached s")
    (simp_all add: price_from_rule_def rule_of_seed_def price_from_seed_def eq_ignore_ascii_case_def Let_def split: option.split)

lemma seeded_rules_set: "set (enabled_rules (seeded_rules now)) = {rule_of_seed now i (price_seeds ! i) | i. i < length price_seeds}"
proof -
  have "filter pr_enabled (seeded_rules now) = seeded_rules now"
    by (auto simp: filter_id_conv seeded_rules_def rule_of_seed_def)
  moreover have "set (seeded_rules now) = {rule_of_seed now i (price_seeds ! i) | i. i < length price_seeds}"
    unfolding seeded_rules_def set_map set_conv_nth [of "List.enumerate 0 price_seeds"] by (auto simp: nth_enumerate_eq image_iff) (metis length_enumerate nth_enumerate_eq add_0)
  ultimately show ?thesis by (simp only: enabled_rules_def set_sort)
qed

text \<open>From the rules the first matching seed is taken.\<close>

lemma price_of_first:
  assumes m: "m = to_ascii_lowercase (trim model)" "known_model m" and i: "matching m i" "\<forall>k < i. \<not> matching m k"
  shows "resolve_model_price_from_rules (enabled_rules (seeded_rules now)) model n = Some (price_from_seed (price_seeds ! i) n)"
proof -
  let ?r = "rule_of_seed now i (price_seeds ! i)"
  let ?rules = "filter (\<lambda>r. rule_matches r m) (enabled_rules (seeded_rules now))"
  have "i < length price_seeds" using i(1) by (simp add: matching_def)
  then have "?r \<in> set ?rules" using i(1) by (auto simp: seeded_rules_set seed_rule_matches)
  moreover have "(pr_priority r, length (pr_pattern r)) < (pr_priority ?r, length (pr_pattern ?r))"
    if r: "r \<in> set ?rules" "r \<noteq> ?r" for r
  proof -
    from r obtain j where j: "j < length price_seeds" "r = rule_of_seed now j (price_seeds ! j)" "matching m j"
      by (auto simp: seeded_rules_set seed_rule_matches)
    with r(2) i(2) have "i < j" by (metis linorder_neqE_nat)
    then show ?thesis by (simp add: j(2) rule_of_seed_def)
  qed
  ultimately have "max_by_key (\<lambda>r. (pr_priority r, length (pr_pattern r))) ?rules = Some ?r"
    by (intro max_by_key_unique) auto
  then show ?thesis using m by (simp add: resolve_model_price_from_rules_def Let_def seed_rule_price)
qed

lemma best_seed_longest:
  assumes i: "matching m i" and longest: "\<And>j. matching m j \<Longrightarrow> j \<noteq> i \<Longrightarrow> length (sd_pattern (price_seeds ! j)) < length (sd_pattern (price_seeds ! i))"
  shows "best_seed m = Some (price_seeds ! i)"
proof -
  have "\<exists>j. matching m j \<and> s = price_seeds ! j" if "s \<in> set price_seeds" "str_starts_with m (sd_pattern s)" for s
    using that by (metis in_set_conv_nth matching_def)
  with longest have "length (sd_pattern s) < length (sd_pattern (price_seeds ! i))"
    if "s \<in> set price_seeds" "str_starts_with m (sd_pattern s)" "s \<noteq> price_seeds ! i" for s using that by metis
  with i show ?thesis unfolding best_seed_def by (intro max_by_key_unique) (auto simp: matching_def)
qed

lemma seeded_resolve:
  assumes "\<not> str_starts_with (to_ascii_lowercase (trim model)) ''gemini-2.5-flash-lite''"
  shows "resolve_model_price_from_rules (enabled_rules (seeded_rules now)) model n = resolve_model_price model n"
proof -
  define m where m: "m = to_ascii_lowercase (trim model)"
  show ?thesis
  proof (cases "known_model m \<and> (\<exists>i. matching m i)")
    case True
    define i where "i = (LEAST i. matching m i)"
    have i: "matching m i" "\<forall>k < i. \<not> matching m k"
      using True unfolding i_def by (auto intro: LeastI dest: not_less_Least)
    have "best_seed m = Some (price_seeds ! i)"
      using first_is_longest [OF i] assms m by (intro best_seed_longest [OF i(1)]) simp
    with price_of_first [OF m _ i] True m show ?thesis by (simp add: resolve_model_price_def)
  next
    case False
    have "filter (\<lambda>r. rule_matches r m) (enabled_rules (seeded_rules now)) = []"
      "filter (\<lambda>s. str_starts_with m (sd_pattern s)) price_seeds = []" if "\<not> (\<exists>i. matching m i)"
    proof -
      from that show "filter (\<lambda>r. rule_matches r m) (enabled_rules (seeded_rules now)) = []"
        by (auto simp: filter_empty_conv seeded_rules_set seed_rule_matches)
      from that show "filter (\<lambda>s. str_starts_with m (sd_pattern s)) price_seeds = []"
        by (auto simp: filter_empty_conv in_set_conv_nth matching_def)
    qed
    with False m show ?thesis
      by (auto simp: resolve_model_price_from_rules_def resolve_model_price_def best_seed_def Let_def)
  qed
qed

lemma seeded_rules_enabled: "enabled_rules (seeded_rules now) \<noteq> []"
  using seeded_rules_set [of now] length_price_seeds by (metis (mono_tags, lifting) empty_iff empty_set mem_Collect_eq zero_less_numeral)

lemma load_seeded:
  assumes "ps_fault st = None" "ps_rules st = []" "ps_cache st = None"
  shows "fst (load_enabled_price_rules_cached env now st) = Inr (enabled_rules (seeded_rules now))"
  using assms
  by (simp add: load_enabled_price_rules_cached_def load_enabled_price_rules_def seeding_empty list_enabled_model_price_rules_def
      split: option.split)

text \<open>
  C39: the seeded rules charge the official prices. On a fresh database, which the first request fills
  with the official rules, the cost of a request is the one of the official table, for every model but
  those whose name begins with gemini-2.5-flash-lite.
\<close>

theorem seeded_costs_official:
  assumes "ps_fault st = None" "ps_rules st = []" "ps_cache st = None"
    and "\<not> str_starts_with (to_ascii_lowercase (trim model)) ''gemini-2.5-flash-lite''"
  shows "fst (estimate_cost_usd_for_log env now (Some model) (Some i) (Some c) (Some n) st)
     = unwrap_or (co_cost_usd (estimate_cost (Some model) i c n)) (Fin 0)"
proof -
  obtain st' where load: "load_enabled_price_rules_cached env now st = (Inr (enabled_rules (seeded_rules now)), st')"
    using load_seeded [OF assms(1-3), of env now] by (metis prod.collapse)
  have "or_else (resolve_model_price model k) (resolve_model_price model k) = resolve_model_price model k" for k
    by (cases "resolve_model_price model k") simp_all
  moreover have "\<not> str_starts_with (to_ascii_lowercase (trim (trim model))) ''gemini-2.5-flash-lite''" using assms(4) by simp
  moreover have "or_else (resolve_model_price (trim model) k) (resolve_model_price (trim model) k) = resolve_model_price (trim model) k" for k
    by (cases "resolve_model_price (trim model) k") simp_all
  ultimately have "estimate_cost_with_rules (enabled_rules (seeded_rules now)) (Some model) i c n = estimate_cost (Some model) i c n"
    by (simp add: estimate_cost_with_rules_def estimate_cost_def trimmed_nonempty_def seeded_resolve)
  then show ?thesis by (simp add: estimate_cost_usd_for_log_def load seeded_rules_enabled)
qed

definition fresh_prices :: price_store where
  "fresh_prices = \<lparr>ps_rules = [], ps_cache = None, ps_fault = None\<rparr>"

theorem seeded_costs_official_witness:
  "fst (estimate_cost_usd_for_log None 7 (Some ''GPT-5.4-mini'') (Some 2000000) (Some 1000000) (Some 1000000) fresh_prices)
     = round_f64 (213 / 40)"
proof -
  have "\<not> str_starts_with (to_ascii_lowercase (trim ''GPT-5.4-mini'')) ''gemini-2.5-flash-lite''" by code_simp
  moreover have "unwrap_or (co_cost_usd (estimate_cost (Some ''GPT-5.4-mini'') 2000000 1000000 1000000)) (Fin 0) = round_f64 (213 / 40)"
    by code_simp
  ultimately show ?thesis
    using seeded_costs_official [of fresh_prices "''GPT-5.4-mini''" None 7 2000000 1000000 1000000] by (simp add: fresh_prices_def)
qed

text \<open>
  One official price is not reached. A model whose name begins with gemini-2.5-flash-lite is
  charged, from the seeded rules, the prices of gemini-2.5-flash, although the official table has its
  own lower prices: the rule of the shorter pattern has the higher priority.
\<close>

theorem flash_lite_priced_as_flash:
  assumes "str_starts_with (to_ascii_lowercase (trim model)) ''gemini-2.5-flash-lite''"
  shows "resolve_model_price_from_rules (enabled_rules (seeded_rules now)) model n
      = Some \<lparr>pm_provider = ''google'', pm_input = round_f64 (3 / 10), pm_cached = round_f64 (3 / 100), pm_output = round_f64 (5 / 2)\<rparr>
    \<and> resolve_model_price model n
      = Some \<lparr>pm_provider = ''google'', pm_input = round_f64 (1 / 10), pm_cached = round_f64 (1 / 100), pm_output = round_f64 (2 / 5)\<rparr>"
proof -
  define m where m: "m = to_ascii_lowercase (trim model)"
  then have lite: "str_starts_with m ''gemini-2.5-flash-lite''" using assms by simp
  then have known: "known_model m" by (auto simp: known_model_def str_starts_with_iff)
  have nth: "price_seeds ! 25 = seed_entry ''google'' ''gemini-2.5-flash'' (3 / 10) (Some (3 / 100)) (5 / 2) None None None None gemini_price_source"
    "price_seeds ! 26 = seed_entry ''google'' ''gemini-2.5-flash-lite'' (1 / 10) (Some (1 / 100)) (2 / 5) None None None None gemini_price_source"
    by (simp_all add: price_seeds_def openai_5_5_to_5_3_def openai_5_2_to_5_def openai_before_5_def anthropic_seeds_def google_seeds_def)
  have other: "\<not> matching m k" if k: "k < 25" for k
  proof
    assume mk: "matching m k"
    let ?ps = "map sd_pattern price_seeds"
    have "list_all (\<lambda>p. \<not> str_starts_with p ''gemini-2.5-flash-lite'' \<and> \<not> str_starts_with ''gemini-2.5-flash-lite'' p) (take 25 ?ps)"
      unfolding seed_patterns by code_simp
    moreover have "sd_pattern (price_seeds ! k) \<in> set (take 25 ?ps)"
      using k length_price_seeds by (auto simp: in_set_conv_nth intro: exI [of _ k])
    ultimately have "\<not> str_starts_with (sd_pattern (price_seeds ! k)) ''gemini-2.5-flash-lite''"
      "\<not> str_starts_with ''gemini-2.5-flash-lite'' (sd_pattern (price_seeds ! k))" by (auto simp: list_all_iff)
    with mk lite prefixes_nested [of m "sd_pattern (price_seeds ! k)" "''gemini-2.5-flash-lite''"]
      prefixes_nested [of m "''gemini-2.5-flash-lite''" "sd_pattern (price_seeds ! k)"]
    show False unfolding matching_def by (meson nat_le_linear)
  qed
  have "str_starts_with ''gemini-2.5-flash-lite'' ''gemini-2.5-flash''" by code_simp
  with lite have "str_starts_with m ''gemini-2.5-flash''" unfolding str_starts_with_iff by (metis append.assoc)
  with lite have both: "matching m 25" "matching m 26" by (simp_all add: matching_def nth length_price_seeds seed_entry_def)
  have "best_seed m = Some (price_seeds ! 26)"
  proof (rule best_seed_longest [OF both(2)])
    fix j assume "matching m j" "j \<noteq> 26"
    then have "j = 25" using other [of j] length_price_seeds by (cases "j < 25") (auto simp: matching_def)
    then show "length (sd_pattern (price_seeds ! j)) < length (sd_pattern (price_seeds ! 26))" by (simp add: nth seed_entry_def)
  qed
  with price_of_first [OF m known both(1), of now n] other known m show ?thesis
    by (simp add: resolve_model_price_def nth seed_entry_def price_from_seed_def)
qed

theorem flash_lite_priced_as_flash_witness:
  "resolve_model_price_from_rules (enabled_rules (seeded_rules 7)) ''gemini-2.5-flash-lite-001'' 10 \<noteq> resolve_model_price ''gemini-2.5-flash-lite-001'' 10"
proof -
  have "str_starts_with (to_ascii_lowercase (trim ''gemini-2.5-flash-lite-001'')) ''gemini-2.5-flash-lite''" by code_simp
  moreover have "round_f64 (3 / 10) \<noteq> round_f64 (1 / 10)" by code_simp
  ultimately show ?thesis using flash_lite_priced_as_flash [of "''gemini-2.5-flash-lite-001''" 7 10] by simp
qed

text \<open>
  A cost is never negative. Whatever the rules hold (negative prices, infinities), whatever the
  token counts are, the estimate is at least zero and never NaN.
\<close>

theorem cost_never_negative:
  "co_cost_usd (estimate_cost_with_rules rules model i c n) = None
    \<or> (\<exists>x. co_cost_usd (estimate_cost_with_rules rules model i c n) = Some x \<and> f64_le (Fin 0) x)"
proof -
  have "\<exists>x. co_cost_usd (estimate_cost_from_price p i c n) = Some x \<and> f64_le (Fin 0) x" for p
    by (simp add: estimate_cost_from_price_def Let_def f64_max_ge)
  then show ?thesis by (simp add: estimate_cost_with_rules_def missing_price_def split: option.split)
qed

end
