(* ===== verification/Account_Manager.thy ===== *)
theory Account_Manager
  imports Model_Groups
begin

text \<open>
  The tables of the account manager (\<^verbatim>\<open>core/src/storage/account_manager.rs\<close>): users
  and their sessions, wallets with their ledger, the owners of API keys and the billing rules, with the
  statements the service runs on them. Unique columns, checks and foreign keys of the schema refuse a
  row; deleting a user cascades. The owners and the user's model groups are tables of
  \<^verbatim>\<open>Model_Store\<close>, which sees the users by their access summaries.
\<close>

section \<open>Tables\<close>

record manager_user =
  mu_id :: str
  mu_username :: str
  mu_display_name :: "str option"
  mu_password_hash :: str
  mu_role :: str
  mu_status :: str
  mu_created_at :: i64
  mu_updated_at :: i64
  mu_last_login_at :: "i64 option"

record user_session =
  us_id :: str
  us_user_id :: str
  us_token_hash :: str
  us_expires_at :: i64
  us_created_at :: i64
  us_last_seen_at :: "i64 option"
  us_revoked_at :: "i64 option"

record wallet =
  wa_id :: str
  wa_owner_kind :: str
  wa_owner_id :: str
  wa_balance :: i64
  wa_frozen :: i64
  wa_status :: str
  wa_created_at :: i64
  wa_updated_at :: i64

record ledger_entry =
  le_id :: str
  le_wallet_id :: str
  le_kind :: str
  le_amount :: i64
  le_balance_after :: i64
  le_request_log_id :: "i64 option"
  le_api_key_id :: "str option"
  le_pricing_rule_id :: "str option"
  le_raw_usage_json :: "str option"
  le_note :: "str option"
  le_created_by :: "str option"
  le_created_at :: i64

record billing_rule =
  br_id :: str
  br_name :: str
  br_status :: str
  br_priority :: i64
  br_multiplier :: i64
  br_model_pattern :: "str option"
  br_service_tier :: "str option"
  br_user_id :: "str option"
  br_project_id :: "str option"
  br_api_key_id :: "str option"
  br_starts_at :: "i64 option"
  br_ends_at :: "i64 option"
  br_created_at :: i64
  br_updated_at :: i64

record manager_store =
  am_users :: "manager_user list"
  am_sessions :: "user_session list"
  am_wallets :: "wallet list"
  am_ledger :: "ledger_entry list"
  am_rules :: "billing_rule list"
  am_keys :: "str list"
  am_projects :: "str list"
  am_settings :: "str \<rightharpoonup> str"
  am_models :: model_store

text \<open>What a user is to the other tables.\<close>

definition access_summary :: "manager_user \<Rightarrow> app_user" where
  "access_summary u = \<lparr>au_id = mu_id u, au_username = mu_username u, au_role = mu_role u, au_status = mu_status u\<rparr>"

definition models_of :: "manager_store \<Rightarrow> model_store" where
  "models_of st = (am_models st)\<lparr>ms_users := map access_summary (am_users st)\<rparr>"

definition wallet_owner :: "wallet \<Rightarrow> str \<times> str" where "wallet_owner w = (wa_owner_kind w, wa_owner_id w)"

section \<open>Statements\<close>

definition am_query :: "manager_store \<Rightarrow> 'a \<Rightarrow> 'a sql" where
  "am_query st v = ms_query (am_models st) v"

definition am_exec_if :: "bool \<Rightarrow> manager_store \<Rightarrow> manager_store \<Rightarrow> unit sql \<times> manager_store" where
  "am_exec_if ok st st' =
     (case ms_fault (am_models st) of Some e \<Rightarrow> (Inl e, st)
      | None \<Rightarrow> if ok then (Inr (), st') else (Inl (ms_refusal (am_models st)), st))"

abbreviation am_exec :: "manager_store \<Rightarrow> manager_store \<Rightarrow> unit sql \<times> manager_store" where
  "am_exec st st' \<equiv> am_exec_if True st st'"

text \<open>The next step after one that succeeded; its own error is prefixed.\<close>

definition am_try ::
    "str \<Rightarrow> 'a sql \<times> manager_store \<Rightarrow> ('a \<Rightarrow> manager_store \<Rightarrow> (str + 'b) \<times> manager_store) \<Rightarrow> (str + 'b) \<times> manager_store" where
  "am_try what r f = (case r of (Inl e, st) \<Rightarrow> (Inl (what @ e), st) | (Inr v, st) \<Rightarrow> f v st)"

definition am_ask ::
    "str \<Rightarrow> str + 'a \<Rightarrow> manager_store \<Rightarrow> ('a \<Rightarrow> (str + 'b) \<times> manager_store) \<Rightarrow> (str + 'b) \<times> manager_store" where
  "am_ask what r st f = (case r of Inl e \<Rightarrow> (Inl (what @ e), st) | Inr v \<Rightarrow> f v)"

lemma am_simps [simp]:
  "am_try what (Inl e, st) f = (Inl (what @ e), st)" "am_try what (Inr v, st) f = f v st"
  "am_ask what (Inl e) st g = (Inl (what @ e), st)" "am_ask what (Inr v) st g = g v"
  by (simp_all add: am_try_def am_ask_def)

lemma am_ok [simp]:
  "ms_fault (am_models st) = None \<Longrightarrow> am_query st v = Inr v"
  "ms_fault (am_models st) = None \<Longrightarrow> am_exec_if ok st st' = (if ok then (Inr (), st') else (Inl (ms_refusal (am_models st)), st))"
  by (simp_all add: am_query_def am_exec_if_def)

section \<open>Users\<close>

definition app_user_count :: "manager_store \<Rightarrow> nat sql" where
  "app_user_count st = am_query st (length (am_users st))"

definition member_app_user_count :: "manager_store \<Rightarrow> nat sql" where
  "member_app_user_count st = am_query st (length (filter (\<lambda>u. mu_role u = ''member'') (am_users st)))"

definition active_admin :: "manager_user \<Rightarrow> bool" where
  "active_admin u \<longleftrightarrow> mu_role u = ''admin'' \<and> mu_status u = ''active''"

definition active_admin_count :: "manager_store \<Rightarrow> nat sql" where
  "active_admin_count st = am_query st (length (filter active_admin (am_users st)))"

definition insert_app_user :: "manager_user \<Rightarrow> manager_store \<Rightarrow> unit sql \<times> manager_store" where
  "insert_app_user u st =
     am_exec_if (\<not> row_exists mu_id (am_users st) (mu_id u) \<and> \<not> row_exists mu_username (am_users st) (mu_username u)
         \<and> mu_role u \<in> set [''admin'', ''operator'', ''member''] \<and> mu_status u \<in> set [''active'', ''disabled''])
       st (st\<lparr>am_users := am_users st @ [u]\<rparr>)"

definition list_app_users :: "manager_store \<Rightarrow> manager_user list sql" where
  "list_app_users st = am_query st (sort_key (\<lambda>u. (mu_created_at u, mu_username u)) (am_users st))"

definition find_app_user_by_username :: "manager_store \<Rightarrow> str \<Rightarrow> manager_user option sql" where
  "find_app_user_by_username st name =
     am_query st (find (\<lambda>u. to_ascii_lowercase (mu_username u) = to_ascii_lowercase name) (am_users st))"

definition find_app_user_by_id :: "manager_store \<Rightarrow> str \<Rightarrow> manager_user option sql" where
  "find_app_user_by_id st i = am_query st (row_find mu_id (am_users st) i)"

definition find_access_summary :: "manager_store \<Rightarrow> str \<Rightarrow> app_user option sql" where
  "find_access_summary st i = am_query st (map_option access_summary (row_find mu_id (am_users st) i))"

definition app_user_exists :: "manager_store \<Rightarrow> str \<Rightarrow> bool sql" where
  "app_user_exists st i = am_query st (row_exists mu_id (am_users st) i)"

definition app_username_exists :: "manager_store \<Rightarrow> str \<Rightarrow> bool sql" where
  "app_username_exists st name =
     am_query st (list_ex (\<lambda>u. to_ascii_lowercase (mu_username u) = to_ascii_lowercase name) (am_users st))"

definition update_user :: "str \<Rightarrow> (manager_user \<Rightarrow> manager_user) \<Rightarrow> manager_store \<Rightarrow> manager_store" where
  "update_user i f st = st\<lparr>am_users := map (\<lambda>u. if mu_id u = i then f u else u) (am_users st)\<rparr>"

definition update_app_user_last_login :: "str \<Rightarrow> i64 \<Rightarrow> manager_store \<Rightarrow> unit sql \<times> manager_store" where
  "update_app_user_last_login i ts st = am_exec st (update_user i (\<lambda>u. u\<lparr>mu_last_login_at := Some ts, mu_updated_at := ts\<rparr>) st)"

definition update_app_user_status :: "str \<Rightarrow> str \<Rightarrow> i64 \<Rightarrow> manager_store \<Rightarrow> unit sql \<times> manager_store" where
  "update_app_user_status i status now st =
     am_exec_if (status \<in> set [''active'', ''disabled''] \<or> \<not> row_exists mu_id (am_users st) i)
       st (update_user i (\<lambda>u. u\<lparr>mu_status := status, mu_updated_at := now\<rparr>) st)"

definition update_app_user_role :: "str \<Rightarrow> str \<Rightarrow> i64 \<Rightarrow> manager_store \<Rightarrow> unit sql \<times> manager_store" where
  "update_app_user_role i role now st =
     am_exec_if (role \<in> set [''admin'', ''operator'', ''member''] \<or> \<not> row_exists mu_id (am_users st) i)
       st (update_user i (\<lambda>u. u\<lparr>mu_role := role, mu_updated_at := now\<rparr>) st)"

definition update_app_user_display_name :: "str \<Rightarrow> str option \<Rightarrow> i64 \<Rightarrow> manager_store \<Rightarrow> unit sql \<times> manager_store" where
  "update_app_user_display_name i name now st =
     am_exec st (update_user i (\<lambda>u. u\<lparr>mu_display_name := name, mu_updated_at := now\<rparr>) st)"

definition update_app_user_password_hash :: "str \<Rightarrow> str \<Rightarrow> i64 \<Rightarrow> manager_store \<Rightarrow> unit sql \<times> manager_store" where
  "update_app_user_password_hash i hash now st =
     am_exec st (update_user i (\<lambda>u. u\<lparr>mu_password_hash := hash, mu_updated_at := now\<rparr>) st)"

text \<open>
  Deleting a user is one transaction; the row's foreign keys cascade to the billing rules of the user
  and blank the references of other rows.
\<close>

definition user_wallet_ids :: "manager_store \<Rightarrow> str \<Rightarrow> str list" where
  "user_wallet_ids st i = map wa_id (filter (\<lambda>w. wallet_owner w = (''user'', i)) (am_wallets st))"

definition blank :: "str \<Rightarrow> str option \<Rightarrow> str option" where
  "blank i r = (if r = Some i then None else r)"

definition without_user :: "str \<Rightarrow> manager_store \<Rightarrow> manager_store" where
  "without_user i st = st\<lparr>
     am_users := row_delete mu_id i (am_users st),
     am_sessions := filter (\<lambda>s. us_user_id s \<noteq> i) (am_sessions st),
     am_wallets := filter (\<lambda>w. wallet_owner w \<noteq> (''user'', i)) (am_wallets st),
     am_ledger := map (\<lambda>e. e\<lparr>le_created_by := blank i (le_created_by e)\<rparr>)
       (filter (\<lambda>e. le_wallet_id e \<notin> set (user_wallet_ids st i)) (am_ledger st)),
     am_rules := filter (\<lambda>r. br_user_id r \<noteq> Some i) (am_rules st),
     am_models := (am_models st)\<lparr>
       ms_owners := map (\<lambda>k. k\<lparr>ko_user_id := blank i (ko_user_id k)\<rparr>)
         (filter (\<lambda>k. \<not> (ko_kind k = ''user'' \<and> ko_user_id k = Some i)) (ms_owners (am_models st))),
       ms_user_groups := filter (\<lambda>g. ug_user_id g \<noteq> i) (ms_user_groups (am_models st))\<rparr>\<rparr>"

definition delete_app_user_row :: "str \<Rightarrow> manager_store \<Rightarrow> nat sql \<times> manager_store" where
  "delete_app_user_row i st =
     (case ms_fault (am_models st) of Some e \<Rightarrow> (Inl e, st)
      | None \<Rightarrow> (Inr (length (filter (\<lambda>u. mu_id u = i) (am_users st))), without_user i st))"

section \<open>Users with their wallets\<close>

definition wallet_of :: "manager_store \<Rightarrow> str \<Rightarrow> str \<Rightarrow> wallet option" where
  "wallet_of st kind i = row_find wallet_owner (am_wallets st) (kind, i)"

definition with_wallet :: "manager_store \<Rightarrow> manager_user \<Rightarrow> manager_user \<times> wallet option" where
  "with_wallet st u = (u, if mu_role u = ''admin'' then None else wallet_of st ''user'' (mu_id u))"

definition list_public_app_users_with_wallets :: "manager_store \<Rightarrow> (manager_user \<times> wallet option) list sql" where
  "list_public_app_users_with_wallets st =
     am_query st (map (with_wallet st) (sort_key (\<lambda>u. (mu_created_at u, mu_username u)) (am_users st)))"

definition find_public_app_user_with_wallet_by_id :: "manager_store \<Rightarrow> str \<Rightarrow> (manager_user \<times> wallet option) option sql" where
  "find_public_app_user_with_wallet_by_id st i = am_query st (map_option (with_wallet st) (row_find mu_id (am_users st) i))"

section \<open>Sessions\<close>

definition insert_app_user_session :: "user_session \<Rightarrow> manager_store \<Rightarrow> unit sql \<times> manager_store" where
  "insert_app_user_session s st =
     am_exec_if (\<not> row_exists us_id (am_sessions st) (us_id s) \<and> \<not> row_exists us_token_hash (am_sessions st) (us_token_hash s)
         \<and> row_exists mu_id (am_users st) (us_user_id s))
       st (st\<lparr>am_sessions := am_sessions st @ [s]\<rparr>)"

definition live_session :: "i64 \<Rightarrow> user_session \<Rightarrow> bool" where
  "live_session now s \<longleftrightarrow> us_revoked_at s = None \<and> now < us_expires_at s"

definition find_active_app_session_by_token_hash :: "manager_store \<Rightarrow> str \<Rightarrow> i64 \<Rightarrow> user_session option sql" where
  "find_active_app_session_by_token_hash st hash now =
     am_query st (find (\<lambda>s. us_token_hash s = hash \<and> live_session now s) (am_sessions st))"

definition find_active_app_session_user_by_token_hash ::
    "manager_store \<Rightarrow> str \<Rightarrow> i64 \<Rightarrow> (user_session \<times> manager_user \<times> wallet option) option sql" where
  "find_active_app_session_user_by_token_hash st hash now =
     am_query st (case List.map_filter (\<lambda>s. if us_token_hash s = hash \<and> live_session now s
           then (case row_find mu_id (am_users st) (us_user_id s) of
                   Some u \<Rightarrow> if mu_status u = ''active'' then Some (s, with_wallet st u) else None | None \<Rightarrow> None)
           else None) (am_sessions st) of [] \<Rightarrow> None | r # _ \<Rightarrow> Some r)"

definition touch_app_user_session :: "str \<Rightarrow> i64 \<Rightarrow> manager_store \<Rightarrow> unit sql \<times> manager_store" where
  "touch_app_user_session i ts st =
     am_exec st (st\<lparr>am_sessions := map (\<lambda>s. if us_id s = i then s\<lparr>us_last_seen_at := Some ts\<rparr> else s) (am_sessions st)\<rparr>)"

definition revoke_app_user_session_by_token_hash :: "str \<Rightarrow> i64 \<Rightarrow> manager_store \<Rightarrow> unit sql \<times> manager_store" where
  "revoke_app_user_session_by_token_hash hash ts st =
     am_exec st (st\<lparr>am_sessions := map (\<lambda>s. if us_token_hash s = hash \<and> us_revoked_at s = None
         then s\<lparr>us_revoked_at := Some ts\<rparr> else s) (am_sessions st)\<rparr>)"

section \<open>Wallets\<close>

definition no_rows :: str where "no_rows = ''Query returned no rows''"

definition find_wallet_by_owner :: "manager_store \<Rightarrow> str \<Rightarrow> str \<Rightarrow> wallet option sql" where
  "find_wallet_by_owner st kind i = am_query st (wallet_of st kind i)"

definition new_wallet :: "str \<Rightarrow> str \<Rightarrow> str \<Rightarrow> i64 \<Rightarrow> wallet" where
  "new_wallet i kind owner now =
     \<lparr>wa_id = i, wa_owner_kind = kind, wa_owner_id = owner, wa_balance = 0, wa_frozen = 0, wa_status = ''active'',
      wa_created_at = now, wa_updated_at = now\<rparr>"

definition insert_wallet :: "wallet \<Rightarrow> manager_store \<Rightarrow> unit sql \<times> manager_store" where
  "insert_wallet w st =
     am_exec_if (\<not> row_exists wa_id (am_wallets st) (wa_id w) \<and> \<not> row_exists wallet_owner (am_wallets st) (wallet_owner w)
         \<and> wa_owner_kind w \<in> set [''user'', ''project''])
       st (st\<lparr>am_wallets := am_wallets st @ [w]\<rparr>)"

definition ensure_wallet_for_owner :: "str \<Rightarrow> str \<Rightarrow> str \<Rightarrow> i64 \<Rightarrow> manager_store \<Rightarrow> wallet sql \<times> manager_store" where
  "ensure_wallet_for_owner i kind owner now st =
     am_ask [] (find_wallet_by_owner st kind owner) st (\<lambda>found.
       case found of Some w \<Rightarrow> (Inr w, st)
       | None \<Rightarrow> am_try [] (insert_wallet (new_wallet i kind owner now) st) (\<lambda>_ st1.
           am_ask [] (find_wallet_by_owner st1 kind owner) st1 (\<lambda>again.
             case again of Some w \<Rightarrow> (Inr w, st1) | None \<Rightarrow> (Inl no_rows, st1))))"

definition list_wallets :: "manager_store \<Rightarrow> wallet list sql" where
  "list_wallets st = am_query st (sort_key wa_created_at (am_wallets st))"

definition user_wallet_available_credit_micros :: "manager_store \<Rightarrow> (str \<times> i64) list sql" where
  "user_wallet_available_credit_micros st =
     am_query st (map (\<lambda>w. (wa_owner_id w, wa_balance w - wa_frozen w)) (filter (\<lambda>w. wa_owner_kind w = ''user'') (am_wallets st)))"

definition nonzero_wallet_count :: "manager_store \<Rightarrow> nat sql" where
  "nonzero_wallet_count st = am_query st (length (filter (\<lambda>w. wa_balance w \<noteq> 0 \<or> wa_frozen w \<noteq> 0) (am_wallets st)))"

definition wallet_ledger_entry_count :: "manager_store \<Rightarrow> nat sql" where
  "wallet_ledger_entry_count st = am_query st (length (am_ledger st))"

definition request_charge_ledger_entry_count :: "manager_store \<Rightarrow> nat sql" where
  "request_charge_ledger_entry_count st = am_query st (length (filter (\<lambda>e. le_kind e = ''request_charge'') (am_ledger st)))"

text \<open>
  A change of a balance and its ledger entry are one transaction. A sum outside of
  \<^verbatim>\<open>i64\<close> is no integer for SQLite and reading it fails.
\<close>

definition adjust_wallet_balance :: "ledger_entry \<Rightarrow> manager_store \<Rightarrow> ledger_entry sql \<times> manager_store" where
  "adjust_wallet_balance e st =
     (case ms_fault (am_models st) of Some err \<Rightarrow> (Inl err, st)
      | None \<Rightarrow>
          (case find (\<lambda>w. wa_id w = le_wallet_id e \<and> wa_status w = ''active'') (am_wallets st) of
             None \<Rightarrow> (Inl no_rows, st)
           | Some w \<Rightarrow>
               (let after = wa_balance w + le_amount e; entry = e\<lparr>le_balance_after := after\<rparr> in
                if \<not> in_i64 after \<or> row_exists le_id (am_ledger st) (le_id e)
                   \<or> (\<exists>k \<in> set_option (le_api_key_id e). k \<notin> set (am_keys st))
                   \<or> (\<exists>u \<in> set_option (le_created_by e). \<not> row_exists mu_id (am_users st) u)
                then (Inl (ms_refusal (am_models st)), st)
                else (Inr entry, st\<lparr>
                  am_wallets := map (\<lambda>x. if wa_id x = le_wallet_id e
                    then x\<lparr>wa_balance := wa_balance x + le_amount e, wa_updated_at := le_created_at e\<rparr> else x) (am_wallets st),
                  am_ledger := am_ledger st @ [entry]\<rparr>))))"

section \<open>Owners of API keys\<close>

definition api_key_exists :: "manager_store \<Rightarrow> str \<Rightarrow> bool sql" where
  "api_key_exists st k = am_query st (k \<in> set (am_keys st))"

definition upsert_api_key_owner :: "key_owner \<Rightarrow> manager_store \<Rightarrow> unit sql \<times> manager_store" where
  "upsert_api_key_owner k st =
     am_exec_if (ko_key_id k \<in> set (am_keys st) \<and> ko_kind k \<in> set [''user'', ''project'']
         \<and> (\<forall>u \<in> set_option (ko_user_id k). row_exists mu_id (am_users st) u)
         \<and> (\<forall>p \<in> set_option (ko_project_id k). p \<in> set (am_projects st)))
       st (st\<lparr>am_models := (am_models st)\<lparr>ms_owners := row_upsert ko_key_id (\<lambda>old new. new) k (ms_owners (am_models st))\<rparr>\<rparr>)"

definition find_key_owner :: "manager_store \<Rightarrow> str \<Rightarrow> key_owner option sql" where
  "find_key_owner st k = am_query st (row_find ko_key_id (ms_owners (am_models st)) k)"

definition list_api_key_owner_rows :: "manager_store \<Rightarrow> key_owner list sql" where
  "list_api_key_owner_rows st = am_query st (sort_key ko_key_id (ms_owners (am_models st)))"

definition list_api_key_ids_for_user :: "manager_store \<Rightarrow> str \<Rightarrow> str list sql" where
  "list_api_key_ids_for_user st user =
     (if trim user = [] then Inr []
      else am_query st (sort (map ko_key_id (filter (\<lambda>k. ko_kind k = ''user'' \<and> ko_user_id k = Some (trim user)) (ms_owners (am_models st))))))"

definition api_key_owner_count :: "manager_store \<Rightarrow> nat sql" where
  "api_key_owner_count st = am_query st (length (ms_owners (am_models st)))"

definition user_model_group_assignment_count :: "manager_store \<Rightarrow> nat sql" where
  "user_model_group_assignment_count st = am_query st (length (ms_user_groups (am_models st)))"

end
