(* ===== verification/App_Users.thy ===== *)
theory App_Users
  imports Account_Manager
begin

text \<open>
  The users of the gateway (\<^verbatim>\<open>service/src/auth/app_manager.rs\<close>,
  \<^verbatim>\<open>auth/web_access.rs\<close>): the modes of the web login, users with their passwords and
  sessions, top-ups of wallets and the ownership of API keys. SHA-256 as hexadecimal text is a
  parameter, random ids, salts and tokens and the clock are arguments. Opening the database is left out.
\<close>

section \<open>Messages\<close>

definition bad_login_message :: str where "bad_login_message = map char_of [0xE7, 0x94, 0xA8, 0xE6, 0x88, 0xB7, 0xE5, 0x90, 0x8D, 0xE6, 0x88, 0x96, 0xE5, 0xAF, 0x86, 0xE7, 0xA0, 0x81, 0xE9, 0x94, 0x99, 0xE8, 0xAF, 0xAF :: nat]"

definition user_id_blank_message :: str where "user_id_blank_message = map char_of [0xE7, 0x94, 0xA8, 0xE6, 0x88, 0xB7 :: nat] @ '' ID '' @ map char_of [0xE4, 0xB8, 0x8D, 0xE8, 0x83, 0xBD, 0xE4, 0xB8, 0xBA, 0xE7, 0xA9, 0xBA :: nat]"

definition user_missing_message :: str where "user_missing_message = map char_of [0xE7, 0x94, 0xA8, 0xE6, 0x88, 0xB7, 0xE4, 0xB8, 0x8D, 0xE5, 0xAD, 0x98, 0xE5, 0x9C, 0xA8 :: nat]"

definition last_admin_message :: str where "last_admin_message = map char_of [0xE8, 0x87, 0xB3, 0xE5, 0xB0, 0x91, 0xE9, 0x9C, 0x80, 0xE8, 0xA6, 0x81, 0xE4, 0xBF, 0x9D, 0xE7, 0x95, 0x99, 0xE4, 0xB8, 0x80, 0xE4, 0xB8, 0xAA, 0xE5, 0x90, 0xAF, 0xE7, 0x94, 0xA8, 0xE7, 0x9A, 0x84, 0xE7, 0xAE, 0xA1, 0xE7, 0x90, 0x86, 0xE5, 0x91, 0x98, 0xE8, 0xB4, 0xA6, 0xE5, 0x8F, 0xB7 :: nat]"

definition username_taken_message :: str where "username_taken_message = map char_of [0xE7, 0x94, 0xA8, 0xE6, 0x88, 0xB7, 0xE5, 0x90, 0x8D, 0xE5, 0xB7, 0xB2, 0xE5, 0xAD, 0x98, 0xE5, 0x9C, 0xA8 :: nat]"

definition admin_no_credit_message :: str where "admin_no_credit_message = map char_of [0xE7, 0xAE, 0xA1, 0xE7, 0x90, 0x86, 0xE5, 0x91, 0x98, 0xE8, 0xB4, 0xA6, 0xE5, 0x8F, 0xB7, 0xE4, 0xB8, 0x8D, 0xE5, 0x8F, 0x82, 0xE4, 0xB8, 0x8E, 0xE9, 0xA2, 0x9D, 0xE5, 0xBA, 0xA6, 0xE5, 0x88, 0x86, 0xE5, 0x8F, 0x91 :: nat]"

definition admin_exists_message :: str where "admin_exists_message = map char_of [0xE7, 0xAE, 0xA1, 0xE7, 0x90, 0x86, 0xE5, 0x91, 0x98, 0xE5, 0xB7, 0xB2, 0xE5, 0x88, 0x9D, 0xE5, 0xA7, 0x8B, 0xE5, 0x8C, 0x96 :: nat]"

definition admin_failed_message :: str where "admin_failed_message = map char_of [0xE7, 0xAE, 0xA1, 0xE7, 0x90, 0x86, 0xE5, 0x91, 0x98, 0xE5, 0x88, 0x9B, 0xE5, 0xBB, 0xBA, 0xE5, 0xA4, 0xB1, 0xE8, 0xB4, 0xA5 :: nat]"

definition current_user_missing_message :: str where "current_user_missing_message = map char_of [0xE5, 0xBD, 0x93, 0xE5, 0x89, 0x8D, 0xE7, 0x94, 0xA8, 0xE6, 0x88, 0xB7, 0xE4, 0xB8, 0x8D, 0xE5, 0xAD, 0x98, 0xE5, 0x9C, 0xA8 :: nat]"

definition wrong_password_message :: str where "wrong_password_message = map char_of [0xE5, 0xBD, 0x93, 0xE5, 0x89, 0x8D, 0xE5, 0xAF, 0x86, 0xE7, 0xA0, 0x81, 0xE4, 0xB8, 0x8D, 0xE6, 0xAD, 0xA3, 0xE7, 0xA1, 0xAE :: nat]"

definition wallet_owner_blank_message :: str where "wallet_owner_blank_message = map char_of [0xE9, 0x92, 0xB1, 0xE5, 0x8C, 0x85, 0xE5, 0xBD, 0x92, 0xE5, 0xB1, 0x9E :: nat] @ '' ID '' @ map char_of [0xE4, 0xB8, 0x8D, 0xE8, 0x83, 0xBD, 0xE4, 0xB8, 0xBA, 0xE7, 0xA9, 0xBA :: nat]"

definition owner_user_blank_message :: str where "owner_user_blank_message = map char_of [0xE7, 0x94, 0xA8, 0xE6, 0x88, 0xB7, 0xE5, 0xBD, 0x92, 0xE5, 0xB1, 0x9E, 0xE9, 0x9C, 0x80, 0xE8, 0xA6, 0x81 :: nat] @ '' userId''"

definition user_disabled_message :: str where "user_disabled_message = map char_of [0xE7, 0x94, 0xA8, 0xE6, 0x88, 0xB7, 0xE5, 0xB7, 0xB2, 0xE7, 0xA6, 0x81, 0xE7, 0x94, 0xA8 :: nat]"

definition owner_kind_message :: str where "owner_kind_message = map char_of [0xE5, 0xBD, 0x92, 0xE5, 0xB1, 0x9E, 0xE7, 0xB1, 0xBB, 0xE5, 0x9E, 0x8B, 0xE5, 0xBF, 0x85, 0xE9, 0xA1, 0xBB, 0xE6, 0x98, 0xAF :: nat] @ '' user '' @ map char_of [0xE6, 0x88, 0x96 :: nat] @ '' project''"

definition role_message :: str where "role_message = map char_of [0xE8, 0xA7, 0x92, 0xE8, 0x89, 0xB2, 0xE5, 0xBF, 0x85, 0xE9, 0xA1, 0xBB, 0xE6, 0x98, 0xAF :: nat] @ '' admin '' @ map char_of [0xE6, 0x88, 0x96 :: nat] @ '' member''"

definition status_message :: str where "status_message = map char_of [0xE7, 0x8A, 0xB6, 0xE6, 0x80, 0x81, 0xE5, 0xBF, 0x85, 0xE9, 0xA1, 0xBB, 0xE6, 0x98, 0xAF :: nat] @ '' active '' @ map char_of [0xE6, 0x88, 0x96 :: nat] @ '' disabled''"

definition username_length_message :: str where "username_length_message = map char_of [0xE7, 0x94, 0xA8, 0xE6, 0x88, 0xB7, 0xE5, 0x90, 0x8D, 0xE9, 0x95, 0xBF, 0xE5, 0xBA, 0xA6, 0xE9, 0x9C, 0x80, 0xE8, 0xA6, 0x81, 0xE5, 0x9C, 0xA8 :: nat] @ '' 3 '' @ map char_of [0xE5, 0x88, 0xB0 :: nat] @ '' 64 '' @ map char_of [0xE4, 0xB9, 0x8B, 0xE9, 0x97, 0xB4 :: nat]"

definition username_chars_message :: str where "username_chars_message = map char_of [0xE7, 0x94, 0xA8, 0xE6, 0x88, 0xB7, 0xE5, 0x90, 0x8D, 0xE4, 0xBB, 0x85, 0xE6, 0x94, 0xAF, 0xE6, 0x8C, 0x81, 0xE5, 0xAD, 0x97, 0xE6, 0xAF, 0x8D, 0xE3, 0x80, 0x81, 0xE6, 0x95, 0xB0, 0xE5, 0xAD, 0x97, 0xE3, 0x80, 0x81, 0xE7, 0x82, 0xB9, 0xE3, 0x80, 0x81, 0xE4, 0xB8, 0x8B, 0xE5, 0x88, 0x92, 0xE7, 0xBA, 0xBF, 0xE5, 0x92, 0x8C, 0xE7, 0x9F, 0xAD, 0xE6, 0xA8, 0xAA, 0xE7, 0xBA, 0xBF :: nat]"

definition password_short_message :: str where "password_short_message = map char_of [0xE5, 0xAF, 0x86, 0xE7, 0xA0, 0x81, 0xE8, 0x87, 0xB3, 0xE5, 0xB0, 0x91, 0xE9, 0x9C, 0x80, 0xE8, 0xA6, 0x81 :: nat] @ '' 8 '' @ map char_of [0xE4, 0xBD, 0x8D :: nat]"

definition top_up_message :: str where "top_up_message = map char_of [0xE5, 0x85, 0x85, 0xE5, 0x80, 0xBC, 0xE9, 0x87, 0x91, 0xE9, 0xA2, 0x9D, 0xE5, 0xBF, 0x85, 0xE9, 0xA1, 0xBB, 0xE5, 0xA4, 0xA7, 0xE4, 0xBA, 0x8E :: nat] @ '' 0''"

definition negative_credit_message :: str where "negative_credit_message = map char_of [0xE5, 0x8F, 0xAF, 0xE7, 0x94, 0xA8, 0xE9, 0xA2, 0x9D, 0xE5, 0xBA, 0xA6, 0xE5, 0xBF, 0x85, 0xE9, 0xA1, 0xBB, 0xE6, 0x98, 0xAF, 0xE9, 0x9D, 0x9E, 0xE8, 0xB4, 0x9F, 0xE6, 0x95, 0xB0, 0xE5, 0xAD, 0x97 :: nat]"

definition wallet_gone_message :: str where "wallet_gone_message = map char_of [0xE9, 0x92, 0xB1, 0xE5, 0x8C, 0x85, 0xE4, 0xB8, 0x8D, 0xE5, 0xAD, 0x98, 0xE5, 0x9C, 0xA8 :: nat]"

definition key_id_blank_message :: str where "key_id_blank_message = ''API Key ID '' @ map char_of [0xE4, 0xB8, 0x8D, 0xE8, 0x83, 0xBD, 0xE4, 0xB8, 0xBA, 0xE7, 0xA9, 0xBA :: nat]"

definition key_missing_message :: str where "key_missing_message = ''API Key '' @ map char_of [0xE4, 0xB8, 0x8D, 0xE5, 0xAD, 0x98, 0xE5, 0x9C, 0xA8 :: nat]"

definition owner_project_blank_message :: str where "owner_project_blank_message = map char_of [0xE9, 0xA1, 0xB9, 0xE7, 0x9B, 0xAE, 0xE5, 0xBD, 0x92, 0xE5, 0xB1, 0x9E, 0xE9, 0x9C, 0x80, 0xE8, 0xA6, 0x81 :: nat] @ '' projectId''"

definition set_password_first_message :: str where "set_password_first_message = map char_of [0xE5, 0x90, 0xAF, 0xE7, 0x94, 0xA8, 0xE8, 0xAE, 0xBF, 0xE9, 0x97, 0xAE, 0xE5, 0xAF, 0x86, 0xE7, 0xA0, 0x81, 0xE6, 0xA8, 0xA1, 0xE5, 0xBC, 0x8F, 0xE5, 0x89, 0x8D, 0xE9, 0x9C, 0x80, 0xE8, 0xA6, 0x81, 0xE5, 0x85, 0x88, 0xE8, 0xAE, 0xBE, 0xE7, 0xBD, 0xAE, 0xE8, 0xAE, 0xBF, 0xE9, 0x97, 0xAE, 0xE5, 0xAF, 0x86, 0xE7, 0xA0, 0x81 :: nat]"

section \<open>Normal forms\<close>

definition normalize_username :: "str \<Rightarrow> str + str" where
  "normalize_username raw =
     (let v = to_ascii_lowercase (trim raw) in
      if length v < 3 \<or> 64 < length v then Inl username_length_message
      else if \<not> list_all (\<lambda>c. is_ascii_alphabetic c \<or> is_ascii_digit c \<or> c \<in> set ''_-.'') v then Inl username_chars_message
      else Inr v)"

definition validate_password :: "str \<Rightarrow> str + unit" where
  "validate_password p = (if length p < 8 then Inl password_short_message else Inr ())"

definition normalize_role :: "str option \<Rightarrow> str + str" where
  "normalize_role raw =
     (let role = to_ascii_lowercase (unwrap_or (trimmed_nonempty raw) ''member'')
      in if role = ''admin'' \<or> role = ''member'' then Inr role else Inl role_message)"

definition normalize_status :: "str \<Rightarrow> str + str" where
  "normalize_status raw =
     (let s = to_ascii_lowercase (trim raw) in if s = ''active'' \<or> s = ''disabled'' then Inr s else Inl status_message)"

definition normalize_owner_kind :: "str \<Rightarrow> str + str" where
  "normalize_owner_kind raw =
     (let s = to_ascii_lowercase (trim raw) in if s = ''user'' \<or> s = ''project'' then Inr s else Inl owner_kind_message)"

definition normalize_web_auth_mode :: "str option \<Rightarrow> str" where
  "normalize_web_auth_mode raw =
     (case map_option (\<lambda>r. to_ascii_lowercase (trim r)) raw of
        None \<Rightarrow> ''none'' | Some m \<Rightarrow> if m = ''password'' \<or> m = ''accounts'' then m else ''none'')"

definition parse_bool_with_default :: "str \<Rightarrow> bool \<Rightarrow> bool" where
  "parse_bool_with_default raw d =
     (let s = to_ascii_lowercase (trim raw) in
      if s \<in> set [''1'', ''true'', ''yes'', ''on''] then True
      else if s \<in> set [''0'', ''false'', ''no'', ''off''] then False else d)"

section \<open>Secrets\<close>

definition hash_password :: "(str \<Rightarrow> str) \<Rightarrow> str \<Rightarrow> str \<Rightarrow> str" where
  "hash_password sha salt password = ''sha256$'' @ salt @ ''$'' @ sha (salt @ '':'' @ password)"

definition verify_password_hash :: "(str \<Rightarrow> str) \<Rightarrow> str \<Rightarrow> str \<Rightarrow> bool" where
  "verify_password_hash sha password stored =
     (case split_on (CHR ''$'') stored of
        [kind, salt, expected] \<Rightarrow> kind = ''sha256'' \<and> sha (salt @ '':'' @ password) = expected
      | _ \<Rightarrow> False)"

definition token_hash :: "(str \<Rightarrow> str) \<Rightarrow> str \<Rightarrow> str" where
  "token_hash sha token = sha (''codexmanager-app-session:'' @ token)"

section \<open>Settings\<close>

definition web_auth_mode_key :: str where "web_auth_mode_key = ''web.auth.mode''"

definition password_hash_key :: str where "password_hash_key = ''web.auth.password_hash''"

definition distribution_key :: str where "distribution_key = ''distribution.enabled''"

definition get_persisted_app_setting :: "manager_store \<Rightarrow> str \<Rightarrow> str option" where
  "get_persisted_app_setting st key =
     (case am_query st (am_settings st key) of Inl _ \<Rightarrow> None | Inr v \<Rightarrow> trimmed_nonempty v)"

definition save_persisted_app_setting :: "str \<Rightarrow> str option \<Rightarrow> manager_store \<Rightarrow> (str + unit) \<times> manager_store" where
  "save_persisted_app_setting key v st =
     am_try (''save '' @ key @ '' failed: '') (am_exec st (st\<lparr>am_settings := (am_settings st)(key \<mapsto> unwrap_or (trimmed_nonempty v) [])\<rparr>))
       (\<lambda>_ st1. (Inr (), st1))"

definition web_access_password_configured :: "manager_store \<Rightarrow> bool" where
  "web_access_password_configured st = is_some (get_persisted_app_setting st password_hash_key)"

definition set_web_access_password :: "(str \<Rightarrow> str) \<Rightarrow> str \<Rightarrow> str option \<Rightarrow> manager_store \<Rightarrow> (str + bool) \<times> manager_store" where
  "set_web_access_password sha salt password st =
     (case trimmed_nonempty password of
        Some p \<Rightarrow> am_try [] (save_persisted_app_setting password_hash_key (Some (hash_password sha salt p)) st) (\<lambda>_ st1. (Inr True, st1))
      | None \<Rightarrow> am_try [] (save_persisted_app_setting password_hash_key (Some []) st) (\<lambda>_ st1. (Inr False, st1)))"

definition verify_web_access_password :: "(str \<Rightarrow> str) \<Rightarrow> manager_store \<Rightarrow> str \<Rightarrow> bool" where
  "verify_web_access_password sha st password =
     (case get_persisted_app_setting st password_hash_key of None \<Rightarrow> True | Some h \<Rightarrow> verify_password_hash sha password h)"

definition current_web_auth_mode :: "manager_store \<Rightarrow> str" where
  "current_web_auth_mode st =
     (case get_persisted_app_setting st web_auth_mode_key of
        Some raw \<Rightarrow> (let m = normalize_web_auth_mode (Some raw)
                     in if m = ''password'' \<and> \<not> web_access_password_configured st then ''none'' else m)
      | None \<Rightarrow> if web_access_password_configured st then ''password'' else ''none'')"

definition distribution_enabled :: "manager_store \<Rightarrow> bool" where
  "distribution_enabled st =
     (case get_persisted_app_setting st distribution_key of None \<Rightarrow> False | Some raw \<Rightarrow> parse_bool_with_default raw False)"

text \<open>What keeps the billing mode from being turned off.\<close>

definition lock_reason :: "str \<Rightarrow> nat sql \<Rightarrow> str \<Rightarrow> str + str list" where
  "lock_reason what r reason = sum_bind (map_err what r) (\<lambda>n. Inr (if 0 < n then [reason] else []))"

definition billing_mode_lock_reasons :: "manager_store \<Rightarrow> str + str list" where
  "billing_mode_lock_reasons st =
     sum_bind (lock_reason ''read member users failed: '' (member_app_user_count st) ''member_users'') (\<lambda>a.
     sum_bind (lock_reason ''read api key owners failed: '' (api_key_owner_count st) ''api_key_owners'') (\<lambda>b.
     sum_bind (lock_reason ''read wallets failed: '' (nonzero_wallet_count st) ''wallet_balance'') (\<lambda>c.
     sum_bind (lock_reason ''read wallet ledger failed: '' (wallet_ledger_entry_count st) ''wallet_ledger'') (\<lambda>d.
     sum_bind (lock_reason ''read model group assignments failed: '' (user_model_group_assignment_count st) ''model_group_assignments'') (\<lambda>e.
     sum_bind (lock_reason ''read wallet request charges failed: '' (request_charge_ledger_entry_count st) ''request_charges'') (\<lambda>f.
       Inr (a @ b @ c @ d @ e @ f)))))))"

definition set_web_auth_mode :: "str \<Rightarrow> manager_store \<Rightarrow> (str + str) \<times> manager_store" where
  "set_web_auth_mode mode st =
     (let n = normalize_web_auth_mode (Some mode) in
      am_ask [] (if current_web_auth_mode st = ''accounts'' \<and> n \<noteq> ''accounts'' then billing_mode_lock_reasons st else Inr []) st (\<lambda>reasons.
        if reasons \<noteq> [] then (Inl ''account_billing_mode_locked'', st)
        else if n = ''password'' \<and> \<not> web_access_password_configured st then (Inl set_password_first_message, st)
        else am_try [] (save_persisted_app_setting web_auth_mode_key (Some n) st) (\<lambda>_ st1. (Inr n, st1))))"

definition set_distribution_enabled :: "bool \<Rightarrow> manager_store \<Rightarrow> (str + bool) \<times> manager_store" where
  "set_distribution_enabled enabled st =
     (if enabled \<and> current_web_auth_mode st \<noteq> ''accounts'' then (Inl ''distribution_requires_accounts_mode'', st)
      else am_ask [] (if \<not> enabled \<and> distribution_enabled st then billing_mode_lock_reasons st else Inr []) st (\<lambda>reasons.
        if reasons \<noteq> [] then (Inl ''distribution_mode_locked'', st)
        else am_try [] (save_persisted_app_setting distribution_key (Some (if enabled then ''true'' else ''false'')) st)
               (\<lambda>_ st1. (Inr enabled, st1))))"

section \<open>Results\<close>

record wallet_view =
  wv_wallet :: wallet
  wv_available :: i64

definition wallet_result :: "wallet \<Rightarrow> wallet_view" where
  "wallet_result w = \<lparr>wv_wallet = w, wv_available = max (i64_sub (wa_balance w) (wa_frozen w)) 0\<rparr>"

record public_user =
  pu_id :: str
  pu_username :: str
  pu_display_name :: "str option"
  pu_role :: str
  pu_status :: str
  pu_created_at :: i64
  pu_updated_at :: i64
  pu_last_login_at :: "i64 option"
  pu_wallet :: "wallet_view option"

definition app_user_can_own_wallet :: "manager_user \<Rightarrow> bool" where
  "app_user_can_own_wallet u \<longleftrightarrow> mu_role u \<noteq> ''admin''"

definition public_user :: "manager_user \<Rightarrow> wallet option \<Rightarrow> public_user" where
  "public_user u w =
     \<lparr>pu_id = mu_id u, pu_username = mu_username u, pu_display_name = mu_display_name u, pu_role = mu_role u,
      pu_status = mu_status u, pu_created_at = mu_created_at u, pu_updated_at = mu_updated_at u,
      pu_last_login_at = mu_last_login_at u,
      pu_wallet = (if app_user_can_own_wallet u then map_option wallet_result w else None)\<rparr>"

definition public_user_with_wallet :: "manager_user \<times> wallet option \<Rightarrow> public_user" where
  "public_user_with_wallet = (\<lambda>(u, w). (public_user u None)\<lparr>pu_wallet := map_option wallet_result w\<rparr>)"

record login_result =
  lr_token :: str
  lr_expires_at :: i64
  lr_user :: public_user

text \<open>The random values an operation draws.\<close>

record draws =
  dr_user :: str
  dr_wallet :: str
  dr_ledger :: str
  dr_session :: str
  dr_salt :: str
  dr_token :: str

section \<open>Wallets\<close>

definition ensure_wallet :: "str \<Rightarrow> str \<Rightarrow> str \<Rightarrow> i64 \<Rightarrow> manager_store \<Rightarrow> (str + wallet) \<times> manager_store" where
  "ensure_wallet fresh kind0 owner0 now st =
     am_ask [] (normalize_owner_kind kind0) st (\<lambda>kind.
       if trim owner0 = [] then (Inl wallet_owner_blank_message, st)
       else am_try ''ensure app wallet failed: '' (ensure_wallet_for_owner fresh kind (trim owner0) now st) (\<lambda>w st1. (Inr w, st1)))"

definition ensure_user_can_own_wallet :: "manager_store \<Rightarrow> str \<Rightarrow> str + app_user" where
  "ensure_user_can_own_wallet st i =
     (if trim i = [] then Inl owner_user_blank_message
      else sum_bind (map_err ''read app user failed: '' (find_access_summary st (trim i))) (\<lambda>found.
        (case found of None \<Rightarrow> Inl user_missing_message
         | Some u \<Rightarrow> if au_role u = ''admin'' then Inl admin_no_credit_message
                     else if au_status u \<noteq> ''active'' then Inl user_disabled_message else Inr u)))"

definition ledger_of :: "str \<Rightarrow> str \<Rightarrow> str \<Rightarrow> i64 \<Rightarrow> str option \<Rightarrow> str option \<Rightarrow> i64 \<Rightarrow> ledger_entry" where
  "ledger_of i wallet kind amount note created_by now =
     \<lparr>le_id = i, le_wallet_id = wallet, le_kind = kind, le_amount = amount, le_balance_after = 0, le_request_log_id = None,
      le_api_key_id = None, le_pricing_rule_id = None, le_raw_usage_json = None, le_note = note,
      le_created_by = created_by, le_created_at = now\<rparr>"

text \<open>The wallet of an owner, after a check of the user who is to own it.\<close>

definition owned_wallet :: "draws \<Rightarrow> str \<Rightarrow> str \<Rightarrow> i64 \<Rightarrow> manager_store \<Rightarrow> (str + wallet) \<times> manager_store" where
  "owned_wallet d kind0 owner0 now st =
     am_ask [] (normalize_owner_kind kind0) st (\<lambda>kind.
     am_ask [] (if kind = ''user'' then sum_bind (ensure_user_can_own_wallet st (trim owner0)) (\<lambda>_. Inr ()) else Inr ()) st (\<lambda>_.
       ensure_wallet (dr_wallet d) kind (trim owner0) now st))"

definition wallet_again :: "wallet \<Rightarrow> manager_store \<Rightarrow> (str + wallet_view) \<times> manager_store" where
  "wallet_again w st =
     am_ask ''read app wallet failed: '' (find_wallet_by_owner st (wa_owner_kind w) (wa_owner_id w)) st (\<lambda>found.
       case found of None \<Rightarrow> (Inl wallet_gone_message, st) | Some x \<Rightarrow> (Inr (wallet_result x), st))"

definition wallet_top_up ::
    "draws \<Rightarrow> str \<Rightarrow> str \<Rightarrow> i64 \<Rightarrow> str option \<Rightarrow> str option \<Rightarrow> i64 \<Rightarrow> manager_store \<Rightarrow> (str + wallet_view) \<times> manager_store" where
  "wallet_top_up d kind owner amount note created_by now st =
     (if amount \<le> 0 then (Inl top_up_message, st)
      else am_try [] (owned_wallet d kind owner now st) (\<lambda>w st1.
        am_try ''adjust wallet failed: ''
          (adjust_wallet_balance (ledger_of (dr_ledger d) (wa_id w) ''manual_adjustment'' amount (trimmed_nonempty note)
             (trimmed_nonempty created_by) now) st1) (\<lambda>_ st2. wallet_again w st2)))"

definition wallet_set_available_credit ::
    "draws \<Rightarrow> str \<Rightarrow> str \<Rightarrow> i64 \<Rightarrow> str option \<Rightarrow> str option \<Rightarrow> i64 \<Rightarrow> manager_store \<Rightarrow> (str + wallet_view) \<times> manager_store" where
  "wallet_set_available_credit d kind owner available note created_by now st =
     (if available < 0 then (Inl negative_credit_message, st)
      else am_try [] (owned_wallet d kind owner now st) (\<lambda>w st1.
        (let target = i64_sat (available + wa_frozen w); delta = i64_sat_sub target (wa_balance w) in
         if delta = 0 then (Inr (wallet_result w), st1)
         else am_try ''set wallet credit failed: ''
           (adjust_wallet_balance (ledger_of (dr_ledger d) (wa_id w) ''manual_adjustment'' delta
              (or_else (trimmed_nonempty note) (Some ''set available credit'')) (trimmed_nonempty created_by) now) st1)
           (\<lambda>_ st2. wallet_again w st2))))"

section \<open>Creating users, logging in\<close>

definition session_ttl :: int where "session_ttl = 60 * 60 * 24 * 14"

definition create_session_with_storage ::
    "(str \<Rightarrow> str) \<Rightarrow> draws \<Rightarrow> manager_user \<Rightarrow> i64 \<Rightarrow> manager_store \<Rightarrow> (str + login_result) \<times> manager_store" where
  "create_session_with_storage sha d u now st =
     (let s = \<lparr>us_id = dr_session d, us_user_id = mu_id u, us_token_hash = token_hash sha (dr_token d),
               us_expires_at = i64_sat (now + session_ttl), us_created_at = now, us_last_seen_at = Some now, us_revoked_at = None\<rparr> in
      am_try ''create app session failed: '' (insert_app_user_session s st) (\<lambda>_ st1.
        am_ask ''read app wallet failed: '' (if app_user_can_own_wallet u then find_wallet_by_owner st1 ''user'' (mu_id u) else Inr None) st1
          (\<lambda>w. (Inr \<lparr>lr_token = dr_token d, lr_expires_at = us_expires_at s, lr_user = public_user u w\<rparr>, st1))))"

text \<open>A step on the tables of the models, which see the current users.\<close>

definition on_model_tables :: "(model_store \<Rightarrow> 'a sql \<times> model_store) \<Rightarrow> manager_store \<Rightarrow> 'a sql \<times> manager_store" where
  "on_model_tables f st =
     (case f (models_of st) of (r, m) \<Rightarrow> (r, st\<lparr>am_models := m\<lparr>ms_users := ms_users (am_models st)\<rparr>\<rparr>))"

record user_input =
  ui_username :: str
  ui_password :: str
  ui_display_name :: "str option"
  ui_role :: "str option"
  ui_initial_balance :: "i64 option"

definition new_user :: "(str \<Rightarrow> str) \<Rightarrow> draws \<Rightarrow> str \<Rightarrow> str \<Rightarrow> user_input \<Rightarrow> i64 \<Rightarrow> manager_user" where
  "new_user sha d username role p now =
     \<lparr>mu_id = dr_user d, mu_username = username, mu_display_name = trimmed_nonempty (ui_display_name p),
      mu_password_hash = hash_password sha (dr_salt d) (ui_password p), mu_role = role, mu_status = ''active'',
      mu_created_at = now, mu_updated_at = now, mu_last_login_at = None\<rparr>"

text \<open>The new user's place in the default group and its wallet, then the initial grant.\<close>

definition furnish_user :: "draws \<Rightarrow> manager_user \<Rightarrow> i64 \<Rightarrow> manager_store \<Rightarrow> (str + wallet option) \<times> manager_store" where
  "furnish_user d u now st =
     (if \<not> app_user_can_own_wallet u then (Inr None, st)
      else am_try ''assign default model group failed: '' (on_model_tables (assign_default_model_group_to_user (mu_id u) now) st) (\<lambda>_ st1.
           am_try [] (ensure_wallet (dr_wallet d) ''user'' (mu_id u) now st1) (\<lambda>w st2. (Inr (Some w), st2))))"

definition grant_initial :: "draws \<Rightarrow> wallet option \<Rightarrow> i64 option \<Rightarrow> i64 \<Rightarrow> manager_store \<Rightarrow> (str + unit) \<times> manager_store" where
  "grant_initial d w initial now st =
     (case initial of None \<Rightarrow> (Inr (), st)
      | Some n \<Rightarrow> if n \<le> 0 then (Inr (), st)
          else (case w of None \<Rightarrow> (Inl admin_no_credit_message, st)
                | Some x \<Rightarrow> am_try ''grant app wallet failed: ''
                    (adjust_wallet_balance (ledger_of (dr_ledger d) (wa_id x) ''initial_grant'' n (Some ''initial balance'') None now) st)
                    (\<lambda>_ st1. (Inr (), st1))))"

definition create_app_user_with_storage ::
    "(str \<Rightarrow> str) \<Rightarrow> draws \<Rightarrow> user_input \<Rightarrow> i64 \<Rightarrow> manager_store \<Rightarrow> (str + public_user) \<times> manager_store" where
  "create_app_user_with_storage sha d p now st =
     am_ask [] (normalize_username (ui_username p)) st (\<lambda>username.
     am_ask [] (validate_password (ui_password p)) st (\<lambda>_.
     am_ask ''read app user failed: '' (app_username_exists st username) st (\<lambda>taken.
       if taken then (Inl username_taken_message, st)
       else am_ask [] (normalize_role (ui_role p)) st (\<lambda>role.
         if role = ''admin'' \<and> 0 < unwrap_or (ui_initial_balance p) 0 then (Inl admin_no_credit_message, st)
         else (let u = new_user sha d username role p now in
           am_try ''create app user failed: '' (insert_app_user u st) (\<lambda>_ st1.
           am_try [] (furnish_user d u now st1) (\<lambda>w st2.
           am_try [] (grant_initial d w (ui_initial_balance p) now st2) (\<lambda>_ st3.
           am_ask ''read app wallet failed: '' (if app_user_can_own_wallet u then find_wallet_by_owner st3 ''user'' (mu_id u) else Inr None) st3
             (\<lambda>w'. (Inr (public_user u w'), st3))))))))))"

definition bootstrap_app_admin ::
    "(str \<Rightarrow> str) \<Rightarrow> draws \<Rightarrow> str \<Rightarrow> str \<Rightarrow> str option \<Rightarrow> i64 \<Rightarrow> manager_store \<Rightarrow> (str + login_result) \<times> manager_store" where
  "bootstrap_app_admin sha d username password display now st =
     am_ask ''read app admins failed: '' (active_admin_count st) st (\<lambda>n.
       if 0 < n then (Inl admin_exists_message, st)
       else am_try [] (create_app_user_with_storage sha d \<lparr>ui_username = username, ui_password = password, ui_display_name = display,
              ui_role = Some ''admin'', ui_initial_balance = Some 0\<rparr> now st) (\<lambda>p st1.
            am_ask ''read app user failed: '' (find_app_user_by_id st1 (pu_id p)) st1 (\<lambda>found.
              case found of None \<Rightarrow> (Inl admin_failed_message, st1) | Some u \<Rightarrow> create_session_with_storage sha d u now st1)))"

definition login_app_user ::
    "(str \<Rightarrow> str) \<Rightarrow> draws \<Rightarrow> str \<Rightarrow> str \<Rightarrow> i64 \<Rightarrow> manager_store \<Rightarrow> (str + login_result) \<times> manager_store" where
  "login_app_user sha d username0 password now st =
     am_ask [] (normalize_username username0) st (\<lambda>username.
     am_ask ''read app user failed: '' (find_app_user_by_username st username) st (\<lambda>found.
       case found of None \<Rightarrow> (Inl bad_login_message, st)
       | Some u \<Rightarrow>
           if mu_status u \<noteq> ''active'' \<or> \<not> verify_password_hash sha password (mu_password_hash u) then (Inl bad_login_message, st)
           else am_try ''update app user login failed: '' (update_app_user_last_login (mu_id u) now st) (\<lambda>_ st1.
             create_session_with_storage sha d (u\<lparr>mu_last_login_at := Some now, mu_updated_at := now\<rparr>) now st1)))"

record session_view =
  sv_session_id :: str
  sv_expires_at :: i64
  sv_user :: public_user

definition resolve_app_user_session ::
    "(str \<Rightarrow> str) \<Rightarrow> str \<Rightarrow> i64 \<Rightarrow> manager_store \<Rightarrow> (str + session_view option) \<times> manager_store" where
  "resolve_app_user_session sha token now st =
     (if trim token = [] then (Inr None, st)
      else am_ask ''read app session failed: '' (find_active_app_session_user_by_token_hash st (token_hash sha (trim token)) now) st (\<lambda>found.
        case found of None \<Rightarrow> (Inr None, st)
        | Some (s, uw) \<Rightarrow>
            (Inr (Some \<lparr>sv_session_id = us_id s, sv_expires_at = us_expires_at s, sv_user = public_user_with_wallet uw\<rparr>),
             snd (touch_app_user_session (us_id s) now st))))"

definition logout_app_user_session :: "(str \<Rightarrow> str) \<Rightarrow> str \<Rightarrow> i64 \<Rightarrow> manager_store \<Rightarrow> (str + unit) \<times> manager_store" where
  "logout_app_user_session sha token now st =
     (if trim token = [] then (Inr (), st)
      else am_try ''revoke app session failed: '' (revoke_app_user_session_by_token_hash (token_hash sha (trim token)) now st) (\<lambda>_ st1. (Inr (), st1)))"

definition list_public_users :: "manager_store \<Rightarrow> str + public_user list" where
  "list_public_users st = sum_bind (map_err ''list app users failed: '' (list_public_app_users_with_wallets st)) (\<lambda>us. Inr (map public_user_with_wallet us))"

section \<open>Changing and deleting users\<close>

record user_changes =
  uc_id :: str
  uc_display_name :: "str option"
  uc_role :: "str option"
  uc_status :: "str option"
  uc_password :: "str option"

text \<open>The last active administrator keeps its role and its status.\<close>

definition spare_last_admin :: "manager_store \<Rightarrow> app_user \<Rightarrow> bool \<Rightarrow> str + unit" where
  "spare_last_admin st u demoted =
     (if au_role u = ''admin'' \<and> au_status u = ''active'' \<and> demoted
      then sum_bind (map_err ''read app admins failed: '' (active_admin_count st)) (\<lambda>n. if n \<le> 1 then Inl last_admin_message else Inr ())
      else Inr ())"

definition set_password :: "(str \<Rightarrow> str) \<Rightarrow> draws \<Rightarrow> str \<Rightarrow> str option \<Rightarrow> i64 \<Rightarrow> manager_store \<Rightarrow> (str + unit) \<times> manager_store" where
  "set_password sha d i password now st =
     (case trimmed_nonempty password of None \<Rightarrow> (Inr (), st)
      | Some p \<Rightarrow> am_ask [] (validate_password p) st (\<lambda>_.
          am_try ''update app user password failed: '' (update_app_user_password_hash i (hash_password sha (dr_salt d) p) now st)
            (\<lambda>_ st1. (Inr (), st1))))"

definition changed_user :: "draws \<Rightarrow> str \<Rightarrow> i64 \<Rightarrow> manager_store \<Rightarrow> (str + public_user) \<times> manager_store" where
  "changed_user d i now st =
     am_ask ''read app user failed: '' (find_app_user_by_id st i) st (\<lambda>found.
       case found of None \<Rightarrow> (Inl user_missing_message, st)
       | Some u \<Rightarrow> if app_user_can_own_wallet u
                   then am_try [] (ensure_wallet (dr_wallet d) ''user'' (mu_id u) now st) (\<lambda>w st1. (Inr (public_user u (Some w)), st1))
                   else (Inr (public_user u None), st))"

definition optional_step :: "bool \<Rightarrow> (manager_store \<Rightarrow> unit sql \<times> manager_store) \<Rightarrow> manager_store \<Rightarrow> unit sql \<times> manager_store" where
  "optional_step b f st = (if b then f st else (Inr (), st))"

definition update_app_user ::
    "(str \<Rightarrow> str) \<Rightarrow> draws \<Rightarrow> user_changes \<Rightarrow> i64 \<Rightarrow> manager_store \<Rightarrow> (str + public_user) \<times> manager_store" where
  "update_app_user sha d p now st =
     (let i = trim (uc_id p) in
      if i = [] then (Inl user_id_blank_message, st)
      else am_ask ''read app user failed: '' (find_access_summary st i) st (\<lambda>found.
        case found of None \<Rightarrow> (Inl user_missing_message, st)
        | Some u \<Rightarrow>
            am_ask [] (case uc_role p of None \<Rightarrow> Inr (au_role u) | Some r \<Rightarrow> normalize_role (Some r)) st (\<lambda>role.
            am_ask [] (case uc_status p of None \<Rightarrow> Inr (au_status u) | Some s \<Rightarrow> normalize_status s) st (\<lambda>status.
            am_ask [] (spare_last_admin st u (role \<noteq> ''admin'' \<or> status \<noteq> ''active'')) st (\<lambda>_.
            am_try ''update app user display name failed: '' (update_app_user_display_name i (trimmed_nonempty (uc_display_name p)) now st) (\<lambda>_ st1.
            am_try ''update app user role failed: '' (optional_step (au_role u \<noteq> role) (update_app_user_role i role now) st1) (\<lambda>_ st2.
            am_try ''update app user status failed: '' (optional_step (au_status u \<noteq> status) (update_app_user_status i status now) st2) (\<lambda>_ st3.
            am_try [] (set_password sha d i (uc_password p) now st3) (\<lambda>_ st4.
              changed_user d i now st4))))))))) "

definition delete_app_user :: "str \<Rightarrow> manager_store \<Rightarrow> (str + unit) \<times> manager_store" where
  "delete_app_user raw st =
     (let i = trim raw in
      if i = [] then (Inl user_id_blank_message, st)
      else am_ask ''read app user failed: '' (find_access_summary st i) st (\<lambda>found.
        case found of None \<Rightarrow> (Inl user_missing_message, st)
        | Some u \<Rightarrow>
            am_ask [] (spare_last_admin st u True) st (\<lambda>_.
            am_try ''delete app user failed: '' (delete_app_user_row i st) (\<lambda>n st1.
              if n = 0 then (Inl user_missing_message, st1) else (Inr (), st1)))))"

text \<open>An actor is the user of the session a request came with, if it came with one.\<close>

definition update_app_user_profile :: "str option \<Rightarrow> str option \<Rightarrow> i64 \<Rightarrow> manager_store \<Rightarrow> (str + public_user) \<times> manager_store" where
  "update_app_user_profile actor display now st =
     (case trimmed_nonempty actor of None \<Rightarrow> (Inl ''permission_denied: profile requires user session'', st)
      | Some i \<Rightarrow>
          am_try ''update app user profile failed: '' (update_app_user_display_name i (trimmed_nonempty display) now st) (\<lambda>_ st1.
          am_ask ''read app user failed: '' (find_public_app_user_with_wallet_by_id st1 i) st1 (\<lambda>found.
            case found of None \<Rightarrow> (Inl current_user_missing_message, st1) | Some uw \<Rightarrow> (Inr (public_user_with_wallet uw), st1))))"

definition change_app_user_password ::
    "(str \<Rightarrow> str) \<Rightarrow> draws \<Rightarrow> str option \<Rightarrow> str \<Rightarrow> str \<Rightarrow> i64 \<Rightarrow> manager_store \<Rightarrow> (str + unit) \<times> manager_store" where
  "change_app_user_password sha d actor old new now st =
     (case trimmed_nonempty actor of None \<Rightarrow> (Inl ''permission_denied: password change requires user session'', st)
      | Some i \<Rightarrow>
          am_ask [] (validate_password new) st (\<lambda>_.
          am_ask ''read app user failed: '' (find_app_user_by_id st i) st (\<lambda>found.
            case found of None \<Rightarrow> (Inl current_user_missing_message, st)
            | Some u \<Rightarrow>
                if \<not> verify_password_hash sha old (mu_password_hash u) then (Inl wrong_password_message, st)
                else am_try ''update app user password failed: '' (update_app_user_password_hash i (hash_password sha (dr_salt d) new) now st)
                       (\<lambda>_ st1. (Inr (), st1)))))"

section \<open>Keys\<close>

definition api_key_belongs_to_user :: "manager_store \<Rightarrow> str \<Rightarrow> str \<Rightarrow> str + bool" where
  "api_key_belongs_to_user st key0 user0 =
     (if trim key0 = [] \<or> trim user0 = [] then Inr False
      else sum_bind (map_err ''read api key owner failed: '' (find_key_owner st (trim key0))) (\<lambda>found.
        Inr (case found of None \<Rightarrow> False | Some k \<Rightarrow> ko_kind k = ''user'' \<and> map_option trim (ko_user_id k) = Some (trim user0))))"

definition set_api_key_owner ::
    "draws \<Rightarrow> str \<Rightarrow> str \<Rightarrow> str option \<Rightarrow> str option \<Rightarrow> i64 \<Rightarrow> manager_store \<Rightarrow> (str + key_owner) \<times> manager_store" where
  "set_api_key_owner d key0 kind0 user project now st =
     (let key = trim key0;
          save = (\<lambda>k st1. am_try ''save api key owner failed: '' (upsert_api_key_owner k st1) (\<lambda>_ st2. (Inr k, st2))) in
      if key = [] then (Inl key_id_blank_message, st)
      else am_ask ''read api key failed: '' (api_key_exists st key) st (\<lambda>there.
        if \<not> there then (Inl key_missing_message, st)
        else am_ask [] (normalize_owner_kind kind0) st (\<lambda>kind.
          if kind = ''user'' then
            (case trimmed_nonempty user of None \<Rightarrow> (Inl owner_user_blank_message, st)
             | Some i \<Rightarrow>
                 am_ask [] (ensure_user_can_own_wallet st i) st (\<lambda>_.
                 am_try [] (ensure_wallet (dr_wallet d) ''user'' i now st) (\<lambda>_ st1.
                   save \<lparr>ko_key_id = key, ko_kind = kind, ko_user_id = Some i, ko_project_id = None, ko_updated_at = now\<rparr> st1)))
          else
            (case trimmed_nonempty project of None \<Rightarrow> (Inl owner_project_blank_message, st)
             | Some i \<Rightarrow>
                 am_try [] (ensure_wallet (dr_wallet d) ''project'' i now st) (\<lambda>_ st1.
                   save \<lparr>ko_key_id = key, ko_kind = kind, ko_user_id = None, ko_project_id = Some i, ko_updated_at = now\<rparr> st1)))))"

end
