(* ===== verification/Wallet_Charge.thy ===== *)
theory Wallet_Charge
  imports App_Users Price_Rules Catalog_Store Token_Refresh
begin

text \<open>
  Charging requests to wallets: the billing rules (\<^verbatim>\<open>core/src/storage/account_manager.rs\<close>), the
  check before a request and the charge after it (\<^verbatim>\<open>service/src/auth/app_manager.rs\<close>). Reading and
  printing of JSON, and the double of a number's text, are serde_json's and enter as parameters.
\<close>

section \<open>Billing rules\<close>

definition rule_active :: "i64 \<Rightarrow> billing_rule \<Rightarrow> bool" where
  "rule_active now r \<longleftrightarrow> br_status r = ''active''
     \<and> (case br_starts_at r of None \<Rightarrow> True | Some t \<Rightarrow> t \<le> now) \<and> (case br_ends_at r of None \<Rightarrow> True | Some t \<Rightarrow> now < t)"

definition list_billing_rules :: "manager_store \<Rightarrow> billing_rule list sql" where
  "list_billing_rules st = am_query st (sort_key (\<lambda>r. (br_status r, - br_priority r, - br_updated_at r, br_name r)) (am_rules st))"

definition list_active_billing_rules :: "manager_store \<Rightarrow> i64 \<Rightarrow> billing_rule list sql" where
  "list_active_billing_rules st now =
     am_query st (sort_key (\<lambda>r. (- br_priority r, - br_updated_at r, br_name r)) (filter (rule_active now) (am_rules st)))"

text \<open>A column without text leaves its side open.\<close>

definition column_open :: "str option \<Rightarrow> bool" where
  "column_open v = (case v of None \<Rightarrow> True | Some s \<Rightarrow> sql_trim s = [])"

definition column_is :: "str option \<Rightarrow> str \<Rightarrow> bool" where
  "column_is v x \<longleftrightarrow> column_open v \<or> v = Some x"

definition tier_is :: "str option \<Rightarrow> str \<Rightarrow> bool" where
  "tier_is v x \<longleftrightarrow> column_open v \<or> map_option (\<lambda>s. to_ascii_lowercase (sql_trim s)) v = Some (to_ascii_lowercase (sql_trim x))"

definition rule_in_context :: "i64 \<Rightarrow> str \<Rightarrow> str \<Rightarrow> str \<Rightarrow> str \<Rightarrow> billing_rule \<Rightarrow> bool" where
  "rule_in_context now key user project tier r \<longleftrightarrow> rule_active now r \<and> column_is (br_api_key_id r) key
     \<and> column_is (br_user_id r) user \<and> column_is (br_project_id r) project \<and> tier_is (br_service_tier r) tier"

text \<open>\<^verbatim>\<open>LIKE\<close>: a percent sign stands for any characters, an underscore for one.\<close>

function sql_like :: "str \<Rightarrow> str \<Rightarrow> bool" where
  "sql_like [] s = (s = [])"
| "sql_like (p # ps) [] = (p = CHR ''%'' \<and> sql_like ps [])"
| "sql_like (p # ps) (c # s) =
     (if p = CHR ''%'' then sql_like ps (c # s) \<or> sql_like (p # ps) (dropWhile cont_byte s)
      else if p = CHR ''_'' then sql_like ps (dropWhile cont_byte s)
      else ascii_lower p = ascii_lower c \<and> sql_like ps s)"
  by pat_completeness auto

termination sql_like
proof (relation "measure (\<lambda>(p, s). length p + length s)")
  show "((p # ps, dropWhile cont_byte s), p # ps, c # s) \<in> measure (\<lambda>(p, s). length p + length s)" for p :: char and ps c s
    using length_dropWhile_le [of cont_byte s] by simp
  show "((ps, dropWhile cont_byte s), p # ps, c # s) \<in> measure (\<lambda>(p, s). length p + length s)" for p :: char and ps c s
    using length_dropWhile_le [of cont_byte s] by simp
qed simp_all

definition pattern_prefilter :: "str option \<Rightarrow> str \<Rightarrow> bool" where
  "pattern_prefilter pattern model =
     (case pattern of None \<Rightarrow> True
      | Some p \<Rightarrow> sql_trim p = [] \<or> sql_trim p = ''*''
          \<or> model \<noteq> [] \<and> (star \<in> set p \<or> to_ascii_lowercase (sql_trim p) = to_ascii_lowercase (sql_trim model)
                           \<or> sql_like (to_ascii_lowercase (sql_trim p) @ ''%'') (to_ascii_lowercase (sql_trim model))))"

definition column_set :: "str option \<Rightarrow> i64" where
  "column_set v = (if column_open v then 0 else 1)"

definition context_text :: "str option \<Rightarrow> str" where
  "context_text v = unwrap_or (trimmed_nonempty v) []"

definition list_active_billing_rules_for_context ::
    "manager_store \<Rightarrow> i64 \<Rightarrow> str \<Rightarrow> str option \<Rightarrow> str option \<Rightarrow> str option \<Rightarrow> billing_rule list sql" where
  "list_active_billing_rules_for_context st now key user project tier =
     (if trim key = [] then Inr []
      else am_query st (sort_key (\<lambda>r. (- br_priority r, - br_updated_at r, br_name r))
        (filter (rule_in_context now (trim key) (context_text user) (context_text project) (context_text tier)) (am_rules st))))"

definition list_active_billing_rules_for_request_candidate ::
    "manager_store \<Rightarrow> i64 \<Rightarrow> str \<Rightarrow> str option \<Rightarrow> str option \<Rightarrow> str option \<Rightarrow> str option \<Rightarrow> billing_rule list sql" where
  "list_active_billing_rules_for_request_candidate st now key user project tier model =
     (let m = (case trimmed_nonempty model of None \<Rightarrow> [] | Some x \<Rightarrow> if eq_ignore_ascii_case x ''unknown'' then [] else x) in
      if trim key = [] then Inr []
      else am_query st (sort_key
        (\<lambda>r. (- br_priority r,
              - (column_set (br_api_key_id r) + column_set (br_user_id r) + column_set (br_project_id r)
                 + column_set (br_service_tier r) + column_set (br_model_pattern r)),
              - int (sql_length (unwrap_or (br_model_pattern r) [])), - br_updated_at r))
        (filter (\<lambda>r. rule_in_context now (trim key) (context_text user) (context_text project) (context_text tier) r
                   \<and> pattern_prefilter (br_model_pattern r) m) (am_rules st))))"

definition upsert_billing_rule :: "billing_rule \<Rightarrow> manager_store \<Rightarrow> unit sql \<times> manager_store" where
  "upsert_billing_rule r st =
     am_exec_if (br_status r \<in> set [''active'', ''disabled'']
         \<and> (\<forall>u \<in> set_option (br_user_id r). row_exists mu_id (am_users st) u)
         \<and> (\<forall>p \<in> set_option (br_project_id r). p \<in> set (am_projects st))
         \<and> (\<forall>k \<in> set_option (br_api_key_id r). k \<in> set (am_keys st)))
       st (st\<lparr>am_rules := row_upsert br_id (\<lambda>old new. new\<lparr>br_created_at := br_created_at old\<rparr>) r (am_rules st)\<rparr>)"

definition delete_billing_rule :: "str \<Rightarrow> manager_store \<Rightarrow> unit sql \<times> manager_store" where
  "delete_billing_rule i st = am_exec st (st\<lparr>am_rules := row_delete br_id i (am_rules st)\<rparr>)"

section \<open>The rule of a request\<close>

definition matches_optional_text :: "str option \<Rightarrow> str option \<Rightarrow> bool" where
  "matches_optional_text rule_value context_value =
     (case trimmed_nonempty rule_value of None \<Rightarrow> True
      | Some r \<Rightarrow> (case trimmed_nonempty context_value of None \<Rightarrow> False | Some c \<Rightarrow> eq_ignore_ascii_case c r))"

definition billing_model_matches :: "str option \<Rightarrow> str option \<Rightarrow> bool" where
  "billing_model_matches pattern model =
     (case trimmed_nonempty pattern of None \<Rightarrow> True
      | Some p0 \<Rightarrow>
          if p0 = ''*'' then True
          else (case trimmed_nonempty model of None \<Rightarrow> False
                | Some m0 \<Rightarrow>
                    if eq_ignore_ascii_case m0 ''unknown'' then False
                    else (let p = to_ascii_lowercase p0; m = to_ascii_lowercase m0
                          in if star \<in> set p then wildcard_matches p m else str_starts_with m p)))"

definition billing_rule_matches :: "billing_rule \<Rightarrow> str \<Rightarrow> key_owner \<Rightarrow> str option \<Rightarrow> str option \<Rightarrow> bool" where
  "billing_rule_matches r key k model tier \<longleftrightarrow>
     matches_optional_text (br_api_key_id r) (Some key) \<and> matches_optional_text (br_user_id r) (ko_user_id k)
     \<and> matches_optional_text (br_project_id r) (ko_project_id k) \<and> matches_optional_text (br_service_tier r) tier
     \<and> billing_model_matches (br_model_pattern r) model"

definition billing_rule_scope_score :: "billing_rule \<Rightarrow> nat" where
  "billing_rule_scope_score r =
     length (filter (\<lambda>v. is_some (trimmed_nonempty v))
       [br_api_key_id r, br_user_id r, br_project_id r, br_service_tier r, br_model_pattern r])"

definition resolve_billing_rule_for_request ::
    "manager_store \<Rightarrow> str \<Rightarrow> key_owner \<Rightarrow> str option \<Rightarrow> str option \<Rightarrow> i64 \<Rightarrow> str + billing_rule option" where
  "resolve_billing_rule_for_request st key k model tier now =
     sum_bind (map_err ''list billing rules failed: ''
       (list_active_billing_rules_for_request_candidate st now key (ko_user_id k) (ko_project_id k) tier model)) (\<lambda>rules.
       Inr (max_by_key (\<lambda>r. (br_priority r, billing_rule_scope_score r, length (unwrap_or (br_model_pattern r) []), br_updated_at r))
              (filter (\<lambda>r. billing_rule_matches r key k model tier) rules)))"

section \<open>The check before a request\<close>

definition owner_wallet_missing_message :: str where "owner_wallet_missing_message = map char_of [0xE5, 0xBD, 0x92, 0xE5, 0xB1, 0x9E, 0xE9, 0x92, 0xB1, 0xE5, 0x8C, 0x85, 0xE4, 0xB8, 0x8D, 0xE5, 0xAD, 0x98, 0xE5, 0x9C, 0xA8 :: nat]"

definition owner_wallet_disabled_message :: str where "owner_wallet_disabled_message = map char_of [0xE5, 0xBD, 0x92, 0xE5, 0xB1, 0x9E, 0xE9, 0x92, 0xB1, 0xE5, 0x8C, 0x85, 0xE5, 0xB7, 0xB2, 0xE5, 0x81, 0x9C, 0xE7, 0x94, 0xA8 :: nat]"

definition owner_wallet_empty_message :: str where "owner_wallet_empty_message = map char_of [0xE5, 0xBD, 0x92, 0xE5, 0xB1, 0x9E, 0xE9, 0x92, 0xB1, 0xE5, 0x8C, 0x85, 0xE4, 0xBD, 0x99, 0xE9, 0xA2, 0x9D, 0xE4, 0xB8, 0x8D, 0xE8, 0xB6, 0xB3 :: nat]"

definition key_user_missing_message :: str where "key_user_missing_message = ''API Key '' @ map char_of [0xE7, 0x94, 0xA8, 0xE6, 0x88, 0xB7, 0xE5, 0xBD, 0x92, 0xE5, 0xB1, 0x9E, 0xE7, 0xBC, 0xBA, 0xE5, 0xA4, 0xB1 :: nat]"

definition key_project_missing_message :: str where "key_project_missing_message = ''API Key '' @ map char_of [0xE9, 0xA1, 0xB9, 0xE7, 0x9B, 0xAE, 0xE5, 0xBD, 0x92, 0xE5, 0xB1, 0x9E, 0xE7, 0xBC, 0xBA, 0xE5, 0xA4, 0xB1 :: nat]"

definition key_kind_invalid_message :: str where "key_kind_invalid_message = ''API Key '' @ map char_of [0xE5, 0xBD, 0x92, 0xE5, 0xB1, 0x9E, 0xE7, 0xB1, 0xBB, 0xE5, 0x9E, 0x8B, 0xE6, 0x97, 0xA0, 0xE6, 0x95, 0x88 :: nat]"

definition owner_identity :: "key_owner \<Rightarrow> str + (str \<times> str)" where
  "owner_identity k =
     (if ko_kind k = ''user'' then (case ko_user_id k of Some i \<Rightarrow> Inr (''user'', i) | None \<Rightarrow> Inl key_user_missing_message)
      else if ko_kind k = ''project'' then (case ko_project_id k of Some i \<Rightarrow> Inr (''project'', i) | None \<Rightarrow> Inl key_project_missing_message)
      else Inl key_kind_invalid_message)"

text \<open>The wallet a key is charged to; an owner that may not own one is refused.\<close>

definition wallet_of_owner :: "manager_store \<Rightarrow> key_owner \<Rightarrow> str + wallet" where
  "wallet_of_owner st k =
     sum_bind (owner_identity k) (\<lambda>(kind, i).
     sum_bind (if kind = ''user'' then sum_bind (ensure_user_can_own_wallet st i) (\<lambda>_. Inr ()) else Inr ()) (\<lambda>_.
     sum_bind (map_err ''read app wallet failed: '' (find_wallet_by_owner st kind i)) (\<lambda>found.
       (case found of None \<Rightarrow> Inl owner_wallet_missing_message | Some w \<Rightarrow> Inr w))))"

definition wallet_precheck_for_api_key :: "manager_store \<Rightarrow> str \<Rightarrow> str + unit" where
  "wallet_precheck_for_api_key st key =
     (if \<not> distribution_enabled st then Inr ()
      else sum_bind (map_err ''read api key owner failed: '' (find_key_owner st key)) (\<lambda>found.
        (case found of None \<Rightarrow> Inr ()
         | Some k \<Rightarrow> sum_bind (wallet_of_owner st k) (\<lambda>w.
             if wa_status w \<noteq> ''active'' then Inl owner_wallet_disabled_message
             else if wa_balance w \<le> wa_frozen w then Inl owner_wallet_empty_message else Inr ()))))"

section \<open>The charge after a request\<close>

text \<open>serde_json, with the double of a number's text and the text of a finite double.\<close>

record billing_io = json_io +
  bi_number :: "str \<Rightarrow> f64"
  bi_print_number :: "f64 \<Rightarrow> str"

text \<open>
  \<^verbatim>\<open>as_u64\<close> finds no number that \<^verbatim>\<open>as_i64\<close> has not found; a number out of the range
  of both is read as a double.
\<close>

definition value_as_i64 :: "billing_io \<Rightarrow> json \<Rightarrow> i64 option" where
  "value_as_i64 io v =
     or_else (json_as_i64 v)
       (case v of
          JNum s \<Rightarrow> (let x = bi_number io s in if f64_is_finite x \<and> f64_le (Fin 0) x then Some (f64_as_i64 rat_round x) else None)
        | JStr s \<Rightarrow> parse_i64 (trim s)
        | _ \<Rightarrow> None)"

fun value_at_path :: "json \<Rightarrow> str list \<Rightarrow> json option" where
  "value_at_path v [] = Some v"
| "value_at_path v (k # ks) = (case json_get v k of None \<Rightarrow> None | Some w \<Rightarrow> value_at_path w ks)"

fun find_map :: "('a \<Rightarrow> 'b option) \<Rightarrow> 'a list \<Rightarrow> 'b option" where
  "find_map f [] = None"
| "find_map f (x # xs) = (case f x of Some y \<Rightarrow> Some y | None \<Rightarrow> find_map f xs)"

definition extract_usage_token :: "billing_io \<Rightarrow> json \<Rightarrow> str list \<Rightarrow> str list list \<Rightarrow> i64 option" where
  "extract_usage_token io v keys paths =
     map_option (\<lambda>n. max n 0)
       (or_else (find_map (\<lambda>k. bind_opt (json_get v k) (value_as_i64 io)) keys)
                (find_map (\<lambda>p. bind_opt (value_at_path v p) (value_as_i64 io)) paths))"

definition usage_input :: "billing_io \<Rightarrow> json \<Rightarrow> i64 option" where
  "usage_input io v = extract_usage_token io v [''inputTokens'', ''input_tokens'', ''prompt_tokens'']
     [[''usage'', ''input_tokens''], [''usage'', ''prompt_tokens'']]"

definition usage_cached :: "billing_io \<Rightarrow> json \<Rightarrow> i64 option" where
  "usage_cached io v = extract_usage_token io v [''cachedInputTokens'', ''cached_input_tokens'', ''cache_read_input_tokens'']
     [[''input_tokens_details'', ''cached_tokens''], [''prompt_tokens_details'', ''cached_tokens''],
      [''usage'', ''input_tokens_details'', ''cached_tokens''], [''usage'', ''prompt_tokens_details'', ''cached_tokens''],
      [''usage'', ''cache_read_input_tokens'']]"

definition usage_output :: "billing_io \<Rightarrow> json \<Rightarrow> i64 option" where
  "usage_output io v = extract_usage_token io v [''outputTokens'', ''output_tokens'', ''completion_tokens'']
     [[''usage'', ''output_tokens''], [''usage'', ''completion_tokens'']]"

text \<open>The cost of a request by the model it is billed as; \<open>db\<close> is the path the copy of the rules is kept for.\<close>

definition estimate_billing_model_cost_usd ::
    "billing_io \<Rightarrow> str option \<Rightarrow> i64 \<Rightarrow> str \<Rightarrow> str option \<Rightarrow> price_store \<Rightarrow> f64 option \<times> price_store" where
  "estimate_billing_model_cost_usd io db now model raw ps =
     (case bind_opt raw (js_parse io) of None \<Rightarrow> (None, ps)
      | Some v \<Rightarrow>
          if usage_input io v = None \<and> usage_cached io v = None \<and> usage_output io v = None then (None, ps)
          else (case estimate_cost_usd_for_log db now (Some model) (usage_input io v) (usage_cached io v) (usage_output io v) ps of
                  (cost, ps1) \<Rightarrow> (if f64_lt zero_f64 cost then Some cost else None, ps1)))"

definition model_group_base_cost_usd ::
    "billing_io \<Rightarrow> str option \<Rightarrow> i64 \<Rightarrow> group_access option \<Rightarrow> f64 \<Rightarrow> str option \<Rightarrow> price_store \<Rightarrow> f64 \<times> price_store" where
  "model_group_base_cost_usd io db now access estimated raw ps =
     (case bind_opt access ga_billing of None \<Rightarrow> (f64_max estimated zero_f64, ps)
      | Some model \<Rightarrow> (case estimate_billing_model_cost_usd io db now model raw ps of
                         (cost, ps1) \<Rightarrow> (f64_max (unwrap_or cost estimated) zero_f64, ps1)))"

definition json_of_f64 :: "billing_io \<Rightarrow> f64 \<Rightarrow> json" where
  "json_of_f64 io x = (if f64_is_finite x then JNum (bi_print_number io x) else JNull)"

text \<open>The usage of the ledger entry: the usage of the request with the terms of the charge.\<close>

definition usage_json_with_billing ::
    "billing_io \<Rightarrow> str option \<Rightarrow> f64 \<Rightarrow> f64 \<Rightarrow> f64 \<Rightarrow> i64 \<Rightarrow> billing_rule option \<Rightarrow> group_access option \<Rightarrow> str option" where
  "usage_json_with_billing io raw platform base charged rate rule access =
     (let m0 = (case unwrap_or (bind_opt raw (js_parse io)) (JObj []) of JObj m \<Rightarrow> m | v \<Rightarrow> [(''raw'', v)]);
          m = bt_extend m0
            ([(''platformEstimatedCostUsd'', json_of_f64 io (f64_max platform zero_f64)),
              (''baseEstimatedCostUsd'', json_of_f64 io (f64_max base zero_f64)),
              (''chargedCostUsd'', json_of_f64 io (f64_max charged zero_f64)),
              (''billingMultiplierMillis'', JNum (dec_int (max rate 0)))]
             @ (case rule of None \<Rightarrow> [] | Some r \<Rightarrow> [(''billingRuleId'', JStr (br_id r)), (''billingRuleName'', JStr (br_name r))])
             @ (case access of None \<Rightarrow> []
                | Some a \<Rightarrow> [(''modelGroupId'', JStr (ga_group_id a)), (''modelGroupName'', JStr (ga_group_name a)),
                     (''platformModelSlug'', JStr (ga_slug a))]
                    @ (case ga_billing a of None \<Rightarrow> [] | Some b \<Rightarrow> [(''billingModelSlug'', JStr b)])))
      in (case js_print io (JObj m) of Inr s \<Rightarrow> Some s | Inl _ \<Rightarrow> None))"

text \<open>Who pays, by which rate: a group's rate, else the rule's, else one.\<close>

definition charge_terms ::
    "manager_store \<Rightarrow> str \<Rightarrow> key_owner \<Rightarrow> str option \<Rightarrow> str option \<Rightarrow> i64 \<Rightarrow> str + group_access option \<times> billing_rule option" where
  "charge_terms st key k model tier now =
     sum_bind (case trimmed_nonempty model of None \<Rightarrow> Inr None
               | Some m \<Rightarrow> resolve_api_key_model_group_access (models_of st) now key m) (\<lambda>access.
     sum_bind (if access \<noteq> None then Inr None else resolve_billing_rule_for_request st key k model tier now) (\<lambda>rule.
       Inr (access, rule)))"

definition multiplier_millis :: "group_access option \<Rightarrow> billing_rule option \<Rightarrow> i64" where
  "multiplier_millis access rule =
     (case access of Some a \<Rightarrow> max (ga_rate a) 0 | None \<Rightarrow> (case rule of Some r \<Rightarrow> max (br_multiplier r) 0 | None \<Rightarrow> 1000))"

definition charged_cost :: "f64 \<Rightarrow> i64 \<Rightarrow> f64" where
  "charged_cost base rate = f64_div (f64_mul base (f64_of_i64 rate)) (Fin 1000)"

definition charge_micros :: "f64 \<Rightarrow> i64 \<Rightarrow> i64" where
  "charge_micros base rate = f64_as_i64 rat_round (f64_mul (charged_cost base rate) million_f64)"

record charge_request =
  cr_key :: "str option"
  cr_log_id :: i64
  cr_estimated :: f64
  cr_model :: "str option"
  cr_tier :: "str option"
  cr_usage :: "str option"

definition charge_entry ::
    "billing_io \<Rightarrow> str \<Rightarrow> i64 \<Rightarrow> charge_request \<Rightarrow> str \<Rightarrow> wallet \<Rightarrow> f64 \<Rightarrow> group_access option \<Rightarrow> billing_rule option \<Rightarrow> ledger_entry" where
  "charge_entry io fresh now q key w base access rule =
     (let rate = multiplier_millis access rule in
      \<lparr>le_id = fresh, le_wallet_id = wa_id w, le_kind = ''request_charge'', le_amount = - charge_micros base rate,
       le_balance_after = 0, le_request_log_id = Some (cr_log_id q), le_api_key_id = Some key,
       le_pricing_rule_id = map_option br_id rule,
       le_raw_usage_json = usage_json_with_billing io (cr_usage q) (cr_estimated q) base (charged_cost base rate) rate rule access,
       le_note = map_option (\<lambda>r. ''billing_rule='' @ br_name r) rule, le_created_by = None, le_created_at = now\<rparr>)"

definition wallet_charge_for_request ::
    "billing_io \<Rightarrow> str option \<Rightarrow> str \<Rightarrow> i64 \<Rightarrow> charge_request \<Rightarrow> manager_store \<Rightarrow> price_store
     \<Rightarrow> (str + ledger_entry option) \<times> manager_store \<times> price_store" where
  "wallet_charge_for_request io db fresh now q st ps =
     (if \<not> distribution_enabled st then (Inr None, st, ps)
      else (case trimmed_nonempty (cr_key q) of None \<Rightarrow> (Inr None, st, ps)
       | Some key \<Rightarrow>
          (case map_err ''read api key owner failed: '' (find_key_owner st key) of
             Inl e \<Rightarrow> (Inl e, st, ps)
           | Inr None \<Rightarrow> (Inr None, st, ps)
           | Inr (Some k) \<Rightarrow>
               (case sum_bind (wallet_of_owner st k) (\<lambda>w. sum_bind (charge_terms st key k (cr_model q) (cr_tier q) now) (\<lambda>t. Inr (w, t))) of
                  Inl e \<Rightarrow> (Inl e, st, ps)
                | Inr (w, access, rule) \<Rightarrow>
                    (case model_group_base_cost_usd io db now access (cr_estimated q) (cr_usage q) ps of
                       (base, ps1) \<Rightarrow>
                         if f64_le base zero_f64 \<or> charge_micros base (multiplier_millis access rule) \<le> 0 then (Inr None, st, ps1)
                         else (case adjust_wallet_balance (charge_entry io fresh now q key w base access rule) st of
                                 (Inl e, st1) \<Rightarrow> (Inl (''charge wallet failed: '' @ e), st1, ps1)
                               | (Inr entry, st1) \<Rightarrow> (Inr (Some entry), st1, ps1)))))))"

end
