(* ===== verification/Manager_History.thy ===== *)
theory Manager_History
  imports Wallet_Charge
begin

text \<open>
  Histories of the account manager: every operation of \<^verbatim>\<open>service/src/auth/app_manager.rs\<close> that
  changes the tables, with what other parts of the service write between them. \<open>manager_invariant\<close> is
  the contract of a property of the tables that the statements keep as the operations use them; the
  operations, and so all histories, keep it.
\<close>

section \<open>Operations\<close>

datatype manager_op =
    CreateUser user_input
  | BootstrapAdmin str str "str option"
  | Login str str
  | ResolveSession str
  | Logout str
  | ChangeUser user_changes
  | DeleteUser str
  | ChangeProfile "str option" "str option"
  | ChangePassword "str option" str str
  | TopUp str str i64 "str option" "str option"
  | SetCredit str str i64 "str option" "str option"
  | SetOwner str str "str option" "str option"
  | SetAuthMode str
  | SetDistribution bool
  | SetWebPassword "str option"
  | Charge charge_request price_store
  | SaveRule billing_rule
  | DropRule str
  | Others model_store "str list" "str \<rightharpoonup> str"

text \<open>\<open>Others\<close>: the tables of the models, the keys and the settings after somebody else's write.\<close>

fun run_op :: "(str \<Rightarrow> str) \<Rightarrow> billing_io \<Rightarrow> str option \<Rightarrow> draws \<times> i64 \<times> manager_op \<Rightarrow> manager_store \<Rightarrow> manager_store" where
  "run_op sha io db (d, now, CreateUser p) st = snd (create_app_user_with_storage sha d p now st)"
| "run_op sha io db (d, now, BootstrapAdmin name pw disp) st = snd (bootstrap_app_admin sha d name pw disp now st)"
| "run_op sha io db (d, now, Login name pw) st = snd (login_app_user sha d name pw now st)"
| "run_op sha io db (d, now, ResolveSession token) st = snd (resolve_app_user_session sha token now st)"
| "run_op sha io db (d, now, Logout token) st = snd (logout_app_user_session sha token now st)"
| "run_op sha io db (d, now, ChangeUser p) st = snd (update_app_user sha d p now st)"
| "run_op sha io db (d, now, DeleteUser i) st = snd (delete_app_user i st)"
| "run_op sha io db (d, now, ChangeProfile actor disp) st = snd (update_app_user_profile actor disp now st)"
| "run_op sha io db (d, now, ChangePassword actor old new) st = snd (change_app_user_password sha d actor old new now st)"
| "run_op sha io db (d, now, TopUp kind owner n note creator) st = snd (wallet_top_up d kind owner n note creator now st)"
| "run_op sha io db (d, now, SetCredit kind owner n note creator) st = snd (wallet_set_available_credit d kind owner n note creator now st)"
| "run_op sha io db (d, now, SetOwner key kind user project) st = snd (set_api_key_owner d key kind user project now st)"
| "run_op sha io db (d, now, SetAuthMode mode) st = snd (set_web_auth_mode mode st)"
| "run_op sha io db (d, now, SetDistribution b) st = snd (set_distribution_enabled b st)"
| "run_op sha io db (d, now, SetWebPassword pw) st = snd (set_web_access_password sha (dr_salt d) pw st)"
| "run_op sha io db (d, now, Charge q ps) st = fst (snd (wallet_charge_for_request io db (dr_ledger d) now q st ps))"
| "run_op sha io db (d, now, SaveRule r) st = snd (upsert_billing_rule r st)"
| "run_op sha io db (d, now, DropRule i) st = snd (delete_billing_rule i st)"
| "run_op sha io db (d, now, Others m ks s) st = st\<lparr>am_models := m, am_keys := ks, am_settings := s\<rparr>"

definition run_ops ::
    "(str \<Rightarrow> str) \<Rightarrow> billing_io \<Rightarrow> str option \<Rightarrow> (draws \<times> i64 \<times> manager_op) list \<Rightarrow> manager_store \<Rightarrow> manager_store" where
  "run_ops sha io db ops st = fold (run_op sha io db) ops st"

section \<open>Invariants of histories\<close>

text \<open>A user may leave the active administrators when another one stays.\<close>

definition other_admin :: "str \<Rightarrow> manager_store \<Rightarrow> bool" where
  "other_admin i st \<longleftrightarrow> (\<exists>u \<in> set (am_users st). mu_id u \<noteq> i \<and> active_admin u)"

definition identity_kept :: "(manager_user \<Rightarrow> manager_user) \<Rightarrow> bool" where
  "identity_kept f \<longleftrightarrow> (\<forall>u. mu_id (f u) = mu_id u \<and> mu_username (f u) = mu_username u)"

locale manager_invariant =
  fixes P :: "manager_store \<Rightarrow> bool" and needs_admin :: bool
  assumes manned: "P st \<Longrightarrow> needs_admin \<Longrightarrow> \<exists>u \<in> set (am_users st). active_admin u"
    and ids: "P st \<Longrightarrow> distinct (map mu_id (am_users st))"
    and models_written: "P st \<Longrightarrow> P (st\<lparr>am_models := m\<rparr>)"
    and keys_written: "P st \<Longrightarrow> P (st\<lparr>am_keys := ks\<rparr>)"
    and settings_written: "P st \<Longrightarrow> P (st\<lparr>am_settings := s\<rparr>)"
    and sessions_written: "P st \<Longrightarrow> P (st\<lparr>am_sessions := ss\<rparr>)"
    and rules_written: "P st \<Longrightarrow> P (st\<lparr>am_rules := rs\<rparr>)"
    and user_added: "P st \<Longrightarrow> insert_app_user u st = (Inr (), st') \<Longrightarrow> P st'"
    and user_changed: "P st \<Longrightarrow> identity_kept f
      \<Longrightarrow> (needs_admin \<Longrightarrow> other_admin i st \<or> (\<forall>u \<in> set (am_users st). mu_id u = i \<and> active_admin u \<longrightarrow> active_admin (f u)))
      \<Longrightarrow> P (update_user i f st)"
    and user_deleted: "P st \<Longrightarrow> (needs_admin \<Longrightarrow> other_admin i st) \<Longrightarrow> P (without_user i st)"
    and wallet_added: "P st \<Longrightarrow> insert_wallet (new_wallet i kind owner now) st = (Inr (), st') \<Longrightarrow> P st'"
    and balance_adjusted: "P st \<Longrightarrow> adjust_wallet_balance e st = (Inr e', st') \<Longrightarrow> P st'"

text \<open>The rules a computation is followed by.\<close>

lemma am_try_rule:
  assumes "Q (snd r)" and "\<And>v st'. Q st' \<Longrightarrow> r = (Inr v, st') \<Longrightarrow> Q (snd (f v st'))"
  shows "Q (snd (am_try what r f))"
  using assms by (cases r; cases "fst r") (auto simp: am_try_def)

lemma am_ask_rule:
  assumes "Q st" and "\<And>v. r = Inr v \<Longrightarrow> Q (snd (f v))"
  shows "Q (snd (am_ask what r st f))"
  using assms by (cases r) (auto simp: am_ask_def)

lemma am_exec_if_rule: "Q st \<Longrightarrow> (ok \<Longrightarrow> Q st') \<Longrightarrow> Q (snd (am_exec_if ok st st'))"
  by (simp add: am_exec_if_def split: option.split)

lemma insert_app_user_same: "insert_app_user u st = (Inl e, st') \<Longrightarrow> st' = st"
  by (auto simp: insert_app_user_def am_exec_if_def split: option.splits if_splits)

lemma insert_wallet_same: "insert_wallet w st = (Inl e, st') \<Longrightarrow> st' = st"
  by (auto simp: insert_wallet_def am_exec_if_def split: option.splits if_splits)

lemma adjust_wallet_balance_same: "adjust_wallet_balance e st = (Inl err, st') \<Longrightarrow> st' = st"
  by (auto simp: adjust_wallet_balance_def Let_def split: option.splits if_splits)

context manager_invariant
begin

lemma insert_app_user_keeps: "P st \<Longrightarrow> P (snd (insert_app_user u st))"
  by (cases "insert_app_user u st"; cases "fst (insert_app_user u st)")
    (auto dest: insert_app_user_same user_added)

lemma insert_wallet_keeps: "P st \<Longrightarrow> P (snd (insert_wallet (new_wallet i kind owner now) st))"
  by (cases "insert_wallet (new_wallet i kind owner now) st"; cases "fst (insert_wallet (new_wallet i kind owner now) st)")
    (auto dest: insert_wallet_same wallet_added)

lemma adjust_wallet_balance_keeps: "P st \<Longrightarrow> P (snd (adjust_wallet_balance e st))"
  by (cases "adjust_wallet_balance e st"; cases "fst (adjust_wallet_balance e st)")
    (auto dest: adjust_wallet_balance_same balance_adjusted)

lemma harmless_update:
  assumes "P st" "identity_kept f" "\<And>u. active_admin u \<Longrightarrow> active_admin (f u)"
  shows "P (update_user i f st)"
  using assms by (blast intro: user_changed)

lemmas follow = am_try_rule [where Q = P] am_ask_rule [where Q = P] am_exec_if_rule [where Q = P]

lemma last_login_keeps: "P st \<Longrightarrow> P (snd (update_app_user_last_login i ts st))"
  unfolding update_app_user_last_login_def
  by (intro follow harmless_update) (simp_all add: identity_kept_def active_admin_def)

lemma display_name_keeps: "P st \<Longrightarrow> P (snd (update_app_user_display_name i name now st))"
  unfolding update_app_user_display_name_def
  by (intro follow harmless_update) (simp_all add: identity_kept_def active_admin_def)

lemma password_hash_keeps: "P st \<Longrightarrow> P (snd (update_app_user_password_hash i h now st))"
  unfolding update_app_user_password_hash_def
  by (intro follow harmless_update) (simp_all add: identity_kept_def active_admin_def)

lemmas statements = insert_app_user_keeps insert_wallet_keeps adjust_wallet_balance_keeps last_login_keeps display_name_keeps
  password_hash_keeps

lemma ensure_wallet_for_owner_keeps: "P st \<Longrightarrow> P (snd (ensure_wallet_for_owner i kind owner now st))"
  unfolding ensure_wallet_for_owner_def
  by (auto intro!: follow statements split: option.split)

lemma ensure_wallet_keeps: "P st \<Longrightarrow> P (snd (ensure_wallet fresh kind owner now st))"
  unfolding ensure_wallet_def by (auto intro!: follow ensure_wallet_for_owner_keeps)

end

context manager_invariant
begin

lemma insert_session_keeps: "P st \<Longrightarrow> P (snd (insert_app_user_session s st))"
  unfolding insert_app_user_session_def by (intro follow sessions_written)

lemma touch_session_keeps: "P st \<Longrightarrow> P (snd (touch_app_user_session i ts st))"
  unfolding touch_app_user_session_def by (intro follow sessions_written)

lemma revoke_session_keeps: "P st \<Longrightarrow> P (snd (revoke_app_user_session_by_token_hash h ts st))"
  unfolding revoke_app_user_session_by_token_hash_def by (intro follow sessions_written)

lemma setting_keeps: "P st \<Longrightarrow> P (snd (save_persisted_app_setting key v st))"
  unfolding save_persisted_app_setting_def by (auto intro!: follow settings_written)

lemma upsert_owner_keeps: "P st \<Longrightarrow> P (snd (upsert_api_key_owner k st))"
  unfolding upsert_api_key_owner_def by (intro follow models_written)

lemma on_model_tables_keeps: "P st \<Longrightarrow> P (snd (on_model_tables f st))"
  by (simp add: on_model_tables_def models_written split: prod.split)

lemma create_session_keeps: "P st \<Longrightarrow> P (snd (create_session_with_storage sha d u now st))"
  unfolding create_session_with_storage_def Let_def by (auto intro!: follow insert_session_keeps)

lemma owned_wallet_keeps: "P st \<Longrightarrow> P (snd (owned_wallet d kind owner now st))"
  unfolding owned_wallet_def by (auto intro!: follow ensure_wallet_keeps)

lemma wallet_again_keeps: "P st \<Longrightarrow> P (snd (wallet_again w st))"
  unfolding wallet_again_def by (auto intro!: follow split: option.split)

lemma top_up_keeps: "P st \<Longrightarrow> P (snd (wallet_top_up d kind owner n note creator now st))"
  unfolding wallet_top_up_def by (auto intro!: follow owned_wallet_keeps statements wallet_again_keeps)

lemma set_credit_keeps: "P st \<Longrightarrow> P (snd (wallet_set_available_credit d kind owner n note creator now st))"
  unfolding wallet_set_available_credit_def Let_def by (auto intro!: follow owned_wallet_keeps statements wallet_again_keeps)

lemma furnish_keeps: "P st \<Longrightarrow> P (snd (furnish_user d u now st))"
  unfolding furnish_user_def by (auto intro!: follow on_model_tables_keeps ensure_wallet_keeps)

lemma grant_keeps: "P st \<Longrightarrow> P (snd (grant_initial d w n now st))"
  unfolding grant_initial_def by (auto intro!: follow statements split: option.split)

lemma create_user_keeps: "P st \<Longrightarrow> P (snd (create_app_user_with_storage sha d p now st))"
  unfolding create_app_user_with_storage_def Let_def by (auto intro!: follow statements furnish_keeps grant_keeps)

lemma bootstrap_keeps: "P st \<Longrightarrow> P (snd (bootstrap_app_admin sha d name pw disp now st))"
  unfolding bootstrap_app_admin_def by (auto intro!: follow create_user_keeps create_session_keeps split: option.split)

lemma login_keeps: "P st \<Longrightarrow> P (snd (login_app_user sha d name pw now st))"
  unfolding login_app_user_def by (auto intro!: follow statements create_session_keeps split: option.split)

lemma resolve_keeps: "P st \<Longrightarrow> P (snd (resolve_app_user_session sha token now st))"
  unfolding resolve_app_user_session_def by (auto intro!: follow touch_session_keeps split: option.split)

lemma logout_keeps: "P st \<Longrightarrow> P (snd (logout_app_user_session sha token now st))"
  unfolding logout_app_user_session_def by (auto intro!: follow revoke_session_keeps)

lemma profile_keeps: "P st \<Longrightarrow> P (snd (update_app_user_profile actor disp now st))"
  unfolding update_app_user_profile_def by (auto intro!: follow statements split: option.split)

lemma change_password_keeps: "P st \<Longrightarrow> P (snd (change_app_user_password sha d actor old new now st))"
  unfolding change_app_user_password_def by (auto intro!: follow statements split: option.split)

lemma set_owner_keeps: "P st \<Longrightarrow> P (snd (set_api_key_owner d key kind user project now st))"
  unfolding set_api_key_owner_def Let_def by (auto intro!: follow ensure_wallet_keeps upsert_owner_keeps split: option.split)

lemma auth_mode_keeps: "P st \<Longrightarrow> P (snd (set_web_auth_mode mode st))"
  unfolding set_web_auth_mode_def Let_def by (auto intro!: follow setting_keeps)

lemma distribution_keeps: "P st \<Longrightarrow> P (snd (set_distribution_enabled b st))"
  unfolding set_distribution_enabled_def by (auto intro!: follow setting_keeps)

lemma web_password_keeps: "P st \<Longrightarrow> P (snd (set_web_access_password sha salt pw st))"
  unfolding set_web_access_password_def by (auto intro!: follow setting_keeps split: option.split)

lemma charge_keeps: "P st \<Longrightarrow> P (fst (snd (wallet_charge_for_request io db fresh now q st ps)))"
  using adjust_wallet_balance_keeps [of st]
  by (auto simp: wallet_charge_for_request_def split: option.split sum.split prod.split) (metis snd_conv)+

lemma rule_saved_keeps: "P st \<Longrightarrow> P (snd (upsert_billing_rule r st))"
  unfolding upsert_billing_rule_def by (intro follow rules_written)

lemma rule_dropped_keeps: "P st \<Longrightarrow> P (snd (delete_billing_rule i st))"
  unfolding delete_billing_rule_def by (intro follow rules_written)

end

lemma other_admin_update [simp]: "identity_kept f \<Longrightarrow> other_admin i (update_user i f st) \<longleftrightarrow> other_admin i st"
  by (auto simp: other_admin_def update_user_def identity_kept_def)

lemma other_admin_of_count:
  assumes "distinct (map mu_id (am_users st))" "1 < length (filter active_admin (am_users st))"
  shows "other_admin i st"
proof (rule ccontr)
  let ?l = "map mu_id (filter active_admin (am_users st))"
  assume "\<not> other_admin i st"
  then have "set ?l \<subseteq> {i}" by (auto simp: other_admin_def)
  moreover have "distinct ?l" using assms(1) by (rule distinct_map_filter)
  ultimately have "length ?l \<le> 1" using card_mono [of "{i}" "set ?l"] distinct_card [of ?l] by simp
  with assms(2) show False by simp
qed

lemma row_of_id:
  "distinct (map mu_id us) \<Longrightarrow> row_find mu_id us i = Some u \<Longrightarrow> v \<in> set us \<Longrightarrow> mu_id v = i \<Longrightarrow> v = u"
  by (induction us) (auto simp: row_find_def split: if_splits)

context manager_invariant
begin

text \<open>Whoever may be demoted or deleted has another active administrator beside him, or is none.\<close>

lemma spared:
  assumes "P st" "row_find mu_id (am_users st) i = Some u" "spare_last_admin st (access_summary u) b = Inr ()" needs_admin
  shows "other_admin i st \<or> active_admin u \<and> \<not> b"
proof (cases "active_admin u \<and> b")
  case True
  with assms(3) have "1 < length (filter active_admin (am_users st))"
    by (auto simp: spare_last_admin_def active_admin_def access_summary_def active_admin_count_def map_err_def sum_bind_def am_query_def ms_query_def
        split: option.splits if_splits sum.splits)
  with ids [OF assms(1)] show ?thesis by (blast intro: other_admin_of_count)
next
  case False
  from manned [OF assms(1,4)] obtain v where v: "v \<in> set (am_users st)" "active_admin v" by blast
  with False row_of_id [OF ids [OF assms(1)] assms(2) v(1)] show ?thesis by (auto simp: other_admin_def)
qed

lemma delete_keeps: "P st \<Longrightarrow> P (snd (delete_app_user i st))"
  unfolding delete_app_user_def Let_def delete_app_user_row_def find_access_summary_def
  by (auto intro!: follow user_deleted dest: spared split: option.split simp: am_query_def ms_query_def split: option.splits)

end

text \<open>While a user's row is changed: another administrator stays, or role and status stay.\<close>

definition changing :: "(manager_store \<Rightarrow> bool) \<Rightarrow> bool \<Rightarrow> str \<Rightarrow> bool \<Rightarrow> manager_store \<Rightarrow> bool" where
  "changing P needs_admin i stays st \<longleftrightarrow> P st \<and> (needs_admin \<longrightarrow> other_admin i st \<or> stays)"

context manager_invariant
begin

lemma set_password_keeps: "P st \<Longrightarrow> P (snd (set_password sha d i pw now st))"
  unfolding set_password_def by (auto intro!: follow statements split: option.split)

lemma changed_user_keeps: "P st \<Longrightarrow> P (snd (changed_user d i now st))"
  unfolding changed_user_def by (auto intro!: follow ensure_wallet_keeps split: option.split)

lemma changing_update:
  assumes "changing P needs_admin i stays st" "identity_kept f" "stays \<Longrightarrow> \<forall>u. active_admin u \<longrightarrow> active_admin (f u)"
  shows "changing P needs_admin i stays (update_user i f st)"
  using assms unfolding changing_def by (auto intro!: user_changed)

lemma changing_display: "changing P needs_admin i stays st \<Longrightarrow> changing P needs_admin i stays (snd (update_app_user_display_name i name now st))"
  unfolding update_app_user_display_name_def
  by (rule am_exec_if_rule [where Q = "changing P needs_admin i stays"], assumption, rule changing_update)
    (simp_all add: identity_kept_def active_admin_def)

lemma changing_role:
  "changing P needs_admin i stays st \<Longrightarrow> \<not> stays \<Longrightarrow> changing P needs_admin i stays (snd (update_app_user_role i r now st))"
  unfolding update_app_user_role_def
  by (rule am_exec_if_rule [where Q = "changing P needs_admin i stays"], assumption, rule changing_update) (simp_all add: identity_kept_def)

lemma changing_status:
  "changing P needs_admin i stays st \<Longrightarrow> \<not> stays \<Longrightarrow> changing P needs_admin i stays (snd (update_app_user_status i s now st))"
  unfolding update_app_user_status_def
  by (rule am_exec_if_rule [where Q = "changing P needs_admin i stays"], assumption, rule changing_update) (simp_all add: identity_kept_def)

lemma changing_optional:
  "changing P needs_admin i stays st \<Longrightarrow> (b \<Longrightarrow> changing P needs_admin i stays (snd (f st))) \<Longrightarrow> changing P needs_admin i stays (snd (optional_step b f st))"
  by (simp add: optional_step_def)

lemma changing_try:
  assumes "changing P needs_admin i stays (snd r)" "\<And>v st'. changing P needs_admin i stays st' \<Longrightarrow> P (snd (f v st'))"
  shows "P (snd (am_try what r f))"
  using assms by (cases r; cases "fst r") (auto simp: am_try_def changing_def)

lemma change_steps_keep:
  assumes "changing P needs_admin i stays st" "b1 \<Longrightarrow> \<not> stays" "b2 \<Longrightarrow> \<not> stays"
  shows "P (snd (am_try m1 (update_app_user_display_name i name now st) (\<lambda>_ st1.
        am_try m2 (optional_step b1 (update_app_user_role i r now) st1) (\<lambda>_ st2.
        am_try m3 (optional_step b2 (update_app_user_status i s now) st2) (\<lambda>_ st3.
        am_try [] (set_password sha d i pw now st3) (\<lambda>_ st4. changed_user d i now st4))))))"
proof (rule changing_try [OF changing_display [OF assms(1)]])
  fix v st1 assume 1: "changing P needs_admin i stays st1"
  show "P (snd (am_try m2 (optional_step b1 (update_app_user_role i r now) st1) (\<lambda>_ st2.
        am_try m3 (optional_step b2 (update_app_user_status i s now) st2) (\<lambda>_ st3.
        am_try [] (set_password sha d i pw now st3) (\<lambda>_ st4. changed_user d i now st4)))))"
  proof (rule changing_try [where i = i and stays = stays])
    show "changing P needs_admin i stays (snd (optional_step b1 (update_app_user_role i r now) st1))"
      using 1 assms(2) by (blast intro: changing_optional changing_role)
    fix v st2 assume 2: "changing P needs_admin i stays st2"
    show "P (snd (am_try m3 (optional_step b2 (update_app_user_status i s now) st2) (\<lambda>_ st3.
        am_try [] (set_password sha d i pw now st3) (\<lambda>_ st4. changed_user d i now st4))))"
    proof (rule changing_try [where i = i and stays = stays])
      show "changing P needs_admin i stays (snd (optional_step b2 (update_app_user_status i s now) st2))"
        using 2 assms(3) by (blast intro: changing_optional changing_status)
    qed (auto intro!: follow set_password_keeps changed_user_keeps simp: changing_def)
  qed
qed

lemma update_user_keeps:
  assumes st: "P st"
  shows "P (snd (update_app_user sha d p now st))"
proof -
  let ?i = "trim (uc_id p)"
  have steps: "P (snd (am_try m1 (update_app_user_display_name ?i name now st) (\<lambda>_ st1.
        am_try m2 (optional_step b1 (update_app_user_role ?i r now) st1) (\<lambda>_ st2.
        am_try m3 (optional_step b2 (update_app_user_status ?i s now) st2) (\<lambda>_ st3.
        am_try [] (set_password sha d ?i pw now st3) (\<lambda>_ st4. changed_user d ?i now st4))))))"
    if u: "row_find mu_id (am_users st) ?i = Some u"
      and ok: "spare_last_admin st (access_summary u) c = Inr ()" "c \<longleftrightarrow> r \<noteq> ''admin'' \<or> s \<noteq> ''active''"
      and b: "b1 \<longleftrightarrow> au_role (access_summary u) \<noteq> r" "b2 \<longleftrightarrow> au_status (access_summary u) \<noteq> s"
    for u r s m1 m2 m3 name pw b1 b2 c
  proof (rule change_steps_keep [where stays = "active_admin u \<and> r = ''admin'' \<and> s = ''active''"])
    show "changing P needs_admin ?i (active_admin u \<and> r = ''admin'' \<and> s = ''active'') st"
      using st spared [OF st u ok(1)] ok(2) by (auto simp: changing_def)
  qed (use b in \<open>auto simp: active_admin_def access_summary_def\<close>)
  show ?thesis unfolding update_app_user_def Let_def find_access_summary_def
    using st by (auto intro!: am_ask_rule [where Q = P] steps split: option.split option.splits simp: am_query_def ms_query_def)
qed

lemma run_op_keeps: "P st \<Longrightarrow> P (run_op sha io db (d, now, e) st)"
  by (cases e)
    (simp_all add: create_user_keeps bootstrap_keeps login_keeps resolve_keeps logout_keeps update_user_keeps delete_keeps
      profile_keeps change_password_keeps top_up_keeps set_credit_keeps set_owner_keeps auth_mode_keeps distribution_keeps
      web_password_keeps charge_keeps rule_saved_keeps rule_dropped_keeps models_written keys_written settings_written)

lemma run_ops_keep: "P st \<Longrightarrow> P (run_ops sha io db ops st)"
  unfolding run_ops_def by (induction ops arbitrary: st) (auto intro!: run_op_keeps)

end

end
