(* ===== verification/Manager_Properties.thy ===== *)
theory Manager_Properties
  imports Manager_History
begin

text \<open>
  What the account manager guarantees over all histories: the installation keeps an administrator, and
  the ledger accounts for every balance. What a login, a session and a password are good for; and what
  deleting a user leaves of its keys.
\<close>

section \<open>Administrators\<close>

definition ids_unique :: "manager_store \<Rightarrow> bool" where
  "ids_unique st \<longleftrightarrow> distinct (map mu_id (am_users st))"

definition administered :: "manager_store \<Rightarrow> bool" where
  "administered st \<longleftrightarrow> ids_unique st \<and> list_ex active_admin (am_users st)"

lemma map_update_ids: "identity_kept f \<Longrightarrow> map mu_id (am_users (update_user i f st)) = map mu_id (am_users st)"
  by (auto simp: update_user_def identity_kept_def)

lemma inserted_user:
  "insert_app_user u st = (Inr (), st') \<Longrightarrow> st' = st\<lparr>am_users := am_users st @ [u]\<rparr> \<and> \<not> row_exists mu_id (am_users st) (mu_id u)"
  by (auto simp: insert_app_user_def am_exec_if_def split: option.splits if_splits)

lemma inserted_wallet:
  "insert_wallet w st = (Inr (), st') \<Longrightarrow> st' = st\<lparr>am_wallets := am_wallets st @ [w]\<rparr> \<and> \<not> row_exists wa_id (am_wallets st) (wa_id w)
     \<and> \<not> row_exists wallet_owner (am_wallets st) (wallet_owner w)"
  by (auto simp: insert_wallet_def am_exec_if_def split: option.splits if_splits)

lemma row_exists_image: "row_exists k xs v \<longleftrightarrow> v \<in> k ` set xs"
  by (auto simp: row_exists_def list_ex_iff)

lemma adjusted_users: "adjust_wallet_balance e st = (Inr e', st') \<Longrightarrow> am_users st' = am_users st"
  by (auto simp: adjust_wallet_balance_def Let_def split: option.splits if_splits)

lemma ids_unique_added: "ids_unique st \<Longrightarrow> insert_app_user u st = (Inr (), st') \<Longrightarrow> ids_unique st'"
  by (auto dest!: inserted_user simp: ids_unique_def row_exists_image)

lemma ids_unique_updated: "ids_unique st \<Longrightarrow> identity_kept f \<Longrightarrow> ids_unique (update_user i f st)"
  by (simp add: ids_unique_def map_update_ids)

lemma ids_unique_deleted: "ids_unique st \<Longrightarrow> ids_unique (without_user i st)"
  by (simp add: ids_unique_def without_user_def row_delete_def distinct_map_filter)

interpretation admins: manager_invariant administered True
proof (unfold_locales, goal_cases)
  case 1 then show ?case by (simp add: administered_def list_ex_iff)
next
  case 2 then show ?case by (simp add: administered_def ids_unique_def)
next
  case (8 st u st') then show ?case using ids_unique_added [of st u st'] by (auto dest: inserted_user simp: administered_def)
next
  case (9 st f i)
  moreover have "list_ex active_admin (am_users (update_user i f st))"
  proof (cases "other_admin i st")
    case True
    with 9(2) show ?thesis using other_admin_update [of f i st] by (auto simp: other_admin_def list_ex_iff)
  next
    case False
    from 9(1) obtain u where u: "u \<in> set (am_users st)" "active_admin u" by (auto simp: administered_def list_ex_iff)
    with False 9(3) have "mu_id u = i \<and> active_admin (f u)" by (auto simp: other_admin_def)
    with u(1) show ?thesis by (auto simp: list_ex_iff update_user_def)
  qed
  ultimately show ?case using ids_unique_updated [of st f i] by (simp add: administered_def)
next
  case (10 st i) then show ?case
    using ids_unique_deleted [of st i] by (auto simp: administered_def other_admin_def list_ex_iff without_user_def row_delete_def)
next
  case (11 st i kind owner now st') then show ?case by (auto dest!: inserted_wallet simp: administered_def ids_unique_def)
next
  case (12 st e e' st') then show ?case by (simp add: administered_def ids_unique_def adjusted_users)
qed (simp_all add: administered_def ids_unique_def)

definition new_store :: "model_store \<Rightarrow> str list \<Rightarrow> (str \<rightharpoonup> str) \<Rightarrow> manager_store" where
  "new_store m ks s =
     \<lparr>am_users = [], am_sessions = [], am_wallets = [], am_ledger = [], am_rules = [], am_keys = ks, am_projects = [],
      am_settings = s, am_models = m\<rparr>"

section \<open>The books\<close>

definition ledger_total :: "str \<Rightarrow> ledger_entry list \<Rightarrow> int" where
  "ledger_total i l = sum_list (map le_amount (filter (\<lambda>e. le_wallet_id e = i) l))"

text \<open>Every entry carries the balance after it.\<close>

fun running :: "(str \<Rightarrow> int) \<Rightarrow> ledger_entry list \<Rightarrow> bool" where
  "running b [] \<longleftrightarrow> True"
| "running b (e # l) \<longleftrightarrow> le_balance_after e = b (le_wallet_id e) + le_amount e
     \<and> running (b(le_wallet_id e := le_balance_after e)) l"

definition accounted :: "manager_store \<Rightarrow> bool" where
  "accounted st \<longleftrightarrow> ids_unique st \<and> distinct (map wa_id (am_wallets st)) \<and> distinct (map wallet_owner (am_wallets st))
     \<and> distinct (map le_id (am_ledger st)) \<and> le_wallet_id ` set (am_ledger st) \<subseteq> wa_id ` set (am_wallets st)
     \<and> (\<forall>w \<in> set (am_wallets st). wa_balance w = ledger_total (wa_id w) (am_ledger st)) \<and> running (\<lambda>_. 0) (am_ledger st)"

lemma ledger_total_simps [simp]:
  "ledger_total i [] = 0" "ledger_total i (e # l) = (if le_wallet_id e = i then le_amount e else 0) + ledger_total i l"
  "ledger_total i (l @ l') = ledger_total i l + ledger_total i l'"
  by (simp_all add: ledger_total_def)

lemma running_append: "running b (l @ [e]) \<longleftrightarrow> running b l \<and> le_balance_after e = b (le_wallet_id e) + ledger_total (le_wallet_id e) l + le_amount e"
  by (induction l arbitrary: b) auto

lemma running_filter:
  assumes "running b l" "\<And>i. i \<notin> S \<Longrightarrow> b' i = b i"
  shows "running b' (filter (\<lambda>e. le_wallet_id e \<notin> S) l)"
  using assms
proof (induction l arbitrary: b b')
  case (Cons e l)
  show ?case
  proof (cases "le_wallet_id e \<in> S")
    case True
    with Cons.prems show ?thesis by (auto intro: Cons.IH [of "b(le_wallet_id e := le_balance_after e)"])
  next
    case False
    with Cons.prems show ?thesis by (auto intro: Cons.IH [of "b(le_wallet_id e := le_balance_after e)"])
  qed
qed simp

lemma running_map: "(\<And>e. le_balance_after (f e) = le_balance_after e \<and> le_amount (f e) = le_amount e \<and> le_wallet_id (f e) = le_wallet_id e)
    \<Longrightarrow> running b (map f l) = running b l"
  by (induction l arbitrary: b) simp_all

lemma ledger_total_map: "(\<And>e. le_amount (f e) = le_amount e \<and> le_wallet_id (f e) = le_wallet_id e) \<Longrightarrow> ledger_total i (map f l) = ledger_total i l"
  by (induction l) simp_all

lemma ledger_total_filter: "i \<notin> S \<Longrightarrow> ledger_total i (filter (\<lambda>e. le_wallet_id e \<notin> S) l) = ledger_total i l"
  by (induction l) auto

lemma ledger_total_absent: "i \<notin> le_wallet_id ` set l \<Longrightarrow> ledger_total i l = 0"
  by (induction l) auto

lemma adjusted:
  assumes "adjust_wallet_balance e st = (Inr e', st')"
  obtains w where "w \<in> set (am_wallets st)" "wa_id w = le_wallet_id e" "wa_status w = ''active''"
    "e' = e\<lparr>le_balance_after := wa_balance w + le_amount e\<rparr>" "le_id e \<notin> le_id ` set (am_ledger st)"
    "st' = st\<lparr>am_wallets := map (\<lambda>x. if wa_id x = le_wallet_id e
        then x\<lparr>wa_balance := wa_balance x + le_amount e, wa_updated_at := le_created_at e\<rparr> else x) (am_wallets st),
       am_ledger := am_ledger st @ [e']\<rparr>"
  using assms by (auto simp: adjust_wallet_balance_def Let_def row_exists_image find_Some_iff in_set_conv_nth split: option.splits if_splits)

lemma accounted_adjusted:
  assumes st: "accounted st" and adj: "adjust_wallet_balance e st = (Inr e', st')"
  shows "accounted st'"
proof -
  from adj obtain w where w: "w \<in> set (am_wallets st)" "wa_id w = le_wallet_id e" "le_id e \<notin> le_id ` set (am_ledger st)"
    and e': "e' = e\<lparr>le_balance_after := wa_balance w + le_amount e\<rparr>"
    and st': "st' = st\<lparr>am_wallets := map (\<lambda>x. if wa_id x = le_wallet_id e
        then x\<lparr>wa_balance := wa_balance x + le_amount e, wa_updated_at := le_created_at e\<rparr> else x) (am_wallets st),
       am_ledger := am_ledger st @ [e']\<rparr>" by (rule adjusted)
  have keys: "map wa_id (am_wallets st') = map wa_id (am_wallets st)" "map wallet_owner (am_wallets st') = map wallet_owner (am_wallets st)"
    by (simp_all add: st' wallet_owner_def)
  then have "wa_id ` set (am_wallets st') = wa_id ` set (am_wallets st)" by (metis set_map)
  moreover have "le_wallet_id e \<in> wa_id ` set (am_wallets st)" using w by force
  moreover have "wa_balance v = ledger_total (wa_id v) (am_ledger st')" if "v \<in> set (am_wallets st')" for v
    using that st w(2) by (auto simp: accounted_def st' e')
  moreover have "wa_balance w = ledger_total (le_wallet_id e) (am_ledger st)" using st w by (auto simp: accounted_def)
  then have "running (\<lambda>_. 0) (am_ledger st')" using st w(2) by (simp add: accounted_def st' e' running_append)
  moreover have "ids_unique st'" "am_ledger st' = am_ledger st @ [e']" "le_id e' = le_id e" "le_wallet_id e' = le_wallet_id e"
    using st by (simp_all add: accounted_def st' e' ids_unique_def)
  ultimately show ?thesis using st w(3) by (simp add: accounted_def keys)
qed

lemma accounted_deleted:
  assumes "accounted st"
  shows "accounted (without_user i st)"
proof -
  let ?S = "set (user_wallet_ids st i)" and ?f = "\<lambda>e. e\<lparr>le_created_by := blank i (le_created_by e)\<rparr>"
  have own: "wa_id w \<notin> ?S" if "w \<in> set (am_wallets st)" "wallet_owner w \<noteq> (''user'', i)" for w
  proof
    assume "wa_id w \<in> ?S"
    then obtain v where "v \<in> set (am_wallets st)" "wa_id v = wa_id w" "wallet_owner v = (''user'', i)" by (auto simp: user_wallet_ids_def)
    with that assms show False by (auto simp: accounted_def distinct_map dest: inj_onD)
  qed
  have map: "ledger_total j (map ?f l) = ledger_total j l" "running b (map ?f l) = running b l" "map le_id (map ?f l) = map le_id l" for j l b
    by (simp_all add: ledger_total_map running_map)
  have "running (\<lambda>_. 0) (filter (\<lambda>e. le_wallet_id e \<notin> ?S) (am_ledger st))"
    using assms by (auto simp: accounted_def intro: running_filter)
  moreover have "le_wallet_id e \<in> wa_id ` {w \<in> set (am_wallets st). wallet_owner w \<noteq> (''user'', i)}"
    if e: "e \<in> set (am_ledger st)" "le_wallet_id e \<notin> ?S" for e
  proof -
    from e(1) assms obtain w where "w \<in> set (am_wallets st)" "wa_id w = le_wallet_id e" by (force simp: accounted_def)
    with e(2) show ?thesis by (force simp: user_wallet_ids_def)
  qed
  ultimately show ?thesis using assms ids_unique_deleted [of st i] own
    by (auto simp: accounted_def without_user_def ids_unique_def map ledger_total_filter distinct_map_filter simp del: map_map)
qed

interpretation books: manager_invariant accounted False
proof (unfold_locales, goal_cases)
  case (8 st u st')
  from inserted_user [OF 8(2)] have "st' = st\<lparr>am_users := am_users st @ [u]\<rparr>" by simp
  with 8 ids_unique_added [of st u st'] show ?case by (simp add: accounted_def)
next
  case (9 st f i) then show ?case using ids_unique_updated [of st f i] by (simp add: accounted_def update_user_def)
next
  case (10 st i) then show ?case by (simp add: accounted_deleted)
next
  case (11 st i kind owner now st')
  let ?w = "new_wallet i kind owner now"
  from inserted_wallet [OF 11(2)] have st': "st' = st\<lparr>am_wallets := am_wallets st @ [?w]\<rparr>"
    and new: "wa_id ?w \<notin> wa_id ` set (am_wallets st)" "wallet_owner ?w \<notin> wallet_owner ` set (am_wallets st)"
    by (simp_all add: row_exists_image)
  from new(1) 11(1) have "ledger_total (wa_id ?w) (am_ledger st) = 0" by (intro ledger_total_absent) (auto simp: accounted_def)
  moreover have "wa_balance ?w = 0" by (simp add: new_wallet_def)
  moreover from 11(1) have "le_wallet_id ` set (am_ledger st) \<subseteq> insert (wa_id ?w) (wa_id ` set (am_wallets st))" by (auto simp: accounted_def)
  ultimately show ?case using 11(1) new by (simp add: accounted_def st' ids_unique_def)
next
  case (12 st e e' st') then show ?case by (rule accounted_adjusted)
qed (simp_all add: accounted_def ids_unique_def)

section \<open>Histories\<close>

text \<open>
  C30: the last administrator stays. Once an installation has an active administrator, no history of
  the account manager's operations, with any writes of other parts between them, takes the last one
  away: demoting, disabling or deleting it is refused.
\<close>

theorem admin_never_lost:
  assumes "list_ex active_admin (am_users (run_ops sha io db ops (new_store m ks s)))"
  shows "list_ex active_admin (am_users (run_ops sha io db (ops @ later) (new_store m ks s)))"
proof -
  have "accounted (new_store m ks s)" by (simp add: accounted_def new_store_def ids_unique_def)
  then have "accounted (run_ops sha io db ops (new_store m ks s))" by (rule books.run_ops_keep)
  with assms have "administered (run_ops sha io db ops (new_store m ks s))" by (simp add: administered_def accounted_def)
  then have "administered (run_ops sha io db later (run_ops sha io db ops (new_store m ks s)))" by (rule admins.run_ops_keep)
  then show ?thesis by (simp add: administered_def run_ops_def)
qed

definition demo_draws :: "str \<Rightarrow> draws" where
  "demo_draws i = \<lparr>dr_user = ''usr_'' @ i, dr_wallet = ''wlt_'' @ i, dr_ledger = ''wl_'' @ i, dr_session = ''sess_'' @ i,
     dr_salt = ''5a17'', dr_token = ''cms_'' @ i\<rparr>"

definition demo_models :: model_store where
  "demo_models = \<lparr>ms_catalog = [], ms_groups = [], ms_group_models = [], ms_user_groups = [], ms_users = [], ms_owners = [],
     ms_sources = [], ms_mappings = [], ms_prefs = [], ms_apis = [], ms_secrets = [], ms_balance_secrets = [],
     ms_supplier_models = [], ms_assignments = [], ms_fault = None, ms_refusal = ''constraint failed''\<rparr>"

definition demo_sha :: "str \<Rightarrow> str" where "demo_sha s = rev s"

definition demo_billing :: billing_io where
  "demo_billing = \<lparr>js_print = (\<lambda>_. Inr ''{}''), js_parse = (\<lambda>_. None), bi_number = (\<lambda>_. Fin 0), bi_print_number = (\<lambda>_. ''0'')\<rparr>"

definition demo_start :: manager_store where
  "demo_start = new_store demo_models [''key1''] [distribution_key \<mapsto> ''true'', web_auth_mode_key \<mapsto> ''accounts'']"

definition demo_boot :: "(draws \<times> i64 \<times> manager_op) list" where
  "demo_boot = [(demo_draws ''a'', 10, BootstrapAdmin ''root'' ''password1'' None)]"

definition demo_attack :: "(draws \<times> i64 \<times> manager_op) list" where
  "demo_attack = [(demo_draws ''b'', 11, DeleteUser ''usr_a''),
     (demo_draws ''c'', 12, ChangeUser \<lparr>uc_id = ''usr_a'', uc_display_name = None, uc_role = Some ''member'', uc_status = None, uc_password = None\<rparr>)]"

theorem admin_never_lost_witness:
  "list_ex active_admin (am_users (run_ops demo_sha demo_billing None (demo_boot @ demo_attack) demo_start))"
proof -
  have "list_ex active_admin (am_users (run_ops demo_sha demo_billing None demo_boot demo_start))" by code_simp
  then show ?thesis unfolding demo_start_def by (rule admin_never_lost)
qed

text \<open>
  C31: the ledger accounts for every balance. After every history that begins with an empty
  installation, the balance of a wallet is the sum of its ledger entries, every entry carries the
  balance after it, and a user or project has at most one wallet.
\<close>

theorem ledger_accounts_for_balances:
  "list_all (\<lambda>w. wa_balance w = ledger_total (wa_id w) (am_ledger (run_ops sha io db ops (new_store m ks s))))
      (am_wallets (run_ops sha io db ops (new_store m ks s)))
   \<and> running (\<lambda>_. 0) (am_ledger (run_ops sha io db ops (new_store m ks s)))
   \<and> distinct (map wallet_owner (am_wallets (run_ops sha io db ops (new_store m ks s))))"
proof -
  have "accounted (new_store m ks s)" by (simp add: accounted_def new_store_def ids_unique_def)
  then have "accounted (run_ops sha io db ops (new_store m ks s))" by (rule books.run_ops_keep)
  then show ?thesis by (simp add: accounted_def list_all_iff)
qed

section \<open>Sessions\<close>

lemma am_try_ok: "am_try what r f = (Inr v, st') \<Longrightarrow> \<exists>x st1. r = (Inr x, st1) \<and> f x st1 = (Inr v, st')"
  by (cases r; cases "fst r") (auto simp: am_try_def)

lemma am_ask_ok: "am_ask what r st f = (Inr v, st') \<Longrightarrow> \<exists>x. r = Inr x \<and> f x = (Inr v, st')"
  by (cases r) (auto simp: am_ask_def)

lemma am_query_ok: "am_query st v = Inr x \<longleftrightarrow> ms_fault (am_models st) = None \<and> x = v"
  by (auto simp: am_query_def ms_query_def split: option.split)

lemma am_exec_if_ok: "am_exec_if ok st st' = (Inr (), st2) \<longleftrightarrow> ms_fault (am_models st) = None \<and> ok \<and> st2 = st'"
  by (auto simp: am_exec_if_def split: option.split)

lemma with_wallet_of:
  "public_user_with_wallet (with_wallet st u) = public_user u (if app_user_can_own_wallet u then wallet_of st ''user'' (mu_id u) else None)"
  by (simp add: public_user_with_wallet_def with_wallet_def public_user_def app_user_can_own_wallet_def)

definition logged_in :: "manager_user \<Rightarrow> i64 \<Rightarrow> manager_user" where
  "logged_in u now = u\<lparr>mu_last_login_at := Some now, mu_updated_at := now\<rparr>"

definition session_of :: "(str \<Rightarrow> str) \<Rightarrow> draws \<Rightarrow> manager_user \<Rightarrow> i64 \<Rightarrow> user_session" where
  "session_of sha d u now = \<lparr>us_id = dr_session d, us_user_id = mu_id u, us_token_hash = token_hash sha (dr_token d),
     us_expires_at = i64_sat (now + session_ttl), us_created_at = now, us_last_seen_at = Some now, us_revoked_at = None\<rparr>"

lemma create_session_ok:
  assumes "create_session_with_storage sha d u now st = (Inr r, st1)"
  shows "token_hash sha (dr_token d) \<notin> us_token_hash ` set (am_sessions st)"
    and "st1 = st\<lparr>am_sessions := am_sessions st @ [session_of sha d u now]\<rparr>"
    and "r = \<lparr>lr_token = dr_token d, lr_expires_at = i64_sat (now + session_ttl), lr_user = public_user_with_wallet (with_wallet st u)\<rparr>"
proof -
  let ?s = "session_of sha d u now"
  from assms obtain st' w where i: "insert_app_user_session ?s st = (Inr (), st')"
    and w: "(if app_user_can_own_wallet u then find_wallet_by_owner st' ''user'' (mu_id u) else Inr None) = Inr w"
    and r: "r = \<lparr>lr_token = dr_token d, lr_expires_at = us_expires_at ?s, lr_user = public_user u w\<rparr>" "st1 = st'"
    unfolding create_session_with_storage_def Let_def session_of_def [symmetric] by (auto dest!: am_try_ok am_ask_ok)
  from i have n: "us_token_hash ?s \<notin> us_token_hash ` set (am_sessions st)" and st': "st' = st\<lparr>am_sessions := am_sessions st @ [?s]\<rparr>"
    unfolding insert_app_user_session_def am_exec_if_ok row_exists_image by simp_all
  from n show "token_hash sha (dr_token d) \<notin> us_token_hash ` set (am_sessions st)" by (simp add: session_of_def)
  from st' r show "st1 = st\<lparr>am_sessions := am_sessions st @ [?s]\<rparr>" by simp
  from w r show "r = \<lparr>lr_token = dr_token d, lr_expires_at = i64_sat (now + session_ttl), lr_user = public_user_with_wallet (with_wallet st u)\<rparr>"
    by (auto simp: st' with_wallet_of session_of_def find_wallet_by_owner_def am_query_ok wallet_of_def split: if_splits)
qed

text \<open>What a successful login leaves behind.\<close>

lemma login_ok:
  assumes "login_app_user sha d name pw now st = (Inr r, st1)"
  obtains u where "u \<in> set (am_users st)" "mu_status u = ''active''" "verify_password_hash sha pw (mu_password_hash u)"
    "ms_fault (am_models st) = None" "token_hash sha (dr_token d) \<notin> us_token_hash ` set (am_sessions st)"
    "st1 = (update_user (mu_id u) (\<lambda>u. logged_in u now) st)\<lparr>am_sessions := am_sessions st @ [session_of sha d u now]\<rparr>"
    "r = \<lparr>lr_token = dr_token d, lr_expires_at = i64_sat (now + session_ttl),
      lr_user = public_user_with_wallet (with_wallet st (logged_in u now))\<rparr>"
proof -
  from assms obtain username where n: "normalize_username name = Inr username" unfolding login_app_user_def by (auto dest!: am_ask_ok)
  with assms obtain found where f: "find_app_user_by_username st username = Inr found" unfolding login_app_user_def by (auto dest!: am_ask_ok)
  with assms n obtain u where u: "found = Some u" "mu_status u = ''active''" "verify_password_hash sha pw (mu_password_hash u)"
    and rest: "am_try ''update app user login failed: '' (update_app_user_last_login (mu_id u) now st) (\<lambda>_ st1.
             create_session_with_storage sha d (u\<lparr>mu_last_login_at := Some now, mu_updated_at := now\<rparr>) now st1) = (Inr r, st1)"
    unfolding login_app_user_def by (auto split: option.splits if_splits)
  from f u(1) have e: "find (\<lambda>u. to_ascii_lowercase (mu_username u) = to_ascii_lowercase username) (am_users st) = Some u"
    and "ms_fault (am_models st) = None" by (simp_all add: find_app_user_by_username_def am_query_ok)
  moreover from e have "u \<in> set (am_users st)" by (auto simp: find_Some_iff)
  moreover from rest obtain st2 where st2: "update_app_user_last_login (mu_id u) now st = (Inr (), st2)"
    and create: "create_session_with_storage sha d (logged_in u now) now st2 = (Inr r, st1)"
    by (auto dest!: am_try_ok simp: logged_in_def)
  from st2 have st2: "st2 = update_user (mu_id u) (\<lambda>u. logged_in u now) st"
    by (simp add: update_app_user_last_login_def am_exec_if_ok logged_in_def)
  then have same: "am_sessions st2 = am_sessions st" "wallet_of st2 = wallet_of st" by (simp_all add: update_user_def fun_eq_iff wallet_of_def)
  from create have "token_hash sha (dr_token d) \<notin> us_token_hash ` set (am_sessions st)"
    and "st1 = st2\<lparr>am_sessions := am_sessions st @ [session_of sha d (logged_in u now) now]\<rparr>"
    and "r = \<lparr>lr_token = dr_token d, lr_expires_at = i64_sat (now + session_ttl),
      lr_user = public_user_with_wallet (with_wallet st2 (logged_in u now))\<rparr>"
    using create_session_ok [OF create] by (simp_all add: same)
  moreover have "session_of sha d (logged_in u now) now = session_of sha d u now" "with_wallet st2 (logged_in u now) = with_wallet st (logged_in u now)"
    by (simp_all add: session_of_def logged_in_def with_wallet_def same)
  ultimately show thesis by (intro that [OF _ u(2,3)]) (simp_all add: st2)
qed

lemma row_find_in: "distinct (map k xs) \<Longrightarrow> x \<in> set xs \<Longrightarrow> row_find k xs (k x) = Some x"
  by (induction xs) (auto simp: row_find_def)

lemma row_find_updated:
  assumes "distinct (map mu_id us)" "u \<in> set us" "\<And>v. mu_id (f v) = mu_id v"
  shows "row_find mu_id (map (\<lambda>v. if mu_id v = mu_id u then f v else v) us) (mu_id u) = Some (f u)"
  using assms(1,2) by (induction us) (auto simp: row_find_def assms(3))

lemma map_filter_none: "(\<And>x. x \<in> set xs \<Longrightarrow> f x = None) \<Longrightarrow> List.map_filter f xs = []"
  by (induction xs) (simp_all add: List.map_filter_def)

text \<open>The sessions of a token that nobody else has.\<close>

lemma only_session:
  assumes "us_token_hash s = h" "h \<notin> us_token_hash ` set ss"
  shows "List.map_filter (\<lambda>x. if us_token_hash x = h \<and> live_session t x then g x else None) (ss @ [s])
    = (if live_session t s then (case g s of None \<Rightarrow> [] | Some y \<Rightarrow> [y]) else [])"
proof -
  have "List.map_filter (\<lambda>x. if us_token_hash x = h \<and> live_session t x then g x else None) ss = []"
    using assms(2) by (intro map_filter_none) auto
  then show ?thesis using assms(1) by (simp add: List.map_filter_def split: option.split)
qed

definition session_user :: "manager_store \<Rightarrow> user_session \<Rightarrow> (user_session \<times> manager_user \<times> wallet option) option" where
  "session_user st s = (case row_find mu_id (am_users st) (us_user_id s) of
      Some u \<Rightarrow> if mu_status u = ''active'' then Some (s, with_wallet st u) else None | None \<Rightarrow> None)"

lemma resolve_result:
  assumes "ms_fault (am_models st) = None" "trim token = token" "token \<noteq> []"
  shows "fst (resolve_app_user_session sha token t st)
    = Inr (case List.map_filter (\<lambda>s. if us_token_hash s = token_hash sha token \<and> live_session t s then session_user st s else None) (am_sessions st) of
        [] \<Rightarrow> None
      | (s, uw) # _ \<Rightarrow> Some \<lparr>sv_session_id = us_id s, sv_expires_at = us_expires_at s, sv_user = public_user_with_wallet uw\<rparr>)"
  using assms
  unfolding resolve_app_user_session_def find_active_app_session_user_by_token_hash_def session_user_def [symmetric]
  by (simp split: list.split)

text \<open>
  C34: a login is good for its session. The token of a login resolves to the user that the login
  returned until the session expires, and to nobody from then on, after a logout with the token, or
  once the user is disabled.
\<close>

theorem login_session_lives:
  assumes "login_app_user sha d name pw now st = (Inr r, st1)" "ids_unique st" "trim (dr_token d) = dr_token d" "dr_token d \<noteq> []"
  shows "fst (resolve_app_user_session sha (lr_token r) t st1)
      = Inr (if t < lr_expires_at r
             then Some \<lparr>sv_session_id = dr_session d, sv_expires_at = lr_expires_at r, sv_user = lr_user r\<rparr> else None)
    \<and> fst (resolve_app_user_session sha (lr_token r) t (snd (logout_app_user_session sha (lr_token r) t0 st1))) = Inr None
    \<and> fst (resolve_app_user_session sha (lr_token r) t (snd (update_app_user_status (pu_id (lr_user r)) ''disabled'' t0 st1))) = Inr None"
proof -
  from assms(1) obtain u where u: "u \<in> set (am_users st)" "mu_status u = ''active''" and ok: "ms_fault (am_models st) = None"
    and new: "token_hash sha (dr_token d) \<notin> us_token_hash ` set (am_sessions st)"
    and st1: "st1 = (update_user (mu_id u) (\<lambda>u. logged_in u now) st)\<lparr>am_sessions := am_sessions st @ [session_of sha d u now]\<rparr>"
    and r: "r = \<lparr>lr_token = dr_token d, lr_expires_at = i64_sat (now + session_ttl),
      lr_user = public_user_with_wallet (with_wallet st (logged_in u now))\<rparr>" by (rule login_ok)
  let ?h = "token_hash sha (dr_token d)"
  let ?s = "session_of sha d u now"
  have ids: "row_find mu_id (map (\<lambda>v. if mu_id v = mu_id u then f v else v) (am_users st)) (mu_id u) = Some (f u)"
    if "\<And>v. mu_id (f v) = mu_id v" for f
    using row_find_updated [OF _ u(1), of f] assms(2) that by (simp add: ids_unique_def)
  have users: "am_users st1 = map (\<lambda>v. if mu_id v = mu_id u then logged_in v now else v) (am_users st)"
    and sess: "am_sessions st1 = am_sessions st @ [?s]" and ok1: "ms_fault (am_models st1) = None" and wallets: "wallet_of st1 = wallet_of st"
    using ok by (simp_all add: st1 update_user_def wallet_of_def fun_eq_iff)
  have found: "row_find mu_id (am_users st1) (mu_id u) = Some (logged_in u now)"
    unfolding users by (rule ids) (simp add: logged_in_def)
  have s: "us_token_hash ?s = ?h" "us_user_id ?s = mu_id u" "us_id ?s = dr_session d" "us_expires_at ?s = lr_expires_at r"
    "live_session t ?s \<longleftrightarrow> t < lr_expires_at r" "mu_status (logged_in u now) = ''active''"
    using u(2) by (simp_all add: session_of_def r live_session_def logged_in_def)
  have resolved: "fst (resolve_app_user_session sha (lr_token r) t st1)
      = Inr (if t < lr_expires_at r
             then Some \<lparr>sv_session_id = dr_session d, sv_expires_at = lr_expires_at r, sv_user = lr_user r\<rparr> else None)"
    using assms(3,4)
    by (simp add: r resolve_result [OF ok1] sess only_session [OF s(1) new] s [unfolded r] session_user_def found with_wallet_def wallets)
  have token: "lr_token r = dr_token d" by (simp add: r)
  let ?out = "snd (logout_app_user_session sha (dr_token d) t0 st1)"
  have "List.map_filter (\<lambda>s. if us_token_hash s = ?h \<and> live_session t s then session_user ?out s else None) (am_sessions ?out) = []"
    using assms(3,4) ok1
    by (intro map_filter_none) (auto simp: logout_app_user_session_def revoke_app_user_session_by_token_hash_def live_session_def)
  moreover have "ms_fault (am_models ?out) = None"
    using ok1 by (simp add: logout_app_user_session_def revoke_app_user_session_by_token_hash_def)
  ultimately have out: "fst (resolve_app_user_session sha (dr_token d) t ?out) = Inr None"
    using assms(3,4) by (simp add: resolve_result)
  let ?off = "snd (update_app_user_status (mu_id u) ''disabled'' t0 st1)"
  have "am_users ?off = map (\<lambda>v. if mu_id v = mu_id u then (logged_in v now)\<lparr>mu_status := ''disabled'', mu_updated_at := t0\<rparr> else v) (am_users st)"
    using ok1 by (auto simp: update_app_user_status_def update_user_def users logged_in_def)
  moreover have "row_find mu_id (map (\<lambda>v. if mu_id v = mu_id u then (logged_in v now)\<lparr>mu_status := ''disabled'', mu_updated_at := t0\<rparr> else v)
      (am_users st)) (mu_id u) = Some ((logged_in u now)\<lparr>mu_status := ''disabled'', mu_updated_at := t0\<rparr>)"
    using assms(2) u(1)
    by (intro row_find_updated [where f = "\<lambda>v. (logged_in v now)\<lparr>mu_status := ''disabled'', mu_updated_at := t0\<rparr>"])
      (simp_all add: ids_unique_def logged_in_def)
  ultimately have "row_find mu_id (am_users ?off) (mu_id u) = Some ((logged_in u now)\<lparr>mu_status := ''disabled'', mu_updated_at := t0\<rparr>)"
    by simp
  then have "session_user ?off ?s = None" by (simp add: session_user_def s)
  moreover have "am_sessions ?off = am_sessions st @ [?s]" "ms_fault (am_models ?off) = None"
    using ok1 sess by (simp_all add: update_app_user_status_def update_user_def)
  ultimately have off: "fst (resolve_app_user_session sha (dr_token d) t ?off) = Inr None"
    using assms(3,4) by (simp add: resolve_result only_session [OF s(1) new])
  have "pu_id (lr_user r) = mu_id u" by (simp add: r with_wallet_of public_user_def logged_in_def)
  with resolved out off show ?thesis by (simp add: token)
qed

definition demo_login :: "(str + login_result) \<times> manager_store" where
  "demo_login = login_app_user demo_sha (demo_draws ''d'') ''Root '' ''password1'' 20 (run_ops demo_sha demo_billing None demo_boot demo_start)"

theorem login_session_lives_witness:
  "fst (resolve_app_user_session demo_sha (lr_token (projr (fst demo_login))) 30
     (snd (logout_app_user_session demo_sha (lr_token (projr (fst demo_login))) 25 (snd demo_login)))) = Inr None"
proof -
  have "\<not> isl (fst demo_login)" by code_simp
  then have "login_app_user demo_sha (demo_draws ''d'') ''Root '' ''password1'' 20 (run_ops demo_sha demo_billing None demo_boot demo_start)
      = (Inr (projr (fst demo_login)), snd demo_login)"
    unfolding demo_login_def by (metis prod.collapse sum.collapse(2))
  moreover have "ids_unique (run_ops demo_sha demo_billing None demo_boot demo_start)" "trim (dr_token (demo_draws ''d'')) = dr_token (demo_draws ''d'')"
    "dr_token (demo_draws ''d'') \<noteq> []" by code_simp+
  ultimately show ?thesis using login_session_lives by blast
qed

section \<open>Passwords\<close>

lemma split_on_none: "c \<notin> set s \<Longrightarrow> split_on c s = [s]"
  by (induction s) auto

lemma split_on_first: "c \<notin> set a \<Longrightarrow> split_on c (a @ c # s) = a # split_on c s"
  by (induction a) auto

lemma verify_hash:
  assumes "CHR ''$'' \<notin> set salt" "\<And>s. CHR ''$'' \<notin> set (sha s)"
  shows "verify_password_hash sha p (hash_password sha salt q) \<longleftrightarrow> sha (salt @ '':'' @ p) = sha (salt @ '':'' @ q)"
proof -
  have "split_on (CHR ''$'') (''sha256'' @ CHR ''$'' # salt @ CHR ''$'' # sha (salt @ '':'' @ q)) = [''sha256'', salt, sha (salt @ '':'' @ q)]"
    using assms by (subst split_on_first) (auto simp: split_on_first split_on_none)
  then show ?thesis by (simp add: verify_password_hash_def hash_password_def)
qed

text \<open>The row a change of a password leaves behind.\<close>

lemma password_stored:
  assumes "update_app_user_password_hash i h now st = (Inr (), st1)" "row_find mu_id (am_users st) i = Some u"
  shows "row_find mu_id (am_users st1) i = Some (u\<lparr>mu_password_hash := h, mu_updated_at := now\<rparr>)"
proof -
  have "row_find mu_id (map (\<lambda>v. if mu_id v = i then v\<lparr>mu_password_hash := h, mu_updated_at := now\<rparr> else v) us) i
      = map_option (\<lambda>v. v\<lparr>mu_password_hash := h, mu_updated_at := now\<rparr>) (row_find mu_id us i)" for us :: "manager_user list"
    by (induction us) (auto simp: row_find_def)
  with assms show ?thesis by (simp add: update_app_user_password_hash_def am_exec_if_ok update_user_def)
qed

text \<open>
  C35: a changed password is the one that is asked for. After a user has changed the password, the
  stored hash accepts exactly the texts whose salted digest is the one of the new password, for the
  random salt of the change: the new password itself, and the old one only when the digests collide.
  A digest and a salt are hexadecimal and so without a dollar sign.
\<close>

theorem changed_password_accepted:
  assumes "change_app_user_password sha d (Some i) old new now st = (Inr (), st1)"
    and "CHR ''$'' \<notin> set (dr_salt d)" "\<And>s. CHR ''$'' \<notin> set (sha s)"
  shows "\<exists>u v. row_find mu_id (am_users st) (trim i) = Some u \<and> verify_password_hash sha old (mu_password_hash u)
    \<and> row_find mu_id (am_users st1) (trim i) = Some v \<and> 8 \<le> length new
    \<and> (verify_password_hash sha p (mu_password_hash v) \<longleftrightarrow> sha (dr_salt d @ '':'' @ p) = sha (dr_salt d @ '':'' @ new))"
proof -
  from assms(1) have i: "trimmed_nonempty (Some i) = Some (trim i)"
    by (auto simp: change_app_user_password_def trimmed_nonempty_def split: option.splits if_splits)
  from assms(1) obtain u where u: "row_find mu_id (am_users st) (trim i) = Some u" "verify_password_hash sha old (mu_password_hash u)"
    and new: "validate_password new = Inr ()"
    and st1: "update_app_user_password_hash (trim i) (hash_password sha (dr_salt d) new) now st = (Inr (), st1)"
    unfolding change_app_user_password_def i
    by (auto dest!: am_try_ok am_ask_ok simp: find_app_user_by_id_def am_query_ok split: option.splits if_splits)
  from password_stored [OF st1 u(1)] u new show ?thesis
    using verify_hash [of "dr_salt d" sha p new] assms(2,3) by (auto simp: validate_password_def split: if_splits)
qed

text \<open>
  An administrator's reset of a password trims it; creating a user, the change by the user and the
  login do not. A password with space around it is accepted without the space only.
\<close>

theorem reset_password_is_trimmed:
  assumes "set_password sha d i (Some q) now st = (Inr (), st1)" "row_find mu_id (am_users st) i = Some u" "trim q \<noteq> []"
    and "CHR ''$'' \<notin> set (dr_salt d)" "\<And>s. CHR ''$'' \<notin> set (sha s)"
  shows "\<exists>v. row_find mu_id (am_users st1) i = Some v
    \<and> (verify_password_hash sha p (mu_password_hash v) \<longleftrightarrow> sha (dr_salt d @ '':'' @ p) = sha (dr_salt d @ '':'' @ trim q))"
proof -
  from assms(1,3) have "update_app_user_password_hash i (hash_password sha (dr_salt d) (trim q)) now st = (Inr (), st1)"
    by (auto dest!: am_try_ok am_ask_ok simp: set_password_def trimmed_nonempty_def)
  from password_stored [OF this assms(2)] verify_hash [of "dr_salt d" sha p "trim q"] assms(4,5) show ?thesis by simp
qed

definition nodollar :: "str \<Rightarrow> str" where "nodollar s = filter (\<lambda>c. c \<noteq> CHR ''$'') s"

definition demo_changed :: "(str + unit) \<times> manager_store" where
  "demo_changed = change_app_user_password nodollar (demo_draws ''e'') (Some ''usr_a'') ''password1'' ''password2'' 40
     (run_ops nodollar demo_billing None demo_boot demo_start)"

theorem changed_password_accepted_witness:
  "\<exists>v. row_find mu_id (am_users (snd demo_changed)) ''usr_a'' = Some v \<and> \<not> verify_password_hash nodollar ''password1'' (mu_password_hash v)"
proof -
  have "fst demo_changed = Inr ()" by code_simp
  then have "change_app_user_password nodollar (demo_draws ''e'') (Some ''usr_a'') ''password1'' ''password2'' 40
     (run_ops nodollar demo_billing None demo_boot demo_start) = (Inr (), snd demo_changed)"
    unfolding demo_changed_def by (metis prod.collapse)
  moreover have "CHR ''$'' \<notin> set (dr_salt (demo_draws ''e''))" by code_simp
  moreover have "CHR ''$'' \<notin> set (nodollar s)" for s by (simp add: nodollar_def)
  moreover have "nodollar (dr_salt (demo_draws ''e'') @ '':'' @ ''password1'') \<noteq> nodollar (dr_salt (demo_draws ''e'') @ '':'' @ ''password2'')"
    "trim ''usr_a'' = ''usr_a''" by code_simp+
  ultimately show ?thesis using changed_password_accepted [of nodollar "demo_draws ''e''" "''usr_a''" _ _ _ _ _ "''password1''"] by metis
qed

section \<open>The keys of a deleted user\<close>

lemma delete_ok:
  assumes "delete_app_user i st = (Inr (), st1)"
  shows "st1 = without_user (trim i) st \<and> ms_fault (am_models st) = None \<and> trim i \<noteq> []"
  using assms unfolding delete_app_user_def Let_def
  by (auto dest!: am_try_ok am_ask_ok simp: delete_app_user_row_def split: option.splits if_splits)

lemma row_find_unowned:
  assumes "distinct (map ko_key_id ks)" "row_find ko_key_id ks key = Some k" "\<not> q k"
  shows "row_find ko_key_id (map (\<lambda>k. k\<lparr>ko_user_id := f k\<rparr>) (filter q ks)) key = None"
  using assms
proof (induction ks)
  case (Cons x ks)
  have "row_find ko_key_id (map (\<lambda>k. k\<lparr>ko_user_id := f k\<rparr>) (filter q ks)) key = None" if "key \<notin> ko_key_id ` set ks"
    using that by (auto simp: row_find_def find_None_iff)
  with Cons show ?case by (auto simp: row_find_def split: if_splits)
qed (simp add: row_find_def)

text \<open>
  C33: deleting a user sets its keys free. A key of a deleted user has no owner afterwards but still
  exists: with distribution of credit turned on, the check of the wallet passes it, no charge is made
  for it, and no model group restricts it.
\<close>

theorem deleted_user_frees_keys:
  assumes "delete_app_user i st = (Inr (), st1)" "distinct (map ko_key_id (ms_owners (am_models st)))"
    and "row_find ko_key_id (ms_owners (am_models st)) key = Some k" "ko_kind k = ''user''" "ko_user_id k = Some (trim i)"
    and "trimmed_nonempty (cr_key q) = Some key"
  shows "am_keys st1 = am_keys st \<and> wallet_precheck_for_api_key st1 key = Inr ()
    \<and> wallet_charge_for_request io db fresh now q st1 ps = (Inr None, st1, ps)
    \<and> resolve_api_key_model_group_access (models_of st1) now key slug = Inr None"
proof -
  have st1: "st1 = without_user (trim i) st" and ok: "ms_fault (am_models st) = None" using delete_ok [OF assms(1)] by simp_all
  have none: "row_find ko_key_id (ms_owners (am_models st1)) key = None"
    unfolding st1 without_user_def using row_find_unowned [OF assms(2,3), of "\<lambda>k. \<not> (ko_kind k = ''user'' \<and> ko_user_id k = Some (trim i))"] assms(4,5)
    by simp
  have ok1: "ms_fault (am_models st1) = None" "am_keys st1 = am_keys st" using ok by (simp_all add: st1 without_user_def)
  then have "find_key_owner st1 key = Inr None" by (simp add: find_key_owner_def none)
  moreover have "key_user (models_of st1) key = Inr None"
    using none ok1 by (simp add: key_user_def find_api_key_owner_def ms_query_def models_of_def map_err_def sum_bind_def)
  ultimately show ?thesis using assms(6) ok1(2)
    by (simp add: wallet_precheck_for_api_key_def wallet_charge_for_request_def resolve_api_key_model_group_access_def map_err_def sum_bind_def)
qed

definition demo_owned :: manager_store where
  "demo_owned = run_ops demo_sha demo_billing None (demo_boot @
     [(demo_draws ''b'', 20, CreateUser \<lparr>ui_username = ''alice'', ui_password = ''password2'', ui_display_name = None, ui_role = None,
         ui_initial_balance = None\<rparr>),
      (demo_draws ''c'', 21, SetOwner ''key1'' ''user'' (Some ''usr_b'') None)]) demo_start"

definition demo_charge :: charge_request where
  "demo_charge = \<lparr>cr_key = Some ''key1'', cr_log_id = 1, cr_estimated = Fin 1, cr_model = None, cr_tier = None, cr_usage = None\<rparr>"

theorem deleted_user_frees_keys_witness:
  "wallet_precheck_for_api_key demo_owned ''key1'' = Inl owner_wallet_empty_message
    \<and> wallet_precheck_for_api_key (snd (delete_app_user ''usr_b'' demo_owned)) ''key1'' = Inr ()"
proof -
  have "let st = demo_owned in wallet_precheck_for_api_key st ''key1'' = Inl owner_wallet_empty_message
      \<and> fst (delete_app_user ''usr_b'' st) = Inr ()
      \<and> ms_owners (am_models st)
        = [\<lparr>ko_key_id = ''key1'', ko_kind = ''user'', ko_user_id = Some ''usr_b'', ko_project_id = None, ko_updated_at = 21\<rparr>]" by code_simp
  then have before: "wallet_precheck_for_api_key demo_owned ''key1'' = Inl owner_wallet_empty_message"
    and deleted: "fst (delete_app_user ''usr_b'' demo_owned) = Inr ()"
    and owners: "ms_owners (am_models demo_owned)
        = [\<lparr>ko_key_id = ''key1'', ko_kind = ''user'', ko_user_id = Some ''usr_b'', ko_project_id = None, ko_updated_at = 21\<rparr>]"
    by (simp_all add: Let_def)
  from deleted have "delete_app_user ''usr_b'' demo_owned = (Inr (), snd (delete_app_user ''usr_b'' demo_owned))" by (metis prod.collapse)
  moreover have "distinct (map ko_key_id (ms_owners (am_models demo_owned)))" by (simp add: owners)
  moreover have "row_find ko_key_id (ms_owners (am_models demo_owned)) ''key1''
      = Some \<lparr>ko_key_id = ''key1'', ko_kind = ''user'', ko_user_id = Some ''usr_b'', ko_project_id = None, ko_updated_at = 21\<rparr>"
    by (simp add: owners row_find_def)
  moreover have "trim ''usr_b'' = ''usr_b''" "trimmed_nonempty (cr_key demo_charge) = Some ''key1''" by code_simp+
  ultimately show ?thesis using before deleted_user_frees_keys [of "''usr_b''" demo_owned _ "''key1''" _ demo_charge] by auto
qed

section \<open>Charges\<close>


end
